(* ===== verification/Prelude.thy ===== *)
theory Prelude
  imports Main "HOL-Library.State_Monad"
begin

text \<open>
  Shared vocabulary of the development: the outcome of a Go call (a value, an error or a
  panic), the state monad the effectful operations are written in together with its
  weakest-precondition calculus, 32-bit integers as wrapped \<open>int\<close>s, and decimal
  strings (\<open>fmt.Sprintf("%d")\<close>, \<open>strconv.ParseInt\<close>) with their round trip.
\<close>

section \<open>Outcomes of Go calls\<close>

text \<open>
  Errors are values. The first four constructors are the API server's status errors the
  code tells apart (\<open>apierrors.IsNotFound\<close>, \<open>IsAlreadyExists\<close>,
  \<open>retry.RetryOnConflict\<close>); \<open>ErrAlreadyExists\<close> records whether its message says the
  object is being deleted, which \<open>CreatePod\<close> looks at. \<open>ErrReconcile\<close> is
  \<open>utilerrors.ReconcileError\<close>, \<open>ErrJobFailed\<close> is \<open>nebula.ErrJobStatusFailed\<close>, \<open>ErrDns\<close> a
  \<open>net.DNSError\<close>, \<open>ErrAggregate\<close> what \<open>errorutils.NewAggregate\<close> makes of several errors. Messages
  are kept as their format string, without the arguments. A nil dereference, a failed
  type assertion or an index out of range is \<open>Panic\<close>.
\<close>

datatype go_err =
    ErrNotFound
  | ErrAlreadyExists bool
  | ErrConflict
  | ErrApi string
  | ErrDns string
  | ErrReconcile string
  | ErrJobFailed
  | ErrPlain string
  | ErrAggregate "go_err list"

datatype 'a outcome = Ok 'a | Err go_err | Panic

type_synonym ('s, 'a) go = "('s, 'a outcome) state"

fun is_Ok :: "'a outcome \<Rightarrow> bool" where
  "is_Ok (Ok _) = True"
| "is_Ok _ = False"

abbreviation ret :: "'a \<Rightarrow> ('s, 'a) go" where
  "ret x \<equiv> State_Monad.return (Ok x)"

abbreviation throw :: "go_err \<Rightarrow> ('s, 'a) go" where
  "throw e \<equiv> State_Monad.return (Err e)"

abbreviation panic :: "('s, 'a) go" where
  "panic \<equiv> State_Monad.return Panic"

text \<open>
  \<open>m \<bind> ok f\<close> is \<open>x, err := m; if err != nil { return err }; f(x)\<close>;
  \<open>m \<bind> handle h f\<close> gives the error to \<open>h\<close> first. A panic passes through both.
\<close>

definition handle :: "(go_err \<Rightarrow> ('s, 'b) go) \<Rightarrow> ('a \<Rightarrow> ('s, 'b) go) \<Rightarrow> 'a outcome \<Rightarrow> ('s, 'b) go" where
  "handle h f r = (case r of Ok x \<Rightarrow> f x | Err e \<Rightarrow> h e | Panic \<Rightarrow> panic)"

definition ok :: "('a \<Rightarrow> ('s, 'b) go) \<Rightarrow> 'a outcome \<Rightarrow> ('s, 'b) go" where
  "ok f = handle throw f"

definition lift :: "'a outcome \<Rightarrow> ('s, 'a) go" where
  "lift r = State_Monad.return r"

definition gets :: "('s \<Rightarrow> 'a) \<Rightarrow> ('s, 'a) go" where
  "gets f = State (\<lambda>s. (Ok (f s), s))"

definition modify :: "('s \<Rightarrow> 's) \<Rightarrow> ('s, unit) go" where
  "modify f = State (\<lambda>s. (Ok (), f s))"

text \<open>A \<open>range\<close> loop whose body may return early with an error, and one with an accumulator.\<close>

fun for_each :: "('x \<Rightarrow> ('s, unit) go) \<Rightarrow> 'x list \<Rightarrow> ('s, unit) go" where
  "for_each f [] = ret ()"
| "for_each f (x # xs) = f x \<bind> ok (\<lambda>_. for_each f xs)"

fun fold_go :: "('x \<Rightarrow> 'a \<Rightarrow> ('s, 'a) go) \<Rightarrow> 'x list \<Rightarrow> 'a \<Rightarrow> ('s, 'a) go" where
  "fold_go f [] a = ret a"
| "fold_go f (x # xs) a = f x a \<bind> ok (fold_go f xs)"

section \<open>Weakest preconditions\<close>

text \<open>
  \<open>wp m Q s\<close>: running \<open>m\<close> from \<open>s\<close> ends in a result and a state that satisfy \<open>Q\<close>. All
  operations are total, so this is total correctness. The equations below are the
  simplifier's way through a handler; \<open>wp\<close> collects them.
\<close>

named_theorems wp_simps

definition wp :: "('s, 'a) state \<Rightarrow> ('a \<Rightarrow> 's \<Rightarrow> bool) \<Rightarrow> 's \<Rightarrow> bool" where
  "wp m Q s = (case run_state m s of (a, s') \<Rightarrow> Q a s')"

lemma wp_return [wp_simps]: "wp (State_Monad.return x) Q s = Q x s"
  by (simp add: wp_def)

lemma wp_bind [wp_simps]: "wp (m \<bind> f) Q s = wp m (\<lambda>a. wp (f a) Q) s"
  by (simp add: wp_def split: prod.splits)

lemma wp_handle [wp_simps]:
  "wp (handle h f r) Q s =
     (case r of Ok x \<Rightarrow> wp (f x) Q s | Err e \<Rightarrow> wp (h e) Q s | Panic \<Rightarrow> Q Panic s)"
  by (simp add: handle_def wp_return split: outcome.splits)

lemma wp_ok [wp_simps]:
  "wp (ok f r) Q s =
     (case r of Ok x \<Rightarrow> wp (f x) Q s | Err e \<Rightarrow> Q (Err e) s | Panic \<Rightarrow> Q Panic s)"
  by (simp add: ok_def wp_handle wp_return split: outcome.splits)

lemma wp_lift [wp_simps]: "wp (lift r) Q s = Q r s"
  by (simp add: lift_def wp_return)

lemma wp_gets [wp_simps]: "wp (gets f) Q s = Q (Ok (f s)) s"
  by (simp add: gets_def wp_def)

lemma wp_modify [wp_simps]: "wp (modify f) Q s = Q (Ok ()) (f s)"
  by (simp add: modify_def wp_def)

lemma wp_if [wp_simps]: "wp (if b then m else n) Q s = (if b then wp m Q s else wp n Q s)"
  by simp

lemma wp_for_each_Nil [wp_simps]: "wp (for_each f []) Q s = Q (Ok ()) s"
  by (simp add: wp_return)

lemma wp_for_each_Cons [wp_simps]:
  "wp (for_each f (x # xs)) Q s = wp (f x \<bind> ok (\<lambda>_. for_each f xs)) Q s"
  by simp

lemma wp_mono: "wp m P s \<Longrightarrow> (\<And>a s'. P a s' \<Longrightarrow> Q a s') \<Longrightarrow> wp m Q s"
  by (auto simp: wp_def split: prod.splits)

lemma wp_run: "wp m Q s \<Longrightarrow> run_state m s = (a, s') \<Longrightarrow> Q a s'"
  by (simp add: wp_def)

lemma wp_conj: "wp m P s \<Longrightarrow> wp m Q s \<Longrightarrow> wp m (\<lambda>a s'. P a s' \<and> Q a s') s"
  by (simp add: wp_def split: prod.splits)

lemma wp_runI: "(\<And>a s'. run_state m s = (a, s') \<Longrightarrow> Q a s') \<Longrightarrow> wp m Q s"
  by (simp add: wp_def split: prod.splits)

text \<open>
  The loop rule: an invariant indexed by the elements still to visit; an error ends the
  loop with the error's postcondition.
\<close>

lemma wp_for_each:
  assumes body: "\<And>x ys s. (\<exists>zs. xs = zs @ x # ys) \<Longrightarrow> I (x # ys) s \<Longrightarrow>
      wp (f x) (\<lambda>r s'. case r of Ok _ \<Rightarrow> I ys s' | _ \<Rightarrow> Q r s') s"
    and fin: "\<And>s. I [] s \<Longrightarrow> Q (Ok ()) s"
    and init: "I xs s"
  shows "wp (for_each f xs) Q s"
proof -
  have "\<exists>zs. xs = zs @ ys \<Longrightarrow> I ys t \<Longrightarrow> wp (for_each f ys) Q t" for ys t
  proof (induction ys arbitrary: t)
    case Nil
    then show ?case by (simp add: wp_return fin)
  next
    case (Cons y ys)
    have "wp (f y) (\<lambda>r s'. case r of Ok _ \<Rightarrow> I ys s' | _ \<Rightarrow> Q r s') t"
      using Cons.prems by (intro body) auto
    moreover have "\<exists>zs. xs = zs @ ys"
      using Cons.prems(1) by (metis append.assoc append_Cons append_Nil)
    ultimately show ?case
      using Cons.IH by (auto simp: wp_simps split: outcome.splits elim!: wp_mono)
  qed
  then show ?thesis using init by blast
qed

lemma for_each_append:
  "for_each f (xs @ ys) = for_each f xs \<bind> ok (\<lambda>_. for_each f ys)"
  by (induction xs)
     (auto intro!: state_ext simp: ok_def handle_def lift_def split: outcome.splits prod.splits)

section \<open>Wrapped 32-bit integers\<close>

text \<open>Go's \<open>int32\<close> arithmetic: the mathematical result, reduced to two's complement.\<close>

definition i32 :: "int \<Rightarrow> int" where
  "i32 x = (x + 2147483648) mod 4294967296 - 2147483648"

definition in_i32 :: "int \<Rightarrow> bool" where
  "in_i32 x \<longleftrightarrow> -2147483648 \<le> x \<and> x \<le> 2147483647"

abbreviation max_i32 :: int where "max_i32 \<equiv> 2147483647"
abbreviation min_i32 :: int where "min_i32 \<equiv> -2147483648"

lemma i32_id [simp]: "in_i32 x \<Longrightarrow> i32 x = x"
  by (simp add: i32_def in_i32_def)

lemma in_i32_i32 [simp]: "in_i32 (i32 x)"
proof -
  have "0 \<le> (x + 2147483648) mod 4294967296" "(x + 2147483648) mod 4294967296 < 4294967296"
    by simp_all
  then show ?thesis by (simp add: i32_def in_i32_def)
qed

lemma i32_cong: "i32 x mod 4294967296 = x mod 4294967296"
proof -
  have "i32 x mod 4294967296 = ((x + 2147483648) mod 4294967296 - 2147483648) mod 4294967296"
    by (simp add: i32_def)
  also have "\<dots> = (x + 2147483648 - 2147483648) mod 4294967296"
    by (rule mod_diff_left_eq)
  finally show ?thesis by simp
qed

lemma i32_eqI: "x mod 4294967296 = y mod 4294967296 \<Longrightarrow> i32 x = i32 y"
  using mod_add_cong [of x 4294967296 y 2147483648 2147483648] by (simp add: i32_def)

lemma i32_0 [simp]: "i32 0 = 0"
  by (simp add: i32_def)

text \<open>Wrapping once at the end is enough.\<close>

lemma i32_arith:
  "i32 (i32 a + b) = i32 (a + b)" "i32 (a + i32 b) = i32 (a + b)"
  "i32 (i32 a - b) = i32 (a - b)" "i32 (a - i32 b) = i32 (a - b)"
  by (rule i32_eqI; rule mod_add_cong mod_diff_cong; simp add: i32_cong)+

lemma i32_sum_list: "i32 (sum_list (map (\<lambda>x. i32 (f x)) xs)) = i32 (sum_list (map f xs))"
proof (induction xs)
  case (Cons x xs)
  then show ?case by (simp add: i32_arith) (metis i32_arith(2))
qed simp

text \<open>Go's \<open>%\<close> truncates towards zero.\<close>

definition go_rem :: "int \<Rightarrow> int \<Rightarrow> int" where
  "go_rem a b = a - b * (sgn a * sgn b * (\<bar>a\<bar> div \<bar>b\<bar>))"

definition go_quot :: "int \<Rightarrow> int \<Rightarrow> int" where
  "go_quot a b = sgn a * sgn b * (\<bar>a\<bar> div \<bar>b\<bar>)"

lemma go_rem_nonneg: "0 \<le> a \<Longrightarrow> 0 < b \<Longrightarrow> go_rem a b = a mod b"
  by (cases "a = 0") (simp_all add: go_rem_def minus_mult_div_eq_mod)

lemma go_quot_nonneg: "0 \<le> a \<Longrightarrow> 0 < b \<Longrightarrow> go_quot a b = a div b"
  by (cases "a = 0") (simp_all add: go_quot_def)

section \<open>Decimal strings\<close>

definition digit_char :: "nat \<Rightarrow> char" where
  "digit_char d = char_of (48 + d)"

definition is_digit :: "char \<Rightarrow> bool" where
  "is_digit c \<longleftrightarrow> 48 \<le> (of_char c :: nat) \<and> (of_char c :: nat) \<le> 57"

definition digit_val :: "char \<Rightarrow> nat" where
  "digit_val c = of_char c - 48"

fun show_nat :: "nat \<Rightarrow> string" where
  "show_nat n = (if n < 10 then [digit_char n] else show_nat (n div 10) @ [digit_char (n mod 10)])"

declare show_nat.simps [simp del]

definition show_int :: "int \<Rightarrow> string" where
  "show_int i = (if i < 0 then CHR ''-'' # show_nat (nat (- i)) else show_nat (nat i))"

definition digits_val :: "string \<Rightarrow> nat" where
  "digits_val s = foldl (\<lambda>n c. n * 10 + digit_val c) 0 s"

definition all_digits :: "string \<Rightarrow> bool" where
  "all_digits s \<longleftrightarrow> s \<noteq> [] \<and> list_all is_digit s"

text \<open>
  \<open>strconv.ParseInt(s, 10, w)\<close> for \<open>w = 32\<close> or \<open>64\<close>: an optional sign, decimal digits,
  and a value in range (\<open>strconv.Atoi\<close> is \<open>w = 64\<close>).
\<close>

definition parse_int :: "nat \<Rightarrow> string \<Rightarrow> int option" where
  "parse_int w s =
     (let neg = (s \<noteq> [] \<and> hd s = CHR ''-'');
          body = (if s \<noteq> [] \<and> (hd s = CHR ''-'' \<or> hd s = CHR ''+'') then tl s else s);
          v = (if neg then - int (digits_val body) else int (digits_val body))
      in if all_digits body \<and> - (2 ^ (w - 1)) \<le> v \<and> v < 2 ^ (w - 1) then Some v else None)"

lemma digit_char_val [simp]: "d < 10 \<Longrightarrow> digit_val (digit_char d) = d"
  by (simp add: digit_val_def digit_char_def of_char_of)

lemma is_digit_digit_char [simp]: "d < 10 \<Longrightarrow> is_digit (digit_char d)"
  by (simp add: is_digit_def digit_char_def of_char_of)

lemma show_nat_digits: "list_all is_digit (show_nat n)"
proof (induction n rule: show_nat.induct)
  case (1 n)
  then show ?case by (subst show_nat.simps) auto
qed

lemma show_nat_not_Nil [simp]: "show_nat n \<noteq> []"
  by (subst show_nat.simps) simp

lemma digits_val_snoc: "digits_val (s @ [c]) = digits_val s * 10 + digit_val c"
  by (simp add: digits_val_def)

lemma digits_val_show_nat [simp]: "digits_val (show_nat n) = n"
proof (induction n rule: show_nat.induct)
  case (1 n)
  show ?case
  proof (cases "n < 10")
    case True
    then show ?thesis by (subst show_nat.simps) (simp add: digits_val_def)
  next
    case False
    then show ?thesis
      by (subst show_nat.simps) (simp add: digits_val_snoc "1.IH")
  qed
qed

lemma show_nat_inj: "show_nat m = show_nat n \<longleftrightarrow> m = n"
  by (metis digits_val_show_nat)

lemma all_digits_show_nat [simp]: "all_digits (show_nat n)"
  by (simp add: all_digits_def show_nat_digits)

lemma hd_show_nat_digit: "is_digit (hd (show_nat n))"
  using show_nat_digits [of n] by (cases "show_nat n") auto

lemma hd_show_nat_no_sign: "hd (show_nat n) \<noteq> CHR ''-''" "hd (show_nat n) \<noteq> CHR ''+''"
  using hd_show_nat_digit [of n] by (auto simp: is_digit_def)

lemma parse_show_nat: "int n < 2 ^ (w - 1) \<Longrightarrow> parse_int w (show_nat n) = Some (int n)"
  by (simp add: parse_int_def hd_show_nat_no_sign) (smt (verit) zero_le_power of_nat_0_le_iff)

lemma parse_show_int:
  "- (2 ^ (w - 1)) \<le> i \<Longrightarrow> i < 2 ^ (w - 1) \<Longrightarrow> parse_int w (show_int i) = Some i"
  by (auto simp: parse_int_def show_int_def hd_show_nat_no_sign)

lemma minus_not_in_show_nat: "CHR ''-'' \<notin> set (show_nat n)"
  using show_nat_digits [of n] by (force simp: list_all_iff is_digit_def)

lemma dot_not_in_show_nat: "CHR ''.'' \<notin> set (show_nat n)"
  using show_nat_digits [of n] by (force simp: list_all_iff is_digit_def)

lemma show_int_nonneg: "0 \<le> i \<Longrightarrow> show_int i = show_nat (nat i)"
  by (simp add: show_int_def)

lemma show_int_inj: "0 \<le> i \<Longrightarrow> 0 \<le> j \<Longrightarrow> show_int i = show_int j \<longleftrightarrow> i = j"
  by (simp add: show_int_def show_nat_inj eq_nat_nat_iff)

section \<open>Splitting names\<close>

text \<open>\<open>split_last c s\<close>: what precedes and what follows the last \<open>c\<close> of \<open>s\<close>.\<close>

definition split_last :: "char \<Rightarrow> string \<Rightarrow> (string \<times> string) option" where
  "split_last c s =
     (if c \<in> set s
      then Some (rev (tl (dropWhile (\<lambda>x. x \<noteq> c) (rev s))), rev (takeWhile (\<lambda>x. x \<noteq> c) (rev s)))
      else None)"

lemma split_last_append:
  assumes "c \<notin> set t"
  shows "split_last c (s @ c # t) = Some (s, t)"
proof -
  have t: "takeWhile (\<lambda>x. x \<noteq> c) (rev t @ c # rev s) = rev t"
    using assms by (subst takeWhile_append2) auto
  have d: "dropWhile (\<lambda>x. x \<noteq> c) (rev t @ c # rev s) = c # rev s"
    using assms by (subst dropWhile_append2) auto
  show ?thesis by (simp add: split_last_def t d)
qed

lemma split_last_join: "split_last c s = Some (a, b) \<Longrightarrow> s = a @ c # b \<and> c \<notin> set b"
proof -
  assume h: "split_last c s = Some (a, b)"
  then have c: "c \<in> set s" by (auto simp: split_last_def split: if_splits)
  then obtain u v where "s = u @ c # v" "c \<notin> set v"
    by (metis split_list_last)
  with h split_last_append show ?thesis by fastforce
qed

text \<open>\<open>strings.Contains\<close>.\<close>

fun str_contains :: "string \<Rightarrow> string \<Rightarrow> bool" where
  "str_contains [] sub = (sub = [])"
| "str_contains (c # cs) sub = (take (length sub) (c # cs) = sub \<or> str_contains cs sub)"

lemma str_contains_append: "str_contains (a @ sub @ b) sub"
proof (induction a)
  case Nil
  show ?case
  proof (cases "sub @ b")
    case (Cons c cs)
    then have "take (length sub) (c # cs) = sub" by (metis append_eq_conv_conj)
    with Cons show ?thesis by simp
  qed simp
next
  case (Cons c a)
  then show ?case by simp
qed

end
