(* ===== verification/GoFloat.thy ===== *)
theory GoFloat
  imports Prelude Complex_Main
begin

text \<open>
  The part of Go's \<open>float64\<close> the autoscaler uses, as exact rationals with IEEE 754 rounding
  to nearest, ties to even, on a 53-bit significand. Every value the autoscaler forms lies
  between \<open>2^-60\<close> and \<open>2^60\<close> in magnitude (or is zero), so overflow to infinity and
  subnormal numbers do not arise and the exponent is left unbounded. The conversion
  \<open>int32(x)\<close> of a value outside the range of \<open>int32\<close> is implementation-defined in Go; it
  is the parameter \<open>cvt\<close>.
\<close>

section \<open>Rounding\<close>

definition round_even :: "rat \<Rightarrow> int" where
  "round_even y =
     (let f = \<lfloor>y\<rfloor>; r = y - of_int f
      in if r < 1/2 then f else if r > 1/2 then f + 1 else if even f then f else f + 1)"

definition pow2 :: "int \<Rightarrow> rat" where
  "pow2 e = (if 0 \<le> e then of_int (2 ^ nat e) else 1 / of_int (2 ^ nat (- e)))"

text \<open>
  The exponent of the unit in the last place of a value in \<open>[2^(k+52), 2^(k+53))\<close> is \<open>k\<close>.
  The search starts at 1, the exponent of values in \<open>[2^53, 2^54)\<close>, and walks down or up;
  \<open>fuel\<close> bounds the walk by 128 steps, which covers the whole range stated above.
\<close>

fun ulp_exp :: "nat \<Rightarrow> int \<Rightarrow> rat \<Rightarrow> int" where
  "ulp_exp 0 e x = e"
| "ulp_exp (Suc n) e x =
     (if x < pow2 (e + 52) then ulp_exp n (e - 1) x
      else if pow2 (e + 53) \<le> x then ulp_exp n (e + 1) x
      else e)"

definition fl :: "rat \<Rightarrow> rat" where
  "fl x = (if x = 0 then 0
           else let e = ulp_exp 128 1 \<bar>x\<bar> in of_int (round_even (x / pow2 e)) * pow2 e)"

definition f64_add :: "rat \<Rightarrow> rat \<Rightarrow> rat" where "f64_add a b = fl (a + b)"
definition f64_sub :: "rat \<Rightarrow> rat \<Rightarrow> rat" where "f64_sub a b = fl (a - b)"
definition f64_mul :: "rat \<Rightarrow> rat \<Rightarrow> rat" where "f64_mul a b = fl (a * b)"
definition f64_div :: "rat \<Rightarrow> rat \<Rightarrow> rat" where "f64_div a b = fl (a / b)"

text \<open>\<open>int32(x)\<close>: truncation towards zero when the result fits.\<close>

definition trunc :: "rat \<Rightarrow> int" where
  "trunc x = (if 0 \<le> x then \<lfloor>x\<rfloor> else \<lceil>x\<rceil>)"

definition f64_to_i32 :: "(rat \<Rightarrow> int) \<Rightarrow> rat \<Rightarrow> int" where
  "f64_to_i32 cvt x = (if in_i32 (trunc x) then trunc x else cvt x)"

section \<open>Rounding error\<close>

lemma pow2_pos [simp]: "0 < pow2 e"
  by (simp add: pow2_def)

lemma pow2_not_0 [simp]: "pow2 e \<noteq> 0"
  using pow2_pos [of e] by linarith

lemma pow2_Suc: "pow2 (e + 1) = 2 * pow2 e"
proof (cases "0 \<le> e")
  case True
  then show ?thesis by (simp add: pow2_def nat_add_distrib)
next
  case False
  then have n: "nat (- e) = Suc (nat (- e - 1))" by simp
  show ?thesis
  proof (cases "e = -1")
    case True
    then show ?thesis by (simp add: pow2_def)
  next
    case neq: False
    have "nat (- (e + 1)) = nat (- e - 1)" by simp
    with False neq n show ?thesis by (simp add: pow2_def)
  qed
qed

lemma pow2_add_nat: "pow2 (e + int n) = 2 ^ n * pow2 e"
proof (induction n)
  case (Suc n)
  have "pow2 (e + int (Suc n)) = pow2 ((e + int n) + 1)" by (simp add: ac_simps)
  also have "\<dots> = 2 * (2 ^ n * pow2 e)" by (simp only: pow2_Suc Suc.IH)
  finally show ?case by simp
qed simp

lemma pow2_mono: "e \<le> e' \<Longrightarrow> pow2 e \<le> pow2 e'"
proof -
  assume "e \<le> e'"
  then obtain n where n: "e' = e + int n" by (metis zle_iff_zadd)
  have "(1::rat) * pow2 e \<le> 2 ^ n * pow2 e" by (intro mult_right_mono) (simp_all add: less_imp_le)
  then show ?thesis by (simp add: n pow2_add_nat)
qed

lemma round_even_error: "\<bar>of_int (round_even y) - y\<bar> \<le> 1 / 2"
proof -
  define f where "f = \<lfloor>y\<rfloor>"
  have "of_int f \<le> y" "y < of_int f + 1" using floor_correct [of y] by (simp_all add: f_def)
  then show ?thesis by (auto simp: round_even_def Let_def abs_if f_def [symmetric])
qed

lemma round_even_of_int [simp]: "round_even (of_int n) = n"
  by (simp add: round_even_def)

text \<open>Enough fuel finds the exponent: the walk goes straight to it.\<close>

lemma ulp_exp_down:
  "pow2 (k + 52) \<le> x \<Longrightarrow> x < pow2 (k + 53) \<Longrightarrow> int n > e - k \<Longrightarrow> k \<le> e \<Longrightarrow> ulp_exp n e x = k"
proof (induction n arbitrary: e)
  case (Suc n)
  show ?case
  proof (cases "e = k")
    case True
    with Suc.prems show ?thesis by simp
  next
    case False
    with Suc.prems have "k \<le> e - 1" by simp
    then have "pow2 (k + 53) \<le> pow2 (e + 52)" by (intro pow2_mono) simp
    with Suc.prems have "x < pow2 (e + 52)" by simp
    with Suc \<open>k \<le> e - 1\<close> show ?thesis by simp
  qed
qed simp

lemma ulp_exp_up:
  "pow2 (k + 52) \<le> x \<Longrightarrow> x < pow2 (k + 53) \<Longrightarrow> int n > k - e \<Longrightarrow> e \<le> k \<Longrightarrow> ulp_exp n e x = k"
proof (induction n arbitrary: e)
  case (Suc n)
  show ?case
  proof (cases "e = k")
    case True
    with Suc.prems show ?thesis by simp
  next
    case False
    with Suc.prems have "e + 1 \<le> k" by simp
    then have "pow2 (e + 53) \<le> pow2 (k + 52)" by (intro pow2_mono) simp
    with Suc.prems have "pow2 (e + 53) \<le> x" "\<not> x < pow2 (e + 52)"
      using pow2_mono [of "e + 52" "e + 53"] by simp_all
    with Suc \<open>e + 1 \<le> k\<close> show ?thesis by simp
  qed
qed simp

lemma exponent_exists:
  assumes "pow2 (a + 52) \<le> x" "x < pow2 (a + 53 + int n)"
  shows "\<exists>k. a \<le> k \<and> k \<le> a + int n \<and> pow2 (k + 52) \<le> x \<and> x < pow2 (k + 53)"
  using assms
proof (induction n)
  case 0
  then show ?case by (intro exI [of _ a]) simp
next
  case (Suc n)
  show ?case
  proof (cases "x < pow2 (a + 53 + int n)")
    case True
    with Suc show ?thesis by force
  next
    case False
    with Suc.prems show ?thesis
      by (intro exI [of _ "a + int (Suc n)"]) (simp add: algebra_simps)
  qed
qed

definition f64_range :: "rat \<Rightarrow> bool" where
  "f64_range x \<longleftrightarrow> x = 0 \<or> pow2 (-60) \<le> \<bar>x\<bar> \<and> \<bar>x\<bar> < pow2 60"

lemma ulp_exp_correct:
  assumes "pow2 (-60) \<le> x" "x < pow2 60"
  shows "pow2 (ulp_exp 128 1 x + 52) \<le> x \<and> x < pow2 (ulp_exp 128 1 x + 53)"
proof -
  obtain k where k: "-112 \<le> k" "k \<le> 7" "pow2 (k + 52) \<le> x" "x < pow2 (k + 53)"
    using exponent_exists [of "-112" x 119] assms by auto
  have "ulp_exp 128 1 x = k"
  proof (cases "k \<le> 1")
    case True
    with k show ?thesis by (intro ulp_exp_down) simp_all
  next
    case False
    with k show ?thesis by (intro ulp_exp_up) simp_all
  qed
  with k show ?thesis by simp
qed

theorem fl_relative_error:
  assumes "f64_range x"
  shows "\<bar>fl x - x\<bar> \<le> \<bar>x\<bar> / 2 ^ 53"
proof (cases "x = 0")
  case False
  define e where "e = ulp_exp 128 1 \<bar>x\<bar>"
  have e: "pow2 (e + 52) \<le> \<bar>x\<bar>"
    using ulp_exp_correct [of "\<bar>x\<bar>"] assms False by (simp add: e_def f64_range_def)
  have p: "pow2 (e + 52) = 2 ^ 52 * pow2 e"
    using pow2_add_nat [of e 52] by simp
  have "fl x - x = (of_int (round_even (x / pow2 e)) - x / pow2 e) * pow2 e"
    using False by (simp add: fl_def e_def Let_def left_diff_distrib)
  then have "\<bar>fl x - x\<bar> = \<bar>of_int (round_even (x / pow2 e)) - x / pow2 e\<bar> * pow2 e"
    by (simp add: abs_mult less_imp_le abs_of_pos)
  also have "\<dots> \<le> 1 / 2 * pow2 e"
    by (intro mult_right_mono round_even_error) (simp add: less_imp_le)
  also have "\<dots> \<le> \<bar>x\<bar> / 2 ^ 53" using e p by simp
  finally show ?thesis .
qed (simp add: fl_def)

text \<open>Integers of at most 53 bits are represented exactly.\<close>

lemma fl_of_int:
  assumes "\<bar>n\<bar> < 2 ^ 53"
  shows "fl (of_int n) = of_int n"
proof (cases "n = 0")
  case False
  define e where "e = ulp_exp 128 1 \<bar>of_int n :: rat\<bar>"
  have n1: "(1::rat) \<le> \<bar>of_int n\<bar>" and n2: "\<bar>of_int n :: rat\<bar> < 2 ^ 53"
  proof -
    have "1 \<le> \<bar>n\<bar>" using False by linarith
    then show "(1::rat) \<le> \<bar>of_int n\<bar>" by linarith
    have "of_int \<bar>n\<bar> < (of_int (2 ^ 53) :: rat)" using assms by (simp only: of_int_less_iff)
    then show "\<bar>of_int n :: rat\<bar> < 2 ^ 53" by simp
  qed
  have "pow2 (-60) \<le> \<bar>of_int n :: rat\<bar>" "\<bar>of_int n :: rat\<bar> < pow2 60"
    using n1 n2 by (simp_all add: pow2_def)
  then have lo: "pow2 (e + 52) \<le> \<bar>of_int n\<bar>"
    using ulp_exp_correct [of "\<bar>of_int n\<bar>"] by (simp add: e_def)
  have "e \<le> 0"
  proof (rule ccontr)
    assume "\<not> e \<le> 0"
    then have "pow2 53 \<le> pow2 (e + 52)" by (intro pow2_mono) simp
    with lo n2 show False by (simp add: pow2_def)
  qed
  then have "(of_int n :: rat) / pow2 e = of_int (n * 2 ^ nat (- e))"
    by (cases "e = 0") (simp_all add: pow2_def)
  then have "round_even ((of_int n :: rat) / pow2 e) = n * 2 ^ nat (- e)"
    by (simp only: round_even_of_int)
  then have "fl (of_int n) = of_int (n * 2 ^ nat (- e)) * pow2 e"
    using False by (simp add: fl_def e_def Let_def)
  also have "\<dots> = of_int n" using \<open>e \<le> 0\<close> by (cases "e = 0") (simp_all add: pow2_def)
  finally show ?thesis .
qed (simp add: fl_def)

end
