(* ===== verification/AutoscalerCore.thy ===== *)
theory AutoscalerCore
  imports GoFloat
begin

text \<open>
  The replica arithmetic of the autoscaler (\<open>pkg/controller/autoscaler/autoscaler.go\<close>):
  recommendation stabilisation, scale-event bookkeeping, rate limits and the two
  normalisation paths, together with the defaulting of scaling rules
  (\<open>apis/autoscaling/v1alpha1/defaults.go\<close>). Replica counts are \<open>int32\<close> values with
  their wrap-around; times are nanoseconds; a reading of the clock is an argument, and the readings
  within one computation of a limit are one argument.
\<close>

section \<open>Data\<close>

record recommendation =
  rec_replicas :: int
  rec_time :: int

record scale_event =
  ev_change :: int
  ev_time :: int
  ev_outdated :: bool

datatype policy_type = PodsPolicy | PercentPolicy | OtherPolicy

datatype select_policy = SelMax | SelMin | SelDisabled

record policy =
  pol_type :: policy_type
  pol_value :: int
  pol_period :: int

record scaling_rules =
  rl_window :: "int option"
  rl_select :: "select_policy option"
  rl_policies :: "policy list option"

record hpa_behavior =
  bh_up :: "scaling_rules option"
  bh_down :: "scaling_rules option"

text \<open>
  The controller's mutable maps. A missing key reads as the nil slice; slices that are
  stored are never nil.
\<close>

record hpa_ctl =
  hc_window :: int
  hc_recs :: "string \<rightharpoonup> recommendation list"
  hc_up :: "string \<rightharpoonup> scale_event list"
  hc_down :: "string \<rightharpoonup> scale_event list"

definition entries :: "(string \<rightharpoonup> 'a list) \<Rightarrow> string \<Rightarrow> 'a list" where
  "entries m k = (case m k of None \<Rightarrow> [] | Some xs \<Rightarrow> xs)"

abbreviation second :: int where "second \<equiv> 1000000000"

lemma entries_upd [simp]: "entries (m(k \<mapsto> xs)) k = xs"
  by (simp add: entries_def)

lemma entries_upd_other [simp]: "k \<noteq> l \<Longrightarrow> entries (m(k \<mapsto> xs)) l = entries m l"
  by (simp add: entries_def)

section \<open>Defaults of scaling rules\<close>

definition defaultHPAScaleUpRules :: scaling_rules where
  "defaultHPAScaleUpRules =
     \<lparr>rl_window = Some 0, rl_select = Some SelMax,
      rl_policies = Some [\<lparr>pol_type = PodsPolicy, pol_value = 4, pol_period = 15\<rparr>,
                          \<lparr>pol_type = PercentPolicy, pol_value = 100, pol_period = 15\<rparr>]\<rparr>"

definition defaultHPAScaleDownRules :: scaling_rules where
  "defaultHPAScaleDownRules =
     \<lparr>rl_window = Some 300, rl_select = Some SelMax,
      rl_policies = Some [\<lparr>pol_type = PercentPolicy, pol_value = 100, pol_period = 15\<rparr>]\<rparr>"

definition copyHPAScalingRules :: "scaling_rules option \<Rightarrow> scaling_rules \<Rightarrow> scaling_rules" where
  "copyHPAScalingRules from to =
     (case from of
        None \<Rightarrow> to
      | Some f \<Rightarrow>
          \<lparr>rl_window = (if rl_window f \<noteq> None then rl_window f else rl_window to),
           rl_select = (if rl_select f \<noteq> None then rl_select f else rl_select to),
           rl_policies = (if rl_policies f \<noteq> None then rl_policies f else rl_policies to)\<rparr>)"

definition GenerateHPAScaleUpRules :: "scaling_rules option \<Rightarrow> scaling_rules" where
  "GenerateHPAScaleUpRules rules = copyHPAScalingRules rules defaultHPAScaleUpRules"

definition GenerateHPAScaleDownRules :: "scaling_rules option \<Rightarrow> scaling_rules" where
  "GenerateHPAScaleDownRules rules = copyHPAScalingRules rules defaultHPAScaleDownRules"

definition SetDefaults_behavior :: "hpa_behavior option \<Rightarrow> hpa_behavior option" where
  "SetDefaults_behavior b =
     map_option (\<lambda>b. \<lparr>bh_up = Some (GenerateHPAScaleUpRules (bh_up b)),
                      bh_down = Some (GenerateHPAScaleDownRules (bh_down b))\<rparr>) b"

definition rules_complete :: "scaling_rules option \<Rightarrow> bool" where
  "rules_complete r \<longleftrightarrow>
     (case r of None \<Rightarrow> False
      | Some r \<Rightarrow> rl_window r \<noteq> None \<and> rl_select r \<noteq> None \<and> rl_policies r \<noteq> None)"

lemma copyHPAScalingRules_complete:
  "rules_complete (Some d) \<Longrightarrow> rules_complete (Some (copyHPAScalingRules r d))"
  by (cases r) (auto simp: rules_complete_def copyHPAScalingRules_def)

lemma SetDefaults_behavior_complete:
  "SetDefaults_behavior b = Some b' \<Longrightarrow> rules_complete (bh_up b') \<and> rules_complete (bh_down b')"
  by (auto simp: SetDefaults_behavior_def GenerateHPAScaleUpRules_def GenerateHPAScaleDownRules_def
      intro!: copyHPAScalingRules_complete)
     (auto simp: rules_complete_def defaultHPAScaleUpRules_def defaultHPAScaleDownRules_def)

section \<open>Recommendations\<close>

definition recordInitialRecommendation :: "int \<Rightarrow> int \<Rightarrow> string \<Rightarrow> hpa_ctl \<Rightarrow> hpa_ctl" where
  "recordInitialRecommendation now currentReplicas key c =
     (case hc_recs c key of
        None \<Rightarrow> c\<lparr>hc_recs := (hc_recs c)(key \<mapsto> [\<lparr>rec_replicas = currentReplicas, rec_time = now\<rparr>])\<rparr>
      | Some _ \<Rightarrow> c)"

text \<open>The loop keeps the running maximum and the index of the last outdated sample.\<close>

fun scan_recs :: "int \<Rightarrow> nat \<Rightarrow> recommendation list \<Rightarrow> int \<Rightarrow> nat option \<Rightarrow> int \<times> nat option" where
  "scan_recs cutoff i [] mx old = (mx, old)"
| "scan_recs cutoff i (r # rs) mx old =
     (if rec_time r < cutoff then scan_recs cutoff (Suc i) rs mx (Some i)
      else if rec_replicas r > mx then scan_recs cutoff (Suc i) rs (rec_replicas r) old
      else scan_recs cutoff (Suc i) rs mx old)"

definition put_sample :: "nat option \<Rightarrow> 'a \<Rightarrow> 'a list \<Rightarrow> 'a list" where
  "put_sample old x xs = (case old of Some i \<Rightarrow> xs[i := x] | None \<Rightarrow> xs @ [x])"

definition stabilizeRecommendation ::
    "int \<Rightarrow> int \<Rightarrow> string \<Rightarrow> int \<Rightarrow> hpa_ctl \<Rightarrow> int \<times> hpa_ctl" where
  "stabilizeRecommendation now1 now2 key prenormalized c =
     (let cutoff = now1 - hc_window c;
          recs = entries (hc_recs c) key;
          (mx, old) = scan_recs cutoff 0 recs prenormalized None;
          new = \<lparr>rec_replicas = prenormalized, rec_time = now2\<rparr>
      in (mx, c\<lparr>hc_recs := (hc_recs c)(key \<mapsto> put_sample old new recs)\<rparr>))"

text \<open>The loop over two windows, and the recommendation brought within them.\<close>

fun scan_recs2 :: "int \<Rightarrow> int \<Rightarrow> nat \<Rightarrow> recommendation list \<Rightarrow> int \<Rightarrow> int \<Rightarrow> nat option
    \<Rightarrow> int \<times> int \<times> nat option" where
  "scan_recs2 upCutoff downCutoff i [] up down old = (up, down, old)"
| "scan_recs2 upCutoff downCutoff i (r # rs) up down old =
     scan_recs2 upCutoff downCutoff (Suc i) rs
       (if rec_time r > upCutoff then min (rec_replicas r) up else up)
       (if rec_time r > downCutoff then max (rec_replicas r) down else down)
       (if rec_time r < upCutoff \<and> rec_time r < downCutoff then Some i else old)"

record normalization_arg =
  na_key :: string
  na_up :: "scaling_rules option"
  na_down :: "scaling_rules option"
  na_min :: int
  na_max :: int
  na_current :: int
  na_desired :: int

datatype stabilize_reason = ScaleUpStabilized | ScaleDownStabilized

definition window_of :: "scaling_rules option \<Rightarrow> int outcome" where
  "window_of r = (case r of None \<Rightarrow> Panic
     | Some r \<Rightarrow> (case rl_window r of None \<Rightarrow> Panic | Some w \<Rightarrow> Ok w))"

definition clamp_recommendation :: "int \<Rightarrow> int \<Rightarrow> int \<Rightarrow> int" where
  "clamp_recommendation current up down =
     (let r = (if current < up then up else current) in if r > down then down else r)"

definition stabilizeRecommendationWithBehaviors ::
    "int \<Rightarrow> int \<Rightarrow> normalization_arg \<Rightarrow> hpa_ctl \<Rightarrow> (int \<times> stabilize_reason \<times> hpa_ctl) outcome" where
  "stabilizeRecommendationWithBehaviors now now2 args c =
     (case (window_of (na_up args), window_of (na_down args)) of
        (Ok upDelay, Ok downDelay) \<Rightarrow>
          (let recs = entries (hc_recs c) (na_key args);
               (up, down, old) = scan_recs2 (now - second * upDelay) (now - second * downDelay) 0 recs
                                   (na_desired args) (na_desired args) None;
               new = \<lparr>rec_replicas = na_desired args, rec_time = now2\<rparr>
           in Ok (clamp_recommendation (na_current args) up down,
                  (if na_desired args \<ge> na_current args then ScaleUpStabilized else ScaleDownStabilized),
                  c\<lparr>hc_recs := (hc_recs c)(na_key args \<mapsto> put_sample old new recs)\<rparr>))
      | _ \<Rightarrow> Panic)"

section \<open>Scale events\<close>

definition getReplicasChangePerPeriod :: "int \<Rightarrow> int \<Rightarrow> scale_event list \<Rightarrow> int" where
  "getReplicasChangePerPeriod now periodSeconds evs =
     foldl (\<lambda>n e. if ev_time e > now - second * periodSeconds then i32 (n + ev_change e) else n) 0 evs"

definition markScaleEventsOutdated :: "int \<Rightarrow> int \<Rightarrow> scale_event list \<Rightarrow> scale_event list" where
  "markScaleEventsOutdated now longestPolicyPeriod evs =
     map (\<lambda>e. if ev_time e < now - second * longestPolicyPeriod then e\<lparr>ev_outdated := True\<rparr> else e) evs"

definition getLongestPolicyPeriod :: "scaling_rules option \<Rightarrow> int" where
  "getLongestPolicyPeriod rules =
     (case rules of
        None \<Rightarrow> 0
      | Some r \<Rightarrow> foldl (\<lambda>l p. if pol_period p > l then pol_period p else l) 0
                   (case rl_policies r of None \<Rightarrow> [] | Some ps \<Rightarrow> ps))"

fun last_outdated :: "nat \<Rightarrow> scale_event list \<Rightarrow> nat option \<Rightarrow> nat option" where
  "last_outdated i [] old = old"
| "last_outdated i (e # es) old = last_outdated (Suc i) es (if ev_outdated e then Some i else old)"

definition add_event :: "int \<Rightarrow> int \<Rightarrow> int \<Rightarrow> int \<Rightarrow> scale_event list \<Rightarrow> scale_event list" where
  "add_event now1 now2 longest change evs =
     (let evs' = markScaleEventsOutdated now1 longest evs
      in put_sample (last_outdated 0 evs' None)
           \<lparr>ev_change = change, ev_time = now2, ev_outdated = False\<rparr> evs')"

definition storeScaleEvent ::
    "int \<Rightarrow> int \<Rightarrow> hpa_behavior option \<Rightarrow> string \<Rightarrow> int \<Rightarrow> int \<Rightarrow> hpa_ctl \<Rightarrow> hpa_ctl" where
  "storeScaleEvent now1 now2 behavior key prevReplicas newReplicas c =
     (case behavior of
        None \<Rightarrow> c
      | Some b \<Rightarrow>
          if newReplicas > prevReplicas
          then c\<lparr>hc_up := (hc_up c)(key \<mapsto>
                   add_event now1 now2 (getLongestPolicyPeriod (bh_up b))
                     (i32 (newReplicas - prevReplicas)) (entries (hc_up c) key))\<rparr>
          else c\<lparr>hc_down := (hc_down c)(key \<mapsto>
                   add_event now1 now2 (getLongestPolicyPeriod (bh_down b))
                     (i32 (prevReplicas - newReplicas)) (entries (hc_down c) key))\<rparr>)"

section \<open>Rate limits\<close>

text \<open>\<open>proposed\<close> is declared outside the loop: an unknown policy type keeps the last value.\<close>

definition period_start :: "int \<Rightarrow> int \<Rightarrow> scale_event list \<Rightarrow> scale_event list \<Rightarrow> policy \<Rightarrow> int" where
  "period_start now currentReplicas ups downs p =
     i32 (i32 (currentReplicas - getReplicasChangePerPeriod now (pol_period p) ups)
          + getReplicasChangePerPeriod now (pol_period p) downs)"

definition percent_up :: "(rat \<Rightarrow> int) \<Rightarrow> int \<Rightarrow> int \<Rightarrow> int" where
  "percent_up cvt start v =
     f64_to_i32 cvt (of_int \<lceil>f64_mul (of_int start) (f64_add 1 (f64_div (of_int v) 100))\<rceil>)"

definition percent_down :: "(rat \<Rightarrow> int) \<Rightarrow> int \<Rightarrow> int \<Rightarrow> int" where
  "percent_down cvt start v =
     f64_to_i32 cvt (f64_mul (of_int start) (f64_sub 1 (f64_div (of_int v) 100)))"

definition propose_up :: "(rat \<Rightarrow> int) \<Rightarrow> int \<Rightarrow> policy \<Rightarrow> int \<Rightarrow> int" where
  "propose_up cvt start p proposed =
     (case pol_type p of
        PodsPolicy \<Rightarrow> i32 (start + pol_value p)
      | PercentPolicy \<Rightarrow> percent_up cvt start (pol_value p)
      | OtherPolicy \<Rightarrow> proposed)"

definition propose_down :: "(rat \<Rightarrow> int) \<Rightarrow> int \<Rightarrow> policy \<Rightarrow> int \<Rightarrow> int" where
  "propose_down cvt start p proposed =
     (case pol_type p of
        PodsPolicy \<Rightarrow> i32 (start - pol_value p)
      | PercentPolicy \<Rightarrow> percent_down cvt start (pol_value p)
      | OtherPolicy \<Rightarrow> proposed)"

definition calculateScaleUpLimitWithScalingRules ::
    "(rat \<Rightarrow> int) \<Rightarrow> int \<Rightarrow> int \<Rightarrow> scale_event list \<Rightarrow> scale_event list \<Rightarrow> scaling_rules option \<Rightarrow> int outcome" where
  "calculateScaleUpLimitWithScalingRules cvt now currentReplicas ups downs rules =
     (case rules of
        None \<Rightarrow> Panic
      | Some r \<Rightarrow>
          (case rl_select r of
             None \<Rightarrow> Panic
           | Some SelDisabled \<Rightarrow> Ok currentReplicas
           | Some sel \<Rightarrow>
               let start = (if sel = SelMin then max_i32 else min_i32);
                   pick = (if sel = SelMin then min else max)
               in Ok (fst (foldl
                    (\<lambda>(result, proposed) p.
                       let q = propose_up cvt (period_start now currentReplicas ups downs p) p proposed
                       in (pick result q, q))
                    (start, 0) (case rl_policies r of None \<Rightarrow> [] | Some ps \<Rightarrow> ps)))))"

definition calculateScaleDownLimitWithBehaviors ::
    "(rat \<Rightarrow> int) \<Rightarrow> int \<Rightarrow> int \<Rightarrow> scale_event list \<Rightarrow> scale_event list \<Rightarrow> scaling_rules option \<Rightarrow> int outcome" where
  "calculateScaleDownLimitWithBehaviors cvt now currentReplicas ups downs rules =
     (case rules of
        None \<Rightarrow> Panic
      | Some r \<Rightarrow>
          (case rl_select r of
             None \<Rightarrow> Panic
           | Some SelDisabled \<Rightarrow> Ok currentReplicas
           | Some sel \<Rightarrow>
               let start = (if sel = SelMin then min_i32 else max_i32);
                   pick = (if sel = SelMin then max else min)
               in Ok (fst (foldl
                    (\<lambda>(result, proposed) p.
                       let q = propose_down cvt (period_start now currentReplicas ups downs p) p proposed
                       in (pick result q, q))
                    (start, 0) (case rl_policies r of None \<Rightarrow> [] | Some ps \<Rightarrow> ps)))))"

definition calculateScaleUpLimit :: "(rat \<Rightarrow> int) \<Rightarrow> int \<Rightarrow> int" where
  "calculateScaleUpLimit cvt currentReplicas =
     f64_to_i32 cvt (max (f64_mul 2 (of_int currentReplicas)) 4)"

section \<open>Normalisation\<close>

datatype limit_reason =
    ScaleUpLimit | ScaleDownLimit | TooManyReplicas | TooFewReplicas | DesiredWithinRange

definition convertDesiredReplicasWithBehaviorRate ::
    "(rat \<Rightarrow> int) \<Rightarrow> int \<Rightarrow> normalization_arg \<Rightarrow> hpa_ctl \<Rightarrow> (int \<times> limit_reason) outcome" where
  "convertDesiredReplicasWithBehaviorRate cvt now args c =
     (if na_desired args > na_current args then
        (case calculateScaleUpLimitWithScalingRules cvt now (na_current args)
                (entries (hc_up c) (na_key args)) (entries (hc_down c) (na_key args)) (na_up args) of
           Ok proposal \<Rightarrow>
             (let limit = (if proposal < na_current args then na_current args else proposal);
                  (allowed, reason) =
                    (if na_max args > limit then (limit, ScaleUpLimit) else (na_max args, TooManyReplicas))
              in if na_desired args > allowed then Ok (allowed, reason)
                 else Ok (na_desired args, DesiredWithinRange))
         | Err e \<Rightarrow> Err e | Panic \<Rightarrow> Panic)
      else if na_desired args < na_current args then
        (case calculateScaleDownLimitWithBehaviors cvt now (na_current args)
                (entries (hc_up c) (na_key args)) (entries (hc_down c) (na_key args)) (na_down args) of
           Ok proposal \<Rightarrow>
             (let limit = (if proposal > na_current args then na_current args else proposal);
                  (allowed, reason) =
                    (if na_min args < limit then (limit, ScaleDownLimit) else (na_min args, TooFewReplicas))
              in if na_desired args < allowed then Ok (allowed, reason)
                 else Ok (na_desired args, DesiredWithinRange))
         | Err e \<Rightarrow> Err e | Panic \<Rightarrow> Panic)
      else Ok (na_desired args, DesiredWithinRange))"

definition convertDesiredReplicasWithRules ::
    "(rat \<Rightarrow> int) \<Rightarrow> int \<Rightarrow> int \<Rightarrow> int \<Rightarrow> int \<Rightarrow> int \<times> limit_reason" where
  "convertDesiredReplicasWithRules cvt currentReplicas desiredReplicas hpaMin hpaMax =
     (let scaleUpLimit = calculateScaleUpLimit cvt currentReplicas;
          (maximumAllowed, reason) =
            (if hpaMax > scaleUpLimit then (scaleUpLimit, ScaleUpLimit) else (hpaMax, TooManyReplicas))
      in if desiredReplicas < hpaMin then (hpaMin, TooFewReplicas)
         else if desiredReplicas > maximumAllowed then (maximumAllowed, reason)
         else (desiredReplicas, DesiredWithinRange))"

definition maybeInitScaleDownStabilizationWindow ::
    "(rat \<Rightarrow> int) \<Rightarrow> hpa_ctl \<Rightarrow> hpa_behavior option \<Rightarrow> hpa_behavior option" where
  "maybeInitScaleDownStabilizationWindow cvt c behavior =
     (case behavior of
        None \<Rightarrow> None
      | Some b \<Rightarrow>
          (case bh_down b of
             None \<Rightarrow> Some b
           | Some d \<Rightarrow>
               if rl_window d = None
               then let secs = f64_add (of_int (go_quot (hc_window c) second))
                                 (f64_div (of_int (go_rem (hc_window c) second)) 1000000000)
                    in Some (b\<lparr>bh_down := Some (d\<lparr>rl_window := Some (f64_to_i32 cvt secs)\<rparr>)\<rparr>)
               else Some b))"

end
