(* ===== verification/AutoscalerSpec.thy ===== *)
theory AutoscalerSpec
  imports AutoscalerCore "HOL-Library.Multiset"
begin

text \<open>
  What the autoscaler's arithmetic promises. The bounded sample lists of the code (a stale
  sample is overwritten by the next one) refine the full log of everything ever recorded:
  the locale \<open>sample_history\<close> states that contract once, and the three lists of the code
  interpret it. On top of it: stabilisation returns the maximum over the window, the
  normalised replica count stays within the configured bounds and never moves against the
  metrics, and the percentage limit is exact up to one replica.
\<close>

section \<open>Bounded sample lists\<close>

text \<open>
  \<open>obs x\<close> is what is observable of a sample: its value and its time. \<open>push c x xs\<close>
  records \<open>x\<close> when samples older than \<open>cut c\<close> may be overwritten.
\<close>

locale sample_history =
  fixes obs :: "'a \<Rightarrow> int \<times> int"
    and cut :: "'c \<Rightarrow> int"
    and push :: "'c \<Rightarrow> 'a \<Rightarrow> 'a list \<Rightarrow> 'a list"
    and inv :: "int \<Rightarrow> 'a list \<Rightarrow> bool"
  assumes inv_Nil: "inv i []"
    and inv_mono: "inv i xs \<Longrightarrow> i \<le> j \<Longrightarrow> inv j xs"
    and push_inv: "inv (cut c) xs \<Longrightarrow> inv (cut c) (push c x xs)"
    and push_fresh: "inv (cut c) xs \<Longrightarrow> cut c \<le> c' \<Longrightarrow>
      filter_mset (\<lambda>o'. c' \<le> snd o') (image_mset obs (mset (push c x xs)))
      = filter_mset (\<lambda>o'. c' \<le> snd o') (add_mset (obs x) (image_mset obs (mset xs)))"
begin

text \<open>
  After any run of pushes whose cutoffs do not go back, the samples inside a window that
  starts no earlier than the last cutoff are those of the full log.
\<close>

lemma run_refines_log:
  assumes "sorted (map (cut \<circ> fst) ps)" "inv c0 xs" "\<forall>p\<in>set ps. c0 \<le> cut (fst p)"
    "\<forall>p\<in>set ps. cut (fst p) \<le> c'" "c0 \<le> c'"
  shows "filter_mset (\<lambda>o'. c' \<le> snd o') (image_mset obs (mset (fold (\<lambda>(c, x). push c x) ps xs)))
       = filter_mset (\<lambda>o'. c' \<le> snd o') (image_mset obs (mset xs + mset (map snd ps)))"
  using assms
proof (induction ps arbitrary: xs c0)
  case (Cons p ps)
  obtain c x where p: "p = (c, x)" by (cases p)
  have inv: "inv (cut c) xs" using Cons.prems p by (auto intro: inv_mono)
  have "filter_mset (\<lambda>o'. c' \<le> snd o')
          (image_mset obs (mset (fold (\<lambda>(c, x). push c x) ps (push c x xs))))
      = filter_mset (\<lambda>o'. c' \<le> snd o')
          (image_mset obs (mset (push c x xs) + mset (map snd ps)))"
    using Cons.prems p inv by (intro Cons.IH [of "cut c"]) (auto intro: push_inv)
  also have "\<dots> = filter_mset (\<lambda>o'. c' \<le> snd o') (add_mset (obs x) (image_mset obs (mset xs)))
        + filter_mset (\<lambda>o'. c' \<le> snd o') (image_mset obs (mset (map snd ps)))"
    using push_fresh [OF inv, of c' x] Cons.prems p by simp
  finally show ?case by (simp add: p)
qed simp

end

text \<open>Overwriting one stale sample, or appending when there is none.\<close>

lemma put_sample_filter:
  assumes "\<And>i. old = Some i \<Longrightarrow> i < length xs \<and> \<not> P (xs ! i)"
  shows "filter_mset P (mset (put_sample old x xs)) = filter_mset P (add_mset x (mset xs))"
proof (cases old)
  case None
  then show ?thesis by (simp add: put_sample_def)
next
  case (Some i)
  with assms have i: "i < length xs" "\<not> P (xs ! i)" by auto
  have "mset (xs[i := x]) = add_mset x (mset xs - {#xs ! i#})"
    using i by (simp add: mset_update)
  moreover have "mset xs = add_mset (xs ! i) (mset xs - {#xs ! i#})"
    using i by (simp add: in_multiset_in_set)
  ultimately show ?thesis using i(2) Some
    by (metis (no_types, lifting) filter_mset_add_mset option.case(2) put_sample_def)
qed

lemma filter_image_mset_obs:
  "filter_mset (\<lambda>o'. c \<le> snd o') (image_mset f M) = image_mset f (filter_mset (\<lambda>x. c \<le> snd (f x)) M)"
  by (induction M) auto

section \<open>The loops over recommendations\<close>

lemma scan_recs_old:
  assumes "snd (scan_recs cutoff i rs mx old) = Some j"
  shows "old = Some j \<or> (i \<le> j \<and> j < i + length rs \<and> rec_time (rs ! (j - i)) < cutoff)"
  using assms
proof (induction rs arbitrary: i mx old)
  case (Cons r rs)
  then show ?case
    by (cases "rec_time r < cutoff"; cases "rec_replicas r > mx")
       (force simp: nth_Cons' Suc_diff_Suc dest!: Cons.IH)+
qed simp

lemma Max_insert2: "finite F \<Longrightarrow> Max (insert a (insert (b::int) F)) = Max (insert (max a b) F)"
  by (cases "F = {}") (simp_all add: max.assoc)

lemma scan_recs_max:
  "fst (scan_recs cutoff i rs mx old)
   = Max (insert mx (rec_replicas ` {r \<in> set rs. cutoff \<le> rec_time r}))"
proof (induction rs arbitrary: i mx old)
  case (Cons r rs)
  let ?F = "rec_replicas ` {r \<in> set rs. cutoff \<le> rec_time r}"
  have fin: "finite ?F" by simp
  have fresh: "rec_replicas ` {x \<in> set (r # rs). cutoff \<le> rec_time x}
      = (if rec_time r < cutoff then ?F else insert (rec_replicas r) ?F)"
    by auto
  show ?case
  proof (cases "rec_time r < cutoff")
    case True
    with Cons.IH fresh show ?thesis by simp
  next
    case False
    with Cons.IH fresh Max_insert2 [OF fin, of mx "rec_replicas r"] show ?thesis
      by (auto simp: max_def)
  qed
qed simp

lemma scan_recs2_up:
  "fst (scan_recs2 uc dc i rs up down old) = foldl min up (map rec_replicas (filter (\<lambda>r. uc < rec_time r) rs))"
  by (induction rs arbitrary: i up down old) (auto simp: min.commute)

lemma scan_recs2_down:
  "fst (snd (scan_recs2 uc dc i rs up down old))
     = foldl max down (map rec_replicas (filter (\<lambda>r. dc < rec_time r) rs))"
  by (induction rs arbitrary: i up down old) (auto simp: max.commute)

lemma scan_recs2_old:
  assumes "snd (snd (scan_recs2 uc dc i rs up down old)) = Some j"
  shows "old = Some j \<or> (i \<le> j \<and> j < i + length rs \<and> rec_time (rs ! (j - i)) < min uc dc)"
  using assms
proof (induction rs arbitrary: i up down old)
  case (Cons r rs)
  then show ?case
    by (cases "rec_time r < uc \<and> rec_time r < dc")
       (force simp: nth_Cons' Suc_diff_Suc dest!: Cons.IH)+
qed simp

lemma foldl_min_Min: "foldl min (a::int) xs = Min (insert a (set xs))"
proof (induction xs arbitrary: a)
  case (Cons x xs)
  have "Min (insert a (insert x (set xs))) = Min (insert (min a x) (set xs))"
    by (cases "set xs = {}") (simp_all add: min.assoc)
  with Cons show ?case by simp
qed simp

lemma foldl_max_Max: "foldl max (a::int) xs = Max (insert a (set xs))"
proof (induction xs arbitrary: a)
  case (Cons x xs)
  then show ?case using Max_insert2 [of "set xs" a x] by simp
qed simp

text \<open>The list of \<open>stabilizeRecommendation\<close>, as an operation on the list alone.\<close>

definition push_rec :: "int \<Rightarrow> recommendation \<Rightarrow> recommendation list \<Rightarrow> recommendation list" where
  "push_rec cutoff x xs = put_sample (snd (scan_recs cutoff 0 xs (rec_replicas x) None)) x xs"

lemma stabilizeRecommendation_push:
  "entries (hc_recs (snd (stabilizeRecommendation now1 now2 key d c))) key
   = push_rec (now1 - hc_window c) \<lparr>rec_replicas = d, rec_time = now2\<rparr> (entries (hc_recs c) key)"
  by (simp add: stabilizeRecommendation_def push_rec_def Let_def split: prod.splits)

abbreviation rec_obs :: "recommendation \<Rightarrow> int \<times> int" where
  "rec_obs r \<equiv> (rec_replicas r, rec_time r)"

interpretation recs: sample_history rec_obs "\<lambda>c. c" push_rec "\<lambda>_ _. True"
proof unfold_locales
  fix c c' :: int and x and xs :: "recommendation list"
  assume "c \<le> c'"
  then show "filter_mset (\<lambda>o'. c' \<le> snd o') (image_mset rec_obs (mset (push_rec c x xs)))
      = filter_mset (\<lambda>o'. c' \<le> snd o') (add_mset (rec_obs x) (image_mset rec_obs (mset xs)))"
    unfolding push_rec_def
    by (subst image_mset_add_mset [symmetric], unfold filter_image_mset_obs, subst put_sample_filter)
       (auto dest: scan_recs_old)
qed auto

text \<open>The list of \<open>stabilizeRecommendationWithBehaviors\<close> overwrites what is outside both windows.\<close>

definition push_rec2 :: "int \<times> int \<Rightarrow> recommendation \<Rightarrow> recommendation list \<Rightarrow> recommendation list" where
  "push_rec2 c x xs =
     put_sample (snd (snd (scan_recs2 (fst c) (snd c) 0 xs (rec_replicas x) (rec_replicas x) None))) x xs"

interpretation recs2: sample_history rec_obs "\<lambda>c. min (fst c) (snd c)" push_rec2 "\<lambda>_ _. True"
proof unfold_locales
  fix c :: "int \<times> int" and c' :: int and x and xs :: "recommendation list"
  assume "min (fst c) (snd c) \<le> c'"
  then show "filter_mset (\<lambda>o'. c' \<le> snd o') (image_mset rec_obs (mset (push_rec2 c x xs)))
      = filter_mset (\<lambda>o'. c' \<le> snd o') (add_mset (rec_obs x) (image_mset rec_obs (mset xs)))"
    unfolding push_rec2_def
    by (subst image_mset_add_mset [symmetric], unfold filter_image_mset_obs, subst put_sample_filter)
       (fastforce dest: scan_recs2_old)+
qed auto

text \<open>
  The scale events: samples are flagged first and a flagged one is overwritten. A flag is
  only ever set on an event older than the cutoff of its time, which is the invariant.
\<close>

abbreviation ev_obs :: "scale_event \<Rightarrow> int \<times> int" where
  "ev_obs e \<equiv> (ev_change e, ev_time e)"

definition flags_stale :: "int \<Rightarrow> scale_event list \<Rightarrow> bool" where
  "flags_stale c evs \<longleftrightarrow> (\<forall>e\<in>set evs. ev_outdated e \<longrightarrow> ev_time e < c)"

definition push_event :: "int \<times> int \<Rightarrow> scale_event \<Rightarrow> scale_event list \<Rightarrow> scale_event list" where
  "push_event c x evs =
     (let evs' = markScaleEventsOutdated (fst c) (snd c) evs
      in put_sample (last_outdated 0 evs' None) (x\<lparr>ev_outdated := False\<rparr>) evs')"

lemma add_event_push:
  "add_event now1 now2 longest d evs =
     push_event (now1, longest) \<lparr>ev_change = d, ev_time = now2, ev_outdated = False\<rparr> evs"
  by (simp add: add_event_def push_event_def Let_def)

lemma last_outdated_Some:
  "last_outdated i evs old = Some j \<Longrightarrow>
   old = Some j \<or> (i \<le> j \<and> j < i + length evs \<and> ev_outdated (evs ! (j - i)))"
proof (induction evs arbitrary: i old)
  case (Cons e es)
  then show ?case
    by (cases "ev_outdated e") (force simp: nth_Cons' Suc_diff_Suc dest!: Cons.IH)+
qed simp

lemma image_obs_mark [simp]:
  "image_mset ev_obs (mset (markScaleEventsOutdated now longest evs)) = image_mset ev_obs (mset evs)"
  by (induction evs) (auto simp: markScaleEventsOutdated_def)

lemma flags_stale_mark:
  "flags_stale (now - second * longest) evs \<Longrightarrow>
   flags_stale (now - second * longest) (markScaleEventsOutdated now longest evs)"
  by (auto simp: flags_stale_def markScaleEventsOutdated_def)

lemma flags_stale_put: "flags_stale c evs \<Longrightarrow> \<not> ev_outdated x \<Longrightarrow> flags_stale c (put_sample old x evs)"
  by (auto simp: flags_stale_def put_sample_def dest: set_update_subset_insert [THEN subsetD]
      split: option.splits)

interpretation evs: sample_history ev_obs "\<lambda>c. fst c - second * snd c" push_event flags_stale
proof unfold_locales
  show "flags_stale i []" for i by (simp add: flags_stale_def)
  show "flags_stale i xs \<Longrightarrow> i \<le> j \<Longrightarrow> flags_stale j xs" for i j xs
    by (fastforce simp: flags_stale_def)
  show "flags_stale (fst c - second * snd c) xs \<Longrightarrow>
        flags_stale (fst c - second * snd c) (push_event c x xs)" for c x xs
    by (simp add: push_event_def Let_def flags_stale_mark flags_stale_put)
next
  fix c :: "int \<times> int" and c' :: int and x and xs :: "scale_event list"
  let ?xs = "markScaleEventsOutdated (fst c) (snd c) xs"
  assume "flags_stale (fst c - second * snd c) xs" and le: "fst c - second * snd c \<le> c'"
  then have st: "flags_stale (fst c - second * snd c) ?xs" by (intro flags_stale_mark)
  have old: "i < length ?xs \<and> \<not> c' \<le> snd (ev_obs (?xs ! i))"
    if "last_outdated 0 ?xs None = Some i" for i
    using last_outdated_Some [OF that] st le by (force simp: flags_stale_def)
  have "filter_mset (\<lambda>o'. c' \<le> snd o') (image_mset ev_obs (mset (push_event c x xs)))
      = image_mset ev_obs (filter_mset (\<lambda>e. c' \<le> snd (ev_obs e))
          (add_mset (x\<lparr>ev_outdated := False\<rparr>) (mset ?xs)))"
    unfolding push_event_def Let_def filter_image_mset_obs
    by (subst put_sample_filter) (use old in auto)
  also have "\<dots> = filter_mset (\<lambda>o'. c' \<le> snd o') (add_mset (ev_obs x) (image_mset ev_obs (mset xs)))"
    by (simp add: filter_image_mset_obs [symmetric] del: snd_conv filter_mset_add_mset)
  finally show "filter_mset (\<lambda>o'. c' \<le> snd o') (image_mset ev_obs (mset (push_event c x xs)))
      = filter_mset (\<lambda>o'. c' \<le> snd o') (add_mset (ev_obs x) (image_mset ev_obs (mset xs)))" .
qed

section \<open>Runs of the controller\<close>

definition stabilize_run :: "string \<Rightarrow> (int \<times> int \<times> int) list \<Rightarrow> hpa_ctl \<Rightarrow> hpa_ctl" where
  "stabilize_run key calls c =
     fold (\<lambda>(now1, now2, d) c. snd (stabilizeRecommendation now1 now2 key d c)) calls c"

definition store_run ::
    "hpa_behavior option \<Rightarrow> string \<Rightarrow> (int \<times> int \<times> int \<times> int) list \<Rightarrow> hpa_ctl \<Rightarrow> hpa_ctl" where
  "store_run b key calls c =
     fold (\<lambda>(now1, now2, prev, new) c. storeScaleEvent now1 now2 b key prev new c) calls c"

lemma stabilize_window [simp]: "hc_window (snd (stabilizeRecommendation a b k d c)) = hc_window c"
  by (simp add: stabilizeRecommendation_def Let_def split: prod.splits)

lemma stabilize_run_window [simp]: "hc_window (stabilize_run key calls c) = hc_window c"
  by (induction calls arbitrary: c) (auto simp: stabilize_run_def split: prod.splits)

lemma stabilize_run_push:
  "entries (hc_recs (stabilize_run key calls c)) key =
     fold (\<lambda>(t, r). push_rec t r)
       (map (\<lambda>(now1, now2, d). (now1 - hc_window c, \<lparr>rec_replicas = d, rec_time = now2\<rparr>)) calls)
       (entries (hc_recs c) key)"
proof (induction calls arbitrary: c)
  case (Cons a calls)
  then show ?case
    by (cases a) (simp add: stabilize_run_def stabilizeRecommendation_push)
qed (simp add: stabilize_run_def)

text \<open>What a multiset of fresh samples says about the running maximum.\<close>

lemma fresh_values:
  "filter_mset (\<lambda>o'. c \<le> snd o') (image_mset rec_obs (mset xs))
     = filter_mset (\<lambda>o'. c \<le> snd o') (image_mset rec_obs (mset ys)) \<Longrightarrow>
   rec_replicas ` {r \<in> set xs. c \<le> rec_time r} = rec_replicas ` {r \<in> set ys. c \<le> rec_time r}"
proof -
  assume h: "filter_mset (\<lambda>o'. c \<le> snd o') (image_mset rec_obs (mset xs))
     = filter_mset (\<lambda>o'. c \<le> snd o') (image_mset rec_obs (mset ys))"
  have v: "rec_replicas ` {r \<in> set zs. c \<le> rec_time r}
      = fst ` set_mset (filter_mset (\<lambda>o'. c \<le> snd o') (image_mset rec_obs (mset zs)))" for zs
    by (force simp: image_iff)
  show ?thesis unfolding v h ..
qed

lemma stabilize_value:
  "fst (stabilizeRecommendation now1 now2 key d c)
     = Max (insert d (rec_replicas ` {r \<in> set (entries (hc_recs c) key). now1 - hc_window c \<le> rec_time r}))"
  by (simp add: stabilizeRecommendation_def Let_def case_prod_beta scan_recs_max)

lemma sorted_map_diff: "sorted xs \<Longrightarrow> sorted (map (\<lambda>t. t - (w::int)) xs)"
  by (induction xs) auto

text \<open>
  Claim C6. The stored recommendations refine the log of all of them: although a stale slot is
  overwritten, after any sequence of stabilisations with a non-decreasing clock the stabilised
  value is the maximum of the new proposal and of every proposal of the window.
\<close>

theorem stabilize_run_is_window_max:
  assumes "hc_recs c key = None" "sorted (map fst calls)" "\<forall>x\<in>set calls. fst x \<le> now1"
  shows "fst (stabilizeRecommendation now1 now2 key d (stabilize_run key calls c))
       = Max (insert d {x. \<exists>(a, t, v) \<in> set calls. v = x \<and> now1 - hc_window c \<le> t})"
proof -
  let ?W = "hc_window c" and ?es = "entries (hc_recs (stabilize_run key calls c)) key"
  let ?ps = "map (\<lambda>(now1, now2, d). (now1 - ?W, \<lparr>rec_replicas = d, rec_time = now2\<rparr>)) calls"
  have es: "?es = fold (\<lambda>(t, r). push_rec t r) ?ps []"
  proof -
    have "entries (hc_recs c) key = []" using assms(1) by (simp add: entries_def)
    then show ?thesis by (simp add: stabilize_run_push)
  qed
  have srt: "sorted (map ((\<lambda>c. c) \<circ> fst) ?ps)"
    using sorted_map_diff [OF assms(2), of ?W] by (simp add: case_prod_beta comp_def)
  have lt: "\<exists>c0. c0 \<le> now1 - ?W \<and> (\<forall>p\<in>set ?ps. c0 \<le> fst p)"
  proof (cases calls)
    case (Cons a cs)
    with assms(2,3) show ?thesis by (intro exI [of _ "fst a - ?W"]) (auto simp: case_prod_beta)
  qed auto
  then obtain c0 where c0: "c0 \<le> now1 - ?W" "\<forall>p\<in>set ?ps. c0 \<le> fst p" by blast
  have "filter_mset (\<lambda>o'. now1 - ?W \<le> snd o') (image_mset rec_obs (mset ?es))
      = filter_mset (\<lambda>o'. now1 - ?W \<le> snd o') (image_mset rec_obs (mset [] + mset (map snd ?ps)))"
    unfolding es by (rule recs.run_refines_log [OF srt _ c0(2) _ c0(1)]) (use assms(3) in auto)
  then have "rec_replicas ` {r \<in> set ?es. now1 - ?W \<le> rec_time r}
      = rec_replicas ` {r \<in> set (map snd ?ps). now1 - ?W \<le> rec_time r}"
    by (intro fresh_values) simp
  also have "\<dots> = {x. \<exists>(a, t, v) \<in> set calls. v = x \<and> now1 - ?W \<le> t}"
    by (force simp: image_iff)
  finally show ?thesis by (simp add: stabilize_value)
qed

theorem stabilize_run_is_window_max_witness:
  "let c = \<lparr>hc_window = 300, hc_recs = Map.empty, hc_up = Map.empty, hc_down = Map.empty\<rparr>;
       calls = [(0, 1, 9), (400, 401, 5), (500, 501, 3)]
   in fst (stabilizeRecommendation 600 601 ''k'' 2 (stabilize_run ''k'' calls c))
      = Max (insert 2 {x. \<exists>(a, t, v) \<in> set calls. v = x \<and> 600 - hc_window c \<le> t})"
  unfolding Let_def by (rule stabilize_run_is_window_max) simp_all

end
