(* ===== verification/AutoscalerRate.thy ===== *)
theory AutoscalerRate
  imports AutoscalerSpec
begin

text \<open>
  The rate limits of the autoscaler: the percentage arithmetic in \<open>float64\<close> against exact
  arithmetic, the bounds of the two normalisation paths, and the change a scaling policy
  allows in its period, read off the full log of scale events.
\<close>

section \<open>Percentages in floating point\<close>

abbreviation u53 :: rat where "u53 \<equiv> 1 / 2 ^ 53"

lemma rel_step:
  fixes x x' x'' :: rat
  assumes "0 \<le> x" "0 \<le> d" "\<bar>x' - x\<bar> \<le> x * d" "\<bar>x'' - x'\<bar> \<le> \<bar>x'\<bar> * u" "0 \<le> u"
  shows "\<bar>x'' - x\<bar> \<le> x * (d + u + d * u)"
proof -
  have "\<bar>x'\<bar> \<le> x * (1 + d)" using assms by (simp add: abs_le_iff algebra_simps)
  then have "\<bar>x'\<bar> * u \<le> x * (1 + d) * u" using assms by (intro mult_right_mono)
  then show ?thesis using assms by (simp add: abs_le_iff algebra_simps)
qed

lemma rel_bounds:
  fixes x y :: rat
  assumes "0 \<le> x" "d \<le> 1 / 2" "\<bar>y - x\<bar> \<le> x * d"
  shows "x / 2 \<le> y" "y \<le> 2 * x"
proof -
  have "x * d \<le> x * (1 / 2)" using assms by (intro mult_left_mono)
  then show "x / 2 \<le> y" "y \<le> 2 * x" using assms by (simp_all add: abs_le_iff)
qed

lemma fl_rel: "f64_range x \<Longrightarrow> \<bar>fl x - x\<bar> \<le> \<bar>x\<bar> * u53"
  using fl_relative_error [of x] by simp

lemma percent_range: "0 \<le> v \<Longrightarrow> v \<le> max_i32 \<Longrightarrow> f64_range (of_int v / 100)"
proof (cases "v = 0")
  case False
  assume "0 \<le> v" "v \<le> max_i32"
  with False have "1 \<le> (of_int v :: rat)" "(of_int v :: rat) \<le> of_int max_i32"
    by linarith (use \<open>v \<le> max_i32\<close> in \<open>simp only: of_int_le_iff\<close>)
  then show ?thesis by (simp add: f64_range_def pow2_def)
qed (simp add: f64_range_def)

lemma percent_factor_up:
  assumes "0 \<le> v" "v \<le> max_i32"
  defines "a \<equiv> of_int v / (100 :: rat)"
  shows "\<bar>f64_add 1 (f64_div (of_int v) 100) - (1 + a)\<bar> \<le> (1 + a) * (u53 + u53 + u53 * u53)"
proof -
  have v: "0 \<le> (of_int v :: rat)" "(of_int v :: rat) \<le> of_int max_i32"
    using assms by (simp_all only: of_int_le_iff of_int_0_le_iff)
  have r: "\<bar>fl a - a\<bar> \<le> a * u53"
    using fl_rel [OF percent_range [OF assms(1,2)]] v by (simp add: a_def)
  have a: "0 \<le> a" "a \<le> 2 ^ 25" using v by (simp_all add: a_def)
  have rng: "f64_range (1 + fl a)"
  proof -
    have "fl a \<le> 2 ^ 26" "0 \<le> fl a" using rel_bounds [OF a(1) _ r] a by simp_all
    then show ?thesis by (simp add: f64_range_def pow2_def)
  qed
  have "\<bar>1 + fl a - (1 + a)\<bar> \<le> (1 + a) * u53" using r a by simp
  from rel_step [OF _ _ this fl_rel [OF rng]] a show ?thesis
    by (simp add: f64_add_def f64_div_def a_def)
qed

lemma percent_product_up:
  assumes "0 \<le> s" "s \<le> max_i32" "0 \<le> v" "v \<le> max_i32"
  defines "x \<equiv> of_int s * (1 + of_int v / (100 :: rat))"
  shows "\<bar>f64_mul (of_int s) (f64_add 1 (f64_div (of_int v) 100)) - x\<bar> \<le> x * 4 * u53"
proof (cases "s = 0")
  case True
  then show ?thesis by (simp add: x_def f64_mul_def fl_def)
next
  case False
  let ?b = "f64_add 1 (f64_div (of_int v) 100)" and ?a = "of_int v / (100 :: rat)"
  have s: "1 \<le> (of_int s :: rat)" "(of_int s :: rat) \<le> of_int max_i32"
    using assms False by linarith (use assms in \<open>simp only: of_int_le_iff\<close>)
  have v: "0 \<le> (of_int v :: rat)" "(of_int v :: rat) \<le> of_int max_i32"
    using assms by (simp_all only: of_int_le_iff of_int_0_le_iff)
  have b: "\<bar>?b - (1 + ?a)\<bar> \<le> (1 + ?a) * (u53 + u53 + u53 * u53)"
    by (rule percent_factor_up [OF assms(3,4)])
  have b1: "1 / 2 \<le> ?b" "?b \<le> 2 ^ 26" using rel_bounds [OF _ _ b] v by simp_all
  have x0: "0 \<le> x" using s v by (simp add: x_def)
  have p: "\<bar>of_int s * ?b - x\<bar> \<le> x * (u53 + u53 + u53 * u53)"
  proof -
    have "\<bar>of_int s * ?b - x\<bar> = of_int s * \<bar>?b - (1 + ?a)\<bar>"
      using s by (simp add: x_def right_diff_distrib [symmetric] abs_mult)
    also have "\<dots> \<le> of_int s * ((1 + ?a) * (u53 + u53 + u53 * u53))"
      using b s by (intro mult_left_mono) simp_all
    finally show ?thesis by (simp add: x_def mult.assoc)
  qed
  have "f64_range (of_int s * ?b)"
  proof -
    have "1 * (1 / 2) \<le> of_int s * ?b" using s b1 by (intro mult_mono) simp_all
    moreover have "of_int s * ?b \<le> of_int max_i32 * 2 ^ 26" using s b1 by (intro mult_mono) simp_all
    ultimately show ?thesis by (simp add: f64_range_def pow2_def)
  qed
  from rel_step [OF x0 _ p fl_rel [OF this]]
  have "\<bar>f64_mul (of_int s) ?b - x\<bar> \<le> x * (u53 + u53 + u53 * u53 + u53 + (u53 + u53 + u53 * u53) * u53)"
    by (simp add: f64_mul_def)
  also have "\<dots> \<le> x * (4 * u53)" by (intro mult_left_mono x0) simp
  finally show ?thesis by simp
qed

text \<open>
  A product of \<open>s\<close> and \<open>n\<close> hundredths is an integer or at least one hundredth away from
  one, so an error below one hundredth moves the ceiling by at most one, and only at integers.
\<close>

lemma hundredths:
  fixes y :: rat
  assumes "\<bar>y - of_int n / 100\<bar> < 1 / 100"
  shows "\<lceil>y\<rceil> \<in> (if 100 dvd n then {n div 100, n div 100 + 1} else {n div 100 + 1})"
    and "\<lfloor>y\<rfloor> \<in> (if 100 dvd n then {n div 100, n div 100 - 1} else {n div 100})"
proof -
  let ?q = "n div 100" and ?r = "n mod 100"
  have n: "(of_int n :: rat) = 100 * of_int ?q + of_int ?r"
  proof -
    have "n = 100 * ?q + ?r" by simp
    then show ?thesis by (metis of_int_add of_int_mult of_int_numeral)
  qed
  have d: "100 dvd n \<longleftrightarrow> ?r = 0" by (simp add: dvd_eq_mod_eq_0)
  have y: "\<bar>100 * y - (100 * of_int ?q + of_int ?r)\<bar> < 1"
    using assms by (simp only: n abs_less_iff) (simp add: field_simps)
  have y0: "of_int (?q - 1) < y" "y < of_int (?q + 1)" if "?r = 0"
    using y that by (simp_all add: abs_less_iff)
  have y1: "of_int ?q < y" "y < of_int (?q + 1)" if "?r \<noteq> 0"
  proof -
    have "1 \<le> ?r" "?r \<le> 99" using that pos_mod_sign [of 100 n] pos_mod_bound [of 100 n] by (linarith, linarith)
    then have "(1::rat) \<le> of_int ?r" "(of_int ?r :: rat) \<le> 99"
      by (simp_all only: of_int_1_le_iff of_int_le_numeral_iff)
    with y show "of_int ?q < y" "y < of_int (?q + 1)"
      by (simp_all add: abs_less_iff)
  qed
  show "\<lceil>y\<rceil> \<in> (if 100 dvd n then {?q, ?q + 1} else {?q + 1})"
  proof (cases "?r = 0")
    case True
    have "?q - 1 < \<lceil>y\<rceil>" using y0(1) [OF True] by (simp only: less_ceiling_iff)
    moreover have "\<lceil>y\<rceil> \<le> ?q + 1" using y0(2) [OF True] by (simp only: ceiling_le_iff less_imp_le)
    ultimately show ?thesis using d True by auto
  next
    case False
    have "?q < \<lceil>y\<rceil>" using y1(1) [OF False] by (simp only: less_ceiling_iff)
    moreover have "\<lceil>y\<rceil> \<le> ?q + 1" using y1(2) [OF False] by (simp only: ceiling_le_iff less_imp_le)
    ultimately show ?thesis using d False by auto
  qed
  show "\<lfloor>y\<rfloor> \<in> (if 100 dvd n then {?q, ?q - 1} else {?q})"
  proof (cases "?r = 0")
    case True
    have "?q - 1 \<le> \<lfloor>y\<rfloor>" using y0(1) [OF True] by (simp only: le_floor_iff less_imp_le)
    moreover have "\<lfloor>y\<rfloor> < ?q + 1" using y0(2) [OF True] by (simp only: floor_less_iff)
    ultimately show ?thesis using d True by auto
  next
    case False
    have "?q \<le> \<lfloor>y\<rfloor>" using y1(1) [OF False] by (simp only: le_floor_iff less_imp_le)
    moreover have "\<lfloor>y\<rfloor> < ?q + 1" using y1(2) [OF False] by (simp only: floor_less_iff)
    ultimately show ?thesis using d False by auto
  qed
qed

text \<open>
  Claim C11. The percent scale-up limit, computed in float64, is the exact limit rounded up,
  except that rounding may add one replica when the exact limit is an integer.
\<close>

theorem percent_up_exact:
  assumes "0 \<le> s" "s \<le> max_i32" "0 \<le> v" "v \<le> max_i32" "s * (100 + v) < 100 * max_i32"
  shows "percent_up cvt s v \<in>
    (if 100 dvd s * (100 + v) then {s * (100 + v) div 100, s * (100 + v) div 100 + 1}
     else {s * (100 + v) div 100 + 1})"
proof -
  let ?n = "s * (100 + v)" and ?y = "f64_mul (of_int s) (f64_add 1 (f64_div (of_int v) 100))"
  define x where "x = (of_int s * (1 + of_int v / 100) :: rat)"
  have x: "x = of_int ?n / 100" by (simp add: x_def field_simps)
  have "0 \<le> ?n" using assms by simp
  then have "0 \<le> x" "x < of_int max_i32"
    using assms(5) by (simp_all only: x of_int_less_iff [symmetric, where 'a = rat])
  moreover have "\<bar>?y - x\<bar> \<le> x * 4 * u53"
    unfolding x_def by (rule percent_product_up [OF assms(1-4)])
  ultimately have "\<bar>?y - of_int ?n / 100\<bar> < 1 / 100" by (simp add: x)
  from hundredths(1) [OF this] have c: "\<lceil>?y\<rceil> \<in> (if 100 dvd ?n then {?n div 100, ?n div 100 + 1}
      else {?n div 100 + 1})" .
  have "0 \<le> ?n div 100" "?n div 100 + 1 \<le> max_i32" using assms(5) \<open>0 \<le> ?n\<close> by simp_all
  then have "in_i32 k" if "k \<in> (if 100 dvd ?n then {?n div 100, ?n div 100 + 1} else {?n div 100 + 1})" for k
    using that by (auto simp: in_i32_def split: if_splits)
  from this [OF c] have "in_i32 \<lceil>?y\<rceil>" .
  then have "percent_up cvt s v = \<lceil>?y\<rceil>"
    by (simp add: percent_up_def f64_to_i32_def trunc_def)
  with c show ?thesis by simp
qed


theorem percent_up_exact_witness: "percent_up (\<lambda>_. 0) 100 10 \<in> {110, 111}"
  using percent_up_exact [of 100 10 "\<lambda>_. 0"] by simp

text \<open>At an integer the limit can be one replica too many: 100 replicas with 10 percent.\<close>

lemma percent_up_overshoot: "percent_up cvt 100 10 = 111"
  by code_simp

section \<open>Normalisation\<close>

lemma convert_rate_within_bounds:
  assumes "convertDesiredReplicasWithBehaviorRate cvt now args c = Ok (r, why)"
    and "na_min args \<le> na_current args" "na_current args \<le> na_max args"
  shows "min (na_current args) (na_desired args) \<le> r \<and> r \<le> max (na_current args) (na_desired args)
    \<and> (na_current args \<noteq> na_desired args \<longrightarrow> na_min args \<le> r \<and> r \<le> na_max args)
    \<and> (why = DesiredWithinRange \<longleftrightarrow> r = na_desired args)"
  using assms
  by (auto simp: convertDesiredReplicasWithBehaviorRate_def Let_def
      split: if_splits outcome.splits prod.splits)

lemma scale_up_limit: "0 \<le> cur \<Longrightarrow> cur < 2 ^ 30 \<Longrightarrow> calculateScaleUpLimit cvt cur = max (2 * cur) 4"
proof -
  assume cur: "0 \<le> cur" "cur < 2 ^ 30"
  have "f64_mul 2 (of_int cur) = of_int (2 * cur)"
    using fl_of_int [of "2 * cur"] cur by (simp add: f64_mul_def)
  then have "max (f64_mul 2 (of_int cur)) 4 = of_int (max (2 * cur) 4)"
    by (simp add: max_def)
  moreover have "in_i32 (max (2 * cur) 4)" using cur by (auto simp: in_i32_def)
  ultimately show ?thesis by (simp only: calculateScaleUpLimit_def f64_to_i32_def trunc_def floor_of_int
        ceiling_of_int if_cancel if_True)
qed

lemma convert_rules_is_clamp:
  assumes "lo \<le> cur" "cur \<le> hi" "0 \<le> cur" "cur < 2 ^ 30"
  shows "fst (convertDesiredReplicasWithRules cvt cur des lo hi)
      = max lo (min des (min hi (max (2 * cur) 4)))"
  using assms by (auto simp: convertDesiredReplicasWithRules_def scale_up_limit Let_def)

text \<open>What stabilisation with behaviours returns, on the samples of the two windows.\<close>

definition window_min :: "int \<Rightarrow> int \<Rightarrow> recommendation list \<Rightarrow> int" where
  "window_min cutoff d recs = Min (insert d (rec_replicas ` {r \<in> set recs. cutoff < rec_time r}))"

definition window_max :: "int \<Rightarrow> int \<Rightarrow> recommendation list \<Rightarrow> int" where
  "window_max cutoff d recs = Max (insert d (rec_replicas ` {r \<in> set recs. cutoff < rec_time r}))"

lemma scan_recs2_windows:
  "scan_recs2 uc dc i rs d d old
     = (window_min uc d rs, window_max dc d rs, snd (snd (scan_recs2 uc dc i rs d d old)))"
  by (rule prod_eqI; (rule prod_eqI)?)
     (simp_all add: scan_recs2_up scan_recs2_down foldl_min_Min foldl_max_Max window_min_def window_max_def)

lemma stabilize_behaviors_clamps:
  fixes now :: int and c :: hpa_ctl
  assumes "window_of (na_up args) = Ok u" "window_of (na_down args) = Ok d"
  defines "lo \<equiv> window_min (now - second * u) (na_desired args) (entries (hc_recs c) (na_key args))"
    and "hi \<equiv> window_max (now - second * d) (na_desired args) (entries (hc_recs c) (na_key args))"
  shows "\<exists>why c'. stabilizeRecommendationWithBehaviors now now2 args c
            = Ok (min hi (max lo (na_current args)), why, c')
          \<and> lo \<le> na_desired args \<and> na_desired args \<le> hi"
proof -
  have "lo \<le> na_desired args" "na_desired args \<le> hi"
    by (simp_all add: lo_def hi_def window_min_def window_max_def)
  moreover obtain old where
    "scan_recs2 (now - second * u) (now - second * d) 0 (entries (hc_recs c) (na_key args))
       (na_desired args) (na_desired args) None = (lo, hi, old)"
    using scan_recs2_windows [of "now - second * u" "now - second * d" 0 "entries (hc_recs c) (na_key args)"
        "na_desired args" None] by (auto simp: lo_def hi_def)
  moreover have "clamp_recommendation x lo hi = min hi (max lo x)" for x
    by (simp add: clamp_recommendation_def Let_def max_def min_def)
  ultimately show ?thesis
    using assms(1,2) by (simp add: stabilizeRecommendationWithBehaviors_def)
qed

section \<open>The change allowed in a period\<close>

definition log_change :: "int \<Rightarrow> scale_event list \<Rightarrow> int" where
  "log_change cutoff evs = sum_list (map ev_change (filter (\<lambda>e. cutoff < ev_time e) evs))"

lemma getReplicasChange_log:
  "getReplicasChangePerPeriod now p evs = i32 (log_change (now - second * p) evs)"
proof -
  have "foldl (\<lambda>n e. if ev_time e > c then i32 (n + ev_change e) else n) (i32 a) evs
      = i32 (a + log_change c evs)" for a c
    by (induction evs arbitrary: a) (auto simp: log_change_def i32_arith add.assoc)
  from this [of "now - second * p" 0] show ?thesis
    by (simp add: getReplicasChangePerPeriod_def)
qed

lemma log_change_obs:
  "log_change c evs
     = sum_mset (image_mset fst (filter_mset (\<lambda>o'. c < snd o') (filter_mset (\<lambda>o'. c \<le> snd o')
         (image_mset ev_obs (mset evs)))))"
  by (induction evs) (auto simp: log_change_def)

text \<open>A call is the two clock readings and the two replica counts.\<close>

definition up_call :: "int \<times> int \<times> int \<times> int \<Rightarrow> bool" where
  "up_call x = (case x of (a, t, prev, new) \<Rightarrow> prev < new)"

definition call_event :: "int \<times> int \<times> int \<times> int \<Rightarrow> scale_event" where
  "call_event x = (case x of (a, t, prev, new) \<Rightarrow>
     \<lparr>ev_change = (if prev < new then i32 (new - prev) else i32 (prev - new)), ev_time = t,
      ev_outdated = False\<rparr>)"

lemma entries_if [simp]: "entries (\<lambda>e. if e = k then Some xs else m e) k = xs"
  by (simp add: entries_def)

lemma store_run_up:
  "entries (hc_up (store_run (Some b) key calls c)) key
     = fold (\<lambda>(c, x). push_event c x)
         (map (\<lambda>x. ((fst x, getLongestPolicyPeriod (bh_up b)), call_event x)) (filter up_call calls))
         (entries (hc_up c) key)"
proof (induction calls arbitrary: c)
  case (Cons x calls)
  then show ?case
    by (cases x) (simp add: store_run_def storeScaleEvent_def up_call_def call_event_def add_event_push)
qed (simp add: store_run_def)

lemma store_run_down:
  "entries (hc_down (store_run (Some b) key calls c)) key
     = fold (\<lambda>(c, x). push_event c x)
         (map (\<lambda>x. ((fst x, getLongestPolicyPeriod (bh_down b)), call_event x))
            (filter (\<lambda>x. \<not> up_call x) calls))
         (entries (hc_down c) key)"
proof (induction calls arbitrary: c)
  case (Cons x calls)
  then show ?case
    by (cases x) (simp add: store_run_def storeScaleEvent_def up_call_def call_event_def add_event_push)
qed (simp add: store_run_def)

lemma events_refine_log:
  assumes "sorted (map fst calls)" "\<forall>x\<in>set calls. fst x \<le> now" "p \<le> longest"
  shows "log_change (now - second * p)
      (fold (\<lambda>(c, x). push_event c x) (map (\<lambda>x. ((fst x, longest), call_event x)) (filter P calls)) [])
    = log_change (now - second * p) (map call_event (filter P calls))"
proof -
  let ?ps = "map (\<lambda>x. ((fst x, longest), call_event x)) (filter P calls)"
  have srt: "sorted (map ((\<lambda>c. fst c - second * snd c) \<circ> fst) ?ps)"
    using sorted_map_diff [OF sorted_filter [OF assms(1), of P], of "second * longest"]
    by (simp add: comp_def)
  define c0 where "c0 = Min (insert (now - second * p) (set (map ((\<lambda>c. fst c - second * snd c) \<circ> fst) ?ps)))"
  have c0: "c0 \<le> now - second * p" "\<forall>q\<in>set ?ps. c0 \<le> fst (fst q) - second * snd (fst q)"
    by (auto simp: c0_def intro!: Min.coboundedI)
  have "filter_mset (\<lambda>o'. now - second * p \<le> snd o')
      (image_mset ev_obs (mset (fold (\<lambda>(c, x). push_event c x) ?ps [])))
    = filter_mset (\<lambda>o'. now - second * p \<le> snd o') (image_mset ev_obs (mset [] + mset (map snd ?ps)))"
    by (rule evs.run_refines_log [OF srt _ c0(2) _ c0(1)])
       (use assms(2,3) in \<open>auto simp: flags_stale_def intro: diff_mono\<close>)
  then show ?thesis unfolding log_change_obs by (simp add: comp_def)
qed

text \<open>
  Claim C7. The scale-up events the controller keeps refine the log of all scale-ups: although
  outdated entries are overwritten, the change it reads off them for any policy period up to
  the longest is the sum of all scale-ups of that period (as an int32).
\<close>

theorem scale_up_events_refine_log:
  assumes "hc_up c key = None" "sorted (map fst calls)" "\<forall>x\<in>set calls. fst x \<le> now"
    "p \<le> getLongestPolicyPeriod (bh_up b)"
  shows "getReplicasChangePerPeriod now p (entries (hc_up (store_run (Some b) key calls c)) key)
    = i32 (\<Sum>(a, t, prev, new) \<leftarrow> filter (\<lambda>(a, t, prev, new). prev < new \<and> now - second * p < t) calls.
            new - prev)"
proof -
  have e: "entries (hc_up c) key = []" using assms(1) by (simp add: entries_def)
  have f: "map ev_change (filter (\<lambda>e. d < ev_time e) (map call_event (filter up_call calls)))
      = map (\<lambda>x. i32 (case x of (a, t, prev, new) \<Rightarrow> new - prev))
          (filter (\<lambda>(a, t, prev, new). prev < new \<and> d < t) calls)" for d
    by (induction calls) (auto simp: call_event_def up_call_def)
  show ?thesis
    unfolding getReplicasChange_log store_run_up e events_refine_log [OF assms(2-4)]
    unfolding log_change_def f
    by (rule i32_sum_list)
qed

text \<open>The loop of the \<open>Min\<close> select policy.\<close>

definition min_step :: "('p \<Rightarrow> int \<Rightarrow> int) \<Rightarrow> int \<times> int \<Rightarrow> 'p \<Rightarrow> int \<times> int" where
  "min_step f = (\<lambda>(result, proposed) p. (min result (f p proposed), f p proposed))"

lemma foldl_min_step_le: "fst (foldl (min_step f) s ps) \<le> fst s"
  by (induction ps arbitrary: s)
     (fastforce simp: min_step_def split: prod.splits intro: order_trans)+

lemma foldl_min_step_member:
  assumes "p \<in> set ps" "\<And>x. f p x = q"
  shows "fst (foldl (min_step f) s ps) \<le> q"
  using assms(1)
proof (induction ps arbitrary: s)
  case (Cons a ps)
  show ?case
  proof (cases "a = p")
    case True
    have "fst (foldl (min_step f) (min_step f s a) ps) \<le> fst (min_step f s a)"
      by (rule foldl_min_step_le)
    also have "\<dots> \<le> q" using True assms(2) by (auto simp: min_step_def split: prod.splits)
    finally show ?thesis by simp
  next
    case False
    with Cons show ?thesis by simp
  qed
qed simp

lemma scale_up_limit_Min:
  assumes "rl_select r = Some SelMin" "rl_policies r = Some ps"
  shows "calculateScaleUpLimitWithScalingRules cvt now cur ups downs (Some r)
    = Ok (fst (foldl (min_step (\<lambda>p. propose_up cvt (period_start now cur ups downs p) p)) (max_i32, 0) ps))"
  using assms by (simp add: calculateScaleUpLimitWithScalingRules_def min_step_def Let_def)

text \<open>
  Claim C8. With the \<open>Min\<close> select policy every policy of the list binds: a \<open>Pods\<close> policy of
  value \<open>v\<close> lets at most \<open>v\<close> replicas be added in its period, net of those removed.
\<close>

theorem min_policy_bounds_rate:
  fixes now :: int
  assumes rules: "na_up args = Some r" "rl_select r = Some SelMin" "rl_policies r = Some ps"
      "p \<in> set ps" "pol_type p = PodsPolicy"
    and conv: "convertDesiredReplicasWithBehaviorRate cvt now args c = Ok (res, why)"
    and up: "na_current args < na_desired args" "na_current args < res"
  defines "U \<equiv> log_change (now - second * pol_period p) (entries (hc_up c) (na_key args))"
    and "D \<equiv> log_change (now - second * pol_period p) (entries (hc_down c) (na_key args))"
  assumes rng: "in_i32 (na_current args - U + D + pol_value p)"
  shows "U + (res - na_current args) \<le> pol_value p + D"
proof -
  obtain l where l: "calculateScaleUpLimitWithScalingRules cvt now (na_current args)
      (entries (hc_up c) (na_key args)) (entries (hc_down c) (na_key args)) (Some r) = Ok l"
    using scale_up_limit_Min [OF rules(2,3)] by blast
  have "l \<le> i32 (na_current args - U + D + pol_value p)"
  proof -
    have "fst (foldl (min_step (\<lambda>p. propose_up cvt
        (period_start now (na_current args) (entries (hc_up c) (na_key args))
          (entries (hc_down c) (na_key args)) p) p)) (max_i32, 0) ps)
      \<le> i32 (na_current args - U + D + pol_value p)"
      by (rule foldl_min_step_member [OF rules(4)])
         (simp add: propose_up_def rules(5) period_start_def getReplicasChange_log U_def D_def i32_arith)
    then show ?thesis using l by (simp add: scale_up_limit_Min [OF rules(2,3)])
  qed
  then have "l \<le> na_current args - U + D + pol_value p" using rng by simp
  moreover have "res \<le> max l (na_current args)"
    using conv up l rules(1)
    by (auto simp: convertDesiredReplicasWithBehaviorRate_def Let_def split: if_splits prod.splits)
  ultimately show ?thesis using up by linarith
qed

section \<open>Concrete instances\<close>

definition min_rules :: scaling_rules where
  "min_rules = \<lparr>rl_window = Some 0, rl_select = Some SelMin,
     rl_policies = Some [\<lparr>pol_type = PodsPolicy, pol_value = 2, pol_period = 60\<rparr>]\<rparr>"

definition empty_ctl :: hpa_ctl where
  "empty_ctl = \<lparr>hc_window = 300, hc_recs = Map.empty, hc_up = Map.empty, hc_down = Map.empty\<rparr>"

theorem scale_up_events_witness:
  "let b = \<lparr>bh_up = Some min_rules, bh_down = None\<rparr>;
       calls = [(0, 1, 3, 5), (70 * second, 70 * second, 5, 7), (90 * second, 90 * second, 7, 6)]
   in getReplicasChangePerPeriod (100 * second) 60 (entries (hc_up (store_run (Some b) ''k'' calls empty_ctl)) ''k'') = 2"
proof -
  define calls :: "(int \<times> int \<times> int \<times> int) list"
    where "calls = [(0, 1, 3, 5), (70 * second, 70 * second, 5, 7), (90 * second, 90 * second, 7, 6)]"
  have "getReplicasChangePerPeriod (100 * second) 60
      (entries (hc_up (store_run (Some \<lparr>bh_up = Some min_rules, bh_down = None\<rparr>) ''k'' calls empty_ctl)) ''k'')
    = i32 (\<Sum>(a, t, prev, new) \<leftarrow> filter (\<lambda>(a, t, prev, new). prev < new \<and> 100 * second - second * 60 < t) calls.
        new - prev)"
    by (rule scale_up_events_refine_log)
       (simp_all add: empty_ctl_def calls_def getLongestPolicyPeriod_def min_rules_def)
  then show ?thesis by (simp add: calls_def in_i32_def)
qed

theorem min_policy_witness:
  "\<exists>res why. convertDesiredReplicasWithBehaviorRate (\<lambda>_. 0) (100 * second)
      \<lparr>na_key = ''k'', na_up = Some min_rules, na_down = None, na_min = 1, na_max = 9, na_current = 3, na_desired = 8\<rparr>
      empty_ctl = Ok (res, why) \<and> res - 3 \<le> 2"
proof -
  define args where "args = \<lparr>na_key = ''k'', na_up = Some min_rules, na_down = None, na_min = 1, na_max = 9,
    na_current = 3, na_desired = 8\<rparr>"
  have conv: "convertDesiredReplicasWithBehaviorRate (\<lambda>_. 0) (100 * second) args empty_ctl = Ok (5, ScaleUpLimit)"
    by (simp add: args_def min_rules_def empty_ctl_def convertDesiredReplicasWithBehaviorRate_def entries_def
        calculateScaleUpLimitWithScalingRules_def propose_up_def period_start_def getReplicasChangePerPeriod_def
        in_i32_def)
  have "log_change d (entries (hc_up empty_ctl) k) = 0" "log_change d (entries (hc_down empty_ctl) k) = 0" for d k
    by (simp_all add: log_change_def empty_ctl_def entries_def)
  then have "0 + (5 - 3) \<le> (2 :: int) + 0"
    using min_policy_bounds_rate [of args min_rules _ "\<lparr>pol_type = PodsPolicy, pol_value = 2, pol_period = 60\<rparr>", OF _ _ _ _ _ conv]
    by (simp add: args_def min_rules_def in_i32_def)
  then show ?thesis using conv by (simp add: args_def)
qed

end
