(* ===== verification/ClusterTypes.thy ===== *)
theory ClusterTypes
  imports Prelude "HOL-Library.AList"
begin

text \<open>
  The NebulaCluster resource (\<open>apis/apps/v1alpha1/nebulacluster_types.go\<close>) and the parts of
  the Kubernetes API types it embeds. Structs are records, field by field; a Go pointer is an
  \<open>option\<close>; a \<open>map[string]string\<close> is an association list with distinct keys (\<open>nil\<close> and the
  empty map are both \<open>[]\<close>, except for the fields the code compares with \<open>nil\<close>, which are
  \<open>option\<close>s). API values the operator only passes along are opaque tokens \<open>k8s\<close>. Instants
  and durations are nanoseconds; the zero \<open>metav1.Time\<close> is \<open>zero_time\<close>.
\<close>

section \<open>Maps and opaque values\<close>

datatype k8s = K8s string

type_synonym strmap = "(string \<times> string) list"

definition map_val :: "strmap \<Rightarrow> string \<Rightarrow> string" where
  "map_val m k = (case map_of m k of None \<Rightarrow> '''' | Some v \<Rightarrow> v)"

definition has_key :: "(string \<times> 'v) list \<Rightarrow> string \<Rightarrow> bool" where
  "has_key m k \<longleftrightarrow> map_of m k \<noteq> None"

definition same_map :: "(string \<times> 'v) list \<Rightarrow> (string \<times> 'v) list \<Rightarrow> bool" where
  "same_map a b \<longleftrightarrow> list_all (\<lambda>k. map_of a k = map_of b k) (map fst a @ map fst b)"

lemma same_map_iff: "same_map a b \<longleftrightarrow> map_of a = map_of b"
proof
  assume h: "same_map a b"
  show "map_of a = map_of b"
  proof
    fix k
    show "map_of a k = map_of b k"
    proof (cases "k \<in> set (map fst a @ map fst b)")
      case True
      with h show ?thesis unfolding same_map_def list_all_iff by blast
    next
      case False
      then have "map_of a k = None" "map_of b k = None" by (auto simp: map_of_eq_None_iff)
      then show ?thesis by simp
    qed
  qed
qed (simp add: same_map_def list_all_iff)

lemma map_val_update [simp]:
  "map_val (AList.update k v m) l = (if l = k then v else map_val m l)"
  by (simp add: map_val_def update_conv)

text \<open>A dereference of a \<open>nil\<close> pointer panics; \<open>pointer.BoolDeref\<close> and its kin have a default.\<close>

definition deref :: "'a option \<Rightarrow> 'a outcome" where
  "deref p = (case p of None \<Rightarrow> Panic | Some x \<Rightarrow> Ok x)"

definition deref_or :: "'a \<Rightarrow> 'a option \<Rightarrow> 'a" where
  "deref_or d p = (case p of None \<Rightarrow> d | Some x \<Rightarrow> x)"

lemma deref_simps [simp]: "deref (Some x) = Ok x" "deref None = Panic"
  by (simp_all add: deref_def)

lemma deref_or_simps [simp]: "deref_or d (Some x) = x" "deref_or d None = d"
  by (simp_all add: deref_or_def)

definition zero_time :: int where
  "zero_time = - 62135596800000000000"

section \<open>Object metadata\<close>

record owner_reference =
  or_api_version :: string
  or_kind :: string
  or_name :: string
  or_uid :: string
  or_controller :: bool
  or_block_deletion :: bool

record object_meta =
  om_name :: string
  om_namespace :: string
  om_uid :: string
  om_version :: string
  om_generation :: int
  om_created :: int
  om_labels :: strmap
  om_annotations :: strmap
  om_finalizers :: "string list"
  om_deletion :: "int option"
  om_owners :: "owner_reference list"

definition plain_meta :: "string \<Rightarrow> string \<Rightarrow> object_meta" where
  "plain_meta ns name =
     \<lparr>om_name = name, om_namespace = ns, om_uid = '''', om_version = '''', om_generation = 0,
      om_created = zero_time, om_labels = [],
      om_annotations = [], om_finalizers = [], om_deletion = None, om_owners = []\<rparr>"

section \<open>Component specifications\<close>

text \<open>\<open>corev1.ResourceList\<close>: quantities are exact values in thousandths.\<close>

type_synonym resource_list = "(string \<times> int) list"

record resource_requirements =
  rq_requests :: "resource_list option"
  rq_limits :: "resource_list option"

record topology_constraint =
  tc_key :: string
  tc_when :: string

record env_var =
  ev_name :: string
  ev_value :: string
  ev_from :: string

record volume_mount =
  vm_name :: string
  vm_read_only :: bool
  vm_path :: string
  vm_sub_path :: string

datatype volume_source =
    PvcSource string
  | SecretSource string "(string \<times> string) list"
  | ConfigMapSource string "(string \<times> string) list"
  | EmptyDirSource
  | OtherSource k8s

record volume =
  vo_name :: string
  vo_source :: volume_source

record container_port =
  cp_name :: string
  cp_port :: int

record security_context =
  sx_run_as_non_root :: "bool option"
  sx_run_as_user :: "int option"
  sx_privileged :: "bool option"
  sx_rest :: k8s

text \<open>
  An HTTP probe: path, port, initial delay, timeout, period and failure threshold (0 when it is not set).
\<close>

datatype probe = HttpProbe string int int int int int | OtherProbe k8s

record container =
  ct_name :: string
  ct_image :: string
  ct_command :: "string list"
  ct_args :: "string list"
  ct_env :: "env_var list"
  ct_ports :: "container_port list"
  ct_resources :: resource_requirements
  ct_mounts :: "volume_mount list"
  ct_liveness :: "probe option"
  ct_readiness :: "probe option"
  ct_post_start :: "string list"
  ct_pull_policy :: string
  ct_security :: "security_context option"
  ct_rest :: k8s

record component_spec =
  cs_replicas :: "int option"
  cs_resources :: "resource_requirements option"
  cs_env :: "env_var list"
  cs_image :: string
  cs_version :: string
  cs_annotations :: strmap
  cs_labels :: strmap
  cs_node_selector :: strmap
  cs_affinity :: "k8s option"
  cs_tolerations :: "k8s list"
  cs_topology :: "topology_constraint list"
  cs_security :: "security_context option"
  cs_init_containers :: "container list"
  cs_sidecars :: "container list"
  cs_volumes :: "volume list"
  cs_mounts :: "volume_mount list"
  cs_readiness :: "probe option"
  cs_liveness :: "probe option"
  cs_dns_config :: "k8s option"
  cs_dns_policy :: string

record storage_claim =
  sc_resources :: resource_requirements
  sc_class :: "string option"

record service_spec =
  ss_type :: string
  ss_annotations :: strmap
  ss_selector :: strmap
  ss_cluster_ip :: "string option"
  ss_publish_not_ready :: bool

record graphd_service_spec =
  gs_service :: service_spec
  gs_lb_ip :: "string option"
  gs_traffic_policy :: "string option"

record license_spec =
  li_secret :: string
  li_key :: string

record graphd_spec =
  gd_component :: component_spec
  gd_config :: strmap
  gd_service :: "graphd_service_spec option"
  gd_log_claim :: "storage_claim option"

record metad_spec =
  md_component :: component_spec
  md_config :: strmap
  md_service :: "service_spec option"
  md_log_claim :: "storage_claim option"
  md_data_claim :: "storage_claim option"
  md_license :: "license_spec option"
  md_license_url :: "string option"

record storaged_spec =
  sd_component :: component_spec
  sd_config :: strmap
  sd_service :: "service_spec option"
  sd_log_claim :: "storage_claim option"
  sd_data_claims :: "storage_claim list"
  sd_auto_balance :: "bool option"
  sd_force_update :: "bool option"
  sd_concurrent :: "bool option"

section \<open>The cluster specification\<close>

record ssl_certs =
  sl_server_secret :: string
  sl_server_cert :: string
  sl_server_key :: string
  sl_client_secret :: string
  sl_client_cert :: string
  sl_client_key :: string
  sl_ca_secret :: string
  sl_ca_cert :: string
  sl_client_ca_secret :: string
  sl_client_ca_cert :: string
  sl_insecure :: "bool option"
  sl_server_name :: string
  sl_auto_mount :: "bool option"

record log_rotate =
  lr_rotate :: int
  lr_size :: string

record agent_spec =
  ag_image :: string
  ag_version :: string
  ag_resources :: resource_requirements
  ag_env :: "env_var list"
  ag_mounts :: "volume_mount list"
  ag_rate_limit :: "int option"
  ag_heartbeat :: int

record coredump_spec =
  co_volume :: "storage_claim option"
  co_max_time :: "string option"

record workload_reference =
  wr_name :: string
  wr_version :: string

record exporter_spec =
  xp_component :: component_spec
  xp_max_requests :: int
  xp_collect_regex :: string
  xp_ignore_regex :: string
  xp_http_port :: int

record console_spec =
  cn_username :: string
  cn_password :: string
  cn_image :: string
  cn_version :: string
  cn_node_selector :: strmap

text \<open>\<open>graphd\<close>, \<open>metad\<close> and \<open>storaged\<close> are required by the resource definition: never \<open>nil\<close>.\<close>

record cluster_spec =
  sp_graphd :: graphd_spec
  sp_metad :: metad_spec
  sp_storaged :: storaged_spec
  sp_reference :: workload_reference
  sp_suspend :: "bool option"
  sp_scheduler :: string
  sp_topology :: "topology_constraint list"
  sp_pv_reclaim :: "bool option"
  sp_pull_policy :: "string option"
  sp_pull_secrets :: "string list"
  sp_node_selector :: strmap
  sp_affinity :: "k8s option"
  sp_tolerations :: "k8s list"
  sp_enable_br :: "bool option"
  sp_auto_failover :: "bool option"
  sp_failover_period :: int
  sp_log_rotate :: "log_rotate option"
  sp_exporter :: "exporter_spec option"
  sp_console :: "console_spec option"
  sp_ssl :: "ssl_certs option"
  sp_agent :: "agent_spec option"
  sp_alpine :: "string option"
  sp_coredump :: "coredump_spec option"

section \<open>The cluster status\<close>

datatype component_phase =
  NoPhase | RunningPhase | ScaleInPhase | ScaleOutPhase | UpdatePhase | SuspendPhase

record workload_status =
  ws_generation :: int
  ws_ready :: int
  ws_replicas :: int
  ws_updated :: int
  ws_current :: int
  ws_collisions :: "int option"
  ws_current_rev :: string
  ws_update_rev :: string
  ws_available :: int

record failure_host =
  fh_host :: string
  fh_pvcs :: "string list"
  fh_restarted :: bool
  fh_rebuilt :: bool
  fh_node_down :: bool
  fh_created :: int
  fh_confirmed :: int
  fh_deleted :: int

record provisioned_volume =
  pv_volume :: string
  pv_class :: string
  pv_capacity :: string

record volume_status =
  vs_volumes :: "(string \<times> provisioned_volume) list option"
  vs_done :: bool

record component_status =
  st_version :: string
  st_phase :: component_phase
  st_workload :: "workload_status option"
  st_failures :: "(string \<times> failure_host) list option"
  st_volume :: "volume_status option"

record balance_job =
  bj_space :: int
  bj_job :: int

record storaged_status =
  sg_component :: component_status
  sg_hosts_added :: bool
  sg_removed_spaces :: "int list option"
  sg_balanced_spaces :: "int list option"
  sg_last_balanced :: "int option"
  sg_last_job :: "balance_job option"
  sg_failures :: "(string \<times> failure_host) list option"
  sg_volume :: "volume_status option"

record cluster_condition =
  cc_type :: string
  cc_status :: string
  cc_update_time :: int
  cc_transition_time :: int
  cc_reason :: string
  cc_message :: string

record cluster_status =
  cl_observed :: int
  cl_graphd :: component_status
  cl_metad :: component_status
  cl_storaged :: storaged_status
  cl_conditions :: "cluster_condition list"
  cl_version :: string

record nebula_cluster =
  nc_api_version :: string
  nc_kind :: string
  nc_meta :: object_meta
  nc_spec :: cluster_spec
  nc_status :: cluster_status

end
