(* ===== verification/Components.thy ===== *)
theory Components
  imports ClusterTypes
begin

text \<open>
  The accessors of a NebulaCluster and of its three components
  (\<open>apis/apps/v1alpha1/nebulacluster.go\<close>, \<open>nebulacluster_component.go\<close>,
  \<open>nebulacluster_graphd.go\<close>, \<open>nebulacluster_metad.go\<close>, \<open>nebulacluster_storaged.go\<close>,
  \<open>nebulacluster_common.go\<close>, \<open>apis/pkg/label/label.go\<close>): names, addresses, labels, ports,
  readiness and the status fields each component owns. The interface
  \<open>NebulaClusterComponent\<close>, as far as the status is concerned, is the locale
  \<open>component_status_store\<close>; the three components interpret it. \<open>getenv\<close> is \<open>os.Getenv\<close>.
\<close>

section \<open>Labels\<close>

abbreviation NameLabelKey :: string where "NameLabelKey \<equiv> ''app.kubernetes.io/name''"
abbreviation ManagedByLabelKey :: string where "ManagedByLabelKey \<equiv> ''app.kubernetes.io/managed-by''"
abbreviation ComponentLabelKey :: string where "ComponentLabelKey \<equiv> ''app.kubernetes.io/component''"
abbreviation ClusterLabelKey :: string where "ClusterLabelKey \<equiv> ''app.kubernetes.io/cluster''"
abbreviation NebulaOperator :: string where "NebulaOperator \<equiv> ''nebula-operator''"

definition label_New :: strmap where
  "label_New = [(NameLabelKey, ''nebula-graph''), (ManagedByLabelKey, NebulaOperator)]"

definition label_Cluster :: "string \<Rightarrow> strmap \<Rightarrow> strmap" where
  "label_Cluster name l = AList.update ClusterLabelKey name l"

definition label_Component :: "string \<Rightarrow> strmap \<Rightarrow> strmap" where
  "label_Component name l = AList.update ComponentLabelKey name l"

definition label_IsNebulaComponent :: "strmap \<Rightarrow> bool" where
  "label_IsNebulaComponent l \<longleftrightarrow>
     map_val l ComponentLabelKey = ''graphd'' \<or> map_val l ComponentLabelKey = ''metad''
     \<or> map_val l ComponentLabelKey = ''storaged''"

definition label_IsManagedByNebulaOperator :: "strmap \<Rightarrow> bool" where
  "label_IsManagedByNebulaOperator l \<longleftrightarrow> map_val l ManagedByLabelKey = NebulaOperator"

section \<open>Component types and names\<close>

datatype component_type = GraphdComponentType | MetadComponentType | StoragedComponentType

fun type_String :: "component_type \<Rightarrow> string" where
  "type_String GraphdComponentType = ''graphd''"
| "type_String MetadComponentType = ''metad''"
| "type_String StoragedComponentType = ''storaged''"

definition getComponentName :: "string \<Rightarrow> component_type \<Rightarrow> string" where
  "getComponentName clusterName typ = clusterName @ ''-'' @ type_String typ"

definition getPodName :: "string \<Rightarrow> int \<Rightarrow> string" where
  "getPodName componentName ordinal = componentName @ ''-'' @ show_int ordinal"

definition getServiceName :: "string \<Rightarrow> bool \<Rightarrow> string" where
  "getServiceName componentName isHeadless =
     (if isHeadless then componentName @ ''-headless'' else componentName @ ''-svc'')"

definition getKubernetesClusterDomain :: "(string \<Rightarrow> string) \<Rightarrow> string" where
  "getKubernetesClusterDomain getenv =
     (let domain = getenv ''KUBERNETES_CLUSTER_DOMAIN''
      in if length domain > 0 then domain else ''cluster.local'')"

definition getServiceFQDN :: "(string \<Rightarrow> string) \<Rightarrow> string \<Rightarrow> string \<Rightarrow> string" where
  "getServiceFQDN getenv service namespace =
     service @ ''.'' @ namespace @ ''.svc.'' @ getKubernetesClusterDomain getenv"

definition getPodFQDN :: "string \<Rightarrow> string \<Rightarrow> bool \<Rightarrow> string" where
  "getPodFQDN podName serviceFQDN isHeadless =
     (if isHeadless then podName @ ''.'' @ serviceFQDN else '''')"

fun getPort :: "container_port list \<Rightarrow> string \<Rightarrow> int" where
  "getPort [] portName = 0"
| "getPort (p # ps) portName = (if cp_name p = portName then cp_port p else getPort ps portName)"

definition joinHostPort :: "string \<Rightarrow> int \<Rightarrow> string" where
  "joinHostPort host port = host @ '':'' @ show_int port"

definition getConnAddresses :: "string \<Rightarrow> string \<Rightarrow> int \<Rightarrow> string list" where
  "getConnAddresses connAddress componentName replicas =
     map (\<lambda>i. getPodName componentName (int i) @ ''.'' @ connAddress) [0..<nat replicas]"

definition parseCustomPort :: "int \<Rightarrow> string \<Rightarrow> int outcome" where
  "parseCustomPort defaultPort customPort =
     (if customPort \<noteq> ''''
      then (case parse_int 64 customPort of
              None \<Rightarrow> Err (ErrPlain ''strconv.Atoi'')
            | Some v \<Rightarrow> Ok (i32 v))
      else Ok defaultPort)"

definition rollingUpdateDone :: "workload_status \<Rightarrow> bool" where
  "rollingUpdateDone w \<longleftrightarrow>
     ws_updated w = ws_replicas w \<and> ws_ready w = ws_replicas w \<and> ws_current w = ws_updated w
     \<and> ws_current_rev w = ws_update_rev w"

definition getCmKey :: "string \<Rightarrow> string" where
  "getCmKey componentType = ''nebula-'' @ componentType @ ''.conf''"

definition logVolume :: "string \<Rightarrow> string" where "logVolume t = t @ ''-log''"
definition dataVolume :: "string \<Rightarrow> string" where "dataVolume t = t @ ''-data''"
definition coredumpVolume :: "string \<Rightarrow> string" where "coredumpVolume t = t @ ''-coredump''"

definition storageDataVolume :: "string \<Rightarrow> nat \<Rightarrow> string" where
  "storageDataVolume t index =
     (if index > 0 then t @ ''-data-'' @ show_nat index else dataVolume t)"

section \<open>Switches of the cluster\<close>

abbreviation nc_name :: "nebula_cluster \<Rightarrow> string" where "nc_name nc \<equiv> om_name (nc_meta nc)"
abbreviation nc_ns :: "nebula_cluster \<Rightarrow> string" where "nc_ns nc \<equiv> om_namespace (nc_meta nc)"
abbreviation graphd_of :: "nebula_cluster \<Rightarrow> graphd_spec" where "graphd_of nc \<equiv> sp_graphd (nc_spec nc)"
abbreviation metad_of :: "nebula_cluster \<Rightarrow> metad_spec" where "metad_of nc \<equiv> sp_metad (nc_spec nc)"
abbreviation storaged_of :: "nebula_cluster \<Rightarrow> storaged_spec" where "storaged_of nc \<equiv> sp_storaged (nc_spec nc)"

definition GenerateOwnerReferences :: "nebula_cluster \<Rightarrow> owner_reference list" where
  "GenerateOwnerReferences nc =
     [\<lparr>or_api_version = nc_api_version nc, or_kind = nc_kind nc, or_name = nc_name nc,
       or_uid = om_uid (nc_meta nc), or_controller = True, or_block_deletion = True\<rparr>]"

definition IsSuspendEnabled :: "nebula_cluster \<Rightarrow> bool" where
  "IsSuspendEnabled nc = deref_or False (sp_suspend (nc_spec nc))"
definition IsPVReclaimEnabled :: "nebula_cluster \<Rightarrow> bool" where
  "IsPVReclaimEnabled nc = deref_or False (sp_pv_reclaim (nc_spec nc))"
definition IsAutoBalanceEnabled :: "nebula_cluster \<Rightarrow> bool" where
  "IsAutoBalanceEnabled nc = deref_or False (sd_auto_balance (storaged_of nc))"
definition IsForceUpdateEnabled :: "nebula_cluster \<Rightarrow> bool" where
  "IsForceUpdateEnabled nc = deref_or False (sd_force_update (storaged_of nc))"
definition ConcurrentTransfer :: "nebula_cluster \<Rightarrow> bool" where
  "ConcurrentTransfer nc = deref_or False (sd_concurrent (storaged_of nc))"
definition IsAutoFailoverEnabled :: "nebula_cluster \<Rightarrow> bool" where
  "IsAutoFailoverEnabled nc = deref_or False (sp_auto_failover (nc_spec nc))"
definition IsBREnabled :: "nebula_cluster \<Rightarrow> bool" where
  "IsBREnabled nc = deref_or False (sp_enable_br (nc_spec nc))"
definition IsLogRotateEnabled :: "nebula_cluster \<Rightarrow> bool" where
  "IsLogRotateEnabled nc \<longleftrightarrow> sp_log_rotate (nc_spec nc) \<noteq> None"

definition InsecureSkipVerify :: "nebula_cluster \<Rightarrow> bool" where
  "InsecureSkipVerify nc =
     (case sp_ssl (nc_spec nc) of None \<Rightarrow> False | Some s \<Rightarrow> deref_or False (sl_insecure s))"

definition AutoMountServerCerts :: "nebula_cluster \<Rightarrow> bool" where
  "AutoMountServerCerts nc =
     (case sp_ssl (nc_spec nc) of None \<Rightarrow> False | Some s \<Rightarrow> deref_or False (sl_auto_mount s))"

definition SslServerName :: "nebula_cluster \<Rightarrow> string" where
  "SslServerName nc = (case sp_ssl (nc_spec nc) of None \<Rightarrow> '''' | Some s \<Rightarrow> sl_server_name s)"

definition flag_on :: "strmap \<Rightarrow> string \<Rightarrow> bool" where
  "flag_on config k \<longleftrightarrow> map_val config k = ''true''"

definition IsMetadSSLEnabled :: "nebula_cluster \<Rightarrow> bool" where
  "IsMetadSSLEnabled nc \<longleftrightarrow> flag_on (gd_config (graphd_of nc)) ''enable_meta_ssl''
     \<and> flag_on (md_config (metad_of nc)) ''enable_meta_ssl''
     \<and> flag_on (sd_config (storaged_of nc)) ''enable_meta_ssl''"

definition IsClusterSSLEnabled :: "nebula_cluster \<Rightarrow> bool" where
  "IsClusterSSLEnabled nc \<longleftrightarrow> flag_on (gd_config (graphd_of nc)) ''enable_ssl''
     \<and> flag_on (md_config (metad_of nc)) ''enable_ssl''
     \<and> flag_on (sd_config (storaged_of nc)) ''enable_ssl''"

definition IsStoragedSSLEnabled :: "nebula_cluster \<Rightarrow> bool" where
  "IsStoragedSSLEnabled nc \<longleftrightarrow> flag_on (gd_config (graphd_of nc)) ''enable_storage_ssl''
     \<and> flag_on (md_config (metad_of nc)) ''enable_storage_ssl''
     \<and> flag_on (sd_config (storaged_of nc)) ''enable_storage_ssl''"

definition IsZoneEnabled :: "nebula_cluster \<Rightarrow> bool" where
  "IsZoneEnabled nc \<longleftrightarrow> map_val (md_config (metad_of nc)) ''zone_list'' \<noteq> ''''"

fun find_condition :: "string \<Rightarrow> cluster_condition list \<Rightarrow> cluster_condition option" where
  "find_condition t [] = None"
| "find_condition t (c # cs) = (if cc_type c = t then Some c else find_condition t cs)"

definition IsConditionReady :: "nebula_cluster \<Rightarrow> bool" where
  "IsConditionReady nc =
     (case find_condition ''Ready'' (cl_conditions (nc_status nc)) of
        None \<Rightarrow> False | Some c \<Rightarrow> cc_status c = ''True'')"

definition cluster_IsReady :: "nebula_cluster \<Rightarrow> bool" where
  "cluster_IsReady nc \<longleftrightarrow>
     cl_observed (nc_status nc) = om_generation (nc_meta nc) \<and> IsConditionReady nc"

section \<open>The component accessor\<close>

text \<open>\<open>buildComponentAccessor\<close>: the settings of the component, with those of the cluster behind.\<close>

definition spec_of :: "component_type \<Rightarrow> nebula_cluster \<Rightarrow> component_spec" where
  "spec_of typ nc = (case typ of
       GraphdComponentType \<Rightarrow> gd_component (graphd_of nc)
     | MetadComponentType \<Rightarrow> md_component (metad_of nc)
     | StoragedComponentType \<Rightarrow> sd_component (storaged_of nc))"

definition ca_Replicas :: "component_type \<Rightarrow> nebula_cluster \<Rightarrow> int" where
  "ca_Replicas typ nc = deref_or 0 (cs_replicas (spec_of typ nc))"

definition ca_PodImage :: "component_type \<Rightarrow> nebula_cluster \<Rightarrow> string" where
  "ca_PodImage typ nc = cs_image (spec_of typ nc) @ '':'' @ cs_version (spec_of typ nc)"

definition getResources :: "resource_requirements option \<Rightarrow> resource_requirements option" where
  "getResources res =
     map_option (\<lambda>r. \<lparr>rq_requests = map_option (AList.delete ''storage'') (rq_requests r),
                       rq_limits = map_option (AList.delete ''storage'') (rq_limits r)\<rparr>) res"

definition ca_Resources :: "component_type \<Rightarrow> nebula_cluster \<Rightarrow> resource_requirements option" where
  "ca_Resources typ nc = getResources (cs_resources (spec_of typ nc))"

definition ca_NodeSelector :: "component_type \<Rightarrow> nebula_cluster \<Rightarrow> strmap" where
  "ca_NodeSelector typ nc =
     fold (\<lambda>(k, v). AList.update k v) (cs_node_selector (spec_of typ nc))
       (fold (\<lambda>(k, v). AList.update k v) (sp_node_selector (nc_spec nc)) [])"

definition ca_Affinity :: "component_type \<Rightarrow> nebula_cluster \<Rightarrow> k8s option" where
  "ca_Affinity typ nc =
     (if cs_affinity (spec_of typ nc) = None then sp_affinity (nc_spec nc) else cs_affinity (spec_of typ nc))"

definition ca_Tolerations :: "component_type \<Rightarrow> nebula_cluster \<Rightarrow> k8s list" where
  "ca_Tolerations typ nc =
     (if cs_tolerations (spec_of typ nc) = [] then sp_tolerations (nc_spec nc)
      else cs_tolerations (spec_of typ nc))"

text \<open>A generated spread constraint: skew 1, the key, the action, the matched labels.\<close>

datatype spread_constraint = Spread int string string strmap

definition getTopologySpreadConstraints :: "topology_constraint list \<Rightarrow> strmap \<Rightarrow> spread_constraint list" where
  "getTopologySpreadConstraints constraints labels =
     map (\<lambda>c. Spread 1 (tc_key c) (tc_when c) labels) constraints"

definition ca_TopologySpreadConstraints ::
    "component_type \<Rightarrow> nebula_cluster \<Rightarrow> strmap \<Rightarrow> spread_constraint list" where
  "ca_TopologySpreadConstraints typ nc labels =
     (let tscs = (if cs_topology (spec_of typ nc) \<noteq> [] then cs_topology (spec_of typ nc)
                  else sp_topology (nc_spec nc))
      in getTopologySpreadConstraints tscs labels)"

definition ca_DNSPolicy :: "component_type \<Rightarrow> nebula_cluster \<Rightarrow> string" where
  "ca_DNSPolicy typ nc =
     (if cs_dns_policy (spec_of typ nc) \<noteq> '''' then cs_dns_policy (spec_of typ nc) else ''ClusterFirst'')"

section \<open>The components\<close>

definition comp_GetName :: "component_type \<Rightarrow> nebula_cluster \<Rightarrow> string" where
  "comp_GetName typ nc = getComponentName (nc_name nc) typ"

definition comp_GetPodName :: "component_type \<Rightarrow> nebula_cluster \<Rightarrow> int \<Rightarrow> string" where
  "comp_GetPodName typ nc ordinal = getPodName (comp_GetName typ nc) ordinal"

definition GenerateLabels :: "component_type \<Rightarrow> nebula_cluster \<Rightarrow> strmap" where
  "GenerateLabels typ nc = label_Component (type_String typ) (label_Cluster (nc_name nc) label_New)"

definition comp_GetServiceFQDN :: "(string \<Rightarrow> string) \<Rightarrow> component_type \<Rightarrow> nebula_cluster \<Rightarrow> string" where
  "comp_GetServiceFQDN getenv typ nc =
     getServiceFQDN getenv (getServiceName (comp_GetName typ nc) True) (nc_ns nc)"

definition comp_GetPodFQDN :: "(string \<Rightarrow> string) \<Rightarrow> component_type \<Rightarrow> nebula_cluster \<Rightarrow> int \<Rightarrow> string" where
  "comp_GetPodFQDN getenv typ nc ordinal =
     getPodFQDN (comp_GetPodName typ nc ordinal) (comp_GetServiceFQDN getenv typ nc) True"

definition comp_GetConfig :: "component_type \<Rightarrow> nebula_cluster \<Rightarrow> strmap" where
  "comp_GetConfig typ nc = (case typ of
       GraphdComponentType \<Rightarrow> gd_config (graphd_of nc)
     | MetadComponentType \<Rightarrow> md_config (metad_of nc)
     | StoragedComponentType \<Rightarrow> sd_config (storaged_of nc))"

definition two_ports :: "int \<Rightarrow> int \<Rightarrow> strmap \<Rightarrow> (int \<Rightarrow> int \<Rightarrow> container_port list) \<Rightarrow> container_port list" where
  "two_ports thriftDefault httpDefault config build =
     (case parseCustomPort thriftDefault (map_val config ''port'') of
        Ok thriftPort \<Rightarrow>
          (case parseCustomPort httpDefault (map_val config ''ws_http_port'') of
             Ok httpPort \<Rightarrow> build thriftPort httpPort
           | _ \<Rightarrow> [])
      | _ \<Rightarrow> [])"

definition graphd_GenerateContainerPorts :: "nebula_cluster \<Rightarrow> container_port list" where
  "graphd_GenerateContainerPorts nc = two_ports 9669 19669 (gd_config (graphd_of nc))
     (\<lambda>t h. [\<lparr>cp_name = ''thrift'', cp_port = t\<rparr>, \<lparr>cp_name = ''http'', cp_port = h\<rparr>])"

definition metad_GenerateContainerPorts :: "nebula_cluster \<Rightarrow> container_port list" where
  "metad_GenerateContainerPorts nc = two_ports 9559 19559 (md_config (metad_of nc))
     (\<lambda>t h. [\<lparr>cp_name = ''thrift'', cp_port = t\<rparr>, \<lparr>cp_name = ''http'', cp_port = h\<rparr>])"

definition storaged_GenerateContainerPorts :: "nebula_cluster \<Rightarrow> container_port list" where
  "storaged_GenerateContainerPorts nc = two_ports 9779 19779 (sd_config (storaged_of nc))
     (\<lambda>t h. [\<lparr>cp_name = ''thrift'', cp_port = t\<rparr>, \<lparr>cp_name = ''http'', cp_port = h\<rparr>,
             \<lparr>cp_name = ''admin'', cp_port = i32 (t - 1)\<rparr>])"

definition GenerateContainerPorts :: "component_type \<Rightarrow> nebula_cluster \<Rightarrow> container_port list" where
  "GenerateContainerPorts typ nc = (case typ of
       GraphdComponentType \<Rightarrow> graphd_GenerateContainerPorts nc
     | MetadComponentType \<Rightarrow> metad_GenerateContainerPorts nc
     | StoragedComponentType \<Rightarrow> storaged_GenerateContainerPorts nc)"

definition comp_GetPort :: "component_type \<Rightarrow> nebula_cluster \<Rightarrow> string \<Rightarrow> int" where
  "comp_GetPort typ nc portName = getPort (GenerateContainerPorts typ nc) portName"

definition comp_GetConnAddress ::
    "(string \<Rightarrow> string) \<Rightarrow> component_type \<Rightarrow> nebula_cluster \<Rightarrow> string \<Rightarrow> string" where
  "comp_GetConnAddress getenv typ nc portName =
     joinHostPort (comp_GetServiceFQDN getenv typ nc) (comp_GetPort typ nc portName)"

definition comp_GetEndpoints ::
    "(string \<Rightarrow> string) \<Rightarrow> component_type \<Rightarrow> nebula_cluster \<Rightarrow> string \<Rightarrow> string list" where
  "comp_GetEndpoints getenv typ nc portName =
     getConnAddresses (comp_GetConnAddress getenv typ nc portName) (comp_GetName typ nc) (ca_Replicas typ nc)"

definition graphd_IsSSLEnabled :: "nebula_cluster \<Rightarrow> bool" where
  "graphd_IsSSLEnabled nc \<longleftrightarrow>
     (flag_on (gd_config (graphd_of nc)) ''enable_graph_ssl''
      \<or> flag_on (gd_config (graphd_of nc)) ''enable_meta_ssl''
      \<or> flag_on (gd_config (graphd_of nc)) ''enable_storage_ssl''
      \<or> flag_on (gd_config (graphd_of nc)) ''enable_ssl'') \<and> sp_ssl (nc_spec nc) \<noteq> None"

definition metad_IsSSLEnabled :: "nebula_cluster \<Rightarrow> bool" where
  "metad_IsSSLEnabled nc \<longleftrightarrow>
     (flag_on (md_config (metad_of nc)) ''enable_meta_ssl''
      \<or> flag_on (md_config (metad_of nc)) ''enable_storage_ssl''
      \<or> flag_on (md_config (metad_of nc)) ''enable_ssl'') \<and> sp_ssl (nc_spec nc) \<noteq> None"

definition storaged_IsSSLEnabled :: "nebula_cluster \<Rightarrow> bool" where
  "storaged_IsSSLEnabled nc \<longleftrightarrow>
     (flag_on (sd_config (storaged_of nc)) ''enable_meta_ssl''
      \<or> flag_on (sd_config (storaged_of nc)) ''enable_storage_ssl''
      \<or> flag_on (sd_config (storaged_of nc)) ''enable_ssl'') \<and> sp_ssl (nc_spec nc) \<noteq> None"

definition IsSSLEnabled :: "component_type \<Rightarrow> nebula_cluster \<Rightarrow> bool" where
  "IsSSLEnabled typ nc = (case typ of
       GraphdComponentType \<Rightarrow> graphd_IsSSLEnabled nc
     | MetadComponentType \<Rightarrow> metad_IsSSLEnabled nc
     | StoragedComponentType \<Rightarrow> storaged_IsSSLEnabled nc)"

section \<open>The status of a component\<close>

text \<open>
  The fields of \<open>ComponentStatus\<close> through the component, as the Go selectors resolve them:
  \<open>StoragedStatus\<close> declares \<open>FailureHosts\<close> and \<open>Volume\<close> again, which hides the embedded
  ones.
\<close>

definition comp_status :: "component_type \<Rightarrow> nebula_cluster \<Rightarrow> component_status" where
  "comp_status typ nc = (case typ of
       GraphdComponentType \<Rightarrow> cl_graphd (nc_status nc)
     | MetadComponentType \<Rightarrow> cl_metad (nc_status nc)
     | StoragedComponentType \<Rightarrow> sg_component (cl_storaged (nc_status nc)))"

definition graphd_UpdateComponentStatus :: "component_status \<Rightarrow> nebula_cluster \<Rightarrow> nebula_cluster" where
  "graphd_UpdateComponentStatus st nc = nc\<lparr>nc_status := (nc_status nc)\<lparr>cl_graphd := st\<rparr>\<rparr>"

definition metad_UpdateComponentStatus :: "component_status \<Rightarrow> nebula_cluster \<Rightarrow> nebula_cluster" where
  "metad_UpdateComponentStatus st nc = nc\<lparr>nc_status := (nc_status nc)\<lparr>cl_metad := st\<rparr>\<rparr>"

definition storaged_UpdateComponentStatus :: "component_status \<Rightarrow> nebula_cluster \<Rightarrow> nebula_cluster" where
  "storaged_UpdateComponentStatus st nc =
     nc\<lparr>nc_status := (nc_status nc)\<lparr>cl_storaged := (cl_storaged (nc_status nc))\<lparr>sg_component := st\<rparr>\<rparr>\<rparr>"

definition UpdateComponentStatus ::
    "component_type \<Rightarrow> component_status \<Rightarrow> nebula_cluster \<Rightarrow> nebula_cluster" where
  "UpdateComponentStatus typ st nc = (case typ of
       GraphdComponentType \<Rightarrow> graphd_UpdateComponentStatus st nc
     | MetadComponentType \<Rightarrow> metad_UpdateComponentStatus st nc
     | StoragedComponentType \<Rightarrow> storaged_UpdateComponentStatus st nc)"

definition GetPhase :: "component_type \<Rightarrow> nebula_cluster \<Rightarrow> component_phase" where
  "GetPhase typ nc = st_phase (comp_status typ nc)"

definition SetPhase :: "component_type \<Rightarrow> component_phase \<Rightarrow> nebula_cluster \<Rightarrow> nebula_cluster" where
  "SetPhase typ ph nc = UpdateComponentStatus typ ((comp_status typ nc)\<lparr>st_phase := ph\<rparr>) nc"

definition GetWorkload :: "component_type \<Rightarrow> nebula_cluster \<Rightarrow> workload_status option" where
  "GetWorkload typ nc = st_workload (comp_status typ nc)"

definition SetWorkloadStatus ::
    "component_type \<Rightarrow> workload_status option \<Rightarrow> nebula_cluster \<Rightarrow> nebula_cluster" where
  "SetWorkloadStatus typ w nc = UpdateComponentStatus typ ((comp_status typ nc)\<lparr>st_workload := w\<rparr>) nc"

definition GetFailureHosts :: "component_type \<Rightarrow> nebula_cluster \<Rightarrow> (string \<times> failure_host) list option" where
  "GetFailureHosts typ nc = (case typ of
       StoragedComponentType \<Rightarrow> sg_failures (cl_storaged (nc_status nc))
     | _ \<Rightarrow> st_failures (comp_status typ nc))"

definition SetFailureHosts ::
    "component_type \<Rightarrow> (string \<times> failure_host) list option \<Rightarrow> nebula_cluster \<Rightarrow> nebula_cluster" where
  "SetFailureHosts typ m nc = (case typ of
       StoragedComponentType \<Rightarrow>
         nc\<lparr>nc_status := (nc_status nc)\<lparr>cl_storaged := (cl_storaged (nc_status nc))\<lparr>sg_failures := m\<rparr>\<rparr>\<rparr>
     | _ \<Rightarrow> UpdateComponentStatus typ ((comp_status typ nc)\<lparr>st_failures := m\<rparr>) nc)"

definition GetVolumeStatus :: "component_type \<Rightarrow> nebula_cluster \<Rightarrow> volume_status option" where
  "GetVolumeStatus typ nc = (case typ of
       StoragedComponentType \<Rightarrow> sg_volume (cl_storaged (nc_status nc))
     | _ \<Rightarrow> st_volume (comp_status typ nc))"

definition SetVolumeStatus ::
    "component_type \<Rightarrow> volume_status option \<Rightarrow> nebula_cluster \<Rightarrow> nebula_cluster" where
  "SetVolumeStatus typ v nc = (case typ of
       StoragedComponentType \<Rightarrow>
         nc\<lparr>nc_status := (nc_status nc)\<lparr>cl_storaged := (cl_storaged (nc_status nc))\<lparr>sg_volume := v\<rparr>\<rparr>\<rparr>
     | _ \<Rightarrow> UpdateComponentStatus typ ((comp_status typ nc)\<lparr>st_volume := v\<rparr>) nc)"

definition GetUpdateRevision :: "component_type \<Rightarrow> nebula_cluster \<Rightarrow> string" where
  "GetUpdateRevision typ nc = (case GetWorkload typ nc of None \<Rightarrow> '''' | Some w \<Rightarrow> ws_update_rev w)"

definition comp_IsReady :: "component_type \<Rightarrow> nebula_cluster \<Rightarrow> bool outcome" where
  "comp_IsReady typ nc =
     (case GetWorkload typ nc of
        None \<Rightarrow> Ok False
      | Some w \<Rightarrow>
          (case cs_replicas (spec_of typ nc) of
             None \<Rightarrow> Panic
           | Some r \<Rightarrow> Ok (r = ws_ready w \<and> rollingUpdateDone w)))"

definition comp_IsSuspending :: "component_type \<Rightarrow> nebula_cluster \<Rightarrow> bool" where
  "comp_IsSuspending typ nc \<longleftrightarrow> GetPhase typ nc = SuspendPhase"

definition comp_IsSuspended :: "component_type \<Rightarrow> nebula_cluster \<Rightarrow> bool" where
  "comp_IsSuspended typ nc \<longleftrightarrow>
     (if \<not> comp_IsSuspending typ nc then False
      else if IsSuspendEnabled nc \<and> GetWorkload typ nc \<noteq> None then False
      else True)"

definition IsAutoFailovering :: "component_type \<Rightarrow> nebula_cluster \<Rightarrow> bool" where
  "IsAutoFailovering typ nc \<longleftrightarrow>
     (case GetFailureHosts typ nc of
        None \<Rightarrow> False
      | Some m \<Rightarrow> list_ex (\<lambda>(k, h). fh_confirmed h \<noteq> zero_time) m)"

definition IsStoragedAvailable :: "nebula_cluster \<Rightarrow> bool outcome" where
  "IsStoragedAvailable nc =
     (case comp_IsReady StoragedComponentType nc of
        Ok True \<Rightarrow> Ok (sg_balanced_spaces (cl_storaged (nc_status nc)) = None
                     \<and> sg_removed_spaces (cl_storaged (nc_status nc)) = None
                     \<and> sg_last_job (cl_storaged (nc_status nc)) = None
                     \<and> sg_failures (cl_storaged (nc_status nc)) = None)
      | r \<Rightarrow> r)"

subsection \<open>The interface and its three implementations\<close>

text \<open>
  What the controllers rely on: each setter is read back by its getter and leaves the other
  fields of the component, and every field of the other components, alone.
\<close>

locale component_status_store =
  fixes ty :: component_type
    and update :: "component_status \<Rightarrow> nebula_cluster \<Rightarrow> nebula_cluster"
  assumes comp_update [simp]: "comp_status ty (update st nc) = st"
    and other_update [simp]: "t \<noteq> ty \<Longrightarrow> comp_status t (update st nc) = comp_status t nc"
    and is_update: "UpdateComponentStatus ty = update"
    and spec_update [simp]: "nc_spec (update st nc) = nc_spec nc"
    and meta_update [simp]: "nc_meta (update st nc) = nc_meta nc"
    and kept_update [simp]: "sg_failures (cl_storaged (nc_status (update st nc))) = sg_failures (cl_storaged (nc_status nc))"
      "sg_volume (cl_storaged (nc_status (update st nc))) = sg_volume (cl_storaged (nc_status nc))"
      "sg_balanced_spaces (cl_storaged (nc_status (update st nc))) = sg_balanced_spaces (cl_storaged (nc_status nc))"
      "sg_removed_spaces (cl_storaged (nc_status (update st nc))) = sg_removed_spaces (cl_storaged (nc_status nc))"
      "sg_last_job (cl_storaged (nc_status (update st nc))) = sg_last_job (cl_storaged (nc_status nc))"
      "cl_conditions (nc_status (update st nc)) = cl_conditions (nc_status nc)"
begin

lemma phase_set [simp]: "GetPhase ty (SetPhase ty ph nc) = ph"
  by (simp add: GetPhase_def SetPhase_def is_update)

lemma phase_other [simp]: "t \<noteq> ty \<Longrightarrow> GetPhase t (SetPhase ty ph nc) = GetPhase t nc"
  by (simp add: GetPhase_def SetPhase_def is_update)

lemma workload_set_phase [simp]: "GetWorkload t (SetPhase ty ph nc) = GetWorkload t nc"
  by (cases "t = ty") (simp_all add: GetWorkload_def SetPhase_def is_update)

lemma workload_set [simp]: "GetWorkload ty (SetWorkloadStatus ty w nc) = w"
  by (simp add: GetWorkload_def SetWorkloadStatus_def is_update)

lemma phase_set_workload [simp]: "GetPhase t (SetWorkloadStatus ty w nc) = GetPhase t nc"
  by (cases "t = ty") (simp_all add: GetPhase_def SetWorkloadStatus_def is_update)

lemma spec_set [simp]:
  "nc_spec (SetPhase ty ph nc) = nc_spec nc" "nc_spec (SetWorkloadStatus ty w nc) = nc_spec nc"
  by (simp_all add: SetPhase_def SetWorkloadStatus_def is_update)

lemma meta_set [simp]:
  "nc_meta (SetPhase ty ph nc) = nc_meta nc" "nc_meta (SetWorkloadStatus ty w nc) = nc_meta nc"
  by (simp_all add: SetPhase_def SetWorkloadStatus_def is_update)

lemma spec_of_set_phase [simp]: "spec_of t (SetPhase ty ph nc) = spec_of t nc"
  by (cases t) (simp_all add: spec_of_def)

lemma ready_set_phase [simp]: "comp_IsReady t (SetPhase ty ph nc) = comp_IsReady t nc"
  by (simp add: comp_IsReady_def cong: option.case_cong)

lemma failures_set_phase [simp]: "GetFailureHosts t (SetPhase ty ph nc) = GetFailureHosts t nc"
proof -
  have "st_failures (comp_status t (SetPhase ty ph nc)) = st_failures (comp_status t nc)"
    by (cases "t = ty") (simp_all add: SetPhase_def is_update)
  then show ?thesis
    by (cases t) (simp_all add: GetFailureHosts_def, simp add: SetPhase_def is_update)
qed

end

interpretation graphd: component_status_store GraphdComponentType graphd_UpdateComponentStatus
  by unfold_locales (auto simp: comp_status_def graphd_UpdateComponentStatus_def UpdateComponentStatus_def
      fun_eq_iff split: component_type.splits)

interpretation metad: component_status_store MetadComponentType metad_UpdateComponentStatus
  by unfold_locales (auto simp: comp_status_def metad_UpdateComponentStatus_def UpdateComponentStatus_def
      fun_eq_iff split: component_type.splits)

interpretation storaged: component_status_store StoragedComponentType storaged_UpdateComponentStatus
  by unfold_locales (auto simp: comp_status_def storaged_UpdateComponentStatus_def UpdateComponentStatus_def
      fun_eq_iff split: component_type.splits)

section \<open>Names\<close>

lemma getPodName_inj: "0 \<le> i \<Longrightarrow> 0 \<le> j \<Longrightarrow> getPodName c i = getPodName c j \<longleftrightarrow> i = j"
  by (simp add: getPodName_def show_int_inj)

text \<open>Two different components of clusters never share a name.\<close>

lemma type_String_no_dash: "CHR ''-'' \<notin> set (type_String t)"
  by (cases t) auto

lemma getComponentName_inj:
  "getComponentName c t = getComponentName c' t' \<longleftrightarrow> c = c' \<and> t = t'"
proof
  assume h: "getComponentName c t = getComponentName c' t'"
  have "split_last CHR ''-'' (getComponentName x y) = Some (x, type_String y)" for x y
    using split_last_append [OF type_String_no_dash] by (simp add: getComponentName_def)
  from this [of c t] this [of c' t'] h have "c = c'" "type_String t = type_String t'" by auto
  then show "c = c' \<and> t = t'" by (cases t; cases t') auto
qed simp

text \<open>
  Claim C15. Pod names identify the pod: two pods of clusters of one namespace have the same
  name only if they are the same ordinal of the same component of the same cluster.
\<close>

theorem pod_names_unique:
  assumes "0 \<le> i" "0 \<le> j"
  shows "getPodName (getComponentName c t) i = getPodName (getComponentName c' t') j
    \<longleftrightarrow> c = c' \<and> t = t' \<and> i = j"
proof -
  have split: "split_last CHR ''-'' (getPodName n k) = Some (n, show_int k)" if "0 \<le> k" for n k
    using split_last_append [of "CHR ''-''" "show_nat (nat k)" n] that
    by (simp add: getPodName_def show_int_nonneg minus_not_in_show_nat)
  show ?thesis
  proof
    assume "getPodName (getComponentName c t) i = getPodName (getComponentName c' t') j"
    then have "Some (getComponentName c t, show_int i) = Some (getComponentName c' t', show_int j)"
      by (metis split [OF assms(1)] split [OF assms(2)])
    then show "c = c' \<and> t = t' \<and> i = j"
      using assms by (simp add: getComponentName_inj show_int_inj)
  qed simp
qed

theorem pod_names_unique_witness:
  "getPodName (getComponentName ''a'' StoragedComponentType) 1 \<noteq> getPodName (getComponentName ''a'' StoragedComponentType) 11"
  using pod_names_unique [of 1 11 "''a''" StoragedComponentType "''a''" StoragedComponentType] by simp

end
