(* ===== verification/SampleCluster.thy ===== *)
theory SampleCluster
  imports Components
begin

text \<open>
  Concrete objects at which the properties are instantiated: a component with nothing but an
  image and a replica count, and the cluster of three such components.
\<close>

definition sample_component :: "int \<Rightarrow> component_spec" where
  "sample_component n =
     \<lparr>cs_replicas = Some n, cs_resources = None, cs_env = [], cs_image = ''img'', cs_version = ''v3'',
      cs_annotations = [], cs_labels = [], cs_node_selector = [], cs_affinity = None, cs_tolerations = [],
      cs_topology = [], cs_security = None, cs_init_containers = [], cs_sidecars = [], cs_volumes = [],
      cs_mounts = [], cs_readiness = None, cs_liveness = None, cs_dns_config = None, cs_dns_policy = ''''\<rparr>"

definition sample_spec :: "int \<Rightarrow> int \<Rightarrow> cluster_spec" where
  "sample_spec g s =
     \<lparr>sp_graphd = \<lparr>gd_component = sample_component g, gd_config = [], gd_service = None, gd_log_claim = None\<rparr>,
      sp_metad = \<lparr>md_component = sample_component 1, md_config = [], md_service = None, md_log_claim = None,
                  md_data_claim = None, md_license = None, md_license_url = None\<rparr>,
      sp_storaged = \<lparr>sd_component = sample_component s, sd_config = [], sd_service = None, sd_log_claim = None,
                     sd_data_claims = [], sd_auto_balance = None, sd_force_update = None, sd_concurrent = None\<rparr>,
      sp_reference = \<lparr>wr_name = ''statefulsets.apps'', wr_version = ''v1''\<rparr>,
      sp_suspend = None, sp_scheduler = ''default-scheduler'', sp_topology = [], sp_pv_reclaim = None,
      sp_pull_policy = None, sp_pull_secrets = [], sp_node_selector = [], sp_affinity = None,
      sp_tolerations = [], sp_enable_br = None, sp_auto_failover = None, sp_failover_period = 0,
      sp_log_rotate = None, sp_exporter = None, sp_console = None, sp_ssl = None, sp_agent = None,
      sp_alpine = None, sp_coredump = None\<rparr>"

definition sample_workload :: "int \<Rightarrow> workload_status" where
  "sample_workload n =
     \<lparr>ws_generation = 1, ws_ready = n, ws_replicas = n, ws_updated = n, ws_current = n, ws_collisions = None,
      ws_current_rev = ''r'', ws_update_rev = ''r'', ws_available = n\<rparr>"

definition sample_component_status :: "int \<Rightarrow> component_status" where
  "sample_component_status n =
     \<lparr>st_version = ''v3'', st_phase = RunningPhase, st_workload = Some (sample_workload n),
      st_failures = None, st_volume = None\<rparr>"

definition sample_storaged_status :: "int \<Rightarrow> storaged_status" where
  "sample_storaged_status s =
     \<lparr>sg_component = sample_component_status s, sg_hosts_added = True, sg_removed_spaces = None,
      sg_balanced_spaces = None, sg_last_balanced = None, sg_last_job = None, sg_failures = None,
      sg_volume = None\<rparr>"

definition sample_status :: "int \<Rightarrow> int \<Rightarrow> cluster_status" where
  "sample_status g s =
     \<lparr>cl_observed = 1, cl_graphd = sample_component_status g, cl_metad = sample_component_status 1,
      cl_storaged = sample_storaged_status s, cl_conditions = [], cl_version = ''v3''\<rparr>"

definition sample_cluster :: "int \<Rightarrow> int \<Rightarrow> nebula_cluster" where
  "sample_cluster g s =
     \<lparr>nc_api_version = ''apps.nebula-graph.io/v1alpha1'', nc_kind = ''NebulaCluster'',
      nc_meta = plain_meta ''ns'' ''nebula'', nc_spec = sample_spec g s, nc_status = sample_status g s\<rparr>"

lemmas sample_defs = sample_cluster_def sample_status_def sample_storaged_status_def
  sample_component_status_def sample_workload_def sample_spec_def sample_component_def plain_meta_def

end
