(* ===== verification/Workload.thy ===== *)
theory Workload
  imports Components GoFloat
begin

text \<open>
  The workload a component is run as: volumes, volume claims, containers, the StatefulSet,
  the services and the config map (\<open>apis/apps/v1alpha1/nebulacluster_common.go\<close> and the
  \<open>Generate*\<close> methods of the three components). An unstructured object of the source is the
  typed record \<open>workload\<close>. Parameters: \<open>getenv\<close> is \<open>os.Getenv\<close>, \<open>scripts\<close> gives the text
  of the shell script a container embeds, \<open>marshal\<close> is \<open>json.Marshal\<close> of a string map and
  \<open>parse_duration\<close> is \<open>time.ParseDuration\<close>.
\<close>

section \<open>Volumes\<close>

definition no_resources :: resource_requirements where
  "no_resources = \<lparr>rq_requests = None, rq_limits = None\<rparr>"

definition mount :: "string \<Rightarrow> string \<Rightarrow> string \<Rightarrow> volume_mount" where
  "mount name path sub = \<lparr>vm_name = name, vm_read_only = False, vm_path = path, vm_sub_path = sub\<rparr>"

definition ro_mount :: "string \<Rightarrow> string \<Rightarrow> string \<Rightarrow> volume_mount" where
  "ro_mount name path sub = \<lparr>vm_name = name, vm_read_only = True, vm_path = path, vm_sub_path = sub\<rparr>"

definition pvc_volume :: "string \<Rightarrow> volume" where
  "pvc_volume name = \<lparr>vo_name = name, vo_source = PvcSource name\<rparr>"

definition secret_volume :: "string \<Rightarrow> string \<Rightarrow> string \<Rightarrow> string \<Rightarrow> volume" where
  "secret_volume name secret key path = \<lparr>vo_name = name, vo_source = SecretSource secret [(key, path)]\<rparr>"

definition server_cert_mounts :: "volume_mount list" where
  "server_cert_mounts =
     [ro_mount ''server-crt'' ''/usr/local/nebula/certs/server.crt'' ''server.crt'',
      ro_mount ''server-key'' ''/usr/local/nebula/certs/server.key'' ''server.key'',
      ro_mount ''ca-crt'' ''/usr/local/nebula/certs/ca.crt'' ''ca.crt'']"

definition server_cert_volumes :: "ssl_certs \<Rightarrow> volume list" where
  "server_cert_volumes s =
     [secret_volume ''server-crt'' (sl_server_secret s) (sl_server_cert s) ''server.crt'',
      secret_volume ''server-key'' (sl_server_secret s) (sl_server_key s) ''server.key'',
      secret_volume ''ca-crt'' (sl_ca_secret s) (sl_ca_cert s) ''ca.crt'']"

definition getClientCertVolumeMounts :: "volume_mount list" where
  "getClientCertVolumeMounts =
     [ro_mount ''client-crt'' ''/usr/local/certs/client.crt'' ''client.crt'',
      ro_mount ''client-key'' ''/usr/local/certs/client.key'' ''client.key'',
      ro_mount ''client-ca-crt'' ''/usr/local/certs/ca.crt'' ''ca.crt'']"

definition getClientCertVolumes :: "ssl_certs option \<Rightarrow> volume list" where
  "getClientCertVolumes sslCerts =
     (case sslCerts of
        None \<Rightarrow> []
      | Some s \<Rightarrow>
          [secret_volume ''client-crt'' (sl_client_secret s) (sl_client_cert s) ''client.crt'',
           secret_volume ''client-key'' (sl_client_secret s) (sl_client_key s) ''client.key'',
           secret_volume ''client-ca-crt'' (sl_ca_secret s) (sl_ca_cert s) ''ca.crt''])"

definition generateCoredumpVolume :: "string \<Rightarrow> volume" where
  "generateCoredumpVolume t = pvc_volume (coredumpVolume t)"

definition generateCoredumpVolumeMount :: "string \<Rightarrow> volume_mount" where
  "generateCoredumpVolumeMount t = mount (coredumpVolume t) ''/usr/local/nebula/coredump'' ''coredump''"

definition getStoragedDataVolumeMounts :: "nebula_cluster \<Rightarrow> volume_mount list" where
  "getStoragedDataVolumeMounts nc =
     map (\<lambda>i. mount (storageDataVolume ''storaged'' i)
           (if i > 0 then ''/usr/local/nebula/data'' @ show_nat i else ''/usr/local/nebula/data'')
           (if i > 0 then ''data'' @ show_nat i else ''data''))
       [0..<length (sd_data_claims (storaged_of nc))]"

text \<open>The certificate and coredump part, which the three components share.\<close>

definition tail_mounts :: "component_type \<Rightarrow> nebula_cluster \<Rightarrow> volume_mount list" where
  "tail_mounts typ nc =
     (if IsSSLEnabled typ nc \<and> AutoMountServerCerts nc then server_cert_mounts else [])
     @ (if sp_coredump (nc_spec nc) \<noteq> None then [generateCoredumpVolumeMount (type_String typ)] else [])"

definition tail_volumes :: "component_type \<Rightarrow> nebula_cluster \<Rightarrow> volume list" where
  "tail_volumes typ nc =
     (case sp_ssl (nc_spec nc) of
        Some s \<Rightarrow> if IsSSLEnabled typ nc \<and> AutoMountServerCerts nc then server_cert_volumes s else []
      | None \<Rightarrow> [])
     @ (if sp_coredump (nc_spec nc) \<noteq> None then [generateCoredumpVolume (type_String typ)] else [])"

definition log_mounts :: "string \<Rightarrow> storage_claim option \<Rightarrow> volume_mount list" where
  "log_mounts t claim =
     (if claim \<noteq> None then [mount (logVolume t) ''/usr/local/nebula/logs'' ''logs''] else [])"

definition log_volumes :: "string \<Rightarrow> storage_claim option \<Rightarrow> volume list" where
  "log_volumes t claim = (if claim \<noteq> None then [pvc_volume (logVolume t)] else [])"

definition graphd_GenerateVolumeMounts :: "nebula_cluster \<Rightarrow> volume_mount list" where
  "graphd_GenerateVolumeMounts nc =
     log_mounts ''graphd'' (gd_log_claim (graphd_of nc)) @ tail_mounts GraphdComponentType nc"

definition metad_GenerateVolumeMounts :: "nebula_cluster \<Rightarrow> volume_mount list" where
  "metad_GenerateVolumeMounts nc =
     [mount (dataVolume ''metad'') ''/usr/local/nebula/data'' ''data'']
     @ log_mounts ''metad'' (md_log_claim (metad_of nc))
     @ (if md_license (metad_of nc) \<noteq> None
        then [ro_mount ''nebula-license'' ''/usr/local/nebula/nebula.license'' ''nebula.license''] else [])
     @ tail_mounts MetadComponentType nc"

definition storaged_GenerateVolumeMounts :: "nebula_cluster \<Rightarrow> volume_mount list" where
  "storaged_GenerateVolumeMounts nc =
     getStoragedDataVolumeMounts nc
     @ log_mounts ''storaged'' (sd_log_claim (storaged_of nc)) @ tail_mounts StoragedComponentType nc"

definition GenerateVolumeMounts :: "component_type \<Rightarrow> nebula_cluster \<Rightarrow> volume_mount list" where
  "GenerateVolumeMounts typ nc = (case typ of
       GraphdComponentType \<Rightarrow> graphd_GenerateVolumeMounts nc
     | MetadComponentType \<Rightarrow> metad_GenerateVolumeMounts nc
     | StoragedComponentType \<Rightarrow> storaged_GenerateVolumeMounts nc)"

definition graphd_GenerateVolumes :: "nebula_cluster \<Rightarrow> volume list" where
  "graphd_GenerateVolumes nc =
     log_volumes ''graphd'' (gd_log_claim (graphd_of nc)) @ tail_volumes GraphdComponentType nc"

definition metad_GenerateVolumes :: "nebula_cluster \<Rightarrow> volume list" where
  "metad_GenerateVolumes nc =
     [pvc_volume (dataVolume ''metad'')]
     @ log_volumes ''metad'' (md_log_claim (metad_of nc))
     @ (case md_license (metad_of nc) of
          None \<Rightarrow> []
        | Some l \<Rightarrow> [secret_volume ''nebula-license'' (li_secret l) (li_key l) (li_key l)])
     @ tail_volumes MetadComponentType nc"

definition storaged_GenerateVolumes :: "nebula_cluster \<Rightarrow> volume list" where
  "storaged_GenerateVolumes nc =
     map (\<lambda>i. pvc_volume (storageDataVolume ''storaged'' i)) [0..<length (sd_data_claims (storaged_of nc))]
     @ log_volumes ''storaged'' (sd_log_claim (storaged_of nc)) @ tail_volumes StoragedComponentType nc"

definition GenerateVolumes :: "component_type \<Rightarrow> nebula_cluster \<Rightarrow> volume list" where
  "GenerateVolumes typ nc = (case typ of
       GraphdComponentType \<Rightarrow> graphd_GenerateVolumes nc
     | MetadComponentType \<Rightarrow> metad_GenerateVolumes nc
     | StoragedComponentType \<Rightarrow> storaged_GenerateVolumes nc)"

section \<open>Volume claims\<close>

record pvc_template =
  pt_name :: string
  pt_access :: string
  pt_resources :: resource_requirements
  pt_class :: "string option"

definition parseStorageRequest :: "resource_list option \<Rightarrow> resource_requirements outcome" where
  "parseStorageRequest res =
     (case res of
        None \<Rightarrow> Ok no_resources
      | Some r \<Rightarrow>
          (case map_of r ''storage'' of
             None \<Rightarrow> Err (ErrPlain ''storage request is not set'')
           | Some q \<Rightarrow> Ok \<lparr>rq_requests = Some [(''storage'', q)], rq_limits = None\<rparr>))"

definition storage_class :: "storage_claim \<Rightarrow> string option" where
  "storage_class c = (case sc_class c of None \<Rightarrow> None | Some n \<Rightarrow> if n = '''' then None else Some n)"

text \<open>The claim made from a \<open>StorageClaim\<close> of the specification, under a name.\<close>

definition claim_template :: "string \<Rightarrow> string \<Rightarrow> storage_claim \<Rightarrow> pvc_template outcome" where
  "claim_template what name c =
     (case parseStorageRequest (rq_requests (sc_resources c)) of
        Ok req \<Rightarrow> Ok \<lparr>pt_name = name, pt_access = ''ReadWriteOnce'', pt_resources = req, pt_class = storage_class c\<rparr>
      | Err e \<Rightarrow> Err (ErrPlain what)
      | Panic \<Rightarrow> Panic)"

definition optional_claim :: "string \<Rightarrow> string \<Rightarrow> storage_claim option \<Rightarrow> pvc_template list outcome" where
  "optional_claim what name claim =
     (case claim of
        None \<Rightarrow> Ok []
      | Some c \<Rightarrow> (case claim_template what name c of
            Ok t \<Rightarrow> Ok [t] | Err e \<Rightarrow> Err e | Panic \<Rightarrow> Panic))"

definition generateCoredumpVolumeClaim :: "nebula_cluster \<Rightarrow> string \<Rightarrow> pvc_template list outcome" where
  "generateCoredumpVolumeClaim nc t =
     (case sp_coredump (nc_spec nc) of
        None \<Rightarrow> Ok []
      | Some c \<Rightarrow>
          (case co_volume c of
             None \<Rightarrow> Panic
           | Some v \<Rightarrow> optional_claim ''cannot parse storage request for coredump volume'' (coredumpVolume t) (Some v)))"

fun storageDataVolumeClaims :: "nat \<Rightarrow> storage_claim list \<Rightarrow> pvc_template list outcome" where
  "storageDataVolumeClaims i [] = Ok []"
| "storageDataVolumeClaims i (c # cs) =
     (case parseStorageRequest (rq_requests (sc_resources c)) of
        Ok req \<Rightarrow>
          (case storageDataVolumeClaims (Suc i) cs of
             Ok ts \<Rightarrow> Ok (\<lparr>pt_name = storageDataVolume ''storaged'' i, pt_access = ''ReadWriteOnce'',
                          pt_resources = req, pt_class = sc_class c\<rparr> # ts)
           | r \<Rightarrow> r)
      | Err e \<Rightarrow> Err e
      | Panic \<Rightarrow> Panic)"

definition oappend :: "'a list outcome \<Rightarrow> 'a list outcome \<Rightarrow> 'a list outcome" where
  "oappend a b = (case a of Ok xs \<Rightarrow> (case b of Ok ys \<Rightarrow> Ok (xs @ ys) | r \<Rightarrow> r) | r \<Rightarrow> r)"

definition graphd_GenerateVolumeClaim :: "nebula_cluster \<Rightarrow> pvc_template list outcome" where
  "graphd_GenerateVolumeClaim nc =
     oappend (optional_claim ''cannot parse storage request for graphd'' (logVolume ''graphd'')
               (gd_log_claim (graphd_of nc)))
       (generateCoredumpVolumeClaim nc ''graphd'')"

definition metad_GenerateVolumeClaim :: "nebula_cluster \<Rightarrow> pvc_template list outcome" where
  "metad_GenerateVolumeClaim nc =
     (case md_data_claim (metad_of nc) of
        None \<Rightarrow> Panic
      | Some d \<Rightarrow>
          oappend (optional_claim ''cannot parse storage request for metad data volume'' (dataVolume ''metad'') (Some d))
            (oappend (optional_claim ''cannot parse storage request for metad log volume'' (logVolume ''metad'')
                       (md_log_claim (metad_of nc)))
              (generateCoredumpVolumeClaim nc ''metad'')))"

definition storaged_GenerateVolumeClaim :: "nebula_cluster \<Rightarrow> pvc_template list outcome" where
  "storaged_GenerateVolumeClaim nc =
     oappend (storageDataVolumeClaims 0 (sd_data_claims (storaged_of nc)))
       (oappend (optional_claim ''cannot parse storage request for storaged log volume'' (logVolume ''storaged'')
                  (sd_log_claim (storaged_of nc)))
         (generateCoredumpVolumeClaim nc ''storaged''))"

definition GenerateVolumeClaim :: "component_type \<Rightarrow> nebula_cluster \<Rightarrow> pvc_template list outcome" where
  "GenerateVolumeClaim typ nc = (case typ of
       GraphdComponentType \<Rightarrow> graphd_GenerateVolumeClaim nc
     | MetadComponentType \<Rightarrow> metad_GenerateVolumeClaim nc
     | StoragedComponentType \<Rightarrow> storaged_GenerateVolumeClaim nc)"

section \<open>Containers\<close>

definition milli :: "int \<Rightarrow> int" where "milli n = n"
definition mebi :: "int \<Rightarrow> int" where "mebi n = n * 1048576 * 1000"

definition sized :: "int \<Rightarrow> int \<Rightarrow> int \<Rightarrow> int \<Rightarrow> resource_requirements" where
  "sized reqCpu reqMem limCpu limMem =
     \<lparr>rq_requests = Some [(''cpu'', milli reqCpu), (''memory'', mebi reqMem)],
      rq_limits = Some [(''cpu'', milli limCpu), (''memory'', mebi limMem)]\<rparr>"

definition base_container :: "string \<Rightarrow> string \<Rightarrow> string list \<Rightarrow> container" where
  "base_container name img command =
     \<lparr>ct_name = name, ct_image = img, ct_command = command, ct_args = [], ct_env = [], ct_ports = [],
      ct_resources = no_resources, ct_mounts = [], ct_liveness = None, ct_readiness = None,
      ct_post_start = [], ct_pull_policy = '''', ct_security = None, ct_rest = K8s ''''\<rparr>"

definition plain_env :: "string \<Rightarrow> string \<Rightarrow> env_var" where
  "plain_env n v = \<lparr>ev_name = n, ev_value = v, ev_from = ''''\<rparr>"

definition field_env :: "string \<Rightarrow> string \<Rightarrow> env_var" where
  "field_env n path = \<lparr>ev_name = n, ev_value = '''', ev_from = path\<rparr>"

definition alpine_image :: "nebula_cluster \<Rightarrow> string" where
  "alpine_image nc = (case sp_alpine (nc_spec nc) of None \<Rightarrow> ''vesoft/nebula-alpine:latest'' | Some i \<Rightarrow> i)"

definition pull_policy :: "nebula_cluster \<Rightarrow> string" where
  "pull_policy nc = (case sp_pull_policy (nc_spec nc) of None \<Rightarrow> '''' | Some p \<Rightarrow> p)"

text \<open>\<open>Itoa\<close> and \<open>%d\<close> are \<open>show_int\<close>. A log container without \<open>LogRotate\<close> dereferences nil.\<close>

definition generateLogContainer :: "component_type \<Rightarrow> nebula_cluster \<Rightarrow> container outcome" where
  "generateLogContainer typ nc =
     (case sp_log_rotate (nc_spec nc) of
        None \<Rightarrow> Panic
      | Some lr \<Rightarrow> Ok
          ((base_container ''ng-logrotate'' (alpine_image nc)
              [''/bin/sh'', ''-ecx'', ''sh /logrotate.sh; crond -f -l 2''])
           \<lparr>ct_resources := sized 50 50 200 200,
            ct_env := [plain_env ''LOGROTATE_ROTATE'' (show_int (lr_rotate lr)),
                       plain_env ''LOGROTATE_SIZE'' (lr_size lr)],
            ct_mounts := [mount (logVolume (type_String typ)) ''/etc/logrotate.d/'' ''logrotate.d'']\<rparr>))"

definition EnableLocalCerts :: "(string \<Rightarrow> string) \<Rightarrow> bool" where
  "EnableLocalCerts getenv \<longleftrightarrow> getenv ''CA_CERT_PATH'' \<noteq> '''' \<and> getenv ''CLIENT_CERT_PATH'' \<noteq> ''''
     \<and> getenv ''CLIENT_KEY_PATH'' \<noteq> ''''"

definition agent_command :: "(string \<Rightarrow> string) \<Rightarrow> component_type \<Rightarrow> nebula_cluster \<Rightarrow> bool \<Rightarrow> string" where
  "agent_command getenv typ nc init =
     ''sleep 30; exec /usr/local/bin/agent --agent=$(hostname).'' @ comp_GetServiceFQDN getenv typ nc
     @ '':8888 --debug''
     @ (case sp_agent (nc_spec nc) of
          None \<Rightarrow> ''''
        | Some a \<Rightarrow> '' --ratelimit='' @ show_int (deref_or 0 (ag_rate_limit a))
                    @ '' --hbs='' @ show_int (ag_heartbeat a))
     @ (if init then '''' else '' --meta='' @ comp_GetConnAddress getenv MetadComponentType nc ''thrift'')
     @ (if IsMetadSSLEnabled nc \<or> IsClusterSSLEnabled nc
        then '' --enable_ssl''
             @ (if InsecureSkipVerify nc then '' --insecure_skip_verify'' else '''')
             @ (if SslServerName nc \<noteq> '''' then '' --server_name='' @ SslServerName nc else '''')
        else '''')"

definition agent_mounts :: "(string \<Rightarrow> string) \<Rightarrow> component_type \<Rightarrow> nebula_cluster \<Rightarrow> volume_mount list" where
  "agent_mounts getenv typ nc =
     (if typ = MetadComponentType then [mount (dataVolume ''metad'') ''/usr/local/nebula/data'' ''data'']
      else if typ = StoragedComponentType then getStoragedDataVolumeMounts nc else [])
     @ (if (IsMetadSSLEnabled nc \<or> IsClusterSSLEnabled nc) \<and> \<not> EnableLocalCerts getenv
        then getClientCertVolumeMounts else [])
     @ (case sp_agent (nc_spec nc) of None \<Rightarrow> [] | Some a \<Rightarrow> ag_mounts a)"

definition generateAgentContainer :: "(string \<Rightarrow> string) \<Rightarrow> component_type \<Rightarrow> nebula_cluster \<Rightarrow> bool \<Rightarrow> container" where
  "generateAgentContainer getenv typ nc init =
     (let c = (base_container ''ng-agent'' ''vesoft/nebula-agent''
                 [''/bin/sh'', ''-ecx'', agent_command getenv typ nc init])
                \<lparr>ct_ports := [\<lparr>cp_name = ''grpc'', cp_port = 8888\<rparr>], ct_pull_policy := pull_policy nc\<rparr>;
          c = (case sp_agent (nc_spec nc) of
                 None \<Rightarrow> c
               | Some a \<Rightarrow> c\<lparr>ct_image := (if ag_version a \<noteq> '''' then ag_image a @ '':'' @ ag_version a else ag_image a),
                              ct_env := ag_env a, ct_resources := ag_resources a\<rparr>)
      in c\<lparr>ct_mounts := agent_mounts getenv typ nc\<rparr>)"

definition GenerateInitAgentContainer :: "(string \<Rightarrow> string) \<Rightarrow> component_type \<Rightarrow> nebula_cluster \<Rightarrow> container" where
  "GenerateInitAgentContainer getenv typ nc =
     (generateAgentContainer getenv typ nc True)\<lparr>ct_name := ''ng-init-agent''\<rparr>"

definition genDynamicFlagsContainer :: "(string \<Rightarrow> string) \<Rightarrow> component_type \<Rightarrow> nebula_cluster \<Rightarrow> container" where
  "genDynamicFlagsContainer scripts typ nc =
     (base_container ''dynamic-flags'' (alpine_image nc) [''/bin/sh'', ''-c''])
       \<lparr>ct_args := [''echo \"$SCRIPT\" > /tmp/dynamic-flags-script && sh /tmp/dynamic-flags-script''],
        ct_env := [field_env ''NAMESPACE'' ''metadata.namespace'', plain_env ''PARENT_NAME'' (comp_GetName typ nc),
                   plain_env ''APISERVER'' ''https://kubernetes.default.svc'',
                   plain_env ''SERVICEACCOUNT'' ''/var/run/secrets/kubernetes.io/serviceaccount'',
                   plain_env ''SCRIPT'' (scripts ''dynamic-flags'')],
        ct_resources := sized 30 30 200 200,
        ct_mounts := [mount ''flags'' ''/metadata'' ''''],
        ct_pull_policy := pull_policy nc\<rparr>"

definition genNodeLabelsContainer :: "(string \<Rightarrow> string) \<Rightarrow> nebula_cluster \<Rightarrow> container" where
  "genNodeLabelsContainer scripts nc =
     (base_container ''node-labels'' (alpine_image nc) [''/bin/sh'', ''-c''])
       \<lparr>ct_args := [''echo \"$SCRIPT\" > /tmp/node-zone-script && sh /tmp/node-zone-script''],
        ct_env := [field_env ''NODENAME'' ''spec.nodeName'',
                   plain_env ''APISERVER'' ''https://kubernetes.default.svc'',
                   plain_env ''SERVICEACCOUNT'' ''/var/run/secrets/kubernetes.io/serviceaccount'',
                   plain_env ''SCRIPT'' (scripts ''node-labels'')],
        ct_resources := sized 30 30 200 200,
        ct_mounts := [mount ''node-info'' ''/node'' ''''],
        ct_pull_policy := pull_policy nc\<rparr>"

definition genCoredumpPresInitContainer :: "(string \<Rightarrow> string) \<Rightarrow> nebula_cluster \<Rightarrow> string \<Rightarrow> container" where
  "genCoredumpPresInitContainer scripts nc t =
     (base_container ''coredump-preservation-init'' (alpine_image nc) [''/bin/sh'', ''-c''])
       \<lparr>ct_args := [''echo \"$SCRIPT\" > /tmp/coredump-setup-script && sh /tmp/coredump-setup-script''],
        ct_env := [plain_env ''MOUNT_PATH'' ''/usr/local/nebula/coredump'',
                   plain_env ''SCRIPT'' (scripts ''coredump-preservation-init'')],
        ct_resources := sized 30 30 200 200,
        ct_mounts := [generateCoredumpVolumeMount t],
        ct_security := Some \<lparr>sx_run_as_non_root = None, sx_run_as_user = None, sx_privileged = Some True, sx_rest = K8s ''''\<rparr>,
        ct_pull_policy := pull_policy nc\<rparr>"

definition generateInitContainers :: "(string \<Rightarrow> string) \<Rightarrow> component_type \<Rightarrow> nebula_cluster \<Rightarrow> container list" where
  "generateInitContainers scripts typ nc =
     cs_init_containers (spec_of typ nc)
     @ (if typ = GraphdComponentType \<and> IsZoneEnabled nc then [genNodeLabelsContainer scripts nc] else [])
     @ (if sp_coredump (nc_spec nc) \<noteq> None
        then [genCoredumpPresInitContainer scripts nc (type_String typ)] else [])
     @ [genDynamicFlagsContainer scripts typ nc]"

definition generateCoredumpManagementContainer ::
    "(string \<Rightarrow> string) \<Rightarrow> nebula_cluster \<Rightarrow> string \<Rightarrow> string \<Rightarrow> container" where
  "generateCoredumpManagementContainer scripts nc t timeToKeep =
     (base_container ''coredump-management'' (alpine_image nc) [''/bin/sh'', ''-c''])
       \<lparr>ct_args := [''echo \"$SCRIPT\" > /tmp/coredump-management-script && sh /tmp/coredump-management-script''],
        ct_env := [plain_env ''SCRIPT'' (scripts ''coredump-management''),
                   plain_env ''COREDUMP_DIR'' ''/usr/local/nebula/coredump'',
                   plain_env ''COREDUMP_LIST'' ''/tmp/coredump_list.txt'',
                   plain_env ''CURR_COREDUMP_LIST'' ''/tmp/current_coredump_list.txt'',
                   plain_env ''MINS'' timeToKeep],
        ct_resources := sized 50 50 200 200,
        ct_mounts := [generateCoredumpVolumeMount t],
        ct_pull_policy := pull_policy nc\<rparr>"

definition logVolumeExists :: "string \<Rightarrow> volume list \<Rightarrow> bool" where
  "logVolumeExists t volumes = list_ex (\<lambda>v. vo_name v = logVolume t) volumes"

text \<open>The position of the last container of a name: what \<open>containersInPod\<close> maps the name to.\<close>

fun last_index :: "nat \<Rightarrow> string \<Rightarrow> container list \<Rightarrow> nat option" where
  "last_index i n [] = None"
| "last_index i n (c # cs) =
     (case last_index (Suc i) n cs of
        Some j \<Rightarrow> Some j
      | None \<Rightarrow> if ct_name c = n then Some i else None)"

fun merge_sidecars :: "(string \<Rightarrow> nat option) \<Rightarrow> container list \<Rightarrow> container list \<Rightarrow> container list
    \<Rightarrow> container list \<times> container list" where
  "merge_sidecars ix origins app [] = (origins, app)"
| "merge_sidecars ix origins app (s # ss) =
     (case ix (ct_name s) of
        Some i \<Rightarrow> merge_sidecars ix (origins[i := s]) app ss
      | None \<Rightarrow> merge_sidecars ix origins (app @ [s]) ss)"

definition mergeSidecarContainers :: "container list \<Rightarrow> container list \<Rightarrow> container list" where
  "mergeSidecarContainers origins injected =
     (let (os, app) = merge_sidecars (\<lambda>n. last_index 0 n origins) origins [] injected in os @ app)"

fun merge_volumes_loop :: "string list \<Rightarrow> volume list \<Rightarrow> volume list \<Rightarrow> volume list" where
  "merge_volumes_loop ex original [] = original"
| "merge_volumes_loop ex original (v # vs) =
     (if vo_name v \<in> set ex then merge_volumes_loop ex original vs
      else merge_volumes_loop (vo_name v # ex) (original @ [v]) vs)"

definition mergeVolumes :: "volume list \<Rightarrow> volume list \<Rightarrow> volume list" where
  "mergeVolumes original additional = merge_volumes_loop (map vo_name original) original additional"

definition mergeStringMaps :: "bool \<Rightarrow> strmap list \<Rightarrow> strmap" where
  "mergeStringMaps overwrite ms =
     foldl (foldl (\<lambda>mp (k, v). if overwrite \<or> \<not> has_key mp k then AList.update k v mp else mp)) [] ms"

definition DynamicFlags :: strmap where
  "DynamicFlags =
     [(''minloglevel'', ''0''), (''v'', ''0''), (''accept_partial_success'', ''false''),
      (''max_allowed_query_size'', ''4194304''), (''system_memory_high_watermark_ratio'', ''0.8''),
      (''ng_black_box_file_lifetime_seconds'', ''1800''), (''memory_tracker_limit_ratio'', ''0.8''),
      (''memory_tracker_untracked_reserved_memory_mb'', ''50''), (''memory_tracker_detail_log'', ''false''),
      (''memory_tracker_detail_log_interval_ms'', ''60000''), (''memory_purge_enabled'', ''true''),
      (''memory_purge_interval_seconds'', ''10''), (''heartbeat_interval_secs'', ''10''),
      (''raft_heartbeat_interval_secs'', ''30''), (''raft_rpc_timeout_ms'', ''500''), (''wal_ttl'', ''14400''),
      (''query_concurrently'', ''true''), (''auto_remove_invalid_space'', ''true''),
      (''snapshot_part_rate_limit'', ''10485760''), (''snapshot_batch_size'', ''1048576''),
      (''rebuild_index_part_rate_limit'', ''4194304''), (''prioritize_intra_zone_reading'', ''false''),
      (''stick_to_intra_zone_on_failure'', ''false'')]"

definition separateFlags :: "strmap \<Rightarrow> strmap \<times> strmap" where
  "separateFlags config =
     (filter (\<lambda>(k, v). has_key DynamicFlags k) config, filter (\<lambda>(k, v). \<not> has_key DynamicFlags k) config)"

section \<open>The main containers\<close>

definition data_path :: "component_type \<Rightarrow> nebula_cluster \<Rightarrow> string" where
  "data_path typ nc =
     (let volumes = length (sd_data_claims (storaged_of nc))
      in if typ = StoragedComponentType \<and> volumes > 1
         then '' --data_path=data/storage'' @ concat (map (\<lambda>i. '',data'' @ show_nat i @ ''/storage'') [1..<volumes])
         else '''')"

fun join :: "string \<Rightarrow> string list \<Rightarrow> string" where
  "join sep [] = ''''"
| "join sep [x] = x"
| "join sep (x # y # ys) = x @ sep @ join sep (y # ys)"

definition zone_graphd :: "component_type \<Rightarrow> nebula_cluster \<Rightarrow> bool" where
  "zone_graphd typ nc \<longleftrightarrow> typ = GraphdComponentType \<and> IsZoneEnabled nc"

definition component_command :: "(string \<Rightarrow> string) \<Rightarrow> component_type \<Rightarrow> nebula_cluster \<Rightarrow> string" where
  "component_command getenv typ nc =
     (if zone_graphd typ nc then ''. /node/zone; echo $NODE_ZONE; '' else '''')
     @ ''exec /usr/local/nebula/bin/nebula-'' @ type_String typ
     @ '' --flagfile=/usr/local/nebula/etc/nebula-'' @ type_String typ @ ''.conf''
     @ '' --meta_server_addrs='' @ join '','' (comp_GetEndpoints getenv MetadComponentType nc ''thrift'')
     @ '' --local_ip=$(hostname).'' @ comp_GetServiceFQDN getenv typ nc
     @ '' --daemonize=false'' @ data_path typ nc
     @ (case md_license_url (metad_of nc) of
          Some u \<Rightarrow> if typ = MetadComponentType then '' --license_manager_url='' @ u else ''''
        | None \<Rightarrow> '''')
     @ (if zone_graphd typ nc then '' --assigned_zone=$NODE_ZONE'' else '''')"

definition component_mounts :: "component_type \<Rightarrow> nebula_cluster \<Rightarrow> bool \<Rightarrow> volume_mount list" where
  "component_mounts typ nc with_cm =
     GenerateVolumeMounts typ nc
     @ (if with_cm
        then [mount (comp_GetName typ nc) (''/usr/local/nebula/etc/'' @ getCmKey (type_String typ)) (getCmKey (type_String typ))]
             @ cs_mounts (spec_of typ nc)
        else [])
     @ (if zone_graphd typ nc then [mount ''node-info'' ''/node'' ''''] else [])
     @ [mount ''flags'' ''/metadata'' '''']"

text \<open>\<open>RunAsUser\<close> is set when the component must not run as root.\<close>

definition component_security :: "security_context option \<Rightarrow> security_context option" where
  "component_security sx =
     map_option (\<lambda>s. if deref_or False (sx_run_as_non_root s) then s\<lparr>sx_run_as_user := Some 999\<rparr> else s) sx"

definition main_container ::
    "(string \<Rightarrow> string) \<Rightarrow> (string \<Rightarrow> string) \<Rightarrow> component_type \<Rightarrow> nebula_cluster \<Rightarrow> bool \<Rightarrow> container outcome" where
  "main_container getenv scripts typ nc with_cm =
     (let ports = GenerateContainerPorts typ nc
      in if length ports < 2 then Panic
         else let http = cp_port (ports ! 1) in Ok
           ((base_container (type_String typ) (ca_PodImage typ nc)
               [''/bin/sh'', ''-ecx'', component_command getenv typ nc])
            \<lparr>ct_env := cs_env (spec_of typ nc)
                @ [field_env ''MY_IP'' ''status.podIP'', plain_env ''HTTP_PORT'' (show_int http),
                   plain_env ''SCRIPT'' (scripts ''post-start'')],
             ct_security := component_security (cs_security (spec_of typ nc)),
             ct_ports := ports,
             ct_mounts := component_mounts typ nc with_cm,
             ct_liveness := cs_liveness (spec_of typ nc),
             ct_readiness := (case cs_readiness (spec_of typ nc) of
                                Some p \<Rightarrow> Some p | None \<Rightarrow> Some (HttpProbe ''/status'' http 10 5 10 0)),
             ct_resources := (case ca_Resources typ nc of Some r \<Rightarrow> r | None \<Rightarrow> no_resources),
             ct_pull_policy := pull_policy nc,
             ct_post_start := [''/bin/sh'', ''-c'', ''echo \"$SCRIPT\" > /tmp/post-start-script && sh /tmp/post-start-script'']\<rparr>))"

text \<open>\<open>Duration.Minutes()\<close>, and \<open>%.0f\<close> of it: rounded half to even.\<close>

definition minutes :: "int \<Rightarrow> rat" where
  "minutes d = f64_add (of_int (go_quot d 60000000000)) (f64_div (of_int (go_rem d 60000000000)) 60000000000)"

definition coredump_container ::
    "(string \<Rightarrow> string) \<Rightarrow> (string \<Rightarrow> int option) \<Rightarrow> component_type \<Rightarrow> nebula_cluster \<Rightarrow> container list outcome" where
  "coredump_container scripts parse_duration typ nc =
     (case sp_coredump (nc_spec nc) of
        None \<Rightarrow> Ok []
      | Some c \<Rightarrow>
          (case parse_duration (deref_or ''0'' (co_max_time c)) of
             None \<Rightarrow> Err (ErrPlain ''error parsing maximum time to keep for coredumps'')
           | Some d \<Rightarrow>
               if minutes d < 1 then Err (ErrPlain ''invalid maximum time to keep for coredumps'')
               else Ok [generateCoredumpManagementContainer scripts nc (type_String typ)
                          (show_int (round_even (minutes d)))]))"

definition generateNebulaContainers ::
    "(string \<Rightarrow> string) \<Rightarrow> (string \<Rightarrow> string) \<Rightarrow> (string \<Rightarrow> int option)
     \<Rightarrow> component_type \<Rightarrow> nebula_cluster \<Rightarrow> bool \<Rightarrow> container list outcome" where
  "generateNebulaContainers getenv scripts parse_duration typ nc with_cm =
     (case oappend
             (case main_container getenv scripts typ nc with_cm of
                Ok c \<Rightarrow> Ok ([c] @ (if IsBREnabled nc then [generateAgentContainer getenv typ nc False] else []))
              | Err e \<Rightarrow> Err e | Panic \<Rightarrow> Panic)
             (oappend
               (if IsLogRotateEnabled nc \<and> logVolumeExists (type_String typ) (GenerateVolumes typ nc)
                then (case generateLogContainer typ nc of Ok c \<Rightarrow> Ok [c] | Err e \<Rightarrow> Err e | Panic \<Rightarrow> Panic)
                else Ok [])
               (coredump_container scripts parse_duration typ nc)) of
        Ok cs \<Rightarrow> Ok (mergeSidecarContainers cs (cs_sidecars (spec_of typ nc)))
      | r \<Rightarrow> r)"

section \<open>StatefulSet, services, config map\<close>

record pod_spec =
  po_scheduler :: string
  po_node_selector :: strmap
  po_init :: "container list"
  po_containers :: "container list"
  po_volumes :: "volume list"
  po_pull_secrets :: "string list"
  po_affinity :: "k8s option"
  po_tolerations :: "k8s list"
  po_account :: string
  po_dns_config :: "k8s option"
  po_dns_policy :: string
  po_spread :: "spread_constraint list"

definition empty_pod_spec :: pod_spec where
  "empty_pod_spec =
     \<lparr>po_scheduler = '''', po_node_selector = [], po_init = [], po_containers = [], po_volumes = [],
      po_pull_secrets = [], po_affinity = None, po_tolerations = [], po_account = '''', po_dns_config = None,
      po_dns_policy = '''', po_spread = []\<rparr>"

record workload =
  wl_api_version :: string
  wl_kind :: string
  wl_meta :: object_meta
  wl_replicas :: "int option"
  wl_selector :: strmap
  wl_pod_labels :: strmap
  wl_pod_annotations :: strmap
  wl_pod :: pod_spec
  wl_service :: string
  wl_management :: string
  wl_strategy :: string
  wl_partition :: "int option"
  wl_recreate_policy :: string
  wl_claims :: "pvc_template list"
  wl_status :: "workload_status option"

abbreviation AnnLastAppliedDynamicFlagsKey :: string where
  "AnnLastAppliedDynamicFlagsKey \<equiv> ''nebula-graph.io/last-applied-dynamic-flags''"

definition sts_volumes :: "(string \<Rightarrow> string) \<Rightarrow> component_type \<Rightarrow> nebula_cluster \<Rightarrow> bool \<Rightarrow> volume list" where
  "sts_volumes getenv typ nc with_cm =
     mergeVolumes
       (GenerateVolumes typ nc
        @ (if with_cm
           then [\<lparr>vo_name = comp_GetName typ nc, vo_source = ConfigMapSource (comp_GetName typ nc)
                   [(getCmKey (type_String typ), getCmKey (type_String typ))]\<rparr>]
           else [])
        @ (if (IsMetadSSLEnabled nc \<or> IsClusterSSLEnabled nc) \<and> IsBREnabled nc \<and> \<not> EnableLocalCerts getenv
           then getClientCertVolumes (sp_ssl (nc_spec nc)) else [])
        @ (if zone_graphd typ nc then [\<lparr>vo_name = ''node-info'', vo_source = EmptyDirSource\<rparr>] else [])
        @ [\<lparr>vo_name = ''flags'', vo_source = EmptyDirSource\<rparr>])
       (cs_volumes (spec_of typ nc))"

definition generateStatefulSet ::
    "(string \<Rightarrow> string) \<Rightarrow> (string \<Rightarrow> string) \<Rightarrow> (strmap \<Rightarrow> string) \<Rightarrow> (string \<Rightarrow> int option)
     \<Rightarrow> component_type \<Rightarrow> nebula_cluster \<Rightarrow> bool \<Rightarrow> workload outcome" where
  "generateStatefulSet getenv scripts marshal parse_duration typ nc with_cm =
     (case generateNebulaContainers getenv scripts parse_duration typ nc with_cm of
        Ok containers \<Rightarrow>
          (case GenerateVolumeClaim typ nc of
             Ok claims \<Rightarrow>
               (let labels = GenerateLabels typ nc;
                    mergeLabels = mergeStringMaps True [labels, cs_labels (spec_of typ nc)];
                    replicas = ca_Replicas typ nc;
                    pod = \<lparr>po_scheduler = sp_scheduler (nc_spec nc), po_node_selector = ca_NodeSelector typ nc,
                           po_init = generateInitContainers scripts typ nc, po_containers = containers,
                           po_volumes = sts_volumes getenv typ nc with_cm,
                           po_pull_secrets = sp_pull_secrets (nc_spec nc), po_affinity = ca_Affinity typ nc,
                           po_tolerations = ca_Tolerations typ nc, po_account = ''nebula-sa'',
                           po_dns_config = cs_dns_config (spec_of typ nc), po_dns_policy = ca_DNSPolicy typ nc,
                           po_spread = ca_TopologySpreadConstraints typ nc labels\<rparr>
                in Ok \<lparr>wl_api_version = '''', wl_kind = '''',
                       wl_meta = (plain_meta (nc_ns nc) (comp_GetName typ nc))
                         \<lparr>om_annotations := [(AnnLastAppliedDynamicFlagsKey,
                                             marshal (fst (separateFlags (comp_GetConfig typ nc))))],
                          om_labels := labels, om_owners := GenerateOwnerReferences nc\<rparr>,
                       wl_replicas = Some replicas, wl_selector = mergeLabels, wl_pod_labels = mergeLabels,
                       wl_pod_annotations = cs_annotations (spec_of typ nc), wl_pod = pod,
                       wl_service = getServiceName (comp_GetName typ nc) True,
                       wl_management = ''Parallel'', wl_strategy = ''RollingUpdate'', wl_partition = Some replicas,
                       wl_recreate_policy = '''', wl_claims = claims, wl_status = None\<rparr>)
           | Err e \<Rightarrow> Err e | Panic \<Rightarrow> Panic)
      | Err e \<Rightarrow> Err e | Panic \<Rightarrow> Panic)"

record gvk =
  gk_group :: string
  gk_version :: string
  gk_kind :: string

definition is_kruise :: "gvk \<Rightarrow> bool" where
  "is_kruise g \<longleftrightarrow> g = \<lparr>gk_group = ''apps.kruise.io'', gk_version = ''v1beta1'', gk_kind = ''StatefulSet''\<rparr>"

definition is_native :: "gvk \<Rightarrow> bool" where
  "is_native g \<longleftrightarrow> g = \<lparr>gk_group = ''apps'', gk_version = ''v1'', gk_kind = ''StatefulSet''\<rparr>"

definition upgradeStatefulSet :: "workload \<Rightarrow> workload" where
  "upgradeStatefulSet w = w\<lparr>wl_api_version := ''apps.kruise.io/v1beta1'', wl_recreate_policy := ''ReCreate''\<rparr>"

definition generateWorkload ::
    "(string \<Rightarrow> string) \<Rightarrow> (string \<Rightarrow> string) \<Rightarrow> (strmap \<Rightarrow> string) \<Rightarrow> (string \<Rightarrow> int option)
     \<Rightarrow> component_type \<Rightarrow> nebula_cluster \<Rightarrow> gvk \<Rightarrow> bool \<Rightarrow> workload outcome" where
  "generateWorkload getenv scripts marshal parse_duration typ nc g with_cm =
     (if is_native g \<or> is_kruise g
      then (case generateStatefulSet getenv scripts marshal parse_duration typ nc with_cm of
              Ok w \<Rightarrow> Ok ((if is_kruise g then upgradeStatefulSet w else w)
                       \<lparr>wl_api_version := gk_group g @ ''/'' @ gk_version g, wl_kind := gk_kind g\<rparr>)
            | r \<Rightarrow> r)
      else Err (ErrPlain ''unsupported kind''))"

record service_port =
  sv_port_name :: string
  sv_port :: int
  sv_target :: int

record service =
  sv_meta :: object_meta
  sv_selector :: strmap
  sv_ports :: "service_port list"
  sv_cluster_ip :: string
  sv_publish_not_ready :: bool
  sv_type :: string

definition GetServiceSpec :: "component_type \<Rightarrow> nebula_cluster \<Rightarrow> service_spec option" where
  "GetServiceSpec typ nc = (case typ of
       GraphdComponentType \<Rightarrow> map_option gs_service (gd_service (graphd_of nc))
     | MetadComponentType \<Rightarrow> md_service (metad_of nc)
     | StoragedComponentType \<Rightarrow> sd_service (storaged_of nc))"

definition generateService :: "component_type \<Rightarrow> nebula_cluster \<Rightarrow> bool \<Rightarrow> service" where
  "generateService typ nc isHeadless =
     (let labels = GenerateLabels typ nc;
          spec = GetServiceSpec typ nc;
          s = \<lparr>sv_meta = (plain_meta (nc_ns nc) (getServiceName (comp_GetName typ nc) isHeadless))
                 \<lparr>om_owners := GenerateOwnerReferences nc, om_labels := labels,
                  om_annotations := (case spec of None \<Rightarrow> [] | Some ss \<Rightarrow> ss_annotations ss)\<rparr>,
               sv_selector = labels,
               sv_ports = map (\<lambda>p. \<lparr>sv_port_name = cp_name p, sv_port = cp_port p, sv_target = cp_port p\<rparr>)
                            (GenerateContainerPorts typ nc),
               sv_cluster_ip = '''', sv_publish_not_ready = False, sv_type = ''''\<rparr>
      in if isHeadless then s\<lparr>sv_cluster_ip := ''None'', sv_publish_not_ready := True\<rparr>
         else (case spec of
                 None \<Rightarrow> s
               | Some ss \<Rightarrow>
                   s\<lparr>sv_cluster_ip := deref_or '''' (ss_cluster_ip ss), sv_type := ss_type ss\<rparr>))"

record config_map =
  cm_meta :: object_meta
  cm_data :: strmap

definition generateConfigMap :: "component_type \<Rightarrow> nebula_cluster \<Rightarrow> config_map" where
  "generateConfigMap typ nc =
     \<lparr>cm_meta = (plain_meta (nc_ns nc) (comp_GetName typ nc))
        \<lparr>om_owners := GenerateOwnerReferences nc, om_labels := GenerateLabels typ nc\<rparr>,
      cm_data = []\<rparr>"

text \<open>\<open>template\<close> gives the text of the configuration file of a component.\<close>

definition GenerateConfigMap :: "(component_type \<Rightarrow> string) \<Rightarrow> component_type \<Rightarrow> nebula_cluster \<Rightarrow> config_map" where
  "GenerateConfigMap template typ nc =
     (let cm = generateConfigMap typ nc
      in cm\<lparr>cm_data := AList.update (getCmKey (type_String typ)) (template typ) (cm_data cm)\<rparr>)"

end
