(* ===== verification/WorkloadSpec.thy ===== *)
theory WorkloadSpec
  imports Workload SampleCluster
begin

text \<open>
  What makes a generated workload acceptable to the API server: every mount names a volume of
  the pod, every claim-backed volume has a claim template of its name, volume names are not
  repeated, user settings override defaults the way the merge functions promise.
\<close>

section \<open>Merging maps\<close>

lemma map_of_fold_update:
  "map_of (foldl (\<lambda>mp (k, v). if b \<or> \<not> has_key mp k then AList.update k v mp else mp) a m)
     = (if b then map_of a ++ map_of (rev m) else map_of m ++ map_of a)"
proof (induction m arbitrary: a)
  case Nil
  then show ?case by simp
next
  case (Cons p m)
  obtain k v where p: "p = (k, v)" by (cases p)
  show ?case
  proof (cases b)
    case True
    with Cons p show ?thesis by (simp add: update_conv map_add_assoc fun_upd_def map_add_def fun_eq_iff split: option.splits)
  next
    case False
    show ?thesis
    proof (cases "map_of a k")
      case None
      with Cons [of "AList.update k v a"] p False show ?thesis
        by (auto simp: has_key_def update_conv map_add_def fun_eq_iff split: option.splits)
    next
      case (Some w)
      with Cons [of a] p False show ?thesis
        by (auto simp: has_key_def map_add_def fun_eq_iff split: option.splits)
    qed
  qed
qed

lemma map_of_rev_distinct: "distinct (map fst m) \<Longrightarrow> map_of (rev m) = map_of m"
  by (rule map_of_eqI) (auto simp: rev_map [symmetric] map_of_eq_None_iff dest: map_of_SomeD)

lemma mergeStringMaps_overwrite_gen:
  assumes "\<forall>m\<in>set ms. distinct (map fst m)"
  shows "map_of (foldl (foldl (\<lambda>mp (k, v). if True \<or> \<not> has_key mp k then AList.update k v mp else mp)) a ms)
       = foldl (++) (map_of a) (map map_of ms)"
  using assms
proof (induction ms arbitrary: a)
  case (Cons m ms)
  then show ?case
    using map_of_fold_update [of True a m] by (simp add: map_of_rev_distinct)
qed simp

lemma mergeStringMaps_overwrite:
  assumes "\<forall>m\<in>set ms. distinct (map fst m)"
  shows "map_of (mergeStringMaps True ms) = foldl (++) Map.empty (map map_of ms)"
  using mergeStringMaps_overwrite_gen [OF assms, of "[]"] by (simp add: mergeStringMaps_def)

section \<open>Merging volumes and containers\<close>

lemma merge_volumes_loop_names:
  assumes "set ex = vo_name ` set original" "distinct (map vo_name original)"
  shows "distinct (map vo_name (merge_volumes_loop ex original vs))
       \<and> set (map vo_name (merge_volumes_loop ex original vs)) = vo_name ` set original \<union> vo_name ` set vs
       \<and> set original \<subseteq> set (merge_volumes_loop ex original vs)"
  using assms
proof (induction vs arbitrary: ex original)
  case (Cons v vs)
  show ?case
  proof (cases "vo_name v \<in> set ex")
    case True
    with Cons show ?thesis by auto
  next
    case False
    with Cons.prems have "distinct (map vo_name (original @ [v]))"
      "set (vo_name v # ex) = vo_name ` set (original @ [v])" by auto
    with Cons.IH [of "vo_name v # ex" "original @ [v]"] False show ?thesis by auto
  qed
qed auto

lemma merge_volumes_keeps: "set original \<subseteq> set (merge_volumes_loop ex original vs)"
  by (induction ex original vs rule: merge_volumes_loop.induct) auto

section \<open>Mounts and volumes\<close>

lemma IsSSLEnabled_certs: "IsSSLEnabled ty nc \<Longrightarrow> \<exists>s. sp_ssl (nc_spec nc) = Some s"
  by (auto simp: IsSSLEnabled_def graphd_IsSSLEnabled_def metad_IsSSLEnabled_def
      storaged_IsSSLEnabled_def split: component_type.splits)

lemma tail_names: "vm_name ` set (tail_mounts ty nc) = vo_name ` set (tail_volumes ty nc)"
  using IsSSLEnabled_certs [of ty nc]
  by (cases "sp_ssl (nc_spec nc)"; cases "sp_coredump (nc_spec nc)"; cases "IsSSLEnabled ty nc";
      cases "AutoMountServerCerts nc")
     (simp_all add: tail_mounts_def tail_volumes_def server_cert_mounts_def server_cert_volumes_def
      ro_mount_def mount_def secret_volume_def generateCoredumpVolumeMount_def generateCoredumpVolume_def
      pvc_volume_def)

lemma log_names: "vm_name ` set (log_mounts t c) = vo_name ` set (log_volumes t c)"
  by (cases c) (simp_all add: log_mounts_def log_volumes_def mount_def pvc_volume_def)

lemma license_names:
  "vm_name ` set (if l \<noteq> None then [ro_mount ''nebula-license'' p q] else [])
     = vo_name ` set (case l of None \<Rightarrow> [] | Some l \<Rightarrow> [secret_volume ''nebula-license'' (li_secret l) (li_key l) (li_key l)])"
  by (cases l) (simp_all add: ro_mount_def secret_volume_def)

lemma mounts_are_volumes: "vm_name ` set (GenerateVolumeMounts ty nc) = vo_name ` set (GenerateVolumes ty nc)"
proof (cases ty)
  case StoragedComponentType
  then show ?thesis
    by (simp only: GenerateVolumeMounts_def GenerateVolumes_def component_type.case
        storaged_GenerateVolumeMounts_def storaged_GenerateVolumes_def getStoragedDataVolumeMounts_def
        set_append image_Un tail_names log_names set_map image_image)
       (simp add: mount_def pvc_volume_def)
next
  case MetadComponentType
  then show ?thesis
    by (simp only: GenerateVolumeMounts_def GenerateVolumes_def component_type.case
        metad_GenerateVolumeMounts_def metad_GenerateVolumes_def set_append image_Un tail_names log_names
        license_names)
       (simp add: mount_def pvc_volume_def)
next
  case GraphdComponentType
  then show ?thesis
    by (simp only: GenerateVolumeMounts_def GenerateVolumes_def component_type.case
        graphd_GenerateVolumeMounts_def graphd_GenerateVolumes_def set_append image_Un tail_names log_names)
qed


definition pvc_names :: "volume list \<Rightarrow> string list" where
  "pvc_names vs = concat (map (\<lambda>v. case vo_source v of PvcSource n \<Rightarrow> [n] | _ \<Rightarrow> []) vs)"

lemma pvc_names_append [simp]: "pvc_names (a @ b) = pvc_names a @ pvc_names b"
  by (simp add: pvc_names_def)

lemma optional_claim_names:
  "optional_claim w n c = Ok ts \<Longrightarrow> map pt_name ts = (if c = None then [] else [n])"
  by (auto simp: optional_claim_def claim_template_def split: option.splits outcome.splits)

lemma storageDataVolumeClaims_names:
  "storageDataVolumeClaims i cs = Ok ts \<Longrightarrow>
     map pt_name ts = map (storageDataVolume ''storaged'') [i..<i + length cs]"
proof (induction cs arbitrary: i ts)
  case (Cons c cs)
  have u: "[i..<i + length (c # cs)] = i # [Suc i..<Suc i + length cs]"
    by (subst upt_conv_Cons) simp_all
  from Cons.prems obtain r us where "storageDataVolumeClaims (Suc i) cs = Ok us"
    "ts = \<lparr>pt_name = storageDataVolume ''storaged'' i, pt_access = ''ReadWriteOnce'',
            pt_resources = r, pt_class = sc_class c\<rparr> # us"
    by (auto split: outcome.splits)
  with Cons.IH show ?case unfolding u by simp
qed simp

lemma coredump_claim_names:
  "generateCoredumpVolumeClaim nc t = Ok ts \<Longrightarrow>
     map pt_name ts = (if sp_coredump (nc_spec nc) = None then [] else [coredumpVolume t])"
  by (auto simp: generateCoredumpVolumeClaim_def dest: optional_claim_names split: option.splits)

lemma oappend_Ok: "oappend a b = Ok zs \<Longrightarrow> \<exists>xs ys. a = Ok xs \<and> b = Ok ys \<and> zs = xs @ ys"
  by (auto simp: oappend_def split: outcome.splits)

lemma tail_pvc_names:
  "pvc_names (tail_volumes ty nc)
     = (if sp_coredump (nc_spec nc) = None then [] else [coredumpVolume (type_String ty)])"
  by (auto simp: tail_volumes_def pvc_names_def server_cert_volumes_def secret_volume_def
      generateCoredumpVolume_def pvc_volume_def split: option.splits)

lemma log_pvc_names: "pvc_names (log_volumes t c) = (if c = None then [] else [logVolume t])"
  by (simp add: log_volumes_def pvc_names_def pvc_volume_def)

text \<open>
  Claim C13. The claim templates of a workload are exactly the claims its volumes refer to, in
  the same order: no volume is left without a claim and no claim is left unused.
\<close>

theorem claims_match_volumes:
  assumes "GenerateVolumeClaim ty nc = Ok ts"
  shows "map pt_name ts = pvc_names (GenerateVolumes ty nc)"
proof (cases ty)
  case GraphdComponentType
  with assms show ?thesis
    by (auto simp: GenerateVolumeClaim_def graphd_GenerateVolumeClaim_def GenerateVolumes_def
        graphd_GenerateVolumes_def log_pvc_names tail_pvc_names
        dest!: oappend_Ok optional_claim_names coredump_claim_names)
next
  case MetadComponentType
  with assms obtain d where d: "md_data_claim (metad_of nc) = Some d"
    by (auto simp: GenerateVolumeClaim_def metad_GenerateVolumeClaim_def split: option.splits)
  have "pvc_names (pvc_volume n # vs) = n # pvc_names vs" for n vs by (simp add: pvc_names_def pvc_volume_def)
  moreover have "pvc_names (case md_license (metad_of nc) of None \<Rightarrow> []
      | Some l \<Rightarrow> [secret_volume ''nebula-license'' (li_secret l) (li_key l) (li_key l)]) = []"
    by (cases "md_license (metad_of nc)") (simp_all add: pvc_names_def secret_volume_def)
  ultimately show ?thesis using assms MetadComponentType d
    by (auto simp: GenerateVolumeClaim_def metad_GenerateVolumeClaim_def GenerateVolumes_def
        metad_GenerateVolumes_def log_pvc_names tail_pvc_names
        dest!: oappend_Ok optional_claim_names coredump_claim_names)
next
  case StoragedComponentType
  have data: "pvc_names (map (\<lambda>i. pvc_volume (f i)) xs) = map f xs" for f and xs :: "nat list"
    by (induction xs) (simp_all add: pvc_names_def pvc_volume_def)
  show ?thesis using assms StoragedComponentType
    by (auto simp: GenerateVolumeClaim_def storaged_GenerateVolumeClaim_def GenerateVolumes_def
        storaged_GenerateVolumes_def log_pvc_names tail_pvc_names data
        dest!: oappend_Ok optional_claim_names coredump_claim_names storageDataVolumeClaims_names)
qed

text \<open>The data volumes of a storaged pod have different names and different paths.\<close>

lemma storageDataVolume_inj: "storageDataVolume t i = storageDataVolume t j \<longleftrightarrow> i = j"
  by (auto simp: storageDataVolume_def dataVolume_def show_nat_inj)

lemma data_mounts_distinct:
  "distinct (map vm_name (getStoragedDataVolumeMounts nc)) \<and> distinct (map vm_path (getStoragedDataVolumeMounts nc))"
proof -
  have s: "[] \<noteq> show_nat i" for i using show_nat_not_Nil [of i] by metis
  show ?thesis
    by (auto simp: getStoragedDataVolumeMounts_def mount_def comp_def distinct_map inj_on_def
        storageDataVolume_inj show_nat_inj s)
qed

section \<open>Flags\<close>

text \<open>The two halves of a configuration are disjoint and together the configuration.\<close>

lemma separateFlags_split:
  assumes "distinct (map fst config)"
  shows "map_of config k = (if has_key DynamicFlags k then map_of (fst (separateFlags config)) k
                            else map_of (snd (separateFlags config)) k)"
proof -
  have "map_of (filter (\<lambda>(k, v). P k) config) k = (if P k then map_of config k else None)" for P
    by (induction config) auto
  then show ?thesis by (simp add: separateFlags_def)
qed

section \<open>Sidecars\<close>

lemma last_index_bound: "last_index i n cs = Some j \<Longrightarrow> i \<le> j \<and> j < i + length cs \<and> ct_name (cs ! (j - i)) = n"
proof (induction cs arbitrary: i)
  case (Cons c cs)
  show ?case
  proof (cases "last_index (Suc i) n cs")
    case None
    with Cons.prems show ?thesis by (auto split: if_splits)
  next
    case (Some k)
    with Cons.prems Cons.IH [of "Suc i"] show ?thesis
      by (auto simp: nth_Cons' Suc_diff_Suc)
  qed
qed simp

lemma last_index_None: "last_index i n cs = None \<longleftrightarrow> n \<notin> ct_name ` set cs"
proof (induction cs arbitrary: i)
  case (Cons c cs)
  show ?case
  proof (cases "last_index (Suc i) n cs")
    case None
    with Cons.IH [of "Suc i"] show ?thesis by auto
  next
    case (Some j)
    with Cons.IH [of "Suc i"] show ?thesis by auto
  qed
qed simp

lemma merge_sidecars_names:
  assumes "\<forall>n i. ix n = Some i \<longrightarrow> i < length origins \<and> ct_name (origins ! i) = n"
  shows "map ct_name (fst (merge_sidecars ix origins app ss)) = map ct_name origins
       \<and> map ct_name (snd (merge_sidecars ix origins app ss))
         = map ct_name app @ filter (\<lambda>n. ix n = None) (map ct_name ss)"
  using assms
proof (induction ss arbitrary: origins app)
  case (Cons s ss)
  show ?case
  proof (cases "ix (ct_name s)")
    case None
    with Cons.IH [OF Cons.prems, of "app @ [s]"] show ?thesis by simp
  next
    case (Some i)
    with Cons.prems have i: "i < length origins" "ct_name (origins ! i) = ct_name s" by auto
    then have n: "map ct_name (origins[i := s]) = map ct_name origins"
      by (simp add: map_update list_update_same_conv)
    have "\<forall>m j. ix m = Some j \<longrightarrow> j < length (origins[i := s]) \<and> ct_name (origins[i := s] ! j) = m"
    proof (intro allI impI)
      fix m j
      assume "ix m = Some j"
      with Cons.prems have "j < length origins" "ct_name (origins ! j) = m" by simp_all
      with i show "j < length (origins[i := s]) \<and> ct_name (origins[i := s] ! j) = m"
        by (cases "j = i") simp_all
    qed
    from Cons.IH [OF this, of app] show ?thesis using Some n by simp
  qed
qed simp

text \<open>
  A user's sidecar of the name of a generated container takes its place, any other is
  appended: the container names are the generated ones followed by the new ones, so the main
  container keeps its position.
\<close>

theorem mergeSidecarContainers_names:
  "map ct_name (mergeSidecarContainers origins injected)
     = map ct_name origins @ filter (\<lambda>n. n \<notin> ct_name ` set origins) (map ct_name injected)"
proof -
  have "map ct_name (fst (merge_sidecars (\<lambda>n. last_index 0 n origins) origins [] injected)) = map ct_name origins
    \<and> map ct_name (snd (merge_sidecars (\<lambda>n. last_index 0 n origins) origins [] injected))
      = map ct_name ([] :: container list) @ filter (\<lambda>n. last_index 0 n origins = None) (map ct_name injected)"
  proof (intro merge_sidecars_names allI impI)
    fix n i
    assume "last_index 0 n origins = Some i"
    from last_index_bound [OF this] show "i < length origins \<and> ct_name (origins ! i) = n" by auto
  qed
  then show ?thesis
    by (auto simp: mergeSidecarContainers_def last_index_None split: prod.splits)
qed

section \<open>Concrete instances\<close>


theorem claims_match_volumes_witness:
  "map pt_name ([] :: pvc_template list) = pvc_names (GenerateVolumes GraphdComponentType (sample_cluster 1 3))"
  by (rule claims_match_volumes [of GraphdComponentType])
     (simp add: GenerateVolumeClaim_def graphd_GenerateVolumeClaim_def sample_defs oappend_def optional_claim_def
       generateCoredumpVolumeClaim_def)

end
