(* ===== verification/AutoscalerTypes.thy ===== *)
theory AutoscalerTypes
  imports AutoscalerCore ClusterTypes
begin

text \<open>
  The NebulaAutoscaler resource (\<open>apis/autoscaling/v1alpha1/nebulaautoscaler_types.go\<close>), the
  metric specifications it carries, and the questions put to the replica calculator of
  \<open>k8s.io/kubernetes\<close>, which is outside this repository.
\<close>

section \<open>Metrics\<close>

datatype target_type = ValueMetric | AverageValueMetric | UtilizationMetric | OtherTarget

text \<open>Quantities are in thousandths (\<open>MilliValue()\<close>).\<close>

record metric_target =
  mt_type :: target_type
  mt_value :: "int option"
  mt_average :: "int option"
  mt_utilization :: "int option"

record object_source =
  os_kind :: string
  os_object :: k8s
  os_metric :: string
  os_selector :: k8s
  os_target :: metric_target

record pods_source =
  ps_metric :: string
  ps_selector :: k8s
  ps_target :: metric_target

record resource_source =
  rs_name :: string
  rs_target :: metric_target

record container_source =
  cx_name :: string
  cx_container :: string
  cx_target :: metric_target

record external_source =
  es_metric :: string
  es_selector :: k8s
  es_target :: metric_target

datatype source_type =
  ObjectSource | PodsSource | ResourceSource | ContainerSource | ExternalSource | OtherSourceType

record metric_spec =
  ms_type :: source_type
  ms_object :: "object_source option"
  ms_pods :: "pods_source option"
  ms_resource :: "resource_source option"
  ms_container :: "container_source option"
  ms_external :: "external_source option"

record metric_value =
  mv_value :: "int option"
  mv_average :: "int option"
  mv_utilization :: "int option"

datatype metric_status =
    NoMetricStatus
  | ObjectMetricStatus "k8s option" string k8s metric_value
  | PodsMetricStatus string k8s metric_value
  | ResourceMetricStatus string metric_value
  | ContainerMetricStatus string string metric_value
  | ExternalMetricStatus string k8s metric_value

text \<open>The methods of \<open>podautoscaler.ReplicaCalculator\<close> with their arguments.\<close>

datatype calc_req =
    ObjectMetricReplicas int int string string k8s k8s
  | ObjectPerPodMetricReplicas int int string string k8s k8s
  | MetricReplicas int int string string k8s
  | RawResourceReplicas int int string string string
  | ResourceReplicas int int string string string
  | ExternalPerPodMetricReplicas int int string string k8s
  | ExternalMetricReplicas int int string string k8s

record calc_resp =
  cr_replicas :: int
  cr_usage :: int
  cr_percentage :: int
  cr_time :: int

section \<open>The resource\<close>

record as_condition =
  ac_type :: string
  ac_status :: string
  ac_time :: int
  ac_reason :: string
  ac_message :: string

record hpa_status =
  hs_last_scale :: "int option"
  hs_current :: int
  hs_desired :: int
  hs_metrics :: "metric_status list"
  hs_conditions :: "as_condition list"

record autoscaler =
  hp_meta :: object_meta
  hp_cluster :: string
  hp_min :: "int option"
  hp_max :: int
  hp_metrics :: "metric_spec list"
  hp_behavior :: "hpa_behavior option"
  hp_polling :: "int option"
  hp_status :: hpa_status

text \<open>The defaults applied to an object before it is reconciled.\<close>

definition SetDefaults_NebulaAutoscaler :: "autoscaler \<Rightarrow> autoscaler" where
  "SetDefaults_NebulaAutoscaler a =
     a\<lparr>hp_min := (case hp_min a of None \<Rightarrow> Some 1 | Some m \<Rightarrow> Some m),
       hp_metrics :=
         (if hp_metrics a = []
          then [\<lparr>ms_type = ResourceSource, ms_object = None, ms_pods = None,
                 ms_resource = Some \<lparr>rs_name = ''cpu'',
                   rs_target = \<lparr>mt_type = UtilizationMetric, mt_value = None, mt_average = None,
                                mt_utilization = Some 80\<rparr>\<rparr>,
                 ms_container = None, ms_external = None\<rparr>]
          else hp_metrics a),
       hp_behavior := SetDefaults_behavior (hp_behavior a)\<rparr>"

lemma SetDefaults_metrics: "hp_metrics (SetDefaults_NebulaAutoscaler a) \<noteq> []"
  by (simp add: SetDefaults_NebulaAutoscaler_def)

end
