(* ===== verification/BackupTypes.thy ===== *)
theory BackupTypes
  imports Workload
begin

text \<open>
  The NebulaBackup and NebulaCronBackup resources (\<open>apis/apps/v1alpha1/nebulabackup_types.go\<close>,
  \<open>nebulacronbackup_types.go\<close>, \<open>common_types.go\<close>), records as the structs have them. The empty
  string of the enumerations is the constructor whose name begins with \<open>No\<close>.
\<close>

section \<open>Where backups are stored\<close>

record s3_provider =
  s3_region :: string
  s3_bucket :: string
  s3_endpoint :: string
  s3_secret :: string

record gs_provider =
  gp_location :: string
  gp_bucket :: string
  gp_secret :: string

record storage_provider =
  sp_s3 :: "s3_provider option"
  sp_gs :: "gs_provider option"

datatype object_storage_type = ObjectStorageS3 | ObjectStorageGS | ObjectStorageUnknown

section \<open>Backups\<close>

datatype backup_type = NoBackupType | BackupTypeFull | BackupTypeIncr

datatype backup_condition_type =
  NoBackupCondition | BackupRunning | BackupComplete | BackupClean | BackupFailed | BackupInvalid

record backup_condition =
  bc_type :: backup_condition_type
  bc_status :: string
  bc_update_time :: int
  bc_transition_time :: int
  bc_reason :: string
  bc_message :: string

record backup_config =
  bg_cluster_name :: string
  bg_cluster_namespace :: "string option"
  bg_base :: "string option"
  bg_concurrency :: int
  bg_provider :: storage_provider

record backup_spec =
  bs_image :: string
  bs_version :: string
  bs_resources :: resource_requirements
  bs_env :: "env_var list"
  bs_pull_policy :: string
  bs_pull_secrets :: "string list"
  bs_node_selector :: strmap
  bs_affinity :: "k8s option"
  bs_tolerations :: "k8s list"
  bs_init_containers :: "container list"
  bs_sidecars :: "container list"
  bs_volumes :: "volume list"
  bs_mounts :: "volume_mount list"
  bs_clean :: "bool option"
  bs_auto_remove :: "bool option"
  bs_config :: "backup_config option"

record backup_status =
  bt_type :: backup_type
  bt_name :: string
  bt_started :: "int option"
  bt_completed :: "int option"
  bt_phase :: backup_condition_type
  bt_conditions :: "backup_condition list"

record nebula_backup =
  bk_api_version :: string
  bk_kind :: string
  bk_meta :: object_meta
  bk_spec :: backup_spec
  bk_status :: backup_status

section \<open>Cron backups\<close>

record cron_status =
  cs_last_backup :: string
  cs_last_schedule :: "int option"
  cs_last_successful :: "int option"
  cs_clean_time :: "int option"

record cron_backup =
  cb_api_version :: string
  cb_kind :: string
  cb_meta :: object_meta
  cb_schedule :: string
  cb_pause :: "bool option"
  cb_reserved :: "string option"
  cb_template :: backup_spec
  cb_status :: cron_status

section \<open>Jobs\<close>

text \<open>\<open>batchv1.Job\<close>: a condition is its type, status and reason.\<close>

record job_template =
  jt_labels :: strmap
  jt_annotations :: strmap
  jt_restart :: string
  jt_pod :: pod_spec

record job =
  jb_meta :: object_meta
  jb_parallelism :: "int option"
  jb_completions :: "int option"
  jb_backoff :: "int option"
  jb_template :: job_template
  jb_conditions :: "(string \<times> string \<times> string) list"

end
