(* ===== verification/RestoreTypes.thy ===== *)
theory RestoreTypes
  imports BackupTypes
begin

text \<open>
  The NebulaRestore resource (\<open>apis/apps/v1alpha1/nebularestore_types.go\<close>) and the values a restore
  works with: what the meta service reports about its hosts, the description of a backup, and the
  requests to the agents that run beside the services.
\<close>

type_synonym host_addr = "string \<times> int"

section \<open>Restores\<close>

datatype restore_condition_type =
  NoRestoreCondition | RestoreComplete | RestoreMetadComplete | RestoreStoragedCompleted | RestoreFailed | RestoreInvalid

record restore_condition =
  rc_type :: restore_condition_type
  rc_status :: string
  rc_update_time :: int
  rc_transition_time :: int
  rc_reason :: string
  rc_message :: string

record restore_config =
  rg_cluster_name :: string
  rg_cluster_namespace :: "string option"
  rg_backup :: string
  rg_concurrency :: int
  rg_provider :: storage_provider

record restore_spec =
  rs_node_selector :: "strmap option"
  rs_affinity :: "k8s option"
  rs_tolerations :: "k8s list option"
  rs_auto_remove :: bool
  rs_config :: "restore_config option"

text \<open>A checkpoint table maps a host to the directories that were filled there.\<close>

record restore_status =
  rt_started :: "int option"
  rt_completed :: "int option"
  rt_cluster :: string
  rt_phase :: restore_condition_type
  rt_conditions :: "restore_condition list"
  rt_partitions :: "(string \<times> host_addr list) list"
  rt_checkpoints :: "(string \<times> string list) list"
  rt_meta_download :: bool
  rt_storage_download :: bool

record nebula_restore =
  nr_meta :: object_meta
  nr_spec :: restore_spec
  nr_status :: restore_status

section \<open>Services, backups and agents\<close>

datatype host_role = GraphRole | MetaRole | StorageRole | AgentRole | OtherRole

text \<open>The directories of a service are its root and the paths of its data; the address is always set.\<close>

record service_info =
  si_role :: host_role
  si_addr :: host_addr
  si_dir :: "(string \<times> string list) option"

text \<open>A part in a backup: its space, its number, the host and the path of its data.\<close>

record backup_part =
  bp_space :: int
  bp_part :: int
  bp_host :: host_addr
  bp_data_path :: string
  bp_checkpoint :: string
  bp_commit_log :: int
  bp_last_log :: int

record backup_meta =
  bm_name :: string
  bm_base :: string
  bm_files :: "string list"
  bm_hosts :: "host_addr list"
  bm_parts :: "backup_part list"

datatype agent_req =
    DownloadFileReq string string
  | StopAgentReq
  | HealthCheckReq
  | DataPlayBackReq string string string
  | RemoveDirReq string

end
