(* ===== verification/KubeEnv.thy ===== *)
theory KubeEnv
  imports Workload AutoscalerTypes SampleCluster RestoreTypes
begin

text \<open>
  The world the controllers act on. Every request the code sends to the API server or to the
  meta service, and every reading of the clock, is a \<open>call\<close>; a run of the code is the state
  monad over the list of the calls made so far, the latest first. The world itself is the
  record \<open>env\<close> of response functions, each of which sees the whole history (its head is the
  request being answered), so a response may depend on everything that was done before and
  nothing is assumed of it.
\<close>

section \<open>API objects\<close>

text \<open>
  Of the status of a pod's containers: the reasons of those that wait and the final states of
  those that have terminated, by container name; \<open>pd_exits\<close> has the exit codes and the printed states
  of the terminated init containers and of the terminated containers behind them.
\<close>

record pod =
  pd_meta :: object_meta
  pd_node :: string
  pd_phase :: string
  pd_ready :: bool
  pd_conditions :: "(string \<times> string) list"
  pd_waiting :: strmap
  pd_terminated :: strmap
  pd_exits :: "(string \<times> int \<times> string) list"
  pd_spec :: pod_spec

record pvc =
  pc_meta :: object_meta
  pc_requests :: "resource_list option"
  pc_class :: "string option"
  pc_volume :: string
  pc_phase :: string
  pc_capacity :: string

record pv =
  pw_meta :: object_meta
  pw_policy :: string
  pw_claim :: "string option"

record node =
  nd_meta :: object_meta
  nd_conditions :: "(string \<times> string) list"

record storage_class_obj =
  so_name :: string
  so_annotations :: strmap
  so_expand :: "bool option"

section \<open>The meta service\<close>

datatype error_code =
    SUCCEEDED | E_LEADER_CHANGED | E_EXISTED | E_NO_HOSTS | E_PART_NOT_FOUND | E_SPACE_NOT_FOUND | OtherCode int

datatype host_list = AllocHosts | StorageHosts | GraphHosts | MetaHosts

datatype job_op = JobAdd | JobShow | JobRecover
datatype job_type = LeaderBalance | ZoneBalance | DataBalance | Stats

datatype meta_req =
    GetSpaceReq string
  | DropSpaceReq string
  | ListSpacesReq
  | AddHostsReq "host_addr list"
  | AddHostsIntoZoneReq "host_addr list" string
  | DropHostsReq "host_addr list"
  | ListHostsReq host_list
  | ListPartsReq int "int list"
  | ListClusterReq
  | RestoreMetaReq "(host_addr \<times> host_addr) list" "string list"
  | AdminJobReq int job_op job_type "string list"

record space_item =
  sp_id :: int
  sp_partition_num :: int
  sp_replica_factor :: int

record part_item =
  pa_id :: int
  pa_leader :: "host_addr option"
  pa_peers :: "host_addr list"

datatype job_status = JobQueue | JobRunning | JobFinished | JobFailed | JobStopped

datatype host_status = Online | Offline | UnknownHost

record host_item =
  hi_host :: host_addr
  hi_status :: host_status
  hi_version :: string
  hi_leader_parts :: "(string \<times> int list) list"

record meta_resp =
  mr_code :: error_code
  mr_leader :: "host_addr option"
  mr_space :: space_item
  mr_spaces :: "(int \<times> string) list"
  mr_hosts :: "host_item list"
  mr_parts :: "part_item list"
  mr_job_id :: int
  mr_job_desc :: "job_status list"
  mr_services :: "(string \<times> service_info list) list"
  mr_part_hosts :: "(int \<times> (int \<times> host_addr list) list) list"

section \<open>The specification of a workload as it is recorded\<close>

text \<open>
  What \<open>json.Marshal\<close> of the \<open>spec\<close> of a workload carries, and what reading such a text back
  gives: a text that is no object is \<open>None\<close>, a missing field of it is a \<open>None\<close> inside.
\<close>

record pod_template =
  tp_labels :: strmap
  tp_annotations :: strmap
  tp_pod :: pod_spec

record update_strategy =
  us_type :: string
  us_partition :: "int option"
  us_recreate :: string

record applied_spec =
  ap_replicas :: "int option"
  ap_template :: "pod_template option"
  ap_strategy :: "update_strategy option"
  ap_selector :: strmap
  ap_service :: string
  ap_management :: string
  ap_claims :: "pvc_template list"

text \<open>Deployments.\<close>

record deploy_spec =
  ds_replicas :: "int option"
  ds_selector :: strmap
  ds_template :: pod_template
  ds_strategy :: string

record deployment =
  dp_meta :: object_meta
  dp_spec :: deploy_spec

text \<open>A subject of a role binding: its kind, name and namespace.\<close>

type_synonym rbac_subject = "string \<times> string \<times> string"

text \<open>The specification of a service, recorded the same way.\<close>

record svc_spec =
  vs_selector :: strmap
  vs_ports :: "service_port list"
  vs_cluster_ip :: string
  vs_publish_not_ready :: bool
  vs_type :: string

section \<open>Calls and the environment\<close>

text \<open>Those about role bindings and deployments, and those about backups, are types of their own.\<close>

datatype side_call =
    CreateServiceAccountC string
  | CreateClusterRoleC
  | GetRoleBindingC
  | CreateRoleBindingC
  | UpdateRoleBindingC "rbac_subject list"
  | GetDeploymentC string string
  | CreateDeploymentC deployment
  | UpdateDeploymentC deployment
  | DeleteDeploymentC deployment

datatype backup_call =
    GetSecretC string string
  | GetJobC string string
  | CreateJobC job
  | DeleteJobC job
  | ListJobPodsC string string
  | GetLogC string string string
  | GetBackupC string string
  | ListBackupsC string strmap
  | CreateBackupC nebula_backup
  | UpdateBackupC nebula_backup
  | UpdateBackupStatusC nebula_backup
  | DeleteBackupC nebula_backup
  | GetCronBackupC string string
  | UpdateCronStatusC cron_backup

datatype restore_call =
    GetRestoreC string string
  | UpdateRestoreStatusC nebula_restore
  | RandomC nat
  | MetaDirC
  | MkdirC string
  | ExistDirC string
  | DownloadC string string
  | ReadMetaC string
  | GetDirC string
  | AgentConnectC host_addr
  | AgentRpcC host_addr agent_req
  | AgentCloseC string
  | LoadCertsC string

datatype call =
    GetCluster string string
  | UpdateCluster nebula_cluster
  | UpdateClusterStatus nebula_cluster
  | CreateCluster nebula_cluster
  | DeleteCluster nebula_cluster
  | GetPodC string string
  | CreatePodC pod
  | UpdatePodC pod
  | DeletePodC pod bool
  | ListPodsC string strmap
  | GetPVCC string string
  | UpdatePVCC pvc
  | DeletePVCC pvc
  | ListPVCsC string strmap
  | GetPV string
  | PatchPV pv string
  | UpdatePV pv
  | GetNodeC string
  | GetWorkloadC string string gvk
  | CreateWorkloadC workload
  | UpdateWorkloadC workload
  | DeleteWorkloadC workload
  | GetServiceC string string
  | CreateServiceC service
  | UpdateServiceC service
  | GetConfigMapC string string
  | CreateConfigMapC config_map
  | UpdateConfigMapC config_map
  | GetStorageClassC string
  | ListStorageClassesC
  | KindsForC string string
  | SideCall side_call
  | BackupCall backup_call
  | RestoreCall restore_call
  | PutFlagsC string string
  | MetaConnect string
  | MetaReconnect string
  | MetaClose
  | MetaRpc meta_req
  | StorageConnect string
  | StorageClose
  | TransLeaderRpc int int host_addr
  | GetAutoscaler string string
  | UpdateAutoscalerStatus autoscaler
  | Calc calc_req
  | ParseSelector k8s
  | ParseLabels strmap
  | SelectingHpas "pod list"
  | Clock

text \<open>
  Besides the responses, \<open>env\<close> holds what the code takes from its libraries as a function
  (\<open>r_url\<close> is \<open>url.Parse\<close>: the path and the text with another path; \<open>r_set_uri\<close> the URI of a storage backend
  after \<open>SetUri\<close>; \<open>r_stack\<close> the depth of recursion the stack has room for):
  JSON, time formats, the parser of cron schedules, the texts of errors, SHA-512, the environment variables, and the texts of its own
  shell scripts and configuration templates.
\<close>

record side_env =
  d_subjects :: "call list \<Rightarrow> rbac_subject list outcome"
  d_deployment :: "call list \<Rightarrow> deployment outcome"
  d_encode_deploy :: "deploy_spec \<Rightarrow> string"
  d_decode_deploy :: "string \<Rightarrow> deploy_spec option"
  d_encode_pod :: "pod_spec \<Rightarrow> string"
  d_decode_pod :: "string \<Rightarrow> pod_spec option"

record backup_env =
  b_secret :: "call list \<Rightarrow> strmap outcome"
  b_job :: "call list \<Rightarrow> job outcome"
  b_pods :: "call list \<Rightarrow> pod list outcome"
  b_log :: "call list \<Rightarrow> string outcome"
  b_backup :: "call list \<Rightarrow> nebula_backup outcome"
  b_backups :: "call list \<Rightarrow> nebula_backup list outcome"
  b_cron :: "call list \<Rightarrow> cron_backup outcome"
  b_next_schedule :: "string \<Rightarrow> (int \<Rightarrow> int) option"
  b_time_text :: "int \<Rightarrow> string"

record restore_env =
  r_restore :: "call list \<Rightarrow> nebula_restore outcome"
  r_random :: "call list \<Rightarrow> string"
  r_meta_dir :: "call list \<Rightarrow> (string \<times> string list) option outcome"
  r_exist :: "call list \<Rightarrow> bool"
  r_meta_file :: "call list \<Rightarrow> backup_meta outcome"
  r_backend :: "call list \<Rightarrow> string outcome"
  r_agent :: "call list \<Rightarrow> string option outcome"
  r_url :: "string \<Rightarrow> (string \<times> (string \<Rightarrow> string)) option"
  r_set_uri :: "string \<Rightarrow> string outcome"
  r_storage_ok :: "string list \<Rightarrow> unit outcome"
  r_stack :: nat

record env =
  e_cluster :: "call list \<Rightarrow> nebula_cluster outcome"
  e_pod :: "call list \<Rightarrow> pod outcome"
  e_pods :: "call list \<Rightarrow> pod list outcome"
  e_pvc :: "call list \<Rightarrow> pvc outcome"
  e_pvcs :: "call list \<Rightarrow> pvc list outcome"
  e_pv :: "call list \<Rightarrow> pv outcome"
  e_node :: "call list \<Rightarrow> node outcome"
  e_workload :: "call list \<Rightarrow> workload outcome"
  e_service :: "call list \<Rightarrow> service outcome"
  e_config_map :: "call list \<Rightarrow> config_map outcome"
  e_storage_class :: "call list \<Rightarrow> storage_class_obj outcome"
  e_storage_classes :: "call list \<Rightarrow> storage_class_obj list outcome"
  e_kinds :: "call list \<Rightarrow> gvk list outcome"
  e_done :: "call list \<Rightarrow> unit outcome"
  e_meta :: "call list \<Rightarrow> meta_resp outcome"
  e_trans :: "call list \<Rightarrow> (error_code \<times> host_addr option) list outcome"
  e_side :: side_env
  e_bk :: backup_env
  e_rs :: restore_env
  e_hpa :: "call list \<Rightarrow> autoscaler outcome"
  e_calc :: "call list \<Rightarrow> calc_resp outcome"
  e_keys :: "call list \<Rightarrow> string list"
  e_clock :: "call list \<Rightarrow> int"
  e_steps :: nat
  e_getenv :: "string \<Rightarrow> string"
  e_encode :: "applied_spec \<Rightarrow> string"
  e_decode :: "string \<Rightarrow> applied_spec option"
  e_encode_svc :: "svc_spec \<Rightarrow> string"
  e_decode_svc :: "string \<Rightarrow> svc_spec option"
  e_marshal :: "strmap \<Rightarrow> string"
  e_unmarshal :: "string \<Rightarrow> strmap option"
  e_scripts :: "string \<Rightarrow> string"
  e_duration :: "string \<Rightarrow> int option"
  e_rfc3339 :: "int \<Rightarrow> string"
  e_parse_time :: "string \<Rightarrow> int option"
  e_error_text :: "go_err \<Rightarrow> string"
  e_sha512_hex :: "string \<Rightarrow> string"
  e_config :: "component_type \<Rightarrow> string"

type_synonym 'a io = "(call list, 'a) go"

text \<open>Sending a request: it enters the history and is answered.\<close>

definition send :: "(call list \<Rightarrow> 'a outcome) \<Rightarrow> call \<Rightarrow> 'a io" where
  "send f c = State (\<lambda>h. (f (c # h), c # h))"

definition now :: "env \<Rightarrow> int io" where
  "now e = State (\<lambda>h. (Ok (e_clock e (Clock # h)), Clock # h))"

lemma wp_send [wp_simps]: "wp (send f c) Q h = Q (f (c # h)) (c # h)"
  by (simp add: send_def wp_def)

lemma wp_now [wp_simps]: "wp (now e) Q h = Q (Ok (e_clock e (Clock # h))) (Clock # h)"
  by (simp add: now_def wp_def)

text \<open>
  \<open>retry.RetryOnConflict\<close>: the function is run again as long as it reports a conflict, at
  most \<open>e_steps\<close> times in all (the number of steps of the back-off; 4 for
  \<open>DefaultBackoff\<close>); the last error is returned.
\<close>

fun retry_on_conflict :: "nat \<Rightarrow> 'a io \<Rightarrow> 'a io" where
  "retry_on_conflict 0 m = throw ErrConflict"
| "retry_on_conflict (Suc 0) m = m"
| "retry_on_conflict (Suc (Suc n)) m =
     m \<bind> handle (\<lambda>e. if e = ErrConflict then retry_on_conflict (Suc n) m else throw e) ret"

text \<open>A failed attempt keeps the invariant \<open>I\<close>; whatever attempt is the last one ends in \<open>Q\<close>.\<close>

lemma wp_retry:
  assumes "\<And>h. I h \<Longrightarrow> wp m (\<lambda>r h'. Q r h' \<and> (r = Err ErrConflict \<longrightarrow> I h')) h" "I h"
    and "\<And>h. I h \<Longrightarrow> Q (Err ErrConflict) h"
  shows "wp (retry_on_conflict n m) Q h"
  using assms(2)
proof (induction n arbitrary: h)
  case 0
  then show ?case using assms(3) by (simp add: wp_return)
next
  case (Suc n)
  note m = assms(1) [OF Suc.prems] and IH = Suc.IH
  show ?case
  proof (cases n)
    case 0
    have "wp m Q h" by (rule wp_mono [OF m]) simp
    with 0 show ?thesis by simp
  next
    case (Suc k)
    have "wp m (\<lambda>r h'. wp (handle (\<lambda>e. if e = ErrConflict then retry_on_conflict (Suc k) m else throw e) ret r) Q h') h"
      using IH Suc by (intro wp_mono [OF m]) (auto simp: wp_simps split: outcome.splits)
    with Suc show ?thesis by (simp add: wp_bind)
  qed
qed

section \<open>Which calls an operation makes\<close>

text \<open>
  \<open>emits P m\<close>: from every history, \<open>m\<close> only adds calls that satisfy \<open>P\<close>. The collection
  \<open>emits\<close> follows the structure of the code.
\<close>

named_theorems emits

definition emits :: "(call \<Rightarrow> bool) \<Rightarrow> 'a io \<Rightarrow> bool" where
  "emits P m \<longleftrightarrow> (\<forall>h. wp m (\<lambda>_ h'. \<exists>new. h' = new @ h \<and> (\<forall>c\<in>set new. P c)) h)"

lemma emitsD: "emits P m \<Longrightarrow> wp m (\<lambda>_ h'. \<exists>new. h' = new @ h \<and> (\<forall>c\<in>set new. P c)) h"
  by (simp add: emits_def)

lemma emits_send [emits]: "P c \<Longrightarrow> emits P (send f c)"
  by (auto simp: emits_def wp_simps)

lemma emits_now [emits]: "P Clock \<Longrightarrow> emits P (now e)"
  by (auto simp: emits_def wp_simps)

lemma emits_return [emits]: "emits P (State_Monad.return r)"
  by (auto simp: emits_def wp_simps)

lemma emits_lift [emits]: "emits P (lift r)"
  by (auto simp: emits_def wp_simps)

lemma emits_bind [emits]:
  assumes m: "emits P m" and f: "\<And>r. emits P (f r)"
  shows "emits P (m \<bind> f)"
  unfolding emits_def wp_bind
proof (intro allI, rule wp_mono [OF emitsD [OF m]])
  fix h r h'
  assume "\<exists>new. h' = new @ h \<and> (\<forall>c\<in>set new. P c)"
  then obtain new where n: "h' = new @ h" "\<forall>c\<in>set new. P c" by blast
  show "wp (f r) (\<lambda>_ h''. \<exists>new. h'' = new @ h \<and> (\<forall>c\<in>set new. P c)) h'"
  proof (rule wp_mono [OF emitsD [OF f]])
    fix a h''
    assume "\<exists>new. h'' = new @ h' \<and> (\<forall>c\<in>set new. P c)"
    then obtain more where "h'' = more @ h'" "\<forall>c\<in>set more. P c" by blast
    with n show "\<exists>new. h'' = new @ h \<and> (\<forall>c\<in>set new. P c)"
      by (intro exI [of _ "more @ new"]) auto
  qed
qed

lemma emits_handle [emits]:
  "(\<And>x. emits P (f x)) \<Longrightarrow> (\<And>x. emits P (k x)) \<Longrightarrow> emits P (handle k f r)"
  by (simp add: handle_def emits_return split: outcome.splits)

lemma emits_ok [emits]: "(\<And>x. emits P (f x)) \<Longrightarrow> emits P (ok f r)"
  by (simp add: ok_def emits_handle emits_return)

lemma emits_if [emits]: "(b \<Longrightarrow> emits P m) \<Longrightarrow> (\<not> b \<Longrightarrow> emits P n) \<Longrightarrow> emits P (if b then m else n)"
  by simp

lemma emits_for_each [emits]: "(\<And>x. x \<in> set xs \<Longrightarrow> emits P (f x)) \<Longrightarrow> emits P (for_each f xs)"
  by (induction xs) (simp_all add: emits_return emits_bind emits_ok)

lemma emits_fold_go [emits]: "(\<And>x a. x \<in> set xs \<Longrightarrow> emits P (f x a)) \<Longrightarrow> emits P (fold_go f xs a)"
  by (induction xs arbitrary: a) (simp_all add: emits_return emits_bind emits_ok)

lemma emits_retry [emits]: "emits P m \<Longrightarrow> emits P (retry_on_conflict n m)"
  by (induction n m rule: retry_on_conflict.induct)
     (auto intro!: emits_return emits_bind emits_handle)

lemma emits_prod [emits]: "(\<And>a b. emits P (f a b)) \<Longrightarrow> emits P (case p of (a, b) \<Rightarrow> f a b)"
  by (cases p) simp

lemma emits_option [emits]:
  "emits P n \<Longrightarrow> (\<And>x. emits P (f x)) \<Longrightarrow> emits P (case v of None \<Rightarrow> n | Some x \<Rightarrow> f x)"
  by (cases v) simp_all

lemma emits_mono: "emits P m \<Longrightarrow> (\<And>c. P c \<Longrightarrow> Q c) \<Longrightarrow> emits Q m"
  unfolding emits_def by (intro allI, erule allE, erule wp_mono) blast

text \<open>Reading the run off an \<open>emits\<close> fact.\<close>

lemma emits_run: "emits P m \<Longrightarrow> run_state m h = (r, h') \<Longrightarrow> \<exists>new. h' = new @ h \<and> (\<forall>c\<in>set new. P c)"
  using emitsD [of P m h] by (simp add: wp_def)

section \<open>Results that do not depend on the history\<close>

text \<open>\<open>yields V m\<close>: whatever the world answers, a result \<open>Ok x\<close> of \<open>m\<close> satisfies \<open>V x\<close>.\<close>

named_theorems yields

definition yields :: "('a \<Rightarrow> bool) \<Rightarrow> 'a io \<Rightarrow> bool" where
  "yields V m \<longleftrightarrow> (\<forall>h. wp m (\<lambda>r _. \<forall>x. r = Ok x \<longrightarrow> V x) h)"

lemma yieldsD: "yields V m \<Longrightarrow> wp m (\<lambda>r _. \<forall>x. r = Ok x \<longrightarrow> V x) h"
  by (simp add: yields_def)

lemma yields_run: "yields V m \<Longrightarrow> run_state m h = (Ok x, h') \<Longrightarrow> V x"
  using yieldsD [of V m h] by (simp add: wp_def)

lemma yields_return: "(\<And>x. r = Ok x \<Longrightarrow> V x) \<Longrightarrow> yields V (State_Monad.return r)"
  by (simp add: yields_def wp_simps)

lemma yields_ret [yields]: "V x \<Longrightarrow> yields V (ret x)"
  by (simp add: yields_def wp_simps)

lemma yields_throw [yields]: "yields V (throw x)"
  by (simp add: yields_def wp_simps)

lemma yields_lift: "(\<And>x. r = Ok x \<Longrightarrow> V x) \<Longrightarrow> yields V (lift r)"
  by (simp add: yields_def wp_simps)

lemma yields_lift_value: "yields (\<lambda>x. r = Ok x) (lift r)"
  by (simp add: yields_def wp_simps)

lemma yields_any [yields]: "yields (\<lambda>_. True) m"
  by (auto simp: yields_def wp_def split: prod.splits)

lemma yields_handle:
  assumes "yields U m" "\<And>x. U x \<Longrightarrow> yields V (f x)" "\<And>x. yields V (k x)"
  shows "yields V (m \<bind> handle k f)"
  unfolding yields_def wp_bind
  by (rule allI, rule wp_mono [OF yieldsD [OF assms(1)]])
     (use assms(2,3) in \<open>auto simp: wp_simps yields_def split: outcome.splits\<close>)

lemma yields_ok:
  assumes "yields U m" "\<And>x. U x \<Longrightarrow> yields V (f x)"
  shows "yields V (m \<bind> ok f)"
  unfolding ok_def by (rule yields_handle [where U = U]) (auto intro: assms yields_throw)

lemma yields_fold:
  assumes "\<And>x a. x \<in> set xs \<Longrightarrow> I a \<Longrightarrow> yields I (f x a)" "I a"
  shows "yields I (fold_go f xs a)"
  using assms by (induction xs arbitrary: a) (auto intro!: yields_ret intro: yields_ok)

lemma yields_if: "(b \<Longrightarrow> yields V m) \<Longrightarrow> (\<not> b \<Longrightarrow> yields V n) \<Longrightarrow> yields V (if b then m else n)"
  by simp

lemma yields_mono: "yields U m \<Longrightarrow> (\<And>x. U x \<Longrightarrow> V x) \<Longrightarrow> yields V m"
  unfolding yields_def by (intro allI, erule allE, erule wp_mono) blast

lemma yields_prod: "(\<And>a b. p = (a, b) \<Longrightarrow> yields V (f a b)) \<Longrightarrow> yields V (case p of (a, b) \<Rightarrow> f a b)"
  by (cases p) simp

lemma emits_okV:
  assumes "emits P m" "yields U m" "\<And>x. U x \<Longrightarrow> emits P (f x)"
  shows "emits P (m \<bind> ok f)"
proof -
  have "emits P (m \<bind> (\<lambda>r. (case r of Ok x \<Rightarrow> if U x then ok f r else panic | _ \<Rightarrow> ok f r)))"
    by (intro emits_bind assms(1))
       (auto simp: ok_def handle_def intro!: emits_return assms(3) split: outcome.splits)
  moreover have "run_state (m \<bind> (\<lambda>r. (case r of Ok x \<Rightarrow> if U x then ok f r else panic | _ \<Rightarrow> ok f r))) h
      = run_state (m \<bind> ok f) h" for h
    using assms(2) by (auto simp: yields_def wp_def split: prod.splits outcome.splits)
  ultimately show ?thesis by (simp add: emits_def wp_def)
qed

text \<open>
  An environment for concrete runs: a world in which nothing exists and every request that
  only has to be accepted is accepted; the fields of interest are set where it is used.
\<close>

definition empty_side :: side_env where
  "empty_side =
     \<lparr>d_subjects = \<lambda>_. Ok [], d_deployment = \<lambda>_. Err ErrNotFound, d_encode_deploy = \<lambda>_. '''', d_decode_deploy = \<lambda>_. None,
      d_encode_pod = \<lambda>_. '''', d_decode_pod = \<lambda>_. None\<rparr>"

definition empty_backups :: backup_env where
  "empty_backups =
     \<lparr>b_secret = \<lambda>_. Err ErrNotFound, b_job = \<lambda>_. Err ErrNotFound, b_pods = \<lambda>_. Ok [], b_log = \<lambda>_. Ok '''',
      b_backup = \<lambda>_. Err ErrNotFound, b_backups = \<lambda>_. Ok [], b_cron = \<lambda>_. Err ErrNotFound,
      b_next_schedule = \<lambda>_. None, b_time_text = show_int\<rparr>"

definition empty_restores :: restore_env where
  "empty_restores =
     \<lparr>r_restore = \<lambda>_. Err ErrNotFound, r_random = \<lambda>_. ''abcd'', r_meta_dir = \<lambda>_. Err (ErrApi ''unreachable''),
      r_exist = \<lambda>_. False, r_meta_file = \<lambda>_. Err ErrNotFound, r_backend = \<lambda>_. Err ErrNotFound,
      r_agent = \<lambda>_. Err (ErrApi ''unreachable''), r_url = (\<lambda>u. Some (u, \<lambda>p. p)), r_set_uri = Ok, r_storage_ok = \<lambda>_. Ok (), r_stack = 1000\<rparr>"

definition empty_world :: env where
  "empty_world =
     \<lparr>e_cluster = \<lambda>_. Err ErrNotFound, e_pod = \<lambda>_. Err ErrNotFound, e_pods = \<lambda>_. Ok [],
      e_pvc = \<lambda>_. Err ErrNotFound, e_pvcs = \<lambda>_. Ok [], e_pv = \<lambda>_. Err ErrNotFound,
      e_node = \<lambda>_. Err ErrNotFound, e_workload = \<lambda>_. Err ErrNotFound, e_service = \<lambda>_. Err ErrNotFound,
      e_config_map = \<lambda>_. Err ErrNotFound, e_storage_class = \<lambda>_. Err ErrNotFound,
      e_storage_classes = \<lambda>_. Ok [], e_kinds = \<lambda>_. Ok [], e_done = \<lambda>_. Ok (),
      e_meta = \<lambda>_. Err (ErrApi ''unreachable''), e_trans = \<lambda>_. Err (ErrApi ''unreachable''),
      e_side = empty_side, e_bk = empty_backups, e_rs = empty_restores,
      e_hpa = \<lambda>_. Err ErrNotFound, e_calc = \<lambda>_. Err (ErrApi ''no metrics''), e_keys = \<lambda>_. [],
      e_clock = \<lambda>h. int (length h), e_steps = 4, e_getenv = \<lambda>_. '''',
      e_encode = \<lambda>_. '''', e_decode = \<lambda>_. None, e_encode_svc = \<lambda>_. '''', e_decode_svc = \<lambda>_. None,  e_marshal = \<lambda>_. '''', e_unmarshal = \<lambda>_. None,
      e_scripts = (\<lambda>s. s), e_duration = \<lambda>_. None, e_rfc3339 = show_int, e_parse_time = parse_int 64,
      e_error_text = (\<lambda>_. ''error''),
      e_sha512_hex = (\<lambda>s. s), e_config = \<lambda>_. ''''\<rparr>"

end
