(* ===== verification/KubeClient.thy ===== *)
theory KubeClient
  imports KubeEnv "HOL-Library.List_Lexorder"
begin

text \<open>
  The typed clients of \<open>pkg/kube\<close>: each operation of the source is one definition. Log lines
  are left out. \<open>reflect.DeepEqual\<close> of two string maps is \<open>same_map\<close>.
\<close>

section \<open>NebulaClusters (nebulacluster.go)\<close>

definition CreateNebulaCluster :: "env \<Rightarrow> nebula_cluster \<Rightarrow> unit io" where
  "CreateNebulaCluster e nc =
     send (e_done e) (CreateCluster nc) \<bind>
       handle (\<lambda>x. case x of ErrAlreadyExists _ \<Rightarrow> ret () | _ \<Rightarrow> throw x) ret"

definition GetNebulaCluster :: "env \<Rightarrow> string \<Rightarrow> string \<Rightarrow> nebula_cluster io" where
  "GetNebulaCluster e ns name = send (e_cluster e) (GetCluster ns name)"

text \<open>
  The comparison that is to skip an unchanged update compares a pointer with a value
  (\<open>reflect.DeepEqual(ncSpec, ncClone.Spec)\<close>) and is never true.
\<close>

definition UpdateNebulaCluster :: "env \<Rightarrow> nebula_cluster \<Rightarrow> unit io" where
  "UpdateNebulaCluster e nc =
     retry_on_conflict (e_steps e)
       (GetNebulaCluster e (nc_ns nc) (nc_name nc) \<bind> ok (\<lambda>live.
          send (e_done e) (UpdateCluster
            (live\<lparr>nc_spec := nc_spec nc,
                  nc_meta := (nc_meta live)\<lparr>om_labels := om_labels (nc_meta nc),
                                           om_annotations := om_annotations (nc_meta nc)\<rparr>\<rparr>))))"

definition UpdateNebulaClusterStatus :: "env \<Rightarrow> nebula_cluster \<Rightarrow> unit io" where
  "UpdateNebulaClusterStatus e nc =
     retry_on_conflict (e_steps e)
       (GetNebulaCluster e (nc_ns nc) (nc_name nc) \<bind> ok (\<lambda>live.
          if nc_status nc = nc_status live then ret ()
          else send (e_done e) (UpdateClusterStatus (live\<lparr>nc_status := nc_status nc\<rparr>))))"

definition DeleteNebulaCluster :: "env \<Rightarrow> string \<Rightarrow> string \<Rightarrow> unit io" where
  "DeleteNebulaCluster e ns name =
     GetNebulaCluster e ns name \<bind>
       handle (\<lambda>x. if x = ErrNotFound then ret () else throw x)
         (\<lambda>nc. send (e_done e) (DeleteCluster nc))"

section \<open>Autoscalers (autoscaler.go)\<close>

definition GetNebulaAutoscaler :: "env \<Rightarrow> string \<Rightarrow> string \<Rightarrow> autoscaler io" where
  "GetNebulaAutoscaler e ns name = send (e_hpa e) (GetAutoscaler ns name)"

definition UpdateNebulaAutoscalerStatus :: "env \<Rightarrow> autoscaler \<Rightarrow> unit io" where
  "UpdateNebulaAutoscalerStatus e a =
     retry_on_conflict (e_steps e)
       (GetNebulaAutoscaler e (om_namespace (hp_meta a)) (om_name (hp_meta a)) \<bind> ok (\<lambda>live.
          send (e_done e) (UpdateAutoscalerStatus (live\<lparr>hp_status := hp_status a\<rparr>))))"

section \<open>Pods (pod.go) and nodes (node.go)\<close>

definition GetPod :: "env \<Rightarrow> string \<Rightarrow> string \<Rightarrow> pod io" where
  "GetPod e ns name = send (e_pod e) (GetPodC ns name)"

definition CreatePod :: "env \<Rightarrow> pod \<Rightarrow> unit io" where
  "CreatePod e p =
     send (e_done e) (CreatePodC p) \<bind>
       handle (\<lambda>x. if x = ErrAlreadyExists False then ret () else throw x) ret"

definition UpdatePod :: "env \<Rightarrow> pod \<Rightarrow> unit io" where
  "UpdatePod e p =
     retry_on_conflict (e_steps e)
       (GetPod e (om_namespace (pd_meta p)) (om_name (pd_meta p)) \<bind> ok (\<lambda>live.
          send (e_done e) (UpdatePodC
            (live\<lparr>pd_meta := (pd_meta live)\<lparr>om_labels := om_labels (pd_meta p),
                                            om_annotations := om_annotations (pd_meta p)\<rparr>\<rparr>))))"

text \<open>The identity and version of the pod read are preconditions of the deletion.\<close>

definition DeletePod :: "env \<Rightarrow> string \<Rightarrow> string \<Rightarrow> bool \<Rightarrow> unit io" where
  "DeletePod e ns name nonGraceful =
     GetPod e ns name \<bind> ok (\<lambda>p. send (e_done e) (DeletePodC p nonGraceful))"

definition ListPods :: "env \<Rightarrow> string \<Rightarrow> strmap \<Rightarrow> pod list io" where
  "ListPods e ns selector = send (e_pods e) (ListPodsC ns selector)"

definition GetNode :: "env \<Rightarrow> string \<Rightarrow> node io" where
  "GetNode e name = send (e_node e) (GetNodeC name)"

section \<open>Persistent volume claims (pvc.go) and volumes (pv.go)\<close>

abbreviation AnnPodNameKey :: string where "AnnPodNameKey \<equiv> ''nebula-graph.io/pod-name''"
abbreviation AnnPvReclaimKey :: string where "AnnPvReclaimKey \<equiv> ''nebula-graph.io/enable-pv-reclaim''"
abbreviation AnnPVCDeferDeletingKey :: string where
  "AnnPVCDeferDeletingKey \<equiv> ''nebula-graph.io/pvc-defer-deleting''"

definition GetPVC :: "env \<Rightarrow> string \<Rightarrow> string \<Rightarrow> pvc io" where
  "GetPVC e ns name = send (e_pvc e) (GetPVCC ns name)"

definition ListPVCs :: "env \<Rightarrow> string \<Rightarrow> strmap \<Rightarrow> pvc list io" where
  "ListPVCs e ns selector = send (e_pvcs e) (ListPVCsC ns selector)"

definition same_requests :: "resource_list option \<Rightarrow> resource_list option \<Rightarrow> bool" where
  "same_requests a b = (case (a, b) of
       (Some x, Some y) \<Rightarrow> same_map x y | (None, None) \<Rightarrow> True | _ \<Rightarrow> False)"

definition UpdatePVC :: "env \<Rightarrow> pvc \<Rightarrow> unit io" where
  "UpdatePVC e p =
     retry_on_conflict (e_steps e)
       (GetPVC e (om_namespace (pc_meta p)) (om_name (pc_meta p)) \<bind> ok (\<lambda>live.
          if same_map (om_labels (pc_meta p)) (om_labels (pc_meta live))
             \<and> same_map (om_annotations (pc_meta p)) (om_annotations (pc_meta live))
             \<and> same_requests (pc_requests p) (pc_requests live)
          then ret ()
          else send (e_done e) (UpdatePVCC
            (live\<lparr>pc_meta := (pc_meta live)\<lparr>om_labels := om_labels (pc_meta p),
                                            om_annotations := om_annotations (pc_meta p)\<rparr>,
                  pc_requests := pc_requests p\<rparr>))))"

definition pvc_UpdateMetaInfo :: "env \<Rightarrow> pvc \<Rightarrow> pod \<Rightarrow> bool \<Rightarrow> unit io" where
  "pvc_UpdateMetaInfo e p pd isReclaimEnabled =
     (let podName = om_name (pd_meta pd);
          m = pc_meta p
      in UpdatePVC e (p\<lparr>pc_meta := m\<lparr>
           om_labels := AList.update AnnPodNameKey podName (om_labels m),
           om_annotations := AList.update AnnPvReclaimKey (if isReclaimEnabled then ''true'' else ''false'')
             (AList.update AnnPodNameKey podName (om_annotations m))\<rparr>\<rparr>))"

definition DeletePVC :: "env \<Rightarrow> string \<Rightarrow> string \<Rightarrow> unit io" where
  "DeletePVC e ns name =
     GetPVC e ns name \<bind>
       handle (\<lambda>x. if x = ErrNotFound then ret () else throw x)
         (\<lambda>p. send (e_done e) (DeletePVCC p))"

definition GetPersistentVolume :: "env \<Rightarrow> string \<Rightarrow> pv io" where
  "GetPersistentVolume e name = send (e_pv e) (GetPV name)"

definition PatchPVReclaimPolicy :: "env \<Rightarrow> pv \<Rightarrow> string \<Rightarrow> unit io" where
  "PatchPVReclaimPolicy e v policy = retry_on_conflict (e_steps e) (send (e_done e) (PatchPV v policy))"

definition UpdatePersistentVolume :: "env \<Rightarrow> pv \<Rightarrow> unit io" where
  "UpdatePersistentVolume e v =
     retry_on_conflict (e_steps e)
       (GetPersistentVolume e (om_name (pw_meta v)) \<bind> ok (\<lambda>live.
          if same_map (om_labels (pw_meta v)) (om_labels (pw_meta live))
             \<and> same_map (om_annotations (pw_meta v)) (om_annotations (pw_meta live))
          then ret ()
          else send (e_done e) (UpdatePV
            (live\<lparr>pw_meta := (pw_meta live)\<lparr>om_labels := om_labels (pw_meta v),
                                            om_annotations := om_annotations (pw_meta v)\<rparr>\<rparr>))))"

definition pv_UpdateMetaInfo :: "env \<Rightarrow> string \<Rightarrow> pv \<Rightarrow> unit io" where
  "pv_UpdateMetaInfo e ns v =
     (case pw_claim v of
        None \<Rightarrow> ret ()
      | Some pvcName \<Rightarrow>
          send (e_pvc e) (GetPVCC ns pvcName) \<bind>
            handle (\<lambda>x. if x = ErrNotFound then ret () else throw x)
              (\<lambda>p. let l = om_labels (pc_meta p); m = pw_meta v
                   in UpdatePersistentVolume e (v\<lparr>pw_meta := m\<lparr>
                        om_labels :=
                          AList.update ManagedByLabelKey (map_val l ManagedByLabelKey)
                            (AList.update NameLabelKey (map_val l NameLabelKey)
                              (AList.update ClusterLabelKey (map_val l ClusterLabelKey)
                                (AList.update ComponentLabelKey (map_val l ComponentLabelKey) (om_labels m)))),
                        om_annotations :=
                          AList.update AnnPodNameKey (map_val (om_annotations (pc_meta p)) AnnPodNameKey)
                            (om_annotations m)\<rparr>\<rparr>)))"

section \<open>Workloads (workload.go)\<close>

definition GetWorkloadObj :: "env \<Rightarrow> string \<Rightarrow> string \<Rightarrow> gvk \<Rightarrow> workload io" where
  "GetWorkloadObj e ns name g = send (e_workload e) (GetWorkloadC ns name g)"

definition CreateWorkload :: "env \<Rightarrow> workload \<Rightarrow> unit io" where
  "CreateWorkload e w =
     send (e_done e) (CreateWorkloadC w) \<bind>
       handle (\<lambda>x. case x of ErrAlreadyExists _ \<Rightarrow> ret () | _ \<Rightarrow> throw x) ret"

text \<open>Only the specification, labels and annotations of the workload are written.\<close>

definition set_wl_spec :: "workload \<Rightarrow> workload \<Rightarrow> workload" where
  "set_wl_spec w live =
     w\<lparr>wl_api_version := wl_api_version live, wl_kind := wl_kind live, wl_status := wl_status live,
       wl_meta := (wl_meta live)\<lparr>om_labels := om_labels (wl_meta w), om_annotations := om_annotations (wl_meta w)\<rparr>\<rparr>"

definition advanced_gvk :: gvk where
  "advanced_gvk = \<lparr>gk_group = ''apps.kruise.io'', gk_version = ''v1beta1'', gk_kind = ''StatefulSet''\<rparr>"

definition native_gvk :: gvk where
  "native_gvk = \<lparr>gk_group = ''apps'', gk_version = ''v1'', gk_kind = ''StatefulSet''\<rparr>"

definition UpdateWorkload :: "env \<Rightarrow> workload \<Rightarrow> unit io" where
  "UpdateWorkload e w =
     (let g = (if wl_kind w = ''StatefulSet'' \<and> take 15 (wl_api_version w) = ''apps.kruise.io/''
               then advanced_gvk else native_gvk)
      in retry_on_conflict (e_steps e)
           (GetWorkloadObj e (om_namespace (wl_meta w)) (om_name (wl_meta w)) g \<bind> ok (\<lambda>live.
              send (e_done e) (UpdateWorkloadC (set_wl_spec w live)))))"

definition DeleteWorkload :: "env \<Rightarrow> workload \<Rightarrow> unit io" where
  "DeleteWorkload e w = send (e_done e) (DeleteWorkloadC w)"

section \<open>Services (service.go) and config maps (cm.go)\<close>

definition CreateService :: "env \<Rightarrow> service \<Rightarrow> unit io" where
  "CreateService e s =
     send (e_done e) (CreateServiceC s) \<bind>
       handle (\<lambda>x. case x of ErrAlreadyExists _ \<Rightarrow> ret () | _ \<Rightarrow> throw x) ret"

definition GetService :: "env \<Rightarrow> string \<Rightarrow> string \<Rightarrow> service io" where
  "GetService e ns name = send (e_service e) (GetServiceC ns name)"

definition UpdateService :: "env \<Rightarrow> service \<Rightarrow> unit io" where
  "UpdateService e s =
     retry_on_conflict (e_steps e)
       (GetService e (om_namespace (sv_meta s)) (om_name (sv_meta s)) \<bind> ok (\<lambda>live.
          send (e_done e) (UpdateServiceC
            (s\<lparr>sv_meta := (sv_meta live)\<lparr>om_labels := om_labels (sv_meta s),
                                         om_annotations := om_annotations (sv_meta s)\<rparr>\<rparr>))))"

definition GetConfigMap :: "env \<Rightarrow> string \<Rightarrow> string \<Rightarrow> config_map io" where
  "GetConfigMap e ns name = send (e_config_map e) (GetConfigMapC ns name)"

text \<open>Only the data reaches the server: labels and annotations of the argument are not written.\<close>

definition updateConfigMap :: "env \<Rightarrow> config_map \<Rightarrow> unit io" where
  "updateConfigMap e cm =
     retry_on_conflict (e_steps e)
       (GetConfigMap e (om_namespace (cm_meta cm)) (om_name (cm_meta cm)) \<bind> ok (\<lambda>live.
          send (e_done e) (UpdateConfigMapC (live\<lparr>cm_data := cm_data cm\<rparr>))))"

definition merge_config_map :: "config_map \<Rightarrow> config_map \<Rightarrow> config_map" where
  "merge_config_map existing desired =
     existing\<lparr>cm_data := cm_data desired,
              cm_meta := (cm_meta existing)\<lparr>om_labels := om_labels (cm_meta desired),
                om_annotations := fold (\<lambda>(k, v). AList.update k v) (om_annotations (cm_meta desired))
                                    (om_annotations (cm_meta existing))\<rparr>\<rparr>"

definition same_config_map :: "config_map \<Rightarrow> config_map \<Rightarrow> bool" where
  "same_config_map a b \<longleftrightarrow> same_map (cm_data a) (cm_data b)
     \<and> same_map (om_labels (cm_meta a)) (om_labels (cm_meta b))
     \<and> same_map (om_annotations (cm_meta a)) (om_annotations (cm_meta b))"

definition CreateOrUpdateConfigMap :: "env \<Rightarrow> config_map \<Rightarrow> unit io" where
  "CreateOrUpdateConfigMap e cm =
     send (e_done e) (CreateConfigMapC cm) \<bind>
       handle (\<lambda>x. case x of
           ErrAlreadyExists _ \<Rightarrow>
             GetConfigMap e (om_namespace (cm_meta cm)) (om_name (cm_meta cm)) \<bind> ok (\<lambda>existing.
               if \<not> same_config_map existing (merge_config_map existing cm)
               then updateConfigMap e (merge_config_map existing cm) else ret ())
         | _ \<Rightarrow> throw x) ret"

section \<open>Finalizers (kube.go)\<close>

text \<open>Removing a finalizer from a claim; \<open>sets.String.List\<close> sorts what is left.\<close>

definition remove_finalizer :: "string \<Rightarrow> string list \<Rightarrow> string list" where
  "remove_finalizer f fs = sort_key (map (of_char :: char \<Rightarrow> nat)) (remdups (filter (\<lambda>x. x \<noteq> f) fs))"

definition UpdateFinalizer_remove :: "env \<Rightarrow> pvc \<Rightarrow> string \<Rightarrow> unit io" where
  "UpdateFinalizer_remove e p f =
     retry_on_conflict 5
       (send (e_pvc e) (GetPVCC (om_namespace (pc_meta p)) (om_name (pc_meta p))) \<bind> ok (\<lambda>live.
          if f \<notin> set (om_finalizers (pc_meta live)) then ret ()
          else send (e_done e) (UpdatePVCC (live\<lparr>pc_meta :=
                 (pc_meta live)\<lparr>om_finalizers := remove_finalizer f (om_finalizers (pc_meta live))\<rparr>\<rparr>))))"

section \<open>The update protocol\<close>

text \<open>
  All \<open>Update*\<close> operations follow one protocol: read the live object; when it already holds
  what is to be written, stop; otherwise write an object made from the live one; on a conflict
  start again from a new read. What a caller may rely on is proved here once.
\<close>

locale optimistic_update =
  fixes e :: env
    and reader :: "call list \<Rightarrow> 'a outcome"
    and rd :: call
    and same :: "'a \<Rightarrow> bool"
    and wr :: "'a \<Rightarrow> call"
    and upd :: "unit io"
  assumes protocol: "upd = retry_on_conflict (e_steps e)
      (send reader rd \<bind> ok (\<lambda>live. if same live then ret () else send (e_done e) (wr live)))"
    and distinct_calls: "wr live \<noteq> rd"
begin

text \<open>Success means: the object read last held it already, or the write made from it was accepted.\<close>

lemma success:
  "wp upd (\<lambda>r h'. r = Ok () \<longrightarrow>
     (\<exists>live t. (h' = rd # t \<and> reader h' = Ok live \<and> same live)
             \<or> (h' = wr live # rd # t \<and> reader (rd # t) = Ok live \<and> \<not> same live \<and> e_done e h' = Ok ()))) h"
  unfolding protocol
  by (rule wp_retry [where I = "\<lambda>_. True"]) (auto simp: wp_simps split: outcome.splits)

text \<open>Nothing else is asked of the server, and every write is made from the read right before it.\<close>

lemma calls: "emits (\<lambda>c. c = rd \<or> (\<exists>live. c = wr live \<and> \<not> same live)) upd"
  unfolding protocol by (intro emits) auto

lemma writes_fresh:
  "wp upd (\<lambda>r h'. \<forall>a c b p. h' = a @ c # b \<longrightarrow> b = p @ h \<longrightarrow> c \<noteq> rd \<longrightarrow>
     (\<exists>live t. b = rd # t \<and> reader b = Ok live \<and> c = wr live)) h"
proof -
  define F where "F h' \<longleftrightarrow> (\<forall>a c b p. h' = a @ c # b \<longrightarrow> b = p @ h \<longrightarrow> c \<noteq> rd \<longrightarrow>
     (\<exists>live t. b = rd # t \<and> reader b = Ok live \<and> c = wr live))" for h'
  have F0: "F h" by (auto simp: F_def)
  have F1: "F (rd # t)" if "F t" for t
    using that by (auto simp: F_def Cons_eq_append_conv)
  have F2: "F (wr live # rd # t)" if "F t" "reader (rd # t) = Ok live" for live t
    unfolding F_def
  proof (intro allI impI)
    fix a c b p
    assume h': "wr live # rd # t = a @ c # b" "b = p @ h" "c \<noteq> rd"
    show "\<exists>live t. b = rd # t \<and> reader b = Ok live \<and> c = wr live"
    proof (cases a)
      case Nil
      with h'(1) have "b = rd # t" "c = wr live" by simp_all
      with that(2) show ?thesis by blast
    next
      case (Cons x a')
      with h'(1) have "rd # t = a' @ c # b" by simp
      with F1 [OF that(1)] h'(2,3) show ?thesis unfolding F_def by blast
    qed
  qed
  have "wp upd (\<lambda>_. F) h"
    unfolding protocol
    by (rule wp_retry [where I = F]) (use F0 F1 F2 in \<open>auto simp: wp_simps split: outcome.splits\<close>)
  then show ?thesis by (rule wp_mono) (simp only: F_def)
qed

end

interpretation nc_update: optimistic_update e "e_cluster e" "GetCluster (nc_ns nc) (nc_name nc)" "\<lambda>_. False"
    "\<lambda>live. UpdateCluster (live\<lparr>nc_spec := nc_spec nc,
       nc_meta := (nc_meta live)\<lparr>om_labels := om_labels (nc_meta nc), om_annotations := om_annotations (nc_meta nc)\<rparr>\<rparr>)"
    "UpdateNebulaCluster e nc" for e nc
  by unfold_locales (simp_all add: UpdateNebulaCluster_def GetNebulaCluster_def)

interpretation nc_status_update: optimistic_update e "e_cluster e" "GetCluster (nc_ns nc) (nc_name nc)"
    "\<lambda>live. nc_status nc = nc_status live"
    "\<lambda>live. UpdateClusterStatus (live\<lparr>nc_status := nc_status nc\<rparr>)"
    "UpdateNebulaClusterStatus e nc" for e nc
  by unfold_locales (simp_all add: UpdateNebulaClusterStatus_def GetNebulaCluster_def)

interpretation hpa_update: optimistic_update e "e_hpa e"
    "GetAutoscaler (om_namespace (hp_meta a)) (om_name (hp_meta a))" "\<lambda>_. False"
    "\<lambda>live. UpdateAutoscalerStatus (live\<lparr>hp_status := hp_status a\<rparr>)"
    "UpdateNebulaAutoscalerStatus e a" for e a
  by unfold_locales (simp_all add: UpdateNebulaAutoscalerStatus_def GetNebulaAutoscaler_def)

interpretation pod_update: optimistic_update e "e_pod e"
    "GetPodC (om_namespace (pd_meta p)) (om_name (pd_meta p))" "\<lambda>_. False"
    "\<lambda>live. UpdatePodC (live\<lparr>pd_meta := (pd_meta live)\<lparr>om_labels := om_labels (pd_meta p),
                                            om_annotations := om_annotations (pd_meta p)\<rparr>\<rparr>)"
    "UpdatePod e p" for e p
  by unfold_locales (simp_all add: UpdatePod_def GetPod_def)

interpretation pvc_update: optimistic_update e "e_pvc e"
    "GetPVCC (om_namespace (pc_meta p)) (om_name (pc_meta p))"
    "\<lambda>live. same_map (om_labels (pc_meta p)) (om_labels (pc_meta live))
             \<and> same_map (om_annotations (pc_meta p)) (om_annotations (pc_meta live))
             \<and> same_requests (pc_requests p) (pc_requests live)"
    "\<lambda>live. UpdatePVCC (live\<lparr>pc_meta := (pc_meta live)\<lparr>om_labels := om_labels (pc_meta p),
                                            om_annotations := om_annotations (pc_meta p)\<rparr>,
                  pc_requests := pc_requests p\<rparr>)"
    "UpdatePVC e p" for e p
  by unfold_locales (simp_all add: UpdatePVC_def GetPVC_def)

interpretation pv_update: optimistic_update e "e_pv e" "GetPV (om_name (pw_meta v))"
    "\<lambda>live. same_map (om_labels (pw_meta v)) (om_labels (pw_meta live))
             \<and> same_map (om_annotations (pw_meta v)) (om_annotations (pw_meta live))"
    "\<lambda>live. UpdatePV (live\<lparr>pw_meta := (pw_meta live)\<lparr>om_labels := om_labels (pw_meta v),
                                            om_annotations := om_annotations (pw_meta v)\<rparr>\<rparr>)"
    "UpdatePersistentVolume e v" for e v
  by unfold_locales (simp_all add: UpdatePersistentVolume_def GetPersistentVolume_def)

text \<open>
  Claim C12. A status update that reports success has put exactly that status in place: either
  the object read last already had it, or a write carrying it, made from the object read right
  before, was accepted. Nothing but the status is changed by the write.
\<close>

theorem status_update_success:
  assumes "run_state (UpdateNebulaClusterStatus e nc) h = (Ok (), h')"
  shows "\<exists>live t. (h' = GetCluster (nc_ns nc) (nc_name nc) # t \<and> e_cluster e h' = Ok live \<and> nc_status live = nc_status nc)
    \<or> (h' = UpdateClusterStatus (live\<lparr>nc_status := nc_status nc\<rparr>) # GetCluster (nc_ns nc) (nc_name nc) # t
       \<and> e_cluster e (GetCluster (nc_ns nc) (nc_name nc) # t) = Ok live \<and> e_done e h' = Ok ())"
  using wp_run [OF nc_status_update.success assms] by fastforce

theorem status_update_witness:
  "\<exists>live t. snd (run_state (UpdateNebulaClusterStatus (empty_world\<lparr>e_cluster := \<lambda>_. Ok (sample_cluster 5 3)\<rparr>) (sample_cluster 6 3)) [])
     = UpdateClusterStatus (live\<lparr>nc_status := nc_status (sample_cluster 6 3)\<rparr>) # t"
proof -
  let ?e = "empty_world\<lparr>e_cluster := \<lambda>_. Ok (sample_cluster 5 3)\<rparr>"
  have ne: "nc_status (sample_cluster 6 3) \<noteq> nc_status (sample_cluster 5 3)"
    by (simp add: sample_defs)
  then obtain h' where r: "run_state (UpdateNebulaClusterStatus ?e (sample_cluster 6 3)) [] = (Ok (), h')"
    by (simp add: UpdateNebulaClusterStatus_def GetNebulaCluster_def empty_world_def eval_nat_numeral send_def
        ok_def handle_def)
  from status_update_success [OF r] ne r show ?thesis by auto
qed

end
