(* ===== verification/AutoscalerReconcile.thy ===== *)
theory AutoscalerReconcile
  imports AutoscalerRate KubeClient
begin

text \<open>
  The autoscaler controller (\<open>pkg/controller/autoscaler/autoscaler.go\<close>,
  \<open>metric_status.go\<close>): from the metrics to the replica count that is written to the cluster.
  The controller's maps (\<open>hpa_ctl\<close>) and the autoscaler object are passed along and returned,
  also when a step fails, since both survive the failure. Events and log lines are left out.
  A string built with \<open>fmt\<close> is represented by its format. The replica calculator and the
  selector index are \<open>k8s.io/kubernetes\<close> code and answered by the environment.
\<close>

section \<open>Conditions\<close>

fun set_cond :: "int \<Rightarrow> string \<Rightarrow> string \<Rightarrow> string \<Rightarrow> string \<Rightarrow> as_condition list \<Rightarrow> as_condition list" where
  "set_cond t ty st reason msg [] =
     [\<lparr>ac_type = ty, ac_status = st, ac_time = (if st \<noteq> '''' then t else zero_time),
       ac_reason = reason, ac_message = msg\<rparr>]"
| "set_cond t ty st reason msg (c # cs) =
     (if ac_type c = ty
      then c\<lparr>ac_time := (if ac_status c \<noteq> st then t else ac_time c), ac_status := st,
             ac_reason := reason, ac_message := msg\<rparr> # cs
      else c # set_cond t ty st reason msg cs)"

fun status_of_cond :: "string \<Rightarrow> as_condition list \<Rightarrow> string" where
  "status_of_cond ty [] = ''''"
| "status_of_cond ty (c # cs) = (if ac_type c = ty then ac_status c else status_of_cond ty cs)"

definition map_conds :: "(as_condition list \<Rightarrow> as_condition list) \<Rightarrow> autoscaler \<Rightarrow> autoscaler" where
  "map_conds f a = a\<lparr>hp_status := (hp_status a)\<lparr>hs_conditions := f (hs_conditions (hp_status a))\<rparr>\<rparr>"

text \<open>The clock is read only when the status of the condition changes.\<close>

definition setCondition :: "env \<Rightarrow> string \<Rightarrow> string \<Rightarrow> string \<Rightarrow> string \<Rightarrow> autoscaler \<Rightarrow> autoscaler io" where
  "setCondition e ty st reason msg a =
     (if status_of_cond ty (hs_conditions (hp_status a)) \<noteq> st
      then now e \<bind> ok (\<lambda>t. ret (map_conds (set_cond t ty st reason msg) a))
      else ret (map_conds (set_cond zero_time ty st reason msg) a))"

section \<open>Status\<close>

definition setStatus :: "env \<Rightarrow> int \<Rightarrow> int \<Rightarrow> metric_status list \<Rightarrow> bool \<Rightarrow> autoscaler \<Rightarrow> autoscaler io" where
  "setStatus e currentReplicas desiredReplicas metricStatuses rescale a =
     (let a' = a\<lparr>hp_status :=
            \<lparr>hs_last_scale = hs_last_scale (hp_status a), hs_current = currentReplicas,
             hs_desired = desiredReplicas, hs_metrics = metricStatuses,
             hs_conditions = hs_conditions (hp_status a)\<rparr>\<rparr>
      in if rescale
         then now e \<bind> ok (\<lambda>t. ret (a'\<lparr>hp_status := (hp_status a')\<lparr>hs_last_scale := Some t\<rparr>\<rparr>))
         else ret a')"

definition setCurrentReplicasInStatus :: "env \<Rightarrow> int \<Rightarrow> autoscaler \<Rightarrow> autoscaler io" where
  "setCurrentReplicasInStatus e currentReplicas a =
     setStatus e currentReplicas (hs_desired (hp_status a)) (hs_metrics (hp_status a)) False a"

definition updateStatus :: "env \<Rightarrow> autoscaler \<Rightarrow> unit io" where
  "updateStatus e a =
     UpdateNebulaAutoscalerStatus e a \<bind>
       handle (\<lambda>_. throw (ErrPlain ''failed to update status'')) ret"

definition updateStatusIfNeeded :: "env \<Rightarrow> hpa_status \<Rightarrow> autoscaler \<Rightarrow> unit io" where
  "updateStatusIfNeeded e oldStatus a =
     (if oldStatus = hp_status a then ret () else updateStatus e a)"

section \<open>One metric (metric_status.go)\<close>

datatype metric_result = Failed as_condition go_err | Proposal int string int metric_status

definition getUnableComputeReplicaCountCondition :: "string \<Rightarrow> as_condition" where
  "getUnableComputeReplicaCountCondition reason =
     \<lparr>ac_type = ''Active'', ac_status = ''False'', ac_time = zero_time, ac_reason = reason,
      ac_message = ''the HPA was unable to compute the replica count''\<rparr>"

definition no_condition :: as_condition where
  "no_condition = \<lparr>ac_type = '''', ac_status = '''', ac_time = zero_time, ac_reason = '''', ac_message = ''''\<rparr>"

definition calc :: "env \<Rightarrow> calc_req \<Rightarrow> string \<Rightarrow> string \<Rightarrow> (calc_resp \<Rightarrow> metric_result) \<Rightarrow> metric_result io" where
  "calc e req reason msg k =
     send (e_calc e) (Calc req) \<bind>
       handle (\<lambda>_. ret (Failed (getUnableComputeReplicaCountCondition reason) (ErrPlain msg))) (\<lambda>r. ret (k r))"

definition value_status :: "int \<Rightarrow> metric_value" where
  "value_status u = \<lparr>mv_value = Some u, mv_average = None, mv_utilization = None\<rparr>"

definition average_status :: "int \<Rightarrow> metric_value" where
  "average_status u = \<lparr>mv_value = None, mv_average = Some u, mv_utilization = None\<rparr>"

definition fail_with :: "string \<Rightarrow> string \<Rightarrow> metric_result io" where
  "fail_with reason msg = ret (Failed (getUnableComputeReplicaCountCondition reason) (ErrPlain msg))"

definition computeStatusForObjectMetric ::
    "env \<Rightarrow> int \<Rightarrow> int \<Rightarrow> object_source \<Rightarrow> string \<Rightarrow> metric_result io" where
  "computeStatusForObjectMetric e specReplicas statusReplicas o' ns =
     (case mt_type (os_target o') of
        ValueMetric \<Rightarrow>
          lift (deref (mt_value (os_target o'))) \<bind> ok (\<lambda>v.
            calc e (ObjectMetricReplicas specReplicas v (os_metric o') ns (os_object o') (os_selector o'))
              ''FailedGetObjectMetric'' ''failed to get object metric value''
              (\<lambda>r. Proposal (cr_replicas r) (os_kind o' @ '' metric '' @ os_metric o') (cr_time r)
                     (ObjectMetricStatus (Some (os_object o')) (os_metric o') (os_selector o') (value_status (cr_usage r)))))
      | AverageValueMetric \<Rightarrow>
          lift (deref (mt_average (os_target o'))) \<bind> ok (\<lambda>v.
            calc e (ObjectPerPodMetricReplicas statusReplicas v (os_metric o') ns (os_object o') (os_selector o'))
              ''FailedGetObjectMetric'' ''failed to get object metric value''
              (\<lambda>r. Proposal (cr_replicas r) (''external metric '' @ os_metric o') (cr_time r)
                     (ObjectMetricStatus None (os_metric o') (os_selector o') (average_status (cr_usage r)))))
      | _ \<Rightarrow> fail_with ''FailedGetObjectMetric'' ''failed to get object metric value'')"

definition computeStatusForPodsMetric :: "env \<Rightarrow> int \<Rightarrow> pods_source \<Rightarrow> string \<Rightarrow> metric_result io" where
  "computeStatusForPodsMetric e currentReplicas p ns =
     lift (deref (mt_average (ps_target p))) \<bind> ok (\<lambda>v.
       calc e (MetricReplicas currentReplicas v (ps_metric p) ns (ps_selector p))
         ''FailedGetPodsMetric'' ''failed to get pods metric value''
         (\<lambda>r. Proposal (cr_replicas r) (''pods metric '' @ ps_metric p) (cr_time r)
                (PodsMetricStatus (ps_metric p) (ps_selector p) (average_status (cr_usage r)))))"

definition computeStatusForResourceMetricGeneric ::
    "env \<Rightarrow> int \<Rightarrow> metric_target \<Rightarrow> string \<Rightarrow> string \<Rightarrow> string \<Rightarrow> bool \<Rightarrow> string \<Rightarrow> string
     \<Rightarrow> (metric_value \<Rightarrow> metric_status) \<Rightarrow> metric_result io" where
  "computeStatusForResourceMetricGeneric e currentReplicas target resource ns container isContainer reason msg st =
     (case mt_average target of
        Some v \<Rightarrow>
          calc e (RawResourceReplicas currentReplicas v resource ns container) reason msg
            (\<lambda>r. Proposal (cr_replicas r) (resource @ '' resource'') (cr_time r) (st (average_status (cr_usage r))))
      | None \<Rightarrow>
          (case mt_utilization target of
             None \<Rightarrow> fail_with reason msg
           | Some u \<Rightarrow>
               calc e (ResourceReplicas currentReplicas u resource ns container) reason msg
                 (\<lambda>r. Proposal (cr_replicas r)
                        (resource @ (if isContainer then '' container'' else '''')
                          @ '' resource utilization (percentage of request)'')
                        (cr_time r)
                        (st \<lparr>mv_value = None, mv_average = Some (cr_usage r),
                             mv_utilization = Some (cr_percentage r)\<rparr>))))"

definition computeStatusForResourceMetric :: "env \<Rightarrow> int \<Rightarrow> resource_source \<Rightarrow> string \<Rightarrow> metric_result io" where
  "computeStatusForResourceMetric e currentReplicas s ns =
     computeStatusForResourceMetricGeneric e currentReplicas (rs_target s) (rs_name s) ns '''' False
       ''FailedGetResourceMetric'' ''failed to get resource metric value'' (ResourceMetricStatus (rs_name s))"

definition computeStatusForContainerResourceMetric ::
    "env \<Rightarrow> int \<Rightarrow> container_source \<Rightarrow> string \<Rightarrow> metric_result io" where
  "computeStatusForContainerResourceMetric e currentReplicas s ns =
     computeStatusForResourceMetricGeneric e currentReplicas (cx_target s) (cx_name s) ns (cx_container s) True
       ''FailedGetContainerResourceMetric'' ''failed to get container metric value''
       (ContainerMetricStatus (cx_name s) (cx_container s))"

definition computeStatusForExternalMetric ::
    "env \<Rightarrow> int \<Rightarrow> int \<Rightarrow> external_source \<Rightarrow> string \<Rightarrow> metric_result io" where
  "computeStatusForExternalMetric e specReplicas statusReplicas x ns =
     (case mt_average (es_target x) of
        Some v \<Rightarrow>
          calc e (ExternalPerPodMetricReplicas statusReplicas v (es_metric x) ns (es_selector x))
            ''FailedGetExternalMetric'' ''failed to get external metric value''
            (\<lambda>r. Proposal (cr_replicas r) (''external metric '' @ es_metric x) (cr_time r)
                   (ExternalMetricStatus (es_metric x) (es_selector x) (average_status (cr_usage r))))
      | None \<Rightarrow>
          (case mt_value (es_target x) of
             Some v \<Rightarrow>
               calc e (ExternalMetricReplicas specReplicas v (es_metric x) ns (es_selector x))
                 ''FailedGetExternalMetric'' ''failed to get external metric value''
                 (\<lambda>r. Proposal (cr_replicas r) (''external metric '' @ es_metric x) (cr_time r)
                        (ExternalMetricStatus (es_metric x) (es_selector x) (value_status (cr_usage r))))
           | None \<Rightarrow> fail_with ''FailedGetExternalMetric'' ''failed to get external metric value''))"

definition parse_selector :: "env \<Rightarrow> k8s \<Rightarrow> string \<Rightarrow> string \<Rightarrow> metric_result io \<Rightarrow> metric_result io" where
  "parse_selector e sel reason msg m =
     send (e_done e) (ParseSelector sel) \<bind> handle (\<lambda>_. fail_with reason msg) (\<lambda>_. m)"

definition computeReplicasForMetric ::
    "env \<Rightarrow> string \<Rightarrow> metric_spec \<Rightarrow> int \<Rightarrow> int \<Rightarrow> metric_result io" where
  "computeReplicasForMetric e ns spec specReplicas statusReplicas =
     (case ms_type spec of
        ObjectSource \<Rightarrow>
          lift (deref (ms_object spec)) \<bind> ok (\<lambda>s.
            parse_selector e (os_selector s) ''FailedGetObjectMetric'' ''failed to get object metric value''
              (computeStatusForObjectMetric e specReplicas statusReplicas s ns))
      | PodsSource \<Rightarrow>
          lift (deref (ms_pods spec)) \<bind> ok (\<lambda>s.
            parse_selector e (ps_selector s) ''FailedGetPodsMetric'' ''failed to get pods metric value''
              (computeStatusForPodsMetric e specReplicas s ns))
      | ResourceSource \<Rightarrow>
          lift (deref (ms_resource spec)) \<bind> ok (\<lambda>s. computeStatusForResourceMetric e specReplicas s ns)
      | ContainerSource \<Rightarrow>
          lift (deref (ms_container spec)) \<bind> ok (\<lambda>s. computeStatusForContainerResourceMetric e specReplicas s ns)
      | ExternalSource \<Rightarrow>
          lift (deref (ms_external spec)) \<bind> ok (\<lambda>s. computeStatusForExternalMetric e specReplicas statusReplicas s ns)
      | OtherSourceType \<Rightarrow> fail_with ''InvalidMetricSourceType'' ''unknown metric source type'')"

section \<open>All metrics\<close>

text \<open>What the loop over the metrics carries.\<close>

record metrics_acc =
  ma_replicas :: int
  ma_metric :: string
  ma_time :: int
  ma_statuses :: "metric_status list"
  ma_invalid :: nat
  ma_condition :: as_condition
  ma_error :: "go_err option"

definition acc_init :: metrics_acc where
  "acc_init = \<lparr>ma_replicas = 0, ma_metric = '''', ma_time = zero_time, ma_statuses = [], ma_invalid = 0,
               ma_condition = no_condition, ma_error = None\<rparr>"

definition add_metric :: "metric_result \<Rightarrow> metrics_acc \<Rightarrow> metrics_acc" where
  "add_metric r acc =
     (case r of
        Failed c x \<Rightarrow>
          acc\<lparr>ma_condition := (if ma_invalid acc = 0 then c else ma_condition acc),
              ma_error := (if ma_invalid acc = 0 then Some x else ma_error acc),
              ma_invalid := ma_invalid acc + 1, ma_statuses := ma_statuses acc @ [NoMetricStatus]\<rparr>
      | Proposal n name t st \<Rightarrow>
          let acc = acc\<lparr>ma_statuses := ma_statuses acc @ [st]\<rparr>
          in if ma_replicas acc = 0 \<or> n > ma_replicas acc
             then acc\<lparr>ma_replicas := n, ma_metric := name, ma_time := t\<rparr> else acc)"

definition fold_metrics :: "env \<Rightarrow> string \<Rightarrow> int \<Rightarrow> int \<Rightarrow> metric_spec list \<Rightarrow> metrics_acc io" where
  "fold_metrics e ns specReplicas statusReplicas specs =
     fold_go (\<lambda>spec acc. computeReplicasForMetric e ns spec specReplicas statusReplicas \<bind> ok (\<lambda>r.
                ret (add_metric r acc))) specs acc_init"

text \<open>A failed check is \<open>Inl\<close>; the object carries the condition that was set.\<close>

definition validateAndParseSelector :: "env \<Rightarrow> strmap \<Rightarrow> autoscaler \<Rightarrow> (autoscaler \<times> go_err option) io" where
  "validateAndParseSelector e labels a =
     (if labels = [] then
        setCondition e ''Active'' ''False'' ''InvalidSelector'' ''the HPA target's scale is missing a selector'' a \<bind>
          ok (\<lambda>a. ret (a, Some (ErrPlain ''selector is required'')))
      else
        send (e_done e) (ParseLabels labels) \<bind>
          handle (\<lambda>_. setCondition e ''Active'' ''False'' ''InvalidSelector''
                         ''couldn't convert selector into a corresponding internal selector object'' a \<bind>
                       ok (\<lambda>a. ret (a, Some (ErrPlain ''couldn't convert selector''))))
            (\<lambda>_. ListPods e (om_namespace (hp_meta a)) labels \<bind>
               handle (\<lambda>x. ret (a, Some x))
                 (\<lambda>pods. send (\<lambda>h. Ok (e_keys e h)) (SelectingHpas pods) \<bind> ok (\<lambda>keys.
                    if length keys > 1
                    then setCondition e ''Active'' ''False'' ''AmbiguousSelector''
                           ''pods by selector are controlled by multiple HPAs'' a \<bind>
                           ok (\<lambda>a. ret (a, Some (ErrPlain ''pods by selector are controlled by multiple HPAs'')))
                    else ret (a, None)))))"

record metrics_result =
  mx_replicas :: int
  mx_metric :: string
  mx_statuses :: "metric_status list"
  mx_error :: "go_err option"

definition computeReplicasForMetrics ::
    "env \<Rightarrow> nebula_cluster \<Rightarrow> metric_spec list \<Rightarrow> autoscaler \<Rightarrow> (autoscaler \<times> metrics_result) io" where
  "computeReplicasForMetrics e nc specs a =
     validateAndParseSelector e (GenerateLabels GraphdComponentType nc) a \<bind> ok (\<lambda>(a, err).
       case err of
         Some x \<Rightarrow> ret (a, \<lparr>mx_replicas = -1, mx_metric = '''', mx_statuses = [], mx_error = Some x\<rparr>)
       | None \<Rightarrow>
           let specReplicas = deref_or 0 (cs_replicas (gd_component (graphd_of nc)))
           in lift (deref (GetWorkload GraphdComponentType nc)) \<bind> ok (\<lambda>w.
                fold_metrics e (om_namespace (hp_meta a)) specReplicas (ws_replicas w) specs \<bind> ok (\<lambda>acc.
                  let err = (case ma_error acc of None \<Rightarrow> None | Some _ \<Rightarrow> Some (ErrPlain ''invalid metrics''))
                  in if ma_invalid acc \<ge> length specs \<or> (ma_invalid acc > 0 \<and> ma_replicas acc < specReplicas)
                     then setCondition e (ac_type (ma_condition acc)) (ac_status (ma_condition acc))
                            (ac_reason (ma_condition acc)) (ac_message (ma_condition acc)) a \<bind> ok (\<lambda>a.
                            ret (a, \<lparr>mx_replicas = -1, mx_metric = '''', mx_statuses = ma_statuses acc,
                                     mx_error = err\<rparr>))
                     else setCondition e ''Active'' ''True'' ''ValidMetricFound''
                            ''the HPA was able to successfully calculate a replica count'' a \<bind> ok (\<lambda>a.
                            ret (a, \<lparr>mx_replicas = ma_replicas acc, mx_metric = ma_metric acc,
                                     mx_statuses = ma_statuses acc, mx_error = err\<rparr>)))))"

section \<open>Normalisation\<close>

fun reason_name :: "limit_reason \<Rightarrow> string" where
  "reason_name ScaleUpLimit = ''ScaleUpLimit''"
| "reason_name ScaleDownLimit = ''ScaleDownLimit''"
| "reason_name TooManyReplicas = ''TooManyReplicas''"
| "reason_name TooFewReplicas = ''TooFewReplicas''"
| "reason_name DesiredWithinRange = ''DesiredWithinRange''"

definition stabilized_name :: "stabilize_reason \<Rightarrow> string" where
  "stabilized_name r = (case r of ScaleUpStabilized \<Rightarrow> ''ScaleUpStabilized'' | ScaleDownStabilized \<Rightarrow> ''ScaleDownStabilized'')"

definition stabilized_condition :: "env \<Rightarrow> int \<Rightarrow> int \<Rightarrow> string \<Rightarrow> autoscaler \<Rightarrow> autoscaler io" where
  "stabilized_condition e stabilized prenormalized reason a =
     (if stabilized \<noteq> prenormalized
      then setCondition e ''AbleToScale'' ''True'' reason ''recent recommendations differ from the current one'' a
      else setCondition e ''AbleToScale'' ''True'' ''ReadyForNewScale'' ''recommended size matches current size'' a)"

definition limited_condition :: "env \<Rightarrow> int \<Rightarrow> int \<Rightarrow> limit_reason \<Rightarrow> autoscaler \<Rightarrow> autoscaler io" where
  "limited_condition e desired stabilized why a =
     setCondition e ''Limited'' (if desired = stabilized then ''False'' else ''True'') (reason_name why)
       ''the desired replica count and its bounds'' a"

definition normalizeDesiredReplicas ::
    "env \<Rightarrow> (rat \<Rightarrow> int) \<Rightarrow> string \<Rightarrow> int \<Rightarrow> int \<Rightarrow> int \<Rightarrow> hpa_ctl \<Rightarrow> autoscaler
     \<Rightarrow> (hpa_ctl \<times> autoscaler \<times> int) io" where
  "normalizeDesiredReplicas e cvt key currentReplicas prenormalized minReplicas c a =
     now e \<bind> ok (\<lambda>t1. now e \<bind> ok (\<lambda>t2.
       let (stabilized, c) = stabilizeRecommendation t1 t2 key prenormalized c
       in stabilized_condition e stabilized prenormalized ''ScaleDownStabilized'' a \<bind> ok (\<lambda>a.
            let (desired, why) = convertDesiredReplicasWithRules cvt currentReplicas stabilized minReplicas (hp_max a)
            in limited_condition e desired stabilized why a \<bind> ok (\<lambda>a. ret (c, a, desired)))))"

definition normalizeDesiredReplicasWithBehaviors ::
    "env \<Rightarrow> (rat \<Rightarrow> int) \<Rightarrow> string \<Rightarrow> int \<Rightarrow> int \<Rightarrow> int \<Rightarrow> hpa_ctl \<Rightarrow> autoscaler
     \<Rightarrow> (hpa_ctl \<times> autoscaler \<times> int) io" where
  "normalizeDesiredReplicasWithBehaviors e cvt key currentReplicas prenormalized minReplicas c a =
     (let a = a\<lparr>hp_behavior := maybeInitScaleDownStabilizationWindow cvt c (hp_behavior a)\<rparr>
      in lift (deref (hp_behavior a)) \<bind> ok (\<lambda>b.
         let args = \<lparr>na_key = key, na_up = bh_up b, na_down = bh_down b, na_min = minReplicas,
                     na_max = hp_max a, na_current = currentReplicas, na_desired = prenormalized\<rparr>
         in now e \<bind> ok (\<lambda>t1. now e \<bind> ok (\<lambda>t2.
            lift (stabilizeRecommendationWithBehaviors t1 t2 args c) \<bind> ok (\<lambda>(stabilized, why, c).
              stabilized_condition e stabilized prenormalized (stabilized_name why) a \<bind> ok (\<lambda>a.
                now e \<bind> ok (\<lambda>t3.
                  lift (convertDesiredReplicasWithBehaviorRate cvt t3 (args\<lparr>na_desired := stabilized\<rparr>) c) \<bind>
                    ok (\<lambda>(desired, why).
                      limited_condition e desired stabilized why a \<bind> ok (\<lambda>a. ret (c, a, desired)))))))))) "

section \<open>Reconciliation\<close>

text \<open>
  The outcome of the decision: how many replicas, whether to write them, or a failure that
  ends the reconciliation after the status was updated.
\<close>

datatype decision =
    Decided int bool "metric_status list" "go_err option"
  | GiveUp go_err

definition decide_by_metrics ::
    "env \<Rightarrow> (rat \<Rightarrow> int) \<Rightarrow> string \<Rightarrow> metrics_result \<Rightarrow> int \<Rightarrow> int \<Rightarrow> hpa_ctl \<Rightarrow> autoscaler
     \<Rightarrow> (hpa_ctl \<times> autoscaler \<times> decision) io" where
  "decide_by_metrics e cvt key mx currentReplicas minReplicas c a =
     (let prenormalized = (if mx_replicas mx > 0 then mx_replicas mx else 0)
      in (if hp_behavior a = None
          then normalizeDesiredReplicas e cvt key currentReplicas prenormalized minReplicas c a
          else normalizeDesiredReplicasWithBehaviors e cvt key currentReplicas prenormalized minReplicas c a) \<bind>
         ok (\<lambda>(c, a, desired).
           ret (c, a, Decided desired (desired \<noteq> currentReplicas) (mx_statuses mx) (mx_error mx))))"

definition decideReplicas ::
    "env \<Rightarrow> (rat \<Rightarrow> int) \<Rightarrow> string \<Rightarrow> nebula_cluster \<Rightarrow> int \<Rightarrow> int \<Rightarrow> hpa_ctl \<Rightarrow> autoscaler
     \<Rightarrow> (hpa_ctl \<times> autoscaler \<times> decision) io" where
  "decideReplicas e cvt key nc currentReplicas minReplicas c a =
     (if currentReplicas = 0 \<and> minReplicas \<noteq> 0 then
        setCondition e ''Active'' ''False'' ''ScalingDisabled''
          ''scaling is disabled since the replica count of the target is zero'' a \<bind>
          ok (\<lambda>a. ret (c, a, Decided 0 False [] None))
      else if currentReplicas > hp_max a then ret (c, a, Decided (hp_max a) True [] None)
      else if currentReplicas < minReplicas then ret (c, a, Decided minReplicas True [] None)
      else
        computeReplicasForMetrics e nc (hp_metrics a) a \<bind> ok (\<lambda>(a, mx).
          case mx_error mx of
            Some x \<Rightarrow>
              if mx_replicas mx = -1
              then ret (c, a, GiveUp (ErrPlain ''failed to compute desired number of replicas''))
              else decide_by_metrics e cvt key mx currentReplicas minReplicas c a
          | None \<Rightarrow> decide_by_metrics e cvt key mx currentReplicas minReplicas c a))"

text \<open>Writing the replica count, the status, and the bookkeeping of the scale event.\<close>

definition set_graphd_replicas :: "int \<Rightarrow> nebula_cluster \<Rightarrow> nebula_cluster" where
  "set_graphd_replicas n nc =
     nc\<lparr>nc_spec := (nc_spec nc)\<lparr>sp_graphd := (graphd_of nc)\<lparr>gd_component :=
          (gd_component (graphd_of nc))\<lparr>cs_replicas := Some n\<rparr>\<rparr>\<rparr>\<rparr>"

definition best_effort :: "unit io \<Rightarrow> unit io" where
  "best_effort m = m \<bind> handle (\<lambda>_. ret ()) ret"

definition store_event ::
    "env \<Rightarrow> hpa_behavior option \<Rightarrow> string \<Rightarrow> int \<Rightarrow> int \<Rightarrow> hpa_ctl \<Rightarrow> hpa_ctl io" where
  "store_event e b key prev new c =
     (if b = None then ret c
      else now e \<bind> ok (\<lambda>t1. now e \<bind> ok (\<lambda>t2. ret (storeScaleEvent t1 t2 b key prev new c))))"

definition finish ::
    "env \<Rightarrow> hpa_status \<Rightarrow> nebula_cluster \<Rightarrow> int \<Rightarrow> int \<Rightarrow> metric_status list \<Rightarrow> bool \<Rightarrow> go_err option
     \<Rightarrow> hpa_ctl \<Rightarrow> autoscaler \<Rightarrow> (hpa_ctl \<times> go_err option) io" where
  "finish e original nc current desired statuses rescale err c a =
     (if \<not> IsConditionReady nc
      then setCondition e ''Ready'' ''False'' ''NebulaClusterReady''
             ''the HPA controller was waiting for target cluster ready'' a
      else setCondition e ''Ready'' ''True'' ''NebulaClusterReady'' ''the target cluster status is ready'' a) \<bind>
     ok (\<lambda>a. setStatus e current desired statuses rescale a \<bind> ok (\<lambda>a.
       updateStatusIfNeeded e original a \<bind> handle (\<lambda>x. ret (c, Some x)) (\<lambda>_. ret (c, err))))"

definition apply_decision ::
    "env \<Rightarrow> string \<Rightarrow> hpa_status \<Rightarrow> nebula_cluster \<Rightarrow> int \<Rightarrow> decision \<Rightarrow> hpa_ctl \<Rightarrow> autoscaler
     \<Rightarrow> (hpa_ctl \<times> go_err option) io" where
  "apply_decision e key original nc current d c a =
     (case d of
        GiveUp x \<Rightarrow>
          setCurrentReplicasInStatus e current a \<bind> ok (\<lambda>a.
            best_effort (updateStatusIfNeeded e original a) \<bind> ok (\<lambda>_. ret (c, Some x)))
      | Decided desired rescale statuses err \<Rightarrow>
          if rescale then
            UpdateNebulaCluster e (set_graphd_replicas desired nc) \<bind>
              handle
                (\<lambda>_. setCondition e ''AbleToScale'' ''False'' ''FailedUpdateScale''
                        ''the HPA controller was unable to update the target cluster replicas'' a \<bind> ok (\<lambda>a.
                      setCurrentReplicasInStatus e current a \<bind> ok (\<lambda>a.
                      best_effort (updateStatusIfNeeded e original a) \<bind> ok (\<lambda>_.
                      ret (c, Some (ErrPlain ''failed to rescale''))))))
                (\<lambda>_. setCondition e ''AbleToScale'' ''True'' ''SucceededRescale''
                        ''the HPA controller was able to update the target cluster replicas'' a \<bind> ok (\<lambda>a.
                      store_event e (hp_behavior a) key current desired c \<bind> ok (\<lambda>c.
                      finish e original nc current desired statuses rescale err c a)))
          else finish e original nc current current statuses rescale err c a)"

abbreviation errNebulaClusterNotFound :: go_err where
  "errNebulaClusterNotFound \<equiv> ErrPlain ''nebula cluster not found''"

definition cluster_missing ::
    "env \<Rightarrow> hpa_status \<Rightarrow> go_err \<Rightarrow> hpa_ctl \<Rightarrow> autoscaler \<Rightarrow> (hpa_ctl \<times> go_err option) io" where
  "cluster_missing e original err c a =
     setCondition e ''AbleToScale'' ''False'' ''FailedGetNebulaCluster''
       ''the HPA controller unable to get the target cluster'' a \<bind> ok (\<lambda>a.
     best_effort (updateStatusIfNeeded e original a) \<bind> ok (\<lambda>_.
     if err = ErrNotFound then
       setCurrentReplicasInStatus e 0 a \<bind> ok (\<lambda>a.
       setCondition e ''Ready'' ''False'' ''NebulaClusterReady''
         ''the HPA controller was waiting for target cluster ready'' a \<bind> ok (\<lambda>a.
       updateStatusIfNeeded e original a \<bind>
         handle (\<lambda>x. ret (c, Some x)) (\<lambda>_. ret (c, Some errNebulaClusterNotFound))))
     else ret (c, Some (ErrPlain ''unable to get target cluster''))))"

definition reconcileAutoscaler ::
    "env \<Rightarrow> (rat \<Rightarrow> int) \<Rightarrow> string \<Rightarrow> hpa_ctl \<Rightarrow> autoscaler \<Rightarrow> (hpa_ctl \<times> go_err option) io" where
  "reconcileAutoscaler e cvt key c a =
     (let original = hp_status a
      in GetNebulaCluster e (om_namespace (hp_meta a)) (hp_cluster a) \<bind>
         handle (\<lambda>err. cluster_missing e original err c a)
           (\<lambda>nc.
              setCondition e ''AbleToScale'' ''True'' ''SucceededGetNebulaCluster''
                ''the HPA controller was able to get the target cluster'' a \<bind> ok (\<lambda>a.
              let current = deref_or 0 (cs_replicas (gd_component (graphd_of nc)))
              in now e \<bind> ok (\<lambda>t.
                 let c = recordInitialRecommendation t current key c;
                     minReplicas = deref_or 1 (hp_min a)
                 in decideReplicas e cvt key nc current minReplicas c a \<bind> ok (\<lambda>(c, a, d).
                      apply_decision e key original nc current d c a)))))"

text \<open>The requeue delay, in nanoseconds; the default period is 30 seconds.\<close>

definition defaultResult :: "autoscaler \<Rightarrow> int" where
  "defaultResult a = deref_or (30 * second) (hp_polling a)"

definition forget :: "string \<Rightarrow> hpa_ctl \<Rightarrow> hpa_ctl" where
  "forget key c = c\<lparr>hc_recs := (hc_recs c)(key := None), hc_up := (hc_up c)(key := None),
                    hc_down := (hc_down c)(key := None)\<rparr>"

text \<open>\<open>Reconcile\<close>: the result is the delay of the next run, if any, or the error returned.\<close>

definition Reconcile ::
    "env \<Rightarrow> (rat \<Rightarrow> int) \<Rightarrow> int \<Rightarrow> string \<Rightarrow> string \<Rightarrow> hpa_ctl \<Rightarrow> (hpa_ctl \<times> int option \<times> go_err option) io" where
  "Reconcile e cvt defaultTimeout ns name c =
     (let key = ns @ ''/'' @ name
      in GetNebulaAutoscaler e ns name \<bind>
         handle
           (\<lambda>x. if x = ErrNotFound then ret (forget key c, None, None) else ret (c, None, Some x))
           (\<lambda>a. let a = SetDefaults_NebulaAutoscaler a
                in reconcileAutoscaler e cvt key c a \<bind> ok (\<lambda>(c, err).
                   case err of
                     None \<Rightarrow> ret (c, Some (defaultResult a), None)
                   | Some x \<Rightarrow>
                       if x = errNebulaClusterNotFound then ret (c, Some (defaultResult a), None)
                       else ret (c, Some defaultTimeout, None))))"

end
