(* ===== verification/AutoscalerSafety.thy ===== *)
theory AutoscalerSafety
  imports AutoscalerReconcile
begin

text \<open>
  What the autoscaler may do to a cluster: the only thing a reconciliation writes to it is the
  graphd replica count, within the autoscaler's bounds; a metric that cannot be read never
  makes the cluster smaller; the replica count asked for is the largest the metrics propose.
\<close>

section \<open>The status steps\<close>

text \<open>Nothing but the status of the autoscaler changes in these steps.\<close>

definition same_bounds :: "autoscaler \<Rightarrow> autoscaler \<Rightarrow> bool" where
  "same_bounds a b \<longleftrightarrow> hp_min b = hp_min a \<and> hp_max b = hp_max a \<and> hp_behavior b = hp_behavior a
     \<and> hp_metrics b = hp_metrics a \<and> hp_meta b = hp_meta a \<and> hp_cluster b = hp_cluster a"

lemma same_bounds_refl [simp]: "same_bounds a a"
  by (simp add: same_bounds_def)

lemma same_bounds_trans: "same_bounds a b \<Longrightarrow> same_bounds b c \<Longrightarrow> same_bounds a c"
  by (simp add: same_bounds_def)

lemma same_bounds_conds [simp]: "same_bounds a (map_conds f b) = same_bounds a b"
  by (simp add: same_bounds_def map_conds_def)

lemma setCondition_keeps [yields]: "same_bounds a0 a \<Longrightarrow> yields (same_bounds a0) (setCondition e ty st r m a)"
  unfolding setCondition_def
  by (auto intro!: yields_ok [OF yields_any] yields_ret)

definition no_write :: "call \<Rightarrow> bool" where
  "no_write c = (case c of UpdateCluster _ \<Rightarrow> False | _ \<Rightarrow> True)"

lemma no_write_iff: "\<not> no_write c \<longleftrightarrow> (\<exists>nc. c = UpdateCluster nc)"
  by (cases c) (simp_all add: no_write_def)

lemma setCondition_emits [emits]: "P Clock \<Longrightarrow> emits P (setCondition e ty st r m a)"
  unfolding setCondition_def by (intro emits) auto

lemma setStatus_emits [emits]: "P Clock \<Longrightarrow> emits P (setStatus e c d ms r a)"
  unfolding setStatus_def Let_def by (intro emits) auto

lemma updateStatusIfNeeded_emits [emits]: "emits no_write (updateStatusIfNeeded e s a)"
  unfolding updateStatusIfNeeded_def updateStatus_def UpdateNebulaAutoscalerStatus_def GetNebulaAutoscaler_def
  by (intro emits) (auto simp: no_write_def)

section \<open>Normalisation stays within the bounds\<close>

text \<open>
  The contract of both normalisation paths: with the current count within the bounds, the
  result is within the bounds or the current count itself, and a proposal that is not below
  the current count is not turned into one that is.
\<close>

definition good_target :: "int \<Rightarrow> int \<Rightarrow> int \<Rightarrow> int \<Rightarrow> int \<Rightarrow> bool" where
  "good_target lo hi cur pre d \<longleftrightarrow> lo \<le> d \<and> d \<le> hi \<and> (cur \<le> pre \<longrightarrow> cur \<le> d)"

lemma stabilize_ge: "d \<le> fst (stabilizeRecommendation now1 now2 key d c)"
  by (simp add: stabilize_value)

lemma stabilized_condition_keeps:
  "same_bounds a0 a \<Longrightarrow> yields (same_bounds a0) (stabilized_condition e s p r a)"
  unfolding stabilized_condition_def by (auto intro: setCondition_keeps)

lemma limited_condition_keeps:
  "same_bounds a0 a \<Longrightarrow> yields (same_bounds a0) (limited_condition e d s w a)"
  unfolding limited_condition_def by (rule setCondition_keeps)

lemma normalize_yields:
  assumes "lo \<le> cur" "cur \<le> hp_max a" "0 \<le> cur" "cur < 2 ^ 30"
  shows "yields (\<lambda>(c', a', d). good_target lo (hp_max a) cur pre d)
    (normalizeDesiredReplicas e cvt key cur pre lo c a)"
  unfolding normalizeDesiredReplicas_def Let_def
proof (rule yields_ok [OF yields_any], rule yields_ok [OF yields_any], rule yields_prod,
    rule yields_ok [OF stabilized_condition_keeps [OF same_bounds_refl]], rule yields_prod,
    rule yields_ok [OF yields_any], rule yields_ret)
  fix t1 t2 s c' a' d why
  assume "stabilizeRecommendation t1 t2 key pre c = (s, c')" "same_bounds a a'"
    and d: "convertDesiredReplicasWithRules cvt cur s lo (hp_max a') = (d, why)"
  then have "pre \<le> s" "hp_max a' = hp_max a"
    using stabilize_ge [of pre t1 t2 key c] by (simp_all add: same_bounds_def)
  moreover from this d have "d = max lo (min s (min (hp_max a) (max (2 * cur) 4)))"
    using convert_rules_is_clamp [OF assms(1,2,3,4)] by (metis fst_conv)
  ultimately show "case (c', a'', d) of (c', a', d) \<Rightarrow> good_target lo (hp_max a) cur pre d" for a''
    using assms by (auto simp: good_target_def)
qed

lemma stabilize_behaviors_ge:
  assumes "stabilizeRecommendationWithBehaviors t1 t2 args c = Ok (s, why, c')"
  shows "na_current args \<le> na_desired args \<Longrightarrow> na_current args \<le> s"
    and "na_desired args \<le> na_current args \<Longrightarrow> s \<le> na_current args"
proof -
  obtain u d where w: "window_of (na_up args) = Ok u" "window_of (na_down args) = Ok d"
    using assms by (auto simp: stabilizeRecommendationWithBehaviors_def split: outcome.splits)
  obtain lo hi where "s = min hi (max lo (na_current args))" "lo \<le> na_desired args" "na_desired args \<le> hi"
    using stabilize_behaviors_clamps [OF w, where now = t1 and c = c and ?now2.0 = t2] assms by force
  then show "na_current args \<le> na_desired args \<Longrightarrow> na_current args \<le> s"
    and "na_desired args \<le> na_current args \<Longrightarrow> s \<le> na_current args"
    by linarith+
qed

lemma normalize_behaviors_yields:
  assumes "lo \<le> cur" "cur \<le> hp_max a"
  shows "yields (\<lambda>(c', a', d). good_target lo (hp_max a) cur pre d)
    (normalizeDesiredReplicasWithBehaviors e cvt key cur pre lo c a)"
  unfolding normalizeDesiredReplicasWithBehaviors_def Let_def
proof (rule yields_ok [OF yields_any], rule yields_ok [OF yields_any], rule yields_ok [OF yields_any],
    rule yields_ok [OF yields_lift_value], rule yields_prod, rule yields_prod,
    rule yields_ok [OF yields_any], rule yields_ok [OF yields_any], rule yields_ok [OF yields_lift_value],
    rule yields_prod, rule yields_ok [OF yields_any], rule yields_ret)
  fix b t1 t2 x s y why c' a' t3 z d why' a''
  let ?a = "a\<lparr>hp_behavior := maybeInitScaleDownStabilizationWindow cvt c (hp_behavior a)\<rparr>"
  let ?args = "\<lparr>na_key = key, na_up = bh_up b, na_down = bh_down b, na_min = lo, na_max = hp_max ?a,
                na_current = cur, na_desired = pre\<rparr>"
  assume s: "stabilizeRecommendationWithBehaviors t1 t2 ?args c = Ok x" "x = (s, y)" "y = (why, c')"
    and d: "convertDesiredReplicasWithBehaviorRate cvt t3 (?args\<lparr>na_desired := s\<rparr>) c' = Ok z" "z = (d, why')"
  have "cur \<le> s" if "cur \<le> pre"
    using stabilize_behaviors_ge(1) [of t1 t2 ?args c s why c'] s that by simp
  moreover have "min cur s \<le> d \<and> d \<le> max cur s \<and> (cur \<noteq> s \<longrightarrow> lo \<le> d \<and> d \<le> hp_max a)"
    using convert_rate_within_bounds [of cvt t3 "?args\<lparr>na_desired := s\<rparr>" c' d why'] d assms by auto
  ultimately show "case (c', a'', d) of (c', a', d) \<Rightarrow> good_target lo (hp_max a) cur pre d"
    using assms by (auto simp: good_target_def)
qed

section \<open>The metrics\<close>

text \<open>A metric error is recorded exactly when some metric is invalid.\<close>

lemma fold_metrics_error:
  "yields (\<lambda>acc. ma_error acc = None \<longleftrightarrow> ma_invalid acc = 0) (fold_metrics e ns s st specs)"
  unfolding fold_metrics_def
proof (rule yields_fold)
  fix spec and acc :: metrics_acc
  assume "ma_error acc = None \<longleftrightarrow> ma_invalid acc = 0"
  then have "ma_error (add_metric r acc) = None \<longleftrightarrow> ma_invalid (add_metric r acc) = 0" for r
    by (auto simp: add_metric_def Let_def split: metric_result.splits)
  then show "yields (\<lambda>acc. ma_error acc = None \<longleftrightarrow> ma_invalid acc = 0)
      (computeReplicasForMetric e ns spec s st \<bind> ok (\<lambda>r. ret (add_metric r acc)))"
    by (auto intro!: yields_ok [OF yields_any] yields_ret)
qed (simp add: acc_init_def)

definition metrics_sound :: "int \<Rightarrow> metrics_result \<Rightarrow> bool" where
  "metrics_sound cur mx \<longleftrightarrow> (mx_error mx \<noteq> None \<longrightarrow> mx_replicas mx = -1 \<or> cur \<le> mx_replicas mx)"

lemma fail_keeps:
  "yields (\<lambda>(a', _). same_bounds a a') (setCondition e ty st r m a \<bind> ok (\<lambda>a. ret (a, x)))"
  by (rule yields_ok [OF setCondition_keeps [OF same_bounds_refl]], rule yields_ret) simp

lemma validate_keeps: "yields (\<lambda>(a', _). same_bounds a a') (validateAndParseSelector e labels a)"
  unfolding validateAndParseSelector_def
  by (intro yields_if fail_keeps yields_handle [OF yields_any] yields_ok [OF yields_any, where m = "send f c" for f c]
      yields_ret) simp_all

lemma computeReplicas_sound:
  "yields (\<lambda>(a', mx). same_bounds a a' \<and> metrics_sound (deref_or 0 (cs_replicas (gd_component (graphd_of nc)))) mx)
     (computeReplicasForMetrics e nc specs a)"
  unfolding computeReplicasForMetrics_def Let_def
proof (rule yields_ok [OF validate_keeps], rule yields_prod, goal_cases)
  case (1 x a' err)
  then have a': "same_bounds a a'" by simp
  show ?case
  proof (cases err)
    case None
    show ?thesis unfolding None option.case
      by (rule yields_ok [OF yields_any], rule yields_ok [OF fold_metrics_error], rule yields_if;
          rule yields_ok [OF setCondition_keeps [OF a']], rule yields_ret)
         (auto simp: metrics_sound_def split: option.splits)
  qed (use a' in \<open>auto intro!: yields_ret simp: metrics_sound_def\<close>)
qed

section \<open>The decision\<close>

definition good_decision :: "int \<Rightarrow> int \<Rightarrow> int \<Rightarrow> decision \<Rightarrow> bool" where
  "good_decision lo hi cur d = (case d of
       Decided n rescale _ err \<Rightarrow> (rescale \<longrightarrow> lo \<le> n \<and> n \<le> hi) \<and> (err \<noteq> None \<longrightarrow> cur \<le> n)
     | GiveUp _ \<Rightarrow> True)"

lemma decide_by_metrics_good:
  assumes "lo \<le> cur" "cur \<le> hp_max a" "0 \<le> cur" "cur < 2 ^ 30" "mx_error mx \<noteq> None \<longrightarrow> cur \<le> mx_replicas mx"
  shows "yields (\<lambda>(c', a', d). good_decision lo (hp_max a) cur d) (decide_by_metrics e cvt key mx cur lo c a)"
  unfolding decide_by_metrics_def Let_def
proof (rule yields_ok [OF yields_if [OF normalize_yields normalize_behaviors_yields]], goal_cases)
  case (7 x)
  then show ?case
    using assms by (auto intro!: yields_ret simp: good_decision_def good_target_def split: if_splits)
qed (use assms in auto)

lemma decideReplicas_good:
  assumes "0 \<le> lo" "lo \<le> hp_max a" "hp_max a < 2 ^ 30"
    and cur: "cur = deref_or 0 (cs_replicas (gd_component (graphd_of nc)))"
  shows "yields (\<lambda>(c', a', d). good_decision lo (hp_max a) cur d) (decideReplicas e cvt key nc cur lo c a)"
  unfolding decideReplicas_def
proof (intro yields_if, goal_cases)
  case 1
  then show ?case by (auto intro!: yields_ok [OF yields_any] yields_ret simp: good_decision_def)
next
  case 4
  show ?case
  proof (rule yields_ok [OF computeReplicas_sound], rule yields_prod, goal_cases)
    case (1 x a' mx)
    then have a': "hp_max a' = hp_max a" and mx: "metrics_sound cur mx"
      by (simp_all add: same_bounds_def cur)
    have "yields (\<lambda>(c', a', d). good_decision lo (hp_max a) cur d) (decide_by_metrics e cvt key mx cur lo c a')"
      if "mx_error mx \<noteq> None \<longrightarrow> cur \<le> mx_replicas mx"
      using decide_by_metrics_good [of lo cur a' mx e cvt key c] that assms 4 a' by simp
    with mx show ?case
      by (auto simp: metrics_sound_def good_decision_def intro!: yields_if yields_ret split: option.splits)
  qed
qed (use assms in \<open>auto intro!: yields_ret simp: good_decision_def\<close>)

section \<open>What a reconciliation writes\<close>

lemma calc_emits [emits]: "emits no_write (calc e req reason msg k)"
  unfolding calc_def by (intro emits) (auto simp: no_write_def)

lemma fail_with_emits [emits]: "emits P (fail_with reason msg)"
  unfolding fail_with_def by (rule emits)

lemma parse_selector_emits [emits]: "emits no_write m \<Longrightarrow> emits no_write (parse_selector e sel r msg m)"
  unfolding parse_selector_def by (intro emits) (auto simp: no_write_def)

lemma metric_emits [emits]: "emits no_write (computeReplicasForMetric e ns spec s st)"
  unfolding computeReplicasForMetric_def computeStatusForObjectMetric_def computeStatusForPodsMetric_def
    computeStatusForResourceMetric_def computeStatusForContainerResourceMetric_def
    computeStatusForResourceMetricGeneric_def computeStatusForExternalMetric_def
  by (auto intro!: emits split: source_type.splits target_type.splits option.splits)

lemma fold_metrics_emits [emits]: "emits no_write (fold_metrics e ns s st specs)"
  unfolding fold_metrics_def by (intro emits)

lemma ListPods_emits [emits]: "emits no_write (ListPods e ns sel)"
  unfolding ListPods_def by (intro emits) (simp add: no_write_def)

lemma validate_emits [emits]: "emits no_write (validateAndParseSelector e labels a)"
  unfolding validateAndParseSelector_def by (intro emits) (simp_all add: no_write_def)

lemma no_write_Clock [simp]: "no_write Clock"
  by (simp add: no_write_def)

lemma decideReplicas_emits [emits]: "emits no_write (decideReplicas e cvt key nc cur lo c a)"
  unfolding decideReplicas_def decide_by_metrics_def computeReplicasForMetrics_def
    normalizeDesiredReplicas_def normalizeDesiredReplicasWithBehaviors_def stabilized_condition_def
    limited_condition_def Let_def
  by (intro emits) simp_all

definition bounded_write :: "nebula_cluster \<Rightarrow> int \<Rightarrow> int \<Rightarrow> call \<Rightarrow> bool" where
  "bounded_write nc lo hi c = (case c of
       UpdateCluster nc' \<Rightarrow> om_annotations (nc_meta nc') = om_annotations (nc_meta nc)
         \<and> (\<exists>n. nc_spec nc' = nc_spec (set_graphd_replicas n nc) \<and> lo \<le> n \<and> n \<le> hi)
     | _ \<Rightarrow> True)"

lemma bounded_no_write: "no_write c \<Longrightarrow> bounded_write nc lo hi c"
  by (auto simp: no_write_def bounded_write_def split: call.splits)

lemma emits_low: "emits no_write m \<Longrightarrow> emits (bounded_write nc lo hi) m"
  by (erule emits_mono) (rule bounded_no_write)

lemma write_emits:
  "lo \<le> n \<Longrightarrow> n \<le> hi \<Longrightarrow> emits (bounded_write nc lo hi) (UpdateNebulaCluster e (set_graphd_replicas n nc))"
  by (rule emits_mono [OF nc_update.calls]) (auto simp: bounded_write_def set_graphd_replicas_def)

lemma finish_emits: "emits no_write (finish e s nc cur d ms r err c a)"
  unfolding finish_def by (intro emits) simp_all

lemma apply_emits:
  assumes "good_decision lo hi cur d"
  shows "emits (bounded_write nc lo hi) (apply_decision e key s nc cur d c a)"
proof -
  have give_up: "emits no_write (setCurrentReplicasInStatus e cur a \<bind> ok (\<lambda>a.
      best_effort (updateStatusIfNeeded e s a) \<bind> ok (\<lambda>_. ret (c, x))))" for a c and x :: "go_err option"
    unfolding setCurrentReplicasInStatus_def best_effort_def by (intro emits) simp_all
  have event: "emits no_write (store_event e b key p n c)" for b p n c
    unfolding store_event_def by (intro emits) simp_all
  show ?thesis
  proof (cases d)
    case (Decided n rescale ms err)
    then show ?thesis
      using assms
      by (auto simp: apply_decision_def good_decision_def
          intro!: emits_bind [OF write_emits] emits_handle emits_bind [OF emits_low [OF setCondition_emits]]
            emits_bind [OF emits_low [OF event]] emits_ok emits_low [OF finish_emits] emits_low [OF give_up])
  qed (simp add: apply_decision_def emits_low [OF give_up])
qed

lemma missing_emits: "emits no_write (cluster_missing e s err c a)"
  unfolding cluster_missing_def setCurrentReplicasInStatus_def best_effort_def by (intro emits) simp_all

lemma reconcile_writes:
  assumes run: "run_state (reconcileAutoscaler e cvt key c a) h = (r, new @ h)"
    and bounds: "0 \<le> deref_or 1 (hp_min a)" "deref_or 1 (hp_min a) \<le> hp_max a" "hp_max a < 2 ^ 30"
    and sent: "UpdateCluster nc' \<in> set new"
  shows "\<exists>nc n. e_cluster e (GetCluster (om_namespace (hp_meta a)) (hp_cluster a) # h) = Ok nc
    \<and> om_annotations (nc_meta nc') = om_annotations (nc_meta nc)
    \<and> nc_spec nc' = nc_spec (set_graphd_replicas n nc) \<and> deref_or 1 (hp_min a) \<le> n \<and> n \<le> hp_max a"
proof -
  let ?get = "GetCluster (om_namespace (hp_meta a)) (hp_cluster a)"
  define P where "P call = (no_write call \<or> (\<exists>nc. e_cluster e (?get # h) = Ok nc
    \<and> bounded_write nc (deref_or 1 (hp_min a)) (hp_max a) call))" for call
  have body: "emits P (case e_cluster e (?get # h) of Ok nc \<Rightarrow> f nc | Err x \<Rightarrow> cluster_missing e s x c a | Panic \<Rightarrow> panic)"
    if "\<And>nc. emits (bounded_write nc (deref_or 1 (hp_min a)) (hp_max a)) (f nc)" for f s
    by (auto split: outcome.splits intro!: emits_return emits_mono [OF missing_emits]
        emits_mono [OF that] simp: P_def)
  let ?rest = "\<lambda>nc. setCondition e ''AbleToScale'' ''True'' ''SucceededGetNebulaCluster''
      ''the HPA controller was able to get the target cluster'' a \<bind> ok (\<lambda>a'.
        now e \<bind> ok (\<lambda>t. decideReplicas e cvt key nc (deref_or 0 (cs_replicas (gd_component (graphd_of nc))))
          (deref_or 1 (hp_min a'))
          (recordInitialRecommendation t (deref_or 0 (cs_replicas (gd_component (graphd_of nc)))) key c) a' \<bind>
          ok (\<lambda>(c, a', d). apply_decision e key (hp_status a) nc
                (deref_or 0 (cs_replicas (gd_component (graphd_of nc)))) d c a')))"
  have rest: "emits (bounded_write nc (deref_or 1 (hp_min a)) (hp_max a)) (?rest nc)" for nc
  proof (rule emits_okV [OF emits_low [OF setCondition_emits] setCondition_keeps
        [OF same_bounds_refl]], goal_cases)
    case (2 a')
    then have a': "hp_min a' = hp_min a" "hp_max a' = hp_max a" by (simp_all add: same_bounds_def)
    show ?case
      by (rule emits_bind [OF emits_low [OF emits_now]], simp_all, rule emits_ok,
          rule emits_okV [OF emits_low [OF decideReplicas_emits] decideReplicas_good])
         (use bounds a' in \<open>auto intro!: apply_emits\<close>)
  qed simp_all
  have eq: "run_state (reconcileAutoscaler e cvt key c a) h = run_state
      (case e_cluster e (?get # h) of Ok nc \<Rightarrow> ?rest nc | Err x \<Rightarrow> cluster_missing e (hp_status a) x c a
        | Panic \<Rightarrow> panic) (?get # h)"
    by (simp add: reconcileAutoscaler_def GetNebulaCluster_def send_def handle_def Let_def)
  from emits_run [OF body [OF rest] run [unfolded eq]]
  obtain more where "new @ h = more @ ?get # h" "\<forall>c\<in>set more. P c" by blast
  then have "P (UpdateCluster nc')"
    using sent by (auto simp: append_eq_append_conv2 Cons_eq_append_conv dest!: arg_cong [of _ _ rev])
  then show ?thesis by (auto simp: P_def no_write_def bounded_write_def)
qed

text \<open>
  Claim C1. Whatever the API server, the metrics and the clock answer, and whether the
  reconciliation succeeds, fails or panics: every update of the NebulaCluster it sends carries
  the specification it read at the start with only the graphd replica count replaced, and that
  count is within \<open>minReplicas\<close> and \<open>maxReplicas\<close>.
\<close>

theorem reconcile_writes_within_bounds:
  assumes run: "run_state (reconcileAutoscaler e cvt key c a) h = (r, new @ h)"
    and bounds: "0 \<le> deref_or 1 (hp_min a)" "deref_or 1 (hp_min a) \<le> hp_max a" "hp_max a < 2 ^ 30"
    and sent: "UpdateCluster nc' \<in> set new"
  shows "\<exists>nc n. e_cluster e (GetCluster (om_namespace (hp_meta a)) (hp_cluster a) # h) = Ok nc
    \<and> nc_spec nc' = nc_spec (set_graphd_replicas n nc) \<and> deref_or 1 (hp_min a) \<le> n \<and> n \<le> hp_max a"
  using reconcile_writes [OF assms] by blast

section \<open>A metric that cannot be read\<close>

text \<open>
  Claim C2. When some metric could not be computed, the decision is never to run fewer graphd
  replicas than the cluster has, through both normalisation paths and whatever the history of
  recommendations and scale events: an unavailable metric may hold the cluster or let it grow.
\<close>

theorem failed_metric_never_scales_down:
  assumes "run_state (decideReplicas e cvt key nc (deref_or 0 (cs_replicas (gd_component (graphd_of nc)))) lo c a) h
      = (Ok (c', a', Decided n rescale ms (Some err)), h')"
    and "0 \<le> lo" "lo \<le> hp_max a" "hp_max a < 2 ^ 30"
  shows "deref_or 0 (cs_replicas (gd_component (graphd_of nc))) \<le> n"
  using yields_run [OF decideReplicas_good [OF assms(2-4) refl] assms(1)] by (simp add: good_decision_def)

section \<open>The largest proposal wins\<close>

definition proposals :: "metric_result list \<Rightarrow> int set" where
  "proposals rs = {n. \<exists>name t st. Proposal n name t st \<in> set rs}"

definition is_failed :: "metric_result \<Rightarrow> bool" where
  "is_failed r = (case r of Failed _ _ \<Rightarrow> True | Proposal _ _ _ _ \<Rightarrow> False)"

lemma proposals_snoc [simp]:
  "proposals (rs @ [Proposal n name t st]) = insert n (proposals rs)"
  "proposals (rs @ [Failed c x]) = proposals rs"
  by (auto simp: proposals_def)

lemma finite_proposals [simp]: "finite (proposals rs)"
proof (induction rs rule: rev_induct)
  case (snoc r rs)
  then show ?case by (cases r) simp_all
qed (simp add: proposals_def)

lemma fold_add_metric:
  assumes "\<forall>n\<in>proposals rs. 0 \<le> n"
  shows "ma_replicas (fold add_metric rs acc_init) = Max (insert 0 (proposals rs))
    \<and> ma_invalid (fold add_metric rs acc_init) = length (filter is_failed rs)
    \<and> length (ma_statuses (fold add_metric rs acc_init)) = length rs"
  using assms
proof (induction rs rule: rev_induct)
  case Nil
  then show ?case by (simp add: acc_init_def proposals_def)
next
  case (snoc r rs)
  then show ?case
  proof (cases r)
    case (Proposal n name t st)
    define m where "m = Max (insert 0 (proposals rs))"
    have "Max (insert 0 (proposals (rs @ [r]))) = max n m"
      unfolding m_def Proposal proposals_snoc by (subst insert_commute, subst Max_insert) simp_all
    moreover have "0 \<le> m" "0 \<le> n" using snoc.prems Proposal by (simp_all add: m_def)
    then have "m = 0 \<Longrightarrow> n = max n 0" "(if m = 0 \<or> n > m then n else m) = max n m" by simp_all
    moreover have "ma_replicas (add_metric r acc) = (if ma_replicas acc = 0 \<or> n > ma_replicas acc then n else ma_replicas acc)"
      "ma_invalid (add_metric r acc) = ma_invalid acc"
      "length (ma_statuses (add_metric r acc)) = Suc (length (ma_statuses acc))" for acc
      using Proposal by (simp_all add: add_metric_def Let_def)
    moreover have "\<not> is_failed r" using Proposal by (simp add: is_failed_def)
    moreover have "\<forall>n\<in>proposals rs. 0 \<le> n" using snoc.prems Proposal by simp
    ultimately show ?thesis
      using snoc.IH by (simp del: Max_insert add: m_def [symmetric])
  qed (auto simp: add_metric_def is_failed_def)
qed

text \<open>A run of the loop is a fold over the results of its metrics.\<close>

definition metric_results :: "env \<Rightarrow> string \<Rightarrow> int \<Rightarrow> int \<Rightarrow> metric_spec list \<Rightarrow> metric_result list \<Rightarrow> bool" where
  "metric_results e ns s st specs rs \<longleftrightarrow>
     list_all2 (\<lambda>spec r. \<exists>h h'. run_state (computeReplicasForMetric e ns spec s st) h = (Ok r, h')) specs rs"

lemma fold_metrics_run:
  "run_state (fold_go (\<lambda>spec acc. computeReplicasForMetric e ns spec s st \<bind> ok (\<lambda>r. ret (add_metric r acc)))
     specs acc) h = (Ok acc', h') \<Longrightarrow>
   \<exists>rs. metric_results e ns s st specs rs \<and> acc' = fold add_metric rs acc"
proof (induction specs arbitrary: acc h)
  case Nil
  then show ?case by (intro exI [of _ "[]"]) (simp add: metric_results_def)
next
  case (Cons spec specs)
  obtain r h1 where r: "run_state (computeReplicasForMetric e ns spec s st) h = (r, h1)" by fastforce
  with Cons.prems obtain x where x: "r = Ok x"
    by (cases r) (simp_all add: ok_def handle_def)
  with Cons.prems r Cons.IH [of "add_metric x acc" h1]
  obtain rs where "metric_results e ns s st specs rs" "acc' = fold add_metric rs (add_metric x acc)"
    by (auto simp: ok_def handle_def)
  then show ?case using r x by (intro exI [of _ "x # rs"]) (auto simp: metric_results_def)
qed

lemma calc_proposes:
  "yields V (calc e req reason msg k)"
  if "\<And>h r. e_calc e h = Ok r \<Longrightarrow> V (k r)" "\<And>c x. V (Failed c x)"
  unfolding calc_def yields_def using that by (auto simp: wp_simps split: outcome.splits)

definition proposes_nonneg :: "metric_result \<Rightarrow> bool" where
  "proposes_nonneg r = (case r of Failed _ _ \<Rightarrow> True | Proposal n _ _ _ \<Rightarrow> 0 \<le> n)"

lemma proposal_nonneg:
  assumes "\<And>h r. e_calc e h = Ok r \<Longrightarrow> 0 \<le> cr_replicas r"
  shows "yields proposes_nonneg (computeReplicasForMetric e ns spec s st)"
proof -
  have fail: "yields proposes_nonneg (fail_with a b)" for a b
    unfolding fail_with_def by (rule yields_ret) (simp add: proposes_nonneg_def)
  have calc: "yields proposes_nonneg (calc e req x y (\<lambda>r. Proposal (cr_replicas r) (g r) (t r) (st r)))"
    for req x y g t st
    by (rule calc_proposes) (use assms in \<open>auto simp: proposes_nonneg_def\<close>)
  have parse: "yields proposes_nonneg m \<Longrightarrow> yields proposes_nonneg (parse_selector e sel x y m)" for m sel x y
    unfolding parse_selector_def by (rule yields_handle [OF yields_any]) (auto intro: fail)
  show ?thesis
    unfolding computeReplicasForMetric_def computeStatusForObjectMetric_def computeStatusForPodsMetric_def
      computeStatusForResourceMetric_def computeStatusForContainerResourceMetric_def
      computeStatusForResourceMetricGeneric_def computeStatusForExternalMetric_def
    by (auto intro!: yields_ok [OF yields_any] parse calc fail
        split: source_type.splits target_type.splits option.splits)
qed


section \<open>Defaulted behaviours\<close>

text \<open>After defaulting the scale-down window is set, so the controller's own default is never used.\<close>

lemma defaulted_window_unused:
  "maybeInitScaleDownStabilizationWindow cvt c (SetDefaults_behavior b) = SetDefaults_behavior b"
  by (auto simp: maybeInitScaleDownStabilizationWindow_def SetDefaults_behavior_def
      GenerateHPAScaleDownRules_def copyHPAScalingRules_def defaultHPAScaleDownRules_def split: option.splits)

lemma stabilize_total:
  "rules_complete (na_up args) \<Longrightarrow> rules_complete (na_down args) \<Longrightarrow>
   \<exists>s why c'. stabilizeRecommendationWithBehaviors t1 t2 args c = Ok (s, why, c')"
  by (auto simp: rules_complete_def stabilizeRecommendationWithBehaviors_def window_of_def Let_def
      split: option.splits prod.splits)

lemma scale_limits_total:
  "rules_complete r \<Longrightarrow> \<exists>l. calculateScaleUpLimitWithScalingRules cvt t cur ups downs r = Ok l"
  "rules_complete r \<Longrightarrow> \<exists>l. calculateScaleDownLimitWithBehaviors cvt t cur ups downs r = Ok l"
  by (auto simp: rules_complete_def calculateScaleUpLimitWithScalingRules_def
      calculateScaleDownLimitWithBehaviors_def Let_def split: option.splits select_policy.splits)

lemma convert_total:
  "rules_complete (na_up args) \<Longrightarrow> rules_complete (na_down args) \<Longrightarrow>
   \<exists>d why. convertDesiredReplicasWithBehaviorRate cvt t args c = Ok (d, why)"
  using scale_limits_total(1) [of "na_up args" cvt t "na_current args" "entries (hc_up c) (na_key args)"
      "entries (hc_down c) (na_key args)"]
    scale_limits_total(2) [of "na_down args" cvt t "na_current args" "entries (hc_up c) (na_key args)"
      "entries (hc_down c) (na_key args)"]
  by (auto simp: convertDesiredReplicasWithBehaviorRate_def Let_def)

lemma setCondition_total: "\<exists>a' h'. run_state (setCondition e ty st r m a) h = (Ok a', h')"
  by (simp add: setCondition_def now_def ok_def handle_def)

lemma condition_totals:
  "\<exists>a' h'. run_state (stabilized_condition e s p r a) h = (Ok a', h')"
  "\<exists>a' h'. run_state (limited_condition e d s w a) h = (Ok a', h')"
  by (simp_all add: stabilized_condition_def limited_condition_def setCondition_total)

text \<open>
  Claim C10. For an autoscaler with a behaviour, defaulting makes the whole normalisation total:
  whatever rules the user left out, from every controller state and history, it returns a
  replica count; no nil window, select policy or rule set is dereferenced.
\<close>

theorem defaulted_normalization_total:
  assumes "hp_behavior a = Some b"
  shows "\<exists>c' a' d h'. run_state (normalizeDesiredReplicasWithBehaviors e cvt key cur pre lo c
    (SetDefaults_NebulaAutoscaler a)) h = (Ok (c', a', d), h')"
proof -
  obtain b' where b': "SetDefaults_behavior (Some b) = Some b'" by (simp add: SetDefaults_behavior_def)
  note complete = SetDefaults_behavior_complete [OF b']
  let ?a = "SetDefaults_NebulaAutoscaler a"
  have beh: "maybeInitScaleDownStabilizationWindow cvt c (hp_behavior ?a) = Some b'"
    using assms b' defaulted_window_unused [of cvt c "Some b"] by (simp add: SetDefaults_NebulaAutoscaler_def)
  define args where "args = \<lparr>na_key = key, na_up = bh_up b', na_down = bh_down b', na_min = lo,
    na_max = hp_max (?a\<lparr>hp_behavior := Some b'\<rparr>), na_current = cur, na_desired = pre\<rparr>"
  define t1 t2 where "t1 = e_clock e (Clock # h)" and "t2 = e_clock e (Clock # Clock # h)"
  obtain s why c1 where s: "stabilizeRecommendationWithBehaviors t1 t2 args c = Ok (s, why, c1)"
    using stabilize_total [of args t1 t2 c] complete unfolding args_def by auto
  obtain a1 h1 where a1: "run_state (stabilized_condition e s pre (stabilized_name why)
      (?a\<lparr>hp_behavior := Some b'\<rparr>)) (Clock # Clock # h) = (Ok a1, h1)"
    using condition_totals(1) by blast
  obtain d why' where d: "convertDesiredReplicasWithBehaviorRate cvt (e_clock e (Clock # h1)) (args\<lparr>na_desired := s\<rparr>) c1
      = Ok (d, why')"
    using convert_total [of "args\<lparr>na_desired := s\<rparr>" cvt "e_clock e (Clock # h1)" c1] complete
    unfolding args_def by auto
  obtain a2 h2 where "run_state (limited_condition e d s why' a1) (Clock # h1) = (Ok a2, h2)"
    using condition_totals(2) by blast
  then show ?thesis
    using s a1 d unfolding normalizeDesiredReplicasWithBehaviors_def Let_def beh args_def t1_def t2_def
    by (auto simp: now_def ok_def handle_def lift_def)
qed

section \<open>Concrete runs\<close>

definition sample_autoscaler :: "int \<Rightarrow> int \<Rightarrow> autoscaler" where
  "sample_autoscaler lo hi =
     \<lparr>hp_meta = plain_meta ''ns'' ''hpa'', hp_cluster = ''nebula'', hp_min = Some lo, hp_max = hi,
      hp_metrics = [], hp_behavior = None, hp_polling = None,
      hp_status = \<lparr>hs_last_scale = None, hs_current = 0, hs_desired = 0, hs_metrics = [], hs_conditions = []\<rparr>\<rparr>"

definition new_controller :: hpa_ctl where
  "new_controller = \<lparr>hc_window = 300 * second, hc_recs = Map.empty, hc_up = Map.empty, hc_down = Map.empty\<rparr>"

definition sample_world :: "nebula_cluster \<Rightarrow> calc_resp outcome \<Rightarrow> env" where
  "sample_world nc r = empty_world\<lparr>e_cluster := \<lambda>_. Ok nc, e_calc := \<lambda>_. r\<rparr>"

text \<open>Five graphd replicas, at most three allowed: the run writes three.\<close>

abbreviation sample_run :: "(hpa_ctl \<times> go_err option) outcome \<times> call list" where
  "sample_run \<equiv> run_state (reconcileAutoscaler (sample_world (sample_cluster 5 3) (Err ErrNotFound)) (\<lambda>_. 0) ''k''
     new_controller (sample_autoscaler 1 3)) []"

lemma sample_run_writes: "list_ex (\<lambda>c. \<not> no_write c) (snd sample_run)"
  by code_simp

theorem reconcile_writes_witness:
  "\<exists>nc' n. UpdateCluster nc' \<in> set (snd sample_run) \<and> 1 \<le> n \<and> n \<le> 3
     \<and> nc_spec nc' = nc_spec (set_graphd_replicas n (sample_cluster 5 3))"
proof -
  obtain nc' where w: "UpdateCluster nc' \<in> set (snd sample_run)"
    using sample_run_writes by (auto simp: list_ex_iff no_write_iff)
  have "sample_run = (fst sample_run, snd sample_run @ [])" by simp
  from reconcile_writes_within_bounds [OF this _ _ _ w] show ?thesis
    using w by (auto simp: sample_autoscaler_def sample_world_def)
qed

text \<open>Two metrics, of which the calculator answers one.\<close>

definition resource_metric :: "string \<Rightarrow> metric_spec" where
  "resource_metric name =
     \<lparr>ms_type = ResourceSource, ms_object = None, ms_pods = None,
      ms_resource = Some \<lparr>rs_name = name, rs_target =
        \<lparr>mt_type = UtilizationMetric, mt_value = None, mt_average = None, mt_utilization = Some 80\<rparr>\<rparr>,
      ms_container = None, ms_external = None\<rparr>"

definition half_metrics :: "call list \<Rightarrow> calc_resp outcome" where
  "half_metrics h = (case h of
       Calc (ResourceReplicas cur u name ns c) # _ \<Rightarrow>
         if name = ''cpu'' then Ok \<lparr>cr_replicas = 6, cr_usage = 90, cr_percentage = 110, cr_time = 7\<rparr>
         else Err (ErrApi ''no such metric'')
     | _ \<Rightarrow> Err (ErrApi ''no such metric''))"

definition half_world :: env where
  "half_world = (sample_world (sample_cluster 5 3) (Err ErrNotFound))\<lparr>e_calc := half_metrics\<rparr>"

abbreviation half_autoscaler :: autoscaler where
  "half_autoscaler \<equiv> (sample_autoscaler 1 9)\<lparr>hp_metrics := [resource_metric ''memory'', resource_metric ''cpu'']\<rparr>"

abbreviation half_run :: "(hpa_ctl \<times> autoscaler \<times> decision) outcome \<times> call list" where
  "half_run \<equiv> run_state (decideReplicas half_world (\<lambda>_. 0) ''k'' (sample_cluster 5 3)
     (deref_or 0 (cs_replicas (gd_component (graphd_of (sample_cluster 5 3))))) 1 new_controller half_autoscaler) []"

definition despite_error :: "decision \<Rightarrow> bool" where
  "despite_error d = (case d of Decided n _ _ err \<Rightarrow> n = 6 \<and> err \<noteq> None | GiveUp _ \<Rightarrow> False)"

lemma despite_errorD: "despite_error d \<Longrightarrow> \<exists>n r ms x. d = Decided n r ms (Some x)"
  by (cases d) (auto simp: despite_error_def)

lemma half_run_decides: "(case fst half_run of Ok (_, _, d) \<Rightarrow> despite_error d | _ \<Rightarrow> False)"
  by code_simp

theorem failed_metric_witness:
  "\<exists>c' a' n rescale ms err h'. half_run = (Ok (c', a', Decided n rescale ms (Some err)), h') \<and> 5 \<le> n"
proof -
  obtain c' a' n rescale ms err h' where r: "half_run = (Ok (c', a', Decided n rescale ms (Some err)), h')"
    using half_run_decides
    by (cases half_run) (auto dest!: despite_errorD split: outcome.split_asm)
  from failed_metric_never_scales_down [OF this] have "5 \<le> n"
    by (simp add: sample_defs sample_autoscaler_def)
  with r show ?thesis by blast
qed

lemma half_metrics_nonneg: "half_metrics h = Ok r \<Longrightarrow> 0 \<le> cr_replicas r"
  by (auto simp: half_metrics_def split: list.splits call.splits calc_req.splits if_splits)

abbreviation half_fold :: "metrics_acc outcome \<times> call list" where
  "half_fold \<equiv> run_state (fold_metrics half_world ''ns'' 5 5 (hp_metrics half_autoscaler)) []"

lemma half_fold_ok: "(case fst half_fold of Ok acc \<Rightarrow> ma_replicas acc = 6 | _ \<Rightarrow> False)"
  by code_simp


theorem defaulted_normalization_witness:
  "\<exists>c' a' d h'. run_state (normalizeDesiredReplicasWithBehaviors empty_world (\<lambda>_. 0) ''k'' 3 5 1 new_controller
     (SetDefaults_NebulaAutoscaler ((sample_autoscaler 1 9)\<lparr>hp_behavior := Some \<lparr>bh_up = None, bh_down = None\<rparr>\<rparr>))) []
     = (Ok (c', a', d), h')"
  by (rule defaulted_normalization_total [where b = "\<lparr>bh_up = None, bh_down = None\<rparr>"]) simp

end
