(* ===== verification/NodeZone.thy ===== *)
theory NodeZone
  imports KubeEnv "HOL-Library.List_Lexorder"
begin

text \<open>
  The scheduler plugin that spreads the pods of a StatefulSet over three zones
  (\<open>pkg/scheduler/nodezone\<close>). Pods are grouped by three: the ordinal divisible by three is the
  anchor of its group. The listers and the node snapshot are a record of what they hold when the
  plugin is called; log lines are left out. The regular expression of the source is written as
  what it matches on names without a newline.
\<close>

section \<open>Names\<close>

definition getParentNameAndOrdinal :: "string \<Rightarrow> string \<times> int" where
  "getParentNameAndOrdinal name =
     (case split_last CHR ''-'' name of
        None \<Rightarrow> ('''', -1)
      | Some (parent, digits) \<Rightarrow>
          if all_digits digits
          then (parent, case parse_int 32 digits of None \<Rightarrow> -1 | Some i \<Rightarrow> i)
          else ('''', -1))"

definition getParentName :: "string \<Rightarrow> string" where
  "getParentName name = fst (getParentNameAndOrdinal name)"

definition getConfigMapName :: "string \<Rightarrow> string" where
  "getConfigMapName name = getParentName name @ ''-'' @ ''zone''"

definition needSchedule :: "string \<Rightarrow> bool" where
  "needSchedule podName \<longleftrightarrow>
     str_contains podName (type_String GraphdComponentType)
     \<or> str_contains podName (type_String StoragedComponentType)"

definition getPodNameByOrdinal :: "string \<Rightarrow> int \<Rightarrow> string" where
  "getPodNameByOrdinal parentName ordinal = parentName @ ''-'' @ show_int ordinal"

definition isPodScheduled :: "pod option \<Rightarrow> bool" where
  "isPodScheduled p =
     (case p of None \<Rightarrow> False | Some p \<Rightarrow> om_deletion (pd_meta p) = None \<and> pd_node p \<noteq> '''')"

text \<open>
  Claim C16. The ordinal of a pod is read back from the name it was given: for every parent name
  and every ordinal of an int32, \<open>getParentNameAndOrdinal\<close> inverts \<open>getPodNameByOrdinal\<close>.
\<close>

theorem ordinal_roundtrip:
  assumes "0 \<le> i" "i \<le> max_i32"
  shows "getParentNameAndOrdinal (getPodNameByOrdinal parent i) = (parent, i)"
proof -
  have "split_last CHR ''-'' (parent @ ''-'' @ show_int i) = Some (parent, show_nat (nat i))"
    using split_last_append [OF minus_not_in_show_nat, of parent "nat i"] assms
    by (simp add: show_int_nonneg)
  moreover have "parse_int 32 (show_nat (nat i)) = Some i"
    using parse_show_nat [of "nat i" 32] assms by simp
  ultimately show ?thesis by (simp add: getParentNameAndOrdinal_def getPodNameByOrdinal_def)
qed

theorem ordinal_roundtrip_witness:
  "getParentNameAndOrdinal (getPodNameByOrdinal ''a-storaged'' 12) = (''a-storaged'', 12)"
  by (rule ordinal_roundtrip) simp_all

section \<open>The plugin\<close>

datatype sched_status =
    Success | Skip | Wait | Unschedulable string | UnschedulableAndUnresolvable string | ErrorStatus

abbreviation ErrReasonNoLabelTopologyZone :: string where
  "ErrReasonNoLabelTopologyZone \<equiv> ''node(s) no topology zone label''"

abbreviation ErrReasonNotMatch :: string where
  "ErrReasonNotMatch \<equiv> ''node(s) didn't match the requested topology zone''"

abbreviation AvailableZones :: int where "AvailableZones \<equiv> 3"

text \<open>\<open>ls_infos\<close> is the snapshot of the nodes; the pod lister is given a namespace and a name.\<close>

record listers =
  ls_config_map :: "string \<Rightarrow> string \<Rightarrow> strmap outcome"
  ls_pod :: "string \<Rightarrow> string \<Rightarrow> pod outcome"
  ls_node :: "string \<Rightarrow> node outcome"
  ls_infos :: "node list outcome"

type_synonym cycle_state = "strmap option"

definition getErrorAsStatus :: "go_err \<Rightarrow> sched_status" where
  "getErrorAsStatus err = (if err = ErrNotFound then UnschedulableAndUnresolvable ''not found'' else ErrorStatus)"

definition zone_label :: "node \<Rightarrow> string option" where
  "zone_label n = map_of (om_labels (nd_meta n)) ''topology.kubernetes.io/zone''"

definition getZoneMappingData :: "listers \<Rightarrow> pod \<Rightarrow> strmap + sched_status" where
  "getZoneMappingData L p =
     (let cmName = getConfigMapName (om_name (pd_meta p))
      in if cmName = '''' then Inr (UnschedulableAndUnresolvable ''ConfigMap name is empty'')
         else (case ls_config_map L (om_namespace (pd_meta p)) cmName of
                 Ok m \<Rightarrow> Inl m | Err x \<Rightarrow> Inr (getErrorAsStatus x) | Panic \<Rightarrow> Inr ErrorStatus))"

definition PreFilter :: "listers \<Rightarrow> spread_constraint list \<Rightarrow> cycle_state \<Rightarrow> pod \<Rightarrow> sched_status \<times> cycle_state" where
  "PreFilter L constraints cs p =
     (if constraints = [] then (Skip, cs)
      else if \<not> needSchedule (om_name (pd_meta p)) then (Skip, cs)
      else (case getZoneMappingData L p of
              Inr s \<Rightarrow> (s, cs)
            | Inl m \<Rightarrow> if m = [] then (Success, cs) else (Success, Some m)))"

definition getPreFilterState :: "cycle_state \<Rightarrow> strmap outcome" where
  "getPreFilterState cs = (case cs of None \<Rightarrow> Err (ErrPlain ''reading from cycleState'') | Some m \<Rightarrow> Ok m)"

text \<open>The zones of the first nodes, at most three, sorted.\<close>

fun collect_zones :: "node list \<Rightarrow> string list \<Rightarrow> string list" where
  "collect_zones [] zs = zs"
| "collect_zones (n # ns) zs =
     (if length zs = 3 then zs
      else (case zone_label n of
              None \<Rightarrow> collect_zones ns zs
            | Some z \<Rightarrow> collect_zones ns (if z \<in> set zs then zs else zs @ [z])))"

definition getTopologyZones :: "listers \<Rightarrow> string list outcome" where
  "getTopologyZones L =
     (case ls_infos L of
        Ok infos \<Rightarrow> Ok (sort_key (map (of_char :: char \<Rightarrow> nat)) (collect_zones infos []))
      | Err x \<Rightarrow> Err (ErrPlain ''listing NodeInfos'')
      | Panic \<Rightarrow> Panic)"

fun index_of :: "string list \<Rightarrow> string \<Rightarrow> int" where
  "index_of [] z = 0"
| "index_of (x # xs) z = (if x = z then 0 else if z \<in> set xs then 1 + index_of xs z else 0)"

text \<open>A neighbour: nil when it is not found; another error ends the call.\<close>

definition with_pod ::
    "listers \<Rightarrow> string \<Rightarrow> string \<Rightarrow> (pod option \<Rightarrow> sched_status outcome) \<Rightarrow> sched_status outcome" where
  "with_pod L ns name f =
     (case ls_pod L ns name of
        Ok p \<Rightarrow> f (Some p)
      | Err x \<Rightarrow> if x = ErrNotFound then f None else Ok ErrorStatus
      | Panic \<Rightarrow> Panic)"

definition with_node :: "listers \<Rightarrow> string \<Rightarrow> (node \<Rightarrow> sched_status outcome) \<Rightarrow> sched_status outcome" where
  "with_node L name f =
     (case ls_node L name of Ok n \<Rightarrow> f n | Err x \<Rightarrow> Ok (getErrorAsStatus x) | Panic \<Rightarrow> Panic)"

definition sibling_ordinal :: "int \<Rightarrow> int \<Rightarrow> int" where
  "sibling_ordinal ordinal remainder =
     (if remainder = 1 then ordinal + 1 else if remainder = 2 then ordinal - 1 else 0)"

definition filter_sibling :: "listers \<Rightarrow> string \<Rightarrow> string \<Rightarrow> int \<Rightarrow> int \<Rightarrow> string \<Rightarrow> sched_status outcome" where
  "filter_sibling L ns parent ordinal remainder nodeZone =
     with_pod L ns (getPodNameByOrdinal parent (sibling_ordinal ordinal remainder)) (\<lambda>sibling.
       case sibling of
         Some s \<Rightarrow>
           if isPodScheduled sibling then
             with_node L (pd_node s) (\<lambda>n.
               case zone_label n of
                 None \<Rightarrow> Ok (UnschedulableAndUnresolvable ErrReasonNoLabelTopologyZone)
               | Some z \<Rightarrow> if z = nodeZone then Ok (UnschedulableAndUnresolvable ErrReasonNotMatch) else Ok Success)
           else Ok Success
       | None \<Rightarrow> Ok Success)"

definition Filter :: "listers \<Rightarrow> cycle_state \<Rightarrow> pod \<Rightarrow> node \<Rightarrow> sched_status outcome" where
  "Filter L cs p nodeInfo =
     (case getPreFilterState cs of
        Ok state \<Rightarrow>
          (case zone_label nodeInfo of
             None \<Rightarrow> Ok (UnschedulableAndUnresolvable ErrReasonNoLabelTopologyZone)
           | Some nodeZone \<Rightarrow>
               let stateZone = map_val state (om_name (pd_meta p)); ns = om_namespace (pd_meta p)
               in if stateZone \<noteq> '''' then
                    (if stateZone \<noteq> nodeZone then Ok (UnschedulableAndUnresolvable ErrReasonNotMatch) else Ok Success)
                  else
                    (case getTopologyZones L of
                       Ok zones \<Rightarrow>
                         let (parent, ordinal) = getParentNameAndOrdinal (om_name (pd_meta p));
                             remainder = go_rem ordinal AvailableZones
                         in if remainder = 0 then Ok Success
                            else with_pod L ns (getPodNameByOrdinal parent (ordinal - remainder)) (\<lambda>anchor.
                              case anchor of
                                Some ap \<Rightarrow>
                                  if isPodScheduled anchor then
                                    with_node L (pd_node ap) (\<lambda>n.
                                      case zone_label n of
                                        None \<Rightarrow> Ok (UnschedulableAndUnresolvable ErrReasonNoLabelTopologyZone)
                                      | Some anchorZone \<Rightarrow>
                                          let ideal = go_rem (index_of zones anchorZone + remainder) AvailableZones
                                          in if ideal < 0 \<or> int (length zones) \<le> ideal then Panic
                                             else if anchorZone = nodeZone
                                             then Ok (UnschedulableAndUnresolvable ErrReasonNotMatch)
                                             else filter_sibling L ns parent ordinal remainder nodeZone)
                                  else filter_sibling L ns parent ordinal remainder nodeZone
                              | None \<Rightarrow> filter_sibling L ns parent ordinal remainder nodeZone)
                     | Err x \<Rightarrow> Ok ErrorStatus
                     | Panic \<Rightarrow> Panic))
      | Err x \<Rightarrow> Ok ErrorStatus
      | Panic \<Rightarrow> Panic)"

definition permit_sibling :: "listers \<Rightarrow> string \<Rightarrow> string \<Rightarrow> int \<Rightarrow> string \<Rightarrow> sched_status outcome" where
  "permit_sibling L ns parent ordinal assumedZone =
     with_pod L ns (getPodNameByOrdinal parent (ordinal - 1)) (\<lambda>sibling.
       case sibling of
         Some s \<Rightarrow>
           if \<not> isPodScheduled sibling then Ok Wait
           else with_node L (pd_node s) (\<lambda>n.
             case zone_label n of
               None \<Rightarrow> Ok (UnschedulableAndUnresolvable ErrReasonNoLabelTopologyZone)
             | Some z \<Rightarrow> if z = assumedZone then Ok (Unschedulable ErrReasonNotMatch) else Ok Success)
       | None \<Rightarrow> Ok Wait)"

text \<open>The wait time of a \<open>Wait\<close> is always ten seconds, that of any other status zero.\<close>

definition Permit :: "listers \<Rightarrow> pod \<Rightarrow> string \<Rightarrow> sched_status outcome" where
  "Permit L p nodeName =
     (if \<not> needSchedule (om_name (pd_meta p)) then Ok Success
      else
        let (parent, ordinal) = getParentNameAndOrdinal (om_name (pd_meta p));
            remainder = go_rem ordinal AvailableZones; ns = om_namespace (pd_meta p)
        in if remainder = 0 then Ok Success
           else with_pod L ns (getPodNameByOrdinal parent (ordinal - remainder)) (\<lambda>anchor.
             case anchor of
               None \<Rightarrow> Ok Wait
             | Some ap \<Rightarrow>
                 if \<not> isPodScheduled anchor then Ok Wait
                 else with_node L nodeName (\<lambda>assumedNode.
                   with_node L (pd_node ap) (\<lambda>anchorNode.
                     let assumedZone = deref_or '''' (zone_label assumedNode);
                         anchorZone = deref_or '''' (zone_label anchorNode)
                     in if anchorZone = assumedZone then Ok (Unschedulable ErrReasonNotMatch)
                        else if remainder = 2 then permit_sibling L ns parent ordinal assumedZone
                        else Ok Success))))"

text \<open>The waiting pods that are rejected when a pod's reservation is undone.\<close>

definition Unreserve :: "pod list \<Rightarrow> pod \<Rightarrow> pod list" where
  "Unreserve waiting p =
     (let (parent, ordinal) = getParentNameAndOrdinal (om_name (pd_meta p))
      in if go_rem ordinal AvailableZones = 0 then []
         else filter (\<lambda>w. let (wParent, wOrdinal) = getParentNameAndOrdinal (om_name (pd_meta w))
                in om_namespace (pd_meta w) = om_namespace (pd_meta p) \<and> wParent = parent
                   \<and> go_quot ordinal AvailableZones = go_quot wOrdinal AvailableZones) waiting)"

section \<open>Placements\<close>

text \<open>
  A cluster as the plugin sees it: one namespace, the zone map, the nodes and the spread
  constraints of the pods. A placement gives the node of each bound pod. A pod is bound when
  it passes \<open>PreFilter\<close>, \<open>Filter\<close> and \<open>Permit\<close> on the listers of that placement; a bound pod may
  disappear at any time.
\<close>

record sched_world =
  sw_ns :: string
  sw_map :: strmap
  sw_nodes :: "string \<Rightarrow> node option"
  sw_infos :: "node list"
  sw_constraints :: "spread_constraint list"

type_synonym placement = "string \<rightharpoonup> string"

definition pod_on :: "sched_world \<Rightarrow> string \<Rightarrow> string \<Rightarrow> pod" where
  "pod_on W name n =
     \<lparr>pd_meta = plain_meta (sw_ns W) name, pd_node = n, pd_phase = ''Pending'', pd_ready = False,
      pd_conditions = [], pd_waiting = [], pd_terminated = [], pd_exits = [], pd_spec = empty_pod_spec\<rparr>"

definition listers_of :: "sched_world \<Rightarrow> placement \<Rightarrow> listers" where
  "listers_of W P =
     \<lparr>ls_config_map = \<lambda>_ _. Ok (sw_map W),
      ls_pod = \<lambda>_ name. (case P name of Some n \<Rightarrow> Ok (pod_on W name n) | None \<Rightarrow> Err ErrNotFound),
      ls_node = \<lambda>n. (case sw_nodes W n of Some nd \<Rightarrow> Ok nd | None \<Rightarrow> Err ErrNotFound),
      ls_infos = Ok (sw_infos W)\<rparr>"

definition admits :: "sched_world \<Rightarrow> placement \<Rightarrow> string \<Rightarrow> string \<Rightarrow> bool" where
  "admits W P name n \<longleftrightarrow>
     (let (status, cs) = PreFilter (listers_of W P) (sw_constraints W) None (pod_on W name '''')
      in status = Success \<and> n \<noteq> ''''
         \<and> (case sw_nodes W n of
              None \<Rightarrow> False
            | Some nd \<Rightarrow> Filter (listers_of W P) cs (pod_on W name '''') nd = Ok Success
                \<and> Permit (listers_of W P) (pod_on W name '''') n = Ok Success))"

text \<open>The pods of the group of \<open>name\<close> other than its anchor.\<close>

definition followers :: "string \<Rightarrow> string list" where
  "followers name =
     (let (parent, ordinal) = getParentNameAndOrdinal name
      in if go_rem ordinal AvailableZones = 0
         then [getPodNameByOrdinal parent (ordinal + 1), getPodNameByOrdinal parent (ordinal + 2)] else [])"

inductive rollout :: "sched_world \<Rightarrow> placement \<Rightarrow> bool" for W where
  start: "rollout W Map.empty"
| bind: "rollout W P \<Longrightarrow> P name = None \<Longrightarrow> admits W P name n
    \<Longrightarrow> (\<forall>f\<in>set (followers name). P f = None) \<Longrightarrow> rollout W (P(name \<mapsto> n))"
| remove: "rollout W P \<Longrightarrow> rollout W (P(name := None))"

definition node_zone :: "sched_world \<Rightarrow> string \<Rightarrow> string option" where
  "node_zone W n = (case sw_nodes W n of None \<Rightarrow> None | Some nd \<Rightarrow> zone_label nd)"

lemma scheduled_pod_on [simp]: "isPodScheduled (Some (pod_on W name n)) \<longleftrightarrow> n \<noteq> ''''"
  by (simp add: isPodScheduled_def pod_on_def plain_meta_def)

lemma pod_on_fields [simp]:
  "om_name (pd_meta (pod_on W name n)) = name" "om_namespace (pd_meta (pod_on W name n)) = sw_ns W"
  "pd_node (pod_on W name n) = n"
  by (simp_all add: pod_on_def plain_meta_def)

lemma listers_of_fields [simp]:
  "ls_pod (listers_of W P) ns name = (case P name of Some n \<Rightarrow> Ok (pod_on W name n) | None \<Rightarrow> Err ErrNotFound)"
  "ls_node (listers_of W P) n = (case sw_nodes W n of Some nd \<Rightarrow> Ok nd | None \<Rightarrow> Err ErrNotFound)"
  by (simp_all add: listers_of_def)

lemma admits_state:
  assumes "admits W P name n"
  obtains nd cs where "sw_nodes W n = Some nd" "n \<noteq> ''''" "cs = Some (sw_map W)" "needSchedule name"
    "Filter (listers_of W P) cs (pod_on W name '''') nd = Ok Success"
    "Permit (listers_of W P) (pod_on W name '''') n = Ok Success"
proof -
  obtain nd cs where nd: "sw_nodes W n = Some nd" "n \<noteq> ''''"
    "PreFilter (listers_of W P) (sw_constraints W) None (pod_on W name '''') = (Success, cs)"
    "Filter (listers_of W P) cs (pod_on W name '''') nd = Ok Success"
    "Permit (listers_of W P) (pod_on W name '''') n = Ok Success"
    using assms by (auto simp: admits_def Let_def split: option.splits prod.splits)
  moreover have "cs \<noteq> None" using nd(4) by (cases cs) (simp_all add: Filter_def getPreFilterState_def)
  ultimately show ?thesis
    using that by (auto simp: PreFilter_def getZoneMappingData_def listers_of_def getConfigMapName_def split: if_splits)
qed

lemma bound_nodes: "rollout W P \<Longrightarrow> P name = Some n \<Longrightarrow> n \<noteq> '''' \<and> sw_nodes W n \<noteq> None"
proof (induction arbitrary: name n rule: rollout.induct)
  case (bind P name' n')
  then show ?case by (auto elim!: admits_state split: if_splits)
qed (auto split: if_splits)

text \<open>What a successful pass says about the node's zone.\<close>

lemma admits_mapped:
  assumes "admits W P name n" "map_val (sw_map W) name \<noteq> ''''"
  shows "node_zone W n = Some (map_val (sw_map W) name)"
  using assms
  by (auto elim!: admits_state simp: Filter_def getPreFilterState_def node_zone_def Let_def
      split: option.splits if_splits)

lemma admits_sibling:
  assumes adm: "admits W P name n" and unmapped: "map_val (sw_map W) name = ''''"
    and name: "getParentNameAndOrdinal name = (parent, i)" and rem: "go_rem i 3 \<noteq> 0"
    and sib: "P (getPodNameByOrdinal parent (sibling_ordinal i (go_rem i 3))) = Some n'" "n' \<noteq> ''''"
      "sw_nodes W n' \<noteq> None"
  shows "node_zone W n \<noteq> node_zone W n'"
proof -
  obtain nd where nd: "sw_nodes W n = Some nd" "Filter (listers_of W P) (Some (sw_map W)) (pod_on W name '''') nd = Ok Success"
    using adm by (auto elim: admits_state)
  then obtain z where z: "zone_label nd = Some z"
    by (auto simp: Filter_def getPreFilterState_def split: option.splits)
  have "filter_sibling (listers_of W P) (sw_ns W) parent i (go_rem i 3) z = Ok Success"
    using nd(2) z unmapped name rem
    by (auto simp: Filter_def getPreFilterState_def Let_def with_pod_def with_node_def getErrorAsStatus_def
        split: outcome.splits option.splits if_splits)
  then show ?thesis
    using sib z nd(1)
    by (auto simp: filter_sibling_def with_pod_def with_node_def node_zone_def split: option.splits if_splits)
qed

lemma admits_anchor:
  assumes adm: "admits W P name n" and name: "getParentNameAndOrdinal name = (parent, i)"
    and rem: "go_rem i 3 \<noteq> 0"
  shows "case P (getPodNameByOrdinal parent (i - go_rem i 3)) of
           None \<Rightarrow> False | Some n' \<Rightarrow> node_zone W n \<noteq> node_zone W n'"
proof -
  obtain nd where nd: "sw_nodes W n = Some nd" "needSchedule name"
    "Filter (listers_of W P) (Some (sw_map W)) (pod_on W name '''') nd = Ok Success"
    "Permit (listers_of W P) (pod_on W name '''') n = Ok Success"
    using adm by (auto elim: admits_state)
  then obtain z where z: "zone_label nd = Some z"
    by (auto simp: Filter_def getPreFilterState_def split: option.splits)
  have label: "deref_or '''' l = y" if "Some y = l" for l :: "string option" and y
    using that by auto
  show ?thesis
    using nd(1,2,4) name rem z
    by (auto simp: Permit_def Let_def with_pod_def with_node_def node_zone_def
        dest!: label split: option.splits if_splits outcome.splits)
qed

text \<open>The pods of a group, and the arithmetic of their ordinals.\<close>

abbreviation member :: "string \<Rightarrow> int \<Rightarrow> int \<Rightarrow> string" where
  "member parent g k \<equiv> getPodNameByOrdinal parent (3 * g + k)"

lemma member_ordinal:
  "0 \<le> g \<Longrightarrow> 3 * g + 2 \<le> max_i32 \<Longrightarrow> k \<in> {0, 1, 2} \<Longrightarrow>
   getParentNameAndOrdinal (member parent g k) = (parent, 3 * g + k) \<and> go_rem (3 * g + k) 3 = k"
  by (auto simp: ordinal_roundtrip go_rem_nonneg)

lemma member_eq:
  "0 \<le> g \<Longrightarrow> 3 * g + 2 \<le> max_i32 \<Longrightarrow> k \<in> {0, 1, 2} \<Longrightarrow> l \<in> {0, 1, 2} \<Longrightarrow>
   member parent g k = member parent g l \<longleftrightarrow> k = l"
  using member_ordinal by (metis add_left_cancel prod.inject)

definition spread :: "sched_world \<Rightarrow> string \<Rightarrow> int \<Rightarrow> placement \<Rightarrow> bool" where
  "spread W parent g P \<longleftrightarrow>
     (\<forall>k\<in>{0, 1, 2}. \<forall>l\<in>{0, 1, 2}. \<forall>n n'. k \<noteq> l \<longrightarrow> P (member parent g k) = Some n
        \<longrightarrow> P (member parent g l) = Some n' \<longrightarrow> node_zone W n \<noteq> node_zone W n')"

lemma spread_bind:
  assumes g: "0 \<le> g" "3 * g + 2 \<le> max_i32" and sp: "spread W parent g P"
    and new: "\<And>k l n'. name = member parent g k \<Longrightarrow> k \<in> {0, 1, 2} \<Longrightarrow> l \<in> {0, 1, 2} \<Longrightarrow> k \<noteq> l
        \<Longrightarrow> P (member parent g l) = Some n' \<Longrightarrow> node_zone W n \<noteq> node_zone W n'"
  shows "spread W parent g (P(name \<mapsto> n))"
  unfolding spread_def
proof (intro ballI allI impI)
  fix k l m m'
  assume k: "k \<in> {0, 1, 2}" and l: "l \<in> {0, 1, 2}" and "k \<noteq> l"
    and m: "(P(name \<mapsto> n)) (member parent g k) = Some m" "(P(name \<mapsto> n)) (member parent g l) = Some m'"
  then have ne: "member parent g k \<noteq> member parent g l" using member_eq [OF g] by blast
  consider "name = member parent g k" | "name = member parent g l"
    | "name \<noteq> member parent g k" "name \<noteq> member parent g l" by blast
  then show "node_zone W m \<noteq> node_zone W m'"
  proof cases
    case 1
    with m ne have "m = n" "P (member parent g l) = Some m'" by auto
    then show ?thesis using new [OF 1 k l \<open>k \<noteq> l\<close>] by simp
  next
    case 2
    with m ne have "m' = n" "P (member parent g k) = Some m" by auto
    then show ?thesis using new [OF 2 l k] \<open>k \<noteq> l\<close> by (metis (no_types))
  next
    case 3
    with m have "P (member parent g k) = Some m" "P (member parent g l) = Some m'" by auto
    then show ?thesis using sp k l \<open>k \<noteq> l\<close> unfolding spread_def by blast
  qed
qed

lemma followers_anchor:
  "0 \<le> g \<Longrightarrow> 3 * g + 2 \<le> max_i32 \<Longrightarrow> followers (member parent g 0) = [member parent g 1, member parent g 2]"
  using member_ordinal [of g 0 parent] by (simp add: followers_def)

text \<open>
  Claim C4. While a StatefulSet is rolled out (an anchor is placed before the other pods of its
  group; pods may be placed and disappear in any order and number otherwise), the three pods of
  every group that has no recorded zones are always in three different zones.
\<close>

theorem group_zones_distinct:
  assumes run: "rollout W P" and g: "0 \<le> g" "3 * g + 2 \<le> max_i32"
    and unmapped: "\<And>k. k \<in> {0, 1, 2} \<Longrightarrow> map_val (sw_map W) (member parent g k) = ''''"
  shows "spread W parent g P"
  using run
proof induction
  case start
  then show ?case by (simp add: spread_def)
next
  case (remove P name)
  then show ?case by (auto simp: spread_def)
next
  case (bind P name n)
  show ?case
  proof (rule spread_bind [OF g bind.IH])
    fix k l n'
    assume name: "name = member parent g k" and k: "k \<in> {0, 1, 2}" and l: "l \<in> {0, 1, 2}" "k \<noteq> l"
      and n': "P (member parent g l) = Some n'"
    note ord = member_ordinal [OF g k, of parent]
    have bound: "n' \<noteq> ''''" "sw_nodes W n' \<noteq> None" using bound_nodes [OF bind.hyps(1) n'] by simp_all
    show "node_zone W n \<noteq> node_zone W n'"
    proof (cases "k = 0")
      case True
      then show ?thesis using bind.hyps(4) n' l name followers_anchor [OF g, of parent] by auto
    next
      case False
      show ?thesis
      proof (cases "l = 0")
        case True
        then show ?thesis
          using admits_anchor [OF bind.hyps(3), of parent "3 * g + k"] ord False name n' by simp
      next
        case l0: False
        then have "sibling_ordinal (3 * g + k) k = 3 * g + l"
          using k l False by (auto simp: sibling_ordinal_def)
        then show ?thesis
          using admits_sibling [OF bind.hyps(3) unmapped [OF k, folded name], of parent "3 * g + k" n']
            ord False name n' bound by simp
      qed
    qed
  qed
qed


section \<open>A concrete rollout\<close>

definition zone_node :: "string \<Rightarrow> string \<Rightarrow> node" where
  "zone_node name z =
     \<lparr>nd_meta = (plain_meta '''' name)\<lparr>om_labels := [(''topology.kubernetes.io/zone'', z)]\<rparr>, nd_conditions = []\<rparr>"

definition three_zones :: "strmap \<Rightarrow> sched_world" where
  "three_zones m =
     \<lparr>sw_ns = ''ns'', sw_map = m,
      sw_nodes = map_of [(''n1'', zone_node ''n1'' ''z1''), (''n2'', zone_node ''n2'' ''z2''), (''n3'', zone_node ''n3'' ''z3'')],
      sw_infos = [zone_node ''n1'' ''z1'', zone_node ''n2'' ''z2'', zone_node ''n3'' ''z3''],
      sw_constraints = [Spread 1 ''topology.kubernetes.io/zone'' ''DoNotSchedule'' []]\<rparr>"

abbreviation fresh_world :: sched_world where "fresh_world \<equiv> three_zones [(''a-storaged'', '''')]"

lemma first_steps:
  "admits fresh_world Map.empty ''a-storaged-0'' ''n2''"
  "admits fresh_world [''a-storaged-0'' \<mapsto> ''n2''] ''a-storaged-1'' ''n1''"
  "followers ''a-storaged-0'' = [''a-storaged-1'', ''a-storaged-2'']"
  "followers ''a-storaged-1'' = []"
  by code_simp+

lemma two_placed: "rollout fresh_world [''a-storaged-0'' \<mapsto> ''n2'', ''a-storaged-1'' \<mapsto> ''n1'']"
  using bind [OF bind [OF start _ first_steps(1)] _ first_steps(2)] first_steps(3,4) by simp

theorem group_zones_witness:
  "spread fresh_world ''a-storaged'' 0 [''a-storaged-0'' \<mapsto> ''n2'', ''a-storaged-1'' \<mapsto> ''n1'']"
proof (rule group_zones_distinct [OF two_placed])
  fix k :: int
  assume "k \<in> {0, 1, 2}"
  moreover have "map_val (sw_map fresh_world) (member ''a-storaged'' 0 0) = ''''"
    "map_val (sw_map fresh_world) (member ''a-storaged'' 0 1) = ''''"
    "map_val (sw_map fresh_world) (member ''a-storaged'' 0 2) = ''''" by code_simp+
  ultimately show "map_val (sw_map fresh_world) (member ''a-storaged'' 0 k) = ''''" by blast
qed simp_all

abbreviation mapped_world :: sched_world where
  "mapped_world \<equiv> three_zones [(''a-storaged'', ''''), (''a-storaged-0'', ''z3'')]"


text \<open>An anchor is not compared with the rest of its group: placed again, it may share a zone.\<close>

lemma anchor_not_compared: "admits fresh_world [''a-storaged-1'' \<mapsto> ''n1''] ''a-storaged-0'' ''n1''"
  by code_simp

end
