(* ===== verification/ClusterState.thy ===== *)
theory ClusterState
  imports KubeClient
begin

text \<open>
  The component controllers work on one NebulaCluster object in memory: its status is mutated
  step by step, survives a failure and is written by the caller at the end. A step is the state
  monad over the call history and that object; \<open>world\<close> runs a client operation in it (beside any
  state) and \<open>with_defer\<close> is \<open>defer\<close>.
\<close>

type_synonym 'a op = "(call list \<times> nebula_cluster, 'a) go"

definition world :: "'a io \<Rightarrow> (call list \<times> 's, 'a) go" where
  "world m = State (\<lambda>(h, nc). case run_state m h of (r, h') \<Rightarrow> (r, (h', nc)))"

definition get_nc :: "nebula_cluster op" where
  "get_nc = gets snd"

definition set_nc :: "(nebula_cluster \<Rightarrow> nebula_cluster) \<Rightarrow> unit op" where
  "set_nc f = modify (\<lambda>(h, nc). (h, f nc))"

definition with_defer :: "(call list \<times> 's, 'a) go \<Rightarrow> unit io \<Rightarrow> (call list \<times> 's, 'a) go" where
  "with_defer m c = m \<bind> (\<lambda>r. world c \<bind> (\<lambda>_. State_Monad.return r))"

lemma wp_world [wp_simps]: "wp (world m) Q (h, nc) = wp m (\<lambda>r h'. Q r (h', nc)) h"
  by (simp add: wp_def world_def split: prod.splits)

lemma wp_get_nc [wp_simps]: "wp get_nc Q (h, nc) = Q (Ok nc) (h, nc)"
  by (simp add: get_nc_def wp_simps)

lemma wp_set_nc [wp_simps]: "wp (set_nc f) Q (h, nc) = Q (Ok ()) (h, f nc)"
  by (simp add: set_nc_def wp_simps)

lemma wp_with_defer [wp_simps]: "wp (with_defer m c) Q s = wp m (\<lambda>r s'. wp (world c) (\<lambda>_. Q r) s') s"
  by (simp add: with_defer_def wp_def split: prod.splits)

section \<open>Fields of the status\<close>

abbreviation sg_of :: "nebula_cluster \<Rightarrow> storaged_status" where "sg_of nc \<equiv> cl_storaged (nc_status nc)"

definition map_sg :: "(storaged_status \<Rightarrow> storaged_status) \<Rightarrow> nebula_cluster \<Rightarrow> nebula_cluster" where
  "map_sg f nc = nc\<lparr>nc_status := (nc_status nc)\<lparr>cl_storaged := f (cl_storaged (nc_status nc))\<rparr>\<rparr>"

lemma map_sg_simps [simp]:
  "sg_of (map_sg f nc) = f (sg_of nc)" "nc_spec (map_sg f nc) = nc_spec nc" "nc_meta (map_sg f nc) = nc_meta nc"
  "map_sg f (map_sg g nc) = map_sg (\<lambda>s. f (g s)) nc"
  by (simp_all add: map_sg_def)

text \<open>Writing the status of the object in memory to the API server.\<close>

definition write_status :: "env \<Rightarrow> unit op" where
  "write_status e = get_nc \<bind> ok (\<lambda>nc. world (UpdateNebulaClusterStatus e nc))"

section \<open>Which calls a step makes\<close>

named_theorems does

definition does :: "(call \<Rightarrow> bool) \<Rightarrow> 'a op \<Rightarrow> bool" where
  "does P m \<longleftrightarrow> (\<forall>s. wp m (\<lambda>_ s'. \<exists>new. fst s' = new @ fst s \<and> (\<forall>c\<in>set new. P c)) s)"

lemma doesD: "does P m \<Longrightarrow> wp m (\<lambda>_ s'. \<exists>new. fst s' = new @ fst s \<and> (\<forall>c\<in>set new. P c)) s"
  unfolding does_def by (erule spec)

lemma does_world [does]: "emits P m \<Longrightarrow> does P (world m)"
  by (auto simp: does_def wp_simps emits_def)

lemma does_return [does]: "does P (State_Monad.return r)"
  by (auto simp: does_def wp_simps)

lemma does_lift [does]: "does P (lift r)"
  by (auto simp: does_def wp_simps)

lemma does_get [does]: "does P get_nc"
  by (auto simp: does_def wp_simps)

lemma does_set [does]: "does P (set_nc f)"
  by (auto simp: does_def wp_simps)

lemma does_bind [does]:
  assumes m: "does P m" and f: "\<And>r. does P (f r)"
  shows "does P (m \<bind> f)"
  unfolding does_def wp_bind
proof (intro allI, rule wp_mono [OF doesD [OF m]])
  fix s s' :: "call list \<times> nebula_cluster" and r
  assume "\<exists>new. fst s' = new @ fst s \<and> (\<forall>c\<in>set new. P c)"
  then obtain new where n: "fst s' = new @ fst s" "\<forall>c\<in>set new. P c" by blast
  show "wp (f r) (\<lambda>_ s''. \<exists>new. fst s'' = new @ fst s \<and> (\<forall>c\<in>set new. P c)) s'"
  proof (rule wp_mono [OF doesD [OF f]])
    fix a s''
    assume "\<exists>new. fst s'' = new @ fst s' \<and> (\<forall>c\<in>set new. P c)"
    then obtain more where "fst s'' = more @ fst s'" "\<forall>c\<in>set more. P c" by blast
    with n show "\<exists>new. fst s'' = new @ fst s \<and> (\<forall>c\<in>set new. P c)"
      by (intro exI [of _ "more @ new"]) auto
  qed
qed

lemma does_handle [does]:
  "(\<And>x. does P (f x)) \<Longrightarrow> (\<And>x. does P (k x)) \<Longrightarrow> does P (handle k f r)"
  by (simp add: handle_def does_return split: outcome.splits)

lemma does_ok [does]: "(\<And>x. does P (f x)) \<Longrightarrow> does P (ok f r)"
  by (simp add: ok_def does_handle does_return)

lemma does_if [does]: "(b \<Longrightarrow> does P m) \<Longrightarrow> (\<not> b \<Longrightarrow> does P n) \<Longrightarrow> does P (if b then m else n)"
  by simp

lemma does_for_each [does]: "(\<And>x. x \<in> set xs \<Longrightarrow> does P (f x)) \<Longrightarrow> does P (for_each f xs)"
  by (induction xs) (simp_all add: does_return does_bind does_ok)

lemma does_fold_go [does]: "(\<And>x a. x \<in> set xs \<Longrightarrow> does P (f x a)) \<Longrightarrow> does P (fold_go f xs a)"
  by (induction xs arbitrary: a) (simp_all add: does_return does_bind does_ok)

lemma does_prod [does]: "(\<And>a b. does P (f a b)) \<Longrightarrow> does P (case p of (a, b) \<Rightarrow> f a b)"
  by (cases p) simp

lemma does_option [does]:
  "does P n \<Longrightarrow> (\<And>x. v = Some x \<Longrightarrow> does P (f x)) \<Longrightarrow> does P (case v of None \<Rightarrow> n | Some x \<Rightarrow> f x)"
  by (cases v) simp_all

lemma does_with_defer [does]: "does P m \<Longrightarrow> emits P c \<Longrightarrow> does P (with_defer m c)"
  unfolding with_defer_def by (intro does)

lemma does_mono: "does P m \<Longrightarrow> (\<And>c. P c \<Longrightarrow> Q c) \<Longrightarrow> does Q m"
  unfolding does_def by (intro allI, erule allE, erule wp_mono) blast

lemma does_run: "does P m \<Longrightarrow> run_state m s = (r, s') \<Longrightarrow> \<exists>new. fst s' = new @ fst s \<and> (\<forall>c\<in>set new. P c)"
  using doesD [of P m s] by (simp add: wp_def)

lemma does_write_status [does]:
  "(\<And>a b. P (GetCluster a b)) \<Longrightarrow> (\<And>nc. P (UpdateClusterStatus nc)) \<Longrightarrow> does P (write_status e)"
  unfolding write_status_def by (intro does emits_mono [OF nc_status_update.calls]) auto

text \<open>\<open>fails m\<close>: whatever happens, \<open>m\<close> does not end with success.\<close>

definition fails :: "('s, 'a) go \<Rightarrow> bool" where
  "fails m \<longleftrightarrow> (\<forall>s. wp m (\<lambda>r _. \<forall>x. r \<noteq> Ok x) s)"

lemma failsD: "fails m \<Longrightarrow> wp m (\<lambda>r _. \<forall>x. r \<noteq> Ok x) s"
  unfolding fails_def by (erule spec)

lemma wp_true: "wp m (\<lambda>_ _. True) s"
  by (simp add: wp_def split: prod.splits)

lemma fails_throw: "fails (throw x)"
  by (simp add: fails_def wp_simps)

lemma fails_ok:
  assumes "\<And>x. fails (f x)"
  shows "fails (m \<bind> ok f)"
  unfolding fails_def wp_bind
proof (rule allI, rule wp_mono [OF wp_true])
  show "wp (ok f r) (\<lambda>r _. \<forall>x. r \<noteq> Ok x) s'" for r s'
    using failsD [OF assms] by (cases r) (simp_all add: wp_ok)
qed

section \<open>Relations every step respects\<close>

text \<open>
  \<open>obeys R m\<close>: whatever happens, the state \<open>m\<close> ends in is related by \<open>R\<close> to the one it starts
  in. For a reflexive and transitive \<open>R\<close> the structure of the code carries it.
\<close>

type_synonym cluster_state = "call list \<times> nebula_cluster"

definition obeys :: "(cluster_state \<Rightarrow> cluster_state \<Rightarrow> bool) \<Rightarrow> 'a op \<Rightarrow> bool" where
  "obeys R m \<longleftrightarrow> (\<forall>s. wp m (\<lambda>_ s'. R s s') s)"

lemma obeysD: "obeys R m \<Longrightarrow> wp m (\<lambda>_ s'. R s s') s"
  unfolding obeys_def by (erule spec)

lemma obeys_run: "obeys R m \<Longrightarrow> run_state m s = (r, s') \<Longrightarrow> R s s'"
  using obeysD [of R m s] by (simp add: wp_def)

lemma obeys_set: "(\<And>h nc. R (h, nc) (h, f nc)) \<Longrightarrow> obeys R (set_nc f)"
  by (auto simp: obeys_def wp_simps)

lemma obeys_world: "(\<And>h nc. wp m (\<lambda>_ h'. R (h, nc) (h', nc)) h) \<Longrightarrow> obeys R (world m)"
  by (auto simp: obeys_def wp_simps)

lemma obeys_emits:
  "emits P m \<Longrightarrow> (\<And>h nc new. (\<forall>c\<in>set new. P c) \<Longrightarrow> R (h, nc) (new @ h, nc)) \<Longrightarrow> obeys R (world m)"
  by (intro obeys_world, drule emitsD, erule wp_mono) auto

locale step_relation =
  fixes R :: "cluster_state \<Rightarrow> cluster_state \<Rightarrow> bool"
  assumes refl: "R s s" and trans: "R s t \<Longrightarrow> R t u \<Longrightarrow> R s u"
begin

lemma r_return: "obeys R (State_Monad.return r)"
  by (simp add: obeys_def wp_simps refl)

lemma r_lift: "obeys R (lift r)"
  by (simp add: obeys_def wp_simps refl)

lemma r_get: "obeys R get_nc"
  by (auto simp: obeys_def wp_simps refl)

lemma r_bind: "obeys R m \<Longrightarrow> (\<And>r. obeys R (f r)) \<Longrightarrow> obeys R (m \<bind> f)"
  unfolding obeys_def wp_bind
  by (rule allI, rule wp_mono, erule spec) (auto elim!: allE intro: wp_mono trans)

lemma r_handle: "(\<And>x. obeys R (f x)) \<Longrightarrow> (\<And>x. obeys R (k x)) \<Longrightarrow> obeys R (handle k f r)"
  by (simp add: handle_def r_return split: outcome.splits)

lemma r_ok: "(\<And>x. obeys R (f x)) \<Longrightarrow> obeys R (ok f r)"
  by (simp add: ok_def r_handle r_return)

lemma r_cond: "(b \<Longrightarrow> obeys R m) \<Longrightarrow> (\<not> b \<Longrightarrow> obeys R n) \<Longrightarrow> obeys R (if b then m else n)"
  by simp

lemma r_each: "(\<And>x. x \<in> set xs \<Longrightarrow> obeys R (f x)) \<Longrightarrow> obeys R (for_each f xs)"
  by (induction xs) (simp_all add: r_return r_bind r_ok)

lemma r_fold: "(\<And>x a. x \<in> set xs \<Longrightarrow> obeys R (f x a)) \<Longrightarrow> obeys R (fold_go f xs a)"
  by (induction xs arbitrary: a) (simp_all add: r_return r_bind r_ok)

lemma r_opt: "obeys R n \<Longrightarrow> (\<And>x. v = Some x \<Longrightarrow> obeys R (f x)) \<Longrightarrow> obeys R (case v of None \<Rightarrow> n | Some x \<Rightarrow> f x)"
  by (cases v) simp_all

lemma r_pair: "(\<And>a b. obeys R (f a b)) \<Longrightarrow> obeys R (case p of (a, b) \<Rightarrow> f a b)"
  by (cases p) simp

lemma r_defer: "obeys R m \<Longrightarrow> obeys R (world c) \<Longrightarrow> obeys R (with_defer m c)"
  unfolding with_defer_def by (intro r_bind r_return)

lemmas rules = r_return r_lift r_get r_bind r_handle r_ok r_cond r_each r_fold r_opt r_pair r_defer

end

end
