(* ===== verification/MetaClient.thy ===== *)
theory MetaClient
  imports ClusterState
begin

text \<open>
  The clients of the meta service and of the storage service (\<open>pkg/nebula/meta_client.go\<close>,
  \<open>pkg/nebula/storage_client.go\<close>). A request is one call; reconnecting to a new leader is one
  call. The thrift transport and the TLS options are outside. Deferred disconnects are part of
  \<open>with_meta\<close>, which the controllers use.
\<close>

section \<open>Requests\<close>

text \<open>
  \<open>retryOnError\<close>: a changed leader is followed once; \<open>E_EXISTED\<close> and \<open>E_NO_HOSTS\<close> count as
  success.
\<close>

definition tolerated :: "error_code \<Rightarrow> bool" where
  "tolerated c \<longleftrightarrow> c = E_EXISTED \<or> c = E_NO_HOSTS"

definition retryOnError :: "env \<Rightarrow> meta_req \<Rightarrow> meta_resp io" where
  "retryOnError e req =
     send (e_meta e) (MetaRpc req) \<bind> ok (\<lambda>resp.
       if mr_code resp = SUCCEEDED then ret resp
       else if mr_code resp = E_LEADER_CHANGED then
         (case mr_leader resp of
            None \<Rightarrow> throw (ErrPlain ''get changed leader failed'')
          | Some (host, port) \<Rightarrow>
              send (e_done e) (MetaReconnect (host @ '':'' @ show_int port)) \<bind> ok (\<lambda>_.
              send (e_meta e) (MetaRpc req) \<bind> ok (\<lambda>resp.
                if mr_code resp = SUCCEEDED \<or> tolerated (mr_code resp) then ret resp
                else throw (ErrPlain ''metad client retry response code''))))
       else if tolerated (mr_code resp) then ret resp
       else throw (ErrPlain ''metad client response code''))"

definition exec_req :: "env \<Rightarrow> meta_req \<Rightarrow> unit io" where
  "exec_req e req = retryOnError e req \<bind> ok (\<lambda>_. ret ())"

definition GetSpace :: "env \<Rightarrow> string \<Rightarrow> space_item io" where
  "GetSpace e name = retryOnError e (GetSpaceReq name) \<bind> ok (\<lambda>r. ret (mr_space r))"

definition DropSpace :: "env \<Rightarrow> string \<Rightarrow> unit io" where
  "DropSpace e name = exec_req e (DropSpaceReq name)"

definition ListSpaces :: "env \<Rightarrow> (int \<times> string) list io" where
  "ListSpaces e = retryOnError e ListSpacesReq \<bind> ok (\<lambda>r. ret (mr_spaces r))"

definition AddHosts :: "env \<Rightarrow> host_addr list \<Rightarrow> unit io" where
  "AddHosts e hosts = exec_req e (AddHostsReq hosts)"

definition AddHostsIntoZone :: "env \<Rightarrow> host_addr list \<Rightarrow> string \<Rightarrow> unit io" where
  "AddHostsIntoZone e hosts zone = exec_req e (AddHostsIntoZoneReq hosts zone)"

definition DropHosts :: "env \<Rightarrow> host_addr list \<Rightarrow> unit io" where
  "DropHosts e hosts = exec_req e (DropHostsReq hosts)"

definition ListHosts :: "env \<Rightarrow> host_list \<Rightarrow> host_item list io" where
  "ListHosts e t = retryOnError e (ListHostsReq t) \<bind> ok (\<lambda>r. ret (mr_hosts r))"

definition ListParts :: "env \<Rightarrow> int \<Rightarrow> int list \<Rightarrow> part_item list io" where
  "ListParts e space parts = retryOnError e (ListPartsReq space parts) \<bind> ok (\<lambda>r. ret (mr_parts r))"

definition partition_ids :: "int \<Rightarrow> int list" where
  "partition_ids n = map (\<lambda>i. int i + 1) [0..<nat n]"

text \<open>The parts of every space with more than one replica, by space.\<close>

definition GetSpaceParts :: "env \<Rightarrow> (int \<times> part_item list) list io" where
  "GetSpaceParts e =
     ListSpaces e \<bind> ok (\<lambda>spaces.
       fold_go (\<lambda>(spaceID, name) m.
           GetSpace e name \<bind> ok (\<lambda>d.
             if sp_replica_factor d = 1 then ret m
             else ListParts e spaceID (partition_ids (sp_partition_num d)) \<bind> ok (\<lambda>parts.
                    ret (AList.update spaceID parts m))))
         spaces [])"

definition leader_hosts :: "part_item list \<Rightarrow> string list" where
  "leader_hosts parts = concat (map (\<lambda>p. case pa_leader p of None \<Rightarrow> [] | Some (host, port) \<Rightarrow> [host]) parts)"

definition GetSpaceLeaderHosts :: "env \<Rightarrow> string \<Rightarrow> string list io" where
  "GetSpaceLeaderHosts e space =
     GetSpace e space \<bind> ok (\<lambda>d.
     ListParts e (sp_id d) (partition_ids (sp_partition_num d)) \<bind> ok (\<lambda>parts.
     ret (sort_key (map (of_char :: char \<Rightarrow> nat)) (remdups (leader_hosts parts)))))"

definition GetLeaderCount :: "env \<Rightarrow> string \<Rightarrow> nat io" where
  "GetLeaderCount e leaderHost =
     GetSpaceParts e \<bind> ok (\<lambda>m.
       ret (sum_list (map (\<lambda>(space, parts). length (filter (\<lambda>h. h = leaderHost) (leader_hosts parts))) m)))"

definition BalanceLeader :: "env \<Rightarrow> int \<Rightarrow> unit io" where
  "BalanceLeader e space = exec_req e (AdminJobReq space JobAdd LeaderBalance [])"

definition IsLeaderBalanced :: "env \<Rightarrow> string \<Rightarrow> bool io" where
  "IsLeaderBalanced e spaceName =
     ListHosts e AllocHosts \<bind> ok (\<lambda>hosts.
       ret (list_all (\<lambda>h. hi_status h = Online \<longrightarrow> has_key (hi_leader_parts h) spaceName) hosts))"

section \<open>Admin jobs\<close>

text \<open>
  The result of a job request: the job id and the error. \<open>req.Paras[0]\<close> panics on a request
  without parameters whose response carries no job id.
\<close>

definition admin_paras :: "meta_req \<Rightarrow> string list" where
  "admin_paras req = (case req of AdminJobReq _ _ _ paras \<Rightarrow> paras | _ \<Rightarrow> [])"

definition runAdminJob :: "env \<Rightarrow> meta_req \<Rightarrow> (int \<times> go_err option) io" where
  "runAdminJob e req =
     retryOnError e req \<bind> handle (\<lambda>x. ret (0, Some x)) (\<lambda>resp.
       let waiting = Some (ErrReconcile ''waiting for balance job finished'')
       in if mr_job_id resp = 0 then
            (case admin_paras req of
               [] \<Rightarrow> panic
             | p # _ \<Rightarrow> (case parse_int 64 p of
                   None \<Rightarrow> ret (0, Some (ErrPlain ''strconv.Atoi''))
                 | Some r \<Rightarrow> ret (i32 r, waiting)))
          else ret (mr_job_id resp, waiting))"

definition BalanceData :: "env \<Rightarrow> int \<Rightarrow> (int \<times> go_err option) io" where
  "BalanceData e space = runAdminJob e (AdminJobReq space JobAdd ZoneBalance [])"

definition BalanceDataInZone :: "env \<Rightarrow> int \<Rightarrow> (int \<times> go_err option) io" where
  "BalanceDataInZone e space = runAdminJob e (AdminJobReq space JobAdd DataBalance [])"

definition host_para :: "host_addr \<Rightarrow> string" where
  "host_para h = ''\"'' @ fst h @ ''\":'' @ show_int (snd h)"

definition RemoveHost :: "env \<Rightarrow> int \<Rightarrow> host_addr list \<Rightarrow> (int \<times> go_err option) io" where
  "RemoveHost e space hosts = runAdminJob e (AdminJobReq space JobAdd ZoneBalance (map host_para hosts))"

definition RemoveHostInZone :: "env \<Rightarrow> int \<Rightarrow> host_addr list \<Rightarrow> (int \<times> go_err option) io" where
  "RemoveHostInZone e space hosts = runAdminJob e (AdminJobReq space JobAdd DataBalance (map host_para hosts))"

definition BalanceStatus :: "env \<Rightarrow> int \<Rightarrow> int \<Rightarrow> unit io" where
  "BalanceStatus e jobID space =
     retryOnError e (AdminJobReq space JobShow Stats [show_int jobID]) \<bind> ok (\<lambda>r.
       case mr_job_desc r of
         JobFinished # _ \<Rightarrow> ret ()
       | JobFailed # _ \<Rightarrow> throw ErrJobFailed
       | _ \<Rightarrow> throw (ErrReconcile ''balance job still in progress''))"

definition recover_job :: "env \<Rightarrow> job_type \<Rightarrow> int \<Rightarrow> int \<Rightarrow> unit io" where
  "recover_job e t jobID space =
     runAdminJob e (AdminJobReq space JobRecover t [show_int jobID]) \<bind> ok (\<lambda>(_, err).
       case err of None \<Rightarrow> ret () | Some x \<Rightarrow> throw x)"

definition RecoverDataBalanceJob :: "env \<Rightarrow> int \<Rightarrow> int \<Rightarrow> unit io" where
  "RecoverDataBalanceJob e jobID space = recover_job e ZoneBalance jobID space"

definition RecoverInZoneBalanceJob :: "env \<Rightarrow> int \<Rightarrow> int \<Rightarrow> unit io" where
  "RecoverInZoneBalanceJob e jobID space = recover_job e DataBalance jobID space"

section \<open>Connections\<close>

text \<open>Every host is connected to in turn; what counts is how the last attempt ended.\<close>

fun connect_each :: "env \<Rightarrow> string list \<Rightarrow> go_err option \<Rightarrow> go_err option io" where
  "connect_each e [] prev = ret prev"
| "connect_each e (h # hs) prev =
     send (e_done e) (MetaConnect h) \<bind>
       handle (\<lambda>x. connect_each e hs (Some x)) (\<lambda>_. connect_each e hs None)"

definition NewMetaClient :: "env \<Rightarrow> string list \<Rightarrow> unit io" where
  "NewMetaClient e hosts =
     (if hosts = [] then throw (ErrPlain ''metad endpoints is empty'')
      else connect_each e hosts None \<bind> ok (\<lambda>r. case r of None \<Rightarrow> ret () | Some x \<Rightarrow> throw x))"

definition with_meta :: "env \<Rightarrow> string list \<Rightarrow> (call list \<times> 's, 'a) go \<Rightarrow> (call list \<times> 's, 'a) go" where
  "with_meta e hosts m =
     world (NewMetaClient e hosts) \<bind> ok (\<lambda>_. with_defer m (send (e_done e) MetaClose))"

section \<open>The storage service\<close>

text \<open>The second result is the host of the leader, when the part was led by another host.\<close>

definition NewStorageClient :: "env \<Rightarrow> string list \<Rightarrow> unit io" where
  "NewStorageClient e hosts =
     (case hosts of [] \<Rightarrow> throw (ErrPlain ''storaged endpoints is empty'')
      | h # _ \<Rightarrow> send (e_done e) (StorageConnect h))"

definition TransLeader :: "env \<Rightarrow> int \<Rightarrow> int \<Rightarrow> host_addr \<Rightarrow> string io" where
  "TransLeader e space part newLeader =
     send (e_trans e) (TransLeaderRpc space part newLeader) \<bind> ok (\<lambda>failed.
       case failed of
         [] \<Rightarrow> ret ''''
       | (code, leader) # _ \<Rightarrow>
           if code = E_PART_NOT_FOUND then throw (ErrPlain ''partition not found'')
           else if code = E_SPACE_NOT_FOUND then throw (ErrPlain ''space not found'')
           else if code = E_LEADER_CHANGED then ret (case leader of None \<Rightarrow> '''' | Some l \<Rightarrow> fst l)
           else throw (ErrPlain ''TransLeader''))"

section \<open>What the clients ask and answer\<close>

text \<open>\<open>is_meta req c\<close>: the call is the request, or a reconnection to the leader on its way.\<close>

definition is_meta :: "meta_req \<Rightarrow> call \<Rightarrow> bool" where
  "is_meta req c \<longleftrightarrow> c = MetaRpc req \<or> (\<exists>a. c = MetaReconnect a)"

lemma retryOnError_emits [emits]: "(\<And>c. is_meta req c \<Longrightarrow> P c) \<Longrightarrow> emits P (retryOnError e req)"
  unfolding retryOnError_def
  by (intro emits) (auto simp: is_meta_def split: option.splits intro!: emits)

lemma runAdminJob_emits [emits]: "(\<And>c. is_meta req c \<Longrightarrow> P c) \<Longrightarrow> emits P (runAdminJob e req)"
  unfolding runAdminJob_def Let_def
  by (intro emits) (auto split: list.splits option.splits intro!: emits)

lemma exec_req_emits [emits]: "(\<And>c. is_meta req c \<Longrightarrow> P c) \<Longrightarrow> emits P (exec_req e req)"
  unfolding exec_req_def by (intro emits) auto

text \<open>
  A successful response: the last call is the request (perhaps after a reconnection), and it was
  answered with an accepted code.
\<close>

definition accepted :: "env \<Rightarrow> meta_req \<Rightarrow> call list \<Rightarrow> meta_resp \<Rightarrow> bool" where
  "accepted e req h r \<longleftrightarrow>
     (\<exists>t. h = MetaRpc req # t) \<and> e_meta e h = Ok r \<and> (mr_code r = SUCCEEDED \<or> tolerated (mr_code r))"

lemma retryOnError_accepted:
  "wp (retryOnError e req) (\<lambda>r h'. \<forall>x. r = Ok x \<longrightarrow> accepted e req h' x) h"
  unfolding retryOnError_def accepted_def
  by (auto simp: wp_simps split: outcome.splits option.splits)

text \<open>A balance job is reported finished only on the word of the meta service.\<close>

definition job_finished :: "env \<Rightarrow> int \<Rightarrow> int \<Rightarrow> call list \<Rightarrow> bool" where
  "job_finished e job space h \<longleftrightarrow>
     (\<exists>t r d. h = MetaRpc (AdminJobReq space JobShow Stats [show_int job]) # t
        \<and> e_meta e h = Ok r \<and> mr_job_desc r = JobFinished # d)"

lemma BalanceStatus_finished:
  "wp (BalanceStatus e job space) (\<lambda>r h'. r = Ok () \<longrightarrow> job_finished e job space h') h"
  unfolding BalanceStatus_def wp_bind
  by (rule wp_mono [OF retryOnError_accepted])
     (auto simp: wp_simps accepted_def job_finished_def
       split: outcome.splits list.splits job_status.splits)

lemma BalanceStatus_emits [emits]:
  "(\<And>c. is_meta (AdminJobReq space JobShow Stats [show_int job]) c \<Longrightarrow> P c) \<Longrightarrow> emits P (BalanceStatus e job space)"
  unfolding BalanceStatus_def by (intro emits) (auto split: list.splits job_status.splits intro!: emits)

lemma recover_job_emits [emits]:
  "(\<And>c. is_meta (AdminJobReq space JobRecover t [show_int job]) c \<Longrightarrow> P c) \<Longrightarrow> emits P (recover_job e t job space)"
  unfolding recover_job_def by (intro emits) auto

text \<open>A job request never reports success: it starts the job, and the caller has to come back.\<close>

lemma runAdminJob_waits: "yields (\<lambda>(job, err). err \<noteq> None) (runAdminJob e req)"
  unfolding runAdminJob_def Let_def
  by (rule yields_handle [OF yields_any])
     (auto intro!: yields_ret yields_return split: list.splits option.splits)

lemma recover_job_fails: "wp (recover_job e t job space) (\<lambda>r _. \<forall>x. r \<noteq> Ok x) h"
  unfolding recover_job_def wp_bind
  by (rule wp_mono [OF yieldsD [OF runAdminJob_waits]])
     (auto simp: wp_simps split: outcome.splits option.splits)

end
