(* ===== verification/Extender.thy ===== *)
theory Extender
  imports KubeClient
begin

text \<open>
  Working on the unstructured workload (\<open>pkg/util/extender/unstructured.go\<close>): what counts as a
  change, and how the generated workload is merged into the live one; and the string maps of
  \<open>pkg/util/maputil/map.go\<close>. The unstructured object is the typed record \<open>workload\<close>; setting its
  template to the JSON \<open>null\<close> is setting it to the zero template, which is what the server
  decodes.
\<close>

section \<open>String maps\<close>

text \<open>The other map is \<open>nil\<close> or empty alike: an absent key reads as the empty string.\<close>

definition IsSubMap :: "strmap \<Rightarrow> strmap option \<Rightarrow> bool" where
  "IsSubMap first other \<longleftrightarrow>
     list_all (\<lambda>(k, v). case other of None \<Rightarrow> False | Some m \<Rightarrow> map_val m k = v) first"

definition AllKeysExist :: "strmap \<Rightarrow> strmap \<Rightarrow> bool" where
  "AllKeysExist first other \<longleftrightarrow> list_all (\<lambda>(k, v). has_key other k) first"

definition SymmetricDifference :: "strmap \<Rightarrow> strmap \<Rightarrow> strmap" where
  "SymmetricDifference first other =
     filter (\<lambda>(k, v). \<not> has_key other k) first @ filter (\<lambda>(k, v). \<not> has_key first k) other"

definition IntersectionDifference :: "strmap \<Rightarrow> strmap \<Rightarrow> strmap \<times> strmap" where
  "IntersectionDifference first other =
     (map (\<lambda>(k, v). (k, map_val other k))
        (filter (\<lambda>(k, v). has_key other k \<and> v \<noteq> map_val other k) first),
      filter (\<lambda>(k, v). \<not> has_key other k) first)"

definition ResetMap :: "strmap \<Rightarrow> strmap \<Rightarrow> strmap" where
  "ResetMap first other = map (\<lambda>(k, v). (k, case map_of other k of None \<Rightarrow> v | Some d \<Rightarrow> d)) first"

definition MergeStringMaps :: "bool \<Rightarrow> strmap list \<Rightarrow> strmap" where
  "MergeStringMaps overwrite ms =
     fold (\<lambda>m mp. fold (\<lambda>(k, v) mp. if overwrite \<or> \<not> has_key mp k then AList.update k v mp else mp) m mp) ms []"

section \<open>Fields of a workload\<close>

abbreviation AnnLastSyncTimestampKey :: string where "AnnLastSyncTimestampKey \<equiv> ''nebula-graph.io/sync-timestamp''"
abbreviation AnnLastReplicas :: string where "AnnLastReplicas \<equiv> ''nebula-graph.io/last-replicas''"
abbreviation AnnLastAppliedConfigKey :: string where
  "AnnLastAppliedConfigKey \<equiv> ''nebula-graph.io/last-applied-configuration''"
abbreviation AnnPodConfigMapHash :: string where "AnnPodConfigMapHash \<equiv> ''nebula-graph.io/cm-hash''"
abbreviation AnnRestartTimestamp :: string where "AnnRestartTimestamp \<equiv> ''nebula-graph.io/restart-timestamp''"
abbreviation AnnRestartPodOrdinal :: string where "AnnRestartPodOrdinal \<equiv> ''nebula-graph.io/restart-ordinal''"

abbreviation wl_annotations :: "workload \<Rightarrow> strmap" where "wl_annotations w \<equiv> om_annotations (wl_meta w)"

definition wl_set_annotations :: "strmap \<Rightarrow> workload \<Rightarrow> workload" where
  "wl_set_annotations a w = w\<lparr>wl_meta := (wl_meta w)\<lparr>om_annotations := a\<rparr>\<rparr>"

definition wl_template :: "workload \<Rightarrow> pod_template" where
  "wl_template w = \<lparr>tp_labels = wl_pod_labels w, tp_annotations = wl_pod_annotations w, tp_pod = wl_pod w\<rparr>"

definition wl_update_strategy :: "workload \<Rightarrow> update_strategy" where
  "wl_update_strategy w =
     \<lparr>us_type = wl_strategy w, us_partition = wl_partition w, us_recreate = wl_recreate_policy w\<rparr>"

definition wl_set_template :: "pod_template \<Rightarrow> workload \<Rightarrow> workload" where
  "wl_set_template t w =
     w\<lparr>wl_pod_labels := tp_labels t, wl_pod_annotations := tp_annotations t, wl_pod := tp_pod t\<rparr>"

definition wl_set_strategy :: "update_strategy \<Rightarrow> workload \<Rightarrow> workload" where
  "wl_set_strategy u w =
     w\<lparr>wl_strategy := us_type u, wl_partition := us_partition u, wl_recreate_policy := us_recreate u\<rparr>"

definition spec_of_workload :: "workload \<Rightarrow> applied_spec" where
  "spec_of_workload w =
     \<lparr>ap_replicas = wl_replicas w, ap_template = Some (wl_template w), ap_strategy = Some (wl_update_strategy w),
      ap_selector = wl_selector w, ap_service = wl_service w, ap_management = wl_management w,
      ap_claims = wl_claims w\<rparr>"

definition GetReplicas :: "workload \<Rightarrow> int option" where
  "GetReplicas w = map_option i32 (wl_replicas w)"

definition GetContainers :: "workload \<Rightarrow> container list" where
  "GetContainers w = po_containers (wl_pod w)"

definition GetDataVolumeClaims :: "workload \<Rightarrow> pvc_template list" where
  "GetDataVolumeClaims w = filter (\<lambda>c. \<not> str_contains (pt_name c) ''log'') (wl_claims w)"

definition SetTemplateAnnotations :: "workload \<Rightarrow> strmap \<Rightarrow> workload" where
  "SetTemplateAnnotations w ann =
     w\<lparr>wl_pod_annotations := fold (\<lambda>(k, v). AList.update k v) ann (wl_pod_annotations w)\<rparr>"

text \<open>A revision or generation of the status the server has not set is empty or zero here.\<close>

definition ext_IsUpdating :: "workload \<Rightarrow> bool outcome" where
  "ext_IsUpdating w =
     (case wl_status w of
        None \<Rightarrow> Ok False
      | Some st \<Rightarrow>
          if ws_current_rev st = '''' \<or> ws_update_rev st = '''' \<or> ws_generation st = 0 then Ok False
          else if ws_current_rev st \<noteq> ws_update_rev st then Ok True
          else if om_generation (wl_meta w) > ws_generation st
               then (case GetReplicas w of None \<Rightarrow> Panic | Some r \<Rightarrow> Ok (r = ws_replicas st))
               else Ok False)"

section \<open>What counts as a change\<close>

definition PodTemplateEqual :: "env \<Rightarrow> workload \<Rightarrow> workload \<Rightarrow> bool" where
  "PodTemplateEqual e new old =
     (case map_of (wl_annotations old) AnnLastAppliedConfigKey of
        None \<Rightarrow> False
      | Some s \<Rightarrow>
          (case e_decode e s of
             None \<Rightarrow> False
           | Some a \<Rightarrow> (case ap_template a of None \<Rightarrow> False | Some t \<Rightarrow> tp_pod t = wl_pod new)))"

definition own_annotations :: "strmap \<Rightarrow> strmap" where
  "own_annotations a =
     filter (\<lambda>(k, v). \<not> (k = AnnLastAppliedConfigKey \<or> k = AnnRestartTimestamp \<or> k = AnnLastReplicas)) a"

definition ObjectEqual :: "env \<Rightarrow> workload \<Rightarrow> workload \<Rightarrow> bool outcome" where
  "ObjectEqual e new old =
     (if \<not> same_map (wl_annotations new) (own_annotations (wl_annotations old)) then Ok False
      else (case map_of (wl_annotations old) AnnLastAppliedConfigKey of
              None \<Rightarrow> Ok False
            | Some s \<Rightarrow>
                (case e_decode e s of
                   None \<Rightarrow> Ok False
                 | Some a \<Rightarrow>
                     (case (ap_replicas a, wl_replicas new) of
                        (Some ro, Some rn) \<Rightarrow>
                          if ro \<noteq> rn then Ok False
                          else (case ap_template a of
                                  None \<Rightarrow> Panic
                                | Some t \<Rightarrow>
                                    if t \<noteq> wl_template new then Ok False
                                    else (case ap_strategy a of
                                            None \<Rightarrow> Panic
                                          | Some u \<Rightarrow> Ok (u = wl_update_strategy new)))
                      | _ \<Rightarrow> Panic))))"

section \<open>Annotations and partition\<close>

definition SetLastReplicasAnnotation :: "workload \<Rightarrow> workload outcome" where
  "SetLastReplicasAnnotation w =
     (case (case map_of (wl_annotations w) AnnLastReplicas of
              None \<Rightarrow> Ok 0
            | Some v \<Rightarrow> (case parse_int 64 v of None \<Rightarrow> Err (ErrPlain ''strconv.Atoi'') | Some r \<Rightarrow> Ok (i32 r))) of
        Ok lastReplicas \<Rightarrow>
          (let replicas = deref_or 0 (GetReplicas w)
           in Ok (if replicas = lastReplicas then w
                  else wl_set_annotations (AList.update AnnLastReplicas (show_int replicas) (wl_annotations w)) w))
      | Err x \<Rightarrow> Err x | Panic \<Rightarrow> Panic)"

definition SetLastAppliedConfigAnnotation :: "env \<Rightarrow> workload \<Rightarrow> workload" where
  "SetLastAppliedConfigAnnotation e w =
     wl_set_annotations (AList.update AnnLastAppliedConfigKey (e_encode e (spec_of_workload w)) (wl_annotations w)) w"

definition SetRestartTimestamp :: "workload \<Rightarrow> workload" where
  "SetRestartTimestamp w = wl_set_annotations (AList.update AnnRestartTimestamp '''' (wl_annotations w)) w"

definition SetUpdatePartition :: "workload \<Rightarrow> int \<Rightarrow> workload" where
  "SetUpdatePartition w upgradeOrdinal = w\<lparr>wl_strategy := ''RollingUpdate'', wl_partition := Some upgradeOrdinal\<rparr>"

definition SetContainerImage :: "workload \<Rightarrow> string \<Rightarrow> string \<Rightarrow> workload" where
  "SetContainerImage w containerName img =
     w\<lparr>wl_pod := (wl_pod w)\<lparr>po_containers :=
         map (\<lambda>c. if ct_name c = containerName then c\<lparr>ct_image := img\<rparr> else c) (po_containers (wl_pod w))\<rparr>\<rparr>"

section \<open>Updating the live workload\<close>

definition GetControllerOf :: "object_meta \<Rightarrow> owner_reference option" where
  "GetControllerOf m = List.find or_controller (om_owners m)"

definition keep_annotation :: "string \<Rightarrow> strmap \<Rightarrow> strmap \<Rightarrow> strmap" where
  "keep_annotation k old a = (case map_of old k of None \<Rightarrow> a | Some v \<Rightarrow> AList.update k v a)"

text \<open>The object \<open>UpdateWorkload\<close> builds in the place of the old one.\<close>

definition merge_workload :: "env \<Rightarrow> workload \<Rightarrow> workload \<Rightarrow> workload" where
  "merge_workload e new old =
     (let isOrphan = GetControllerOf (wl_meta old) = None;
          a = wl_annotations old;
          w = wl_set_template (wl_template new) old;
          w = wl_set_annotations
                (keep_annotation AnnRestartTimestamp a (keep_annotation AnnLastReplicas a
                  (keep_annotation AnnLastSyncTimestampKey a (wl_annotations new)))) w;
          w = wl_set_strategy (wl_update_strategy new) w;
          w = (case GetReplicas new of None \<Rightarrow> w | Some r \<Rightarrow> w\<lparr>wl_replicas := Some r\<rparr>);
          w = (if isOrphan
               then w\<lparr>wl_meta := (wl_meta w)\<lparr>om_owners := om_owners (wl_meta new), om_labels := om_labels (wl_meta new)\<rparr>\<rparr>
               else w)
      in SetLastAppliedConfigAnnotation e w)"

definition ext_UpdateWorkload :: "env \<Rightarrow> workload \<Rightarrow> workload \<Rightarrow> unit io" where
  "ext_UpdateWorkload e new old =
     lift (ObjectEqual e new old) \<bind> ok (\<lambda>equal.
       if \<not> equal \<or> GetControllerOf (wl_meta old) = None then UpdateWorkload e (merge_workload e new old)
       else ret ())"

section \<open>One update is enough\<close>

lemma map_of_own_annotations:
  "map_of (own_annotations a) k =
     (if k = AnnLastAppliedConfigKey \<or> k = AnnRestartTimestamp \<or> k = AnnLastReplicas then None else map_of a k)"
  by (induction a) (auto simp: own_annotations_def)

lemma map_of_keep_annotation:
  "map_of (keep_annotation k old a) l = (if l = k \<and> map_of old k \<noteq> None then map_of old k else map_of a l)"
  by (auto simp: keep_annotation_def update_conv split: option.splits)

lemma spec_of_workload_meta [simp]:
  "spec_of_workload (w\<lparr>wl_meta := m\<rparr>) = spec_of_workload w"
  "spec_of_workload (wl_set_annotations a w) = spec_of_workload w"
  "spec_of_workload (SetLastAppliedConfigAnnotation e w) = spec_of_workload w"
  "spec_of_workload (set_wl_spec w live) = spec_of_workload w"
  by (simp_all add: spec_of_workload_def wl_template_def wl_update_strategy_def wl_set_annotations_def
      SetLastAppliedConfigAnnotation_def set_wl_spec_def)

lemma merge_workload_annotations:
  "map_of (wl_annotations (merge_workload e new old)) =
     map_of (AList.update AnnLastAppliedConfigKey (e_encode e (spec_of_workload (merge_workload e new old)))
       (keep_annotation AnnRestartTimestamp (wl_annotations old) (keep_annotation AnnLastReplicas (wl_annotations old)
         (keep_annotation AnnLastSyncTimestampKey (wl_annotations old) (wl_annotations new)))))"
  by (simp add: merge_workload_def Let_def SetLastAppliedConfigAnnotation_def wl_set_annotations_def
      wl_set_strategy_def wl_set_template_def spec_of_workload_def wl_template_def wl_update_strategy_def update_conv
      split: option.splits)

lemma merge_workload_spec:
  assumes "wl_replicas new = Some r" "in_i32 r"
  shows "ap_replicas (spec_of_workload (merge_workload e new old)) = Some r"
    "ap_template (spec_of_workload (merge_workload e new old)) = Some (wl_template new)"
    "ap_strategy (spec_of_workload (merge_workload e new old)) = Some (wl_update_strategy new)"
  using assms
  by (simp_all add: merge_workload_def Let_def SetLastAppliedConfigAnnotation_def wl_set_annotations_def
      wl_set_strategy_def wl_set_template_def spec_of_workload_def wl_template_def wl_update_strategy_def GetReplicas_def)

interpretation wl_update: optimistic_update e "e_workload e"
    "GetWorkloadC (om_namespace (wl_meta w)) (om_name (wl_meta w))
       (if wl_kind w = ''StatefulSet'' \<and> take 15 (wl_api_version w) = ''apps.kruise.io/'' then advanced_gvk else native_gvk)"
    "\<lambda>_. False" "\<lambda>live. UpdateWorkloadC (set_wl_spec w live)" "UpdateWorkload e w" for e w
  by unfold_locales (simp_all add: UpdateWorkload_def GetWorkloadObj_def Let_def)


definition sample_sts :: "string \<Rightarrow> workload" where
  "sample_sts img =
     \<lparr>wl_api_version = ''apps/v1'', wl_kind = ''StatefulSet'',
      wl_meta = (plain_meta ''ns'' ''nebula-graphd'')
        \<lparr>om_annotations := [(AnnLastAppliedDynamicFlagsKey, ''{}'')], om_owners := GenerateOwnerReferences (sample_cluster 3 3)\<rparr>,
      wl_replicas = Some 3, wl_selector = [], wl_pod_labels = [], wl_pod_annotations = [],
      wl_pod = \<lparr>po_scheduler = '''', po_node_selector = [], po_init = [], po_containers = [], po_volumes = [],
                po_pull_secrets = [img], po_affinity = None, po_tolerations = [], po_account = '''', po_dns_config = None,
                po_dns_policy = '''', po_spread = []\<rparr>,
      wl_service = '''', wl_management = ''Parallel'', wl_strategy = ''RollingUpdate'', wl_partition = Some 3,
      wl_recreate_policy = '''', wl_claims = [], wl_status = None\<rparr>"


text \<open>
  Claim C23. The owner of a workload is never changed: every object the update writes has the owner
  references of the live object read right before, whatever the generated workload says. A workload
  that has lost its controller is written on every reconciliation and still never adopted.
\<close>

theorem update_workload_keeps_owners:
  assumes "run_state (ext_UpdateWorkload e new old) h = (r, h')"
    and "h' = a @ UpdateWorkloadC w # b" "b = p @ h"
  shows "\<exists>live. e_workload e b = Ok live \<and> om_owners (wl_meta w) = om_owners (wl_meta live)"
proof -
  let ?m = "merge_workload e new old"
  have "wp (ext_UpdateWorkload e new old) (\<lambda>r h'. \<forall>a w b p. h' = a @ UpdateWorkloadC w # b \<longrightarrow> b = p @ h \<longrightarrow>
      (\<exists>live. e_workload e b = Ok live \<and> om_owners (wl_meta w) = om_owners (wl_meta live))) h"
    unfolding ext_UpdateWorkload_def
    by (auto simp: wp_simps split: outcome.splits intro!: wp_mono [OF wl_update.writes_fresh])
       (fastforce simp: set_wl_spec_def)+
  from wp_run [OF this assms(1)] assms(2,3) show ?thesis by blast
qed

theorem update_workload_keeps_owners_witness:
  "\<exists>a w b. snd (run_state (ext_UpdateWorkload
        (empty_world\<lparr>e_workload := \<lambda>_. Ok ((sample_sts ''a'')\<lparr>wl_meta := plain_meta ''ns'' ''nebula-graphd''\<rparr>)\<rparr>)
        (sample_sts ''b'') ((sample_sts ''a'')\<lparr>wl_meta := plain_meta ''ns'' ''nebula-graphd''\<rparr>)) []) = a @ UpdateWorkloadC w # b
     \<and> om_owners (wl_meta w) = []"
proof -
  let ?old = "(sample_sts ''a'')\<lparr>wl_meta := plain_meta ''ns'' ''nebula-graphd''\<rparr>"
  let ?e = "empty_world\<lparr>e_workload := \<lambda>_. Ok ?old\<rparr>"
  obtain w b where r: "run_state (ext_UpdateWorkload ?e (sample_sts ''b'') ?old) [] = (Ok (), [UpdateWorkloadC w] @ b)"
    by (simp add: ext_UpdateWorkload_def ObjectEqual_def sample_sts_def plain_meta_def same_map_def own_annotations_def lift_def
        ok_def handle_def UpdateWorkload_def GetWorkloadObj_def empty_world_def eval_nat_numeral send_def Let_def)
  have "snd (run_state (ext_UpdateWorkload ?e (sample_sts ''b'') ?old) []) = [] @ UpdateWorkloadC w # b"
    using r by simp
  moreover have "om_owners (wl_meta w) = []"
    using update_workload_keeps_owners [of ?e "sample_sts ''b''" ?old "[]" "Ok ()" "[UpdateWorkloadC w] @ b" "[]" w b b] r
    by (auto simp: plain_meta_def)
  ultimately show ?thesis by blast
qed

end
