(* ===== verification/ConfigFile.thy ===== *)
theory ConfigFile
  imports ClusterTypes "HOL-Library.List_Lexorder"
begin

text \<open>
  The configuration file of a component (\<open>pkg/util/config/config.go\<close>): the custom flags of the
  resource are written into the template line by line. The scanner's limit on the length of a
  line is left out, the templates are far below it.
\<close>

section \<open>Lines and flags\<close>

abbreviation newline :: char where "newline \<equiv> CHR 0x0A"
abbreviation carriage :: char where "carriage \<equiv> CHR 0x0D"

definition drop_cr :: "string \<Rightarrow> string" where
  "drop_cr l = (if l \<noteq> [] \<and> last l = carriage then butlast l else l)"

text \<open>\<open>bufio.ScanLines\<close>; the first argument is the current line, reversed.\<close>

fun scan :: "string \<Rightarrow> string \<Rightarrow> string list" where
  "scan acc [] = (if acc = [] then [] else [drop_cr (rev acc)])"
| "scan acc (c # cs) = (if c = newline then drop_cr (rev acc) # scan [] cs else scan (c # acc) cs)"

definition scan_lines :: "string \<Rightarrow> string list" where
  "scan_lines s = scan [] s"

definition is_word :: "char \<Rightarrow> bool" where
  "is_word c \<longleftrightarrow> (let n = (of_char c :: nat) in
     48 \<le> n \<and> n \<le> 57 \<or> 65 \<le> n \<and> n \<le> 90 \<or> 97 \<le> n \<and> n \<le> 122 \<or> n = 95)"

text \<open>\<open>FindStringSubmatch\<close> of \<open>--(\w+)=(.+)\<close>: the leftmost match, both parts greedy.\<close>

definition match_here :: "string \<Rightarrow> (string \<times> string) option" where
  "match_here s =
     (if take 2 s = ''--''
      then (let k = takeWhile is_word (drop 2 s)
            in case dropWhile is_word (drop 2 s) of
                 c # v \<Rightarrow> if k \<noteq> [] \<and> c = CHR ''='' \<and> v \<noteq> [] then Some (k, v) else None
               | [] \<Rightarrow> None)
      else None)"

fun find_param :: "string \<Rightarrow> (string \<times> string) option" where
  "find_param [] = None"
| "find_param (c # cs) = (case match_here (c # cs) of Some r \<Rightarrow> Some r | None \<Rightarrow> find_param cs)"

definition flag_line :: "string \<Rightarrow> string \<Rightarrow> string" where
  "flag_line k v = ''--'' @ k @ ''='' @ v"

text \<open>One line of the template: the lines written for it and the flags still to write.\<close>

definition config_line :: "strmap \<Rightarrow> string \<Rightarrow> string list \<times> strmap" where
  "config_line custom l =
     (if l = [] \<or> take 1 l = ''#'' then ([l], custom)
      else if take 2 l = ''--'' then
        (case find_param l of
           None \<Rightarrow> ([l], custom)
         | Some (param, val) \<Rightarrow>
             (case map_of custom param of
                None \<Rightarrow> ([flag_line param val], custom)
              | Some v \<Rightarrow> ([flag_line param v], AList.delete param custom)))
      else ([], custom))"

fun config_lines :: "strmap \<Rightarrow> string list \<Rightarrow> string list \<times> strmap" where
  "config_lines custom [] = ([], custom)"
| "config_lines custom (l # ls) =
     (case config_line custom l of (out, custom') \<Rightarrow>
       (case config_lines custom' ls of (outs, rest) \<Rightarrow> (out @ outs, rest)))"

definition write_lines :: "string list \<Rightarrow> string" where
  "write_lines ls = concat (map (\<lambda>l. l @ [newline]) ls)"

definition sorted_flags :: "strmap \<Rightarrow> strmap" where
  "sorted_flags custom = sort_key (\<lambda>(k, v). map (of_char :: char \<Rightarrow> nat) k) custom"

definition AppendCustomConfig :: "string \<Rightarrow> strmap \<Rightarrow> string" where
  "AppendCustomConfig data custom =
     (if custom = [] then data
      else (case config_lines custom (scan_lines data) of (out, rest) \<Rightarrow>
              write_lines (out @ (if rest = [] then [] else ['''', ''########## Custom ##########''])
                @ map (\<lambda>(k, v). flag_line k v) (sorted_flags rest))))"

section \<open>Reading a configuration\<close>

text \<open>The setting of every flag of a configuration text.\<close>

definition line_flag :: "string \<Rightarrow> (string \<times> string) option" where
  "line_flag l = (if take 2 l = ''--'' then find_param l else None)"

definition settings :: "string \<Rightarrow> string \<rightharpoonup> string" where
  "settings text = map_of (List.map_filter line_flag (scan_lines text))"

definition plain_flag :: "string \<times> string \<Rightarrow> bool" where
  "plain_flag p \<longleftrightarrow> fst p \<noteq> [] \<and> list_all is_word (fst p) \<and> snd p \<noteq> [] \<and> newline \<notin> set (snd p) \<and> carriage \<notin> set (snd p)"

lemma match_here_flag_line: "plain_flag (k, v) \<Longrightarrow> match_here (flag_line k v) = Some (k, v)"
proof -
  assume h: "plain_flag (k, v)"
  have w: "\<not> is_word CHR ''=''" by (simp add: is_word_def)
  with h have "takeWhile is_word (k @ CHR ''='' # v) = k" "dropWhile is_word (k @ CHR ''='' # v) = CHR ''='' # v"
    by (auto simp: plain_flag_def list_all_iff takeWhile_append dropWhile_append)
  with h show ?thesis by (simp add: match_here_def flag_line_def plain_flag_def)
qed

lemma line_flag_flag_line: "plain_flag (k, v) \<Longrightarrow> line_flag (flag_line k v) = Some (k, v)"
  using match_here_flag_line [of k v] by (simp add: line_flag_def flag_line_def)

lemma scan_append_newline: "newline \<notin> set l \<Longrightarrow> scan acc (l @ newline # s) = drop_cr (rev acc @ l) # scan [] s"
  by (induction l arbitrary: acc) auto

lemma scan_write_lines:
  "\<forall>l\<in>set ls. newline \<notin> set l \<and> carriage \<notin> set l \<Longrightarrow> scan_lines (write_lines ls) = ls"
proof (induction ls)
  case (Cons l ls)
  have "drop_cr l = l"
    using Cons.prems by (metis drop_cr_def last_in_set list.set_intros(1))
  with Cons show ?case
    by (simp add: scan_lines_def write_lines_def scan_append_newline)
qed (simp add: scan_lines_def write_lines_def)

lemma set_drop_cr: "set (drop_cr l) \<subseteq> set l"
  by (auto simp: drop_cr_def dest: in_set_butlastD)

lemma scan_no_newline:
  "newline \<notin> set acc \<Longrightarrow> l \<in> set (scan acc s) \<Longrightarrow> newline \<notin> set l \<and> set l \<subseteq> set acc \<union> set s"
proof (induction acc s rule: scan.induct)
  case (1 acc)
  then show ?case using set_drop_cr [of "rev acc"] by (auto split: if_splits)
next
  case (2 acc c cs)
  show ?case
  proof (cases "c = newline \<and> l = drop_cr (rev acc)")
    case True
    then show ?thesis using 2(3) set_drop_cr [of "rev acc"] by auto
  next
    case False
    then show ?thesis using 2 by (auto split: if_splits)
  qed
qed

lemma match_here_parts:
  "match_here s = Some (k, v) \<Longrightarrow> k \<noteq> [] \<and> list_all is_word k \<and> v \<noteq> [] \<and> set v \<subseteq> set s"
proof -
  assume h: "match_here s = Some (k, v)"
  then have k: "k = takeWhile is_word (drop 2 s)" and d: "dropWhile is_word (drop 2 s) = CHR ''='' # v"
    by (auto simp: match_here_def Let_def split: if_splits list.splits)
  have "set v \<subseteq> set (dropWhile is_word (drop 2 s))" using d by auto
  also have "\<dots> \<subseteq> set s" using set_dropWhileD in_set_dropD by fastforce
  finally show ?thesis
    using h k by (auto simp: match_here_def Let_def list_all_iff dest: set_takeWhileD split: if_splits list.splits)
qed

lemma find_param_parts:
  "find_param s = Some (k, v) \<Longrightarrow> k \<noteq> [] \<and> list_all is_word k \<and> v \<noteq> [] \<and> set v \<subseteq> set s"
proof (induction s)
  case (Cons c s)
  then show ?case using match_here_parts [of "c # s" k v] by (auto split: option.splits)
qed simp

section \<open>The custom flags take effect\<close>

definition clean_line :: "string \<Rightarrow> bool" where
  "clean_line l \<longleftrightarrow> newline \<notin> set l \<and> carriage \<notin> set l"

lemma find_param_plain: "clean_line l \<Longrightarrow> find_param l = Some (k, v) \<Longrightarrow> plain_flag (k, v)"
  using find_param_parts [of l k v] by (auto simp: plain_flag_def clean_line_def)

lemma flag_line_clean: "plain_flag (k, v) \<Longrightarrow> clean_line (flag_line k v)"
  by (auto simp: plain_flag_def clean_line_def flag_line_def list_all_iff is_word_def)

text \<open>What a line contributes: its flag, with the custom value when there still is one.\<close>

lemma config_line_cases:
  assumes "clean_line l" "list_all plain_flag custom" "config_line custom l = (out, custom')"
  shows "list_all clean_line out \<and>
    (case line_flag l of
       None \<Rightarrow> List.map_filter line_flag out = [] \<and> custom' = custom
     | Some (k, w) \<Rightarrow> List.map_filter line_flag out = [(k, deref_or w (map_of custom k))]
         \<and> custom' = (if map_of custom k = None then custom else AList.delete k custom))"
proof (cases "line_flag l")
  case None
  then show ?thesis
    using assms(1,3) by (auto simp: config_line_def line_flag_def List.map_filter_simps split: if_splits option.splits)
next
  case (Some p)
  then obtain k w where p: "line_flag l = Some (k, w)" by (cases p) auto
  then have l: "take 2 l = ''--''" "find_param l = Some (k, w)" by (auto simp: line_flag_def split: if_splits)
  then have n: "\<not> (l = [] \<or> take 1 l = ''#'')" by (cases l) auto
  have kw: "plain_flag (k, w)" using find_param_plain [OF assms(1) l(2)] .
  show ?thesis
  proof (cases "map_of custom k")
    case None
    with assms(3) l n kw p show ?thesis
      by (auto simp: config_line_def List.map_filter_simps line_flag_flag_line flag_line_clean)
  next
    case (Some v)
    then have "plain_flag (k, v)"
      using assms(2) by (auto simp: list_all_iff dest: map_of_SomeD)
    with Some assms(3) l n p show ?thesis
      by (auto simp: config_line_def List.map_filter_simps line_flag_flag_line flag_line_clean)
  qed
qed

lemma map_filter_append: "List.map_filter f (xs @ ys) = List.map_filter f xs @ List.map_filter f ys"
  by (simp add: List.map_filter_def)

lemma plain_delete: "list_all plain_flag m \<Longrightarrow> list_all plain_flag (AList.delete k m)"
  by (auto simp: list_all_iff AList.delete_eq)

lemma config_lines_settings:
  assumes "config_lines custom ls = (out, rest)" "list_all clean_line ls" "list_all plain_flag custom"
  shows "list_all clean_line out \<and> list_all plain_flag rest
    \<and> map_of (List.map_filter line_flag out) k
        = map_option (\<lambda>w. deref_or w (map_of custom k)) (map_of (List.map_filter line_flag ls) k)
    \<and> map_of rest k = (if map_of (List.map_filter line_flag ls) k = None then map_of custom k else None)"
  using assms
proof (induction ls arbitrary: custom out rest)
  case Nil
  then show ?case by (simp add: List.map_filter_simps)
next
  case (Cons l ls)
  obtain o1 c1 where l: "config_line custom l = (o1, c1)" by force
  obtain o2 where ls: "config_lines c1 ls = (o2, rest)" and out: "out = o1 @ o2"
    using Cons.prems(1) l by (auto split: prod.splits)
  note one = config_line_cases [OF _ Cons.prems(3) l]
  have c1: "list_all plain_flag c1"
    using one Cons.prems(2,3) by (auto simp: plain_delete split: option.splits if_splits)
  note IH = Cons.IH [OF ls _ c1]
  show ?case
  proof (cases "line_flag l")
    case None
    with one IH out Cons.prems(2) show ?thesis by (simp add: map_filter_append List.map_filter_simps)
  next
    case (Some p)
    with one IH out Cons.prems(2) show ?thesis
      by (cases p) (auto simp: map_filter_append List.map_filter_simps delete_conv split: if_splits)
  qed
qed

lemma config_lines_distinct:
  "config_lines custom ls = (out, rest) \<Longrightarrow> distinct (map fst custom) \<Longrightarrow> distinct (map fst rest)"
proof (induction ls arbitrary: custom out rest)
  case (Cons l ls)
  obtain o1 c1 where l: "config_line custom l = (o1, c1)" by force
  then have "distinct (map fst c1)"
    using Cons.prems(2) by (auto simp: config_line_def distinct_delete split: if_splits option.splits)
  with Cons l show ?case by (auto split: prod.splits)
qed simp

lemma sorted_flags_map_of: "distinct (map fst m) \<Longrightarrow> map_of (sorted_flags m) = map_of m"
  by (subst map_of_inject_set) (auto simp: sorted_flags_def distinct_map)

lemma flag_lines_settings:
  "list_all plain_flag m \<Longrightarrow> List.map_filter line_flag (map (\<lambda>(k, v). flag_line k v) m) = m"
  by (induction m) (auto simp: List.map_filter_simps line_flag_flag_line)

lemma scan_lines_clean: "carriage \<notin> set data \<Longrightarrow> list_all clean_line (scan_lines data)"
  using scan_no_newline [of "[]" _ data] by (auto simp: scan_lines_def list_all_iff clean_line_def)

text \<open>
  Claim C21. Writing custom flags into a configuration template sets exactly these flags: read
  back, the file gives every custom flag its custom value, whether the template mentions it or
  not, and every other flag the value of the template.
\<close>

theorem custom_flags_take_effect:
  assumes "distinct (map fst custom)" "list_all plain_flag custom" "carriage \<notin> set data"
  shows "settings (AppendCustomConfig data custom) = settings data ++ map_of custom"
proof (cases "custom = []")
  case True
  then show ?thesis by (simp add: AppendCustomConfig_def)
next
  case False
  obtain out rest where c: "config_lines custom (scan_lines data) = (out, rest)" by force
  define header where "header = (if rest = [] then [] else ['''', ''########## Custom ##########''])"
  define lines where "lines = out @ header @ map (\<lambda>(k, v). flag_line k v) (sorted_flags rest)"
  note main = config_lines_settings [OF c scan_lines_clean [OF assms(3)] assms(2)]
  have rest: "list_all plain_flag (sorted_flags rest)"
    using main by (auto simp: sorted_flags_def list_all_iff)
  have "list_all clean_line header" "List.map_filter line_flag header = []"
    by (auto simp: header_def clean_line_def List.map_filter_simps line_flag_def)
  moreover have "list_all clean_line (map (\<lambda>(k, v). flag_line k v) (sorted_flags rest))"
    using rest by (auto simp: list_all_iff flag_line_clean)
  ultimately have lines: "list_all clean_line lines"
    "map_of (List.map_filter line_flag lines) = map_of rest ++ map_of (List.map_filter line_flag out)"
    using main rest by (auto simp: lines_def map_filter_append flag_lines_settings
        sorted_flags_map_of [OF config_lines_distinct [OF c assms(1)]])
  have "AppendCustomConfig data custom = write_lines lines"
    using False c by (simp add: AppendCustomConfig_def lines_def header_def)
  then have "settings (AppendCustomConfig data custom) = map_of rest ++ map_of (List.map_filter line_flag out)"
    using scan_write_lines [of lines] lines by (auto simp: settings_def list_all_iff clean_line_def)
  also have "\<dots> = settings data ++ map_of custom"
    using main by (auto simp: fun_eq_iff map_add_def settings_def deref_or_def split: option.splits)
  finally show ?thesis .
qed

theorem custom_flags_take_effect_witness:
  "settings (AppendCustomConfig (''# graphd'' @ [newline] @ ''--port=9669'' @ [newline] @ ''--v=0'' @ [newline])
     [(''v'', ''3''), (''zone'', ''az1'')]) ''v'' = Some ''3''
   \<and> AppendCustomConfig (''# graphd'' @ [newline] @ ''--port=9669'' @ [newline] @ ''--v=0'' @ [newline]) [(''v'', ''3'')]
     = ''# graphd'' @ [newline] @ ''--port=9669'' @ [newline] @ ''--v=3'' @ [newline]"
proof -
  let ?d = "''# graphd'' @ [newline] @ ''--port=9669'' @ [newline] @ ''--v=0'' @ [newline]"
  have "settings (AppendCustomConfig ?d [(''v'', ''3''), (''zone'', ''az1'')])
      = settings ?d ++ map_of [(''v'', ''3''), (''zone'', ''az1'')]"
    by (rule custom_flags_take_effect) (simp_all add: plain_flag_def is_word_def)
  moreover have "AppendCustomConfig ?d [(''v'', ''3'')]
     = ''# graphd'' @ [newline] @ ''--port=9669'' @ [newline] @ ''--v=3'' @ [newline]"
    by code_simp
  ultimately show ?thesis by simp
qed

end
