(* ===== verification/ComponentHelper.thy ===== *)
theory ComponentHelper
  imports Extender ConfigFile MetaClient
begin

text \<open>
  What the component controllers share (\<open>pkg/controller/component/helper.go\<close>): the health of pods,
  services, config maps and volume claims of a component, dynamic flags, the choice of the next
  pod of a rolling update, and suspending. Log lines are left out; an error wrapped by
  \<open>fmt.Errorf("%v")\<close> becomes an \<open>ErrPlain\<close>.
\<close>

definition wrap :: "string \<Rightarrow> 'a outcome \<Rightarrow> ('s, 'a) go" where
  "wrap msg = handle (\<lambda>_. throw (ErrPlain msg)) ret"

section \<open>Pods\<close>

abbreviation pd_name :: "pod \<Rightarrow> string" where "pd_name p \<equiv> om_name (pd_meta p)"

definition isPodPending :: "pod \<Rightarrow> bool" where
  "isPodPending p \<longleftrightarrow> pd_phase p = ''Pending''"

definition isPodRunningAndReady :: "pod \<Rightarrow> bool" where
  "isPodRunningAndReady p \<longleftrightarrow> pd_phase p = ''Running'' \<and> pd_ready p"

definition isPodTerminating :: "pod \<Rightarrow> bool" where
  "isPodTerminating p \<longleftrightarrow> om_deletion (pd_meta p) \<noteq> None"

definition isPodHealthy :: "pod \<Rightarrow> bool" where
  "isPodHealthy p \<longleftrightarrow> isPodRunningAndReady p \<and> \<not> isPodTerminating p"

definition getPodConditionFromList :: "(string \<times> string) list \<Rightarrow> string \<Rightarrow> (string \<times> string) option" where
  "getPodConditionFromList conditions t = List.find (\<lambda>c. fst c = t) conditions"

definition isPodConditionScheduledTrue :: "(string \<times> string) list \<Rightarrow> bool" where
  "isPodConditionScheduledTrue conditions =
     (case getPodConditionFromList conditions ''PodScheduled'' of None \<Rightarrow> False | Some c \<Rightarrow> snd c = ''True'')"

definition contains :: "int list option \<Rightarrow> int \<Rightarrow> bool" where
  "contains ss lookingFor \<longleftrightarrow> (case ss of None \<Rightarrow> False | Some l \<Rightarrow> lookingFor \<in> set l)"

abbreviation ControllerRevisionHashLabelKey :: string where
  "ControllerRevisionHashLabelKey \<equiv> ''controller-revision-hash''"

section \<open>Status\<close>

definition getContainerImage :: "workload \<Rightarrow> string \<Rightarrow> string" where
  "getContainerImage w containerName =
     (case List.find (\<lambda>c. ct_name c = containerName) (GetContainers w) of None \<Rightarrow> '''' | Some c \<Rightarrow> ct_image c)"

text \<open>\<open>strings.Split(image, ":")[1]\<close>.\<close>

definition image_tag :: "string \<Rightarrow> string" where
  "image_tag i = takeWhile (\<lambda>c. c \<noteq> CHR '':'') (tl (dropWhile (\<lambda>c. c \<noteq> CHR '':'') i))"

definition syncComponentStatus :: "component_type \<Rightarrow> workload option \<Rightarrow> nebula_cluster \<Rightarrow> nebula_cluster" where
  "syncComponentStatus typ wl nc =
     (case wl of
        None \<Rightarrow> nc
      | Some w \<Rightarrow>
          (let status = (comp_status typ nc)\<lparr>st_workload := wl_status w\<rparr>;
               img = getContainerImage w (type_String typ)
           in UpdateComponentStatus typ
                (if CHR '':'' \<in> set img then status\<lparr>st_version := image_tag img\<rparr> else status) nc))"

section \<open>Services\<close>

abbreviation sv_annotations :: "service \<Rightarrow> strmap" where "sv_annotations s \<equiv> om_annotations (sv_meta s)"

definition svc_spec_of :: "service \<Rightarrow> svc_spec" where
  "svc_spec_of s =
     \<lparr>vs_selector = sv_selector s, vs_ports = sv_ports s, vs_cluster_ip = sv_cluster_ip s,
      vs_publish_not_ready = sv_publish_not_ready s, vs_type = sv_type s\<rparr>"

definition set_svc_spec :: "service \<Rightarrow> service \<Rightarrow> service" where
  "set_svc_spec new s =
     s\<lparr>sv_selector := sv_selector new, sv_ports := sv_ports new, sv_cluster_ip := sv_cluster_ip new,
       sv_publish_not_ready := sv_publish_not_ready new, sv_type := sv_type new\<rparr>"

definition set_svc_annotations :: "strmap \<Rightarrow> service \<Rightarrow> service" where
  "set_svc_annotations a s = s\<lparr>sv_meta := (sv_meta s)\<lparr>om_annotations := a\<rparr>\<rparr>"

definition setServiceLastAppliedConfigAnnotation :: "env \<Rightarrow> service \<Rightarrow> service" where
  "setServiceLastAppliedConfigAnnotation e s =
     set_svc_annotations (AList.update AnnLastAppliedConfigKey (e_encode_svc e (svc_spec_of s)) (sv_annotations s)) s"

definition serviceEqual :: "env \<Rightarrow> service \<Rightarrow> service \<Rightarrow> bool outcome" where
  "serviceEqual e newSvc oldSvc =
     (case map_of (sv_annotations oldSvc) AnnLastAppliedConfigKey of
        None \<Rightarrow> Ok False
      | Some s \<Rightarrow> (case e_decode_svc e s of
            None \<Rightarrow> Err (ErrPlain ''json.Unmarshal'')
          | Some oldSpec \<Rightarrow> Ok (oldSpec = svc_spec_of newSvc)))"

definition nil_if_empty :: "strmap \<Rightarrow> strmap option" where
  "nil_if_empty m = (if m = [] then None else Some m)"

definition merge_service :: "env \<Rightarrow> service \<Rightarrow> service \<Rightarrow> service" where
  "merge_service e newSvc oldSvc =
     (let svc = setServiceLastAppliedConfigAnnotation e (set_svc_spec newSvc oldSvc);
          svc = (if sv_cluster_ip oldSvc \<noteq> '''' then svc\<lparr>sv_cluster_ip := sv_cluster_ip oldSvc\<rparr> else svc);
          svc = set_svc_annotations (fold (\<lambda>(k, v). AList.update k v) (sv_annotations newSvc) (sv_annotations svc)) svc
      in if GetControllerOf (sv_meta oldSvc) = None
         then svc\<lparr>sv_meta := (sv_meta svc)\<lparr>om_owners := om_owners (sv_meta newSvc), om_labels := om_labels (sv_meta newSvc)\<rparr>\<rparr>
         else svc)"

definition syncService :: "env \<Rightarrow> service \<Rightarrow> unit io" where
  "syncService e newSvc =
     GetService e (om_namespace (sv_meta newSvc)) (om_name (sv_meta newSvc)) \<bind>
       handle (\<lambda>x. if x = ErrNotFound then CreateService e (setServiceLastAppliedConfigAnnotation e newSvc) else throw x)
         (\<lambda>oldSvc. lift (serviceEqual e newSvc oldSvc) \<bind> ok (\<lambda>equal.
            if \<not> equal \<or> \<not> IsSubMap (sv_annotations newSvc) (nil_if_empty (sv_annotations oldSvc))
               \<or> GetControllerOf (sv_meta oldSvc) = None
            then UpdateService e (merge_service e newSvc oldSvc) else ret ()))"

section \<open>Config maps\<close>

definition zone_cm_name :: "component_type \<Rightarrow> nebula_cluster \<Rightarrow> string" where
  "zone_cm_name typ nc = comp_GetName typ nc @ ''-zone''"

definition generateZoneConfigMap :: "component_type \<Rightarrow> nebula_cluster \<Rightarrow> config_map" where
  "generateZoneConfigMap typ nc =
     \<lparr>cm_meta = (plain_meta (nc_ns nc) (zone_cm_name typ nc))
        \<lparr>om_owners := GenerateOwnerReferences nc, om_labels := GenerateLabels typ nc\<rparr>,
      cm_data = [(comp_GetName typ nc, '''')]\<rparr>"

definition copyZoneData :: "component_type \<Rightarrow> nebula_cluster \<Rightarrow> config_map \<Rightarrow> config_map" where
  "copyZoneData typ nc cm = (generateZoneConfigMap typ nc)\<lparr>cm_data := cm_data cm\<rparr>"

definition syncZoneConfigMap :: "env \<Rightarrow> component_type \<Rightarrow> nebula_cluster \<Rightarrow> unit io" where
  "syncZoneConfigMap e typ nc = CreateOrUpdateConfigMap e (generateZoneConfigMap typ nc)"

definition staticOrStartupFlags :: "strmap \<Rightarrow> strmap" where
  "staticOrStartupFlags config = filter (\<lambda>(k, v). \<not> has_key DynamicFlags k) config"

definition hash_Hash :: "env \<Rightarrow> string \<Rightarrow> string" where
  "hash_Hash e text = take 16 (e_sha512_hex e text)"

text \<open>The config map of the component and the hash of its configuration file.\<close>

definition syncConfigMap :: "env \<Rightarrow> component_type \<Rightarrow> nebula_cluster \<Rightarrow> (config_map \<times> string) io" where
  "syncConfigMap e typ nc =
     (let cmKey = getCmKey (type_String typ);
          customConf = AppendCustomConfig (e_config e typ) (staticOrStartupFlags (comp_GetConfig typ nc));
          cm = GenerateConfigMap (e_config e) typ nc;
          cm = cm\<lparr>cm_data := AList.update cmKey customConf (cm_data cm)\<rparr>
      in CreateOrUpdateConfigMap e cm \<bind> ok (\<lambda>_. ret (cm, hash_Hash e customConf)))"

section \<open>Dynamic flags\<close>

definition applied_flags :: "env \<Rightarrow> strmap \<Rightarrow> strmap outcome" where
  "applied_flags e ann =
     (case map_of ann AnnLastAppliedDynamicFlagsKey of
        None \<Rightarrow> Ok []
      | Some s \<Rightarrow> (case e_unmarshal e s of None \<Rightarrow> Err (ErrPlain ''json.Unmarshal'') | Some m \<Rightarrow> Ok m))"

definition flags_body :: "strmap \<Rightarrow> strmap \<Rightarrow> strmap" where
  "flags_body oldFlags newFlags =
     (let removed = snd (IntersectionDifference oldFlags newFlags)
      in if removed \<noteq> [] then MergeStringMaps True [newFlags, ResetMap removed DynamicFlags] else newFlags)"

definition updateDynamicFlags :: "env \<Rightarrow> string list \<Rightarrow> strmap \<Rightarrow> strmap \<Rightarrow> unit io" where
  "updateDynamicFlags e endpoints oldAnnotations newAnnotations =
     lift (applied_flags e newAnnotations) \<bind> ok (\<lambda>newFlags.
     lift (applied_flags e oldAnnotations) \<bind> ok (\<lambda>oldFlags.
       if newFlags = [] \<and> oldFlags = [] then ret ()
       else for_each (\<lambda>endpoint. send (e_done e) (PutFlagsC (''http://'' @ endpoint @ ''/flags'')
                                     (e_marshal e (flags_body oldFlags newFlags)))) endpoints))"

section \<open>Rolling update\<close>

fun stale_pod :: "string \<Rightarrow> pod list \<Rightarrow> bool" where
  "stale_pod updateRevision [] = False"
| "stale_pod updateRevision (p # ps) =
     (case map_of (om_labels (pd_meta p)) ControllerRevisionHashLabelKey of
        None \<Rightarrow> False
      | Some revisionHash \<Rightarrow> if updateRevision \<noteq> '''' \<and> revisionHash \<noteq> updateRevision then True
                            else stale_pod updateRevision ps)"

definition isUpdating :: "env \<Rightarrow> component_type \<Rightarrow> nebula_cluster \<Rightarrow> workload \<Rightarrow> bool io" where
  "isUpdating e typ nc w =
     lift (ext_IsUpdating w) \<bind> ok (\<lambda>u.
       if u then ret True
       else (ListPods e (nc_ns nc) (GenerateLabels typ nc) \<bind> wrap ''failed to get pods for cluster'') \<bind> ok (\<lambda>pods.
              ret (stale_pod (GetUpdateRevision typ nc) pods)))"

abbreviation setPartition :: "workload \<Rightarrow> int \<Rightarrow> workload" where "setPartition \<equiv> SetUpdatePartition"

text \<open>The ordinals are visited downwards from the argument less one.\<close>

fun getNextUpdatePod :: "env \<Rightarrow> component_type \<Rightarrow> nebula_cluster \<Rightarrow> nat \<Rightarrow> int io" where
  "getNextUpdatePod e typ nc 0 = ret (- 1)"
| "getNextUpdatePod e typ nc (Suc index) =
     GetPod e (nc_ns nc) (comp_GetPodName typ nc (int index)) \<bind> ok (\<lambda>p.
       case map_of (om_labels (pd_meta p)) ControllerRevisionHashLabelKey of
         None \<Rightarrow> throw (ErrReconcile ''rolling updated pod has no label'')
       | Some revision \<Rightarrow>
           if revision = GetUpdateRevision typ nc then
             if pd_phase p \<noteq> ''Running'' then throw (ErrReconcile ''rolling updated pod is not running'')
             else getNextUpdatePod e typ nc index
           else ret (int index))"

definition empty_template :: pod_template where
  "empty_template = \<lparr>tp_labels = [], tp_annotations = [], tp_pod = empty_pod_spec\<rparr>"

text \<open>The desired workload with the template that was applied last.\<close>

definition setLastConfig :: "env \<Rightarrow> workload \<Rightarrow> workload \<Rightarrow> workload outcome" where
  "setLastConfig e actual desired =
     (case map_of (wl_annotations actual) AnnLastAppliedConfigKey of
        None \<Rightarrow> Ok (wl_set_template empty_template desired)
      | Some s \<Rightarrow>
          (case e_decode e s of
             None \<Rightarrow> Err (ErrPlain ''json.Unmarshal'')
           | Some a \<Rightarrow> Ok (wl_set_template (deref_or empty_template (ap_template a)) desired)))"

section \<open>Storage classes (pkg/kube/storageclass.go) and volume claims\<close>

definition GetStorageClass :: "env \<Rightarrow> string \<Rightarrow> storage_class_obj io" where
  "GetStorageClass e scName = send (e_storage_class e) (GetStorageClassC scName)"

definition GetDefaultStorageClass :: "env \<Rightarrow> storage_class_obj io" where
  "GetDefaultStorageClass e =
     send (e_storage_classes e) ListStorageClassesC \<bind> ok (\<lambda>items.
       case List.find (\<lambda>sc. map_of (so_annotations sc) ''storageclass.kubernetes.io/is-default-class'' = Some ''true'') items of
         None \<Rightarrow> throw (ErrPlain ''default storageclass not found'')
       | Some sc \<Rightarrow> ret sc)"

definition isVolumeExpansionSupported :: "storage_class_obj \<Rightarrow> bool" where
  "isVolumeExpansionSupported sc = deref_or False (so_expand sc)"

text \<open>\<open>ResourceList.Storage()\<close>: the zero quantity when it is not set.\<close>

definition storage_of :: "resource_list option \<Rightarrow> int" where
  "storage_of r = (case r of None \<Rightarrow> 0 | Some m \<Rightarrow> deref_or 0 (map_of m ''storage''))"

definition claim_pvc_name :: "component_type \<Rightarrow> nebula_cluster \<Rightarrow> pvc_template \<Rightarrow> nat \<Rightarrow> string" where
  "claim_pvc_name typ nc claim i = pt_name claim @ ''-'' @ comp_GetName typ nc @ ''-'' @ show_nat i"

text \<open>
  One worker: what it adds to the table of volumes and of the volumes provisioned, and how it
  ends.
\<close>

type_synonym volume_table = "(string \<times> provisioned_volume) list \<times> (string \<times> bool) list"

definition expand_pvc :: "env \<Rightarrow> pvc_template \<Rightarrow> pvc \<Rightarrow> unit io" where
  "expand_pvc e claim oldPVC =
     (let scName = deref_or '''' (pt_class claim)
      in (if scName \<noteq> '''' then GetStorageClass e scName else GetDefaultStorageClass e) \<bind> ok (\<lambda>sc.
           if \<not> isVolumeExpansionSupported sc then ret ()
           else UpdatePVC e (oldPVC\<lparr>pc_requests := rq_requests (pt_resources claim)\<rparr>)))"

definition volume_worker ::
    "env \<Rightarrow> component_type \<Rightarrow> nebula_cluster \<Rightarrow> pvc_template \<Rightarrow> nat \<Rightarrow> volume_table \<Rightarrow> (volume_table \<times> go_err option) io" where
  "volume_worker e typ nc claim i = (\<lambda>(volumes, provisioned).
     (let pvcName = claim_pvc_name typ nc claim i
      in GetPVC e (nc_ns nc) pvcName \<bind>
           handle (\<lambda>x. ret ((volumes, provisioned), if x = ErrNotFound then None else Some x))
             (\<lambda>oldPVC.
                let vol = \<lparr>pv_volume = pc_volume oldPVC, pv_class = deref_or ''default'' (pc_class oldPVC),
                           pv_capacity = pc_capacity oldPVC\<rparr>;
                    volumes = AList.update pvcName vol volumes;
                    wanted = storage_of (rq_requests (pt_resources claim));
                    actual = storage_of (pc_requests oldPVC)
                in if wanted = actual then ret ((volumes, AList.update pvcName True provisioned), None)
                   else if wanted < actual then ret ((volumes, AList.update pvcName False provisioned), None)
                   else expand_pvc e claim oldPVC \<bind>
                          handle (\<lambda>x. ret ((volumes, AList.update pvcName False provisioned), Some x))
                                 (\<lambda>_. ret ((volumes, AList.update pvcName False provisioned), None)))))"

text \<open>
  The workers of one claim (\<open>async.Group\<close>): all of them run, whatever the others do, and
  \<open>Wait\<close> reports the errors together. They are taken in the order of the ordinals here; the
  group runs up to five at a time.
\<close>

fun run_workers :: "('x \<Rightarrow> 'a \<Rightarrow> ('a \<times> go_err option) io) \<Rightarrow> 'x list \<Rightarrow> 'a \<Rightarrow> go_err list \<Rightarrow> ('a \<times> go_err list) io" where
  "run_workers f [] a errs = ret (a, errs)"
| "run_workers f (x # xs) a errs =
     f x a \<bind> ok (\<lambda>(a', r). run_workers f xs a' (case r of None \<Rightarrow> errs | Some y \<Rightarrow> errs @ [y]))"

definition group_wait :: "'a \<times> go_err list \<Rightarrow> 'a io" where
  "group_wait r = (if snd r = [] then ret (fst r) else throw (ErrAggregate (snd r)))"

definition sync_claim :: "env \<Rightarrow> component_type \<Rightarrow> nebula_cluster \<Rightarrow> pvc_template \<Rightarrow> volume_table \<Rightarrow> volume_table io" where
  "sync_claim e typ nc claim t =
     run_workers (volume_worker e typ nc claim) [0..<nat (ca_Replicas typ nc)] t [] \<bind> ok group_wait"

definition syncPVC :: "env \<Rightarrow> component_type \<Rightarrow> nebula_cluster \<Rightarrow> volume_status option io" where
  "syncPVC e typ nc =
     lift (GenerateVolumeClaim typ nc) \<bind> ok (\<lambda>volumeClaims.
       if volumeClaims = [] then ret None
       else fold_go (sync_claim e typ nc) volumeClaims ([], []) \<bind> ok (\<lambda>(volumes, provisioned).
              ret (Some \<lparr>vs_volumes = Some volumes, vs_done = list_all snd provisioned\<rparr>)))"

section \<open>Suspending\<close>

definition suspendOrder :: "component_type list" where
  "suspendOrder = [GraphdComponentType, StoragedComponentType, MetadComponentType]"

definition canSuspendComponent :: "component_type \<Rightarrow> nebula_cluster \<Rightarrow> bool" where
  "canSuspendComponent typ nc \<longleftrightarrow>
     (GetPhase typ nc = RunningPhase \<or> GetPhase typ nc = SuspendPhase)
     \<and> list_all (\<lambda>ct. comp_IsSuspended ct nc) (takeWhile (\<lambda>ct. ct \<noteq> typ) suspendOrder)"

text \<open>\<open>True\<close>: the component is suspended or just changed its phase, and is not reconciled further.\<close>

definition suspendComponent :: "env \<Rightarrow> component_type \<Rightarrow> workload option \<Rightarrow> bool op" where
  "suspendComponent e typ wl =
     get_nc \<bind> ok (\<lambda>nc.
       if \<not> IsSuspendEnabled nc then
         if comp_IsSuspending typ nc
         then set_nc (SetPhase typ RunningPhase) \<bind> ok (\<lambda>_. ret True)
         else ret False
       else if \<not> comp_IsSuspending typ nc then
         if \<not> canSuspendComponent typ nc then ret False
         else set_nc (SetPhase typ SuspendPhase) \<bind> ok (\<lambda>_. ret True)
       else (case wl of None \<Rightarrow> ret () | Some w \<Rightarrow> world (DeleteWorkload e w)) \<bind> ok (\<lambda>_.
              set_nc (SetWorkloadStatus typ None) \<bind> ok (\<lambda>_. ret True)))"

section \<open>What they ask for\<close>

lemma CreateOrUpdateConfigMap_emits [emits]:
  assumes "P (CreateConfigMapC cm)" "\<And>a b. P (GetConfigMapC a b)" "\<And>c. P (UpdateConfigMapC c)"
  shows "emits P (CreateOrUpdateConfigMap e cm)"
  unfolding CreateOrUpdateConfigMap_def updateConfigMap_def GetConfigMap_def
  by (intro emits assms) (auto split: go_err.splits intro!: emits assms)

lemma isUpdating_emits [emits]: "(\<And>a b. P (ListPodsC a b)) \<Longrightarrow> emits P (isUpdating e typ nc w)"
  unfolding isUpdating_def ListPods_def wrap_def by (intro emits)

lemma getNextUpdatePod_emits [emits]: "(\<And>a b. P (GetPodC a b)) \<Longrightarrow> emits P (getNextUpdatePod e typ nc n)"
  by (induction n) (auto simp: GetPod_def intro!: emits split: option.splits)

lemma run_workers_emits [emits]:
  "(\<And>x a. x \<in> set xs \<Longrightarrow> emits P (f x a)) \<Longrightarrow> emits P (run_workers f xs a errs)"
  by (induction xs arbitrary: a errs) (auto intro!: emits)

lemma updateDynamicFlags_emits [emits]:
  "(\<And>a b. P (PutFlagsC a b)) \<Longrightarrow> emits P (updateDynamicFlags e eps o' n)"
  unfolding updateDynamicFlags_def by (intro emits)

lemma syncService_emits [emits]:
  assumes "\<And>a b. P (GetServiceC a b)" "\<And>s. P (CreateServiceC s)" "\<And>s. P (UpdateServiceC s)"
  shows "emits P (syncService e s)"
  unfolding syncService_def GetService_def CreateService_def UpdateService_def
  by (intro emits assms) (auto split: go_err.splits intro!: emits assms)

section \<open>Suspension goes in order\<close>

text \<open>
  While suspension is asked for, a component that is not in the phase \<open>Suspend\<close> may be
  reconciled further, which touches nothing but its own status and leaves that phase to
  \<open>suspendComponent\<close>.
\<close>

inductive suspension :: "env \<Rightarrow> nebula_cluster \<Rightarrow> nebula_cluster \<Rightarrow> bool" for e nc0 where
  start: "suspension e nc0 nc0"
| suspend: "suspension e nc0 nc \<Longrightarrow> run_state (suspendComponent e typ wl) (h, nc) = (r, (h', nc')) \<Longrightarrow> suspension e nc0 nc'"
| reconcile: "suspension e nc0 nc \<Longrightarrow> GetPhase typ nc \<noteq> SuspendPhase \<Longrightarrow> st_phase st \<noteq> SuspendPhase
    \<Longrightarrow> suspension e nc0 (UpdateComponentStatus typ st nc)"

definition before :: "component_type \<Rightarrow> component_type list" where
  "before typ = takeWhile (\<lambda>ct. ct \<noteq> typ) suspendOrder"

definition suspension_ordered :: "nebula_cluster \<Rightarrow> bool" where
  "suspension_ordered nc \<longleftrightarrow> IsSuspendEnabled nc
     \<and> (\<forall>typ. comp_IsSuspending typ nc \<longrightarrow> (\<forall>ct\<in>set (before typ). comp_IsSuspended ct nc))"

lemma before_simps [simp]:
  "before GraphdComponentType = []" "before StoragedComponentType = [GraphdComponentType]"
  "before MetadComponentType = [GraphdComponentType, StoragedComponentType]"
  by (simp_all add: before_def suspendOrder_def)

lemma all_components: "(\<forall>typ. P typ) \<longleftrightarrow> P GraphdComponentType \<and> P StoragedComponentType \<and> P MetadComponentType"
  by (metis component_type.exhaust)

lemma comp_status_update [simp]:
  "comp_status t (UpdateComponentStatus typ st nc) = (if t = typ then st else comp_status t nc)"
  by (cases "typ"; cases t) (simp_all add: comp_status_def UpdateComponentStatus_def graphd_UpdateComponentStatus_def
      metad_UpdateComponentStatus_def storaged_UpdateComponentStatus_def)

lemma spec_update [simp]: "nc_spec (UpdateComponentStatus typ st nc) = nc_spec nc"
  by (cases "typ") (simp_all add: UpdateComponentStatus_def graphd_UpdateComponentStatus_def
      metad_UpdateComponentStatus_def storaged_UpdateComponentStatus_def)

lemma comp_IsSuspended_iff:
  "comp_IsSuspended t nc \<longleftrightarrow> comp_IsSuspending t nc \<and> \<not> (IsSuspendEnabled nc \<and> GetWorkload t nc \<noteq> None)"
  by (auto simp: comp_IsSuspended_def)

lemmas suspend_defs = comp_IsSuspended_iff comp_IsSuspending_def GetPhase_def GetWorkload_def SetPhase_def
  SetWorkloadStatus_def IsSuspendEnabled_def

text \<open>What one call of \<open>suspendComponent\<close> does to the cluster when suspension is asked for.\<close>

lemma suspendComponent_effect:
  assumes "IsSuspendEnabled nc"
  shows "wp (suspendComponent e typ wl) (\<lambda>r (h', nc'). nc' = nc
      \<or> (\<not> comp_IsSuspending typ nc \<and> canSuspendComponent typ nc \<and> nc' = SetPhase typ SuspendPhase nc)
      \<or> (comp_IsSuspending typ nc \<and> nc' = SetWorkloadStatus typ None nc)) (h, nc)"
  using assms
  by (auto simp: suspendComponent_def DeleteWorkload_def wp_simps split: outcome.splits option.splits)


definition suspend_asked :: nebula_cluster where
  "suspend_asked = (let nc = sample_cluster 2 3 in nc\<lparr>nc_spec := (nc_spec nc)\<lparr>sp_suspend := Some True\<rparr>\<rparr>)"


section \<open>The next pod of a rolling update\<close>

text \<open>
  Claim C20. A rolling update goes from the highest ordinal down, one pod at a time: when
  \<open>getNextUpdatePod\<close> picks pod \<open>i\<close>, that pod has another revision, and every pod above it was
  seen with the new revision and running; the result -1 means that all were.
\<close>

theorem next_update_pod_is_highest:
  assumes "run_state (getNextUpdatePod e typ nc n) h = (Ok i, h')"
  shows "- 1 \<le> i \<and> i < int n
    \<and> (\<forall>j. i \<le> j \<and> 0 \<le> j \<and> j < int n \<longrightarrow> (\<exists>t p a. h' = a @ GetPodC (nc_ns nc) (comp_GetPodName typ nc j) # t
         \<and> e_pod e (GetPodC (nc_ns nc) (comp_GetPodName typ nc j) # t) = Ok p
         \<and> (map_of (om_labels (pd_meta p)) ControllerRevisionHashLabelKey = Some (GetUpdateRevision typ nc) \<longleftrightarrow> i < j)
         \<and> (i < j \<longrightarrow> pd_phase p = ''Running'')))"
  using assms
proof (induction n arbitrary: h)
  case 0
  then show ?case by auto
next
  case (Suc n)
  let ?c = "GetPodC (nc_ns nc) (comp_GetPodName typ nc (int n))"
  obtain p rev where p: "e_pod e (?c # h) = Ok p" "map_of (om_labels (pd_meta p)) ControllerRevisionHashLabelKey = Some rev"
    using Suc.prems by (auto simp: GetPod_def send_def ok_def handle_def split: outcome.splits option.splits)
  show ?case
  proof (cases "rev = GetUpdateRevision typ nc")
    case True
    with p Suc.prems have run: "pd_phase p = ''Running''" "run_state (getNextUpdatePod e typ nc n) (?c # h) = (Ok i, h')"
      by (auto simp: GetPod_def send_def ok_def handle_def split: if_splits)
    note IH = Suc.IH [OF run(2)]
    obtain a where a: "h' = a @ ?c # h"
      using emits_run [OF getNextUpdatePod_emits [of "\<lambda>_. True"] run(2)] by auto
    show ?thesis
    proof (intro conjI allI impI)
      fix j assume j: "i \<le> j \<and> 0 \<le> j \<and> j < int (Suc n)"
      let ?d = "GetPodC (nc_ns nc) (comp_GetPodName typ nc j)"
      show "\<exists>t p a. h' = a @ ?d # t \<and> e_pod e (?d # t) = Ok p
          \<and> (map_of (om_labels (pd_meta p)) ControllerRevisionHashLabelKey = Some (GetUpdateRevision typ nc) \<longleftrightarrow> i < j)
          \<and> (i < j \<longrightarrow> pd_phase p = ''Running'')"
      proof (cases "j < int n")
        case True
        with IH j show ?thesis by blast
      next
        case False
        with j have "j = int n" by linarith
        with IH a p run(1) True show ?thesis by auto
      qed
    qed (use IH in auto)
  next
    case False
    with p Suc.prems have i: "i = int n" "h' = ?c # h"
      by (auto simp: GetPod_def send_def ok_def handle_def split: if_splits)
    show ?thesis
    proof (intro conjI allI impI)
      fix j assume "i \<le> j \<and> 0 \<le> j \<and> j < int (Suc n)"
      then have "j = int n" using i by linarith
      show "\<exists>t p a. h' = a @ GetPodC (nc_ns nc) (comp_GetPodName typ nc j) # t
         \<and> e_pod e (GetPodC (nc_ns nc) (comp_GetPodName typ nc j) # t) = Ok p
         \<and> (map_of (om_labels (pd_meta p)) ControllerRevisionHashLabelKey = Some (GetUpdateRevision typ nc) \<longleftrightarrow> i < j)
         \<and> (i < j \<longrightarrow> pd_phase p = ''Running'')"
        using i p False \<open>j = int n\<close> by (intro exI [of _ h] exI [of _ p] exI [of _ "[]"]) auto
    qed (use i in auto)
  qed
qed

theorem next_update_pod_witness:
  "\<exists>i. fst (run_state (getNextUpdatePod
      (empty_world\<lparr>e_pod := \<lambda>h. Ok \<lparr>pd_meta = (plain_meta ''ns'' ''p'')\<lparr>om_labels :=
           [(ControllerRevisionHashLabelKey, if length h = 1 then ''r'' else ''old'')]\<rparr>,
         pd_node = '''', pd_phase = ''Running'', pd_ready = True, pd_conditions = [], pd_waiting = [], pd_terminated = [], pd_exits = [], pd_spec = empty_pod_spec\<rparr>\<rparr>)
      GraphdComponentType (sample_cluster 3 3) 3) []) = Ok i \<and> - 1 \<le> i \<and> i < 3 \<and> i = 1"
proof -
  let ?e = "empty_world\<lparr>e_pod := \<lambda>h. Ok \<lparr>pd_meta = (plain_meta ''ns'' ''p'')\<lparr>om_labels :=
           [(ControllerRevisionHashLabelKey, if length h = 1 then ''r'' else ''old'')]\<rparr>,
         pd_node = '''', pd_phase = ''Running'', pd_ready = True, pd_conditions = [], pd_waiting = [], pd_terminated = [], pd_exits = [], pd_spec = empty_pod_spec\<rparr>\<rparr>"
  obtain h' where r: "run_state (getNextUpdatePod ?e GraphdComponentType (sample_cluster 3 3) 3) [] = (Ok 1, h')"
    by (simp add: eval_nat_numeral GetPod_def send_def ok_def handle_def sample_defs GetUpdateRevision_def GetWorkload_def
        comp_status_def)
  from next_update_pod_is_highest [OF r] r show ?thesis by auto
qed

section \<open>Volumes are only expanded\<close>

text \<open>
  In a run, written latest first, \<open>p'\<close> is written after the calls \<open>b\<close>: \<open>grown\<close> says that the claim
  was read just before, under the name of a claim \<open>p\<close> that was read earlier in the run and asked
  for less storage. \<open>h\<close> is the history before the run.
\<close>

abbreviation reread :: "pvc \<Rightarrow> call" where
  "reread p \<equiv> GetPVCC (om_namespace (pc_meta p)) (om_name (pc_meta p))"

definition grown :: "env \<Rightarrow> call list \<Rightarrow> call list \<Rightarrow> pvc \<Rightarrow> bool" where
  "grown e h b p' \<longleftrightarrow> (\<exists>p c ns name t. b = reread p # c @ GetPVCC ns name # t
     \<and> e_pvc e (GetPVCC ns name # t @ h) = Ok p \<and> storage_of (pc_requests p) < storage_of (pc_requests p'))"

definition only_expands :: "env \<Rightarrow> 'a io \<Rightarrow> bool" where
  "only_expands e m \<longleftrightarrow> (\<forall>h. wp m (\<lambda>_ h'. \<exists>new. h' = new @ h
     \<and> (\<forall>a p' b. new = a @ UpdatePVCC p' # b \<longrightarrow> grown e h b p')) h)"

lemma only_expandsD:
  "only_expands e m \<Longrightarrow> wp m (\<lambda>_ h'. \<exists>new. h' = new @ h \<and> (\<forall>a p' b. new = a @ UpdatePVCC p' # b \<longrightarrow> grown e h b p')) h"
  by (simp add: only_expands_def)

lemma grown_later: "grown e (n @ h) b p' \<Longrightarrow> grown e h (b @ n) p'"
  unfolding grown_def by force

lemma only_expands_bind:
  assumes m: "only_expands e m" and f: "\<And>r. only_expands e (f r)"
  shows "only_expands e (m \<bind> f)"
  unfolding only_expands_def wp_bind
proof (intro allI, rule wp_mono [OF only_expandsD [OF m]])
  fix h r h'
  assume "\<exists>new. h' = new @ h \<and> (\<forall>a p' b. new = a @ UpdatePVCC p' # b \<longrightarrow> grown e h b p')"
  then obtain n where n: "h' = n @ h" "\<And>a p' b. n = a @ UpdatePVCC p' # b \<Longrightarrow> grown e h b p'" by blast
  show "wp (f r) (\<lambda>_ h''. \<exists>new. h'' = new @ h \<and> (\<forall>a p' b. new = a @ UpdatePVCC p' # b \<longrightarrow> grown e h b p')) h'"
  proof (rule wp_mono [OF only_expandsD [OF f]])
    fix x h''
    assume "\<exists>new. h'' = new @ h' \<and> (\<forall>a p' b. new = a @ UpdatePVCC p' # b \<longrightarrow> grown e h' b p')"
    then obtain k where k: "h'' = k @ h'" "\<And>a p' b. k = a @ UpdatePVCC p' # b \<Longrightarrow> grown e h' b p'" by blast
    show "\<exists>new. h'' = new @ h \<and> (\<forall>a p' b. new = a @ UpdatePVCC p' # b \<longrightarrow> grown e h b p')"
    proof (intro exI conjI allI impI)
      show "h'' = (k @ n) @ h" using k(1) n(1) by simp
      fix a p' b
      assume "k @ n = a @ UpdatePVCC p' # b"
      then consider c where "k = a @ UpdatePVCC p' # c" "b = c @ n" | c where "n = c @ UpdatePVCC p' # b"
        by (auto simp: append_eq_append_conv2 append_eq_Cons_conv Cons_eq_append_conv)
      then show "grown e h b p'"
        using k(2) n grown_later by cases auto
    qed
  qed
qed

text \<open>The write of an expansion: the request of the claim template, on the object just read.\<close>

lemma UpdatePVC_writes:
  assumes "x \<noteq> reread p"
  shows "wp (UpdatePVC e p) (\<lambda>_ h'. \<exists>new. h' = new @ x # h
    \<and> (\<forall>a q b. new = a @ UpdatePVCC q # b \<longrightarrow> (\<exists>c. b = reread p # c) \<and> pc_requests q = pc_requests p)) (x # h)"
proof (rule wp_mono [OF wp_conj [OF pvc_update.writes_fresh emitsD [OF pvc_update.calls]]])
  fix r h'
  assume A: "(\<forall>a c b pa. h' = a @ c # b \<longrightarrow> b = pa @ x # h \<longrightarrow> c \<noteq> reread p \<longrightarrow>
        (\<exists>live t. b = reread p # t \<and> e_pvc e b = Ok live \<and> c = UpdatePVCC (live\<lparr>pc_meta := (pc_meta live)
          \<lparr>om_labels := om_labels (pc_meta p), om_annotations := om_annotations (pc_meta p)\<rparr>, pc_requests := pc_requests p\<rparr>)))
      \<and> (\<exists>new. h' = new @ x # h \<and> (\<forall>c\<in>set new. c = reread p \<or> (\<exists>live. c = UpdatePVCC (live\<lparr>pc_meta := (pc_meta live)
          \<lparr>om_labels := om_labels (pc_meta p), om_annotations := om_annotations (pc_meta p)\<rparr>, pc_requests := pc_requests p\<rparr>)
          \<and> \<not> (same_map (om_labels (pc_meta p)) (om_labels (pc_meta live)) \<and>
             same_map (om_annotations (pc_meta p)) (om_annotations (pc_meta live)) \<and>
             same_requests (pc_requests p) (pc_requests live)))))"
  then obtain new where new: "h' = new @ x # h" by blast
  show "\<exists>new. h' = new @ x # h
    \<and> (\<forall>a q b. new = a @ UpdatePVCC q # b \<longrightarrow> (\<exists>c. b = reread p # c) \<and> pc_requests q = pc_requests p)"
  proof (rule exI [of _ new], intro conjI allI impI)
    show "h' = new @ x # h" by (rule new)
    fix a q b
    assume "new = a @ UpdatePVCC q # b"
    with new have "h' = a @ UpdatePVCC q # (b @ x # h)" by simp
    with A obtain live t where "b @ x # h = reread p # t" "UpdatePVCC q = UpdatePVCC (live\<lparr>pc_meta := (pc_meta live)
          \<lparr>om_labels := om_labels (pc_meta p), om_annotations := om_annotations (pc_meta p)\<rparr>, pc_requests := pc_requests p\<rparr>)"
      by blast
    with assms show "\<exists>c. b = reread p # c" "pc_requests q = pc_requests p"
      by (auto simp: append_eq_Cons_conv)
  qed
qed

lemma expand_pvc_writes:
  "wp (expand_pvc e claim p) (\<lambda>_ h'. \<exists>new. h' = new @ h \<and> (\<forall>a q b. new = a @ UpdatePVCC q # b \<longrightarrow>
     (\<exists>c. b = reread p # c) \<and> pc_requests q = rq_requests (pt_resources claim))) h"
proof -
  define Q where "Q h' \<longleftrightarrow> (\<exists>new. h' = new @ h \<and> (\<forall>a q b. new = a @ UpdatePVCC q # b \<longrightarrow>
     (\<exists>c. b = reread p # c) \<and> pc_requests q = rq_requests (pt_resources claim)))" for h'
  have upd: "wp (UpdatePVC e (p\<lparr>pc_requests := rq_requests (pt_resources claim)\<rparr>)) (\<lambda>_. Q) (x # h)"
    if x: "\<forall>a b. x \<noteq> GetPVCC a b" "\<forall>q. x \<noteq> UpdatePVCC q" for x
  proof (rule wp_mono [OF UpdatePVC_writes])
    show "x \<noteq> reread (p\<lparr>pc_requests := rq_requests (pt_resources claim)\<rparr>)" using x by simp
    fix r h'
    assume "\<exists>new. h' = new @ x # h \<and> (\<forall>a q b. new = a @ UpdatePVCC q # b \<longrightarrow>
        (\<exists>c. b = reread (p\<lparr>pc_requests := rq_requests (pt_resources claim)\<rparr>) # c)
        \<and> pc_requests q = pc_requests (p\<lparr>pc_requests := rq_requests (pt_resources claim)\<rparr>))"
    then obtain new where new: "h' = new @ x # h" "\<And>a q b. new = a @ UpdatePVCC q # b \<Longrightarrow>
        (\<exists>c. b = reread p # c) \<and> pc_requests q = rq_requests (pt_resources claim)" by auto
    show "Q h'"
      unfolding Q_def
    proof (rule exI [of _ "new @ [x]"], intro conjI allI impI)
      show "h' = (new @ [x]) @ h" using new(1) by simp
      fix a q b
      assume "new @ [x] = a @ UpdatePVCC q # b"
      then obtain c where "new = a @ UpdatePVCC q # c" "b = c @ [x]"
        using x by (cases b rule: rev_cases) auto
      with new(2) show "\<exists>c. b = reread p # c" "pc_requests q = rq_requests (pt_resources claim)" by fastforce+
    qed
  qed
  have none: "Q (x # h)" if "\<forall>q. x \<noteq> UpdatePVCC q" for x
    using that by (auto simp: Q_def Cons_eq_append_conv intro!: exI [of _ "[x]"])
  have "wp (expand_pvc e claim p) (\<lambda>_. Q) h"
    unfolding expand_pvc_def GetStorageClass_def GetDefaultStorageClass_def Let_def
    by (auto simp: wp_simps split: outcome.split option.split intro!: upd none)
  then show ?thesis by (rule wp_mono) (simp add: Q_def)
qed

lemma volume_worker_expands: "only_expands e (volume_worker e typ nc claim i t)"
  unfolding only_expands_def
proof (intro allI)
  fix h
  let ?r = "GetPVCC (nc_ns nc) (claim_pvc_name typ nc claim i)"
  have expand: "wp (expand_pvc e claim p) (\<lambda>_ h'. \<exists>new. h' = new @ h
      \<and> (\<forall>a p' b. new = a @ UpdatePVCC p' # b \<longrightarrow> grown e h b p')) (?r # h)"
    if p: "e_pvc e (?r # h) = Ok p" "storage_of (pc_requests p) < storage_of (rq_requests (pt_resources claim))" for p
  proof (rule wp_mono [OF expand_pvc_writes])
    fix x h'
    assume "\<exists>new. h' = new @ ?r # h \<and> (\<forall>a q b. new = a @ UpdatePVCC q # b \<longrightarrow>
       (\<exists>c. b = reread p # c) \<and> pc_requests q = rq_requests (pt_resources claim))"
    then obtain k where k: "h' = k @ ?r # h" "\<And>a q b. k = a @ UpdatePVCC q # b \<Longrightarrow>
       (\<exists>c. b = reread p # c) \<and> pc_requests q = rq_requests (pt_resources claim)" by blast
    show "\<exists>new. h' = new @ h \<and> (\<forall>a p' b. new = a @ UpdatePVCC p' # b \<longrightarrow> grown e h b p')"
    proof (rule exI [of _ "k @ [?r]"], intro conjI allI impI)
      show "h' = (k @ [?r]) @ h" using k(1) by simp
      fix a p' b
      assume "k @ [?r] = a @ UpdatePVCC p' # b"
      then obtain c where c: "k = a @ UpdatePVCC p' # c" "b = c @ [?r]"
        by (cases b rule: rev_cases) auto
      with k(2) obtain d where "c = reread p # d" "pc_requests p' = rq_requests (pt_resources claim)" by blast
      with c p show "grown e h b p'" unfolding grown_def by fastforce
    qed
  qed
  show "wp (volume_worker e typ nc claim i t) (\<lambda>_ h'. \<exists>new. h' = new @ h
      \<and> (\<forall>a p' b. new = a @ UpdatePVCC p' # b \<longrightarrow> grown e h b p')) h"
  proof (cases "e_pvc e (?r # h)")
    case (Ok p)
    show ?thesis
    proof (cases "storage_of (pc_requests p) < storage_of (rq_requests (pt_resources claim))")
      case True
      then have n: "storage_of (rq_requests (pt_resources claim)) \<noteq> storage_of (pc_requests p)"
        "\<not> storage_of (rq_requests (pt_resources claim)) < storage_of (pc_requests p)" by auto
      show ?thesis
        unfolding volume_worker_def split_beta GetPVC_def Let_def wp_bind wp_send wp_handle Ok
        by (simp add: n wp_bind wp_handle wp_return, rule wp_mono [OF expand [OF Ok True]])
           (auto simp: wp_handle wp_return split: outcome.split)
    next
      case False
      then show ?thesis
        by (auto simp: volume_worker_def GetPVC_def wp_simps Let_def Ok Cons_eq_append_conv split_beta)
    qed
  qed (simp_all add: volume_worker_def GetPVC_def wp_simps Cons_eq_append_conv split_beta Let_def)
qed

lemma only_expands_return: "only_expands e (State_Monad.return r)"
  by (simp add: only_expands_def wp_return)

lemma only_expands_ok: "(\<And>x. only_expands e (f x)) \<Longrightarrow> only_expands e (ok f r)"
  by (simp add: ok_def handle_def only_expands_return split: outcome.splits)

lemma only_expands_workers:
  "(\<And>x a. only_expands e (f x a)) \<Longrightarrow> only_expands e (run_workers f xs a errs)"
  by (induction xs arbitrary: a errs)
     (auto intro!: only_expands_return only_expands_bind only_expands_ok split: prod.splits)

lemma only_expands_fold: "(\<And>x a. only_expands e (f x a)) \<Longrightarrow> only_expands e (fold_go f xs a)"
  by (induction xs arbitrary: a) (auto intro!: only_expands_return only_expands_bind only_expands_ok)

lemma sync_claim_expands: "only_expands e (sync_claim e typ nc claim t)"
  unfolding sync_claim_def group_wait_def
  by (intro only_expands_bind only_expands_workers only_expands_ok volume_worker_expands)
     (auto intro: only_expands_return)

lemma syncPVC_expands: "only_expands e (syncPVC e typ nc)"
  unfolding syncPVC_def lift_def
  by (intro only_expands_bind only_expands_ok only_expands_return)
     (auto intro!: only_expands_return only_expands_bind only_expands_ok only_expands_fold sync_claim_expands
       split: prod.splits)


definition small_pvc :: pvc where
  "small_pvc = \<lparr>pc_meta = plain_meta ''ns'' ''graphd-log-nebula-graphd-0'', pc_requests = Some [(''storage'', 1000)],
     pc_class = Some ''fast'', pc_volume = ''pv-1'', pc_phase = ''Bound'', pc_capacity = ''1''\<rparr>"

definition log_cluster :: nebula_cluster where
  "log_cluster = (let nc = sample_cluster 1 1; s = nc_spec nc in nc\<lparr>nc_spec := s\<lparr>sp_graphd := (sp_graphd s)\<lparr>gd_log_claim :=
     Some \<lparr>sc_resources = \<lparr>rq_requests = Some [(''storage'', 2000)], rq_limits = None\<rparr>, sc_class = Some ''fast''\<rparr>\<rparr>\<rparr>\<rparr>)"


section \<open>Dynamic flags\<close>

lemma map_of_update_all:
  "map_of (fold (\<lambda>(k, v). AList.update k v) m a) k = (case map_of (rev m) k of None \<Rightarrow> map_of a k | Some v \<Rightarrow> Some v)"
  by (induction m rule: rev_induct) (auto simp: update_conv split: prod.splits option.splits)

lemma map_of_MergeStringMaps2:
  assumes "distinct (map fst m2)" "distinct (map fst m1)"
  shows "map_of (MergeStringMaps True [m1, m2]) = map_of m1 ++ map_of m2"
proof -
  have "map_of (rev m) = map_of m" if "distinct (map fst m)" for m :: strmap
    using that by (metis map_of_inject_set distinct_rev rev_map set_rev)
  with assms show ?thesis
    by (auto simp: MergeStringMaps_def fun_eq_iff map_of_update_all map_add_def split: option.splits)
qed

lemma map_of_map_key: "map_of (map (\<lambda>(k, v). (k, f k v)) m) k = map_option (f k) (map_of m k)"
  by (induction m) auto

text \<open>
  Claim C22. A dynamic flag that is taken out of the configuration is reset: what is sent to the
  instances gives every configured flag its configured value, every flag that was applied before
  and is not configured any more its default, and mentions no other flag.
\<close>

theorem removed_flags_are_reset:
  assumes "distinct (map fst oldFlags)" "distinct (map fst newFlags)"
  shows "map_of (flags_body oldFlags newFlags) k =
    (case map_of newFlags k of
       Some v \<Rightarrow> Some v
     | None \<Rightarrow> (case map_of oldFlags k of
         None \<Rightarrow> None
       | Some v \<Rightarrow> (case map_of DynamicFlags k of None \<Rightarrow> Some v | Some d \<Rightarrow> Some d)))"
proof -
  define removed where "removed = filter (\<lambda>(k, v). \<not> has_key newFlags k) oldFlags"
  have r: "map_of removed k = (if map_of newFlags k = None then map_of oldFlags k else None)"
    unfolding removed_def by (induction oldFlags) (auto simp: has_key_def)
  have reset: "map_of (ResetMap m DynamicFlags) k =
      (case map_of m k of None \<Rightarrow> None | Some v \<Rightarrow> Some (case map_of DynamicFlags k of None \<Rightarrow> v | Some d \<Rightarrow> d))" for m
    by (simp add: ResetMap_def map_of_map_key split: option.splits)
  have keys: "map fst (ResetMap m DynamicFlags) = map fst m" for m
    by (auto simp: ResetMap_def)
  have "distinct (map fst (ResetMap removed DynamicFlags))"
    using assms(1) by (simp add: keys removed_def distinct_map_filter)
  then have "map_of (MergeStringMaps True [newFlags, ResetMap removed DynamicFlags]) = map_of newFlags ++ map_of (ResetMap removed DynamicFlags)"
    using assms(2) by (intro map_of_MergeStringMaps2)
  moreover have "flags_body oldFlags newFlags =
      (if removed \<noteq> [] then MergeStringMaps True [newFlags, ResetMap removed DynamicFlags] else newFlags)"
    by (simp add: flags_body_def IntersectionDifference_def removed_def)
  ultimately show ?thesis
    using r by (auto simp: map_add_def reset split: option.splits)
qed

theorem removed_flags_witness:
  "map_of (flags_body [(''v'', ''4''), (''minloglevel'', ''2'')] [(''minloglevel'', ''1'')]) ''v'' = map_of DynamicFlags ''v''
   \<and> map_of DynamicFlags ''v'' \<noteq> None"
  using removed_flags_are_reset [of "[(''v'', ''4''), (''minloglevel'', ''2'')]" "[(''minloglevel'', ''1'')]" "''v''"]
  by (simp add: DynamicFlags_def)

end
