(* ===== verification/StoragedScaler.thy ===== *)
theory StoragedScaler
  imports ComponentHelper
begin

text \<open>
  Scaling the storage service: \<open>pkg/controller/component/storaged_scaler.go\<close>,
  \<open>data_balancer.go\<close> and \<open>pvc_deleter.go\<close>. The client options (certificates) are part of
  connecting. Log lines are left out.
\<close>

section \<open>Volume claims of a component (pvc_deleter.go)\<close>

definition ordinalPVCNames :: "component_type \<Rightarrow> string \<Rightarrow> int \<Rightarrow> string list" where
  "ordinalPVCNames typ setName ordinal =
     (let logPVC = type_String typ @ ''-log-'' @ setName @ ''-'' @ show_int ordinal;
          dataPVC = type_String typ @ ''-data-'' @ setName @ ''-'' @ show_int ordinal
      in if typ = GraphdComponentType then [logPVC] else [logPVC, dataPVC])"

definition mark_pvc :: "env \<Rightarrow> nebula_cluster \<Rightarrow> string \<Rightarrow> unit io" where
  "mark_pvc e nc pvcName =
     GetPVC e (nc_ns nc) pvcName \<bind>
       handle (\<lambda>x. if x = ErrNotFound then ret () else throw (ErrPlain ''get PVC for cluster failed''))
         (\<lambda>p. now e \<bind> ok (\<lambda>t.
            UpdatePVC e (p\<lparr>pc_meta := (pc_meta p)\<lparr>om_annotations :=
              AList.update AnnPVCDeferDeletingKey (e_rfc3339 e t) (om_annotations (pc_meta p))\<rparr>\<rparr>)))"

definition PVCMark :: "env \<Rightarrow> component_type \<Rightarrow> nebula_cluster \<Rightarrow> int \<Rightarrow> int \<Rightarrow> unit io" where
  "PVCMark e typ nc oldReplicas newReplicas =
     for_each (\<lambda>i. for_each (mark_pvc e nc) (ordinalPVCNames typ (comp_GetName typ nc) i))
       (rev [newReplicas..oldReplicas - 1])"

definition PVCDeleter :: "env \<Rightarrow> string \<Rightarrow> string \<Rightarrow> unit io" where
  "PVCDeleter e namespace clusterName =
     (ListPVCs e namespace (label_Cluster clusterName label_New) \<bind> wrap ''cluster list PVC failed'') \<bind> ok (\<lambda>pvcs.
       for_each (\<lambda>p. if map_of (om_annotations (pc_meta p)) AnnPvReclaimKey = Some ''false'' then ret ()
                     else DeletePVC e (om_namespace (pc_meta p)) (om_name (pc_meta p))) pvcs)"

section \<open>Balancing one space (data_balancer.go)\<close>

definition append_space :: "int \<Rightarrow> int list option \<Rightarrow> int list option" where
  "append_space s l = Some (deref_or [] l @ [s])"

text \<open>A job that was started is recorded in the status; its error is what the caller sees.\<close>

definition record_job :: "env \<Rightarrow> int \<Rightarrow> int \<times> go_err option \<Rightarrow> unit op" where
  "record_job e spaceID = (\<lambda>(jobID, err).
     case err of
       None \<Rightarrow> ret ()
     | Some x \<Rightarrow>
         if jobID > 0 then
           set_nc (map_sg (sg_last_job_update (\<lambda>_. Some \<lparr>bj_space = spaceID, bj_job = jobID\<rparr>))) \<bind> ok (\<lambda>_.
           write_status e \<bind> ok (\<lambda>_. throw x))
         else throw x)"

definition recover_last_job :: "env \<Rightarrow> nebula_cluster \<Rightarrow> balance_job \<Rightarrow> unit op" where
  "recover_last_job e nc j =
     world (if IsZoneEnabled nc then RecoverInZoneBalanceJob e (bj_job j) (bj_space j)
            else RecoverDataBalanceJob e (bj_job j) (bj_space j))"

definition balanceSpace :: "env \<Rightarrow> int \<Rightarrow> unit op" where
  "balanceSpace e spaceID =
     get_nc \<bind> ok (\<lambda>nc.
       let start = world (if IsZoneEnabled nc then BalanceDataInZone e spaceID else BalanceData e spaceID)
                     \<bind> ok (record_job e spaceID)
       in case sg_last_job (sg_of nc) of
            None \<Rightarrow> start
          | Some j \<Rightarrow>
              if bj_space j = spaceID then
                world (BalanceStatus e (bj_job j) (bj_space j)) \<bind>
                  handle (\<lambda>x. if x = ErrJobFailed then recover_last_job e nc j else throw x)
                    (\<lambda>_. world (BalanceLeader e (bj_space j)) \<bind> ok (\<lambda>_.
                         set_nc (map_sg (sg_balanced_spaces_update (append_space (bj_space j)))) \<bind> ok (\<lambda>_.
                         write_status e)))
              else start)"

definition removeHost :: "env \<Rightarrow> int \<Rightarrow> host_addr list \<Rightarrow> unit op" where
  "removeHost e spaceID hosts =
     get_nc \<bind> ok (\<lambda>nc.
       let start = world (if IsZoneEnabled nc then RemoveHostInZone e spaceID hosts else RemoveHost e spaceID hosts)
                     \<bind> ok (record_job e spaceID)
       in case sg_last_job (sg_of nc) of
            None \<Rightarrow> start
          | Some j \<Rightarrow>
              if bj_space j = spaceID then
                world (BalanceStatus e (bj_job j) (bj_space j)) \<bind>
                  handle (\<lambda>x. if x = ErrJobFailed then recover_last_job e nc j else throw x)
                    (\<lambda>_. set_nc (map_sg (sg_removed_spaces_update (append_space (bj_space j)))) \<bind> ok (\<lambda>_.
                         write_status e))
              else start)"

section \<open>Scaling (storaged_scaler.go)\<close>

definition meta_endpoints :: "env \<Rightarrow> nebula_cluster \<Rightarrow> string list" where
  "meta_endpoints e nc = [comp_GetConnAddress (e_getenv e) MetadComponentType nc ''thrift'']"

definition isStoragedCreatedPodReady :: "nebula_cluster \<Rightarrow> bool" where
  "isStoragedCreatedPodReady nc =
     (case GetWorkload StoragedComponentType nc of
        None \<Rightarrow> False
      | Some w \<Rightarrow> deref_or 0 (cs_replicas (spec_of StoragedComponentType nc)) = ws_ready w)"

definition set_storaged_phase :: "component_phase \<Rightarrow> unit op" where
  "set_storaged_phase ph = set_nc (SetPhase StoragedComponentType ph)"

text \<open>\<open>nil\<close> becomes the empty list, so that the progress can be told from \<open>nil\<close>.\<close>

definition start_list :: "int list option \<Rightarrow> int list option" where
  "start_list l = Some (deref_or [] l)"

definition for_spaces :: "(storaged_status \<Rightarrow> int list option) \<Rightarrow> (int \<Rightarrow> unit op) \<Rightarrow> (int \<times> string) list \<Rightarrow> unit op" where
  "for_spaces field f spaces =
     for_each (\<lambda>(spaceID, name). get_nc \<bind> ok (\<lambda>nc.
       if contains (field (sg_of nc)) spaceID then ret () else f spaceID)) spaces"

definition ScaleOut :: "env \<Rightarrow> unit op" where
  "ScaleOut e =
     set_storaged_phase ScaleOutPhase \<bind> ok (\<lambda>_.
     write_status e \<bind> ok (\<lambda>_.
     get_nc \<bind> ok (\<lambda>nc.
       if \<not> isStoragedCreatedPodReady nc then ret ()
       else if \<not> IsAutoBalanceEnabled nc then set_storaged_phase RunningPhase
       else with_meta e (meta_endpoints e nc)
         (world (ListSpaces e) \<bind> ok (\<lambda>spaces.
          (if spaces \<noteq> [] then set_nc (map_sg (sg_balanced_spaces_update start_list)) else ret ()) \<bind> ok (\<lambda>_.
          for_spaces sg_balanced_spaces (balanceSpace e) spaces \<bind> ok (\<lambda>_.
          set_nc (map_sg (\<lambda>s. s\<lparr>sg_balanced_spaces := None, sg_last_job := None\<rparr>)) \<bind> ok (\<lambda>_.
          set_storaged_phase RunningPhase \<bind> ok (\<lambda>_.
          write_status e)))))))))"

text \<open>The hosts to remove: those of the surplus pods that exist and are not pending.\<close>

definition surplus_hosts :: "env \<Rightarrow> nebula_cluster \<Rightarrow> int \<Rightarrow> int \<Rightarrow> host_addr list io" where
  "surplus_hosts e nc oldReplicas newReplicas =
     fold_go (\<lambda>i hosts.
         GetPod e (nc_ns nc) (comp_GetPodName StoragedComponentType nc i) \<bind>
           handle (\<lambda>x. if x = ErrNotFound then ret hosts else throw x)
             (\<lambda>p. if isPodPending p then ret hosts
                  else ret (hosts @ [(comp_GetPodFQDN (e_getenv e) StoragedComponentType nc i,
                                      comp_GetPort StoragedComponentType nc ''thrift'')])))
       (rev [newReplicas..oldReplicas - 1]) []"

definition drop_surplus :: "env \<Rightarrow> (int \<times> string) list \<Rightarrow> int \<Rightarrow> int \<Rightarrow> unit op" where
  "drop_surplus e spaces oldReplicas newReplicas =
     (if i32 (oldReplicas - newReplicas) > 0 then
        get_nc \<bind> ok (\<lambda>nc.
        world (surplus_hosts e nc oldReplicas newReplicas) \<bind> ok (\<lambda>hosts.
        for_spaces sg_removed_spaces (\<lambda>s. removeHost e s hosts) spaces \<bind> ok (\<lambda>_.
        world (DropHosts e hosts))))
      else ret ())"

definition balance_leaders :: "env \<Rightarrow> (int \<times> string) list \<Rightarrow> unit op" where
  "balance_leaders e spaces =
     for_spaces sg_balanced_spaces (\<lambda>s.
       world (BalanceLeader e s) \<bind> ok (\<lambda>_.
       set_nc (map_sg (sg_balanced_spaces_update (append_space s))) \<bind> ok (\<lambda>_.
       write_status e))) spaces"

text \<open>Only an unexpected error counts as "not deleted"; a claim that is still there does not.\<close>

fun pvcs_deleted :: "env \<Rightarrow> nebula_cluster \<Rightarrow> string list \<Rightarrow> bool io" where
  "pvcs_deleted e nc [] = ret True"
| "pvcs_deleted e nc (n # ns) =
     GetPVC e (nc_ns nc) n \<bind>
       handle (\<lambda>x. if x = ErrNotFound then pvcs_deleted e nc ns else ret False) (\<lambda>_. pvcs_deleted e nc ns)"

definition ScaleIn :: "env \<Rightarrow> int \<Rightarrow> int \<Rightarrow> unit op" where
  "ScaleIn e oldReplicas newReplicas =
     set_storaged_phase ScaleInPhase \<bind> ok (\<lambda>_.
     write_status e \<bind> ok (\<lambda>_.
     get_nc \<bind> ok (\<lambda>nc.
     with_meta e (meta_endpoints e nc)
       (world (ListSpaces e) \<bind> ok (\<lambda>spaces.
        (if spaces \<noteq> [] then set_nc (map_sg (\<lambda>s. s\<lparr>sg_balanced_spaces := start_list (sg_balanced_spaces s),
                                               sg_removed_spaces := start_list (sg_removed_spaces s)\<rparr>))
         else ret ()) \<bind> ok (\<lambda>_.
        drop_surplus e spaces oldReplicas newReplicas \<bind> ok (\<lambda>_.
        balance_leaders e spaces \<bind> ok (\<lambda>_.
        get_nc \<bind> ok (\<lambda>nc.
        world (PVCMark e StoragedComponentType nc oldReplicas newReplicas) \<bind> ok (\<lambda>_.
        world (pvcs_deleted e nc (ordinalPVCNames StoragedComponentType (comp_GetName StoragedComponentType nc) newReplicas)) \<bind> ok (\<lambda>deleted.
          if \<not> deleted then throw (ErrReconcile ''pvc reclaim still in progress'')
          else
            set_nc (map_sg (\<lambda>s. s\<lparr>sg_balanced_spaces := None, sg_removed_spaces := None, sg_last_job := None\<rparr>)) \<bind> ok (\<lambda>_.
            set_storaged_phase RunningPhase \<bind> ok (\<lambda>_.
            write_status e)))))))))))))"

definition Scale :: "env \<Rightarrow> workload \<Rightarrow> workload \<Rightarrow> unit op" where
  "Scale e old new =
     lift (deref (GetReplicas new)) \<bind> ok (\<lambda>newReplicas.
     lift (deref (GetReplicas old)) \<bind> ok (\<lambda>oldReplicas.
     get_nc \<bind> ok (\<lambda>nc.
       if newReplicas < oldReplicas \<or> GetPhase StoragedComponentType nc = ScaleInPhase then ScaleIn e oldReplicas newReplicas
       else if newReplicas > oldReplicas \<or> GetPhase StoragedComponentType nc = ScaleOutPhase then ScaleOut e
       else ret ())))"

section \<open>Hosts are dropped only when their data is gone\<close>

text \<open>
  What the history says: the meta service has reported a job of the space finished; a list of
  all spaces was obtained; and every request to drop hosts was sent after a list of spaces
  each of which has such a report.
\<close>

definition finished :: "env \<Rightarrow> int \<Rightarrow> call list \<Rightarrow> bool" where
  "finished e space h \<longleftrightarrow> (\<exists>a t job. h = a @ t \<and> job_finished e job space t)"

definition listed :: "env \<Rightarrow> (int \<times> string) list \<Rightarrow> call list \<Rightarrow> bool" where
  "listed e spaces h \<longleftrightarrow> (\<exists>a t r. h = a @ t \<and> accepted e ListSpacesReq t r \<and> mr_spaces r = spaces)"

definition drops_covered :: "env \<Rightarrow> call list \<Rightarrow> bool" where
  "drops_covered e h \<longleftrightarrow> (\<forall>a hosts b. h = a @ MetaRpc (DropHostsReq hosts) # b \<longrightarrow>
     (\<exists>spaces. listed e spaces b \<and> (\<forall>(s, name)\<in>set spaces. finished e s b)))"

definition removed :: "nebula_cluster \<Rightarrow> int set" where
  "removed nc = set (deref_or [] (sg_removed_spaces (sg_of nc)))"

text \<open>The invariant of the scaler: what the status calls removed has been reported finished.\<close>

definition removal_sound :: "env \<Rightarrow> cluster_state \<Rightarrow> bool" where
  "removal_sound e s \<longleftrightarrow> drops_covered e (fst s) \<and> (\<forall>sp\<in>removed (snd s). finished e sp (fst s))"

definition no_drop :: "call \<Rightarrow> bool" where
  "no_drop c \<longleftrightarrow> (\<forall>hosts. c \<noteq> MetaRpc (DropHostsReq hosts))"

definition calm :: "cluster_state \<Rightarrow> cluster_state \<Rightarrow> bool" where
  "calm s s' \<longleftrightarrow> (\<exists>new. fst s' = new @ fst s \<and> (\<forall>c\<in>set new. no_drop c)) \<and> removed (snd s') = removed (snd s)"

lemma finished_later [intro]: "finished e s h \<Longrightarrow> finished e s (new @ h)"
  unfolding finished_def by (metis append.assoc)

lemma listed_later [intro]: "listed e spaces h \<Longrightarrow> listed e spaces (new @ h)"
  unfolding listed_def by (metis append.assoc)

lemma drops_covered_later:
  "drops_covered e h \<Longrightarrow> \<forall>c\<in>set new. no_drop c \<Longrightarrow> drops_covered e (new @ h)"
  unfolding drops_covered_def
proof (intro allI impI)
  fix a hosts b
  assume h: "\<forall>a hosts b. h = a @ MetaRpc (DropHostsReq hosts) # b \<longrightarrow>
      (\<exists>spaces. listed e spaces b \<and> (\<forall>(s, name)\<in>set spaces. finished e s b))"
    and new: "\<forall>c\<in>set new. no_drop c" and eq: "new @ h = a @ MetaRpc (DropHostsReq hosts) # b"
  then obtain c where "h = c @ MetaRpc (DropHostsReq hosts) # b"
    by (auto simp: append_eq_append_conv2 append_eq_Cons_conv no_drop_def)
  with h show "\<exists>spaces. listed e spaces b \<and> (\<forall>(s, name)\<in>set spaces. finished e s b)" by blast
qed

lemma removal_sound_calm: "removal_sound e s \<Longrightarrow> calm s s' \<Longrightarrow> removal_sound e s'"
  unfolding removal_sound_def calm_def using drops_covered_later by fastforce

interpretation calm: step_relation calm
proof
  fix s t u :: cluster_state
  show "calm s s" by (simp add: calm_def)
  assume "calm s t" "calm t u"
  then show "calm s u" unfolding calm_def by (metis append.assoc set_append Un_iff)
qed

lemma calm_world: "emits no_drop m \<Longrightarrow> obeys calm (world m)"
  by (erule obeys_emits) (auto simp: calm_def)

lemma calm_write_status: "obeys calm (write_status e)"
  unfolding write_status_def
  by (intro calm.rules calm_world emits_mono [OF nc_status_update.calls]) (auto simp: no_drop_def)

lemma calm_set: "(\<And>nc. removed (f nc) = removed nc) \<Longrightarrow> obeys calm (set_nc f)"
  by (rule obeys_set) (simp add: calm_def)

lemma calm_phase: "obeys calm (set_storaged_phase ph)"
  unfolding set_storaged_phase_def
  by (rule calm_set) (simp add: removed_def SetPhase_def UpdateComponentStatus_def storaged_UpdateComponentStatus_def)

lemma calm_record_job: "obeys calm (record_job e s r)"
  unfolding record_job_def
  by (intro calm.rules calm_write_status calm_set) (auto simp: removed_def intro: calm.r_return)

lemma calm_recover: "obeys calm (recover_last_job e nc j)"
  unfolding recover_last_job_def RecoverInZoneBalanceJob_def RecoverDataBalanceJob_def
  by (rule calm_world) (auto intro!: recover_job_emits simp: is_meta_def no_drop_def)

lemma record_job_fails: "err \<noteq> None \<Longrightarrow> fails (record_job e s (job, err))"
  by (cases err) (auto simp: record_job_def intro!: fails_ok fails_throw)

lemma record_job_not_ok: "wp (record_job e s (job, Some x)) (\<lambda>r _. r \<noteq> Ok ()) st"
  using failsD [OF record_job_fails [of "Some x"]] by simp

text \<open>Removing the hosts from one space: success means the space is among the removed ones.\<close>

definition removes :: "env \<Rightarrow> int \<Rightarrow> cluster_state \<Rightarrow> unit outcome \<Rightarrow> cluster_state \<Rightarrow> bool" where
  "removes e sp s r s' \<longleftrightarrow> (removal_sound e s \<longrightarrow> removal_sound e s') \<and> removed (snd s) \<subseteq> removed (snd s')
     \<and> (r = Ok () \<longrightarrow> sp \<in> removed (snd s')) \<and> (\<exists>new. fst s' = new @ fst s)"

lemma calm_removes: "calm s s' \<Longrightarrow> r \<noteq> Ok () \<Longrightarrow> removes e sp s r s'"
  by (auto simp: removes_def removal_sound_calm) (auto simp: calm_def)

lemma start_removal:
  fixes m :: "(int \<times> go_err option) io"
  assumes "emits no_drop m" "yields (\<lambda>(job, err). err \<noteq> None) m"
  shows "wp (world m \<bind> ok (record_job e sp)) (\<lambda>r s'. removes e sp s r s') s"
proof -
  have "obeys calm (world m \<bind> ok (record_job e sp))"
    by (intro calm.rules calm_world calm_record_job assms(1))
  moreover have "wp (world m \<bind> ok (record_job e sp)) (\<lambda>r _. \<forall>x. r \<noteq> Ok x) s"
  proof (cases s)
    case (Pair h nc)
    show ?thesis
      unfolding Pair wp_bind wp_world
      by (rule wp_mono [OF yieldsD [OF assms(2)]])
         (auto simp: wp_ok split: outcome.splits intro: record_job_not_ok)
  qed
  ultimately have "wp (world m \<bind> ok (record_job e sp)) (\<lambda>r s'. calm s s' \<and> (\<forall>x. r \<noteq> Ok x)) s"
    by (intro wp_conj obeysD)
  then show ?thesis by (rule wp_mono) (simp add: calm_removes)
qed

lemma finished_here: "job_finished e job sp h \<Longrightarrow> finished e sp h"
  unfolding finished_def by (metis append_Nil)

lemma removeHost_removes: "wp (removeHost e sp hosts) (removes e sp s) s"
proof (cases s)
  case (Pair h nc)
  have start: "wp (world (if IsZoneEnabled nc then RemoveHostInZone e sp hosts else RemoveHost e sp hosts)
      \<bind> ok (record_job e sp)) (removes e sp s) s"
    by (rule start_removal)
       (auto simp: RemoveHostInZone_def RemoveHost_def is_meta_def no_drop_def simp del: not_None_eq
         intro!: runAdminJob_emits runAdminJob_waits)
  show ?thesis
  proof (cases "sg_last_job (sg_of nc)")
    case None
    with start Pair show ?thesis by (simp add: removeHost_def Let_def wp_bind wp_get_nc wp_ok)
  next
    case (Some j)
    show ?thesis
    proof (cases "bj_space j = sp")
      case False
      with start Pair Some show ?thesis by (simp add: removeHost_def Let_def wp_bind wp_get_nc wp_ok)
    next
      case True
      let ?S = "BalanceStatus e (bj_job j) sp"
      let ?k = "\<lambda>x. if x = ErrJobFailed then recover_last_job e nc j else throw x"
      let ?ok = "\<lambda>_::unit. set_nc (map_sg (sg_removed_spaces_update (append_space sp))) \<bind> ok (\<lambda>_. write_status e)"
      have wait: "wp ?S (\<lambda>r h'. (r = Ok () \<longrightarrow> job_finished e (bj_job j) sp h')
          \<and> (\<exists>new. h' = new @ h \<and> (\<forall>c\<in>set new. no_drop c))) h"
        by (intro wp_conj BalanceStatus_finished emitsD) (auto intro!: emits simp: is_meta_def no_drop_def)
      have after: "wp (handle ?k ?ok r) (removes e sp s) (h', nc)"
        if fin: "r = Ok () \<longrightarrow> job_finished e (bj_job j) sp h'" and new: "\<exists>new. h' = new @ h \<and> (\<forall>c\<in>set new. no_drop c)"
        for r h'
      proof (cases r)
        case (Ok u)
        let ?nc = "map_sg (sg_removed_spaces_update (append_space sp)) nc"
        have rem: "removed ?nc = insert sp (removed nc)" by (simp add: removed_def append_space_def)
        have J: "removal_sound e (h', ?nc)" if "removal_sound e s"
          using that new fin Ok Pair rem
          by (auto simp: removal_sound_def intro: drops_covered_later finished_here)
        have "removes e sp s x t" if t: "calm (h', ?nc) t" for x t
        proof -
          have "removal_sound e s \<Longrightarrow> removal_sound e t" using J removal_sound_calm [OF _ t] by blast
          moreover have "\<exists>k. fst t = k @ h" using t new by (auto simp: calm_def)
          ultimately show ?thesis using t rem Pair by (auto simp: removes_def calm_def)
        qed
        then show ?thesis
          using Ok by (auto simp: wp_handle wp_bind wp_set_nc wp_ok intro!: wp_mono [OF obeysD [OF calm_write_status]])
      next
        case (Err x)
        have c: "calm s (h', nc)" using new Pair by (auto simp: calm_def)
        have "wp (recover_last_job e nc j) (\<lambda>r t. calm (h', nc) t \<and> (\<forall>x. r \<noteq> Ok x)) (h', nc)"
          by (intro wp_conj obeysD calm_recover)
             (auto simp: recover_last_job_def RecoverInZoneBalanceJob_def RecoverDataBalanceJob_def wp_world
               intro!: recover_job_fails [simplified])
        then have "wp (recover_last_job e nc j) (removes e sp s) (h', nc)"
          by (rule wp_mono) (use c calm.trans calm_removes in blast)
        with Err c show ?thesis by (simp add: wp_handle wp_return calm_removes)
      next
        case Panic
        with new Pair show ?thesis by (auto simp: wp_handle intro!: calm_removes) (auto simp: calm_def)
      qed
      have "wp ?S (\<lambda>r h'. wp (handle ?k ?ok r) (removes e sp s) (h', nc)) h"
        by (rule wp_mono [OF wait], rule after) simp_all
      with Pair Some True show ?thesis
        by (simp add: removeHost_def Let_def wp_bind wp_get_nc wp_ok wp_world)
    qed
  qed
qed

text \<open>The loop over the spaces: success means that every space of the list was removed.\<close>

lemma for_spaces_removes:
  "wp (for_spaces sg_removed_spaces (\<lambda>sp. removeHost e sp hosts) spaces)
     (\<lambda>r s'. (removal_sound e s \<longrightarrow> removal_sound e s') \<and> removed (snd s) \<subseteq> removed (snd s')
        \<and> (r = Ok () \<longrightarrow> fst ` set spaces \<subseteq> removed (snd s')) \<and> (\<exists>new. fst s' = new @ fst s)) s"
proof (induction spaces arbitrary: s)
  case Nil
  then show ?case by (simp add: for_spaces_def wp_return)
next
  case (Cons x spaces)
  obtain sp name h nc where x: "x = (sp, name)" "s = (h, nc)" by (metis surj_pair)
  let ?Q = "\<lambda>r s'. (removal_sound e s \<longrightarrow> removal_sound e s') \<and> removed (snd s) \<subseteq> removed (snd s')
        \<and> (r = Ok () \<longrightarrow> fst ` set (x # spaces) \<subseteq> removed (snd s')) \<and> (\<exists>new. fst s' = new @ fst s)"
  let ?rest = "for_spaces sg_removed_spaces (\<lambda>sp. removeHost e sp hosts) spaces"
  have step: "wp ?rest ?Q t" if t: "(removal_sound e s \<longrightarrow> removal_sound e t) \<and> removed (snd s) \<subseteq> removed (snd t)"
      "sp \<in> removed (snd t)" "\<exists>new. fst t = new @ fst s" for t
    by (rule wp_mono [OF Cons.IH]) (use t x in auto)
  show ?case
  proof (cases "contains (sg_removed_spaces (sg_of nc)) sp")
    case True
    then have "sp \<in> removed nc" by (auto simp: contains_def removed_def split: option.splits)
    with x step [of s] True show ?thesis
      by (simp add: for_spaces_def wp_for_each_Cons wp_bind wp_get_nc wp_ok wp_return)
  next
    case False
    have "wp (ok (\<lambda>_. ?rest) r) ?Q t" if "removes e sp s r t" for r t
      using that step [of t] by (cases r) (auto simp: wp_ok removes_def)
    then have "wp (removeHost e sp hosts) (\<lambda>r. wp (ok (\<lambda>_. ?rest) r) ?Q) s"
      by (intro wp_mono [OF removeHost_removes])
    with x False show ?thesis
      by (simp add: for_spaces_def wp_for_each_Cons wp_bind wp_get_nc wp_ok)
  qed
qed

text \<open>Dropping the hosts: sent only after the loop, with the list it was given.\<close>

lemma removal_sound_drop:
  assumes "removal_sound e (h, nc)" "listed e spaces h" "fst ` set spaces \<subseteq> removed nc"
    and "\<forall>c\<in>set new. c = MetaRpc (DropHostsReq hosts) \<or> (\<exists>a. c = MetaReconnect a)"
  shows "removal_sound e (new @ h, nc)"
proof -
  have "drops_covered e (new @ h)"
    using assms(4)
  proof (induction new)
    case Nil
    then show ?case using assms(1) by (simp add: removal_sound_def)
  next
    case (Cons c new)
    have "\<exists>spaces. listed e spaces (new @ h) \<and> (\<forall>(s, name)\<in>set spaces. finished e s (new @ h))"
      using assms(1-3) by (intro exI [of _ spaces]) (fastforce simp: removal_sound_def)
    with Cons show ?case
      by (auto simp: drops_covered_def Cons_eq_append_conv)
  qed
  with assms(1) show ?thesis by (auto simp: removal_sound_def)
qed

section \<open>Scaling keeps the invariant\<close>

definition sound :: "env \<Rightarrow> cluster_state \<Rightarrow> cluster_state \<Rightarrow> bool" where
  "sound e s s' \<longleftrightarrow> (removal_sound e s \<longrightarrow> removal_sound e s')"

interpretation sound: step_relation "sound e" for e
  by unfold_locales (auto simp: sound_def)

lemma calm_sound: "obeys calm m \<Longrightarrow> obeys (sound e) m"
  unfolding obeys_def
proof (rule allI, rule wp_mono, erule spec)
  show "calm s t \<Longrightarrow> sound e s t" for s t by (auto simp: sound_def intro: removal_sound_calm)
qed

lemma no_drop_simps [simp]:
  "no_drop (MetaRpc r) \<longleftrightarrow> (\<forall>hosts. r \<noteq> DropHostsReq hosts)" "no_drop (GetPodC a b)" "no_drop (GetPVCC a b)"
  "no_drop (UpdatePVCC p)" "no_drop (MetaReconnect a)" "no_drop (MetaConnect a)" "no_drop MetaClose" "no_drop Clock"
  "no_drop (GetCluster a b)" "no_drop (UpdateClusterStatus nc)"
  by (simp_all add: no_drop_def)

lemma sound_world: "emits no_drop m \<Longrightarrow> obeys (sound e) (world m)"
  by (intro calm_sound calm_world)

lemma sound_phase: "obeys (sound e) (set_storaged_phase ph)"
  by (intro calm_sound calm_phase)

lemma sound_write_status: "obeys (sound e) (write_status e')"
  by (intro calm_sound calm_write_status)

lemma sound_set: "(\<And>nc. removed (f nc) \<subseteq> removed nc) \<Longrightarrow> obeys (sound e) (set_nc f)"
  by (rule obeys_set) (auto simp: sound_def removal_sound_def)

lemma connect_each_emits [emits]: "(\<And>a. P (MetaConnect a)) \<Longrightarrow> emits P (connect_each e hs prev)"
  by (induction hs arbitrary: prev) (auto intro!: emits)

lemma NewMetaClient_emits [emits]: "(\<And>a. P (MetaConnect a)) \<Longrightarrow> emits P (NewMetaClient e hs)"
  unfolding NewMetaClient_def by (auto intro!: emits split: option.splits)

lemma sound_with_meta: "obeys (sound e) m \<Longrightarrow> obeys (sound e) (with_meta e' hs m)"
  unfolding with_meta_def by (intro sound.rules sound_world emits) simp_all

lemma BalanceLeader_emits: "emits no_drop (BalanceLeader e s)"
  unfolding BalanceLeader_def by (auto intro!: exec_req_emits simp: is_meta_def)

lemma ListSpaces_emits: "emits no_drop (ListSpaces e)"
  unfolding ListSpaces_def by (intro emits) (auto simp: is_meta_def)

lemma mark_emits: "emits no_drop (PVCMark e typ nc old new)"
  unfolding PVCMark_def mark_pvc_def GetPVC_def
  by (intro emits emits_mono [OF pvc_update.calls]) auto

lemma pvcs_deleted_emits: "emits no_drop (pvcs_deleted e nc ns)"
  by (induction ns) (auto simp: GetPVC_def intro!: emits)

lemma surplus_emits: "emits no_drop (surplus_hosts e nc old new)"
  unfolding surplus_hosts_def GetPod_def by (intro emits) simp_all

lemma sound_balance_leaders: "obeys (sound e) (balance_leaders e spaces)"
  unfolding balance_leaders_def for_spaces_def
  by (intro sound.rules sound_world BalanceLeader_emits sound_set sound_write_status) (simp add: removed_def)

lemma sound_balanceSpace: "obeys (sound e) (balanceSpace e sp)"
  unfolding balanceSpace_def Let_def
  by (intro sound.rules sound_world BalanceLeader_emits sound_write_status sound_set calm_sound calm_recover
      calm_record_job)
     (auto simp: removed_def BalanceData_def BalanceDataInZone_def is_meta_def intro!: emits sound_world)

lemma sound_ScaleOut: "obeys (sound e) (ScaleOut e)"
  unfolding ScaleOut_def for_spaces_def
  by (intro sound.rules sound_with_meta sound_world ListSpaces_emits sound_write_status sound_phase
      sound_balanceSpace sound_set) (auto simp: removed_def)

text \<open>Removing the surplus keeps the invariant when it is given a list of all spaces.\<close>

lemma drop_surplus_sound:
  assumes "listed e spaces (fst s)"
  shows "wp (drop_surplus e spaces old new) (\<lambda>_. sound e s) s"
proof (cases "i32 (old - new) > 0")
  case False
  then show ?thesis by (simp add: drop_surplus_def wp_return sound.refl)
next
  case True
  obtain h nc where s: "s = (h, nc)" by (cases s)
  let ?drop = "\<lambda>hosts. \<lambda>r. ok (\<lambda>_. world (DropHosts e hosts)) r"
  let ?loop = "\<lambda>hosts. for_spaces sg_removed_spaces (\<lambda>sp. removeHost e sp hosts) spaces"
  have drop: "wp (?drop hosts r) (\<lambda>_. sound e s) t"
    if t: "(removal_sound e s \<longrightarrow> removal_sound e t) \<and> (r = Ok () \<longrightarrow> fst ` set spaces \<subseteq> removed (snd t))"
      "listed e spaces (fst t)" for hosts r t
  proof (cases r)
    case (Ok u)
    obtain h1 nc1 where [simp]: "t = (h1, nc1)" by (cases t)
    have "wp (DropHosts e hosts) (\<lambda>_ h'. sound e s (h', nc1)) h1"
    proof (rule wp_mono [OF emitsD])
      show "emits (\<lambda>c. c = MetaRpc (DropHostsReq hosts) \<or> (\<exists>a. c = MetaReconnect a)) (DropHosts e hosts)"
        unfolding DropHosts_def by (intro emits) (auto simp: is_meta_def)
      show "sound e s (h', nc1)"
        if "\<exists>new. h' = new @ h1 \<and> (\<forall>c\<in>set new. c = MetaRpc (DropHostsReq hosts) \<or> (\<exists>a. c = MetaReconnect a))" for x h'
        using that t Ok removal_sound_drop [of e h1 nc1 spaces] by (auto simp: sound_def)
    qed
    with Ok show ?thesis by (simp add: wp_ok wp_world)
  qed (use t in \<open>auto simp: wp_ok sound_def\<close>)
  have loop: "wp (?loop hosts) (\<lambda>r t. wp (?drop hosts r) (\<lambda>_. sound e s) t) (h', nc)"
    if "\<exists>new. h' = new @ h \<and> (\<forall>c\<in>set new. no_drop c)" for hosts h'
  proof (rule wp_mono [OF for_spaces_removes], rule drop)
    fix r t
    assume t: "(removal_sound e (h', nc) \<longrightarrow> removal_sound e t) \<and> removed (snd (h', nc)) \<subseteq> removed (snd t)
       \<and> (r = Ok () \<longrightarrow> fst ` set spaces \<subseteq> removed (snd t)) \<and> (\<exists>new. fst t = new @ fst (h', nc))"
    have "calm s (h', nc)" using that s by (simp add: calm_def)
    with t show "(removal_sound e s \<longrightarrow> removal_sound e t) \<and> (r = Ok () \<longrightarrow> fst ` set spaces \<subseteq> removed (snd t))"
      using removal_sound_calm by blast
    show "listed e spaces (fst t)"
      using assms t that s listed_later by (metis append.assoc fst_conv)
  qed
  have stay: "sound e s (h', nc)" if "\<exists>new. h' = new @ h \<and> (\<forall>c\<in>set new. no_drop c)" for h'
    using that s removal_sound_calm [of e s "(h', nc)"] by (auto simp: sound_def calm_def)
  have "wp (ok (\<lambda>hosts. ?loop hosts \<bind> ?drop hosts) r) (\<lambda>_. sound e s) (h', nc)"
    if "\<exists>new. h' = new @ h \<and> (\<forall>c\<in>set new. no_drop c)" for r h'
  proof (cases r)
    case (Ok hosts)
    show ?thesis
      unfolding Ok by (subst wp_ok, simp only: outcome.case, subst wp_bind, rule loop [OF that])
  qed (use stay [OF that] in \<open>simp_all add: wp_ok\<close>)
  then have "wp (surplus_hosts e nc old new) (\<lambda>r h'. wp (ok (\<lambda>hosts. ?loop hosts \<bind> ?drop hosts) r) (\<lambda>_. sound e s) (h', nc)) h"
    by (intro wp_mono [OF emitsD [OF surplus_emits]])
  with True s show ?thesis by (simp add: drop_surplus_def wp_bind wp_get_nc wp_ok wp_world)
qed

lemma ListSpaces_listed: "wp (ListSpaces e) (\<lambda>r h'. \<forall>spaces. r = Ok spaces \<longrightarrow> listed e spaces h') h"
  unfolding ListSpaces_def wp_bind
proof (rule wp_mono [OF retryOnError_accepted])
  fix r h'
  assume r: "\<forall>x. r = Ok x \<longrightarrow> accepted e ListSpacesReq h' x"
  show "wp (ok (\<lambda>r. ret (mr_spaces r)) r) (\<lambda>r h'. \<forall>spaces. r = Ok spaces \<longrightarrow> listed e spaces h') h'"
    using r by (auto simp: wp_ok wp_return listed_def split: outcome.split intro: exI [of _ "[]"])
qed

text \<open>The part of \<open>ScaleIn\<close> that runs with a list of the spaces at hand.\<close>

lemma sound_after_list:
  assumes "\<And>spaces s. listed e spaces (fst s) \<Longrightarrow> wp (f spaces) (\<lambda>_. sound e s) s"
  shows "obeys (sound e) (world (ListSpaces e) \<bind> ok f)"
  unfolding obeys_def
proof (intro allI)
  fix s :: cluster_state
  obtain h nc where s: "s = (h, nc)" by (cases s)
  have "wp (ListSpaces e) (\<lambda>r h'. (\<forall>spaces. r = Ok spaces \<longrightarrow> listed e spaces h')
      \<and> (\<exists>new. h' = new @ h \<and> (\<forall>c\<in>set new. no_drop c))) h"
    by (intro wp_conj ListSpaces_listed emitsD ListSpaces_emits)
  then have "wp (ListSpaces e) (\<lambda>r h'. wp (ok f r) (\<lambda>_. sound e s) (h', nc)) h"
  proof (rule wp_mono)
    fix r h'
    assume h': "(\<forall>spaces. r = Ok spaces \<longrightarrow> listed e spaces h') \<and> (\<exists>new. h' = new @ h \<and> (\<forall>c\<in>set new. no_drop c))"
    then have c: "sound e s (h', nc)"
      using s removal_sound_calm [of e s "(h', nc)"] by (auto simp: sound_def calm_def)
    show "wp (ok f r) (\<lambda>_. sound e s) (h', nc)"
    proof (cases r)
      case (Ok spaces)
      then have "wp (f spaces) (\<lambda>_. sound e (h', nc)) (h', nc)" using h' by (intro assms) simp
      then have "wp (f spaces) (\<lambda>_. sound e s) (h', nc)" by (rule wp_mono) (rule sound.trans [OF c])
      with Ok show ?thesis by (simp add: wp_ok)
    qed (use c in \<open>simp_all add: wp_ok\<close>)
  qed
  with s show "wp (world (ListSpaces e) \<bind> ok f) (\<lambda>_. sound e s) s" by (simp add: wp_bind wp_world)
qed

lemma sound_ScaleIn: "obeys (sound e) (ScaleIn e old new)"
  unfolding ScaleIn_def
proof (rule sound.r_bind [OF sound_phase], rule sound.r_ok, rule sound.r_bind [OF sound_write_status], rule sound.r_ok,
    rule sound.r_bind [OF sound.r_get], rule sound.r_ok, rule sound_with_meta, rule sound_after_list)
  fix nc :: nebula_cluster and spaces and s :: cluster_state
  assume l: "listed e spaces (fst s)"
  let ?start = "if spaces \<noteq> [] then set_nc (map_sg (\<lambda>s. s\<lparr>sg_balanced_spaces := start_list (sg_balanced_spaces s),
      sg_removed_spaces := start_list (sg_removed_spaces s)\<rparr>)) else ret ()"
  let ?rest = "\<lambda>_::unit. balance_leaders e spaces \<bind> ok (\<lambda>_. get_nc \<bind> ok (\<lambda>nc.
      world (PVCMark e StoragedComponentType nc old new) \<bind> ok (\<lambda>_.
      world (pvcs_deleted e nc (ordinalPVCNames StoragedComponentType (comp_GetName StoragedComponentType nc) new)) \<bind> ok (\<lambda>deleted.
        if \<not> deleted then throw (ErrReconcile ''pvc reclaim still in progress'')
        else set_nc (map_sg (\<lambda>s. s\<lparr>sg_balanced_spaces := None, sg_removed_spaces := None, sg_last_job := None\<rparr>)) \<bind> ok (\<lambda>_.
             set_storaged_phase RunningPhase \<bind> ok (\<lambda>_. write_status e))))))"
  have rest: "obeys (sound e) (?rest ())"
    by (intro sound.rules sound_balance_leaders sound_world mark_emits pvcs_deleted_emits sound_set sound_phase
        sound_write_status) (simp add: removed_def)
  have start: "wp ?start (\<lambda>r t. sound e s t \<and> listed e spaces (fst t)) s"
    using l by (cases s) (auto simp: wp_set_nc wp_return sound_def removal_sound_def removed_def start_list_def)
  have drop: "wp (drop_surplus e spaces old new \<bind> ok ?rest) (\<lambda>_. sound e s) t"
    if t: "sound e s t \<and> listed e spaces (fst t)" for t
  proof -
    have "wp (drop_surplus e spaces old new) (\<lambda>r u. wp (ok ?rest r) (\<lambda>_. sound e s) u) t"
    proof (rule wp_mono [OF drop_surplus_sound])
      show "listed e spaces (fst t)" using t by simp
      show "wp (ok ?rest r) (\<lambda>_. sound e s) u" if u: "sound e t u" for r u
      proof -
        have su: "sound e s u" using t u sound.trans by blast
        have "wp (?rest ()) (\<lambda>_. sound e s) u"
          by (rule wp_mono [OF obeysD [OF rest]]) (rule sound.trans [OF su])
        with su show ?thesis by (cases r) (simp_all add: wp_ok)
      qed
    qed
    then show ?thesis by (simp add: wp_bind)
  qed
  have "wp ?start (\<lambda>r t. wp (ok (\<lambda>_. drop_surplus e spaces old new \<bind> ok ?rest) r) (\<lambda>_. sound e s) t) s"
    by (rule wp_mono [OF start], rename_tac r t, case_tac r) (use drop in \<open>auto simp: wp_ok [of "\<lambda>_. _ \<bind> _"]\<close>)
  then show "wp (?start \<bind> ok (\<lambda>_. drop_surplus e spaces old new \<bind> ok ?rest)) (\<lambda>_. sound e s) s"
    by (simp add: wp_bind)
qed

lemma sound_Scale: "obeys (sound e) (Scale e old new)"
  unfolding Scale_def by (intro sound.rules sound_ScaleIn sound_ScaleOut)

section \<open>The promise of a scale-in\<close>

text \<open>
  The history of the scaler over any number of reconciliations: runs of \<open>Scale\<close> with any
  workloads and any answers, and between them whatever else happens to the object and whatever
  else the operator asks, as long as it drops no hosts and leaves the list of removed spaces
  alone.
\<close>

inductive scaler_history :: "env \<Rightarrow> cluster_state \<Rightarrow> bool" for e where
  fresh: "removed nc = {} \<Longrightarrow> scaler_history e ([], nc)"
| scale: "scaler_history e s \<Longrightarrow> run_state (Scale e old new) s = (r, s') \<Longrightarrow> scaler_history e s'"
| others: "scaler_history e s \<Longrightarrow> calm s s' \<Longrightarrow> scaler_history e s'"

lemma scaler_history_sound: "scaler_history e s \<Longrightarrow> removal_sound e s"
proof (induction rule: scaler_history.induct)
  case (fresh nc)
  then show ?case by (simp add: removal_sound_def drops_covered_def)
next
  case (scale s old new r s')
  with obeys_run [OF sound_Scale scale.hyps(2)] show ?case by (simp add: sound_def)
next
  case (others s s')
  then show ?case by (blast intro: removal_sound_calm)
qed


text \<open>
  A world in which the meta service knows one space and reports every job finished, and the
  cluster that scales in from three storage pods to two with the job of an earlier data balance
  still in its status.
\<close>

definition one_space :: meta_resp where
  "one_space =
     \<lparr>mr_code = SUCCEEDED, mr_leader = None, mr_space = \<lparr>sp_id = 1, sp_partition_num = 1, sp_replica_factor = 1\<rparr>,
      mr_spaces = [(1, ''s'')], mr_hosts = [], mr_parts = [], mr_job_id = 7, mr_job_desc = [JobFinished], mr_services = [], mr_part_hosts = []\<rparr>"

definition running_pod :: pod where
  "running_pod =
     \<lparr>pd_meta = plain_meta ''ns'' ''p'', pd_node = ''n'', pd_phase = ''Running'', pd_ready = True, pd_conditions = [],
      pd_waiting = [], pd_terminated = [], pd_exits = [], pd_spec = empty_pod_spec\<rparr>"

definition stale_job_cluster :: nebula_cluster where
  "stale_job_cluster =
     map_sg (\<lambda>s. s\<lparr>sg_balanced_spaces := Some [], sg_last_job := Some \<lparr>bj_space = 1, bj_job = 7\<rparr>\<rparr>) (sample_cluster 2 2)"

definition one_space_world :: env where
  "one_space_world = empty_world\<lparr>e_cluster := \<lambda>_. Ok (sample_cluster 2 2), e_pod := \<lambda>_. Ok running_pod, e_meta := \<lambda>_. Ok one_space\<rparr>"

definition is_drop :: "call \<Rightarrow> bool" where
  "is_drop c = (case c of MetaRpc (DropHostsReq _) \<Rightarrow> True | _ \<Rightarrow> False)"

definition is_new_job :: "call \<Rightarrow> bool" where
  "is_new_job c = (case c of MetaRpc (AdminJobReq _ JobAdd _ (_ # _)) \<Rightarrow> True | _ \<Rightarrow> False)"

lemma one_space_world [simp]:
  "e_cluster one_space_world h = Ok (sample_cluster 2 2)" "e_pod one_space_world h = Ok running_pod"
  "e_meta one_space_world h = Ok one_space" "e_done one_space_world h = Ok ()" "e_steps one_space_world = 4"
  "e_pvc one_space_world h = Err ErrNotFound"
  by (simp_all add: one_space_world_def empty_world_def)

lemma one_space [simp]:
  "mr_code one_space = SUCCEEDED" "mr_spaces one_space = [(1, ''s'')]" "mr_job_desc one_space = [JobFinished]"
  by (simp_all add: one_space_def)

definition status_calls :: "nebula_cluster \<Rightarrow> call list" where
  "status_calls nc =
     (if nc_status nc = nc_status (sample_cluster 2 2) then []
      else [UpdateClusterStatus ((sample_cluster 2 2)\<lparr>nc_status := nc_status nc\<rparr>)])
     @ [GetCluster (nc_ns nc) (nc_name nc)]"

lemma wp_one_space_status:
  "wp (write_status one_space_world) Q (h, nc) = Q (Ok ()) (status_calls nc @ h, nc)"
  by (simp add: write_status_def UpdateNebulaClusterStatus_def GetNebulaCluster_def eval_nat_numeral wp_simps status_calls_def)

lemma status_calls_quiet [simp]: "\<not> list_ex is_drop (status_calls nc)" "\<not> list_ex is_new_job (status_calls nc)"
  by (simp_all add: status_calls_def is_drop_def is_new_job_def)

lemma set_storaged_phase_sg:
  "SetPhase StoragedComponentType ph = map_sg (\<lambda>s. s\<lparr>sg_component := (sg_component s)\<lparr>st_phase := ph\<rparr>\<rparr>)"
  by (simp add: fun_eq_iff SetPhase_def UpdateComponentStatus_def storaged_UpdateComponentStatus_def map_sg_def comp_status_def)

lemma stale_run:
  "\<exists>h nc. run_state (ScaleIn one_space_world 3 2) ([], stale_job_cluster) = (Ok (), (h, nc))
     \<and> list_ex is_drop h \<and> \<not> list_ex is_new_job h"
proof -
  have "wp (ScaleIn one_space_world 3 2) (\<lambda>r (h, nc). r = Ok () \<and> list_ex is_drop h \<and> \<not> list_ex is_new_job h) ([], stale_job_cluster)"
    by (simp add: ScaleIn_def set_storaged_phase_def wp_simps wp_one_space_status set_storaged_phase_sg with_meta_def
        meta_endpoints_def NewMetaClient_def ListSpaces_def retryOnError_def drop_surplus_def surplus_hosts_def GetPod_def
        isPodPending_def running_pod_def for_spaces_def contains_def stale_job_cluster_def sample_defs start_list_def
        removeHost_def BalanceStatus_def append_space_def DropHosts_def exec_req_def balance_leaders_def BalanceLeader_def
        PVCMark_def mark_pvc_def GetPVC_def ordinalPVCNames_def is_drop_def is_new_job_def i32_def Let_def)
  then show ?thesis by (auto simp: wp_def split: prod.splits)
qed



end
