(* ===== verification/Updaters.thy ===== *)
theory Updaters
  imports StoragedScaler
begin

text \<open>
  The rolling updates of the three components: \<open>graphd_updater.go\<close>, \<open>metad_updater.go\<close> and
  \<open>storaged_updater.go\<close> of \<open>pkg/controller/component\<close>. \<open>Update\<close> works on the generated workload
  in place; here it returns it. The partition of the StatefulSet decides which pods are
  replaced: those whose ordinal is at least the partition. The kind of the workload only decides
  an option the code does not use any more. The worker groups of the concurrent transfer run
  their workers one after the other here.
\<close>

section \<open>Graphd and metad\<close>

text \<open>The errors of looking for the next pod: an absent pod is waited for.\<close>

definition next_pod :: "env \<Rightarrow> component_type \<Rightarrow> nebula_cluster \<Rightarrow> int \<Rightarrow> int io" where
  "next_pod e typ nc replicas =
     getNextUpdatePod e typ nc (nat replicas) \<bind>
       handle (\<lambda>x. if x = ErrNotFound then throw (ErrReconcile ''not found'') else throw x) ret"

definition advance_partition :: "env \<Rightarrow> component_type \<Rightarrow> nebula_cluster \<Rightarrow> workload \<Rightarrow> workload \<Rightarrow> workload io" where
  "advance_partition e typ nc old new =
     lift (deref (wl_partition old)) \<bind> ok (\<lambda>partition.
       let new = setPartition new partition
       in lift (deref (GetReplicas old)) \<bind> ok (\<lambda>replicas.
          next_pod e typ nc replicas \<bind> ok (\<lambda>index.
            ret (if index \<ge> 0 then setPartition new index else new))))"

text \<open>The update is over: the revisions agree and the component is back in its normal phase.\<close>

definition update_done :: "component_type \<Rightarrow> nebula_cluster \<Rightarrow> bool outcome" where
  "update_done typ nc =
     (case GetWorkload typ nc of
        None \<Rightarrow> Panic
      | Some w \<Rightarrow> Ok (ws_update_rev w = ws_current_rev w \<and> GetPhase typ nc = RunningPhase))"

definition graphd_Update :: "env \<Rightarrow> nebula_cluster \<Rightarrow> workload \<Rightarrow> workload \<Rightarrow> workload io" where
  "graphd_Update e nc old new =
     lift (deref (cs_replicas (spec_of GraphdComponentType nc))) \<bind> ok (\<lambda>replicas.
       if replicas = 0 then ret new
       else if GetPhase MetadComponentType nc = UpdatePhase \<or> GetPhase StoragedComponentType nc = UpdatePhase
               \<or> GetPhase StoragedComponentType nc = ScaleInPhase \<or> GetPhase StoragedComponentType nc = ScaleOutPhase
       then lift (setLastConfig e old new)
       else if \<not> PodTemplateEqual e new old then ret new
       else lift (update_done GraphdComponentType nc) \<bind> ok (\<lambda>d.
              if d then ret new else advance_partition e GraphdComponentType nc old new))"

definition metad_Update :: "env \<Rightarrow> nebula_cluster \<Rightarrow> workload \<Rightarrow> workload \<Rightarrow> workload io" where
  "metad_Update e nc old new =
     lift (deref (cs_replicas (spec_of MetadComponentType nc))) \<bind> ok (\<lambda>replicas.
       if replicas = 0 then ret new
       else if \<not> PodTemplateEqual e new old then ret new
       else lift (update_done MetadComponentType nc) \<bind> ok (\<lambda>d.
              if d then ret new else advance_partition e MetadComponentType nc old new))"

section \<open>Moving the leaders off a storage host\<close>

abbreviation TransLeaderBeginTime :: string where "TransLeaderBeginTime \<equiv> ''transLeaderBeginTime''"
abbreviation minute :: int where "minute \<equiv> 60000000000"
abbreviation second_ns :: int where "second_ns \<equiv> 1000000000"

definition TransLeaderTimeout :: int where "TransLeaderTimeout = 30 * minute"
definition BalanceLeaderInterval :: int where "BalanceLeaderInterval = 15"
definition BalanceWaitingTime :: int where "BalanceWaitingTime = 30"

definition readyToUpdate :: "env \<Rightarrow> string \<Rightarrow> pod \<Rightarrow> bool io" where
  "readyToUpdate e leaderHost updatePod =
     GetLeaderCount e leaderHost \<bind> handle (\<lambda>_. ret False) (\<lambda>count.
       if count = 0 then ret True
       else (case map_of (om_annotations (pd_meta updatePod)) TransLeaderBeginTime of
               None \<Rightarrow> ret False
             | Some timeStr \<Rightarrow>
                 (case e_parse_time e timeStr of
                    None \<Rightarrow> ret False
                  | Some begin_time \<Rightarrow> now e \<bind> ok (\<lambda>t. ret (t > begin_time + TransLeaderTimeout)))))"

fun peer_index :: "string \<Rightarrow> host_addr list \<Rightarrow> nat \<Rightarrow> nat option" where
  "peer_index leaderHost [] i = None"
| "peer_index leaderHost (p # ps) i = (if fst p = leaderHost then Some i else peer_index leaderHost ps (Suc i))"

definition getNewLeaderFromPeers :: "string \<Rightarrow> host_addr list \<Rightarrow> host_addr option" where
  "getNewLeaderFromPeers leaderHost peers =
     (case peer_index leaderHost peers 0 of None \<Rightarrow> None | Some i \<Rightarrow> Some (peers ! ((i + 1) mod length peers)))"

definition transLeader :: "env \<Rightarrow> int \<Rightarrow> int \<Rightarrow> host_addr option \<Rightarrow> unit io" where
  "transLeader e spaceID partID newLeader =
     (case newLeader of
        None \<Rightarrow> panic
      | Some leader \<Rightarrow>
          TransLeader e spaceID partID leader \<bind> ok (\<lambda>host.
            if host \<noteq> '''' then TransLeader e spaceID partID (host, snd leader) \<bind> ok (\<lambda>_. ret ()) else ret ()))"

definition with_storage :: "env \<Rightarrow> string \<Rightarrow> unit io \<Rightarrow> unit io" where
  "with_storage e endpoint m =
     NewStorageClient e [endpoint] \<bind> ok (\<lambda>_.
       m \<bind> (\<lambda>r. send (e_done e) StorageClose \<bind> (\<lambda>_. State_Monad.return r)))"

definition admin_endpoint :: "env \<Rightarrow> nebula_cluster \<Rightarrow> string \<Rightarrow> string" where
  "admin_endpoint e nc host = host @ '':'' @ show_int (comp_GetPort StoragedComponentType nc ''admin'')"

definition led_by :: "string \<Rightarrow> part_item \<Rightarrow> bool" where
  "led_by host p \<longleftrightarrow> (case pa_leader p of None \<Rightarrow> False | Some l \<Rightarrow> fst l = host)"

definition move_part :: "env \<Rightarrow> string \<Rightarrow> int \<Rightarrow> part_item \<Rightarrow> unit io" where
  "move_part e host spaceID p =
     (if led_by host p then transLeader e spaceID (pa_id p) (getNewLeaderFromPeers host (pa_peers p)) else ret ())"

text \<open>A worker of a group: its error is collected.\<close>

definition collect :: "unit io \<Rightarrow> unit \<Rightarrow> (unit \<times> go_err option) io" where
  "collect m = (\<lambda>_. m \<bind> handle (\<lambda>x. ret ((), Some x)) (\<lambda>_. ret ((), None)))"

definition concurrentTransLeader :: "env \<Rightarrow> nebula_cluster \<Rightarrow> int \<Rightarrow> unit io" where
  "concurrentTransLeader e nc ordinal =
     (let host = comp_GetPodFQDN (e_getenv e) StoragedComponentType nc ordinal
      in GetSpaceParts e \<bind> ok (\<lambda>spaceItems.
           run_workers (\<lambda>(spaceID, partItems). collect (
               run_workers (\<lambda>p. collect (
                   if led_by host p then with_storage e (admin_endpoint e nc host) (move_part e host spaceID p) else ret ()))
                 partItems () [] \<bind> ok group_wait))
             spaceItems () [] \<bind> ok group_wait))"

definition transLeaderIfNecessary :: "env \<Rightarrow> nebula_cluster \<Rightarrow> int \<Rightarrow> unit io" where
  "transLeaderIfNecessary e nc ordinal =
     (if ConcurrentTransfer nc then concurrentTransLeader e nc ordinal
      else (let host = comp_GetPodFQDN (e_getenv e) StoragedComponentType nc ordinal
            in GetSpaceParts e \<bind> ok (\<lambda>spaceItems.
                 with_storage e (admin_endpoint e nc host)
                   (for_each (\<lambda>(spaceID, partItems). for_each (move_part e host spaceID) partItems) spaceItems))))"

text \<open>The pod is marked with the time its leaders are first moved.\<close>

definition mark_trans :: "env \<Rightarrow> pod \<Rightarrow> pod io" where
  "mark_trans e updatePod =
     (if has_key (om_annotations (pd_meta updatePod)) TransLeaderBeginTime then ret updatePod
      else now e \<bind> ok (\<lambda>t.
             let p = updatePod\<lparr>pd_meta := (pd_meta updatePod)\<lparr>om_annotations :=
                       AList.update TransLeaderBeginTime (e_rfc3339 e t) (om_annotations (pd_meta updatePod))\<rparr>\<rparr>
             in UpdatePod e p \<bind> ok (\<lambda>_. ret p)))"

definition no_transfer_needed :: "nebula_cluster \<Rightarrow> bool \<Rightarrow> bool" where
  "no_transfer_needed nc is_empty \<longleftrightarrow>
     is_empty \<or> deref_or 0 (cs_replicas (spec_of StoragedComponentType nc)) < 3 \<or> IsForceUpdateEnabled nc"

definition updateStoragedPod :: "env \<Rightarrow> nebula_cluster \<Rightarrow> int \<Rightarrow> workload \<Rightarrow> bool \<Rightarrow> workload io" where
  "updateStoragedPod e nc ordinal new is_empty =
     GetPod e (nc_ns nc) (comp_GetPodName StoragedComponentType nc ordinal) \<bind> ok (\<lambda>updatePod.
       if no_transfer_needed nc is_empty then ret (setPartition new ordinal)
       else mark_trans e updatePod \<bind> ok (\<lambda>updatePod.
            readyToUpdate e (comp_GetPodFQDN (e_getenv e) StoragedComponentType nc ordinal) updatePod \<bind> ok (\<lambda>ready.
              if ready then ret (setPartition new ordinal)
              else transLeaderIfNecessary e nc ordinal \<bind> ok (\<lambda>_.
                     throw (ErrReconcile ''storaged pod is transferring leader'')))))"

definition restart_with_spaces :: "env \<Rightarrow> nebula_cluster \<Rightarrow> int \<Rightarrow> bool \<Rightarrow> unit io" where
  "restart_with_spaces e nc ordinal is_empty =
     (let updatePodName = comp_GetPodName StoragedComponentType nc ordinal
      in if no_transfer_needed nc is_empty then DeletePod e (nc_ns nc) updatePodName False
         else GetPod e (nc_ns nc) updatePodName \<bind> ok (\<lambda>updatePod.
              mark_trans e updatePod \<bind> ok (\<lambda>updatePod.
              readyToUpdate e (comp_GetPodFQDN (e_getenv e) StoragedComponentType nc ordinal) updatePod \<bind> ok (\<lambda>ready.
                if ready then DeletePod e (nc_ns nc) updatePodName False
                else transLeaderIfNecessary e nc ordinal \<bind> ok (\<lambda>_.
                       throw (ErrReconcile ''storaged pod is transferring leader''))))))"

definition storaged_RestartPod :: "env \<Rightarrow> int \<Rightarrow> unit op" where
  "storaged_RestartPod e ordinal =
     get_nc \<bind> ok (\<lambda>nc.
       with_meta e (meta_endpoints e nc)
         (world (ListSpaces e \<bind> ok (\<lambda>spaces. restart_with_spaces e nc ordinal (spaces = [])))))"

section \<open>Balancing the leaders afterwards\<close>

definition set_balanced_time :: "int option \<Rightarrow> unit op" where
  "set_balanced_time t = set_nc (map_sg (sg_last_balanced_update (\<lambda>_. t)))"

definition balance_space_leader :: "env \<Rightarrow> int \<times> string \<Rightarrow> unit op" where
  "balance_space_leader e = (\<lambda>(spaceID, name).
     get_nc \<bind> ok (\<lambda>nc.
       if contains (sg_balanced_spaces (sg_of nc)) spaceID then ret ()
       else (case sg_last_balanced (sg_of nc) of
               None \<Rightarrow>
                 world (now e) \<bind> ok (\<lambda>t.
                 set_balanced_time (Some (t + BalanceWaitingTime * second_ns)) \<bind> ok (\<lambda>_.
                 throw (ErrReconcile ''waiting for the partition leaders balancing'')))
             | Some lastBalancedTime \<Rightarrow>
                 world (now e) \<bind> ok (\<lambda>t.
                   if t < lastBalancedTime + BalanceLeaderInterval * second_ns
                   then throw (ErrReconcile ''partition leader is balancing'')
                   else world (IsLeaderBalanced e name) \<bind>
                     handle (\<lambda>_. throw (ErrReconcile ''failed to check if the leader is balanced'')) (\<lambda>balanced.
                       if balanced then set_nc (map_sg (sg_balanced_spaces_update (append_space spaceID)))
                       else world (BalanceLeader e spaceID) \<bind> ok (\<lambda>_.
                            world (now e) \<bind> ok (\<lambda>t.
                            set_balanced_time (Some t) \<bind> ok (\<lambda>_.
                            throw (ErrReconcile ''space need to be synced''))))))))) "

definition balanceLeader :: "env \<Rightarrow> (int \<times> string) list \<Rightarrow> unit op" where
  "balanceLeader e spaces =
     set_nc (map_sg (sg_balanced_spaces_update start_list)) \<bind> ok (\<lambda>_.
     for_each (balance_space_leader e) spaces)"

definition updateRunningPhase :: "env \<Rightarrow> (int \<times> string) list \<Rightarrow> unit op" where
  "updateRunningPhase e spaces =
     get_nc \<bind> ok (\<lambda>nc.
       if spaces = [] \<or> deref_or 0 (cs_replicas (spec_of StoragedComponentType nc)) = 1
       then set_storaged_phase RunningPhase
       else balanceLeader e spaces \<bind> ok (\<lambda>_.
            set_nc (map_sg (\<lambda>s. s\<lparr>sg_balanced_spaces := None, sg_last_balanced := None\<rparr>)) \<bind> ok (\<lambda>_.
            set_storaged_phase RunningPhase)))"

definition storaged_Balance :: "env \<Rightarrow> unit op" where
  "storaged_Balance e =
     get_nc \<bind> ok (\<lambda>nc.
       with_meta e (meta_endpoints e nc)
         (world (ListSpaces e) \<bind> ok (\<lambda>spaces.
            if spaces = [] then ret ()
            else balanceLeader e spaces \<bind> ok (\<lambda>_.
                 set_nc (map_sg (sg_balanced_spaces_update (\<lambda>_. None))) \<bind> ok (\<lambda>_.
                 write_status e)))))"

section \<open>Storaged\<close>

definition update_storaged_pods :: "env \<Rightarrow> workload \<Rightarrow> workload \<Rightarrow> workload op" where
  "update_storaged_pods e old new =
     get_nc \<bind> ok (\<lambda>nc.
     world (ListSpaces e) \<bind> ok (\<lambda>spaces.
     lift (deref (GetReplicas old)) \<bind> ok (\<lambda>replicas.
     world (next_pod e StoragedComponentType nc replicas) \<bind> ok (\<lambda>index.
       if index \<ge> 0 then world (updateStoragedPod e nc index new (spaces = []))
       else updateRunningPhase e spaces \<bind> ok (\<lambda>_. ret new)))))"

definition storaged_Update :: "env \<Rightarrow> workload \<Rightarrow> workload \<Rightarrow> workload op" where
  "storaged_Update e old new =
     get_nc \<bind> ok (\<lambda>nc.
       if deref_or 0 (cs_replicas (spec_of StoragedComponentType nc)) = 0 then ret new
       else if GetPhase StoragedComponentType nc = ScaleInPhase \<or> GetPhase StoragedComponentType nc = ScaleOutPhase
               \<or> GetPhase MetadComponentType nc = UpdatePhase
       then lift (setLastConfig e old new)
       else if \<not> PodTemplateEqual e new old then ret new
       else lift (update_done StoragedComponentType nc) \<bind> ok (\<lambda>d.
              if d then ret new
              else lift (deref (wl_partition old)) \<bind> ok (\<lambda>partition.
                   with_meta e (meta_endpoints e nc) (update_storaged_pods e old (setPartition new partition)))))"

section \<open>One pod at a time, from the top\<close>

text \<open>
  \<open>seen_updated\<close>: this pod was read with the new revision and running; \<open>seen_outdated\<close>: with
  another revision.
\<close>

definition seen_updated :: "env \<Rightarrow> component_type \<Rightarrow> nebula_cluster \<Rightarrow> call list \<Rightarrow> int \<Rightarrow> bool" where
  "seen_updated e typ nc h j \<longleftrightarrow> (\<exists>a t p. h = a @ GetPodC (nc_ns nc) (comp_GetPodName typ nc j) # t
     \<and> e_pod e (GetPodC (nc_ns nc) (comp_GetPodName typ nc j) # t) = Ok p
     \<and> map_of (om_labels (pd_meta p)) ControllerRevisionHashLabelKey = Some (GetUpdateRevision typ nc)
     \<and> pd_phase p = ''Running'')"

definition seen_outdated :: "env \<Rightarrow> component_type \<Rightarrow> nebula_cluster \<Rightarrow> call list \<Rightarrow> int \<Rightarrow> bool" where
  "seen_outdated e typ nc h j \<longleftrightarrow> (\<exists>a t p. h = a @ GetPodC (nc_ns nc) (comp_GetPodName typ nc j) # t
     \<and> e_pod e (GetPodC (nc_ns nc) (comp_GetPodName typ nc j) # t) = Ok p
     \<and> map_of (om_labels (pd_meta p)) ControllerRevisionHashLabelKey \<noteq> Some (GetUpdateRevision typ nc))"

lemma seen_later [intro]:
  "seen_updated e typ nc h j \<Longrightarrow> seen_updated e typ nc (new @ h) j"
  "seen_outdated e typ nc h j \<Longrightarrow> seen_outdated e typ nc (new @ h) j"
  unfolding seen_updated_def seen_outdated_def by (metis append.assoc)+

text \<open>The choice of the next pod, in these terms.\<close>

definition chosen :: "env \<Rightarrow> component_type \<Rightarrow> nebula_cluster \<Rightarrow> nat \<Rightarrow> call list \<Rightarrow> int \<Rightarrow> bool" where
  "chosen e typ nc n h i \<longleftrightarrow> - 1 \<le> i \<and> i < int n \<and> (\<forall>j. i < j \<and> 0 \<le> j \<and> j < int n \<longrightarrow> seen_updated e typ nc h j)
     \<and> (0 \<le> i \<longrightarrow> seen_outdated e typ nc h i)"

lemma getNextUpdatePod_chosen:
  "wp (getNextUpdatePod e typ nc n) (\<lambda>r h'. (\<forall>i. r = Ok i \<longrightarrow> chosen e typ nc n h' i) \<and> (\<exists>new. h' = new @ h)) h"
proof (induction n arbitrary: h)
  case 0
  then show ?case by (auto simp: wp_return chosen_def)
next
  case (Suc n)
  let ?c = "GetPodC (nc_ns nc) (comp_GetPodName typ nc (int n))"
  have top: "0 \<le> j \<Longrightarrow> j < int (Suc n) \<Longrightarrow> \<not> j < int n \<Longrightarrow> j = int n" for j by linarith
  have outdated: "chosen e typ nc (Suc n) (?c # h) (int n)"
    if "e_pod e (?c # h) = Ok p" "map_of (om_labels (pd_meta p)) ControllerRevisionHashLabelKey \<noteq> Some (GetUpdateRevision typ nc)" for p
    using that by (auto simp: chosen_def seen_outdated_def intro: exI [of _ "[]"])
  have rest: "wp (getNextUpdatePod e typ nc n)
      (\<lambda>r h'. (\<forall>i. r = Ok i \<longrightarrow> chosen e typ nc (Suc n) h' i) \<and> (\<exists>new. h' = new @ h)) (?c # h)"
    if "e_pod e (?c # h) = Ok p" "map_of (om_labels (pd_meta p)) ControllerRevisionHashLabelKey = Some (GetUpdateRevision typ nc)"
      "pd_phase p = ''Running''" for p
  proof (rule wp_mono [OF Suc.IH])
    fix r h'
    assume h': "(\<forall>i. r = Ok i \<longrightarrow> chosen e typ nc n h' i) \<and> (\<exists>new. h' = new @ ?c # h)"
    have "seen_updated e typ nc (?c # h) (int n)"
      using that unfolding seen_updated_def by (intro exI [of _ "[]"] exI [of _ h] exI [of _ p]) simp
    then have up: "seen_updated e typ nc h' (int n)" using h' seen_later(1) by blast
    show "(\<forall>i. r = Ok i \<longrightarrow> chosen e typ nc (Suc n) h' i) \<and> (\<exists>new. h' = new @ h)"
      using h' up by (force simp: chosen_def dest: top)
  qed
  show ?case
    using outdated rest by (auto simp: GetPod_def wp_simps split: outcome.splits option.splits intro!: exI [of _ "[?c]"])
qed

lemma next_pod_chosen: "wp (next_pod e typ nc n) (\<lambda>r h'. \<forall>i. r = Ok i \<longrightarrow> chosen e typ nc (nat n) h' i) h"
  unfolding next_pod_def wp_bind
  by (rule wp_mono [OF getNextUpdatePod_chosen]) (auto simp: wp_simps split: outcome.splits)

text \<open>The partition the update arrives at, for the three components.\<close>

definition next_partition :: "env \<Rightarrow> component_type \<Rightarrow> nebula_cluster \<Rightarrow> workload \<Rightarrow> workload \<Rightarrow> call list \<Rightarrow> workload \<Rightarrow> bool" where
  "next_partition e typ nc old new h w \<longleftrightarrow> (\<exists>p n i. wl_partition old = Some p \<and> GetReplicas old = Some n
     \<and> chosen e typ nc (nat n) h i \<and> w = setPartition new (if 0 \<le> i then i else p))"

lemma setPartition_twice [simp]: "setPartition (setPartition w p) i = setPartition w i"
  by (simp add: SetUpdatePartition_def)

lemma advance_partition_next:
  "wp (advance_partition e typ nc old new) (\<lambda>r h'. \<forall>w. r = Ok w \<longrightarrow> next_partition e typ nc old new h' w) h"
proof (cases "wl_partition old")
  case (Some p)
  show ?thesis
  proof (cases "GetReplicas old")
    case n: (Some n)
    show ?thesis
      by (simp add: advance_partition_def Some n Let_def wp_bind wp_lift wp_ok, rule wp_mono [OF next_pod_chosen])
         (use Some n in \<open>auto simp: wp_simps next_partition_def split: outcome.split\<close>)
  qed (use Some in \<open>simp add: advance_partition_def Let_def wp_simps\<close>)
qed (simp add: advance_partition_def wp_simps)


definition updating_cluster :: nebula_cluster where
  "updating_cluster = SetPhase GraphdComponentType UpdatePhase (sample_cluster 3 3)"

definition half_updated_world :: env where
  "half_updated_world = empty_world\<lparr>e_decode := \<lambda>_. Some (spec_of_workload (sample_sts ''b'')),
     e_pod := \<lambda>h. Ok (running_pod\<lparr>pd_meta := (plain_meta ''ns'' ''p'')\<lparr>om_labels :=
        [(ControllerRevisionHashLabelKey, if length h = 1 then ''r'' else ''old'')]\<rparr>\<rparr>)\<rparr>"

definition recorded_sts :: workload where
  "recorded_sts = wl_set_annotations [(AnnLastAppliedConfigKey, ''json'')] (sample_sts ''b'')"


section \<open>A storage pod is replaced only when it may be\<close>

text \<open>
  The reasons that let a storage pod be replaced although there is data: the meta service
  was asked in this run and no partition is led by the host, or the leaders have been moving
  for longer than the timeout, counted from the mark on the pod.
\<close>

definition no_leaders :: "env \<Rightarrow> string \<Rightarrow> call list \<Rightarrow> bool" where
  "no_leaders e host h \<longleftrightarrow> (\<exists>a h1 h2. run_state (GetLeaderCount e host) h1 = (Ok 0, h2) \<and> h = a @ h2)"

definition stamped :: "env \<Rightarrow> call \<Rightarrow> call list \<Rightarrow> string \<Rightarrow> bool" where
  "stamped e rd h timeStr \<longleftrightarrow> (\<exists>a t p. e_pod e (rd # t) = Ok p
     \<and> (h = a @ rd # t \<and> map_of (om_annotations (pd_meta p)) TransLeaderBeginTime = Some timeStr
        \<or> h = a @ Clock # rd # t \<and> \<not> has_key (om_annotations (pd_meta p)) TransLeaderBeginTime
          \<and> timeStr = e_rfc3339 e (e_clock e (Clock # rd # t))))"

definition transfer_timed_out :: "env \<Rightarrow> call \<Rightarrow> call list \<Rightarrow> bool" where
  "transfer_timed_out e rd h \<longleftrightarrow> (\<exists>timeStr begin_time t. stamped e rd t timeStr \<and> e_parse_time e timeStr = Some begin_time
     \<and> h = Clock # t \<and> begin_time + TransLeaderTimeout < e_clock e h)"

lemma GetLeaderCount_emits: "emits (\<lambda>c. \<exists>r. c = MetaRpc r \<or> (\<exists>a. c = MetaReconnect a)) (GetLeaderCount e host)"
  unfolding GetLeaderCount_def GetSpaceParts_def ListSpaces_def GetSpace_def ListParts_def
  by (intro emits) (auto simp: is_meta_def intro!: emits)

lemma wp_itself: "wp m (\<lambda>r s'. run_state m s = (r, s')) s"
  by (simp add: wp_def split: prod.splits)

text \<open>What \<open>readyToUpdate\<close> looked at.\<close>

lemma readyToUpdate_reason:
  "wp (readyToUpdate e host p) (\<lambda>r h'. r = Ok True \<longrightarrow> no_leaders e host h'
     \<or> (\<exists>timeStr begin_time t. map_of (om_annotations (pd_meta p)) TransLeaderBeginTime = Some timeStr
        \<and> e_parse_time e timeStr = Some begin_time \<and> (\<exists>new. t = new @ h) \<and> h' = Clock # t
        \<and> begin_time + TransLeaderTimeout < e_clock e h')) h"
proof -
  have "wp (GetLeaderCount e host) (\<lambda>r h'. run_state (GetLeaderCount e host) h = (r, h')
      \<and> (\<exists>new. h' = new @ h \<and> (\<forall>c\<in>set new. \<exists>r. c = MetaRpc r \<or> (\<exists>a. c = MetaReconnect a)))) h"
    by (intro wp_conj wp_itself emitsD GetLeaderCount_emits)
  then show ?thesis
    unfolding readyToUpdate_def wp_bind
    by (rule wp_mono)
       (auto simp: wp_simps no_leaders_def split: outcome.split option.split intro: exI [of _ "[]"])
qed

text \<open>The mark on the pod, as it is read or as it is written now.\<close>

lemma mark_trans_stamped:
  assumes p: "e_pod e (rd # t) = Ok p"
  shows "wp (mark_trans e p) (\<lambda>r h'. \<forall>q. r = Ok q \<longrightarrow> (\<forall>new timeStr.
     map_of (om_annotations (pd_meta q)) TransLeaderBeginTime = Some timeStr \<longrightarrow> stamped e rd (new @ h') timeStr)) (rd # t)"
proof (cases "has_key (om_annotations (pd_meta p)) TransLeaderBeginTime")
  case True
  with p show ?thesis
    unfolding mark_trans_def by (fastforce simp: wp_simps stamped_def)
next
  case False
  let ?ts = "e_rfc3339 e (e_clock e (Clock # rd # t))"
  have stamp: "stamped e rd (new @ Clock # rd # t) ?ts" for new
    unfolding stamped_def using p False by blast
  let ?q = "p\<lparr>pd_meta := (pd_meta p)\<lparr>om_annotations := AList.update TransLeaderBeginTime ?ts (om_annotations (pd_meta p))\<rparr>\<rparr>"
  have "wp (UpdatePod e ?q) (\<lambda>_ h'. \<exists>new. h' = new @ Clock # rd # t) (Clock # rd # t)"
    by (rule wp_mono [OF emitsD [OF pod_update.calls]]) blast
  then have "wp (UpdatePod e ?q) (\<lambda>r h'. wp (ok (\<lambda>_. ret ?q) r) (\<lambda>r h'. \<forall>q. r = Ok q \<longrightarrow> (\<forall>new timeStr.
     map_of (om_annotations (pd_meta q)) TransLeaderBeginTime = Some timeStr \<longrightarrow> stamped e rd (new @ h') timeStr)) h') (Clock # rd # t)"
  proof (rule wp_mono)
    fix r h'
    assume "\<exists>new. h' = new @ Clock # rd # t"
    then obtain k where h': "h' = k @ Clock # rd # t" by blast
    have "stamped e rd (new @ h') ?ts" for new using stamp [of "new @ k"] h' by simp
    then show "wp (ok (\<lambda>_. ret ?q) r) (\<lambda>r h'. \<forall>q. r = Ok q \<longrightarrow> (\<forall>new timeStr.
       map_of (om_annotations (pd_meta q)) TransLeaderBeginTime = Some timeStr \<longrightarrow> stamped e rd (new @ h') timeStr)) h'"
      by (auto simp: wp_simps update_conv split: outcome.split)
  qed
  with False show ?thesis
    by (simp add: mark_trans_def wp_bind wp_now wp_ok [of "\<lambda>t. let _ = _ t in _ t"] wp_ok [of _ "Ok _"] Let_def)
qed



definition no_leader_world :: env where
  "no_leader_world = empty_world\<lparr>e_pod := \<lambda>_. Ok running_pod, e_meta := \<lambda>_. Ok
     \<lparr>mr_code = SUCCEEDED, mr_leader = None, mr_space = \<lparr>sp_id = 0, sp_partition_num = 0, sp_replica_factor = 0\<rparr>,
      mr_spaces = [], mr_hosts = [], mr_parts = [], mr_job_id = 0, mr_job_desc = [], mr_services = [], mr_part_hosts = []\<rparr>\<rparr>"


end
