(* ===== verification/Failover.thy ===== *)
theory Failover
  imports Updaters
begin

text \<open>
  Automatic failover: \<open>failover_helper.go\<close>, \<open>graphd_failover.go\<close>, \<open>metad_failover.go\<close> and
  \<open>storaged_failover.go\<close> of \<open>pkg/controller/component\<close>, and \<open>pkg/util/condition/node_condition.go\<close>.
  The three managers share their code up to the status field, the label and, for storaged, what
  a missing pod means; the shared bodies take the component as a parameter and each manager is
  defined from them. The loops range over the map of failure hosts: here in the order of the
  association list. The validation of a label selector is part of the request that uses it.
\<close>

section \<open>Nodes (node_condition.go)\<close>

fun filterOutNodeConditionByType :: "(string \<times> string) list \<Rightarrow> string \<Rightarrow> (string \<times> string) option" where
  "filterOutNodeConditionByType [] t = None"
| "filterOutNodeConditionByType (c # cs) t = (if fst c = t then Some c else filterOutNodeConditionByType cs t)"

definition filterOutNodeConditionByStatus :: "(string \<times> string) list \<Rightarrow> string \<Rightarrow> (string \<times> string) list" where
  "filterOutNodeConditionByStatus conditions s = filter (\<lambda>c. snd c = s) conditions"

definition GetNodeTrueConditions :: "(string \<times> string) list \<Rightarrow> (string \<times> string) list" where
  "GetNodeTrueConditions conditions = filterOutNodeConditionByStatus conditions ''True''"

definition getNodeReadyCondition :: "(string \<times> string) list \<Rightarrow> (string \<times> string) option" where
  "getNodeReadyCondition conditions = filterOutNodeConditionByType conditions ''Ready''"

definition IsNodeReadyFalseOrUnknown :: "(string \<times> string) list \<Rightarrow> bool" where
  "IsNodeReadyFalseOrUnknown conditions =
     (case getNodeReadyCondition conditions of
        None \<Rightarrow> False
      | Some c \<Rightarrow> snd c = ''False'' \<or> snd c = ''Unknown'')"

section \<open>Helpers (failover_helper.go)\<close>

abbreviation PVCProtectionFinalizer :: string where "PVCProtectionFinalizer \<equiv> ''kubernetes.io/pvc-protection''"

definition RestartTolerancePeriod :: int where "RestartTolerancePeriod = 60000000000"

definition getPodOrdinal :: "string \<Rightarrow> int" where
  "getPodOrdinal name =
     (let o' = (case split_last CHR ''-'' name of None \<Rightarrow> name | Some (_, b) \<Rightarrow> b)
      in case parse_int 32 o' of Some i \<Rightarrow> i | None \<Rightarrow> -1)"

text \<open>A pod that does not exist is \<open>nil\<close>, claims that do not exist are none.\<close>

definition find_pod :: "env \<Rightarrow> nebula_cluster \<Rightarrow> string \<Rightarrow> pod option io" where
  "find_pod e nc podName =
     GetPod e (nc_ns nc) podName \<bind>
       handle (\<lambda>x. if x = ErrNotFound then ret None else throw x) (\<lambda>p. ret (Some p))"

definition pod_selector :: "component_type \<Rightarrow> nebula_cluster \<Rightarrow> string \<Rightarrow> strmap" where
  "pod_selector typ nc podName =
     AList.update AnnPodNameKey podName (label_Component (type_String typ) (label_Cluster (nc_name nc) label_New))"

definition getPodAndPvcs :: "env \<Rightarrow> component_type \<Rightarrow> nebula_cluster \<Rightarrow> string \<Rightarrow> (pod option \<times> pvc list) io" where
  "getPodAndPvcs e typ nc podName =
     find_pod e nc podName \<bind> ok (\<lambda>p.
     ListPVCs e (nc_ns nc) (pod_selector typ nc podName) \<bind>
       handle (\<lambda>x. if x = ErrNotFound then ret (p, []) else throw x) (\<lambda>pvcs. ret (p, pvcs)))"

definition isNodeDown :: "node \<Rightarrow> bool" where
  "isNodeDown n = IsNodeReadyFalseOrUnknown (nd_conditions n)"

definition getWorkloadReplicas :: "workload_status option \<Rightarrow> int" where
  "getWorkloadReplicas w = (case w of None \<Rightarrow> 0 | Some s \<Rightarrow> ws_replicas s)"

section \<open>Failure hosts\<close>

definition failures :: "component_type \<Rightarrow> nebula_cluster \<Rightarrow> (string \<times> failure_host) list" where
  "failures typ nc = deref_or [] (GetFailureHosts typ nc)"

definition set_failure :: "component_type \<Rightarrow> string \<Rightarrow> failure_host \<Rightarrow> unit op" where
  "set_failure typ podName fh =
     set_nc (\<lambda>nc. SetFailureHosts typ (Some (AList.update podName fh (failures typ nc))) nc)"

text \<open>The first step: the pod of a failure host is deleted once, so that it is started again.\<close>

definition restart_host :: "env \<Rightarrow> component_type \<Rightarrow> nebula_cluster \<Rightarrow> string \<times> failure_host \<Rightarrow> unit op" where
  "restart_host e typ nc = (\<lambda>(podName, fh).
     if fh_restarted fh then ret ()
     else world (find_pod e nc podName) \<bind> ok (\<lambda>p.
       case p of
         None \<Rightarrow> ret ()
       | Some pod \<Rightarrow>
           if isPodPending pod then ret ()
           else world (GetNode e (pd_node pod)) \<bind> ok (\<lambda>node.
             let fh = (if isNodeDown node then fh\<lparr>fh_node_down := True\<rparr> else fh)
             in world (DeletePod e (nc_ns nc) podName True) \<bind> ok (\<lambda>_.
                set_failure typ podName (fh\<lparr>fh_restarted := True\<rparr>) \<bind> ok (\<lambda>_.
                throw (ErrReconcile ''try to restart failure pod for recovery''))))))"

definition tryRestartPod :: "env \<Rightarrow> component_type \<Rightarrow> unit op" where
  "tryRestartPod e typ = get_nc \<bind> ok (\<lambda>nc. for_each (restart_host e typ nc) (failures typ nc))"

text \<open>Then the restarted pods are given time. The code asks a pod that is gone for its phase.\<close>

definition tolerate_host :: "env \<Rightarrow> nebula_cluster \<Rightarrow> string \<times> failure_host \<Rightarrow> string list \<Rightarrow> string list io" where
  "tolerate_host e nc = (\<lambda>(podName, fh) readyPods.
     if fh_rebuilt fh then ret readyPods
     else find_pod e nc podName \<bind> ok (\<lambda>p.
       case p of
         None \<Rightarrow> panic
       | Some pod \<Rightarrow>
           if isPodTerminating pod then throw (ErrReconcile ''failure pod is deleting'')
           else if isPodHealthy pod then ret (readyPods @ [podName])
           else now e \<bind> ok (\<lambda>t.
                if t < om_created (pd_meta pod) + RestartTolerancePeriod
                then throw (ErrReconcile ''waiting failure pod ready in tolerance period'')
                else ret readyPods)))"

definition toleratePods :: "env \<Rightarrow> component_type \<Rightarrow> string list op" where
  "toleratePods e typ = get_nc \<bind> ok (\<lambda>nc. world (fold_go (tolerate_host e nc) (failures typ nc) []))"

text \<open>Then the pod and the volume claims recorded for it are deleted, one host at a time.\<close>

definition delete_recorded :: "env \<Rightarrow> nebula_cluster \<Rightarrow> failure_host \<Rightarrow> pvc list \<Rightarrow> unit io" where
  "delete_recorded e nc fh pvcs =
     for_each (\<lambda>p. if om_uid (pc_meta p) \<in> set (fh_pvcs fh) \<and> om_deletion (pc_meta p) = None
                   then DeletePVC e (nc_ns nc) (om_name (pc_meta p)) else ret ()) pvcs"

definition rebuild_host :: "env \<Rightarrow> component_type \<Rightarrow> unit op \<Rightarrow> nebula_cluster \<Rightarrow> string \<times> failure_host \<Rightarrow> unit op" where
  "rebuild_host e typ missing nc = (\<lambda>(podName, fh).
     if fh_rebuilt fh then ret ()
     else world (getPodAndPvcs e typ nc podName) \<bind> ok (\<lambda>(p, pvcs).
       case p of
         None \<Rightarrow> missing
       | Some pod \<Rightarrow>
           world (if isPodTerminating pod then ret () else DeletePod e (nc_ns nc) podName True) \<bind> ok (\<lambda>_.
           world (delete_recorded e nc fh pvcs) \<bind> ok (\<lambda>_.
           world (now e) \<bind> ok (\<lambda>t.
           set_failure typ podName (fh\<lparr>fh_rebuilt := True, fh_deleted := t\<rparr>) \<bind> ok (\<lambda>_.
           throw (ErrReconcile ''try to delete failure pod for rebuilding'')))))))"

definition deleteFailurePodAndPVC :: "env \<Rightarrow> component_type \<Rightarrow> unit op \<Rightarrow> unit op" where
  "deleteFailurePodAndPVC e typ missing =
     get_nc \<bind> ok (\<lambda>nc. for_each (rebuild_host e typ missing nc) (failures typ nc))"

text \<open>Last, what keeps a rebuilt pod from starting is removed.\<close>

fun stuck_pvc :: "failure_host \<Rightarrow> pvc list \<Rightarrow> pvc option" where
  "stuck_pvc fh [] = None"
| "stuck_pvc fh (p # ps) =
     (if om_uid (pc_meta p) \<in> set (fh_pvcs fh) \<and> om_deletion (pc_meta p) \<noteq> None \<and> om_finalizers (pc_meta p) \<noteq> []
      then Some p else stuck_pvc fh ps)"

definition check_host :: "env \<Rightarrow> component_type \<Rightarrow> nebula_cluster \<Rightarrow> string \<times> failure_host \<Rightarrow> unit io" where
  "check_host e typ nc = (\<lambda>(podName, fh).
     getPodAndPvcs e typ nc podName \<bind> ok (\<lambda>(p, pvcs).
       case p of
         None \<Rightarrow> throw (ErrPlain ''rebuilt pod not found'')
       | Some pod \<Rightarrow>
           (case stuck_pvc fh pvcs of
              Some c \<Rightarrow> UpdateFinalizer_remove e c PVCProtectionFinalizer \<bind> ok (\<lambda>_.
                         throw (ErrReconcile ''waiting for PVC finalizer updated''))
            | None \<Rightarrow>
                if isPodConditionScheduledTrue (pd_conditions pod) \<and> isPodPending pod
                then now e \<bind> ok (\<lambda>t.
                       if t > om_created (pd_meta pod) + minute
                       then DeletePod e (nc_ns nc) podName True \<bind> ok (\<lambda>_.
                            throw (ErrReconcile ''pending pod deleted, reschedule''))
                       else ret ())
                else ret ())))"

definition checkPendingPod :: "env \<Rightarrow> component_type \<Rightarrow> unit op" where
  "checkPendingPod e typ = get_nc \<bind> ok (\<lambda>nc. for_each (\<lambda>x. world (check_host e typ nc x)) (failures typ nc))"

definition failover_steps :: "env \<Rightarrow> component_type \<Rightarrow> unit op \<Rightarrow> unit op" where
  "failover_steps e typ missing =
     tryRestartPod e typ \<bind> ok (\<lambda>_.
     toleratePods e typ \<bind> ok (\<lambda>readyPods.
       if readyPods \<noteq> [] then throw (ErrReconcile ''pods are ready after restarted'')
       else deleteFailurePodAndPVC e typ missing \<bind> ok (\<lambda>_.
            checkPendingPod e typ)))"

definition recover_hosts :: "component_type \<Rightarrow> string list \<Rightarrow> unit op" where
  "recover_hosts typ hosts =
     for_each (\<lambda>host. set_nc (\<lambda>nc. SetFailureHosts typ (map_option (AList.delete host) (GetFailureHosts typ nc)) nc)) hosts"

section \<open>The managers\<close>

definition not_found :: "unit op" where
  "not_found = throw (ErrPlain ''failure pod not found, skip'')"

definition graphd_tryRestartPod :: "env \<Rightarrow> unit op" where
  "graphd_tryRestartPod e = tryRestartPod e GraphdComponentType"
definition graphd_toleratePods :: "env \<Rightarrow> string list op" where
  "graphd_toleratePods e = toleratePods e GraphdComponentType"
definition graphd_deleteFailurePodAndPVC :: "env \<Rightarrow> unit op" where
  "graphd_deleteFailurePodAndPVC e = deleteFailurePodAndPVC e GraphdComponentType not_found"
definition graphd_checkPendingPod :: "env \<Rightarrow> unit op" where
  "graphd_checkPendingPod e = checkPendingPod e GraphdComponentType"
definition graphd_Failover :: "env \<Rightarrow> unit op" where
  "graphd_Failover e = failover_steps e GraphdComponentType not_found"
definition graphd_Recovery :: "string list \<Rightarrow> unit op" where
  "graphd_Recovery hosts = recover_hosts GraphdComponentType hosts"

definition metad_tryRestartPod :: "env \<Rightarrow> unit op" where
  "metad_tryRestartPod e = tryRestartPod e MetadComponentType"
definition metad_toleratePods :: "env \<Rightarrow> string list op" where
  "metad_toleratePods e = toleratePods e MetadComponentType"
definition metad_deleteFailurePodAndPVC :: "env \<Rightarrow> unit op" where
  "metad_deleteFailurePodAndPVC e = deleteFailurePodAndPVC e MetadComponentType not_found"
definition metad_checkPendingPod :: "env \<Rightarrow> unit op" where
  "metad_checkPendingPod e = checkPendingPod e MetadComponentType"
definition metad_Failover :: "env \<Rightarrow> unit op" where
  "metad_Failover e = failover_steps e MetadComponentType not_found"
definition metad_Recovery :: "string list \<Rightarrow> unit op" where
  "metad_Recovery hosts = recover_hosts MetadComponentType hosts"

definition storaged_tryRestartPod :: "env \<Rightarrow> unit op" where
  "storaged_tryRestartPod e = tryRestartPod e StoragedComponentType"
definition storaged_toleratePods :: "env \<Rightarrow> string list op" where
  "storaged_toleratePods e = toleratePods e StoragedComponentType"
definition storaged_deleteFailurePodAndPVC :: "env \<Rightarrow> unit op" where
  "storaged_deleteFailurePodAndPVC e = deleteFailurePodAndPVC e StoragedComponentType (ret ())"
definition storaged_checkPendingPod :: "env \<Rightarrow> unit op" where
  "storaged_checkPendingPod e = checkPendingPod e StoragedComponentType"
definition storaged_Recovery :: "string list \<Rightarrow> unit op" where
  "storaged_Recovery hosts = recover_hosts StoragedComponentType hosts"

text \<open>After its pods storaged balances the data of every space.\<close>

definition rebalance :: "env \<Rightarrow> unit op" where
  "rebalance e =
     get_nc \<bind> ok (\<lambda>nc.
       with_meta e (meta_endpoints e nc)
         (world (ListSpaces e) \<bind> ok (\<lambda>spaces.
          (if spaces \<noteq> [] then set_nc (map_sg (sg_balanced_spaces_update start_list)) else ret ()) \<bind> ok (\<lambda>_.
          for_spaces sg_balanced_spaces (\<lambda>s.
            balanceSpace e s \<bind> ok (\<lambda>_.
            world (BalanceLeader e s) \<bind> ok (\<lambda>_.
            set_nc (map_sg (sg_balanced_spaces_update (append_space s)))))) spaces \<bind> ok (\<lambda>_.
          set_nc (map_sg (\<lambda>s. s\<lparr>sg_balanced_spaces := None, sg_last_job := None\<rparr>)))))))"

definition storaged_Failover :: "env \<Rightarrow> unit op" where
  "storaged_Failover e = failover_steps e StoragedComponentType (ret ()) \<bind> ok (\<lambda>_. rebalance e)"


text \<open>The failover manager of a component.\<close>

definition failover :: "env \<Rightarrow> component_type \<Rightarrow> unit op" where
  "failover e typ = (case typ of
       GraphdComponentType \<Rightarrow> graphd_Failover e
     | MetadComponentType \<Rightarrow> metad_Failover e
     | StoragedComponentType \<Rightarrow> storaged_Failover e)"

section \<open>One host at a time\<close>

text \<open>
  \<open>kept\<close>: no pod and no claim is deleted and the record of the failure hosts stays as it is.
  \<open>acts_on host\<close>: only the record of that host changes, only the pod read under that name is
  deleted, and a claim is deleted only when it was listed for that host, is in the set recorded
  when the host failed, and the host is not rebuilt yet.
\<close>

definition harmless :: "call \<Rightarrow> bool" where
  "harmless c \<longleftrightarrow> (\<forall>p g. c \<noteq> DeletePodC p g) \<and> (\<forall>p. c \<noteq> DeletePVCC p)"

definition kept :: "component_type \<Rightarrow> cluster_state \<Rightarrow> cluster_state \<Rightarrow> bool" where
  "kept typ s s' \<longleftrightarrow> (\<exists>new. fst s' = new @ fst s \<and> (\<forall>c\<in>set new. harmless c))
     \<and> failures typ (snd s') = failures typ (snd s) \<and> nc_meta (snd s') = nc_meta (snd s)"

definition listed_claim :: "env \<Rightarrow> component_type \<Rightarrow> nebula_cluster \<Rightarrow> string \<Rightarrow> pvc \<Rightarrow> call list \<Rightarrow> bool" where
  "listed_claim e typ nc host q x \<longleftrightarrow> (\<exists>a t qs. x = a @ ListPVCsC (nc_ns nc) (pod_selector typ nc host) # t
     \<and> e_pvcs e (ListPVCsC (nc_ns nc) (pod_selector typ nc host) # t) = Ok qs \<and> q \<in> set qs)"

definition claim_due :: "env \<Rightarrow> component_type \<Rightarrow> nebula_cluster \<Rightarrow> string \<Rightarrow> call list \<Rightarrow> call list \<Rightarrow> bool" where
  "claim_due e typ nc host h b \<longleftrightarrow> (\<exists>q fh c. (host, fh) \<in> set (failures typ nc) \<and> \<not> fh_rebuilt fh
     \<and> listed_claim e typ nc host q (b @ h) \<and> om_uid (pc_meta q) \<in> set (fh_pvcs fh) \<and> om_deletion (pc_meta q) = None
     \<and> b = GetPVCC (nc_ns nc) (om_name (pc_meta q)) # c)"

definition acts_on :: "env \<Rightarrow> component_type \<Rightarrow> string \<Rightarrow> cluster_state \<Rightarrow> cluster_state \<Rightarrow> bool" where
  "acts_on e typ host s s' \<longleftrightarrow> nc_meta (snd s') = nc_meta (snd s)
     \<and> (\<forall>k. k \<noteq> host \<longrightarrow> map_of (failures typ (snd s')) k = map_of (failures typ (snd s)) k)
     \<and> (\<exists>new. fst s' = new @ fst s
          \<and> (\<forall>a p g b. new = a @ DeletePodC p g # b \<longrightarrow> (\<exists>c. b = GetPodC (nc_ns (snd s)) host # c))
          \<and> (\<forall>a p b. new = a @ DeletePVCC p # b \<longrightarrow> claim_due e typ (snd s) host (fst s) b))"

lemma append_eq_mid:
  assumes "new2 @ new1 = a @ x # b"
  shows "(\<exists>c. new2 = a @ x # c \<and> b = c @ new1) \<or> (\<exists>c. new1 = c @ x # b)"
  using assms by (auto simp: append_eq_append_conv2 append_eq_Cons_conv Cons_eq_append_conv)

lemma acts_on_trans:
  assumes "acts_on e typ host s t" "failures typ (snd t) = failures typ (snd s)" "acts_on e typ host t u"
  shows "acts_on e typ host s u"
proof -
  obtain n1 where n1: "fst t = n1 @ fst s"
    "\<And>a p g b. n1 = a @ DeletePodC p g # b \<Longrightarrow> \<exists>c. b = GetPodC (nc_ns (snd s)) host # c"
    "\<And>a p b. n1 = a @ DeletePVCC p # b \<Longrightarrow> claim_due e typ (snd s) host (fst s) b"
    using assms(1) by (auto simp: acts_on_def)
  obtain n2 where n2: "fst u = n2 @ fst t"
    "\<And>a p g b. n2 = a @ DeletePodC p g # b \<Longrightarrow> \<exists>c. b = GetPodC (nc_ns (snd t)) host # c"
    "\<And>a p b. n2 = a @ DeletePVCC p # b \<Longrightarrow> claim_due e typ (snd t) host (fst t) b"
    using assms(3) by (auto simp: acts_on_def)
  have eq: "nc_meta (snd t) = nc_meta (snd s)" using assms(1) by (simp add: acts_on_def)
  have later: "claim_due e typ (snd s) host (fst s) (c @ n1)" if "claim_due e typ (snd t) host (fst t) c" for c
    using that eq assms(2) n1(1) by (fastforce simp: claim_due_def listed_claim_def pod_selector_def)
  have "\<exists>c. b = GetPodC (nc_ns (snd s)) host # c" if "n2 @ n1 = a @ DeletePodC p g # b" for a p g b
    using append_eq_mid [OF that] n1(2) n2(2) eq by fastforce
  moreover have "claim_due e typ (snd s) host (fst s) b" if "n2 @ n1 = a @ DeletePVCC p # b" for a p b
    using append_eq_mid [OF that] n1(3) n2(3) later by blast
  ultimately show ?thesis using assms n1(1) n2(1) eq unfolding acts_on_def by (intro conjI exI [of _ "n2 @ n1"]) auto
qed

interpretation kept: step_relation "kept c" for c
proof
  fix s t u :: cluster_state
  show "kept c s s" by (simp add: kept_def)
  assume "kept c s t" "kept c t u"
  then show "kept c s u" unfolding kept_def by (metis append.assoc set_append Un_iff)
qed

lemma kept_acts: "kept typ s s' \<Longrightarrow> acts_on e typ host s s'"
  unfolding kept_def acts_on_def by (force simp: harmless_def)

lemma kept_acts_on: "kept typ s t \<Longrightarrow> acts_on e typ host t u \<Longrightarrow> acts_on e typ host s u"
  by (rule acts_on_trans [OF kept_acts]) (auto simp: kept_def)

lemma kept_world: "emits harmless m \<Longrightarrow> obeys (kept typ) (world m)"
  by (erule obeys_emits) (auto simp: kept_def)

lemma kept_set: "(\<And>nc. failures typ (f nc) = failures typ nc) \<Longrightarrow> (\<And>nc. nc_meta (f nc) = nc_meta nc) \<Longrightarrow> obeys (kept typ) (set_nc f)"
  by (rule obeys_set) (simp add: kept_def)

text \<open>What a step may do: succeed without a trace, or act on one host and stop.\<close>

definition one_host :: "env \<Rightarrow> component_type \<Rightarrow> cluster_state \<Rightarrow> 'a outcome \<Rightarrow> cluster_state \<Rightarrow> bool" where
  "one_host e typ s r s' \<longleftrightarrow> (is_Ok r \<longrightarrow> kept typ s s') \<and> (\<exists>host. acts_on e typ host s s')"

lemma kept_one_host: "kept typ s s' \<Longrightarrow> one_host e typ s r s'"
  unfolding one_host_def using kept_acts by blast

lemma kept_then: "kept typ s t \<Longrightarrow> one_host e typ t r u \<Longrightarrow> one_host e typ s r u"
  unfolding one_host_def using kept_acts_on kept.trans by blast

lemma obeys_one_host: "obeys (kept typ) m \<Longrightarrow> wp m (one_host e typ s) s"
  by (drule obeysD [of _ _ s], erule wp_mono) (rule kept_one_host)

lemma one_host_ok:
  assumes m: "wp m (one_host e typ s) s" and f: "\<And>x t. kept typ s t \<Longrightarrow> wp (f x) (one_host e typ t) t"
  shows "wp (m \<bind> ok f) (one_host e typ s) s"
  unfolding wp_bind
proof (rule wp_mono [OF m])
  fix r :: "'a outcome" and t
  assume r: "one_host e typ s r t"
  show "wp (ok f r) (one_host e typ s) t"
  proof (cases r)
    case (Ok x)
    with r have k: "kept typ s t" by (simp add: one_host_def)
    with f [OF k, of x] have "wp (f x) (one_host e typ s) t" by (auto elim: wp_mono intro: kept_then)
    with Ok show ?thesis by (simp add: wp_ok)
  qed (use r in \<open>simp_all add: wp_ok one_host_def\<close>)
qed

lemma one_host_each:
  assumes "\<And>x t. x \<in> set xs \<Longrightarrow> kept typ s t \<Longrightarrow> wp (f x) (one_host e typ t) t"
  shows "wp (for_each f xs) (one_host e typ s) s"
  using assms
proof (induction xs arbitrary: s)
  case Nil
  then show ?case by (auto simp: wp_return kept.refl intro: kept_one_host)
next
  case (Cons x xs)
  have "wp (for_each f xs) (one_host e typ t) t" if "kept typ s t" for t
    using Cons.prems that by (intro Cons.IH) (auto intro: kept.trans)
  moreover have "wp (f x) (one_host e typ s) s"
    by (rule Cons.prems) (simp_all add: kept.refl)
  ultimately show ?case by (simp add: one_host_ok)
qed

lemma failures_set [simp]:
  "failures typ (SetFailureHosts typ (Some m) nc) = m" "nc_meta (SetFailureHosts typ v nc) = nc_meta nc"
  by (cases "typ"; simp add: failures_def GetFailureHosts_def SetFailureHosts_def UpdateComponentStatus_def comp_status_def
      graphd_UpdateComponentStatus_def metad_UpdateComponentStatus_def)+

lemma find_pod_emits [emits]: "P (GetPodC (nc_ns nc) n) \<Longrightarrow> emits P (find_pod e nc n)"
  unfolding find_pod_def GetPod_def by (intro emits)

lemma wp_DeletePod:
  "wp (DeletePod e ns n g) Q h = (let h = GetPodC ns n # h in case e_pod e h of
     Ok p \<Rightarrow> Q (e_done e (DeletePodC p g # h)) (DeletePodC p g # h) | Err x \<Rightarrow> Q (Err x) h | Panic \<Rightarrow> Q Panic h)"
  by (simp add: DeletePod_def GetPod_def wp_simps Let_def split: outcome.split)

lemma restart_host_one:
  assumes "nc_meta (snd s) = nc_meta nc"
  shows "wp (restart_host e typ nc x) (one_host e typ s) s"
proof (cases s)
  case (Pair h nc')
  obtain n fh where x: "x = (n, fh)" by (cases x)
  have "wp (restart_host e typ nc (n, fh)) (one_host e typ (h, nc')) (h, nc')"
    using assms Pair
    by (auto simp: restart_host_def find_pod_def GetPod_def GetNode_def DeletePod_def set_failure_def wp_simps Let_def
        one_host_def kept_def acts_on_def harmless_def Cons_eq_append_conv update_conv'
        split: outcome.split option.split intro!: exI [of _ n])
  with Pair x show ?thesis by simp
qed


lemma tryRestartPod_one: "wp (tryRestartPod e typ) (one_host e typ s) s"
proof (cases s)
  case (Pair h nc)
  have "wp (for_each (restart_host e typ nc) (failures typ nc)) (one_host e typ s) s"
    using Pair by (intro one_host_each restart_host_one) (auto simp: kept_def)
  with Pair show ?thesis by (simp add: tryRestartPod_def wp_bind wp_get_nc wp_ok)
qed

lemma toleratePods_one: "wp (toleratePods e typ) (one_host e typ s) s"
  unfolding toleratePods_def
  by (intro obeys_one_host kept.rules kept_world)
     (auto simp: tolerate_host_def harmless_def intro!: emits split: option.split)

lemma listed_claim_later: "listed_claim e typ nc host q h \<Longrightarrow> listed_claim e typ nc host q (new @ h)"
  unfolding listed_claim_def by (metis append.assoc)

lemma delete_recorded_acts:
  assumes "\<forall>q\<in>set pvcs. listed_claim e typ nc host q h" "(host, fh) \<in> set (failures typ nc)" "\<not> fh_rebuilt fh"
  shows "wp (delete_recorded e nc fh pvcs) (\<lambda>_ h'. acts_on e typ host (h, nc) (h', nc)) h"
  using assms(1)
proof (induction pvcs arbitrary: h)
  case Nil
  then show ?case by (simp add: delete_recorded_def wp_return acts_on_def)
next
  case (Cons q qs)
  let ?rd = "GetPVCC (nc_ns nc) (om_name (pc_meta q))"
  have rest: "wp (delete_recorded e nc fh qs) (\<lambda>_ h'. acts_on e typ host (h, nc) (h', nc)) (new @ h)"
    if "acts_on e typ host (h, nc) (new @ h, nc)" for new
  proof (rule wp_mono [OF Cons.IH])
    show "\<forall>q\<in>set qs. listed_claim e typ nc host q (new @ h)" using Cons.prems listed_claim_later by simp
    show "acts_on e typ host (new @ h, nc) (h', nc) \<Longrightarrow> acts_on e typ host (h, nc) (h', nc)" for h'
      by (rule acts_on_trans [OF that]) simp_all
  qed
  show ?case
  proof (cases "om_uid (pc_meta q) \<in> set (fh_pvcs fh) \<and> om_deletion (pc_meta q) = None")
    case False
    have "acts_on e typ host (h, nc) ([] @ h, nc)" by (simp add: acts_on_def)
    from rest [OF this] False show ?thesis by (auto simp: delete_recorded_def wp_bind wp_return wp_ok)
  next
    case True
    have one: "acts_on e typ host (h, nc) ([?rd] @ h, nc)" by (simp add: acts_on_def Cons_eq_append_conv)
    have "claim_due e typ nc host h [?rd]"
      unfolding claim_due_def
      using True assms(2,3) listed_claim_later [of e "typ" nc host q h "[?rd]"] Cons.prems
      by (intro exI [of _ q] exI [of _ fh] exI [of _ "[]"]) auto
    then have two: "acts_on e typ host (h, nc) ([DeletePVCC p, ?rd] @ h, nc)" for p
      by (auto simp: acts_on_def Cons_eq_append_conv)
    from one two rest [OF one] rest [OF two] True show ?thesis
      by (auto simp: delete_recorded_def DeletePVC_def GetPVC_def wp_simps split: outcome.split)
  qed
qed

text \<open>What is known after the pod and its claims were read.\<close>

lemma getPodAndPvcs_listed:
  "wp (getPodAndPvcs e typ nc n) (\<lambda>r h'. (\<forall>p qs. r = Ok (p, qs) \<longrightarrow> (\<forall>q\<in>set qs. listed_claim e typ nc n q h'))
     \<and> (\<exists>new. h' = new @ h \<and> (\<forall>c\<in>set new. harmless c))) h"
  unfolding getPodAndPvcs_def find_pod_def GetPod_def ListPVCs_def listed_claim_def
  by (auto simp: wp_simps harmless_def split: outcome.split intro: exI [of _ "[]"])

lemma rebuild_host_one:
  assumes nc: "nc_meta (snd s) = nc_meta nc" "failures typ (snd s) = failures typ nc" and x: "x \<in> set (failures typ nc)"
    and missing: "\<And>t. wp missing (one_host e typ t) t"
  shows "wp (rebuild_host e typ missing nc x) (one_host e typ s) s"
proof (cases s)
  case (Pair h nc')
  obtain n fh where x': "x = (n, fh)" by (cases x)
  have sel: "pod_selector typ nc n = pod_selector typ nc' n" "nc_ns nc = nc_ns nc'"
    using nc Pair by (simp_all add: pod_selector_def)
  have same: "listed_claim e typ nc n = listed_claim e typ nc' n"
    by (simp add: fun_eq_iff listed_claim_def sel)
  have rec: "delete_recorded e nc fh = delete_recorded e nc' fh"
    by (simp only: fun_eq_iff delete_recorded_def sel simp_thms)
  have mem: "(n, fh) \<in> set (failures typ nc')" using x x' nc Pair by simp
  have del: "wp (delete_recorded e nc fh qs) (\<lambda>_ h'. acts_on e typ n (t, nc') (h', nc')) t"
    if "\<forall>q\<in>set qs. listed_claim e typ nc' n q t" "\<not> fh_rebuilt fh" for t qs
    using delete_recorded_acts [OF that(1) mem that(2)] by (simp add: rec)
  have fin: "acts_on e typ n (t, nc') (Clock # h', SetFailureHosts typ (Some (AList.update n v (failures typ nc'))) nc')"
    "acts_on e typ n (t, nc') (Clock # h', nc')"
    if "acts_on e typ n (t, nc') (h', nc')" for t h' v
    by (rule acts_on_trans [OF that]; simp add: acts_on_def update_conv' Cons_eq_append_conv)+
  define Q where "Q t r s' \<longleftrightarrow> \<not> is_Ok r \<and> acts_on e typ n (t, nc') s'" for t and r :: "unit outcome" and s'
  have tail: "wp (world (delete_recorded e nc fh qs) \<bind> ok (\<lambda>_. world (now e) \<bind> ok (\<lambda>u.
       set_failure typ n (fh\<lparr>fh_rebuilt := True, fh_deleted := u\<rparr>) \<bind> ok (\<lambda>_.
       throw (ErrReconcile ''try to delete failure pod for rebuilding''))))) (Q t) (k @ t, nc')"
    if "\<forall>q\<in>set qs. listed_claim e typ nc' n q t" "\<not> fh_rebuilt fh" "acts_on e typ n (t, nc') (k @ t, nc')" for t qs k
  proof -
    have "wp (delete_recorded e nc fh qs) (\<lambda>_ h'. acts_on e typ n (t, nc') (h', nc')) (k @ t)"
    proof (rule wp_mono [OF del])
      show "\<forall>q\<in>set qs. listed_claim e typ nc' n q (k @ t)" using that(1) listed_claim_later by blast
      show "acts_on e typ n (k @ t, nc') (h', nc') \<Longrightarrow> acts_on e typ n (t, nc') (h', nc')" for h'
        by (rule acts_on_trans [OF that(3)]) simp_all
    qed (rule that(2))
    then show ?thesis
      by (simp add: wp_bind wp_world, elim wp_mono) (auto simp: wp_simps Q_def set_failure_def fin split: outcome.split)
  qed
  have "wp (rebuild_host e typ missing nc (n, fh)) (one_host e typ (h, nc')) (h, nc')"
  proof (cases "fh_rebuilt fh")
    case True
    then show ?thesis by (simp add: rebuild_host_def wp_return kept_one_host kept.refl)
  next
    case False
    have pods: "acts_on e typ n (t, nc') (GetPodC (nc_ns nc') n # t, nc')"
      "acts_on e typ n (t, nc') (DeletePodC p True # GetPodC (nc_ns nc') n # t, nc')" "acts_on e typ n (t, nc') (t, nc')" for t p
      by (auto simp: acts_on_def Cons_eq_append_conv)
    have body: "wp (world (if isPodTerminating pod then ret () else DeletePod e (nc_ns nc) n True) \<bind> ok (\<lambda>_.
        world (delete_recorded e nc fh qs) \<bind> ok (\<lambda>_. world (now e) \<bind> ok (\<lambda>u.
        set_failure typ n (fh\<lparr>fh_rebuilt := True, fh_deleted := u\<rparr>) \<bind> ok (\<lambda>_.
        throw (ErrReconcile ''try to delete failure pod for rebuilding'')))))) (Q t) (t, nc')"
      if q: "\<forall>q\<in>set qs. listed_claim e typ nc' n q t" for pod qs t
      using tail [OF q False, of "[]"] tail [OF q False, of "[DeletePodC p True, GetPodC (nc_ns nc') n]" for p] pods
      by (auto simp: wp_bind [of "world _" "ok (\<lambda>_. world (delete_recorded _ _ _ _) \<bind> _)"] wp_world wp_if wp_DeletePod
          Let_def wp_return wp_ok [of _ "Ok _"] wp_ok [of _ "Err _"] wp_ok [of _ Panic] wp_ok [of _ "e_done _ _"] sel Q_def
          split: outcome.split)
    show ?thesis
      unfolding rebuild_host_def
    proof (simp add: False wp_bind [of "world (getPodAndPvcs _ _ _ _)"] wp_world, rule wp_mono [OF getPodAndPvcs_listed])
      fix r :: "(pod option \<times> pvc list) outcome" and t
      assume r: "(\<forall>p qs. r = Ok (p, qs) \<longrightarrow> (\<forall>q\<in>set qs. listed_claim e typ nc n q t))
        \<and> (\<exists>new. t = new @ h \<and> (\<forall>c\<in>set new. harmless c))"
      then have k: "kept typ (h, nc') (t, nc')" by (auto simp: kept_def)
      have up: "Q t r' s' \<Longrightarrow> one_host e typ (h, nc') r' s'" for r' s'
        unfolding Q_def one_host_def using kept_acts_on [OF k] by blast
      have missing': "wp missing (one_host e typ (h, nc')) (t, nc')"
        by (rule wp_mono [OF missing]) (rule kept_then [OF k])
      show "wp (ok (\<lambda>(p, pvcs). case p of None \<Rightarrow> missing
          | Some pod \<Rightarrow> world (if isPodTerminating pod then ret () else DeletePod e (nc_ns nc) n True) \<bind> ok (\<lambda>_.
              world (delete_recorded e nc fh pvcs) \<bind> ok (\<lambda>_. world (now e) \<bind> ok (\<lambda>u.
              set_failure typ n (fh\<lparr>fh_rebuilt := True, fh_deleted := u\<rparr>) \<bind> ok (\<lambda>_.
              throw (ErrReconcile ''try to delete failure pod for rebuilding'')))))) r) (one_host e typ (h, nc')) (t, nc')"
      proof (cases r)
        case (Ok y)
        obtain p qs where y: "y = (p, qs)" by (cases y)
        with Ok r have q: "\<forall>q\<in>set qs. listed_claim e typ nc' n q t" by (simp add: same)
        from missing' wp_mono [OF body [OF q] up] show ?thesis
          unfolding Ok y by (cases p) (simp_all add: wp_ok [of _ "Ok _"])
      qed (simp_all add: wp_ok kept_one_host [OF k])
    qed
  qed
  with Pair x' show ?thesis by simp
qed


lemma UpdateFinalizer_harmless: "emits harmless (UpdateFinalizer_remove e p f)"
  unfolding UpdateFinalizer_remove_def by (intro emits) (simp_all add: harmless_def)

lemma check_host_one:
  assumes nc: "nc_meta (snd s) = nc_meta nc"
  shows "wp (world (check_host e typ nc x)) (one_host e typ s) s"
proof (cases s)
  case (Pair h nc')
  obtain n fh where x: "x = (n, fh)" by (cases x)
  have ns: "nc_ns nc = nc_ns nc'" using nc Pair by simp
  define Q where "Q t r h' \<longleftrightarrow> one_host e typ (t, nc') r (h', nc')" for t and r :: "unit outcome" and h'
  have err: "Q t r (k @ t)" if "\<forall>c\<in>set k. harmless c" for t k r
    using that unfolding Q_def by (auto intro!: kept_one_host simp: kept_def)
  have stuck: "wp (UpdateFinalizer_remove e c f \<bind> ok (\<lambda>_. throw (ErrReconcile m))) (Q t) t" for c f m t
    unfolding wp_bind by (rule wp_mono [OF emitsD [OF UpdateFinalizer_harmless]])
      (auto simp: wp_simps err split: outcome.split)
  have pending: "wp (now e \<bind> ok (\<lambda>u. if u > om_created (pd_meta pod) + minute
      then DeletePod e (nc_ns nc) n True \<bind> ok (\<lambda>_. throw (ErrReconcile ''pending pod deleted, reschedule'')) else ret ())) (Q t) t" for pod t
    using err [of "[Clock]"] err [of "[GetPodC (nc_ns nc) n, Clock]"]
    by (auto simp: wp_simps wp_DeletePod Let_def harmless_def split: outcome.split)
       (auto simp: Q_def one_host_def acts_on_def Cons_eq_append_conv ns intro!: exI [of _ n])
  have "wp (check_host e typ nc (n, fh)) (Q h) h"
    unfolding check_host_def
  proof (simp add: wp_bind [of "getPodAndPvcs _ _ _ _"], rule wp_mono [OF getPodAndPvcs_listed])
    fix r :: "(pod option \<times> pvc list) outcome" and t
    assume r: "(\<forall>p qs. r = Ok (p, qs) \<longrightarrow> (\<forall>q\<in>set qs. listed_claim e typ nc n q t))
        \<and> (\<exists>new. t = new @ h \<and> (\<forall>c\<in>set new. harmless c))"
    then obtain k where k: "t = k @ h" "\<forall>c\<in>set k. harmless c" by blast
    then have "kept typ (h, nc') (t, nc')" by (auto simp: kept_def)
    then have up: "Q t r h' \<Longrightarrow> Q h r h'" for r h' unfolding Q_def by (rule kept_then)
    have here: "Q h r t" for r using k err by simp
    have pieces: "wp (UpdateFinalizer_remove e c f \<bind> ok (\<lambda>_. throw (ErrReconcile m))) (Q h) t"
      "wp (now e \<bind> ok (\<lambda>u. if u > om_created (pd_meta pod) + minute
        then DeletePod e (nc_ns nc) n True \<bind> ok (\<lambda>_. throw (ErrReconcile ''pending pod deleted, reschedule'')) else ret ())) (Q h) t"
      for c f m pod
      by (rule wp_mono [OF stuck] wp_mono [OF pending], erule up)+
    show "wp (ok (\<lambda>(p, pvcs). case p of None \<Rightarrow> throw (ErrPlain ''rebuilt pod not found'')
       | Some pod \<Rightarrow> (case stuck_pvc fh pvcs of
           Some c \<Rightarrow> UpdateFinalizer_remove e c PVCProtectionFinalizer \<bind> ok (\<lambda>_.
                      throw (ErrReconcile ''waiting for PVC finalizer updated''))
         | None \<Rightarrow> if isPodConditionScheduledTrue (pd_conditions pod) \<and> isPodPending pod
             then now e \<bind> ok (\<lambda>t. if t > om_created (pd_meta pod) + minute
                then DeletePod e (nc_ns nc) n True \<bind> ok (\<lambda>_. throw (ErrReconcile ''pending pod deleted, reschedule''))
                else ret ())
             else ret ())) r) (Q h) t"
    proof (cases r)
      case (Ok y)
      obtain p qs where y: "y = (p, qs)" by (cases y)
      show ?thesis
        unfolding Ok y using here
        by (cases p; cases "stuck_pvc fh qs") (auto simp: wp_ok [of _ "Ok _"] wp_return wp_if intro: pieces)
    qed (simp_all add: wp_ok here)
  qed
  with Pair x show ?thesis by (simp add: wp_world) (erule wp_mono, simp add: Q_def)
qed

lemma checkPendingPod_one: "wp (checkPendingPod e typ) (one_host e typ s) s"
proof (cases s)
  case (Pair h nc)
  have "wp (for_each (\<lambda>x. world (check_host e typ nc x)) (failures typ nc)) (one_host e typ s) s"
    using Pair by (intro one_host_each check_host_one) (auto simp: kept_def)
  with Pair show ?thesis by (simp add: checkPendingPod_def wp_bind wp_get_nc wp_ok)
qed

lemma deleteFailurePodAndPVC_one:
  assumes "\<And>t. wp missing (one_host e typ t) t"
  shows "wp (deleteFailurePodAndPVC e typ missing) (one_host e typ s) s"
proof (cases s)
  case (Pair h nc)
  have "wp (for_each (rebuild_host e typ missing nc) (failures typ nc)) (one_host e typ s) s"
    using Pair assms by (intro one_host_each rebuild_host_one) (auto simp: kept_def)
  with Pair show ?thesis by (simp add: deleteFailurePodAndPVC_def wp_bind wp_get_nc wp_ok)
qed

lemma failover_steps_one:
  assumes "\<And>t. wp missing (one_host e typ t) t"
  shows "wp (failover_steps e typ missing) (one_host e typ s) s"
proof -
  have "wp (if (r :: string list) \<noteq> [] then throw (ErrReconcile ''pods are ready after restarted'')
      else deleteFailurePodAndPVC e typ missing \<bind> ok (\<lambda>_. checkPendingPod e typ)) (one_host e typ t) t" for r t
    by (auto simp: wp_return kept_one_host kept.refl
        intro!: one_host_ok [OF deleteFailurePodAndPVC_one [OF assms] checkPendingPod_one])
  then show ?thesis
    unfolding failover_steps_def by (intro one_host_ok [OF tryRestartPod_one] one_host_ok [OF toleratePods_one])
qed

text \<open>Balancing the data leaves the failure hosts alone.\<close>

lemma kept_sg: "(\<And>s. sg_component (f s) = sg_component s) \<Longrightarrow> (\<And>s. sg_failures (f s) = sg_failures s) \<Longrightarrow>
    obeys (kept typ) (set_nc (map_sg f))"
  by (rule kept_set) (auto simp: failures_def GetFailureHosts_def comp_status_def map_sg_def split: component_type.split)

lemma kept_write_status: "obeys (kept typ) (write_status e)"
  unfolding write_status_def
  by (intro kept.rules kept_world emits_mono [OF nc_status_update.calls]) (auto simp: harmless_def)

lemma harmless_meta: "is_meta req c \<Longrightarrow> harmless c"
  by (auto simp: is_meta_def harmless_def)

lemma kept_record_job: "obeys (kept typ) (record_job e s r)"
  unfolding record_job_def
  by (auto intro!: kept.rules kept_write_status kept_sg intro: kept.r_return split: prod.split option.split)

lemma kept_balanceSpace: "obeys (kept typ) (balanceSpace e s)"
  unfolding balanceSpace_def Let_def recover_last_job_def BalanceDataInZone_def BalanceData_def RecoverInZoneBalanceJob_def
    RecoverDataBalanceJob_def BalanceLeader_def
  by (auto intro!: kept.rules kept_world kept_record_job kept_write_status kept_sg runAdminJob_emits recover_job_emits
      exec_req_emits BalanceStatus_emits intro: kept.r_return kept.r_lift harmless_meta simp del: not_None_eq)

lemma connect_each_harmless: "emits harmless (connect_each e hosts prev)"
  by (induction hosts arbitrary: prev) (auto intro!: emits simp: harmless_def)

lemma kept_rebalance: "obeys (kept typ) (rebalance e)"
  unfolding rebalance_def with_meta_def for_spaces_def NewMetaClient_def ListSpaces_def BalanceLeader_def
  by (auto intro!: kept.rules kept_world kept_balanceSpace kept_sg emits connect_each_harmless
      intro: kept.r_return harmless_meta simp: harmless_def split: option.split)


lemma failover_one: "wp (failover e typ) (one_host e typ s) s"
proof -
  have nf: "wp (failover_steps e c not_found) (one_host e c t) t" for c t
    by (rule failover_steps_one) (simp add: not_found_def wp_return kept_one_host kept.refl)
  have ret: "wp (failover_steps e c (ret ())) (one_host e c t) t" for c t
    by (rule failover_steps_one) (simp add: wp_return kept_one_host kept.refl)
  have "wp (storaged_Failover e) (one_host e StoragedComponentType s) s"
    unfolding storaged_Failover_def by (intro one_host_ok [OF ret] obeys_one_host kept_rebalance)
  then show ?thesis
    by (cases "typ") (simp_all add: failover_def graphd_Failover_def metad_Failover_def nf)
qed

text \<open>
  Claim C26. Failover is careful: a run that succeeds deletes no pod and no volume claim and leaves
  the record of the failure hosts alone; whatever else happens, a run changes the record of at
  most one host, deletes only the pod that was read under that name, and deletes a claim only
  when it was listed for that host in this run, is in the set recorded when the host failed and
  is not being deleted, and the host has not been rebuilt.
\<close>

theorem failover_acts_on_one_host:
  assumes "run_state (failover e typ) s = (r, s')"
  shows "(r = Ok () \<longrightarrow> kept typ s s') \<and> (\<exists>host. acts_on e typ host s s')"
  using wp_run [OF failover_one assms] by (auto simp: one_host_def)

section \<open>Every failure host is rebuilt\<close>

text \<open>Repeated reconciliation, the error of each round aside.\<close>

fun failover_rounds :: "env \<Rightarrow> component_type \<Rightarrow> nat \<Rightarrow> cluster_state \<Rightarrow> cluster_state" where
  "failover_rounds e typ 0 s = s"
| "failover_rounds e typ (Suc n) s = failover_rounds e typ n (snd (run_state (failover e typ) s))"

definition not_restarted :: "string \<times> failure_host \<Rightarrow> bool" where "not_restarted x \<longleftrightarrow> \<not> fh_restarted (snd x)"
definition not_rebuilt :: "string \<times> failure_host \<Rightarrow> bool" where "not_rebuilt x \<longleftrightarrow> \<not> fh_rebuilt (snd x)"

definition steps_left :: "(string \<times> failure_host) list \<Rightarrow> nat" where
  "steps_left m = length (filter not_restarted m) + length (filter not_rebuilt m)"

text \<open>
  A world that answers: the API server accepts every request, the nodes can be read, and the
  pods stay unhealthy, are neither pending nor being deleted and are older than the tolerance.
\<close>

definition responsive :: "env \<Rightarrow> bool" where
  "responsive e \<longleftrightarrow> (\<forall>h. e_done e h = Ok () \<and> (\<exists>n. e_node e h = Ok n) \<and> (\<exists>qs. e_pvcs e h = Ok qs) \<and> (\<exists>p. e_pvc e h = Ok p)
     \<and> (\<exists>p. e_pod e h = Ok p \<and> \<not> isPodPending p \<and> \<not> isPodTerminating p \<and> \<not> isPodHealthy p
          \<and> (\<forall>h'. om_created (pd_meta p) + RestartTolerancePeriod \<le> e_clock e h')))"

lemma for_each_stops:
  assumes "\<And>y. y \<in> set ys \<Longrightarrow> run_state (f y) s = (Ok (), s)" "run_state (f x) s = (Err m, s')"
  shows "run_state (for_each f (ys @ x # zs)) s = (Err m, s')"
  using assms by (induction ys) (auto simp: ok_def handle_def)

lemma for_each_skips:
  assumes "\<And>y. y \<in> set ys \<Longrightarrow> run_state (f y) s = (Ok (), s)"
  shows "run_state (for_each f ys) s = (Ok (), s)"
  using assms by (induction ys) (auto simp: ok_def handle_def)

lemma filter_update:
  assumes "distinct (map fst m)" "(k, v) \<in> set m"
  shows "length (filter P (AList.update k w m)) + (if P (k, v) then 1 else 0) = length (filter P m) + (if P (k, w) then 1 else 0)"
  using assms
proof (induction m)
  case (Cons x m)
  obtain k' v' where x: "x = (k', v')" by (cases x)
  show ?case
  proof (cases "k' = k")
    case True
    with Cons.prems x have "v' = v" by (force simp: image_iff)
    with True x show ?thesis by simp
  next
    case False
    with Cons x show ?thesis by auto
  qed
qed simp

lemma first_such: "\<exists>x\<in>set m. P x \<Longrightarrow> \<exists>ys x zs. m = ys @ x # zs \<and> P x \<and> (\<forall>y\<in>set ys. \<not> P y)"
  using split_list_first_prop [of m P] by blast

lemma steps_left_pos: "0 < steps_left m \<longleftrightarrow> (\<exists>x\<in>set m. not_restarted x) \<or> (\<exists>x\<in>set m. not_rebuilt x)"
  by (induction m) (auto simp: steps_left_def)


text \<open>The runs of one round in such a world.\<close>

lemma run_find_pod:
  assumes "responsive e"
  shows "\<exists>p. run_state (find_pod e nc n) h = (Ok (Some p), GetPodC (nc_ns nc) n # h)
    \<and> \<not> isPodPending p \<and> \<not> isPodTerminating p \<and> \<not> isPodHealthy p
    \<and> (\<forall>h'. om_created (pd_meta p) + RestartTolerancePeriod \<le> e_clock e h')"
proof -
  obtain p where "e_pod e (GetPodC (nc_ns nc) n # h) = Ok p" "\<not> isPodPending p" "\<not> isPodTerminating p" "\<not> isPodHealthy p"
    "\<forall>h'. om_created (pd_meta p) + RestartTolerancePeriod \<le> e_clock e h'"
    using assms unfolding responsive_def by blast
  then show ?thesis by (simp add: find_pod_def GetPod_def send_def handle_def)
qed

lemma run_DeletePod:
  assumes "responsive e"
  shows "\<exists>h'. run_state (DeletePod e ns n g) h = (Ok (), h')"
  using assms unfolding responsive_def DeletePod_def GetPod_def
  by (auto simp: send_def ok_def handle_def dest!: spec [of _ "GetPodC ns n # h"])

lemma run_world: "run_state m h = (r, h') \<Longrightarrow> run_state (world m) (h, nc) = (r, h', nc)"
  by (simp add: world_def)

lemma run_restart:
  assumes "responsive e" "\<not> fh_restarted fh"
  shows "\<exists>m h' fh'. run_state (restart_host e typ nc (n, fh)) (h, nc)
      = (Err m, h', SetFailureHosts typ (Some (AList.update n fh' (failures typ nc))) nc)
    \<and> fh_restarted fh' \<and> fh_rebuilt fh' = fh_rebuilt fh"
proof -
  obtain p where p: "run_state (find_pod e nc n) h = (Ok (Some p), GetPodC (nc_ns nc) n # h)" "\<not> isPodPending p"
    using run_find_pod [OF assms(1)] by blast
  obtain nd where nd: "e_node e (GetNodeC (pd_node p) # GetPodC (nc_ns nc) n # h) = Ok nd"
    using assms(1) unfolding responsive_def by blast
  obtain h' where h': "run_state (DeletePod e (nc_ns nc) n True) (GetNodeC (pd_node p) # GetPodC (nc_ns nc) n # h) = (Ok (), h')"
    using run_DeletePod [OF assms(1)] by blast
  show ?thesis
    using assms(2) p nd h'
    by (simp add: restart_host_def world_def ok_def handle_def GetNode_def send_def set_failure_def set_nc_def modify_def Let_def)
       (intro conjI impI exI [of _ "fh\<lparr>fh_node_down := True, fh_restarted := True\<rparr>"] exI [of _ "fh\<lparr>fh_restarted := True\<rparr>"]; simp)
qed

lemma run_tolerate:
  assumes "responsive e"
  shows "\<exists>new. run_state (fold_go (tolerate_host e nc) xs []) h = (Ok [], new @ h)"
proof (induction xs arbitrary: h)
  case (Cons x xs)
  obtain n fh where x: "x = (n, fh)" by (cases x)
  obtain p where p: "run_state (find_pod e nc n) h = (Ok (Some p), GetPodC (nc_ns nc) n # h)"
      "\<not> isPodTerminating p" "\<not> isPodHealthy p" "\<And>h'. \<not> e_clock e h' < om_created (pd_meta p) + RestartTolerancePeriod"
    using run_find_pod [OF assms] by (metis not_le)
  have "run_state (tolerate_host e nc (n, fh) []) h = (Ok [], (if fh_rebuilt fh then [] else [Clock, GetPodC (nc_ns nc) n]) @ h)"
    using p by (simp add: tolerate_host_def ok_def handle_def now_def)
  then show ?case using x Cons.IH [of "(if fh_rebuilt fh then [] else [Clock, GetPodC (nc_ns nc) n]) @ h"]
    by (auto simp: ok_def handle_def split: if_splits)
qed simp

lemma run_delete_recorded:
  assumes "responsive e"
  shows "\<exists>h'. run_state (delete_recorded e nc fh qs) h = (Ok (), h')"
proof (induction qs arbitrary: h)
  case (Cons q qs)
  obtain p where "e_pvc e (GetPVCC (nc_ns nc) (om_name (pc_meta q)) # h) = Ok p" using assms unfolding responsive_def by blast
  then have "\<exists>h'. run_state (DeletePVC e (nc_ns nc) (om_name (pc_meta q))) h = (Ok (), h')"
    using assms by (simp add: DeletePVC_def GetPVC_def send_def handle_def responsive_def)
  then show ?case using Cons.IH by (auto simp: delete_recorded_def ok_def handle_def)
qed (simp add: delete_recorded_def)

lemma run_rebuild:
  assumes "responsive e" "\<not> fh_rebuilt fh"
  shows "\<exists>m h' fh'. run_state (rebuild_host e typ missing nc (n, fh)) (h, nc)
      = (Err m, h', SetFailureHosts typ (Some (AList.update n fh' (failures typ nc))) nc)
    \<and> fh_rebuilt fh' \<and> fh_restarted fh' = fh_restarted fh"
proof -
  obtain p where p: "run_state (find_pod e nc n) h = (Ok (Some p), GetPodC (nc_ns nc) n # h)" "\<not> isPodTerminating p"
    using run_find_pod [OF assms(1)] by blast
  let ?l = "ListPVCsC (nc_ns nc) (pod_selector typ nc n) # GetPodC (nc_ns nc) n # h"
  obtain qs where qs: "e_pvcs e ?l = Ok qs" using assms(1) unfolding responsive_def by blast
  obtain h1 where h1: "run_state (DeletePod e (nc_ns nc) n True) ?l = (Ok (), h1)" using run_DeletePod [OF assms(1)] by blast
  obtain h2 where h2: "run_state (delete_recorded e nc fh qs) h1 = (Ok (), h2)" using run_delete_recorded [OF assms(1)] by blast
  show ?thesis
    using assms(2) p qs h1 h2
    by (simp add: rebuild_host_def getPodAndPvcs_def ListPVCs_def world_def ok_def handle_def send_def set_failure_def
        set_nc_def modify_def now_def)
       (rule exI, rule conjI, rule refl, simp)
qed


lemma update_steps:
  assumes "distinct (map fst m)" "(n, fh) \<in> set m"
    and "(\<not> fh_restarted fh \<and> fh_restarted fh' \<and> fh_rebuilt fh' = fh_rebuilt fh)
      \<or> (\<not> fh_rebuilt fh \<and> fh_rebuilt fh' \<and> fh_restarted fh' = fh_restarted fh)"
  shows "Suc (steps_left (AList.update n fh' m)) = steps_left m" "distinct (map fst (AList.update n fh' m))"
proof -
  show "Suc (steps_left (AList.update n fh' m)) = steps_left m"
    using filter_update [OF assms(1,2), of not_restarted fh'] filter_update [OF assms(1,2), of not_rebuilt fh'] assms(3)
    by (auto simp: steps_left_def not_restarted_def not_rebuilt_def split: if_splits)
qed (use assms(1) in \<open>simp add: distinct_update\<close>)

lemma one_step:
  assumes e: "responsive e" and d: "distinct (map fst (failures typ nc))" and left: "0 < steps_left (failures typ nc)"
  shows "\<exists>m h' fs. run_state (failover_steps e typ missing) (h, nc) = (Err m, h', SetFailureHosts typ (Some fs) nc)
    \<and> distinct (map fst fs) \<and> Suc (steps_left fs) = steps_left (failures typ nc)"
proof (cases "\<exists>x\<in>set (failures typ nc). not_restarted x")
  case True
  from first_such [OF this] obtain ys n fh zs where
    m: "failures typ nc = ys @ (n, fh) # zs" "\<not> fh_restarted fh" "\<And>y. y \<in> set ys \<Longrightarrow> fh_restarted (snd y)"
    by (metis not_restarted_def prod.collapse)
  obtain msg h' fh' where r: "run_state (restart_host e typ nc (n, fh)) (h, nc)
      = (Err msg, h', SetFailureHosts typ (Some (AList.update n fh' (failures typ nc))) nc)" "fh_restarted fh'" "fh_rebuilt fh' = fh_rebuilt fh"
    using run_restart [OF e m(2)] by blast
  have "run_state (restart_host e typ nc y) (h, nc) = (Ok (), h, nc)" if "y \<in> set ys" for y
    using m(3) [OF that] by (cases y) (simp add: restart_host_def)
  from for_each_stops [where f = "restart_host e typ nc" and ys = ys, OF this r(1)] m(1)
  have "run_state (failover_steps e typ missing) (h, nc) = (Err msg, h', SetFailureHosts typ (Some (AList.update n fh' (failures typ nc))) nc)"
    by (simp add: failover_steps_def tryRestartPod_def get_nc_def gets_def ok_def handle_def)
  with update_steps [OF d, of n fh fh'] m r show ?thesis by auto
next
  case False
  with left have "\<exists>x\<in>set (failures typ nc). not_rebuilt x" by (simp add: steps_left_pos)
  from first_such [OF this] obtain ys n fh zs where
    m: "failures typ nc = ys @ (n, fh) # zs" "\<not> fh_rebuilt fh" "\<And>y. y \<in> set ys \<Longrightarrow> fh_rebuilt (snd y)"
    by (metis not_rebuilt_def prod.collapse)
  have "run_state (restart_host e typ nc y) (h, nc) = (Ok (), h, nc)" if "y \<in> set (failures typ nc)" for y
    using False that by (cases y) (auto simp: restart_host_def not_restarted_def)
  from for_each_skips [OF this] have restarted: "run_state (tryRestartPod e typ) (h, nc) = (Ok (), h, nc)"
    by (simp add: tryRestartPod_def get_nc_def gets_def ok_def handle_def)
  obtain new where tol: "run_state (toleratePods e typ) (h, nc) = (Ok [], new @ h, nc)"
    using run_tolerate [OF e, of nc "failures typ nc" h]
    by (auto simp: toleratePods_def world_def get_nc_def gets_def ok_def handle_def)
  obtain msg h' fh' where r: "run_state (rebuild_host e typ missing nc (n, fh)) (new @ h, nc)
      = (Err msg, h', SetFailureHosts typ (Some (AList.update n fh' (failures typ nc))) nc)" "fh_rebuilt fh'" "fh_restarted fh' = fh_restarted fh"
    using run_rebuild [OF e m(2)] by blast
  have "run_state (rebuild_host e typ missing nc y) (new @ h, nc) = (Ok (), new @ h, nc)" if "y \<in> set ys" for y
    using m(3) [OF that] by (cases y) (simp add: rebuild_host_def)
  from for_each_stops [where f = "rebuild_host e typ missing nc" and ys = ys, OF this r(1)] m(1)
  have "run_state (deleteFailurePodAndPVC e typ missing) (new @ h, nc) = (Err msg, h', SetFailureHosts typ (Some (AList.update n fh' (failures typ nc))) nc)"
    by (simp add: deleteFailurePodAndPVC_def get_nc_def gets_def ok_def handle_def)
  with restarted tol have "run_state (failover_steps e typ missing) (h, nc) = (Err msg, h', SetFailureHosts typ (Some (AList.update n fh' (failures typ nc))) nc)"
    by (simp add: failover_steps_def ok_def handle_def)
  with update_steps [OF d, of n fh fh'] m r show ?thesis by auto
qed

lemma one_round:
  assumes "responsive e" "distinct (map fst (failures typ nc))" "0 < steps_left (failures typ nc)"
  shows "\<exists>m h' fs. run_state (failover e typ) (h, nc) = (Err m, h', SetFailureHosts typ (Some fs) nc)
    \<and> distinct (map fst fs) \<and> Suc (steps_left fs) = steps_left (failures typ nc)"
proof -
  define missing :: "unit op" where "missing = (if typ = StoragedComponentType then ret () else not_found)"
  obtain m h' fs where r: "run_state (failover_steps e typ missing) (h, nc) = (Err m, h', SetFailureHosts typ (Some fs) nc)"
    "distinct (map fst fs)" "Suc (steps_left fs) = steps_left (failures typ nc)"
    using one_step [OF assms, of missing h] by blast
  then have "run_state (failover e typ) (h, nc) = (Err m, h', SetFailureHosts typ (Some fs) nc)"
    by (cases "typ")
       (simp_all add: failover_def graphd_Failover_def metad_Failover_def storaged_Failover_def missing_def ok_def handle_def)
  with r(2,3) show ?thesis by blast
qed



section \<open>A concrete failover\<close>

text \<open>A graphd host that was restarted, whose pod is still not ready and has one recorded claim.\<close>

definition failed_host :: failure_host where
  "failed_host = \<lparr>fh_host = ''h'', fh_pvcs = [''u1''], fh_restarted = True, fh_rebuilt = False, fh_node_down = True,
     fh_created = 1, fh_confirmed = 2, fh_deleted = zero_time\<rparr>"

definition failed_cluster :: nebula_cluster where
  "failed_cluster = SetFailureHosts GraphdComponentType (Some [(''nebula-graphd-0'', failed_host)]) (sample_cluster 1 1)"

definition sick_pod :: pod where
  "sick_pod = \<lparr>pd_meta = plain_meta ''ns'' ''nebula-graphd-0'', pd_node = ''n'', pd_phase = ''Running'', pd_ready = False,
     pd_conditions = [], pd_waiting = [], pd_terminated = [], pd_exits = [], pd_spec = empty_pod_spec\<rparr>"

definition claim_of :: "string \<Rightarrow> pvc" where
  "claim_of u = \<lparr>pc_meta = (plain_meta ''ns'' u)\<lparr>om_uid := u\<rparr>, pc_requests = None, pc_class = None, pc_volume = '''', pc_phase = ''Bound'', pc_capacity = ''''\<rparr>"

definition sick_world :: env where
  "sick_world = empty_world\<lparr>e_pod := \<lambda>_. Ok sick_pod, e_node := \<lambda>_. Ok \<lparr>nd_meta = plain_meta '''' ''n'', nd_conditions = []\<rparr>,
     e_pvc := \<lambda>_. Ok (claim_of ''u1''), e_pvcs := \<lambda>_. Ok [claim_of ''u2'', claim_of ''u1''], e_clock := \<lambda>_. 0\<rparr>"

lemma sick_world [simp]:
  "e_pod sick_world h = Ok sick_pod" "e_pvc sick_world h = Ok (claim_of ''u1'')" "e_done sick_world h = Ok ()"
  "e_pvcs sick_world h = Ok [claim_of ''u2'', claim_of ''u1'']" "e_clock sick_world h = 0"
  "e_node sick_world h = Ok \<lparr>nd_meta = plain_meta '''' ''n'', nd_conditions = []\<rparr>"
  by (simp_all add: sick_world_def empty_world_def)

lemma sick_pod [simp]: "\<not> isPodPending sick_pod" "\<not> isPodTerminating sick_pod" "\<not> isPodHealthy sick_pod"
    "om_created (pd_meta sick_pod) = zero_time"
  by (simp_all add: sick_pod_def isPodPending_def isPodTerminating_def isPodHealthy_def isPodRunningAndReady_def plain_meta_def)

lemma failed_cluster [simp]: "failures GraphdComponentType failed_cluster = [(''nebula-graphd-0'', failed_host)]"
  by (simp add: failed_cluster_def)

lemma failed_host [simp]: "fh_restarted failed_host" "\<not> fh_rebuilt failed_host" "fh_pvcs failed_host = [''u1'']"
  by (simp_all add: failed_host_def)

lemma claim_of [simp]: "om_uid (pc_meta (claim_of u)) = u" "om_deletion (pc_meta (claim_of u)) = None"
    "om_name (pc_meta (claim_of u)) = u"
  by (simp_all add: claim_of_def plain_meta_def)

theorem failover_acts_witness:
  "\<exists>r s'. run_state (failover sick_world GraphdComponentType) ([], failed_cluster) = (r, s')
     \<and> DeletePVCC (claim_of ''u1'') \<in> set (fst s') \<and> (\<exists>host. acts_on sick_world GraphdComponentType host ([], failed_cluster) s')"
proof -
  obtain r s' where run: "run_state (failover sick_world GraphdComponentType) ([], failed_cluster) = (r, s')" by (cases "run_state (failover sick_world GraphdComponentType) ([], failed_cluster)")
  then have "DeletePVCC (claim_of ''u1'') \<in> set (fst s')"
    by (auto simp: failover_def graphd_Failover_def failover_steps_def tryRestartPod_def restart_host_def toleratePods_def
        tolerate_host_def deleteFailurePodAndPVC_def rebuild_host_def getPodAndPvcs_def find_pod_def GetPod_def ListPVCs_def
        DeletePod_def delete_recorded_def DeletePVC_def GetPVC_def get_nc_def gets_def world_def send_def now_def set_failure_def
        set_nc_def modify_def ok_def handle_def zero_time_def RestartTolerancePeriod_def)
  with failover_acts_on_one_host [OF run] run show ?thesis by blast
qed


end
