(* ===== verification/Controllers.thy ===== *)
theory Controllers
  imports Failover
begin

text \<open>
  The controllers of the three components: \<open>graphd_cluster.go\<close>, \<open>metad_cluster.go\<close> and
  \<open>storaged_cluster.go\<close> of \<open>pkg/controller/component\<close>, and \<open>GetGVKFromDefinition\<close> of
  \<open>pkg/util/resource\<close>. A reconciliation works on the NebulaCluster object in memory; its result
  is the error the caller sees. What the three controllers do literally the same way (reading the
  workload, generating the desired one, watching the hosts, recovering) is written once over the
  component; each controller composes it in its own order. The resource definition makes the
  three specifications required, so the tests for \<open>nil\<close> specifications are left out. Log lines
  and events are left out, and the certificates of the meta client are part of connecting.
\<close>

section \<open>Reading and generating the workload\<close>

definition GetGVKFromDefinition :: "env \<Rightarrow> workload_reference \<Rightarrow> gvk io" where
  "GetGVKFromDefinition e ref =
     (if wr_name ref = '''' then ret native_gvk
      else send (e_kinds e) (KindsForC (wr_name ref) (wr_version ref)) \<bind> ok (\<lambda>kinds.
             case kinds of [] \<Rightarrow> throw (ErrPlain ''no matches for resource'') | k # _ \<Rightarrow> ret k))"

definition get_gvk :: "env \<Rightarrow> nebula_cluster \<Rightarrow> gvk io" where
  "get_gvk e nc = GetGVKFromDefinition e (sp_reference (nc_spec nc)) \<bind> wrap ''get workload kind failed''"

definition find_workload :: "env \<Rightarrow> component_type \<Rightarrow> nebula_cluster \<Rightarrow> gvk \<Rightarrow> workload option io" where
  "find_workload e typ nc g =
     GetWorkloadObj e (nc_ns nc) (comp_GetName typ nc) g \<bind>
       handle (\<lambda>x. if x = ErrNotFound then ret None else throw x) (\<lambda>w. ret (Some w))"

definition generate_workload :: "env \<Rightarrow> component_type \<Rightarrow> nebula_cluster \<Rightarrow> gvk \<Rightarrow> workload outcome" where
  "generate_workload e typ nc g =
     generateWorkload (e_getenv e) (e_scripts e) (e_marshal e) (e_duration e) typ nc g True"

text \<open>
  The desired workload: its pods carry the hash of the configuration file and, when the old
  workload was asked to restart, the time of that.
\<close>

definition desired_workload :: "env \<Rightarrow> component_type \<Rightarrow> nebula_cluster \<Rightarrow> gvk \<Rightarrow> workload option \<Rightarrow> workload io" where
  "desired_workload e typ nc g old =
     syncConfigMap e typ nc \<bind> ok (\<lambda>(cm, cmHash).
     lift (generate_workload e typ nc g) \<bind> ok (\<lambda>new.
       let new = SetTemplateAnnotations new [(AnnPodConfigMapHash, cmHash)]
       in ret (case old of
                 None \<Rightarrow> new
               | Some o' \<Rightarrow>
                   (let timestamp = map_val (wl_annotations o') AnnRestartTimestamp
                    in if timestamp \<noteq> '''' then SetTemplateAnnotations new [(AnnRestartTimestamp, timestamp)] else new))))"

definition empty_workload_status :: workload_status where
  "empty_workload_status =
     \<lparr>ws_generation = 0, ws_ready = 0, ws_replicas = 0, ws_updated = 0, ws_current = 0, ws_collisions = None,
      ws_current_rev = '''', ws_update_rev = '''', ws_available = 0\<rparr>"

text \<open>A workload that does not exist is created, and the reconciliation is to come again.\<close>

definition create_component :: "env \<Rightarrow> component_type \<Rightarrow> workload \<Rightarrow> unit op" where
  "create_component e typ new =
     (let new = SetLastAppliedConfigAnnotation e (SetRestartTimestamp new)
      in world (CreateWorkload e new) \<bind> ok (\<lambda>_.
         set_nc (SetWorkloadStatus typ (Some empty_workload_status)) \<bind> ok (\<lambda>_.
         throw (ErrReconcile ''waiting for cluster running''))))"

definition sync_zone_map :: "env \<Rightarrow> component_type \<Rightarrow> unit op" where
  "sync_zone_map e typ =
     get_nc \<bind> ok (\<lambda>nc. if IsZoneEnabled nc then world (syncZoneConfigMap e typ nc) else ret ())"

text \<open>The prefix all three share, up to where their ways part.\<close>

definition sync_workload ::
    "env \<Rightarrow> component_type \<Rightarrow> (workload \<Rightarrow> workload option \<Rightarrow> unit op) \<Rightarrow> unit op" where
  "sync_workload e typ continue =
     get_nc \<bind> ok (\<lambda>nc.
     world (get_gvk e nc) \<bind> ok (\<lambda>g.
     world (find_workload e typ nc g) \<bind> ok (\<lambda>old.
     (suspendComponent e typ old \<bind> wrap ''suspend cluster failed'') \<bind> ok (\<lambda>needSuspend.
       if needSuspend then ret ()
       else get_nc \<bind> ok (\<lambda>nc.
            world (desired_workload e typ nc g old) \<bind> ok (\<lambda>new. continue new old))))))"

definition delete_component :: "env \<Rightarrow> component_type \<Rightarrow> unit op" where
  "delete_component e typ =
     get_nc \<bind> ok (\<lambda>nc.
     world (get_gvk e nc) \<bind> ok (\<lambda>g.
     world (find_workload e typ nc g) \<bind> ok (\<lambda>old.
       case old of None \<Rightarrow> ret () | Some w \<Rightarrow> world (DeleteWorkload e w))))"

section \<open>Watching the hosts\<close>

definition hosts_of :: "component_type \<Rightarrow> host_list" where
  "hosts_of typ = (case typ of
       GraphdComponentType \<Rightarrow> GraphHosts | MetadComponentType \<Rightarrow> MetaHosts | StoragedComponentType \<Rightarrow> StorageHosts)"

text \<open>\<open>strings.Split(host, ".")[0]\<close>.\<close>

definition host_pod :: "host_item \<Rightarrow> string" where
  "host_pod i = takeWhile (\<lambda>c. c \<noteq> CHR ''.'') (fst (hi_host i))"

definition new_failure :: "string \<Rightarrow> int \<Rightarrow> failure_host" where
  "new_failure host t =
     \<lparr>fh_host = host, fh_pvcs = [], fh_restarted = False, fh_rebuilt = False, fh_node_down = False,
      fh_created = t, fh_confirmed = zero_time, fh_deleted = zero_time\<rparr>"

text \<open>A recorded host that is still offline after the period is confirmed, with its claims.\<close>

definition confirm_host :: "env \<Rightarrow> component_type \<Rightarrow> nebula_cluster \<Rightarrow> string \<Rightarrow> failure_host \<Rightarrow> unit op" where
  "confirm_host e typ nc podName fh =
     world (now e) \<bind> ok (\<lambda>t.
       if t > fh_created fh + sp_failover_period (nc_spec nc) \<and> fh_confirmed fh = zero_time then
         world (now e) \<bind> ok (\<lambda>confirmed.
         world (getPodAndPvcs e typ nc podName) \<bind> ok (\<lambda>(_, pvcs).
         set_failure typ podName (fh\<lparr>fh_confirmed := confirmed, fh_pvcs := remdups (map (\<lambda>p. om_uid (pc_meta p)) pvcs)\<rparr>)))
       else ret ())"

definition remove_failure :: "component_type \<Rightarrow> string \<Rightarrow> unit op" where
  "remove_failure typ podName = set_nc (\<lambda>nc. SetFailureHosts typ (map_option (AList.delete podName) (GetFailureHosts typ nc)) nc)"

definition note_offline :: "env \<Rightarrow> component_type \<Rightarrow> int \<Rightarrow> host_item \<Rightarrow> unit op" where
  "note_offline e typ thriftPort i =
     (if hi_status i = Offline \<and> snd (hi_host i) = thriftPort then
        get_nc \<bind> ok (\<lambda>nc.
          let podName = host_pod i
          in if i32 (getPodOrdinal podName) \<ge> deref_or 0 (cs_replicas (spec_of typ nc)) then remove_failure typ podName
             else set_nc (\<lambda>nc. SetFailureHosts typ (Some (failures typ nc)) nc) \<bind> ok (\<lambda>_.
                  case map_of (failures typ nc) podName of
                    Some fh \<Rightarrow> confirm_host e typ nc podName fh
                  | None \<Rightarrow> world (now e) \<bind> ok (\<lambda>t. set_failure typ podName (new_failure (fst (hi_host i)) t))))
      else ret ())"

definition watch_hosts :: "env \<Rightarrow> component_type \<Rightarrow> workload \<Rightarrow> unit op" where
  "watch_hosts e typ old =
     get_nc \<bind> ok (\<lambda>nc.
       if \<not> IsAutoFailoverEnabled nc \<or> deref_or 0 (cs_replicas (spec_of typ nc)) \<noteq> getWorkloadReplicas (GetWorkload typ nc)
       then set_nc (syncComponentStatus typ (Some old))
       else with_meta e (meta_endpoints e nc)
              (world (ListHosts e (hosts_of typ)) \<bind> ok (\<lambda>hostItems.
               for_each (note_offline e typ (comp_GetPort typ nc ''thrift'')) hostItems \<bind> ok (\<lambda>_.
               set_nc (syncComponentStatus typ (Some old))))))"

text \<open>The recorded hosts whose pod is healthy again, by the name of the host.\<close>

definition healthy_hosts :: "env \<Rightarrow> nebula_cluster \<Rightarrow> (string \<times> failure_host) list \<Rightarrow> strmap io" where
  "healthy_hosts e nc hosts =
     fold_go (\<lambda>(podName, fh) m. find_pod e nc podName \<bind> ok (\<lambda>p.
         case p of
           None \<Rightarrow> ret m
         | Some pod \<Rightarrow> ret (if isPodHealthy pod then AList.update (fh_host fh) podName m else m)))
       hosts []"

definition online_pods :: "strmap \<Rightarrow> int \<Rightarrow> host_item list \<Rightarrow> string list" where
  "online_pods m thriftPort hostItems =
     concat (map (\<lambda>i. case map_of m (fst (hi_host i)) of
                        None \<Rightarrow> []
                      | Some podName \<Rightarrow> if hi_status i = Online \<and> snd (hi_host i) = thriftPort then [podName] else [])
               hostItems)"

definition shouldRecover :: "env \<Rightarrow> component_type \<Rightarrow> (bool \<times> string list) op" where
  "shouldRecover e typ =
     get_nc \<bind> ok (\<lambda>nc.
       case GetFailureHosts typ nc of
         None \<Rightarrow> ret (True, [])
       | Some hosts \<Rightarrow>
           world (healthy_hosts e nc hosts) \<bind> ok (\<lambda>m.
             if m = [] then ret (False, [])
             else with_meta e (meta_endpoints e nc)
                    (world (ListHosts e (hosts_of typ)) \<bind> ok (\<lambda>hostItems.
                       let online = online_pods m (comp_GetPort typ nc ''thrift'') hostItems
                       in ret (online \<noteq> [], online)))))"

definition recovery :: "component_type \<Rightarrow> string list \<Rightarrow> unit op" where
  "recovery typ hosts = (case typ of
       GraphdComponentType \<Rightarrow> graphd_Recovery hosts
     | MetadComponentType \<Rightarrow> metad_Recovery hosts
     | StoragedComponentType \<Rightarrow> storaged_Recovery hosts)"

definition handle_failures :: "env \<Rightarrow> component_type \<Rightarrow> unit op" where
  "handle_failures e typ =
     get_nc \<bind> ok (\<lambda>nc.
       if IsAutoFailoverEnabled nc then
         shouldRecover e typ \<bind> ok (\<lambda>(r, hosts).
           if r then recovery typ hosts
           else get_nc \<bind> ok (\<lambda>nc. if IsAutoFailovering typ nc then failover e typ else ret ()))
       else ret ())"

section \<open>Zones\<close>

abbreviation LabelTopologyZone :: string where "LabelTopologyZone \<equiv> ''topology.kubernetes.io/zone''"

definition node_zone :: "env \<Rightarrow> string \<Rightarrow> string io" where
  "node_zone e nodeName =
     GetNode e nodeName \<bind> ok (\<lambda>n.
       case map_of (om_labels (nd_meta n)) LabelTopologyZone of
         None \<Rightarrow> throw (ErrPlain ''node topology zone not found'')
       | Some zone \<Rightarrow> ret zone)"

text \<open>The zone of a pod that exists and is scheduled.\<close>

definition pod_zone :: "env \<Rightarrow> nebula_cluster \<Rightarrow> string \<Rightarrow> string option io" where
  "pod_zone e nc podName =
     find_pod e nc podName \<bind> ok (\<lambda>p.
       case p of
         None \<Rightarrow> ret None
       | Some pod \<Rightarrow> if pd_node pod = '''' then ret None else node_zone e (pd_node pod) \<bind> ok (\<lambda>z. ret (Some z)))"

definition zone_step ::
    "(string \<Rightarrow> string option io) \<Rightarrow> strmap \<Rightarrow> string \<Rightarrow> strmap \<Rightarrow> strmap io" where
  "zone_step zone_of known podName data =
     (case map_of known podName of
        Some zone \<Rightarrow> ret (AList.update podName zone data)
      | None \<Rightarrow> zone_of podName \<bind> ok (\<lambda>z.
                 ret (case z of None \<Rightarrow> data | Some zone \<Rightarrow> AList.update podName zone data)))"

definition pod_names :: "component_type \<Rightarrow> nebula_cluster \<Rightarrow> int \<Rightarrow> string list" where
  "pod_names typ nc n = map (comp_GetPodName typ nc) [0..n - 1]"

definition setTopologyZone :: "env \<Rightarrow> nebula_cluster \<Rightarrow> int \<Rightarrow> unit io" where
  "setTopologyZone e nc newReplicas =
     GetConfigMap e (nc_ns nc) (zone_cm_name GraphdComponentType nc) \<bind> ok (\<lambda>cm.
       let newCM = generateZoneConfigMap GraphdComponentType nc
       in fold_go (zone_step (pod_zone e nc) (cm_data cm)) (pod_names GraphdComponentType nc newReplicas) (cm_data newCM) \<bind> ok (\<lambda>data.
          CreateOrUpdateConfigMap e (newCM\<lparr>cm_data := data\<rparr>)))"


section \<open>What the controllers do to a running workload\<close>

definition sync_pvc :: "env \<Rightarrow> component_type \<Rightarrow> unit op" where
  "sync_pvc e typ =
     get_nc \<bind> ok (\<lambda>nc. world (syncPVC e typ nc) \<bind> ok (\<lambda>v. set_nc (SetVolumeStatus typ v)))"

definition is_ready :: "component_type \<Rightarrow> bool op" where
  "is_ready typ = get_nc \<bind> ok (\<lambda>nc. lift (comp_IsReady typ nc))"

definition update_flags :: "env \<Rightarrow> component_type \<Rightarrow> workload \<Rightarrow> workload \<Rightarrow> unit op" where
  "update_flags e typ old new =
     get_nc \<bind> ok (\<lambda>nc.
       world (updateDynamicFlags e (comp_GetEndpoints (e_getenv e) typ nc ''http'') (wl_annotations old) (wl_annotations new))
       \<bind> wrap ''update cluster dynamic flags failed'')"

definition set_phase :: "component_type \<Rightarrow> component_phase \<Rightarrow> unit op" where
  "set_phase typ ph = set_nc (SetPhase typ ph)"

section \<open>Graphd (graphd_cluster.go)\<close>

definition last_replicas :: "workload \<Rightarrow> int option outcome" where
  "last_replicas old =
     (case map_of (wl_annotations old) AnnLastReplicas of
        None \<Rightarrow> Ok None
      | Some v \<Rightarrow> (case parse_int 64 v of None \<Rightarrow> Err (ErrPlain ''strconv.Atoi'') | Some n \<Rightarrow> Ok (Some (i32 n))))"

definition graphd_phase :: "env \<Rightarrow> bool \<Rightarrow> int option \<Rightarrow> workload \<Rightarrow> workload \<Rightarrow> unit op" where
  "graphd_phase e updating lastReplicas new old =
     get_nc \<bind> ok (\<lambda>nc.
       if updating \<and> GetPhase MetadComponentType nc \<noteq> UpdatePhase then set_phase GraphdComponentType UpdatePhase
       else lift (deref (GetReplicas new)) \<bind> ok (\<lambda>newReplicas.
            lift (deref (GetReplicas old)) \<bind> ok (\<lambda>oldReplicas.
              if newReplicas < oldReplicas \<or> (case lastReplicas of None \<Rightarrow> False | Some n \<Rightarrow> newReplicas < n) then
                set_phase GraphdComponentType ScaleInPhase \<bind> ok (\<lambda>_.
                  if gd_log_claim (graphd_of nc) \<noteq> None then world (PVCMark e GraphdComponentType nc oldReplicas newReplicas) else ret ())
              else if newReplicas > oldReplicas \<or> (case lastReplicas of None \<Rightarrow> False | Some n \<Rightarrow> newReplicas > n) then
                set_phase GraphdComponentType ScaleOutPhase
              else set_phase GraphdComponentType RunningPhase)))"

definition graphd_syncNebulaClusterStatus :: "env \<Rightarrow> workload \<Rightarrow> workload option \<Rightarrow> unit op" where
  "graphd_syncNebulaClusterStatus e new oldWorkload =
     (case oldWorkload of
        None \<Rightarrow> ret ()
      | Some old \<Rightarrow>
          get_nc \<bind> ok (\<lambda>nc.
          world (isUpdating e GraphdComponentType nc old) \<bind> ok (\<lambda>updating.
          lift (last_replicas old) \<bind> ok (\<lambda>lastReplicas.
          graphd_phase e updating lastReplicas new old \<bind> ok (\<lambda>_.
          watch_hosts e GraphdComponentType old)))))"

definition graphd_zone :: "env \<Rightarrow> workload \<Rightarrow> unit op" where
  "graphd_zone e new =
     get_nc \<bind> ok (\<lambda>nc.
       if IsZoneEnabled nc then
         lift (comp_IsReady GraphdComponentType nc) \<bind> ok (\<lambda>ready.
           if ready then ret ()
           else lift (deref (GetReplicas new)) \<bind> ok (\<lambda>n. world (setTopologyZone e nc n)))
       else ret ())"

definition graphd_update_step :: "env \<Rightarrow> bool \<Rightarrow> workload \<Rightarrow> workload \<Rightarrow> workload op" where
  "graphd_update_step e equal old new =
     get_nc \<bind> ok (\<lambda>nc.
       if \<not> equal \<or> GetPhase GraphdComponentType nc = UpdatePhase then world (graphd_Update e nc old new) else ret new)"

text \<open>The old workload goes on with the number of replicas it has now.\<close>

definition graphd_flags_step :: "env \<Rightarrow> bool \<Rightarrow> workload \<Rightarrow> workload \<Rightarrow> workload op" where
  "graphd_flags_step e equal old new =
     (if equal then
        is_ready GraphdComponentType \<bind> ok (\<lambda>ready.
          if ready then lift (SetLastReplicasAnnotation old) \<bind> ok (\<lambda>old.
                        update_flags e GraphdComponentType old new \<bind> ok (\<lambda>_. ret old))
          else ret old)
      else ret old)"

definition syncGraphdWorkload :: "env \<Rightarrow> unit op" where
  "syncGraphdWorkload e = sync_workload e GraphdComponentType (\<lambda>new oldWorkload.
     (graphd_syncNebulaClusterStatus e new oldWorkload \<bind> wrap ''sync graphd cluster status failed'') \<bind> ok (\<lambda>_.
     case oldWorkload of
       None \<Rightarrow> sync_zone_map e GraphdComponentType \<bind> ok (\<lambda>_. create_component e GraphdComponentType new)
     | Some old \<Rightarrow>
         graphd_zone e new \<bind> ok (\<lambda>_.
         handle_failures e GraphdComponentType \<bind> ok (\<lambda>_.
         let equal = PodTemplateEqual e new old
         in graphd_update_step e equal old new \<bind> ok (\<lambda>new.
            sync_pvc e GraphdComponentType \<bind> ok (\<lambda>_.
            graphd_flags_step e equal old new \<bind> ok (\<lambda>old.
            world (ext_UpdateWorkload e new old))))))))"

definition syncGraphdHeadlessService :: "env \<Rightarrow> unit op" where
  "syncGraphdHeadlessService e = get_nc \<bind> ok (\<lambda>nc. world (syncService e (generateService GraphdComponentType nc True)))"

definition syncGraphdService :: "env \<Rightarrow> unit op" where
  "syncGraphdService e = get_nc \<bind> ok (\<lambda>nc. world (syncService e (generateService GraphdComponentType nc False)))"

definition graphd_Reconcile :: "env \<Rightarrow> unit op" where
  "graphd_Reconcile e =
     syncGraphdHeadlessService e \<bind> ok (\<lambda>_. syncGraphdService e \<bind> ok (\<lambda>_. syncGraphdWorkload e))"

definition graphd_Delete :: "env \<Rightarrow> unit op" where
  "graphd_Delete e = delete_component e GraphdComponentType"

section \<open>Metad (metad_cluster.go)\<close>

definition metad_syncNebulaClusterStatus :: "env \<Rightarrow> workload option \<Rightarrow> unit op" where
  "metad_syncNebulaClusterStatus e oldWorkload =
     (case oldWorkload of
        None \<Rightarrow> ret ()
      | Some old \<Rightarrow>
          get_nc \<bind> ok (\<lambda>nc.
          world (isUpdating e MetadComponentType nc old) \<bind> ok (\<lambda>updating.
          set_phase MetadComponentType (if updating then UpdatePhase else RunningPhase) \<bind> ok (\<lambda>_.
          watch_hosts e MetadComponentType old))))"

text \<open>An error of the volume claims is dropped here.\<close>

definition syncMetadPVC :: "env \<Rightarrow> unit op" where
  "syncMetadPVC e =
     get_nc \<bind> ok (\<lambda>nc.
       world (syncPVC e MetadComponentType nc) \<bind> handle (\<lambda>_. ret ()) (\<lambda>v. set_nc (SetVolumeStatus MetadComponentType v)))"

definition metad_update_step :: "env \<Rightarrow> bool \<Rightarrow> workload \<Rightarrow> workload \<Rightarrow> workload op" where
  "metad_update_step e equal old new =
     get_nc \<bind> ok (\<lambda>nc.
       if \<not> equal \<or> GetPhase MetadComponentType nc = UpdatePhase then world (metad_Update e nc old new) else ret new)"

definition metad_flags_step :: "env \<Rightarrow> bool \<Rightarrow> workload \<Rightarrow> workload \<Rightarrow> unit op" where
  "metad_flags_step e equal old new =
     (if equal then
        is_ready MetadComponentType \<bind> ok (\<lambda>ready. if ready then update_flags e MetadComponentType old new else ret ())
      else ret ())"

definition syncMetadWorkload :: "env \<Rightarrow> unit op" where
  "syncMetadWorkload e = sync_workload e MetadComponentType (\<lambda>new oldWorkload.
     (metad_syncNebulaClusterStatus e oldWorkload \<bind> wrap ''sync metad cluster status failed'') \<bind> ok (\<lambda>_.
     case oldWorkload of
       None \<Rightarrow> create_component e MetadComponentType new
     | Some old \<Rightarrow>
         handle_failures e MetadComponentType \<bind> ok (\<lambda>_.
         let equal = PodTemplateEqual e new old
         in metad_update_step e equal old new \<bind> ok (\<lambda>new.
            syncMetadPVC e \<bind> ok (\<lambda>_.
            metad_flags_step e equal old new \<bind> ok (\<lambda>_.
            world (ext_UpdateWorkload e new old)))))))"

definition syncMetadHeadlessService :: "env \<Rightarrow> unit op" where
  "syncMetadHeadlessService e = get_nc \<bind> ok (\<lambda>nc. world (syncService e (generateService MetadComponentType nc True)))"

definition metad_Reconcile :: "env \<Rightarrow> unit op" where
  "metad_Reconcile e = syncMetadHeadlessService e \<bind> ok (\<lambda>_. syncMetadWorkload e)"

definition metad_Delete :: "env \<Rightarrow> unit op" where
  "metad_Delete e = delete_component e MetadComponentType"


section \<open>Storaged (storaged_cluster.go)\<close>

definition is_scaling :: "component_phase \<Rightarrow> bool" where
  "is_scaling ph \<longleftrightarrow> ph = ScaleInPhase \<or> ph = ScaleOutPhase"

definition storaged_syncNebulaClusterStatus :: "env \<Rightarrow> workload option \<Rightarrow> unit op" where
  "storaged_syncNebulaClusterStatus e oldWorkload =
     (case oldWorkload of
        None \<Rightarrow> ret ()
      | Some old \<Rightarrow>
          set_nc (\<lambda>nc. if GetPhase StoragedComponentType nc = NoPhase
                         then SetPhase StoragedComponentType RunningPhase nc else nc) \<bind> ok (\<lambda>_.
          get_nc \<bind> ok (\<lambda>nc.
          world (isUpdating e StoragedComponentType nc old) \<bind> ok (\<lambda>updating.
          (if updating \<and> \<not> is_scaling (GetPhase StoragedComponentType nc) \<and> GetPhase MetadComponentType nc \<noteq> UpdatePhase
           then set_phase StoragedComponentType UpdatePhase else ret ()) \<bind> ok (\<lambda>_.
          watch_hosts e StoragedComponentType old)))))"

definition storage_hosts :: "env \<Rightarrow> nebula_cluster \<Rightarrow> int \<Rightarrow> int \<Rightarrow> host_addr list" where
  "storage_hosts e nc start newReplicas =
     map (\<lambda>i. (comp_GetPodFQDN (e_getenv e) StoragedComponentType nc i, comp_GetPort StoragedComponentType nc ''thrift''))
       [start..newReplicas - 1]"

definition addStorageHosts :: "env \<Rightarrow> int \<Rightarrow> int \<Rightarrow> unit op" where
  "addStorageHosts e oldReplicas newReplicas =
     get_nc \<bind> ok (\<lambda>nc.
       with_meta e (meta_endpoints e nc)
         (let start = (if newReplicas > oldReplicas then oldReplicas else 0)
          in world (AddHosts e (storage_hosts e nc start newReplicas))))"

definition registeredHosts :: "env \<Rightarrow> string set io" where
  "registeredHosts e = ListHosts e StorageHosts \<bind> ok (\<lambda>hosts. ret (set (map (\<lambda>h. fst (hi_host h)) hosts)))"

text \<open>A pod that runs in a zone is registered in that zone, once.\<close>

definition add_host_to_zone :: "env \<Rightarrow> nebula_cluster \<Rightarrow> int \<Rightarrow> strmap \<Rightarrow> strmap io" where
  "add_host_to_zone e nc i data =
     (let podName = comp_GetPodName StoragedComponentType nc i
      in if has_key data podName then ret data
         else pod_zone e nc podName \<bind> ok (\<lambda>z.
           case z of
             None \<Rightarrow> ret data
           | Some zone \<Rightarrow>
               (AddHostsIntoZone e [(comp_GetPodFQDN (e_getenv e) StoragedComponentType nc i,
                                     comp_GetPort StoragedComponentType nc ''thrift'')] zone
                  \<bind> wrap ''add host into zone error'') \<bind> ok (\<lambda>_. ret (AList.update podName zone data))))"

definition addStorageHostsToZone :: "env \<Rightarrow> int \<Rightarrow> unit op" where
  "addStorageHostsToZone e newReplicas =
     get_nc \<bind> ok (\<lambda>nc.
       with_meta e (meta_endpoints e nc)
         (world (GetConfigMap e (nc_ns nc) (zone_cm_name StoragedComponentType nc) \<bind> ok (\<lambda>cmTemp.
            let cm = copyZoneData StoragedComponentType nc cmTemp
            in fold_go (add_host_to_zone e nc) [0..newReplicas - 1] (cm_data cm) \<bind> ok (\<lambda>data.
               CreateOrUpdateConfigMap e (cm\<lparr>cm_data := data\<rparr>))))))"

definition running_pod_zone :: "env \<Rightarrow> nebula_cluster \<Rightarrow> string \<Rightarrow> string option io" where
  "running_pod_zone e nc podName =
     GetPod e (nc_ns nc) podName \<bind> ok (\<lambda>p. node_zone e (pd_node p) \<bind> ok (\<lambda>z. ret (Some z)))"

definition updateZoneMappings :: "env \<Rightarrow> nebula_cluster \<Rightarrow> int \<Rightarrow> unit io" where
  "updateZoneMappings e nc newReplicas =
     GetConfigMap e (nc_ns nc) (zone_cm_name StoragedComponentType nc) \<bind> ok (\<lambda>cm.
       let newCM = generateZoneConfigMap StoragedComponentType nc
       in fold_go (zone_step (running_pod_zone e nc) (cm_data cm)) (pod_names StoragedComponentType nc newReplicas) (cm_data newCM) \<bind> ok (\<lambda>data.
          CreateOrUpdateConfigMap e (newCM\<lparr>cm_data := data\<rparr>)))"

text \<open>The new hosts are made known to the meta service before their pods exist.\<close>

definition register_hosts :: "env \<Rightarrow> workload \<Rightarrow> workload \<Rightarrow> unit op" where
  "register_hosts e old new =
     get_nc \<bind> ok (\<lambda>nc.
       (if \<not> sg_hosts_added (sg_of nc) \<and> \<not> IsZoneEnabled nc then
          lift (deref (GetReplicas old)) \<bind> ok (\<lambda>oldReplicas.
          lift (deref (GetReplicas new)) \<bind> ok (\<lambda>newReplicas.
          addStorageHosts e oldReplicas newReplicas \<bind> ok (\<lambda>_.
          set_nc (map_sg (sg_hosts_added_update (\<lambda>_. True))))))
        else ret ()) \<bind> ok (\<lambda>_.
       lift (deref (GetReplicas new)) \<bind> ok (\<lambda>newReplicas.
       lift (deref (GetReplicas old)) \<bind> ok (\<lambda>oldReplicas.
       (if newReplicas > oldReplicas \<and> \<not> IsZoneEnabled nc then addStorageHosts e oldReplicas newReplicas else ret ()) \<bind> ok (\<lambda>_.
       if IsZoneEnabled nc then
         is_ready StoragedComponentType \<bind> ok (\<lambda>ready. if ready then ret () else addStorageHostsToZone e newReplicas)
       else ret ())))))"

definition storaged_update_step :: "env \<Rightarrow> bool \<Rightarrow> workload \<Rightarrow> workload \<Rightarrow> workload op" where
  "storaged_update_step e equal old new =
     get_nc \<bind> ok (\<lambda>nc.
       if \<not> equal \<or> GetPhase StoragedComponentType nc = UpdatePhase then
         if length (GetDataVolumeClaims old) \<noteq> length (GetDataVolumeClaims new)
         then throw (ErrPlain ''update storage data volume claims is not supported'')
         else storaged_Update e old new
       else ret new)"

definition restart_pod_step :: "env \<Rightarrow> workload \<Rightarrow> unit op" where
  "restart_pod_step e old =
     (case map_of (wl_annotations old) AnnRestartPodOrdinal of
        None \<Rightarrow> ret ()
      | Some oVal \<Rightarrow>
          (case parse_int 64 oVal of
             None \<Rightarrow> ret ()
           | Some ordinal \<Rightarrow>
               get_nc \<bind> ok (\<lambda>nc.
                 if 0 \<le> ordinal \<and> ordinal < deref_or 0 (cs_replicas (spec_of StoragedComponentType nc))
                 then storaged_RestartPod e (i32 ordinal) \<bind> ok (\<lambda>_. storaged_Balance e) else ret ())))"

definition storaged_flags_step :: "env \<Rightarrow> bool \<Rightarrow> workload \<Rightarrow> workload \<Rightarrow> unit op" where
  "storaged_flags_step e equal old new =
     (if equal then
        is_ready StoragedComponentType \<bind> ok (\<lambda>ready.
          if ready then
            update_flags e StoragedComponentType old new \<bind> ok (\<lambda>_.
            get_nc \<bind> ok (\<lambda>nc.
              if IsZoneEnabled nc then
                lift (deref (GetReplicas new)) \<bind> ok (\<lambda>n.
                world (updateZoneMappings e nc n) \<bind> wrap ''update zone mappings failed'')
              else ret ()))
          else ret ())
      else ret ())"

definition storaged_reconcile_existing :: "env \<Rightarrow> workload \<Rightarrow> workload \<Rightarrow> unit op" where
  "storaged_reconcile_existing e old new =
     register_hosts e old new \<bind> ok (\<lambda>_.
     handle_failures e StoragedComponentType \<bind> ok (\<lambda>_.
     Scale e old new \<bind> ok (\<lambda>_.
     let equal = PodTemplateEqual e new old
     in storaged_update_step e equal old new \<bind> ok (\<lambda>new.
        restart_pod_step e old \<bind> ok (\<lambda>_.
        sync_pvc e StoragedComponentType \<bind> ok (\<lambda>_.
        storaged_flags_step e equal old new \<bind> ok (\<lambda>_.
        world (ext_UpdateWorkload e new old))))))))"

definition syncStoragedWorkload :: "env \<Rightarrow> unit op" where
  "syncStoragedWorkload e = sync_workload e StoragedComponentType (\<lambda>new oldWorkload.
     (storaged_syncNebulaClusterStatus e oldWorkload \<bind> wrap ''sync storaged cluster status failed'') \<bind> ok (\<lambda>_.
     case oldWorkload of
       None \<Rightarrow> sync_zone_map e StoragedComponentType \<bind> ok (\<lambda>_. create_component e StoragedComponentType new)
     | Some old \<Rightarrow> storaged_reconcile_existing e old new))"

definition syncStoragedHeadlessService :: "env \<Rightarrow> unit op" where
  "syncStoragedHeadlessService e = get_nc \<bind> ok (\<lambda>nc. world (syncService e (generateService StoragedComponentType nc True)))"

definition storaged_Reconcile :: "env \<Rightarrow> unit op" where
  "storaged_Reconcile e = syncStoragedHeadlessService e \<bind> ok (\<lambda>_. syncStoragedWorkload e)"

definition storaged_Delete :: "env \<Rightarrow> unit op" where
  "storaged_Delete e = delete_component e StoragedComponentType"

end
