(* ===== verification/ControllersSafety.thy ===== *)
theory ControllersSafety
  imports Controllers
begin

text \<open>
  What the controllers of \<open>Controllers\<close> guarantee about the workloads they write: storage pods are
  added only after their hosts were registered and removed only after their hosts were dropped;
  a component is created once and never reported done on the way; failure hosts are confirmed
  after the failover period.
\<close>

section \<open>Steps that do not write a workload\<close>

definition no_wl :: "call \<Rightarrow> bool" where
  "no_wl c \<longleftrightarrow> (\<forall>w. c \<noteq> UpdateWorkloadC w)"

named_theorems quiet

lemma no_wl_simps [simp]:
  "no_wl (GetPodC a b)" "no_wl (ListPodsC a l)" "no_wl Clock" "no_wl (DeletePodC p g)" "no_wl (UpdatePodC p)"
  "no_wl (GetPVCC a b)" "no_wl (UpdatePVCC v)" "no_wl (DeletePVCC v)" "no_wl (ListPVCsC a l)" "no_wl (GetNodeC a)"
  "no_wl (MetaConnect a)" "no_wl MetaClose" "no_wl (MetaRpc r)" "no_wl (MetaReconnect a)" "no_wl (GetWorkloadC a b kd)"
  "no_wl (CreateWorkloadC w)" "no_wl (DeleteWorkloadC w)" "no_wl (GetServiceC a b)" "no_wl (CreateServiceC sv)"
  "no_wl (UpdateServiceC sv)" "no_wl (GetConfigMapC a b)" "no_wl (CreateConfigMapC cm)" "no_wl (UpdateConfigMapC cm)"
  "no_wl (GetStorageClassC a)" "no_wl ListStorageClassesC" "no_wl (KindsForC a b)" "no_wl (PutFlagsC a b)"
  "no_wl (GetCluster a b)" "no_wl (UpdateClusterStatus nc)" "no_wl (StorageConnect a)" "no_wl StorageClose"
  "no_wl (TransLeaderRpc i j ha)"
  by (simp_all add: no_wl_def)

lemma no_wl_meta [simp]: "is_meta req c \<Longrightarrow> no_wl c"
  by (auto simp: is_meta_def)

lemma quiet_meta [quiet]:
  "emits no_wl (retryOnError e req)" "emits no_wl (exec_req e req)" "emits no_wl (runAdminJob e req)"
  "emits no_wl (BalanceStatus e j sp)" "emits no_wl (recover_job e t j sp)" "emits no_wl (ListSpaces e)"
  "emits no_wl (ListHosts e hl)" "emits no_wl (BalanceLeader e sp)" "emits no_wl (DropHosts e hs)"
  "emits no_wl (AddHosts e hs)" "emits no_wl (AddHostsIntoZone e hs z)" "emits no_wl (GetSpaceParts e)"
  "emits no_wl (GetLeaderCount e hst)" "emits no_wl (IsLeaderBalanced e n)" "emits no_wl (NewMetaClient e ep)"
  "emits no_wl (BalanceDataInZone e sp)" "emits no_wl (BalanceData e sp)" "emits no_wl (RecoverInZoneBalanceJob e j sp)"
  "emits no_wl (RecoverDataBalanceJob e j sp)" "emits no_wl (RemoveHostInZone e sp hs)" "emits no_wl (RemoveHost e sp hs)"
  unfolding ListSpaces_def ListHosts_def BalanceLeader_def DropHosts_def AddHosts_def AddHostsIntoZone_def GetSpaceParts_def
    GetLeaderCount_def IsLeaderBalanced_def BalanceDataInZone_def BalanceData_def RecoverInZoneBalanceJob_def GetSpace_def
    RecoverDataBalanceJob_def RemoveHostInZone_def RemoveHost_def ListParts_def
  by (auto intro!: NewMetaClient_emits emits)

lemma quiet_kube [quiet]:
  "emits no_wl (GetPod e a b)" "emits no_wl (GetNode e a)" "emits no_wl (DeletePod e a b g)" "emits no_wl (GetPVC e a b)"
  "emits no_wl (DeletePVC e a b)" "emits no_wl (ListPVCs e a l)" "emits no_wl (ListPods e a l)" "emits no_wl (GetConfigMap e a b)"
  "emits no_wl (CreateOrUpdateConfigMap e cm)" "emits no_wl (UpdatePod e p)" "emits no_wl (UpdatePVC e v)"
  "emits no_wl (CreateWorkload e w)" "emits no_wl (DeleteWorkload e w)" "emits no_wl (UpdateFinalizer_remove e v f)"
  "emits no_wl (UpdateNebulaClusterStatus e nc)" "emits no_wl (syncService e sv)" "emits no_wl (find_pod e nc n)"
  unfolding GetPod_def GetNode_def DeletePod_def GetPVC_def DeletePVC_def ListPVCs_def ListPods_def GetConfigMap_def UpdatePod_def
    UpdatePVC_def CreateWorkload_def DeleteWorkload_def UpdateFinalizer_remove_def UpdateNebulaClusterStatus_def GetNebulaCluster_def
  by (auto intro!: syncService_emits emits split: go_err.splits)

lemma quiet_status [quiet]: "does no_wl (write_status e)"
  unfolding write_status_def by (intro does quiet)

lemma quiet_with_meta [quiet]: "does no_wl m \<Longrightarrow> does no_wl (with_meta e ep m)"
  unfolding with_meta_def by (intro does quiet emits) simp_all

lemma does_throw: "does P (throw x)"
  by (rule does_return)

text \<open>The structure of the code, branches included.\<close>

lemmas walk = does emits


lemma quiet_read [quiet]:
  "emits no_wl (get_gvk e nc)" "emits no_wl (find_workload e typ nc g)" "emits no_wl (desired_workload e typ nc g old)"
  "emits no_wl (getPodAndPvcs e typ nc n)" "emits no_wl (isUpdating e typ nc w)" "emits no_wl (getNextUpdatePod e typ nc k)"
  "emits no_wl (updateDynamicFlags e eps a b)"
  unfolding get_gvk_def GetGVKFromDefinition_def find_workload_def GetWorkloadObj_def wrap_def desired_workload_def
    syncConfigMap_def getPodAndPvcs_def Let_def
  by (auto intro!: isUpdating_emits getNextUpdatePod_emits updateDynamicFlags_emits walk quiet split: list.split option.split)

lemma quiet_pvc [quiet]: "emits no_wl (PVCMark e typ nc m n)" "emits no_wl (syncPVC e typ nc)"
  unfolding PVCMark_def mark_pvc_def syncPVC_def sync_claim_def volume_worker_def expand_pvc_def group_wait_def
    GetStorageClass_def GetDefaultStorageClass_def Let_def
  by (auto intro!: run_workers_emits walk quiet split: option.split)

lemma quiet_zone [quiet]:
  "emits no_wl (setTopologyZone e nc n)" "emits no_wl (updateZoneMappings e nc n)" "emits no_wl (syncZoneConfigMap e typ nc)"
  "emits no_wl (add_host_to_zone e nc i d)"
  unfolding setTopologyZone_def updateZoneMappings_def syncZoneConfigMap_def add_host_to_zone_def zone_step_def pod_zone_def
    running_pod_zone_def node_zone_def wrap_def Let_def
  by (auto intro!: walk quiet split: option.split)

lemma quiet_hosts [quiet]: "does no_wl (addStorageHosts e m n)" "does no_wl (addStorageHostsToZone e n)"
  unfolding addStorageHosts_def addStorageHostsToZone_def Let_def
  by (auto intro!: walk quiet)

lemma quiet_failures [quiet]: "does no_wl (set_failure typ n fh)" "does no_wl (remove_failure typ n)"
  unfolding set_failure_def remove_failure_def by (intro walk quiet)+

lemma quiet_watch [quiet]: "does no_wl (watch_hosts e typ old)"
  unfolding watch_hosts_def note_offline_def confirm_host_def Let_def
  by (auto intro!: walk quiet split: option.split)

lemma quiet_failover_steps: "does no_wl missing \<Longrightarrow> does no_wl (failover_steps e typ missing)"
  unfolding failover_steps_def tryRestartPod_def restart_host_def toleratePods_def tolerate_host_def deleteFailurePodAndPVC_def
    rebuild_host_def delete_recorded_def checkPendingPod_def check_host_def Let_def
  by (auto intro!: walk quiet split: option.split)

lemma quiet_balance [quiet]: "does no_wl (balanceSpace e sp)" "does no_wl (removeHost e sp hs)"
  unfolding balanceSpace_def removeHost_def record_job_def recover_last_job_def Let_def
  by (auto intro!: walk quiet split: option.split)

lemma quiet_failover [quiet]: "does no_wl (failover e typ)"
  unfolding failover_def graphd_Failover_def metad_Failover_def storaged_Failover_def rebalance_def for_spaces_def not_found_def
  by (auto intro!: walk quiet quiet_failover_steps split: component_type.split)

lemma quiet_recovery [quiet]: "does no_wl (recovery typ hosts)" "does no_wl (shouldRecover e typ)" "does no_wl (handle_failures e typ)"
  unfolding handle_failures_def recovery_def graphd_Recovery_def metad_Recovery_def storaged_Recovery_def recover_hosts_def shouldRecover_def healthy_hosts_def Let_def
  by (auto intro!: walk quiet split: component_type.split option.split)

lemma quiet_suspend [quiet]: "does no_wl (suspendComponent e typ old)"
  unfolding suspendComponent_def by (auto intro!: walk quiet split: option.split)

lemma quiet_deleted: "emits no_wl (pvcs_deleted e nc ns)"
  by (induction ns) (auto intro!: walk quiet)

lemma quiet_scale [quiet]: "does no_wl (Scale e old new)"
  unfolding Scale_def ScaleIn_def ScaleOut_def set_storaged_phase_def for_spaces_def drop_surplus_def surplus_hosts_def
    balance_leaders_def
  by (auto intro!: walk quiet quiet_deleted)

lemma quiet_update [quiet]:
  "emits no_wl (graphd_Update e nc old new)" "emits no_wl (metad_Update e nc old new)"
  unfolding graphd_Update_def metad_Update_def advance_partition_def next_pod_def Let_def
  by (auto intro!: walk quiet)

lemma quiet_trans [quiet]:
  "emits no_wl (transLeaderIfNecessary e nc i)" "emits no_wl (mark_trans e p)" "emits no_wl (readyToUpdate e hst p)"
  "emits no_wl (updateStoragedPod e nc i new b)" "emits no_wl (restart_with_spaces e nc i b)"
  unfolding transLeaderIfNecessary_def concurrentTransLeader_def move_part_def transLeader_def collect_def TransLeader_def
    with_storage_def NewStorageClient_def mark_trans_def readyToUpdate_def updateStoragedPod_def restart_with_spaces_def
    group_wait_def Let_def
  by (auto intro!: run_workers_emits walk quiet split: option.split list.split)

lemma quiet_storaged_update [quiet]:
  "does no_wl (storaged_Update e old new)" "does no_wl (storaged_RestartPod e i)" "does no_wl (storaged_Balance e)"
  unfolding storaged_Update_def update_storaged_pods_def updateRunningPhase_def balanceLeader_def balance_space_leader_def
    set_balanced_time_def storaged_RestartPod_def storaged_Balance_def next_pod_def set_storaged_phase_def
  by (auto intro!: walk quiet split: option.split)


section \<open>Steps that leave the specification alone\<close>

definition steady_rel :: "cluster_state \<Rightarrow> cluster_state \<Rightarrow> bool" where
  "steady_rel s s' \<longleftrightarrow> nc_spec (snd s') = nc_spec (snd s) \<and> nc_meta (snd s') = nc_meta (snd s)"

abbreviation steady :: "'a op \<Rightarrow> bool" where "steady m \<equiv> obeys steady_rel m"

interpretation steady: step_relation steady_rel
  by unfold_locales (auto simp: steady_rel_def)

named_theorems steady

declare steady.rules [steady]

lemma steady_world [steady]: "steady (world m)"
  by (rule obeys_world) (auto simp: steady_rel_def wp_def split: prod.split)

lemma steady_set: "(\<And>nc. nc_spec (f nc) = nc_spec nc \<and> nc_meta (f nc) = nc_meta nc) \<Longrightarrow> steady (set_nc f)"
  by (rule obeys_set) (simp add: steady_rel_def)

lemma update_keeps [simp]:
  "nc_spec (UpdateComponentStatus typ st nc) = nc_spec nc" "nc_meta (UpdateComponentStatus typ st nc) = nc_meta nc"
  by (cases "typ"; simp add: UpdateComponentStatus_def)+

lemma steady_sets [steady]:
  "steady (set_nc (map_sg g))" "steady (set_nc (SetPhase typ ph))" "steady (set_nc (SetWorkloadStatus typ w))"
  "steady (set_nc (SetVolumeStatus typ v))" "steady (set_nc (\<lambda>nc. SetFailureHosts typ (m nc) nc))"
  "steady (set_nc (syncComponentStatus typ wl))"
  "steady (set_nc (\<lambda>nc. if GetPhase typ nc = NoPhase then SetPhase typ ph nc else nc))"
  by (rule steady_set, simp add: SetPhase_def SetWorkloadStatus_def SetVolumeStatus_def SetFailureHosts_def
      syncComponentStatus_def Let_def split: component_type.split option.split)+

lemma steady_with_meta [steady]: "steady m \<Longrightarrow> steady (with_meta e ep m)"
  unfolding with_meta_def by (intro steady)

lemma steady_status [steady]: "steady (write_status e)"
  unfolding write_status_def by (intro steady)

lemma steady_watch [steady]: "steady (watch_hosts e typ old)"
  unfolding watch_hosts_def note_offline_def confirm_host_def set_failure_def remove_failure_def Let_def
  by (auto intro!: steady split: option.split prod.split)

lemma steady_failover_steps: "steady missing \<Longrightarrow> steady (failover_steps e typ missing)"
  unfolding failover_steps_def tryRestartPod_def restart_host_def toleratePods_def deleteFailurePodAndPVC_def
    rebuild_host_def checkPendingPod_def set_failure_def Let_def
  by (auto intro!: steady split: option.split prod.split)

lemma steady_balance [steady]: "steady (balanceSpace e sp)" "steady (removeHost e sp hs)"
  unfolding balanceSpace_def removeHost_def record_job_def recover_last_job_def Let_def
  by (auto intro!: steady split: option.split prod.split)

lemma steady_failover [steady]: "steady (failover e typ)"
  unfolding failover_def graphd_Failover_def metad_Failover_def storaged_Failover_def rebalance_def for_spaces_def not_found_def
  by (auto intro!: steady steady_failover_steps split: component_type.split)

lemma steady_recovery [steady]: "steady (recovery typ hosts)" "steady (shouldRecover e typ)" "steady (handle_failures e typ)"
  unfolding handle_failures_def recovery_def graphd_Recovery_def metad_Recovery_def storaged_Recovery_def recover_hosts_def
    shouldRecover_def Let_def
  by (auto intro!: steady split: component_type.split option.split)

lemma steady_suspend [steady]: "steady (suspendComponent e typ old)"
  unfolding suspendComponent_def by (auto intro!: steady split: option.split)

lemma steady_scale [steady]: "steady (Scale e old new)"
  unfolding Scale_def ScaleIn_def ScaleOut_def set_storaged_phase_def for_spaces_def drop_surplus_def balance_leaders_def
  by (auto intro!: steady)

lemma steady_storaged_update [steady]:
  "steady (storaged_Update e old new)" "steady (storaged_RestartPod e i)" "steady (storaged_Balance e)"
  unfolding storaged_Update_def update_storaged_pods_def updateRunningPhase_def balanceLeader_def balance_space_leader_def
    set_balanced_time_def storaged_RestartPod_def storaged_Balance_def set_storaged_phase_def
  by (auto intro!: steady split: option.split)

lemma steady_hosts [steady]: "steady (addStorageHosts e m n)" "steady (addStorageHostsToZone e n)"
  unfolding addStorageHosts_def addStorageHostsToZone_def Let_def by (auto intro!: steady)

text \<open>Both at once, for the steps of the controllers.\<close>

definition calm_step :: "cluster_state \<Rightarrow> cluster_state \<Rightarrow> bool" where
  "calm_step s s' \<longleftrightarrow> steady_rel s s' \<and> (\<exists>new. fst s' = new @ fst s \<and> (\<forall>c\<in>set new. no_wl c))"

interpretation calm_step: step_relation calm_step
proof
  fix s t u :: cluster_state
  show "calm_step s s" by (simp add: calm_step_def steady_rel_def)
  assume "calm_step s t" "calm_step t u"
  then show "calm_step s u"
    unfolding calm_step_def steady_rel_def by (metis append.assoc set_append Un_iff)
qed

named_theorems calm_steps

lemma calm_stepI: "steady m \<Longrightarrow> does no_wl m \<Longrightarrow> obeys calm_step m"
  unfolding obeys_def does_def calm_step_def by (auto intro: wp_conj)

lemma calm_steps_basic [calm_steps]:
  "obeys calm_step (handle_failures e typ)" "obeys calm_step (Scale e old new)" "obeys calm_step (suspendComponent e typ wl)"
  "obeys calm_step (watch_hosts e typ w)" "obeys calm_step (storaged_Update e w w')" "obeys calm_step (storaged_RestartPod e i)"
  "obeys calm_step (storaged_Balance e)" "obeys calm_step (addStorageHosts e i j)" "obeys calm_step (addStorageHostsToZone e i)"
  "obeys calm_step (set_nc (map_sg g))" "obeys calm_step (set_nc (SetPhase typ ph))" "obeys calm_step (set_nc (SetWorkloadStatus typ v))"
  "obeys calm_step (set_nc (SetVolumeStatus typ vs))"
  "obeys calm_step (set_nc (\<lambda>nc. if GetPhase typ nc = NoPhase then SetPhase typ ph nc else nc))"
  by (intro calm_stepI steady quiet does)+

lemma calm_steps_world [calm_steps]: "emits no_wl m \<Longrightarrow> obeys calm_step (world m)"
  by (intro calm_stepI steady does)

declare calm_step.rules [calm_steps]


section \<open>What a successful step has achieved\<close>

text \<open>
  \<open>achieves s0 F m\<close>: started after calm steps from \<open>s0\<close>, a successful \<open>m\<close> ends with a history
  that satisfies \<open>F\<close>. The histories only grow, so what was achieved stays.
\<close>

definition stable :: "(call list \<Rightarrow> bool) \<Rightarrow> bool" where
  "stable F \<longleftrightarrow> (\<forall>h new. F h \<longrightarrow> F (new @ h))"

definition achieves :: "cluster_state \<Rightarrow> (call list \<Rightarrow> bool) \<Rightarrow> 'a op \<Rightarrow> bool" where
  "achieves s0 F m \<longleftrightarrow> (\<forall>s. calm_step s0 s \<longrightarrow> wp m (\<lambda>r t. is_Ok r \<longrightarrow> F (fst t)) s)"

lemma achievesD: "achieves s0 F m \<Longrightarrow> calm_step s0 s \<Longrightarrow> wp m (\<lambda>r t. is_Ok r \<longrightarrow> F (fst t)) s"
  unfolding achieves_def by blast

lemma stable_calm: "stable F \<Longrightarrow> F (fst s) \<Longrightarrow> calm_step s t \<Longrightarrow> F (fst t)"
  by (auto simp: stable_def calm_step_def)

lemma achieves_first:
  fixes m :: "'a op"
  assumes "achieves s0 F m" "stable F" "\<And>x. obeys calm_step (f x)"
  shows "achieves s0 F (m \<bind> ok f)"
  unfolding achieves_def wp_bind
proof (intro allI impI, rule wp_mono [OF achievesD [OF assms(1)]])
  fix s t :: cluster_state and r :: "'a outcome"
  assume "is_Ok r \<longrightarrow> F (fst t)"
  then show "wp (ok f r) (\<lambda>r t. is_Ok r \<longrightarrow> F (fst t)) t"
    using assms(2,3) by (cases r) (auto simp: wp_ok intro: wp_mono [OF obeysD] stable_calm)
qed

lemma achieves_later:
  fixes m :: "'a op"
  assumes "obeys calm_step m" "\<And>x. achieves s0 F (f x)"
  shows "achieves s0 F (m \<bind> ok f)"
  unfolding achieves_def wp_bind
proof (intro allI impI, rule wp_mono [OF obeysD [OF assms(1)]])
  fix s t :: cluster_state and r :: "'a outcome"
  assume "calm_step s0 s" "calm_step s t"
  then have "calm_step s0 t" by (rule calm_step.trans)
  then show "wp (ok f r) (\<lambda>r t. is_Ok r \<longrightarrow> F (fst t)) t"
    using achievesD [OF assms(2)] by (cases r) (auto simp: wp_ok)
qed

lemma achieves_get:
  assumes "\<And>nc. nc_spec nc = nc_spec (snd s0) \<Longrightarrow> nc_meta nc = nc_meta (snd s0) \<Longrightarrow> achieves s0 F (f nc)"
  shows "achieves s0 F (get_nc \<bind> ok f)"
  unfolding achieves_def
proof (intro allI impI)
  fix s
  assume s: "calm_step s0 s"
  then have "achieves s0 F (f (snd s))" by (intro assms) (auto simp: calm_step_def steady_rel_def)
  with s show "wp (get_nc \<bind> ok f) (\<lambda>r t. is_Ok r \<longrightarrow> F (fst t)) s"
    by (cases s) (simp add: wp_bind wp_get_nc wp_ok [of _ "Ok _"] achieves_def)
qed

lemma achieves_throw: "achieves s0 F (throw x)"
  by (simp add: achieves_def wp_return)

lemma achieves_lift:
  "(\<And>x. r = Ok x \<Longrightarrow> achieves s0 F (f x)) \<Longrightarrow> achieves s0 F (lift r \<bind> ok f)"
  by (cases r) (auto simp: achieves_def wp_simps)

lemma achieves_with_meta:
  assumes "achieves s0 F m" "stable F"
  shows "achieves s0 F (with_meta e ep m)"
  unfolding with_meta_def
proof (rule achieves_later)
  have close: "F h \<Longrightarrow> F (MetaClose # h)" for h
    using assms(2) unfolding stable_def by (metis append_Cons append_Nil)
  show "obeys calm_step (world (NewMetaClient e ep))" by (intro calm_steps quiet)
  show "achieves s0 F (with_defer m (send (e_done e) MetaClose))"
    unfolding achieves_def
  proof (intro allI impI)
    fix s
    assume "calm_step s0 s"
    from achievesD [OF assms(1) this] show "wp (with_defer m (send (e_done e) MetaClose)) (\<lambda>r t. is_Ok r \<longrightarrow> F (fst t)) s"
      unfolding wp_with_defer
      by (rule wp_mono) (use close in \<open>auto simp: wp_world wp_send\<close>)
  qed
qed

text \<open>A request the meta service accepted in this run: after the history \<open>h\<close>.\<close>

definition answered :: "env \<Rightarrow> meta_req \<Rightarrow> call list \<Rightarrow> call list \<Rightarrow> bool" where
  "answered e req h x \<longleftrightarrow> (\<exists>a c r. x = a @ c \<and> accepted e req c r \<and> length h < length c)"

lemma answered_later: "answered e req h x \<Longrightarrow> answered e req h (new @ x)"
  unfolding answered_def by (metis append.assoc)

lemma stable_answered: "stable (answered e req h)"
  by (simp add: stable_def answered_later)

lemma exec_req_answered:
  "wp (exec_req e req) (\<lambda>r h'. is_Ok r \<longrightarrow> answered e req h h') h"
proof -
  have "wp (retryOnError e req) (\<lambda>r h'. length h < length h') h"
    unfolding retryOnError_def by (auto simp: wp_simps split: outcome.split option.split)
  from wp_conj [OF this retryOnError_accepted] show ?thesis
    unfolding exec_req_def wp_bind
    by (rule wp_mono) (auto simp: wp_simps answered_def split: outcome.split intro: exI [of _ "[]"])
qed

lemma achieves_request: "achieves s0 (answered e req (fst s0)) (world (exec_req e req))"
  unfolding achieves_def
proof (intro allI impI)
  fix s
  assume s: "calm_step s0 s"
  have "answered e req (fst s) h' \<Longrightarrow> answered e req (fst s0) h'" for h'
    using s by (fastforce simp: answered_def calm_step_def)
  then show "wp (world (exec_req e req)) (\<lambda>r t. is_Ok r \<longrightarrow> answered e req (fst s0) (fst t)) s"
    using exec_req_answered [of e req "fst s"] by (cases s) (auto simp: wp_world elim!: wp_mono)
qed

section \<open>Hosts of storage pods\<close>

lemma addStorageHosts_achieves:
  assumes "m < n"
  shows "achieves s0 (answered e (AddHostsReq (storage_hosts e (snd s0) m n)) (fst s0)) (addStorageHosts e m n)"
  unfolding addStorageHosts_def
proof (rule achieves_get)
  fix nc :: nebula_cluster
  assume nc: "nc_spec nc = nc_spec (snd s0)" "nc_meta nc = nc_meta (snd s0)"
  then have eq: "storage_hosts e nc m n = storage_hosts e (snd s0) m n"
    by (simp add: storage_hosts_def comp_GetPodFQDN_def comp_GetPodName_def comp_GetName_def comp_GetServiceFQDN_def
        comp_GetPort_def GenerateContainerPorts_def storaged_GenerateContainerPorts_def)
  show "achieves s0 (answered e (AddHostsReq (storage_hosts e (snd s0) m n)) (fst s0))
     (with_meta e (meta_endpoints e nc) (let start = (if n > m then m else 0) in world (AddHosts e (storage_hosts e nc start n))))"
    using assms eq by (auto simp: AddHosts_def intro!: achieves_with_meta achieves_request stable_answered)
qed

text \<open>Growing without zones, the hosts of the new pods are registered.\<close>

lemma register_hosts_achieves:
  assumes "GetReplicas old = Some m" "GetReplicas new = Some n" "m < n" "\<not> IsZoneEnabled (snd s0)"
  shows "achieves s0 (answered e (AddHostsReq (storage_hosts e (snd s0) m n)) (fst s0)) (register_hosts e old new)"
  unfolding register_hosts_def
proof (rule achieves_get)
  fix nc :: nebula_cluster
  assume nc: "nc_spec nc = nc_spec (snd s0)" "nc_meta nc = nc_meta (snd s0)"
  then have z: "\<not> IsZoneEnabled nc" using assms(4) by (simp add: IsZoneEnabled_def)
  have "obeys calm_step (if \<not> sg_hosts_added (sg_of nc) \<and> \<not> IsZoneEnabled nc then
          lift (deref (GetReplicas old)) \<bind> ok (\<lambda>oldReplicas. lift (deref (GetReplicas new)) \<bind> ok (\<lambda>newReplicas.
          addStorageHosts e oldReplicas newReplicas \<bind> ok (\<lambda>_. set_nc (map_sg (sg_hosts_added_update (\<lambda>_. True))))))
        else ret ())"
    by (intro calm_steps)
  then show "achieves s0 (answered e (AddHostsReq (storage_hosts e (snd s0) m n)) (fst s0))
      ((if \<not> sg_hosts_added (sg_of nc) \<and> \<not> IsZoneEnabled nc then
          lift (deref (GetReplicas old)) \<bind> ok (\<lambda>oldReplicas. lift (deref (GetReplicas new)) \<bind> ok (\<lambda>newReplicas.
          addStorageHosts e oldReplicas newReplicas \<bind> ok (\<lambda>_. set_nc (map_sg (sg_hosts_added_update (\<lambda>_. True))))))
        else ret ()) \<bind> ok (\<lambda>_.
       lift (deref (GetReplicas new)) \<bind> ok (\<lambda>newReplicas. lift (deref (GetReplicas old)) \<bind> ok (\<lambda>oldReplicas.
       (if newReplicas > oldReplicas \<and> \<not> IsZoneEnabled nc then addStorageHosts e oldReplicas newReplicas else ret ()) \<bind> ok (\<lambda>_.
       if IsZoneEnabled nc then
         is_ready StoragedComponentType \<bind> ok (\<lambda>ready. if ready then ret () else addStorageHostsToZone e newReplicas)
       else ret ())))))"
    using assms z
    by (intro achieves_later achieves_lift achieves_first [OF _ stable_answered])
       (auto intro: addStorageHosts_achieves calm_steps)
qed


lemma achieves_val:
  fixes m :: "'a op"
  assumes m: "\<And>s. calm_step s0 s \<Longrightarrow> wp m (\<lambda>r t. calm_step s t \<and> (\<forall>x. r = Ok x \<longrightarrow> V x (fst t))) s"
    and f: "\<And>x s1. calm_step s0 s1 \<Longrightarrow> V x (fst s1) \<Longrightarrow> achieves s1 F (f x)"
  shows "achieves s0 F (m \<bind> ok f)"
  unfolding achieves_def wp_bind
proof (intro allI impI, rule wp_mono [OF m], assumption)
  fix s t :: cluster_state and r :: "'a outcome"
  assume "calm_step s0 s" and t: "calm_step s t \<and> (\<forall>x. r = Ok x \<longrightarrow> V x (fst t))"
  then have s1: "calm_step s0 t" using calm_step.trans by blast
  show "wp (ok f r) (\<lambda>r t. is_Ok r \<longrightarrow> F (fst t)) t"
  proof (cases r)
    case (Ok x)
    with t have "achieves t F (f x)" by (intro f [OF s1]) blast
    from achievesD [OF this calm_step.refl] Ok show ?thesis by (simp add: wp_ok)
  qed (simp_all add: wp_ok)
qed

lemma achieves_weaken:
  assumes "achieves s0 G m" "obeys calm_step m" "\<And>t. calm_step s0 t \<Longrightarrow> G (fst t) \<Longrightarrow> F (fst t)"
  shows "achieves s0 F m"
  unfolding achieves_def
proof (intro allI impI)
  fix s
  assume s: "calm_step s0 s"
  from wp_conj [OF achievesD [OF assms(1) s] obeysD [OF assms(2), of s]]
  show "wp m (\<lambda>r t. is_Ok r \<longrightarrow> F (fst t)) s"
    by (rule wp_mono) (use assms(3) calm_step.trans [OF s] in blast)
qed

text \<open>
  The surplus pods of a scale-in: the hosts that are dropped are those of the pods that exist
  and are not pending.
\<close>

definition no_host :: "env \<Rightarrow> nebula_cluster \<Rightarrow> int \<Rightarrow> call list \<Rightarrow> bool" where
  "no_host e nc i h \<longleftrightarrow> (\<exists>a c. h = a @ GetPodC (nc_ns nc) (comp_GetPodName StoragedComponentType nc i) # c
     \<and> (case e_pod e (GetPodC (nc_ns nc) (comp_GetPodName StoragedComponentType nc i) # c) of
          Ok p \<Rightarrow> isPodPending p | Err x \<Rightarrow> x = ErrNotFound | Panic \<Rightarrow> False))"

definition host_of :: "env \<Rightarrow> nebula_cluster \<Rightarrow> int \<Rightarrow> host_addr" where
  "host_of e nc i = (comp_GetPodFQDN (e_getenv e) StoragedComponentType nc i, comp_GetPort StoragedComponentType nc ''thrift'')"

definition covers :: "env \<Rightarrow> nebula_cluster \<Rightarrow> int \<Rightarrow> int \<Rightarrow> host_addr list \<Rightarrow> call list \<Rightarrow> bool" where
  "covers e nc n m hosts h \<longleftrightarrow> (\<forall>i. n \<le> i \<and> i < m \<longrightarrow> host_of e nc i \<in> set hosts \<or> no_host e nc i h)"

lemma no_host_later: "no_host e nc i h \<Longrightarrow> no_host e nc i (new @ h)"
  unfolding no_host_def by (metis append.assoc)

lemma covers_later: "covers e nc n m hosts h \<Longrightarrow> covers e nc n m hosts (new @ h)"
  unfolding covers_def using no_host_later by blast

lemma surplus_fold:
  "wp (fold_go (\<lambda>i hosts. GetPod e (nc_ns nc) (comp_GetPodName StoragedComponentType nc i) \<bind>
         handle (\<lambda>x. if x = ErrNotFound then ret hosts else throw x)
           (\<lambda>p. if isPodPending p then ret hosts else ret (hosts @ [host_of e nc i]))) xs acc)
     (\<lambda>r h'. (\<exists>new. h' = new @ h) \<and> (\<forall>hosts. r = Ok hosts \<longrightarrow> set acc \<subseteq> set hosts
        \<and> (\<forall>i\<in>set xs. host_of e nc i \<in> set hosts \<or> no_host e nc i h'))) h"
proof (induction xs arbitrary: acc h)
  case Nil
  then show ?case by (simp add: wp_return)
next
  case (Cons i xs)
  let ?rd = "GetPodC (nc_ns nc) (comp_GetPodName StoragedComponentType nc i)"
  have visit: "wp (fold_go (\<lambda>i hosts. GetPod e (nc_ns nc) (comp_GetPodName StoragedComponentType nc i) \<bind>
         handle (\<lambda>x. if x = ErrNotFound then ret hosts else throw x)
           (\<lambda>p. if isPodPending p then ret hosts else ret (hosts @ [host_of e nc i]))) xs acc')
     (\<lambda>r h'. (\<exists>new. h' = new @ h) \<and> (\<forall>hosts. r = Ok hosts \<longrightarrow> set acc \<subseteq> set hosts
        \<and> (\<forall>i\<in>set (i # xs). host_of e nc i \<in> set hosts \<or> no_host e nc i h'))) (?rd # h)"
    if "set acc \<subseteq> set acc'" "host_of e nc i \<in> set acc' \<or> no_host e nc i (?rd # h)" for acc'
  proof (rule wp_mono [OF Cons.IH])
    fix r h'
    assume "(\<exists>new. h' = new @ ?rd # h) \<and> (\<forall>hosts. r = Ok hosts \<longrightarrow> set acc' \<subseteq> set hosts
        \<and> (\<forall>i\<in>set xs. host_of e nc i \<in> set hosts \<or> no_host e nc i h'))"
    with that no_host_later show "(\<exists>new. h' = new @ h) \<and> (\<forall>hosts. r = Ok hosts \<longrightarrow> set acc \<subseteq> set hosts
        \<and> (\<forall>i\<in>set (i # xs). host_of e nc i \<in> set hosts \<or> no_host e nc i h'))"
      by fastforce
  qed
  have here: "no_host e nc i (?rd # h)" if "e_pod e (?rd # h) = Err ErrNotFound \<or> (\<exists>p. e_pod e (?rd # h) = Ok p \<and> isPodPending p)"
    unfolding no_host_def by (rule exI [of _ "[]"], rule exI [of _ h]) (use that in auto)
  have "set acc \<subseteq> set (acc @ [host_of e nc i])" "host_of e nc i \<in> set (acc @ [host_of e nc i])" by auto
  note found = visit [OF this(1) disjI1 [OF this(2)]] and skipped = visit [OF subset_refl disjI2 [OF here]]
  show ?case
  proof (cases "e_pod e (?rd # h)")
    case (Ok p)
    then show ?thesis using found skipped by (cases "isPodPending p") (simp_all add: wp_bind GetPod_def wp_send wp_handle wp_return wp_ok)
  next
    case (Err x)
    then show ?thesis using skipped by (cases "x = ErrNotFound") (auto simp: wp_bind GetPod_def wp_send wp_handle wp_return wp_ok)
  qed (simp add: wp_bind GetPod_def wp_send wp_handle wp_return wp_ok)
qed

lemma surplus_hosts_covers:
  "wp (surplus_hosts e nc m n) (\<lambda>r h'. (\<exists>new. h' = new @ h) \<and> (\<forall>hosts. r = Ok hosts \<longrightarrow> covers e nc n m hosts h')) h"
  unfolding surplus_hosts_def covers_def host_of_def [symmetric]
  by (rule wp_mono [OF surplus_fold]) auto

lemma quiet_surplus [quiet]: "emits no_wl (surplus_hosts e nc m n)"
  unfolding surplus_hosts_def by (intro walk quiet)

text \<open>A scale-in that succeeds has had the hosts of the surplus pods dropped.\<close>

definition dropped :: "env \<Rightarrow> nebula_cluster \<Rightarrow> int \<Rightarrow> int \<Rightarrow> call list \<Rightarrow> call list \<Rightarrow> bool" where
  "dropped e nc n m h0 h \<longleftrightarrow> (\<exists>hosts. answered e (DropHostsReq hosts) h0 h \<and> covers e nc n m hosts h)"

lemma stable_dropped: "stable (dropped e nc n m h0)"
  unfolding stable_def dropped_def using answered_later covers_later by blast

lemma same_hosts:
  assumes "nc_spec nc = nc_spec nc'" "nc_meta nc = nc_meta nc'"
  shows "covers e nc = covers e nc'"
  using assms
  by (simp add: fun_eq_iff covers_def no_host_def host_of_def comp_GetPodFQDN_def comp_GetPodName_def comp_GetName_def
      comp_GetServiceFQDN_def comp_GetPort_def GenerateContainerPorts_def storaged_GenerateContainerPorts_def)

lemma calm_for_spaces: "(\<And>sp. obeys calm_step (f sp)) \<Longrightarrow> obeys calm_step (for_spaces field f spaces)"
  unfolding for_spaces_def by (intro calm_steps)

lemma calm_balance [calm_steps]: "obeys calm_step (balanceSpace e sp)" "obeys calm_step (removeHost e sp hs)"
    "obeys calm_step (write_status e)"
  by (intro calm_stepI steady quiet)+

lemma calm_with_meta [calm_steps]: "obeys calm_step m \<Longrightarrow> obeys calm_step (with_meta e ep m)"
  unfolding with_meta_def by (intro calm_steps quiet walk) simp_all

lemma drop_surplus_achieves:
  assumes "n < m" "i32 (m - n) > 0"
  shows "achieves s0 (dropped e (snd s0) n m (fst s0)) (drop_surplus e spaces m n)"
proof -
  have rest: "achieves s1 (dropped e (snd s0) n m (fst s0))
      (for_spaces sg_removed_spaces (\<lambda>s. removeHost e s hosts) spaces \<bind> ok (\<lambda>_. world (DropHosts e hosts)))"
    if s1: "calm_step s0 s1" "covers e (snd s0) n m hosts (fst s1)" for s1 hosts
  proof (rule achieves_weaken)
    show "achieves s1 (answered e (DropHostsReq hosts) (fst s1))
        (for_spaces sg_removed_spaces (\<lambda>s. removeHost e s hosts) spaces \<bind> ok (\<lambda>_. world (DropHosts e hosts)))"
      unfolding DropHosts_def by (intro achieves_later achieves_request calm_for_spaces calm_steps)
    show "obeys calm_step (for_spaces sg_removed_spaces (\<lambda>s. removeHost e s hosts) spaces \<bind> ok (\<lambda>_. world (DropHosts e hosts)))"
      by (intro calm_steps calm_for_spaces quiet)
    fix t
    assume t: "calm_step s1 t" "answered e (DropHostsReq hosts) (fst s1) (fst t)"
    from s1(1) t(2) have "answered e (DropHostsReq hosts) (fst s0) (fst t)"
      by (fastforce simp: answered_def calm_step_def)
    moreover have "covers e (snd s0) n m hosts (fst t)"
      using t(1) s1(2) covers_later by (auto simp: calm_step_def)
    ultimately show "dropped e (snd s0) n m (fst s0) (fst t)" unfolding dropped_def by blast
  qed
  have surplus: "achieves s0 (dropped e (snd s0) n m (fst s0)) (world (surplus_hosts e nc m n) \<bind> ok (\<lambda>hosts.
      for_spaces sg_removed_spaces (\<lambda>s. removeHost e s hosts) spaces \<bind> ok (\<lambda>_. world (DropHosts e hosts))))"
    if nc: "nc_spec nc = nc_spec (snd s0)" "nc_meta nc = nc_meta (snd s0)" for nc
  proof (rule achieves_val [OF _ rest])
    fix s :: cluster_state
    have "wp (world (surplus_hosts e nc m n)) (\<lambda>r t. calm_step s t \<and> ((\<exists>new. fst t = new @ fst s)
         \<and> (\<forall>hosts. r = Ok hosts \<longrightarrow> covers e nc n m hosts (fst t)))) s"
    proof (rule wp_conj)
      show "wp (world (surplus_hosts e nc m n)) (\<lambda>_. calm_step s) s" by (intro obeysD calm_steps quiet)
    qed (cases s, simp add: wp_world surplus_hosts_covers)
    then show "wp (world (surplus_hosts e nc m n)) (\<lambda>r t. calm_step s t
         \<and> (\<forall>hosts. r = Ok hosts \<longrightarrow> covers e (snd s0) n m hosts (fst t))) s"
      by (rule wp_mono) (simp add: same_hosts [OF nc])
  qed
  show ?thesis
    unfolding drop_surplus_def using assms by (auto intro!: achieves_get surplus)
qed

lemma calm_drop_surplus [calm_steps]: "obeys calm_step (drop_surplus e spaces m n)"
  unfolding drop_surplus_def by (intro calm_steps calm_for_spaces quiet)

lemma Scale_achieves:
  assumes "GetReplicas old = Some m" "GetReplicas new = Some n" "n < m" "0 \<le> n"
  shows "achieves s0 (dropped e (snd s0) n m (fst s0)) (Scale e old new)"
proof -
  have "in_i32 m" using assms(1) by (auto simp: GetReplicas_def)
  with assms(3,4) have pos: "i32 (m - n) > 0" by (simp add: in_i32_def)
  have "achieves s0 (dropped e (snd s0) n m (fst s0)) (ScaleIn e m n)"
    unfolding ScaleIn_def set_storaged_phase_def balance_leaders_def
    by (intro achieves_later achieves_with_meta achieves_get achieves_first [OF drop_surplus_achieves [OF assms(3) pos]]
        stable_dropped calm_steps calm_for_spaces quiet quiet_deleted)
  with assms show ?thesis
    unfolding Scale_def by (intro achieves_lift achieves_get) simp
qed


section \<open>The workload that is written\<close>

text \<open>What a step returns.\<close>

definition gives :: "('a \<Rightarrow> bool) \<Rightarrow> 'a op \<Rightarrow> bool" where
  "gives V m \<longleftrightarrow> (\<forall>s. wp m (\<lambda>r _. \<forall>x. r = Ok x \<longrightarrow> V x) s)"

lemma givesD: "gives V m \<Longrightarrow> wp m (\<lambda>r _. \<forall>x. r = Ok x \<longrightarrow> V x) s"
  unfolding gives_def by blast

lemma gives_basic: "V x \<Longrightarrow> gives V (ret x)" "gives V (throw y)"
  "(\<And>x. r = Ok x \<Longrightarrow> V x) \<Longrightarrow> gives V (lift r)"
  by (auto simp: gives_def wp_simps)

lemma gives_world: "yields V m \<Longrightarrow> gives V (world m)"
  by (auto simp: gives_def wp_world dest: yieldsD intro: wp_mono)

lemma gives_ok:
  assumes "\<And>x. gives V (f x)"
  shows "gives V (m \<bind> ok f)"
  unfolding gives_def wp_bind
proof (intro allI, rule wp_mono [OF wp_true])
  show "wp (ok f r) (\<lambda>r _. \<forall>x. r = Ok x \<longrightarrow> V x) s" for r s
    using givesD [OF assms] by (cases r) (simp_all add: wp_ok)
qed

lemma gives_if: "(b \<Longrightarrow> gives V m) \<Longrightarrow> (\<not> b \<Longrightarrow> gives V n) \<Longrightarrow> gives V (if b then m else n)"
  by simp

lemma gives_with_meta:
  assumes "gives V m"
  shows "gives V (with_meta e ep m)"
  unfolding with_meta_def
proof (rule gives_ok)
  show "gives V (with_defer m (send (e_done e) MetaClose))"
    unfolding gives_def wp_with_defer
    by (intro allI, rule wp_mono [OF givesD [OF assms]]) (auto simp: wp_world wp_send)
qed

lemmas gives = gives_basic gives_world gives_ok gives_if gives_with_meta

abbreviation same_replicas :: "workload \<Rightarrow> workload \<Rightarrow> bool" where
  "same_replicas w w' \<equiv> wl_replicas w' = wl_replicas w"

lemma replicas_simps [simp]:
  "wl_replicas (setPartition w i) = wl_replicas w" "wl_replicas (wl_set_template t w) = wl_replicas w"
  "wl_replicas (wl_set_annotations a w) = wl_replicas w" "wl_replicas (wl_set_strategy u w) = wl_replicas w"
  by (simp_all add: SetUpdatePartition_def wl_set_template_def wl_set_annotations_def wl_set_strategy_def)

lemma setLastConfig_replicas: "setLastConfig e old new = Ok w \<Longrightarrow> same_replicas new w"
  by (auto simp: setLastConfig_def split: option.splits)

lemma yields_ok_any: "(\<And>x. yields V (f x)) \<Longrightarrow> yields V (m \<bind> ok f)"
  by (rule yields_ok [OF yields_any])

lemma update_replicas:
  "yields (same_replicas new) (graphd_Update e nc old new)" "yields (same_replicas new) (metad_Update e nc old new)"
  "yields (same_replicas new) (updateStoragedPod e nc i new b)"
  unfolding graphd_Update_def metad_Update_def advance_partition_def updateStoragedPod_def Let_def
  by (auto intro!: yields_ok_any yields_if yields_ret yields_throw yields_lift dest: setLastConfig_replicas)

lemma storaged_Update_replicas: "gives (same_replicas new) (storaged_Update e old new)"
proof -
  have inner: "gives (same_replicas new) (world (updateStoragedPod e nc i (setPartition new p) k))" for nc i p k
    using update_replicas(3) [of "setPartition new p"] by (intro gives_world) simp
  show ?thesis
    unfolding storaged_Update_def update_storaged_pods_def
    by (auto intro!: gives inner dest: setLastConfig_replicas)
qed

lemma storaged_update_step_replicas: "gives (same_replicas new) (storaged_update_step e equal old new)"
  unfolding storaged_update_step_def by (intro gives storaged_Update_replicas) simp

lemma merge_replicas:
  assumes "GetReplicas new = Some n"
  shows "GetReplicas (merge_workload e new old) = Some n"
proof -
  from assms obtain r where "wl_replicas new = Some r" "n = i32 r" by (auto simp: GetReplicas_def)
  then show ?thesis
    by (simp add: merge_workload_def SetLastAppliedConfigAnnotation_def Let_def GetReplicas_def)
qed

lemma ext_UpdateWorkload_writes:
  assumes "GetReplicas new = Some n"
  shows "emits (\<lambda>c. no_wl c \<or> (\<exists>w. c = UpdateWorkloadC w \<and> GetReplicas w = Some n)) (ext_UpdateWorkload e new old)"
proof -
  have "GetReplicas (set_wl_spec (merge_workload e new old) live) = Some n" for live
    using merge_replicas [OF assms] by (simp add: set_wl_spec_def GetReplicas_def)
  then show ?thesis
    unfolding ext_UpdateWorkload_def UpdateWorkload_def GetWorkloadObj_def Let_def
    by (intro emits) auto
qed

text \<open>Reading the workload: \<open>old\<close> is what the server answered in this run.\<close>

definition read_workload :: "env \<Rightarrow> component_type \<Rightarrow> nebula_cluster \<Rightarrow> workload option \<Rightarrow> call list \<Rightarrow> call list \<Rightarrow> bool" where
  "read_workload e typ nc old h0 h \<longleftrightarrow> (\<exists>a c g. h = a @ GetWorkloadC (nc_ns nc) (comp_GetName typ nc) g # c @ h0
     \<and> (e_workload e (GetWorkloadC (nc_ns nc) (comp_GetName typ nc) g # c @ h0) = (case old of Some w \<Rightarrow> Ok w | None \<Rightarrow> Err ErrNotFound)))"

lemma read_workload_later: "read_workload e typ nc old h0 h \<Longrightarrow> read_workload e typ nc old h0 (new @ h)"
  unfolding read_workload_def by (metis append.assoc)

lemma calm_rule:
  fixes m :: "'a op"
  assumes m: "obeys calm_step m" and f: "\<And>x t. calm_step s t \<Longrightarrow> wp (f x) Q t" and stop: "\<And>r t. calm_step s t \<Longrightarrow> Q r t"
  shows "wp (m \<bind> ok f) Q s"
  unfolding wp_bind
proof (rule wp_mono [OF obeysD [OF m]])
  fix r :: "'a outcome" and t
  assume "calm_step s t"
  with f stop show "wp (ok f r) Q t" by (cases r) (simp_all add: wp_ok)
qed

lemma sync_workload_rule:
  assumes cont: "\<And>new old t. calm_step s t \<Longrightarrow> read_workload e typ (snd s) old (fst s) (fst t) \<Longrightarrow> wp (continue new old) Q t"
    and stop: "\<And>r t. calm_step s t \<Longrightarrow> Q r t"
  shows "wp (sync_workload e typ continue) Q s"
proof (cases s)
  case (Pair h nc)
  let ?rd = "\<lambda>g. GetWorkloadC (nc_ns nc) (comp_GetName typ nc) g"
  have tail: "wp ((suspendComponent e typ old \<bind> wrap msg) \<bind> ok (\<lambda>needSuspend. if needSuspend then ret ()
       else get_nc \<bind> ok (\<lambda>nc. world (desired_workload e typ nc g old) \<bind> ok (\<lambda>new. continue new old)))) Q t"
    if t: "calm_step s t" "read_workload e typ (snd s) old (fst s) (fst t)" for t g old msg
  proof (rule calm_rule)
    show "obeys calm_step (suspendComponent e typ old \<bind> wrap msg)"
      unfolding wrap_def by (intro calm_steps)
    fix needSuspend u
    assume u: "calm_step t u"
    have su: "calm_step s u" using t(1) u by (rule calm_step.trans)
    have ru: "read_workload e typ (snd s) old (fst s) (fst u)"
      using t(2) u read_workload_later by (auto simp: calm_step_def)
    have "wp (get_nc \<bind> ok (\<lambda>nc. world (desired_workload e typ nc g old) \<bind> ok (\<lambda>new. continue new old))) Q u"
    proof (rule calm_rule [OF calm_step.r_get])
      fix nc v
      assume v: "calm_step u v"
      show "wp (world (desired_workload e typ nc g old) \<bind> ok (\<lambda>new. continue new old)) Q v"
      proof (rule calm_rule)
        show "obeys calm_step (world (desired_workload e typ nc g old))" by (intro calm_steps quiet)
        fix x w
        assume w: "calm_step v w"
        have uw: "calm_step u w" using v w by (rule calm_step.trans)
        then show "wp (continue x old) Q w"
          using ru read_workload_later by (intro cont calm_step.trans [OF su]) (auto simp: calm_step_def)
      qed (use su v calm_step.trans stop in blast)
    qed (use su calm_step.trans stop in blast)
    then show "wp (if needSuspend then ret () else get_nc \<bind> ok (\<lambda>nc. world (desired_workload e typ nc g old)
        \<bind> ok (\<lambda>new. continue new old))) Q u"
      using stop [OF su] by (simp add: wp_return)
  qed (use t(1) calm_step.trans stop in blast)
  have found: "wp (world (find_workload e typ nc g) \<bind> ok (\<lambda>old.
      (suspendComponent e typ old \<bind> wrap ''suspend cluster failed'') \<bind> ok (\<lambda>needSuspend. if needSuspend then ret ()
       else get_nc \<bind> ok (\<lambda>nc. world (desired_workload e typ nc g old) \<bind> ok (\<lambda>new. continue new old))))) Q t"
    if t: "calm_step s t" for t g
  proof -
    obtain h' nc' where t': "t = (h', nc')" by (cases t)
    from t have h': "\<exists>c. h' = c @ h" by (auto simp: t' Pair calm_step_def)
    have st: "calm_step s (?rd g # h', nc')"
      by (rule calm_step.trans [OF t]) (simp add: t' calm_step_def steady_rel_def)
    have reads: "read_workload e typ (snd s) old (fst s) (?rd g # h')"
      if "e_workload e (?rd g # h') = (case old of Some w \<Rightarrow> Ok w | None \<Rightarrow> Err ErrNotFound)" for old
    proof -
      obtain c where "h' = c @ h" using h' by blast
      with that show ?thesis
        unfolding read_workload_def by (intro exI [of _ "[]"] exI [of _ c] exI [of _ g]) (simp add: Pair)
    qed
    show ?thesis
      using tail [OF st] reads stop [OF st]
      by (auto simp: t' find_workload_def GetWorkloadObj_def wp_bind [of "world _"] wp_bind [of "send _ _"] wp_world wp_send
          wp_handle wp_return wp_ok [of _ "Ok _"] wp_ok [of _ "Err _"] wp_ok [of _ Panic] split: outcome.split)
  qed
  have "wp (world (get_gvk e nc) \<bind> ok (\<lambda>g. world (find_workload e typ nc g) \<bind> ok (\<lambda>old.
      (suspendComponent e typ old \<bind> wrap ''suspend cluster failed'') \<bind> ok (\<lambda>needSuspend. if needSuspend then ret ()
       else get_nc \<bind> ok (\<lambda>nc. world (desired_workload e typ nc g old) \<bind> ok (\<lambda>new. continue new old)))))) Q s"
    by (rule calm_rule) (intro calm_steps quiet, erule found, erule stop)
  then show ?thesis
    unfolding sync_workload_def by (simp add: Pair wp_bind [of get_nc] wp_get_nc wp_ok [of _ "Ok nc"])
qed

section \<open>Every write is prepared\<close>

text \<open>
  \<open>writes P s t\<close>: in the calls between the two states, \<open>P\<close> holds of every workload written and of
  the history it was written at.
\<close>

definition writes :: "(workload \<Rightarrow> call list \<Rightarrow> bool) \<Rightarrow> call list \<Rightarrow> call list \<Rightarrow> bool" where
  "writes P h h' \<longleftrightarrow> (\<exists>new. h' = new @ h \<and> (\<forall>a w b. new = a @ UpdateWorkloadC w # b \<longrightarrow> P w (b @ h)))"

lemma writes_calm: "calm_step s t \<Longrightarrow> writes P (fst s) (fst t)"
  by (auto simp: calm_step_def writes_def no_wl_def)

lemma writes_last:
  assumes s: "calm_step s0 s" "F (fst s)" "stable F" and m: "emits (\<lambda>c. no_wl c \<or> (\<exists>w. c = UpdateWorkloadC w \<and> R w)) m"
    and P: "\<And>w x. R w \<Longrightarrow> F x \<Longrightarrow> P w x"
  shows "wp (world m) (\<lambda>_ t. writes P (fst s0) (fst t)) s"
proof -
  obtain c1 where c1: "fst s = c1 @ fst s0" "\<forall>c\<in>set c1. no_wl c" using s(1) by (auto simp: calm_step_def)
  have "writes P (fst s0) (new @ fst s)" if new: "\<forall>c\<in>set new. no_wl c \<or> (\<exists>w. c = UpdateWorkloadC w \<and> R w)" for new
    unfolding writes_def
  proof (intro exI conjI allI impI)
    show "new @ fst s = (new @ c1) @ fst s0" by (simp add: c1)
    fix a w b
    assume split: "new @ c1 = a @ UpdateWorkloadC w # b"
    then obtain us where us: "new = a @ UpdateWorkloadC w # us" "b = us @ c1"
      using c1(2) by (fastforce simp: append_eq_append_conv2 append_eq_Cons_conv no_wl_def)
    then have "R w" using new by (auto simp: no_wl_def)
    moreover have "F (b @ fst s0)" using s(2,3) us(2) c1(1) by (simp add: stable_def)
    ultimately show "P w (b @ fst s0)" by (rule P)
  qed
  then show ?thesis
    using emitsD [OF m, of "fst s"] by (cases s) (auto simp: wp_world elim!: wp_mono)
qed

definition prepared :: "env \<Rightarrow> nebula_cluster \<Rightarrow> call list \<Rightarrow> int \<Rightarrow> int \<Rightarrow> call list \<Rightarrow> bool" where
  "prepared e nc h0 m n h \<longleftrightarrow>
     (m < n \<and> \<not> IsZoneEnabled nc \<longrightarrow> answered e (AddHostsReq (storage_hosts e nc m n)) h0 h)
     \<and> (0 \<le> n \<and> n < m \<longrightarrow> dropped e nc n m h0 h)"


lemma stable_prepared: "stable (prepared e nc h0 m n)"
  using stable_answered stable_dropped unfolding stable_def prepared_def by blast

text \<open>One step: what it gives, what it has achieved, and what is kept.\<close>

lemma step_rule:
  fixes m :: "'a op"
  assumes s: "calm_step s0 s" "F (fst s)" and m: "obeys calm_step m" "gives V m" "achieves s0 G m" "stable F"
    and f: "\<And>x t. calm_step s0 t \<Longrightarrow> F (fst t) \<Longrightarrow> G (fst t) \<Longrightarrow> V x \<Longrightarrow> wp (f x) Q t"
    and stop: "\<And>r t. calm_step s0 t \<Longrightarrow> Q r t"
  shows "wp (m \<bind> ok f) Q s"
  unfolding wp_bind
proof (rule wp_mono [OF wp_conj [OF givesD [OF m(2)] wp_conj [OF achievesD [OF m(3) s(1)] obeysD [OF m(1)]]]])
  fix r :: "'a outcome" and t
  assume "(\<forall>x. r = Ok x \<longrightarrow> V x) \<and> (is_Ok r \<longrightarrow> G (fst t)) \<and> calm_step s t"
  with s have t: "calm_step s0 t" "F (fst t)" "\<forall>x. r = Ok x \<longrightarrow> V x" "is_Ok r \<longrightarrow> G (fst t)"
    using calm_step.trans stable_calm [OF m(4)] by blast+
  with f stop show "wp (ok f r) Q t" by (cases r) (simp_all add: wp_ok)
qed

text \<open>The steps before the write.\<close>

lemma calm_register [calm_steps]: "obeys calm_step (register_hosts e old new)"
  unfolding register_hosts_def is_ready_def by (intro calm_steps)

lemma calm_wrap [calm_steps]: "obeys calm_step (wrap msg r)"
  unfolding wrap_def by (intro calm_steps)

lemma calm_more [calm_steps]:
  "obeys calm_step (sync_pvc e typ)" "obeys calm_step (sync_zone_map e typ)" "obeys calm_step (is_ready typ)"
  "obeys calm_step (restart_pod_step e old)" "obeys calm_step (storaged_update_step e equal old new)"
  "obeys calm_step (update_flags e typ old new)" "obeys calm_step (set_phase typ ph)"
  unfolding sync_pvc_def sync_zone_map_def is_ready_def restart_pod_step_def storaged_update_step_def update_flags_def set_phase_def
  by (auto intro!: calm_steps quiet split: option.split)

lemma calm_flags [calm_steps]: "obeys calm_step (storaged_flags_step e equal old new)"
  unfolding storaged_flags_step_def by (auto intro!: calm_steps quiet)

lemma calm_status [calm_steps]: "obeys calm_step (storaged_syncNebulaClusterStatus e old)"
  unfolding storaged_syncNebulaClusterStatus_def by (auto intro!: calm_steps quiet split: option.split)

lemma calm_create [calm_steps]: "obeys calm_step (create_component e typ new)"
  unfolding create_component_def Let_def by (intro calm_steps quiet)

lemma calm_service [calm_steps]: "obeys calm_step (syncStoragedHeadlessService e)"
  unfolding syncStoragedHeadlessService_def by (intro calm_steps quiet)


lemma gives_calm: "gives (\<lambda>_. True) m"
  by (simp add: gives_def wp_true)

lemma gives_lift:
  assumes "\<And>x. r = Ok x \<Longrightarrow> gives V (f x)"
  shows "gives V (lift r \<bind> ok f)"
  using assms by (cases r) (simp_all add: gives_def wp_simps)

lemma achieves_if:
  assumes "P \<Longrightarrow> achieves s0 F m"
  shows "achieves s0 (\<lambda>x. P \<longrightarrow> F x) m"
proof (cases P)
  case False
  then show ?thesis by (simp add: achieves_def wp_true)
qed (use assms in simp)

lemma achieves_calm: "achieves s0 (\<lambda>_. True) m"
  by (simp add: achieves_def wp_true)

text \<open>The rule of a step of which nothing more is known, and of one that gives a value.\<close>

lemmas calm_then = step_rule [OF _ _ _ gives_calm achieves_calm]
lemmas gives_then = step_rule [OF _ _ _ _ achieves_calm]
lemmas achieves_then = step_rule [OF _ _ _ gives_calm]

definition prepared_write :: "env \<Rightarrow> nebula_cluster \<Rightarrow> call list \<Rightarrow> workload \<Rightarrow> call list \<Rightarrow> bool" where
  "prepared_write e nc h0 w h \<longleftrightarrow> (\<exists>old. read_workload e StoragedComponentType nc (Some old) h0 h
     \<and> (\<forall>m n. GetReplicas old = Some m \<and> GetReplicas w = Some n \<longrightarrow> prepared e nc h0 m n h))"

lemma register_hosts_sized: "gives (\<lambda>_. \<exists>n m. GetReplicas new = Some n \<and> GetReplicas old = Some m) (register_hosts e old new)"
  unfolding register_hosts_def
proof (rule gives_ok, rule gives_ok, rule gives_lift, rule gives_lift)
  fix nc :: nebula_cluster and u :: unit and n m :: int
  assume "deref (GetReplicas new) = Ok n" "deref (GetReplicas old) = Ok m"
  then have "\<exists>n m. GetReplicas new = Some n \<and> GetReplicas old = Some m"
    by (auto simp: deref_def split: option.splits)
  then show "gives (\<lambda>_. \<exists>n m. GetReplicas new = Some n \<and> GetReplicas old = Some m)
      ((if n > m \<and> \<not> IsZoneEnabled nc then addStorageHosts e m n else ret ()) \<bind> ok (\<lambda>_.
       if IsZoneEnabled nc then
         is_ready StoragedComponentType \<bind> ok (\<lambda>ready. if ready then ret () else addStorageHostsToZone e n)
       else ret ()))"
    by (simp add: gives_def wp_true)
qed

lemma existing_prepared:
  assumes s: "calm_step s0 s" and rd: "read_workload e StoragedComponentType (snd s0) (Some old) (fst s0) (fst s)"
  shows "wp (storaged_reconcile_existing e old new) (\<lambda>_ t. writes (prepared_write e (snd s0) (fst s0)) (fst s0) (fst t)) s"
proof (cases "\<exists>n m. GetReplicas new = Some n \<and> GetReplicas old = Some m")
  case False
  then have "gives (\<lambda>_. False) (register_hosts e old new)"
    using register_hosts_sized [of new old e] by (simp only: False)
  then show ?thesis
    unfolding storaged_reconcile_existing_def
    by (rule gives_then [where F = "\<lambda>_. True", OF s TrueI calm_register])
       (simp_all add: stable_def writes_calm)
next
  case True
  then obtain n m where n: "GetReplicas new = Some n" and m: "GetReplicas old = Some m" by blast
  let ?h = "fst s0" and ?nc = "snd s0" and ?Q = "\<lambda>_ t. writes (prepared_write e (snd s0) (fst s0)) (fst s0) (fst t)"
  define added where "added x \<longleftrightarrow> (m < n \<and> \<not> IsZoneEnabled ?nc \<longrightarrow> answered e (AddHostsReq (storage_hosts e ?nc m n)) ?h x)" for x
  define gone where "gone x \<longleftrightarrow> (0 \<le> n \<and> n < m \<longrightarrow> dropped e ?nc n m ?h x)" for x
  define seen where "seen = read_workload e StoragedComponentType ?nc (Some old) ?h"
  define all where "all x \<longleftrightarrow> seen x \<and> added x \<and> gone x" for x
  have stable: "stable seen" "stable added" "stable gone"
    using read_workload_later stable_answered stable_dropped unfolding stable_def seen_def added_def gone_def by blast+
  then have all: "stable all" "stable (\<lambda>x. seen x \<and> added x)" unfolding stable_def all_def by blast+
  have achieved: "achieves s0 added (register_hosts e old new)" "achieves s0 gone (Scale e old new)"
    unfolding added_def gone_def by (intro achieves_if register_hosts_achieves [OF m n] Scale_achieves [OF m n]; simp)+
  note stop = writes_calm [of s0 _ "prepared_write e ?nc ?h"]
  have write_step: "wp (world (ext_UpdateWorkload e w old)) ?Q t"
    if t: "calm_step s0 t" "all (fst t)" and w: "same_replicas new w" for t w
  proof (rule writes_last [OF t all(1) ext_UpdateWorkload_writes])
    show "GetReplicas w = Some n" using w n by (simp add: GetReplicas_def)
    show "GetReplicas v = Some n \<Longrightarrow> all x \<Longrightarrow> prepared_write e ?nc ?h v x" for v x
      using m by (auto simp: prepared_write_def prepared_def all_def seen_def added_def gone_def)
  qed
  have tail: "wp (storaged_update_step e equal old new \<bind> ok (\<lambda>new.
        restart_pod_step e old \<bind> ok (\<lambda>_. sync_pvc e StoragedComponentType \<bind> ok (\<lambda>_.
        storaged_flags_step e equal old new \<bind> ok (\<lambda>_. world (ext_UpdateWorkload e new old)))))) ?Q t"
    if "calm_step s0 t" "all (fst t)" for t equal
    by (rule gives_then [OF that _ storaged_update_step_replicas all(1)], intro calm_steps,
        (rule calm_then [where F = all], assumption, assumption, intro calm_steps, rule all(1))+,
        erule write_step, assumption, assumption, (erule stop)+)
  have start: "calm_step s0 s" "seen (fst s)" using s rd by (simp_all add: seen_def)
  have "wp (Scale e old new \<bind> ok (\<lambda>_. let equal = PodTemplateEqual e new old
      in storaged_update_step e equal old new \<bind> ok (\<lambda>new.
        restart_pod_step e old \<bind> ok (\<lambda>_. sync_pvc e StoragedComponentType \<bind> ok (\<lambda>_.
        storaged_flags_step e equal old new \<bind> ok (\<lambda>_. world (ext_UpdateWorkload e new old))))))) ?Q t"
    if "calm_step s0 t" "seen (fst t) \<and> added (fst t)" for t
    unfolding Let_def
    by (rule achieves_then [OF that _ achieved(2) all(2)], intro calm_steps, rule tail, assumption)
       (simp_all add: all_def stop)
  note rest = this
  show ?thesis
    unfolding storaged_reconcile_existing_def
    by (rule achieves_then [OF start calm_register achieved(1) stable(1)],
        rule calm_then [where F = "\<lambda>x. seen x \<and> added x"])
       (auto intro: calm_steps all stop rest)
qed

lemma read_workload_earlier:
  assumes s: "calm_step s0 s" and rd: "read_workload e typ (snd s) old (fst s) h"
  shows "read_workload e typ (snd s0) old (fst s0) h"
proof -
  from s obtain c1 where c1: "fst s = c1 @ fst s0" and meta: "nc_meta (snd s) = nc_meta (snd s0)"
    by (auto simp: calm_step_def steady_rel_def)
  from rd obtain a c g where h: "h = a @ GetWorkloadC (nc_ns (snd s)) (comp_GetName typ (snd s)) g # c @ c1 @ fst s0"
    "e_workload e (GetWorkloadC (nc_ns (snd s)) (comp_GetName typ (snd s)) g # c @ c1 @ fst s0)
      = (case old of Some w \<Rightarrow> Ok w | None \<Rightarrow> Err ErrNotFound)"
    unfolding read_workload_def c1 by blast
  have names: "nc_ns (snd s) = nc_ns (snd s0)" "comp_GetName typ (snd s) = comp_GetName typ (snd s0)"
    using meta by (simp_all add: comp_GetName_def)
  show ?thesis
    unfolding read_workload_def using h unfolding names
    by (intro exI [of _ a] exI [of _ "c @ c1"] exI [of _ g]) simp
qed

lemma syncStoragedWorkload_prepared:
  assumes s: "calm_step s0 s"
  shows "wp (syncStoragedWorkload e) (\<lambda>_ t. writes (prepared_write e (snd s0) (fst s0)) (fst s0) (fst t)) s"
  unfolding syncStoragedWorkload_def
proof (rule sync_workload_rule)
  fix r :: "unit outcome" and t
  show "calm_step s t \<Longrightarrow> writes (prepared_write e (snd s0) (fst s0)) (fst s0) (fst t)"
    using s calm_step.trans writes_calm by blast
next
  fix new old t
  let ?Q = "\<lambda>_ t. writes (prepared_write e (snd s0) (fst s0)) (fst s0) (fst t)"
  assume "calm_step s t" and rd: "read_workload e StoragedComponentType (snd s) old (fst s) (fst t)"
  with s have t: "calm_step s0 t" using calm_step.trans by blast
  let ?seen = "read_workload e StoragedComponentType (snd s0) old (fst s0)"
  have seen: "?seen (fst t)" using read_workload_earlier [OF s rd] .
  have keep: "stable ?seen" using read_workload_later unfolding stable_def by blast
  show "wp ((storaged_syncNebulaClusterStatus e old \<bind> wrap ''sync storaged cluster status failed'') \<bind> ok (\<lambda>_.
     case old of
       None \<Rightarrow> sync_zone_map e StoragedComponentType \<bind> ok (\<lambda>_. create_component e StoragedComponentType new)
     | Some old \<Rightarrow> storaged_reconcile_existing e old new)) ?Q t"
  proof (rule calm_then [OF t seen _ keep])
    show "obeys calm_step (storaged_syncNebulaClusterStatus e old \<bind> wrap ''sync storaged cluster status failed'')"
      by (intro calm_steps)
    fix u
    assume u: "calm_step s0 u" "?seen (fst u)"
    have "wp (sync_zone_map e StoragedComponentType \<bind> ok (\<lambda>_. create_component e StoragedComponentType new)) ?Q u"
      by (rule wp_mono [OF obeysD [of calm_step]]) (use u calm_step.trans writes_calm in \<open>auto intro!: calm_steps\<close>)
    then show "wp (case old of
          None \<Rightarrow> sync_zone_map e StoragedComponentType \<bind> ok (\<lambda>_. create_component e StoragedComponentType new)
        | Some old \<Rightarrow> storaged_reconcile_existing e old new) ?Q u"
      using existing_prepared [OF u(1)] u(2) by (auto split: option.split)
  qed (rule writes_calm)
qed

text \<open>
  Claim C30. A reconciliation of the storage service never writes a workload whose pods the cluster
  is not ready for. Whatever the API server, the meta service, the nodes and the other calls
  answer: every workload it updates comes after the old workload was read in this same run, and
  if it has more replicas than the old one (without zones), the meta service has accepted in this run
  the registration of exactly the hosts of the new pods; if it has fewer, the meta service has accepted
  in this run a request to drop hosts, and every surplus pod has its host among the dropped ones, or was found
  in this run to be pending or not to exist.
\<close>

theorem storaged_writes_prepared:
  "writes (prepared_write e nc h) h (fst (snd (run_state (storaged_Reconcile e) (h, nc))))"
proof -
  have "wp (storaged_Reconcile e) (\<lambda>_ t. writes (prepared_write e nc h) h (fst t)) (h, nc)"
    unfolding storaged_Reconcile_def
  proof (rule calm_then [OF calm_step.refl, where F = "\<lambda>_. True"])
    show "calm_step (h, nc) t \<Longrightarrow> wp (syncStoragedWorkload e) (\<lambda>_ t. writes (prepared_write e nc h) h (fst t)) t" for t
      using syncStoragedWorkload_prepared [of "(h, nc)" t e] by simp
    show "calm_step (h, nc) t \<Longrightarrow> writes (prepared_write e nc h) h (fst t)" for t
      using writes_calm [of "(h, nc)" t] by simp
  qed (simp_all add: stable_def calm_service)
  then show ?thesis by (simp add: wp_def split: prod.splits)
qed

end
