(* ===== verification/Histories.thy ===== *)
theory Histories
  imports KubeClient
begin

text \<open>
  Facts about the calls of a run that a safety property rests on: what was asked and answered since the
  run began, and what every call made could rely on.
\<close>

section \<open>What a call may rely on\<close>

text \<open>
  \<open>asked f c r h0 h\<close>: since the history \<open>h0\<close> the call \<open>c\<close> was made and answered with \<open>r\<close>.
  \<open>guarded P h h'\<close>: every call made between the two histories satisfies \<open>P\<close> together with the
  history it was made at.
\<close>

definition asked :: "(call list \<Rightarrow> 'a outcome) \<Rightarrow> call \<Rightarrow> 'a outcome \<Rightarrow> call list \<Rightarrow> call list \<Rightarrow> bool" where
  "asked f c r h0 h \<longleftrightarrow> (\<exists>a b. h = a @ c # b @ h0 \<and> f (c # b @ h0) = r)"

lemma asked_now: "h = b @ h0 \<Longrightarrow> f (c # h) = r \<Longrightarrow> asked f c r h0 (c # h)"
  unfolding asked_def by (intro exI [of _ "[]"] exI [of _ b]) simp

lemma asked_later: "asked f c r h0 h \<Longrightarrow> asked f c r h0 (new @ h)"
  unfolding asked_def by (metis append.assoc)

lemma asked_cons: "asked f c r h0 h \<Longrightarrow> asked f c r h0 (x # h)"
  using asked_later [of f c r h0 h "[x]"] by simp

definition guarded :: "(call \<Rightarrow> call list \<Rightarrow> bool) \<Rightarrow> call list \<Rightarrow> call list \<Rightarrow> bool" where
  "guarded P h h' \<longleftrightarrow> (\<exists>new. h' = new @ h \<and> (\<forall>a c b. new = a @ c # b \<longrightarrow> P c (b @ h)))"

lemma guarded_refl [simp]: "guarded P h h"
  by (simp add: guarded_def)

lemma guarded_cons: "guarded P h h' \<Longrightarrow> P c h' \<Longrightarrow> guarded P h (c # h')"
  unfolding guarded_def
proof (elim exE conjE)
  fix new
  assume P: "P c h'" and n: "h' = new @ h" "\<forall>a c b. new = a @ c # b \<longrightarrow> P c (b @ h)"
  have "P d (b @ h)" if "c # new = a @ d # b" for a d b
    using that P n by (cases a) auto
  then show "\<exists>new. c # h' = new @ h \<and> (\<forall>a c b. new = a @ c # b \<longrightarrow> P c (b @ h))"
    using n(1) by (intro exI [of _ "c # new"]) simp
qed

lemma guarded_appends: "(\<forall>a c b. new = a @ c # b \<longrightarrow> P c (b @ h')) \<Longrightarrow> guarded P h h' \<Longrightarrow> guarded P h (new @ h')"
proof (induction new)
  case (Cons x new)
  then have "guarded P h (new @ h')" by (metis append_Cons)
  moreover have "P x (new @ h')" using Cons.prems(1) by (metis append_Nil)
  ultimately show ?case by (simp add: guarded_cons)
qed simp

lemma guarded_trans: "guarded P h h' \<Longrightarrow> guarded P h' h'' \<Longrightarrow> guarded P h h''"
  by (auto simp: guarded_def [of P h' h''] intro: guarded_appends)

lemma guarded_grows: "guarded P h h' \<Longrightarrow> \<exists>new. h' = new @ h"
  by (auto simp: guarded_def)


section \<open>Operations whose calls are guarded\<close>

text \<open>
  \<open>guards P h0 Q m h\<close>: run from \<open>h\<close>, the operation \<open>m\<close> makes only calls that satisfy \<open>P\<close> on top of the
  calls since \<open>h0\<close>, and its result and the history it ends in satisfy \<open>Q\<close>. The rules follow the structure
  of the code; each request adds what was asked and answered to the facts at hand.
\<close>

definition grows :: "call list \<Rightarrow> call list \<Rightarrow> bool" where
  "grows h h' \<longleftrightarrow> (\<exists>new. h' = new @ h)"

lemma grows_refl [simp, intro]: "grows h h"
  by (simp add: grows_def)

lemma grows_cons [simp, intro]: "grows h h' \<Longrightarrow> grows h (c # h')"
  by (auto simp: grows_def intro: exI [of _ "c # _"])

lemma grows_trans: "grows h h' \<Longrightarrow> grows h' h'' \<Longrightarrow> grows h h''"
  by (auto simp: grows_def)

lemma asked_grows: "asked f c r h0 h \<Longrightarrow> grows h h' \<Longrightarrow> asked f c r h0 h'"
  by (auto simp: grows_def intro: asked_later)

definition guards ::
    "(call \<Rightarrow> call list \<Rightarrow> bool) \<Rightarrow> call list \<Rightarrow> ('a outcome \<Rightarrow> call list \<Rightarrow> bool) \<Rightarrow> 'a io \<Rightarrow> call list \<Rightarrow> bool" where
  "guards P h0 Q m h \<longleftrightarrow> wp m (\<lambda>r h'. guarded P h0 h' \<and> grows h h' \<and> Q r h') h"

lemma guards_return: "guarded P h0 h \<Longrightarrow> Q r h \<Longrightarrow> guards P h0 Q (State_Monad.return r) h"
  by (simp add: guards_def wp_simps)

lemma guards_lift: "guarded P h0 h \<Longrightarrow> Q r h \<Longrightarrow> guards P h0 Q (lift r) h"
  by (simp add: guards_def wp_simps)

lemma guards_send:
  assumes "guarded P h0 h" "P c h" "\<And>r. asked f c r h0 (c # h) \<Longrightarrow> Q r (c # h)"
  shows "guards P h0 Q (send f c) h"
proof -
  obtain b where "h = b @ h0" using guarded_grows [OF assms(1)] by blast
  then have "asked f c (f (c # h)) h0 (c # h)" by (rule asked_now) simp
  with assms show ?thesis by (auto simp: guards_def wp_simps guarded_cons)
qed

lemma guards_now: "guarded P h0 h \<Longrightarrow> P Clock h \<Longrightarrow> (\<And>t. Q (Ok t) (Clock # h)) \<Longrightarrow> guards P h0 Q (now e) h"
  by (auto simp: guards_def wp_simps guarded_cons)

lemma guards_bind:
  assumes "guards P h0 R m h" "\<And>r h'. guarded P h0 h' \<Longrightarrow> grows h h' \<Longrightarrow> R r h' \<Longrightarrow> guards P h0 Q (k r) h'"
  shows "guards P h0 Q (m \<bind> k) h"
  unfolding guards_def wp_bind
proof (rule wp_mono [OF assms(1) [unfolded guards_def]])
  fix r h'
  assume "guarded P h0 h' \<and> grows h h' \<and> R r h'"
  then have "guards P h0 Q (k r) h'" "grows h h'" using assms(2) by blast+
  then show "wp (k r) (\<lambda>r h'. guarded P h0 h' \<and> grows h h' \<and> Q r h') h'"
    unfolding guards_def by (auto elim!: wp_mono intro: grows_trans)
qed

lemma guards_handle:
  assumes "guarded P h0 h" "\<And>x. r = Ok x \<Longrightarrow> guards P h0 Q (f x) h" "\<And>x. r = Err x \<Longrightarrow> guards P h0 Q (k x) h"
    "r = Panic \<Longrightarrow> Q Panic h"
  shows "guards P h0 Q (handle k f r) h"
  using assms by (cases r) (auto simp: guards_def wp_simps)

lemma guards_ok:
  assumes "guarded P h0 h" "\<And>x. r = Ok x \<Longrightarrow> guards P h0 Q (f x) h" "\<And>x. r = Err x \<Longrightarrow> Q (Err x) h"
    "r = Panic \<Longrightarrow> Q Panic h"
  shows "guards P h0 Q (ok f r) h"
  using assms by (cases r) (auto simp: guards_def wp_simps)

lemma guards_if: "(b \<Longrightarrow> guards P h0 Q m h) \<Longrightarrow> (\<not> b \<Longrightarrow> guards P h0 Q n h) \<Longrightarrow> guards P h0 Q (if b then m else n) h"
  by simp

lemma guards_mono: "guards P h0 R m h \<Longrightarrow> (\<And>r h'. guarded P h0 h' \<Longrightarrow> grows h h' \<Longrightarrow> R r h' \<Longrightarrow> Q r h') \<Longrightarrow> guards P h0 Q m h"
  unfolding guards_def by (auto elim!: wp_mono)

lemma guards_emits:
  assumes "emits p m" "\<And>c h. p c \<Longrightarrow> P c h" "guarded P h0 h" "\<And>r h'. grows h h' \<Longrightarrow> Q r h'"
  shows "guards P h0 Q m h"
  unfolding guards_def
proof (rule wp_mono [OF emitsD [OF assms(1)]])
  fix r h'
  assume "\<exists>new. h' = new @ h \<and> (\<forall>c\<in>set new. p c)"
  then obtain new where "h' = new @ h" "\<forall>c\<in>set new. p c" by blast
  then show "guarded P h0 h' \<and> grows h h' \<and> Q r h'"
    using assms by (auto simp: grows_def intro!: guarded_appends)
qed

text \<open>Steps of a retried operation are guarded when each attempt is.\<close>

lemma guards_retry_on_conflict:
  assumes "\<And>g. guarded P h0 g \<Longrightarrow> grows h g \<Longrightarrow> guards P h0 (\<lambda>_ _. True) m g" "guarded P h0 h"
  shows "guards P h0 (\<lambda>_ _. True) (retry_on_conflict n m) h"
  unfolding guards_def
proof (rule wp_retry [where I = "\<lambda>g. guarded P h0 g \<and> grows h g"])
  fix g assume g: "guarded P h0 g \<and> grows h g"
  then have "wp m (\<lambda>r h'. guarded P h0 h' \<and> grows g h' \<and> True) g" using assms(1) unfolding guards_def by blast
  then show "wp m (\<lambda>r h'. (guarded P h0 h' \<and> grows h h' \<and> True)
      \<and> (r = Err ErrConflict \<longrightarrow> guarded P h0 h' \<and> grows h h')) g"
    by (rule wp_mono) (use g grows_trans in blast)
qed (use assms in auto)

lemma guards_run: "guards P h Q m h \<Longrightarrow> guarded P h (snd (run_state m h))"
  by (auto simp: guards_def wp_def split: prod.splits)


lemma guards_bind_send:
  assumes "guarded P h0 h" "P c h"
    and "\<And>r h'. guarded P h0 h' \<Longrightarrow> grows h h' \<Longrightarrow> asked f c r h0 h' \<Longrightarrow> guards P h0 Q (k r) h'"
  shows "guards P h0 Q (send f c \<bind> k) h"
  by (rule guards_bind [OF guards_send [where Q = "\<lambda>r h'. asked f c r h0 h'"]]) (use assms in auto)

lemma guarded_mono: "guarded P h h' \<Longrightarrow> (\<And>c g. P c g \<Longrightarrow> Q c g) \<Longrightarrow> guarded Q h h'"
  unfolding guarded_def by blast

end
