(* ===== verification/Reclaimer.thy ===== *)
theory Reclaimer
  imports Updaters Histories
begin

text \<open>
  The last two steps of a reconciliation (\<open>pkg/controller/component/reclaimer\<close>): noting on the
  claims and volumes of a cluster which pod uses them (\<open>meta_reconciler.go\<close>), and deleting the claims
  that were marked when their pod was removed (\<open>pvc_reclaimer.go\<close>). The workers of one group run one
  after the other.
\<close>

section \<open>Meta information of claims and volumes\<close>

definition resolve_volume :: "env \<Rightarrow> pod \<Rightarrow> volume \<Rightarrow> pvc list \<Rightarrow> pvc list io" where
  "resolve_volume e p v pvcs =
     (case vo_source v of
        PvcSource pvcName \<Rightarrow>
          if pvcName = '''' then ret pvcs
          else GetPVC e (om_namespace (pd_meta p)) pvcName \<bind> handle (\<lambda>_. ret pvcs) (\<lambda>pvc. ret (pvcs @ [pvc]))
      | _ \<Rightarrow> ret pvcs)"

definition resolvePVCFromPod :: "env \<Rightarrow> pod \<Rightarrow> pvc list io" where
  "resolvePVCFromPod e p =
     fold_go (resolve_volume e p) (po_volumes (pd_spec p)) [] \<bind> ok (\<lambda>pvcs.
       if pvcs = [] then throw ErrNotFound else ret pvcs)"

definition reconcile_claim :: "env \<Rightarrow> nebula_cluster \<Rightarrow> pod \<Rightarrow> pvc \<Rightarrow> unit io" where
  "reconcile_claim e nc p pvc =
     pvc_UpdateMetaInfo e pvc p (IsPVReclaimEnabled nc) \<bind> ok (\<lambda>_.
       if pc_volume pvc = '''' then ret ()
       else GetPersistentVolume e (pc_volume pvc) \<bind> ok (\<lambda>v. pv_UpdateMetaInfo e (nc_ns nc) v))"

text \<open>\<open>hasDataPV\<close> is never set, so a pod without claims is skipped whatever its component.\<close>

definition meta_worker :: "env \<Rightarrow> nebula_cluster \<Rightarrow> pod \<Rightarrow> unit io" where
  "meta_worker e nc p =
     resolvePVCFromPod e p \<bind> handle (\<lambda>x. if x = ErrNotFound then ret () else throw x)
       (\<lambda>pvcs. for_each (reconcile_claim e nc p) pvcs)"

definition meta_Reconcile :: "env \<Rightarrow> nebula_cluster \<Rightarrow> unit io" where
  "meta_Reconcile e nc =
     (ListPods e (nc_ns nc) (label_Cluster (nc_name nc) label_New) \<bind>
        handle (\<lambda>_. throw (ErrPlain ''list pods for cluster failed'')) ret) \<bind> ok (\<lambda>pods.
     run_workers (\<lambda>p. collect (meta_worker e nc p))
       (filter (\<lambda>p. label_IsNebulaComponent (om_labels (pd_meta p))) pods) () [] \<bind> ok group_wait)"

definition meta_Delete :: "env \<Rightarrow> nebula_cluster \<Rightarrow> unit io" where
  "meta_Delete e nc = ret ()"

section \<open>Reclaiming claims\<close>

definition listPVCs :: "env \<Rightarrow> nebula_cluster \<Rightarrow> pvc list io" where
  "listPVCs e nc =
     ListPVCs e (nc_ns nc) (label_Cluster (nc_name nc) label_New) \<bind>
       handle (\<lambda>_. throw (ErrPlain ''list PVC failed'')) ret"

text \<open>The name of the pod a claim belonged to, for a claim that may be reclaimed.\<close>

definition reclaim_pod :: "pvc \<Rightarrow> string option" where
  "reclaim_pod q =
     (if \<not> label_IsNebulaComponent (om_labels (pc_meta q)) then None
      else if pc_phase q \<noteq> ''Bound'' then None
      else if om_deletion (pc_meta q) \<noteq> None then None
      else if map_val (om_annotations (pc_meta q)) AnnPVCDeferDeletingKey = '''' then None
      else map_of (om_annotations (pc_meta q)) AnnPodNameKey)"

definition delete_claim :: "env \<Rightarrow> pvc \<Rightarrow> pv \<Rightarrow> unit io" where
  "delete_claim e q v =
     (if pw_policy v \<noteq> ''Delete''
      then PatchPVReclaimPolicy e v ''Delete'' \<bind> handle (\<lambda>_. throw (ErrPlain ''patch PV failed'')) ret
      else ret ()) \<bind> ok (\<lambda>_.
     DeletePVC e (om_namespace (pc_meta q)) (om_name (pc_meta q)) \<bind>
       handle (\<lambda>x. if x = ErrNotFound then ret () else throw x) ret)"

definition reclaim_claim :: "env \<Rightarrow> nebula_cluster \<Rightarrow> pvc \<Rightarrow> unit io" where
  "reclaim_claim e nc q =
     (case reclaim_pod q of
        None \<Rightarrow> ret ()
      | Some podName \<Rightarrow>
          GetPod e (nc_ns nc) podName \<bind>
            handle
              (\<lambda>x. if x \<noteq> ErrNotFound then throw (ErrPlain ''get PVC pod from cache failed'')
                   else GetPersistentVolume e (pc_volume q) \<bind>
                          handle (\<lambda>x. if x = ErrNotFound then ret () else throw (ErrPlain ''get PVC PV failed''))
                            (delete_claim e q))
              (\<lambda>_. ret ()))"

definition reclaimPV :: "env \<Rightarrow> nebula_cluster \<Rightarrow> unit io" where
  "reclaimPV e nc = listPVCs e nc \<bind> ok (for_each (reclaim_claim e nc))"

definition Reclaim :: "env \<Rightarrow> nebula_cluster \<Rightarrow> unit io" where
  "Reclaim e nc = reclaimPV e nc"

section \<open>Only orphaned claims are deleted\<close>

definition reclaimable :: "env \<Rightarrow> nebula_cluster \<Rightarrow> call list \<Rightarrow> pvc \<Rightarrow> call list \<Rightarrow> bool" where
  "reclaimable e nc h0 p h \<longleftrightarrow> (\<exists>q qs podName v.
     asked (e_pvcs e) (ListPVCsC (nc_ns nc) (label_Cluster (nc_name nc) label_New)) (Ok qs) h0 h \<and> q \<in> set qs
     \<and> label_IsNebulaComponent (om_labels (pc_meta q)) \<and> pc_phase q = ''Bound'' \<and> om_deletion (pc_meta q) = None
     \<and> map_val (om_annotations (pc_meta q)) AnnPVCDeferDeletingKey \<noteq> ''''
     \<and> map_of (om_annotations (pc_meta q)) AnnPodNameKey = Some podName
     \<and> asked (e_pod e) (GetPodC (nc_ns nc) podName) (Err ErrNotFound) h0 h
     \<and> asked (e_pv e) (GetPV (pc_volume q)) (Ok v) h0 h
     \<and> (pw_policy v = ''Delete'' \<or> asked (e_done e) (PatchPV v ''Delete'') (Ok ()) h0 h)
     \<and> asked (e_pvc e) (GetPVCC (om_namespace (pc_meta q)) (om_name (pc_meta q))) (Ok p) h0 h)"

definition only_reclaimable :: "env \<Rightarrow> nebula_cluster \<Rightarrow> call list \<Rightarrow> call \<Rightarrow> call list \<Rightarrow> bool" where
  "only_reclaimable e nc h0 c h \<longleftrightarrow> (\<forall>p. c = DeletePVCC p \<longrightarrow> reclaimable e nc h0 p h)"

lemma only_reclaimable_other: "(\<And>p. c \<noteq> DeletePVCC p) \<Longrightarrow> only_reclaimable e nc h0 c h"
  by (simp add: only_reclaimable_def)

lemma reclaim_pod_SomeD:
  "reclaim_pod q = Some n \<Longrightarrow> label_IsNebulaComponent (om_labels (pc_meta q)) \<and> pc_phase q = ''Bound''
     \<and> om_deletion (pc_meta q) = None \<and> map_val (om_annotations (pc_meta q)) AnnPVCDeferDeletingKey \<noteq> ''''
     \<and> map_of (om_annotations (pc_meta q)) AnnPodNameKey = Some n"
  by (auto simp: reclaim_pod_def split: if_splits)

lemma patch_then:
  assumes "guarded (only_reclaimable e nc h0) h0 h"
  shows "wp (PatchPVReclaimPolicy e v pol) (\<lambda>r h'. guarded (only_reclaimable e nc h0) h0 h' \<and> (\<exists>new. h' = new @ h)
     \<and> (\<forall>x. r = Ok x \<longrightarrow> asked (e_done e) (PatchPV v pol) (Ok ()) h0 h')) h"
  unfolding PatchPVReclaimPolicy_def
proof (rule wp_retry [where I = "\<lambda>g. guarded (only_reclaimable e nc h0) h0 g \<and> (\<exists>new. g = new @ h)"])
  fix g
  assume g: "guarded (only_reclaimable e nc h0) h0 g \<and> (\<exists>new. g = new @ h)"
  then obtain b where b: "g = b @ h0" using guarded_grows by blast
  obtain new where new: "g = new @ h" using g by blast
  have "guarded (only_reclaimable e nc h0) h0 (PatchPV v pol # g)"
    using g by (intro guarded_cons only_reclaimable_other) auto
  moreover have "\<exists>new. PatchPV v pol # g = new @ h" using new by (intro exI [of _ "PatchPV v pol # new"]) simp
  ultimately show "wp (send (e_done e) (PatchPV v pol)) (\<lambda>r h'. (guarded (only_reclaimable e nc h0) h0 h'
       \<and> (\<exists>new. h' = new @ h) \<and> (\<forall>x. r = Ok x \<longrightarrow> asked (e_done e) (PatchPV v pol) (Ok ()) h0 h'))
     \<and> (r = Err ErrConflict \<longrightarrow> guarded (only_reclaimable e nc h0) h0 h' \<and> (\<exists>new. h' = new @ h))) g"
    using asked_now [OF b, of "e_done e" "PatchPV v pol" "Ok ()"] by (auto simp: wp_send)
qed (use assms in auto)


text \<open>Histories that only grow by calls that delete nothing.\<close>

lemma guarded_other: "(\<And>p. c \<noteq> DeletePVCC p) \<Longrightarrow> guarded (only_reclaimable e nc h0) h0 h \<Longrightarrow> guarded (only_reclaimable e nc h0) h0 (c # h)"
  by (intro guarded_cons only_reclaimable_other)

lemma delete_claim_guarded:
  assumes h: "guarded (only_reclaimable e nc h0) h0 h" and n: "reclaim_pod q = Some n" "q \<in> set qs"
    and asked: "asked (e_pvcs e) (ListPVCsC (nc_ns nc) (label_Cluster (nc_name nc) label_New)) (Ok qs) h0 h"
      "asked (e_pod e) (GetPodC (nc_ns nc) n) (Err ErrNotFound) h0 h" "asked (e_pv e) (GetPV (pc_volume q)) (Ok v) h0 h"
  shows "wp (delete_claim e q v) (\<lambda>_ h'. guarded (only_reclaimable e nc h0) h0 h' \<and> (\<exists>new. h' = new @ h)) h"
proof -
  let ?G = "guarded (only_reclaimable e nc h0) h0"
  let ?get = "GetPVCC (om_namespace (pc_meta q)) (om_name (pc_meta q))"
  have del: "wp (DeletePVC e (om_namespace (pc_meta q)) (om_name (pc_meta q)) \<bind> k)
      (\<lambda>_ h'. ?G h' \<and> (\<exists>new. h' = new @ h)) g"
    if g: "?G g" "\<exists>new. g = new @ h" and pol: "pw_policy v = ''Delete'' \<or> asked (e_done e) (PatchPV v ''Delete'') (Ok ()) h0 g"
      and k: "\<And>r s. wp (k r) (\<lambda>_ s'. s' = s) s" for g k
  proof -
    obtain new where new: "g = new @ h" using g(2) by blast
    have "\<exists>b. g = b @ h0" using guarded_grows [OF g(1)] .
    then have now: "e_pvc e (?get # g) = Ok p \<Longrightarrow> asked (e_pvc e) ?get (Ok p) h0 (?get # g)" for p
      using asked_now by blast
    have kept: "asked f c r h0 h \<Longrightarrow> asked f c r h0 (?get # g)" for f :: "call list \<Rightarrow> 'c outcome" and c r
      unfolding new by (intro asked_cons asked_later)
    have "only_reclaimable e nc h0 (DeletePVCC p) (?get # g)" if "e_pvc e (?get # g) = Ok p" for p
      unfolding only_reclaimable_def reclaimable_def
      using reclaim_pod_SomeD [OF n(1)] n(2) now [OF that] pol kept [OF asked(1)] kept [OF asked(2)] kept [OF asked(3)]
        asked_cons [of "e_done e" "PatchPV v ''Delete''" "Ok ()" h0 g ?get] by blast
    then have "?G (?get # g)" "\<And>p. e_pvc e (?get # g) = Ok p \<Longrightarrow> ?G (DeletePVCC p # ?get # g)"
      using g(1) by (auto intro: guarded_cons guarded_other)
    moreover have "\<exists>new. ?get # g = new @ h" "\<exists>new. DeletePVCC p # ?get # g = new @ h" for p
      using new by (metis append_Cons)+
    ultimately show ?thesis
      unfolding DeletePVC_def GetPVC_def
      by (auto simp: wp_bind wp_send wp_handle wp_return split: outcome.split intro!: wp_mono [OF k])
  qed
  have patch: "wp (if pw_policy v \<noteq> ''Delete''
      then PatchPVReclaimPolicy e v ''Delete'' \<bind> handle (\<lambda>_. throw (ErrPlain ''patch PV failed'')) ret else ret ())
      (\<lambda>r g. ?G g \<and> (\<exists>new. g = new @ h)
        \<and> (\<forall>x. r = Ok x \<longrightarrow> pw_policy v = ''Delete'' \<or> asked (e_done e) (PatchPV v ''Delete'') (Ok ()) h0 g)) h"
    using h by (auto simp: wp_return wp_bind wp_handle split: outcome.split intro!: wp_mono [OF patch_then])
  show ?thesis
    unfolding delete_claim_def wp_bind [of _ "ok _"]
    by (rule wp_mono [OF patch]) (auto simp: wp_ok wp_return split: outcome.split intro!: del simp: handle_def)
qed


lemma reclaim_claim_guarded:
  assumes h: "guarded (only_reclaimable e nc h0) h0 h" and q: "q \<in> set qs"
    and asked: "asked (e_pvcs e) (ListPVCsC (nc_ns nc) (label_Cluster (nc_name nc) label_New)) (Ok qs) h0 h"
  shows "wp (reclaim_claim e nc q) (\<lambda>_ h'. guarded (only_reclaimable e nc h0) h0 h' \<and> (\<exists>new. h' = new @ h)) h"
proof (cases "reclaim_pod q")
  case (Some n)
  let ?G = "guarded (only_reclaimable e nc h0) h0" and ?p = "GetPodC (nc_ns nc) n" and ?v = "GetPV (pc_volume q)"
  obtain b where b: "h = b @ h0" using guarded_grows [OF h] by blast
  then have b': "?p # h = (?p # b) @ h0" by simp
  have G: "?G (?p # h)" "?G (?v # ?p # h)" using h by (intro guarded_other; simp)+
  have del: "wp (delete_claim e q v) (\<lambda>_ h'. ?G h' \<and> (\<exists>new. h' = new @ h)) (?v # ?p # h)"
    if "e_pod e (?p # h) = Err ErrNotFound" "e_pv e (?v # ?p # h) = Ok v" for v
  proof -
    have "asked (e_pod e) ?p (Err ErrNotFound) h0 (?v # ?p # h)" "asked (e_pv e) ?v (Ok v) h0 (?v # ?p # h)"
      using asked_now [where f = "e_pod e" and c = ?p, OF b that(1)] asked_now [where f = "e_pv e" and c = ?v, OF b' that(2)]
      by (blast intro: asked_cons)+
    with asked show ?thesis
      by (intro wp_mono [OF delete_claim_guarded [OF G(2) Some q]]) (auto intro: asked_cons exI [of _ "_ @ [?v, ?p]"])
  qed
  have "\<exists>new. ?p # h = new @ h" "\<exists>new. ?v # ?p # h = new @ h" by (metis append_Cons append_Nil)+
  with G show ?thesis
    unfolding reclaim_claim_def GetPod_def GetPersistentVolume_def Some
    by (auto simp: wp_bind wp_send wp_handle wp_return del split: outcome.split)
qed (use h in \<open>simp add: reclaim_claim_def wp_return\<close>)

lemma reclaim_all_guarded:
  assumes "guarded (only_reclaimable e nc h0) h0 h" "set ys \<subseteq> set qs"
    and "asked (e_pvcs e) (ListPVCsC (nc_ns nc) (label_Cluster (nc_name nc) label_New)) (Ok qs) h0 h"
  shows "wp (for_each (reclaim_claim e nc) ys) (\<lambda>_ h'. guarded (only_reclaimable e nc h0) h0 h') h"
  using assms
proof (induction ys arbitrary: h)
  case (Cons q ys)
  from Cons.prems have q: "q \<in> set qs" "set ys \<subseteq> set qs" by auto
  show ?case
    unfolding for_each.simps wp_bind
    by (rule wp_mono [OF reclaim_claim_guarded [OF Cons.prems(1) q(1) Cons.prems(3)]])
       (auto simp: wp_ok split: outcome.split intro!: Cons.IH [OF _ q(2)] asked_later Cons.prems(3))
qed (simp add: wp_return)

text \<open>
  Claim C31. Reclaiming deletes no claim that is in use. Whatever the API server answers, a claim is
  deleted only if it stands for a claim that was listed in this run, with the labels of a component, bound, not
  being deleted and marked for deferred deletion, and after the server has said in this run that the pod it belonged to
  does not exist; and its volume had, or was given in this run, the policy to be deleted with it. Anything
  the server reports but a missing pod stops the run before the deletion.
\<close>

theorem reclaim_deletes_orphans:
  "guarded (only_reclaimable e nc h) h (snd (run_state (Reclaim e nc) h))"
proof -
  let ?c = "ListPVCsC (nc_ns nc) (label_Cluster (nc_name nc) label_New)"
  have start: "guarded (only_reclaimable e nc h) h (?c # h)" by (rule guarded_other) simp_all
  have "wp (for_each (reclaim_claim e nc) qs) (\<lambda>_. guarded (only_reclaimable e nc h) h) (?c # h)"
    if "e_pvcs e (?c # h) = Ok qs" for qs
    using that by (intro reclaim_all_guarded [OF start order_refl] asked_now [of _ "[]"]) simp_all
  then have "wp (Reclaim e nc) (\<lambda>_. guarded (only_reclaimable e nc h) h) h"
    unfolding Reclaim_def reclaimPV_def listPVCs_def ListPVCs_def
    using start by (auto simp: wp_bind wp_send wp_handle wp_ok wp_return split: outcome.split)
  then show ?thesis by (simp add: wp_def split: prod.splits)
qed

end
