(* ===== verification/Satellites.thy ===== *)
theory Satellites
  imports Extender ComponentHelper Histories
begin

text \<open>
  What surrounds the three services: the role binding their pods need (\<open>pkg/kube/rbac.go\<close>), the
  finalizer of the cluster (\<open>pkg/kube/kube.go\<close>), deployments (\<open>pkg/kube/deployment.go\<close> and the helpers of
  \<open>pkg/controller/component/helper.go\<close>), the exporter (\<open>exporter.go\<close>) and the console (\<open>console.go\<close>).
\<close>

section \<open>Access rights (rbac.go)\<close>

definition createServiceAccount :: "env \<Rightarrow> string \<Rightarrow> unit io" where
  "createServiceAccount e ns =
     send (e_done e) (SideCall (CreateServiceAccountC ns)) \<bind>
       handle (\<lambda>x. case x of ErrAlreadyExists _ \<Rightarrow> ret () | _ \<Rightarrow> throw (ErrPlain ''failed to create nebula ServiceAccount'')) ret"

definition createClusterRole :: "env \<Rightarrow> unit io" where
  "createClusterRole e =
     send (e_done e) (SideCall CreateClusterRoleC) \<bind>
       handle (\<lambda>x. case x of ErrAlreadyExists _ \<Rightarrow> ret () | _ \<Rightarrow> throw (ErrPlain ''failed to create ClusterRole'')) ret"

definition service_account :: "string \<Rightarrow> rbac_subject" where
  "service_account ns = (''ServiceAccount'', ''nebula-sa'', ns)"

definition isApplied :: "rbac_subject list \<Rightarrow> string \<Rightarrow> bool" where
  "isApplied subjects ns \<longleftrightarrow> list_ex (\<lambda>s. s = service_account ns) subjects"

text \<open>A binding that does not exist is created without subjects; the object in hand has none either.\<close>

definition get_binding :: "env \<Rightarrow> rbac_subject list io" where
  "get_binding e =
     send (d_subjects (e_side e)) (SideCall GetRoleBindingC) \<bind>
       handle (\<lambda>x. if x \<noteq> ErrNotFound then throw (ErrPlain ''failed to get ClusterRoleBinding'')
                   else send (e_done e) (SideCall CreateRoleBindingC) \<bind>
                          handle (\<lambda>x. case x of ErrAlreadyExists _ \<Rightarrow> ret []
                                      | _ \<Rightarrow> throw (ErrPlain ''failed to create ClusterRoleBinding'')) (\<lambda>_. ret []))
         ret"

definition createClusterRoleBinding :: "env \<Rightarrow> string \<Rightarrow> unit io" where
  "createClusterRoleBinding e ns =
     get_binding e \<bind> ok (\<lambda>subjects.
       if isApplied subjects ns then ret ()
       else retry_on_conflict (e_steps e)
              (send (e_done e) (SideCall (UpdateRoleBindingC (subjects @ [service_account ns])))) \<bind>
              handle (\<lambda>_. throw (ErrPlain ''failed to update ClusterRoleBinding subjects'')) ret)"

definition CheckRBAC :: "env \<Rightarrow> string \<Rightarrow> unit io" where
  "CheckRBAC e ns =
     createServiceAccount e ns \<bind> ok (\<lambda>_. createClusterRole e \<bind> ok (\<lambda>_. createClusterRoleBinding e ns))"

section \<open>The finalizer of a cluster (kube.go)\<close>

abbreviation cluster_finalizer :: string where
  "cluster_finalizer \<equiv> ''apps.nebula-graph.io/cluster-cleanup''"

definition nc_set_finalizers :: "string list \<Rightarrow> nebula_cluster \<Rightarrow> nebula_cluster" where
  "nc_set_finalizers fs nc = nc\<lparr>nc_meta := (nc_meta nc)\<lparr>om_finalizers := fs\<rparr>\<rparr>"

definition HasFinalizer :: "nebula_cluster \<Rightarrow> string \<Rightarrow> bool" where
  "HasFinalizer nc f \<longleftrightarrow> f \<in> set (om_finalizers (nc_meta nc))"

datatype finalizer_op = AddFinalizerOpType | RemoveFinalizerOpType

text \<open>
  \<open>retry.DefaultRetry\<close> has five steps. Removing goes through a set: what is left is sorted and without
  repetitions.
\<close>

definition new_finalizers :: "finalizer_op \<Rightarrow> string \<Rightarrow> string list \<Rightarrow> string list option" where
  "new_finalizers op f fs =
     (case op of
        AddFinalizerOpType \<Rightarrow> if f \<in> set fs then None else Some (fs @ [f])
      | RemoveFinalizerOpType \<Rightarrow> if f \<notin> set fs then None else Some (remove_finalizer f fs))"

definition UpdateFinalizer :: "env \<Rightarrow> nebula_cluster \<Rightarrow> finalizer_op \<Rightarrow> string \<Rightarrow> unit io" where
  "UpdateFinalizer e nc op f =
     retry_on_conflict 5
       (GetNebulaCluster e (nc_ns nc) (nc_name nc) \<bind> ok (\<lambda>live.
          case new_finalizers op f (om_finalizers (nc_meta live)) of
            None \<Rightarrow> ret ()
          | Some fs \<Rightarrow> send (e_done e) (UpdateCluster (nc_set_finalizers fs live))))"

section \<open>Deployments (deployment.go)\<close>

definition CreateDeployment :: "env \<Rightarrow> deployment \<Rightarrow> unit io" where
  "CreateDeployment e d =
     send (e_done e) (SideCall (CreateDeploymentC d)) \<bind>
       handle (\<lambda>x. case x of ErrAlreadyExists _ \<Rightarrow> ret () | _ \<Rightarrow> throw x) ret"

definition GetDeployment :: "env \<Rightarrow> string \<Rightarrow> string \<Rightarrow> deployment io" where
  "GetDeployment e ns name = send (d_deployment (e_side e)) (SideCall (GetDeploymentC ns name))"

definition UpdateDeployment :: "env \<Rightarrow> deployment \<Rightarrow> unit io" where
  "UpdateDeployment e d =
     retry_on_conflict (e_steps e)
       (GetDeployment e (om_namespace (dp_meta d)) (om_name (dp_meta d)) \<bind> ok (\<lambda>live.
          send (e_done e) (SideCall (UpdateDeploymentC
            (live\<lparr>dp_spec := dp_spec d,
                  dp_meta := (dp_meta live)\<lparr>om_labels := om_labels (dp_meta d),
                                            om_annotations := om_annotations (dp_meta d)\<rparr>\<rparr>)))))"

definition DeleteDeployment :: "env \<Rightarrow> deployment \<Rightarrow> unit io" where
  "DeleteDeployment e d = send (e_done e) (SideCall (DeleteDeploymentC d))"

section \<open>Deployments of the exporter (helper.go)\<close>

abbreviation AnnDeploymentRevision :: string where "AnnDeploymentRevision \<equiv> ''deployment.kubernetes.io/revision''"

definition set_dp_annotations :: "strmap \<Rightarrow> deployment \<Rightarrow> deployment" where
  "set_dp_annotations a d = d\<lparr>dp_meta := (dp_meta d)\<lparr>om_annotations := a\<rparr>\<rparr>"

abbreviation dp_annotations :: "deployment \<Rightarrow> strmap" where "dp_annotations d \<equiv> om_annotations (dp_meta d)"

definition setDeploymentLastAppliedConfigAnnotation :: "env \<Rightarrow> deployment \<Rightarrow> deployment io" where
  "setDeploymentLastAppliedConfigAnnotation e d =
     now e \<bind> ok (\<lambda>t. ret (set_dp_annotations
       (AList.update AnnLastSyncTimestampKey (e_rfc3339 e t)
         (AList.update AnnLastAppliedConfigKey (d_encode_deploy (e_side e) (dp_spec d)) (dp_annotations d))) d))"

definition deploymentEqual :: "env \<Rightarrow> deployment \<Rightarrow> deployment \<Rightarrow> bool" where
  "deploymentEqual e newDeploy oldDeploy =
     (let tmpAnno = filter (\<lambda>(k, v). k \<noteq> AnnLastAppliedConfigKey \<and> k \<noteq> AnnLastSyncTimestampKey
                                    \<and> k \<noteq> AnnDeploymentRevision) (dp_annotations oldDeploy)
      in if \<not> same_map (dp_annotations newDeploy) tmpAnno then False
         else (case map_of (dp_annotations oldDeploy) AnnLastAppliedConfigKey of
                 None \<Rightarrow> False
               | Some s \<Rightarrow>
                   (case d_decode_deploy (e_side e) s of
                      None \<Rightarrow> False
                    | Some oldConfig \<Rightarrow>
                        (let t = ds_template oldConfig;
                             n = ds_template (dp_spec newDeploy)
                         in ds_replicas oldConfig = ds_replicas (dp_spec newDeploy)
                            \<and> same_map (tp_labels t) (tp_labels n)
                            \<and> same_map (AList.delete AnnLastAppliedConfigKey (tp_annotations t)) (tp_annotations n)
                            \<and> tp_pod t = tp_pod n
                            \<and> ds_strategy oldConfig = ds_strategy (dp_spec newDeploy)))))"

text \<open>
  \<open>deploy\<close> is the old object itself: what the code then reads as the annotations of the old deployment are
  those it has just put there, so nothing of the old annotations is kept.
\<close>

definition merge_deployment :: "deployment \<Rightarrow> deployment \<Rightarrow> deployment" where
  "merge_deployment newDeploy oldDeploy =
     oldDeploy\<lparr>dp_meta := (dp_meta oldDeploy)
        \<lparr>om_labels := om_labels (dp_meta newDeploy), om_annotations := dp_annotations newDeploy,
         om_owners := (if GetControllerOf (dp_meta oldDeploy) = None then om_owners (dp_meta newDeploy)
                       else om_owners (dp_meta oldDeploy))\<rparr>,
      dp_spec := (dp_spec oldDeploy)
        \<lparr>ds_replicas := ds_replicas (dp_spec newDeploy), ds_template := ds_template (dp_spec newDeploy),
         ds_strategy := ds_strategy (dp_spec newDeploy)\<rparr>\<rparr>"

definition updateDeployment :: "env \<Rightarrow> deployment \<Rightarrow> deployment \<Rightarrow> unit io" where
  "updateDeployment e newDeploy oldDeploy =
     (if deploymentEqual e newDeploy oldDeploy \<and> GetControllerOf (dp_meta oldDeploy) \<noteq> None then ret ()
      else setDeploymentLastAppliedConfigAnnotation e (merge_deployment newDeploy oldDeploy) \<bind> ok (UpdateDeployment e))"

section \<open>The exporter (exporter.go)\<close>

text \<open>
  Its accessor (\<open>apis/apps/v1alpha1/exporter.go\<close>) is that of any component: settings of its own first, those of
  the cluster behind. Here: the accessor of a cluster whose first component has the specification of the exporter.
\<close>

definition exporter_view :: "exporter_spec \<Rightarrow> nebula_cluster \<Rightarrow> nebula_cluster" where
  "exporter_view x nc =
     nc\<lparr>nc_spec := (nc_spec nc)\<lparr>sp_graphd := (graphd_of nc)\<lparr>gd_component := xp_component x\<rparr>\<rparr>\<rparr>"

definition getExporterDeploymentName :: "string \<Rightarrow> string" where
  "getExporterDeploymentName clusterName = clusterName @ ''-exporter''"

definition getExporterLabels :: "exporter_spec \<Rightarrow> nebula_cluster \<Rightarrow> strmap" where
  "getExporterLabels x nc =
     mergeStringMaps True
       [label_Component ''exporter'' (label_Cluster (nc_name nc) label_New), cs_labels (xp_component x)]"

definition exporter_generateService :: "exporter_spec \<Rightarrow> nebula_cluster \<Rightarrow> service" where
  "exporter_generateService x nc =
     (let labels = getExporterLabels x nc
      in \<lparr>sv_meta = (plain_meta (nc_ns nc) (nc_name nc @ ''-exporter-svc''))
            \<lparr>om_labels := labels, om_owners := GenerateOwnerReferences nc\<rparr>,
          sv_selector = labels,
          sv_ports = [\<lparr>sv_port_name = ''metrics'', sv_port = xp_http_port x, sv_target = xp_http_port x\<rparr>],
          sv_cluster_ip = '''', sv_publish_not_ready = False, sv_type = ''''\<rparr>)"

definition exporter_args :: "exporter_spec \<Rightarrow> nebula_cluster \<Rightarrow> string list" where
  "exporter_args x nc =
     [''--listen-address=0.0.0.0:9100'', ''--namespace='' @ nc_ns nc, ''--cluster='' @ nc_name nc,
      ''--max-request='' @ show_int (xp_max_requests x)]
     @ (if xp_collect_regex x \<noteq> '''' then [''--collect='' @ xp_collect_regex x] else [])
     @ (if xp_ignore_regex x \<noteq> '''' then [''--ignore='' @ xp_ignore_regex x] else [])"

definition exporter_container :: "exporter_spec \<Rightarrow> nebula_cluster \<Rightarrow> container" where
  "exporter_container x nc =
     (base_container ''ng-exporter'' (ca_PodImage GraphdComponentType (exporter_view x nc)) [])
       \<lparr>ct_args := exporter_args x nc, ct_env := cs_env (xp_component x),
        ct_ports := [\<lparr>cp_name = ''metrics'', cp_port = xp_http_port x\<rparr>],
        ct_mounts := cs_mounts (xp_component x),
        ct_liveness := (case cs_liveness (xp_component x) of
                          Some p \<Rightarrow> Some p | None \<Rightarrow> Some (HttpProbe ''/health'' (xp_http_port x) 30 5 60 2)),
        ct_resources := (case ca_Resources GraphdComponentType (exporter_view x nc) of Some r \<Rightarrow> r | None \<Rightarrow> no_resources),
        ct_pull_policy := pull_policy nc\<rparr>"

definition exporter_generateDeployment :: "exporter_spec \<Rightarrow> nebula_cluster \<Rightarrow> deployment" where
  "exporter_generateDeployment x nc =
     (let labels = getExporterLabels x nc; v = exporter_view x nc; c = xp_component x
      in \<lparr>dp_meta = (plain_meta (nc_ns nc) (getExporterDeploymentName (nc_name nc)))
            \<lparr>om_labels := labels, om_owners := GenerateOwnerReferences nc\<rparr>,
          dp_spec = \<lparr>ds_replicas = Some (ca_Replicas GraphdComponentType v), ds_selector = labels,
            ds_template = \<lparr>tp_labels = labels, tp_annotations = cs_annotations c,
              tp_pod = \<lparr>po_scheduler = sp_scheduler (nc_spec nc), po_node_selector = ca_NodeSelector GraphdComponentType v,
                po_init = cs_init_containers c, po_containers = exporter_container x nc # cs_sidecars c,
                po_volumes = cs_volumes c, po_pull_secrets = sp_pull_secrets (nc_spec nc),
                po_affinity = ca_Affinity GraphdComponentType v, po_tolerations = ca_Tolerations GraphdComponentType v, po_account = ''nebula-sa'',
                po_dns_config = None, po_dns_policy = '''', po_spread = []\<rparr>\<rparr>,
            ds_strategy = ''''\<rparr>\<rparr>)"

definition syncExporterDeployment :: "env \<Rightarrow> exporter_spec \<Rightarrow> nebula_cluster \<Rightarrow> unit io" where
  "syncExporterDeployment e x nc =
     (let newDeploy = exporter_generateDeployment x nc
      in GetDeployment e (om_namespace (dp_meta newDeploy)) (om_name (dp_meta newDeploy)) \<bind>
           handle (\<lambda>y. if y \<noteq> ErrNotFound then throw y
                       else setDeploymentLastAppliedConfigAnnotation e newDeploy \<bind> ok (CreateDeployment e))
             (updateDeployment e newDeploy))"

definition exporter_Reconcile :: "env \<Rightarrow> nebula_cluster \<Rightarrow> unit io" where
  "exporter_Reconcile e nc =
     (case sp_exporter (nc_spec nc) of
        None \<Rightarrow> ret ()
      | Some x \<Rightarrow> syncService e (exporter_generateService x nc) \<bind> ok (\<lambda>_. syncExporterDeployment e x nc))"

definition exporter_Delete :: "env \<Rightarrow> nebula_cluster \<Rightarrow> unit io" where
  "exporter_Delete e nc =
     (if sp_exporter (nc_spec nc) = None then ret ()
      else GetDeployment e (nc_ns nc) (getExporterDeploymentName (nc_name nc)) \<bind>
             handle (\<lambda>x. if x = ErrNotFound then ret () else throw x) (DeleteDeployment e))"

section \<open>The console (console.go)\<close>

definition pd_set_annotations :: "strmap \<Rightarrow> pod \<Rightarrow> pod" where
  "pd_set_annotations a p = p\<lparr>pd_meta := (pd_meta p)\<lparr>om_annotations := a\<rparr>\<rparr>"

definition setPodLastAppliedConfigAnnotation :: "env \<Rightarrow> pod \<Rightarrow> pod io" where
  "setPodLastAppliedConfigAnnotation e p =
     now e \<bind> ok (\<lambda>t. ret (pd_set_annotations
       (AList.update AnnLastSyncTimestampKey (e_rfc3339 e t)
         (AList.update AnnLastAppliedConfigKey (d_encode_pod (e_side e) (pd_spec p)) (om_annotations (pd_meta p)))) p))"

definition podEqual :: "env \<Rightarrow> pod \<Rightarrow> pod \<Rightarrow> bool" where
  "podEqual e newPod oldPod =
     (let tmpAnno = filter (\<lambda>(k, v). k \<noteq> AnnLastAppliedConfigKey \<and> k \<noteq> AnnLastSyncTimestampKey)
                      (om_annotations (pd_meta oldPod))
      in if \<not> same_map (om_annotations (pd_meta newPod)) tmpAnno then False
         else (case map_of (om_annotations (pd_meta oldPod)) AnnLastAppliedConfigKey of
                 None \<Rightarrow> False
               | Some s \<Rightarrow> (case d_decode_pod (e_side e) s of None \<Rightarrow> False | Some oldConfig \<Rightarrow> oldConfig = pd_spec newPod)))"

definition updateSinglePod :: "env \<Rightarrow> pod \<Rightarrow> pod \<Rightarrow> unit io" where
  "updateSinglePod e newPod oldPod =
     (if podEqual e newPod oldPod \<and> GetControllerOf (pd_meta oldPod) \<noteq> None then ret ()
      else setPodLastAppliedConfigAnnotation e newPod \<bind> ok (\<lambda>newPod.
           DeletePod e (om_namespace (pd_meta oldPod)) (om_name (pd_meta oldPod)) False \<bind> ok (\<lambda>_.
           CreatePod e newPod)))"

definition getConsolePodName :: "string \<Rightarrow> string" where
  "getConsolePodName clusterName = clusterName @ ''-console''"

definition getConsoleImage :: "console_spec \<Rightarrow> string" where
  "getConsoleImage c =
     (let img = (if cn_image c \<noteq> '''' then cn_image c else ''vesoft/nebula-console'')
      in if cn_version c \<noteq> '''' then img @ '':'' @ cn_version c else img)"

definition getNodeSelector :: "console_spec \<Rightarrow> nebula_cluster \<Rightarrow> strmap" where
  "getNodeSelector c nc =
     fold (\<lambda>(k, v). AList.update k v) (cn_node_selector c)
       (fold (\<lambda>(k, v). AList.update k v) (sp_node_selector (nc_spec nc)) [])"

definition client_certs_mounted :: "nebula_cluster \<Rightarrow> bool" where
  "client_certs_mounted nc \<longleftrightarrow> flag_on (gd_config (graphd_of nc)) ''enable_graph_ssl'' \<or> IsClusterSSLEnabled nc"

definition console_command :: "console_spec \<Rightarrow> nebula_cluster \<Rightarrow> string list" where
  "console_command c nc =
     [''nebula-console'', ''-addr'', getServiceName (comp_GetName GraphdComponentType nc) False, ''-port'',
      show_int (comp_GetPort GraphdComponentType nc ''thrift''),
      ''-u'', if cn_username c \<noteq> '''' then cn_username c else ''root'',
      ''-p'', if cn_password c \<noteq> '''' then cn_password c else ''nebula'']
     @ (if client_certs_mounted nc
        then [''-enable_ssl'', ''-ssl_cert_path'', ''/tmp/client.crt'', ''-ssl_private_key_path'',
              ''/tmp/client.key'', ''-ssl_root_ca_path'', ''/tmp/ca.crt'']
             @ (if InsecureSkipVerify nc then [''-ssl_insecure_skip_verify''] else [])
        else [])"

definition console_mounts :: "volume_mount list" where
  "console_mounts =
     [ro_mount ''client-crt'' ''/tmp/client.crt'' ''client.crt'', ro_mount ''client-key'' ''/tmp/client.key'' ''client.key'',
      ro_mount ''client-ca-crt'' ''/tmp/ca.crt'' ''ca.crt'']"

definition console_container :: "console_spec \<Rightarrow> nebula_cluster \<Rightarrow> container" where
  "console_container c nc =
     (base_container ''console'' (getConsoleImage c) (console_command c nc))
       \<lparr>ct_pull_policy := ''Always'', ct_mounts := (if client_certs_mounted nc then console_mounts else []),
        ct_rest := K8s ''stdin,stdinOnce,tty''\<rparr>"

definition console_generatePod :: "console_spec \<Rightarrow> nebula_cluster \<Rightarrow> pod" where
  "console_generatePod c nc =
     \<lparr>pd_meta = (plain_meta (nc_ns nc) (getConsolePodName (nc_name nc)))
        \<lparr>om_labels := label_Component ''console'' (label_Cluster (nc_name nc) label_New),
         om_owners := GenerateOwnerReferences nc\<rparr>,
      pd_node = '''', pd_phase = '''', pd_ready = False, pd_conditions = [], pd_waiting = [], pd_terminated = [], pd_exits = [],
      pd_spec = empty_pod_spec
        \<lparr>po_scheduler := sp_scheduler (nc_spec nc), po_node_selector := getNodeSelector c nc,
         po_containers := [console_container c nc], po_pull_secrets := sp_pull_secrets (nc_spec nc),
         po_account := ''nebula-sa'',
         po_volumes := (if client_certs_mounted nc then getClientCertVolumes (sp_ssl (nc_spec nc)) else [])\<rparr>\<rparr>"

definition syncConsolePod :: "env \<Rightarrow> console_spec \<Rightarrow> nebula_cluster \<Rightarrow> unit io" where
  "syncConsolePod e c nc =
     (let newPod = console_generatePod c nc
      in GetPod e (om_namespace (pd_meta newPod)) (om_name (pd_meta newPod)) \<bind>
           handle (\<lambda>x. if x \<noteq> ErrNotFound then throw x
                       else setPodLastAppliedConfigAnnotation e newPod \<bind> ok (CreatePod e))
             (updateSinglePod e newPod))"

definition console_Reconcile :: "env \<Rightarrow> nebula_cluster \<Rightarrow> unit io" where
  "console_Reconcile e nc =
     (case sp_console (nc_spec nc) of
        None \<Rightarrow> ret ()
      | Some c \<Rightarrow>
          lift (comp_IsReady GraphdComponentType nc) \<bind> ok (\<lambda>ready.
            if \<not> ready then throw (ErrReconcile ''waiting for graphd cluster ready'') else syncConsolePod e c nc))"

definition console_Delete :: "env \<Rightarrow> nebula_cluster \<Rightarrow> unit io" where
  "console_Delete e nc =
     (if sp_console (nc_spec nc) = None then ret ()
      else GetPod e (nc_ns nc) (getConsolePodName (nc_name nc)) \<bind>
             handle (\<lambda>x. if x = ErrNotFound then ret () else throw x)
               (\<lambda>_. DeletePod e (nc_ns nc) (getConsolePodName (nc_name nc)) True))"

end
