(* ===== verification/ClusterControl.thy ===== *)
theory ClusterControl
  imports Controllers Reclaimer Satellites
begin

text \<open>
  One reconciliation of a NebulaCluster, from the request of the work queue to its answer: the conditions
  (\<open>pkg/util/condition/cluster_condition.go\<close>), the Ready condition
  (\<open>nebula_cluster_condition_updater.go\<close>), the order in which the parts of a cluster are reconciled and
  deleted (\<open>nebula_cluster_control.go\<close>) and the reconciler (\<open>nebula_cluster_controller.go\<close>).
\<close>

section \<open>Conditions (cluster_condition.go)\<close>

abbreviation cl_of :: "nebula_cluster \<Rightarrow> cluster_condition list" where
  "cl_of nc \<equiv> cl_conditions (nc_status nc)"

definition NewNebulaClusterCondition :: "env \<Rightarrow> string \<Rightarrow> string \<Rightarrow> string \<Rightarrow> string \<Rightarrow> cluster_condition io" where
  "NewNebulaClusterCondition e condType status reason message =
     now e \<bind> ok (\<lambda>t. now e \<bind> ok (\<lambda>t'. ret
       \<lparr>cc_type = condType, cc_status = status, cc_update_time = t, cc_transition_time = t',
        cc_reason = reason, cc_message = message\<rparr>))"

definition filterOutCondition :: "cluster_condition list \<Rightarrow> string \<Rightarrow> cluster_condition list" where
  "filterOutCondition conditions condType = filter (\<lambda>c. cc_type c \<noteq> condType) conditions"

definition SetNebulaClusterCondition :: "cluster_condition \<Rightarrow> cluster_condition list \<Rightarrow> cluster_condition list" where
  "SetNebulaClusterCondition c cs =
     (case find_condition (cc_type c) cs of
        None \<Rightarrow> filterOutCondition cs (cc_type c) @ [c]
      | Some current \<Rightarrow>
          if cc_status current = cc_status c \<and> cc_reason current = cc_reason c then cs
          else filterOutCondition cs (cc_type c)
               @ [if cc_status current = cc_status c then c\<lparr>cc_transition_time := cc_transition_time current\<rparr> else c])"

section \<open>The Ready condition (nebula_cluster_condition_updater.go)\<close>

definition isUpToDate :: "workload_status option \<Rightarrow> bool" where
  "isUpToDate s = (case s of None \<Rightarrow> True | Some w \<Rightarrow> ws_current_rev w = ws_update_rev w)"

definition allWorkloadsAreUpToDate :: "nebula_cluster \<Rightarrow> bool" where
  "allWorkloadsAreUpToDate nc \<longleftrightarrow> isUpToDate (GetWorkload MetadComponentType nc)
     \<and> isUpToDate (GetWorkload StoragedComponentType nc) \<and> isUpToDate (GetWorkload GraphdComponentType nc)"

definition isProvisioned :: "volume_status option \<Rightarrow> bool" where
  "isProvisioned s = (case s of None \<Rightarrow> True | Some v \<Rightarrow> vs_done v)"

definition allVolumesAreProvisionedDone :: "nebula_cluster \<Rightarrow> bool" where
  "allVolumesAreProvisionedDone nc \<longleftrightarrow> isProvisioned (GetVolumeStatus MetadComponentType nc)
     \<and> isProvisioned (GetVolumeStatus StoragedComponentType nc) \<and> isProvisioned (GetVolumeStatus GraphdComponentType nc)"

text \<open>The verdict: status, reason and message. The cases are tried in their order.\<close>

definition if_ready :: "bool outcome \<Rightarrow> 'a \<Rightarrow> 'a outcome \<Rightarrow> 'a outcome" where
  "if_ready ready no yes = (case ready of Ok b \<Rightarrow> if b then yes else Ok no | Err x \<Rightarrow> Err x | Panic \<Rightarrow> Panic)"

definition ready_verdict :: "nebula_cluster \<Rightarrow> (string \<times> string \<times> string) outcome" where
  "ready_verdict nc =
     (if \<not> allWorkloadsAreUpToDate nc then Ok (''False'', ''WorkloadNotUpToDate'', ''Workload is in progress'')
      else if_ready (comp_IsReady MetadComponentType nc) (''False'', ''MetadUnhealthy'', ''Metad is not healthy'')
          (if_ready (IsStoragedAvailable nc) (''False'', ''StoragedUnhealthy'', ''Storaged is not healthy'')
            (if_ready (comp_IsReady GraphdComponentType nc) (''False'', ''GraphdUnhealthy'', ''Graphd is not healthy'')
              (if \<not> allVolumesAreProvisionedDone nc
               then Ok (''False'', ''VolumeNotProvisioning'', ''Volume is provisioning'')
               else Ok (''True'', ''Ready'', ''Nebula cluster is running'')))))"

definition set_conditions :: "cluster_condition list \<Rightarrow> nebula_cluster \<Rightarrow> nebula_cluster" where
  "set_conditions cs nc = nc\<lparr>nc_status := (nc_status nc)\<lparr>cl_conditions := cs\<rparr>\<rparr>"

definition updateReadyCondition :: "env \<Rightarrow> unit op" where
  "updateReadyCondition e =
     get_nc \<bind> ok (\<lambda>nc. lift (ready_verdict nc) \<bind> ok (\<lambda>(status, reason, message).
     world (NewNebulaClusterCondition e ''Ready'' status reason message) \<bind> ok (\<lambda>c.
     set_nc (set_conditions (SetNebulaClusterCondition c (cl_of nc))))))"

section \<open>Annotations of a restore (annotation.go)\<close>

definition IsRestoreNameNotEmpty :: "strmap \<Rightarrow> bool" where
  "IsRestoreNameNotEmpty ann \<longleftrightarrow> map_val ann ''nebula-graph.io/restore-name'' \<noteq> ''''"

definition IsRestoreMetadDone :: "strmap \<Rightarrow> bool" where
  "IsRestoreMetadDone ann \<longleftrightarrow> map_of ann ''nebula-graph.io/restore-metad-done'' = Some ''true''"

definition IsRestoreStoragedDone :: "strmap \<Rightarrow> bool" where
  "IsRestoreStoragedDone ann \<longleftrightarrow> map_of ann ''nebula-graph.io/restore-storaged-done'' = Some ''true''"

definition IsInRestoreStage2 :: "strmap \<Rightarrow> bool" where
  "IsInRestoreStage2 ann \<longleftrightarrow> map_of ann ''restore-stage'' = Some ''restore-stage-2''"

definition IsInHaMode :: "strmap \<Rightarrow> bool" where
  "IsInHaMode ann \<longleftrightarrow> map_of ann ''nebula-graph.io/ha-mode'' = Some ''true''"

definition ISDeleteProtected :: "strmap \<Rightarrow> bool" where
  "ISDeleteProtected ann \<longleftrightarrow> map_of ann ''nebula-graph.io/delete-protection'' = Some ''true''"

section \<open>Reconciling and deleting a cluster (nebula_cluster_control.go)\<close>

definition set_version :: "string \<Rightarrow> nebula_cluster \<Rightarrow> nebula_cluster" where
  "set_version v nc = nc\<lparr>nc_status := (nc_status nc)\<lparr>cl_version := v\<rparr>\<rparr>"

definition setClusterVersion :: "env \<Rightarrow> unit op" where
  "setClusterVersion e =
     get_nc \<bind> ok (\<lambda>nc.
       with_meta e (meta_endpoints e nc)
         (world (ListHosts e MetaHosts) \<bind> ok (\<lambda>hosts.
            case hosts of [] \<Rightarrow> ret () | host # _ \<Rightarrow> set_nc (set_version (hi_version host)))))"

text \<open>A restored cluster waits after each service for its data.\<close>

definition wait_restore :: "(strmap \<Rightarrow> bool) \<Rightarrow> string \<Rightarrow> unit op" where
  "wait_restore doneP msg =
     get_nc \<bind> ok (\<lambda>nc.
       if IsBREnabled nc \<and> IsRestoreNameNotEmpty (om_annotations (nc_meta nc)) \<and> \<not> doneP (om_annotations (nc_meta nc))
       then throw (ErrReconcile msg) else ret ())"

definition updateNebulaCluster :: "env \<Rightarrow> unit op" where
  "updateNebulaCluster e =
     get_nc \<bind> ok (\<lambda>nc.
     (if HasFinalizer nc cluster_finalizer then ret ()
      else world (UpdateFinalizer e nc AddFinalizerOpType cluster_finalizer)) \<bind> ok (\<lambda>_.
     world (CheckRBAC e (nc_ns nc)) \<bind> ok (\<lambda>_.
     metad_Reconcile e \<bind> ok (\<lambda>_.
     wait_restore IsRestoreMetadDone ''waiting for metad cluster restore done'' \<bind> ok (\<lambda>_.
     storaged_Reconcile e \<bind> ok (\<lambda>_.
     wait_restore IsRestoreStoragedDone ''waiting for storaged cluster restore done'' \<bind> ok (\<lambda>_.
     graphd_Reconcile e \<bind> ok (\<lambda>_.
     setClusterVersion e \<bind> ok (\<lambda>_.
     get_nc \<bind> ok (\<lambda>nc.
     world (exporter_Reconcile e nc) \<bind> ok (\<lambda>_.
     world (console_Reconcile e nc) \<bind> ok (\<lambda>_.
     world (meta_Reconcile e nc) \<bind> ok (\<lambda>_.
     world (Reclaim e nc))))))))))))))"

definition NewAggregate :: "go_err list \<Rightarrow> ('s, unit) go" where
  "NewAggregate errs = (if errs = [] then ret () else throw (ErrAggregate errs))"

definition catch :: "go_err list \<Rightarrow> unit outcome \<Rightarrow> ('s, go_err list) go" where
  "catch errs = handle (\<lambda>x. ret (errs @ [x])) (\<lambda>_. ret errs)"

definition set_observed :: "nebula_cluster \<Rightarrow> nebula_cluster" where
  "set_observed nc = nc\<lparr>nc_status := (nc_status nc)\<lparr>cl_observed := om_generation (nc_meta nc)\<rparr>\<rparr>"

definition control_UpdateNebulaCluster :: "env \<Rightarrow> unit op" where
  "control_UpdateNebulaCluster e =
     get_nc \<bind> ok (\<lambda>old.
     (updateNebulaCluster e \<bind> catch []) \<bind> ok (\<lambda>errs.
     updateReadyCondition e \<bind> ok (\<lambda>_.
     set_nc set_observed \<bind> ok (\<lambda>_.
     (write_status e \<bind> catch errs) \<bind> ok (\<lambda>errs.
     get_nc \<bind> ok (\<lambda>nc.
       if nc_status nc = nc_status old \<and> cluster_IsReady nc then NewAggregate errs
       else NewAggregate (if IsConditionReady nc then errs
                          else errs @ [ErrReconcile ''waiting for nebulacluster ready''])))))))"

definition DeleteCluster :: "env \<Rightarrow> unit op" where
  "DeleteCluster e =
     graphd_Delete e \<bind> ok (\<lambda>_.
     storaged_Delete e \<bind> ok (\<lambda>_.
     get_nc \<bind> ok (\<lambda>nc.
     world (meta_Delete e nc) \<bind> ok (\<lambda>_.
     world (PVCDeleter e (nc_ns nc) (nc_name nc)) \<bind> ok (\<lambda>_.
     world (UpdateFinalizer e nc RemoveFinalizerOpType cluster_finalizer))))))"

section \<open>The reconciler (nebula_cluster_controller.go)\<close>

text \<open>
  The answer is the delay after which the request is put back, \<open>None\<close> for none. \<open>filter_out\<close> is
  \<open>errorutils.FilterOut\<close> with the matchers \<open>IsReconcileError\<close>, \<open>IsDNSError\<close>, \<open>IsStatusError\<close>: what is
  left of an error.
\<close>

abbreviation reconcileTimeOut :: int where "reconcileTimeOut \<equiv> 10000000000"
abbreviation defaultTimeout :: int where "defaultTimeout \<equiv> 5000000000"

definition syncNebulaCluster :: "env \<Rightarrow> unit op" where
  "syncNebulaCluster e =
     get_nc \<bind> ok (\<lambda>nc. if om_deletion (nc_meta nc) \<noteq> None then DeleteCluster e else control_UpdateNebulaCluster e)"

definition run_cluster :: "nebula_cluster \<Rightarrow> 'a op \<Rightarrow> 'a io" where
  "run_cluster nc m = State (\<lambda>h. case run_state m (h, nc) of (r, (h', _)) \<Rightarrow> (r, h'))"

definition cluster_Reconcile ::
    "env \<Rightarrow> (go_err \<Rightarrow> go_err option) \<Rightarrow> bool \<Rightarrow> string \<Rightarrow> string \<Rightarrow> int option io" where
  "cluster_Reconcile e filter_out enableKruise ns name =
     GetNebulaCluster e ns name \<bind>
       handle (\<lambda>x. if x = ErrNotFound then ret None else throw x)
         (\<lambda>nc. if \<not> enableKruise \<and> wr_name (sp_reference (nc_spec nc)) = ''statefulsets.apps.kruise.io''
               then throw (ErrPlain ''openkruise scheme not registered'')
               else run_cluster nc (syncNebulaCluster e) \<bind>
                      handle (\<lambda>x. ret (Some (if filter_out x = None then reconcileTimeOut else defaultTimeout)))
                        (\<lambda>_. ret None))"

section \<open>The Ready condition says what it should\<close>

lemma find_condition_filter: "find_condition t (filterOutCondition cs t') = (if t = t' then None else find_condition t cs)"
  by (induction cs) (auto simp: filterOutCondition_def)

lemma find_condition_append:
  "find_condition t (cs @ ds) = (case find_condition t cs of None \<Rightarrow> find_condition t ds | Some c \<Rightarrow> Some c)"
  by (induction cs) auto

lemma find_condition_type: "find_condition t cs = Some c \<Longrightarrow> cc_type c = t"
  by (induction cs) (auto split: if_splits)

text \<open>What a table of conditions says: status and reason of each type.\<close>

definition verdicts :: "cluster_condition list \<Rightarrow> string \<Rightarrow> (string \<times> string) option" where
  "verdicts cs t = map_option (\<lambda>c. (cc_status c, cc_reason c)) (find_condition t cs)"

lemma verdicts_set:
  "verdicts (SetNebulaClusterCondition c cs) = (verdicts cs)(cc_type c \<mapsto> (cc_status c, cc_reason c))"
  by (rule ext)
     (auto simp: verdicts_def SetNebulaClusterCondition_def find_condition_append find_condition_filter
       split: option.splits dest: find_condition_type)

text \<open>Everything a cluster needs to be called ready.\<close>

definition cluster_in_order :: "nebula_cluster \<Rightarrow> bool" where
  "cluster_in_order nc \<longleftrightarrow> allWorkloadsAreUpToDate nc \<and> comp_IsReady MetadComponentType nc = Ok True
     \<and> IsStoragedAvailable nc = Ok True \<and> comp_IsReady GraphdComponentType nc = Ok True \<and> allVolumesAreProvisionedDone nc"

lemma ready_verdict_True:
  "ready_verdict nc = Ok (s, r, m) \<Longrightarrow> s = ''True'' \<longleftrightarrow> cluster_in_order nc"
  by (auto simp: ready_verdict_def cluster_in_order_def if_ready_def split: if_splits outcome.splits)

lemma set_conditions_keeps [simp]:
  "cluster_in_order (set_conditions cs nc) = cluster_in_order nc" "cl_of (set_conditions cs nc) = cs"
  "nc_meta (set_conditions cs nc) = nc_meta nc"
proof -
  have eq: "GetWorkload t (set_conditions cs nc) = GetWorkload t nc" "spec_of t (set_conditions cs nc) = spec_of t nc"
    "GetVolumeStatus t (set_conditions cs nc) = GetVolumeStatus t nc" for t
    by (cases t; simp add: GetWorkload_def comp_status_def set_conditions_def spec_of_def GetVolumeStatus_def)+
  then have ready: "comp_IsReady t (set_conditions cs nc) = comp_IsReady t nc" for t
    by (simp add: comp_IsReady_def cong: option.case_cong)
  have "IsStoragedAvailable (set_conditions cs nc) = IsStoragedAvailable nc"
    unfolding IsStoragedAvailable_def ready by (simp add: set_conditions_def cong: outcome.case_cong bool.case_cong)
  with eq ready show "cluster_in_order (set_conditions cs nc) = cluster_in_order nc"
    by (simp add: cluster_in_order_def allWorkloadsAreUpToDate_def allVolumesAreProvisionedDone_def)
qed (simp_all add: set_conditions_def)

lemma IsConditionReady_verdicts: "IsConditionReady nc \<longleftrightarrow> (\<exists>r. verdicts (cl_of nc) ''Ready'' = Some (''True'', r))"
  by (auto simp: IsConditionReady_def verdicts_def split: option.splits)

lemma wp_updateReadyCondition:
  "wp (updateReadyCondition e) (\<lambda>r (h', nc'). r = Ok () \<longrightarrow> (IsConditionReady nc' \<longleftrightarrow> cluster_in_order nc')) (h, nc)"
  unfolding updateReadyCondition_def NewNebulaClusterCondition_def
  using ready_verdict_True [of nc]
  by (auto simp: wp_simps IsConditionReady_verdicts verdicts_set split: outcome.splits prod.splits)


text \<open>The status the server has: it was found there, or a write of it was accepted.\<close>

definition status_in_place :: "env \<Rightarrow> nebula_cluster \<Rightarrow> call list \<Rightarrow> bool" where
  "status_in_place e nc h \<longleftrightarrow> (\<exists>live t.
     (h = GetCluster (nc_ns nc) (nc_name nc) # t \<and> e_cluster e h = Ok live \<and> nc_status live = nc_status nc)
     \<or> (h = UpdateClusterStatus (live\<lparr>nc_status := nc_status nc\<rparr>) # GetCluster (nc_ns nc) (nc_name nc) # t
        \<and> e_cluster e (GetCluster (nc_ns nc) (nc_name nc) # t) = Ok live \<and> e_done e h = Ok ()))"

lemma wp_write_status:
  "wp (write_status e) (\<lambda>r (h', nc'). nc' = nc \<and> (r = Ok () \<longrightarrow> status_in_place e nc h')) (h, nc)"
proof -
  have "wp (UpdateNebulaClusterStatus e nc) (\<lambda>r h'. r = Ok () \<longrightarrow> status_in_place e nc h') h"
    by (rule wp_mono [OF nc_status_update.success]) (fastforce simp: status_in_place_def)
  then show ?thesis
    unfolding write_status_def by (auto simp: wp_bind wp_get_nc wp_ok wp_world elim!: wp_mono)
qed

definition settled :: "env \<Rightarrow> nebula_cluster \<Rightarrow> call list \<Rightarrow> bool" where
  "settled e nc h \<longleftrightarrow> cluster_in_order nc \<and> cl_observed (nc_status nc) = om_generation (nc_meta nc) \<and> status_in_place e nc h"

lemma set_observed_keeps [simp]:
  "cluster_in_order (set_observed nc) = cluster_in_order nc" "IsConditionReady (set_observed nc) = IsConditionReady nc"
  "cl_observed (nc_status (set_observed nc)) = om_generation (nc_meta (set_observed nc))"
proof -
  have eq: "GetWorkload t (set_observed nc) = GetWorkload t nc" "spec_of t (set_observed nc) = spec_of t nc"
    "GetVolumeStatus t (set_observed nc) = GetVolumeStatus t nc" for t
    by (cases t; simp add: GetWorkload_def comp_status_def set_observed_def spec_of_def GetVolumeStatus_def)+
  then have ready: "comp_IsReady t (set_observed nc) = comp_IsReady t nc" for t
    by (simp add: comp_IsReady_def cong: option.case_cong)
  have "IsStoragedAvailable (set_observed nc) = IsStoragedAvailable nc"
    unfolding IsStoragedAvailable_def ready by (simp add: set_observed_def cong: outcome.case_cong bool.case_cong)
  with eq ready show "cluster_in_order (set_observed nc) = cluster_in_order nc"
    by (simp add: cluster_in_order_def allWorkloadsAreUpToDate_def allVolumesAreProvisionedDone_def)
qed (simp_all add: set_observed_def IsConditionReady_def)

lemma finish_settled:
  assumes "IsConditionReady nc \<longleftrightarrow> cluster_in_order nc" "cl_observed (nc_status nc) = om_generation (nc_meta nc)"
  shows "wp ((write_status e \<bind> catch errs) \<bind> ok (\<lambda>errs. get_nc \<bind> ok (\<lambda>nc.
       if nc_status nc = nc_status old \<and> cluster_IsReady nc then NewAggregate errs
       else NewAggregate (if IsConditionReady nc then errs
                          else errs @ [ErrReconcile ''waiting for nebulacluster ready'']))))
     (\<lambda>r (h', nc'). r = Ok () \<longrightarrow> settled e nc' h') (h, nc)"
  unfolding wp_bind [of _ "ok _"] wp_bind [of _ "catch _"]
proof (rule wp_mono [OF wp_write_status])
  fix r :: "unit outcome" and s
  assume "case s of (h', nc') \<Rightarrow> nc' = nc \<and> (r = Ok () \<longrightarrow> status_in_place e nc h')"
  then obtain h' where s: "s = (h', nc)" "r = Ok () \<longrightarrow> status_in_place e nc h'" by (cases s) auto
  with assms show "wp (catch errs r) (\<lambda>a. wp (ok (\<lambda>errs. get_nc \<bind> ok (\<lambda>nc.
       if nc_status nc = nc_status old \<and> cluster_IsReady nc then NewAggregate errs
       else NewAggregate (if IsConditionReady nc then errs
                          else errs @ [ErrReconcile ''waiting for nebulacluster ready'']))) a)
     (\<lambda>r (h', nc'). r = Ok () \<longrightarrow> settled e nc' h')) s"
    by (cases r)
       (auto simp: catch_def handle_def wp_simps NewAggregate_def settled_def cluster_IsReady_def)
qed

lemma control_settled:
  "wp (control_UpdateNebulaCluster e) (\<lambda>r (h', nc'). r = Ok () \<longrightarrow> settled e nc' h') (h, nc)"
proof -
  have last: "wp (ok (\<lambda>_. set_nc set_observed \<bind> ok (\<lambda>_. (write_status e \<bind> catch errs) \<bind> ok (\<lambda>errs. get_nc \<bind> ok (\<lambda>nc.
       if nc_status nc = nc_status old \<and> cluster_IsReady nc then NewAggregate errs
       else NewAggregate (if IsConditionReady nc then errs
                          else errs @ [ErrReconcile ''waiting for nebulacluster ready'']))))) r)
     (\<lambda>r (h', nc'). r = Ok () \<longrightarrow> settled e nc' h') s"
    if "case s of (h', nc') \<Rightarrow> r = Ok () \<longrightarrow> (IsConditionReady nc' \<longleftrightarrow> cluster_in_order nc')" for r :: "unit outcome" and s errs old
  proof (cases s)
    case (Pair h' nc')
    with that show ?thesis
      using finish_settled [of "set_observed nc'" e errs old h']
      by (cases r) (simp_all add: wp_ok wp_bind [of "set_nc _"] wp_set_nc)
  qed
  show ?thesis
    unfolding control_UpdateNebulaCluster_def
    unfolding wp_bind [of get_nc] wp_get_nc wp_ok [of _ "Ok _"] outcome.case
    unfolding wp_bind [of "_ \<bind> catch _"]
  proof (rule wp_mono [OF wp_true])
    fix r :: "go_err list outcome" and s :: cluster_state
    show "wp (ok (\<lambda>errs. updateReadyCondition e \<bind> ok (\<lambda>_. set_nc set_observed \<bind> ok (\<lambda>_.
        (write_status e \<bind> catch errs) \<bind> ok (\<lambda>errs. get_nc \<bind> ok (\<lambda>nca.
         if nc_status nca = nc_status nc \<and> cluster_IsReady nca then NewAggregate errs
         else NewAggregate (if IsConditionReady nca then errs
                            else errs @ [ErrReconcile ''waiting for nebulacluster ready''])))))) r)
       (\<lambda>r (h', nc'). r = Ok () \<longrightarrow> settled e nc' h') s"
    proof (cases s)
      case (Pair h1 nc1)
      show ?thesis
      proof (cases r)
        case (Ok errs)
        show ?thesis
          unfolding Ok Pair wp_ok [of _ "Ok errs"] outcome.case wp_bind [of "updateReadyCondition e"]
          by (rule wp_mono [OF wp_updateReadyCondition], rule last)
      qed (simp_all add: Pair wp_ok)
    qed
  qed
qed



text \<open>
  A cluster that is resumed after a suspension: its services are there, their status has not been
  looked at yet. The API server and the meta service accept everything.
\<close>

definition resuming_cluster :: nebula_cluster where
  "resuming_cluster = SetPhase GraphdComponentType SuspendPhase (SetPhase MetadComponentType SuspendPhase
     (SetPhase StoragedComponentType SuspendPhase (nc_set_finalizers [cluster_finalizer] (sample_cluster 1 1))))"

definition kind_world :: env where
  "kind_world = empty_world\<lparr>e_cluster := \<lambda>_. Ok resuming_cluster, e_kinds := \<lambda>_. Ok [native_gvk], e_meta := \<lambda>_. Ok one_space,
     e_side := empty_side\<lparr>d_subjects := \<lambda>_. Ok [service_account ''ns'']\<rparr>\<rparr>"

lemma kind_world [simp]:
  "e_done kind_world h = Ok ()" "e_cluster kind_world h = Ok resuming_cluster" "e_kinds kind_world h = Ok [native_gvk]"
  "e_meta kind_world h = Ok one_space" "e_service kind_world h = Err ErrNotFound" "e_workload kind_world h = Err ErrNotFound"
  "e_pods kind_world h = Ok []" "e_pvcs kind_world h = Ok []" "d_subjects (e_side kind_world) h = Ok [service_account ''ns'']"
  "e_steps kind_world = 4"
  by (simp_all add: kind_world_def empty_world_def empty_side_def)

lemma resume_component:
  "\<lbrakk>comp_IsSuspending typ nc; \<not> IsSuspendEnabled nc; wr_name (sp_reference (nc_spec nc)) \<noteq> ''''\<rbrakk> \<Longrightarrow>
   wp (sync_workload kind_world typ k) Q (h, nc)
     = Q (Ok ()) (GetWorkloadC (nc_ns nc) (comp_GetName typ nc) native_gvk
                    # KindsForC (wr_name (sp_reference (nc_spec nc))) (wr_version (sp_reference (nc_spec nc))) # h,
                  SetPhase typ RunningPhase nc)"
  by (simp add: sync_workload_def get_gvk_def GetGVKFromDefinition_def find_workload_def GetWorkloadObj_def suspendComponent_def
      wrap_def wp_simps)

lemma kind_service:
  "wp (syncService kind_world s) Q h
     = Q (Ok ()) (CreateServiceC (setServiceLastAppliedConfigAnnotation kind_world s)
                    # GetServiceC (om_namespace (sv_meta s)) (om_name (sv_meta s)) # h)"
  by (simp add: syncService_def GetService_def CreateService_def wp_simps)

lemma phase_simps [simp]:
  "comp_IsSuspending t (SetPhase t' p nc) = (if t = t' then p = SuspendPhase else comp_IsSuspending t nc)"
  "IsSuspendEnabled (SetPhase t' p nc) = IsSuspendEnabled nc"
  "nc_meta (SetPhase t' p nc) = nc_meta nc" "nc_spec (SetPhase t' p nc) = nc_spec nc"
  by (cases t; cases t'; simp add: comp_IsSuspending_def GetPhase_def SetPhase_def UpdateComponentStatus_def
      graphd_UpdateComponentStatus_def metad_UpdateComponentStatus_def storaged_UpdateComponentStatus_def comp_status_def
      IsSuspendEnabled_def)+

lemma wp_step:
  fixes s :: cluster_state
  assumes "wp m (\<lambda>r s'. r = Ok x \<and> snd s' = nc') s" "\<And>h'. wp (k x) Q (h', nc')"
  shows "wp (m \<bind> ok k) Q s"
  unfolding wp_bind by (rule wp_mono [OF assms(1)]) (use assms(2) in \<open>auto simp: wp_simps\<close>)

lemma resuming_cluster [simp]:
  "comp_IsSuspending t resuming_cluster" "\<not> IsSuspendEnabled resuming_cluster"
  "nc_meta resuming_cluster = (plain_meta ''ns'' ''nebula'')\<lparr>om_finalizers := [cluster_finalizer]\<rparr>"
  "nc_spec resuming_cluster = sample_spec 1 1"
  "wr_name (sp_reference (sample_spec 1 1)) = ''statefulsets.apps''"
  by (cases t; simp add: resuming_cluster_def nc_set_finalizers_def sample_cluster_def)
     (simp_all add: resuming_cluster_def nc_set_finalizers_def sample_cluster_def IsSuspendEnabled_def sample_spec_def)

abbreviation resumed :: "component_type \<Rightarrow> nebula_cluster \<Rightarrow> nebula_cluster" where
  "resumed t \<equiv> SetPhase t RunningPhase"

lemma resume_steps:
  "wp (metad_Reconcile kind_world) (\<lambda>r s'. r = Ok () \<and> snd s' = resumed MetadComponentType resuming_cluster) (h, resuming_cluster)"
  "nc = resumed MetadComponentType resuming_cluster \<Longrightarrow>
   wp (storaged_Reconcile kind_world) (\<lambda>r s'. r = Ok () \<and> snd s' = resumed StoragedComponentType nc) (h, nc)"
  "nc = resumed StoragedComponentType (resumed MetadComponentType resuming_cluster) \<Longrightarrow>
   wp (graphd_Reconcile kind_world) (\<lambda>r s'. r = Ok () \<and> snd s' = resumed GraphdComponentType nc) (h, nc)"
  by (simp_all add: metad_Reconcile_def storaged_Reconcile_def graphd_Reconcile_def
      syncMetadHeadlessService_def syncStoragedHeadlessService_def syncGraphdHeadlessService_def syncGraphdService_def
      syncMetadWorkload_def syncStoragedWorkload_def syncGraphdWorkload_def wp_simps kind_service resume_component)

abbreviation resumed_cluster :: nebula_cluster where
  "resumed_cluster \<equiv>
     resumed GraphdComponentType (resumed StoragedComponentType (resumed MetadComponentType resuming_cluster))"

lemma resumed_version:
  "wp (setClusterVersion kind_world) (\<lambda>r s'. r = Ok () \<and> snd s' = resumed_cluster) (h, resumed_cluster)"
  by (simp add: setClusterVersion_def with_meta_def NewMetaClient_def wp_simps ListHosts_def retryOnError_def one_space_def meta_endpoints_def)

lemma resume_all:
  "wp (updateNebulaCluster kind_world) (\<lambda>r s'. r = Ok () \<and> snd s' = resumed_cluster) (h, resuming_cluster)"
proof -
  have start: "wp (world (CheckRBAC kind_world ''ns'')) (\<lambda>r s'. r = Ok () \<and> snd s' = nc) (h, nc)" for nc h
    by (simp add: CheckRBAC_def createServiceAccount_def createClusterRole_def createClusterRoleBinding_def get_binding_def
        isApplied_def wp_simps)
  have rest: "wp (wait_restore d m) (\<lambda>r s'. r = Ok () \<and> snd s' = nc) (h, nc)"
    if "nc_meta nc = nc_meta resuming_cluster" for d m nc h
    using that by (simp add: wait_restore_def wp_simps IsRestoreNameNotEmpty_def plain_meta_def map_val_def)
  have satellites: "exporter_Reconcile kind_world resumed_cluster = ret ()" "console_Reconcile kind_world resumed_cluster = ret ()"
    by (simp_all add: exporter_Reconcile_def console_Reconcile_def sample_spec_def)
  have ns: "om_namespace ((plain_meta ''ns'' n)\<lparr>om_finalizers := fs\<rparr>) = ''ns''" for n fs
    by (simp add: plain_meta_def)
  show ?thesis
    unfolding updateNebulaCluster_def wp_bind [of get_nc] wp_get_nc wp_ok [of _ "Ok _"] outcome.case
    apply (rule wp_step [where nc' = resuming_cluster and x = "()"])
     apply (simp add: HasFinalizer_def wp_simps)
    apply (rule wp_step)
     apply (simp only: resuming_cluster ns)
     apply (rule start)
    apply (rule wp_step, rule resume_steps(1))
    apply (rule wp_step, rule rest, simp)
    apply (rule wp_step, rule resume_steps(2), rule refl)
    apply (rule wp_step, rule rest, simp)
    apply (rule wp_step, rule resume_steps(3), rule refl)
    apply (rule wp_step, rule resumed_version)
    apply (simp add: wp_simps satellites meta_Reconcile_def Reclaim_def reclaimPV_def listPVCs_def ListPods_def ListPVCs_def group_wait_def)
    done
qed

lemma resumed_ready: "ready_verdict resumed_cluster = Ok (''True'', ''Ready'', ''Nebula cluster is running'')"
  by code_simp

lemma resumed_conditions: "cl_of resumed_cluster = []"
  by code_simp

lemma resuming_status: "cl_conditions s \<noteq> [] \<Longrightarrow> s \<noteq> nc_status resuming_cluster"
proof -
  have "cl_of resuming_cluster = []" by code_simp
  then show "cl_conditions s \<noteq> [] \<Longrightarrow> s \<noteq> nc_status resuming_cluster" by auto
qed

lemma resumed_status:
  "wp (updateReadyCondition kind_world \<bind> ok (\<lambda>_. set_nc set_observed \<bind> ok (\<lambda>_.
     (write_status kind_world \<bind> catch []) \<bind> ok (\<lambda>errs. get_nc \<bind> ok (\<lambda>nc.
       if nc_status nc = nc_status old \<and> cluster_IsReady nc then NewAggregate errs
       else NewAggregate (if IsConditionReady nc then errs
                          else errs @ [ErrReconcile ''waiting for nebulacluster ready''])))))) (\<lambda>r _. r = Ok ()) (h, resumed_cluster)"
  by (simp add: resuming_status updateReadyCondition_def resumed_ready resumed_conditions NewNebulaClusterCondition_def wp_simps
      SetNebulaClusterCondition_def filterOutCondition_def set_conditions_def set_observed_def write_status_def
      UpdateNebulaClusterStatus_def GetNebulaCluster_def eval_nat_numeral catch_def NewAggregate_def IsConditionReady_def)


end
