(* ===== verification/Backup.thy ===== *)
theory Backup
  imports Satellites Histories
begin

text \<open>
  Backups of a cluster: the clients of the NebulaBackup resource, of jobs, logs and secrets
  (\<open>pkg/kube/nebulabackup.go\<close>, \<open>job.go\<close>, \<open>log.go\<close>, \<open>pkg/credentials/credentials.go\<close>), the conditions
  of a backup (\<open>pkg/util/condition/backup_condition.go\<close>), the manager and the control of a backup
  (\<open>pkg/controller/nebulabackup\<close>) with the reconciler. The object in hand is an argument: no step of the
  code writes to it.
\<close>

section \<open>Retrying any error\<close>

text \<open>
  \<open>retry.OnError\<close> with \<open>retry.DefaultRetry\<close> and a predicate that holds of every error: five attempts,
  the last error is returned.
\<close>

fun retry_on_error :: "nat \<Rightarrow> 'a io \<Rightarrow> 'a io" where
  "retry_on_error 0 m = m"
| "retry_on_error (Suc n) m = m \<bind> handle (\<lambda>_. retry_on_error n m) ret"

abbreviation OnError :: "'a io \<Rightarrow> 'a io" where
  "OnError m \<equiv> retry_on_error 4 m"

lemma wp_retry_on_error:
  assumes "\<And>h. I h \<Longrightarrow> wp m (\<lambda>r h'. Q r h' \<and> (\<forall>x. r = Err x \<longrightarrow> I h')) h" "I h"
  shows "wp (retry_on_error n m) Q h"
  using assms(2)
proof (induction n arbitrary: h)
  case 0
  have "wp m Q h" by (rule wp_mono [OF assms(1) [OF 0]]) simp
  then show ?case by simp
next
  case (Suc n)
  have "wp m (\<lambda>r h'. wp (handle (\<lambda>_. retry_on_error n m) ret r) Q h') h"
    by (rule wp_mono [OF assms(1) [OF Suc.prems]]) (auto simp: wp_simps intro: Suc.IH split: outcome.splits)
  then show ?case by (simp add: wp_bind)
qed

section \<open>Jobs, logs and secrets (job.go, log.go, secret.go, credentials.go)\<close>

definition GetJob :: "env \<Rightarrow> string \<Rightarrow> string \<Rightarrow> job io" where
  "GetJob e ns name = send (b_job (e_bk e)) (BackupCall (GetJobC ns name))"

text \<open>A job that exists is no error, unless it is being deleted.\<close>

definition CreateJob :: "env \<Rightarrow> job \<Rightarrow> unit io" where
  "CreateJob e j =
     send (e_done e) (BackupCall (CreateJobC j)) \<bind>
       handle (\<lambda>x. if x = ErrAlreadyExists False then ret () else throw x) ret"

definition DeleteJob :: "env \<Rightarrow> string \<Rightarrow> string \<Rightarrow> unit io" where
  "DeleteJob e ns name =
     send (b_job (e_bk e)) (BackupCall (GetJobC ns name)) \<bind> ok (\<lambda>j. send (e_done e) (BackupCall (DeleteJobC j)))"

abbreviation ErrInitializedNotReady :: go_err where
  "ErrInitializedNotReady \<equiv> ErrPlain ''pod initialized not ready''"
abbreviation ErrContainerCreating :: go_err where
  "ErrContainerCreating \<equiv> ErrPlain ''target container is creating''"

definition isPodConditionInitializedTrue :: "(string \<times> string) list \<Rightarrow> bool" where
  "isPodConditionInitializedTrue cs \<longleftrightarrow> map_of cs ''Initialized'' = Some ''True''"

definition getContainerWaitingReason :: "pod \<Rightarrow> string \<Rightarrow> string" where
  "getContainerWaitingReason p name = map_val (pd_waiting p) name"

text \<open>The log of the first pod of a job. A list that fails counts as an empty one.\<close>

definition GetPodLog :: "env \<Rightarrow> string \<Rightarrow> string \<Rightarrow> string \<Rightarrow> string io" where
  "GetPodLog e ns jobName container =
     send (b_pods (e_bk e)) (BackupCall (ListJobPodsC ns jobName)) \<bind> handle (\<lambda>_. ret [])
       (\<lambda>pods. ret pods) \<bind> ok (\<lambda>pods.
       case pods of
         [] \<Rightarrow> ret ''''
       | p # _ \<Rightarrow>
           if \<not> isPodConditionInitializedTrue (pd_conditions p) then throw ErrInitializedNotReady
           else if getContainerWaitingReason p container = ''ContainerCreating'' then throw ErrContainerCreating
           else send (b_log (e_bk e)) (BackupCall (GetLogC ns (om_name (pd_meta p)) container)))"

definition GetSecret :: "env \<Rightarrow> string \<Rightarrow> string \<Rightarrow> strmap io" where
  "GetSecret e ns name = send (b_secret (e_bk e)) (BackupCall (GetSecretC ns name))"

definition GetStorageType :: "storage_provider \<Rightarrow> object_storage_type" where
  "GetStorageType p =
     (if sp_s3 p \<noteq> None then ObjectStorageS3 else if sp_gs p \<noteq> None then ObjectStorageGS else ObjectStorageUnknown)"

definition GetGsCredentials :: "env \<Rightarrow> string \<Rightarrow> string \<Rightarrow> string io" where
  "GetGsCredentials e ns secretName =
     (let v = e_getenv e ''GOOGLE_APPLICATION_CREDENTIALS_JSON''
      in if v \<noteq> '''' then ret v else GetSecret e ns secretName \<bind> ok (\<lambda>s. ret (map_val s ''credentials'')))"

definition GetS3Key :: "env \<Rightarrow> string \<Rightarrow> string \<Rightarrow> (string \<times> string) io" where
  "GetS3Key e ns secretName =
     (let a = e_getenv e ''AWS_ACCESS_KEY_ID''; s = e_getenv e ''AWS_SECRET_ACCESS_KEY''
      in if a \<noteq> '''' \<and> s \<noteq> '''' then ret (a, s)
         else GetSecret e ns secretName \<bind> ok (\<lambda>m. ret (map_val m ''access_key'', map_val m ''secret_key'')))"

section \<open>The conditions of a backup (backup_condition.go)\<close>

definition getBackupCondition :: "backup_status \<Rightarrow> backup_condition_type \<Rightarrow> (nat \<times> backup_condition) option" where
  "getBackupCondition st t =
     List.find (\<lambda>(i, c). bc_type c = t) (enumerate 0 (bt_conditions st))"

definition is_backup :: "backup_condition_type \<Rightarrow> nebula_backup \<Rightarrow> bool" where
  "is_backup t b \<longleftrightarrow>
     (case getBackupCondition (bk_status b) t of None \<Rightarrow> False | Some (_, c) \<Rightarrow> bc_status c = ''True'')"

definition IsBackupInvalid :: "nebula_backup \<Rightarrow> bool" where "IsBackupInvalid = is_backup BackupInvalid"
definition IsBackupComplete :: "nebula_backup \<Rightarrow> bool" where "IsBackupComplete = is_backup BackupComplete"
definition IsBackupFailed :: "nebula_backup \<Rightarrow> bool" where "IsBackupFailed = is_backup BackupFailed"
definition IsBackupClean :: "nebula_backup \<Rightarrow> bool" where "IsBackupClean = is_backup BackupClean"

text \<open>The condition is given the time \<open>t\<close>; the result says whether anything changed.\<close>

definition UpdateNebulaBackupCondition ::
    "int \<Rightarrow> backup_condition option \<Rightarrow> backup_status \<Rightarrow> backup_status \<times> bool" where
  "UpdateNebulaBackupCondition t condition st =
     (case condition of
        None \<Rightarrow> (st, False)
      | Some c0 \<Rightarrow>
          let c = c0\<lparr>bc_transition_time := t\<rparr>
          in case getBackupCondition st (bc_type c) of
               None \<Rightarrow> (st\<lparr>bt_conditions := bt_conditions st @ [c]\<rparr>, True)
             | Some (i, old) \<Rightarrow>
                 let c = (if bc_status c = bc_status old then c\<lparr>bc_transition_time := bc_transition_time old\<rparr> else c);
                     isUpdate = (bc_status c = bc_status old \<and> bc_reason c = bc_reason old
                       \<and> bc_message c = bc_message old \<and> bc_transition_time c = bc_transition_time old)
                 in (st\<lparr>bt_conditions := (bt_conditions st)[i := c]\<rparr>, \<not> isUpdate))"

section \<open>The client of backups (nebulabackup.go)\<close>

record backup_update =
  bu_type :: backup_type
  bu_name :: "string option"
  bu_started :: "int option"
  bu_completed :: "int option"
  bu_condition :: backup_condition_type

definition updateBackupStatus :: "backup_update option \<Rightarrow> backup_status \<Rightarrow> backup_status \<times> bool" where
  "updateBackupStatus newStatus st =
     (case newStatus of
        None \<Rightarrow> (st, False)
      | Some n \<Rightarrow>
          (st\<lparr>bt_type := (if bu_type n \<noteq> NoBackupType then bu_type n else bt_type st),
              bt_name := (case bu_name n of Some x \<Rightarrow> x | None \<Rightarrow> bt_name st),
              bt_started := (case bu_started n of Some x \<Rightarrow> Some x | None \<Rightarrow> bt_started st),
              bt_completed := (case bu_completed n of Some x \<Rightarrow> Some x | None \<Rightarrow> bt_completed st),
              bt_phase := bu_condition n\<rparr>,
           bu_type n \<noteq> NoBackupType \<or> bu_name n \<noteq> None \<or> bu_started n \<noteq> None \<or> bu_completed n \<noteq> None
             \<or> bt_phase st \<noteq> bu_condition n))"

abbreviation bk_ns :: "nebula_backup \<Rightarrow> string" where "bk_ns b \<equiv> om_namespace (bk_meta b)"
abbreviation bk_name :: "nebula_backup \<Rightarrow> string" where "bk_name b \<equiv> om_name (bk_meta b)"

definition GetNebulaBackup :: "env \<Rightarrow> string \<Rightarrow> string \<Rightarrow> nebula_backup io" where
  "GetNebulaBackup e ns name = send (b_backup (e_bk e)) (BackupCall (GetBackupC ns name))"

definition CreateNebulaBackup :: "env \<Rightarrow> nebula_backup \<Rightarrow> unit io" where
  "CreateNebulaBackup e b =
     send (e_done e) (BackupCall (CreateBackupC b)) \<bind>
       handle (\<lambda>x. case x of ErrAlreadyExists _ \<Rightarrow> ret () | _ \<Rightarrow> throw x) ret"

definition ListNebulaBackups :: "env \<Rightarrow> string \<Rightarrow> strmap \<Rightarrow> nebula_backup list io" where
  "ListNebulaBackups e ns selector = send (b_backups (e_bk e)) (BackupCall (ListBackupsC ns selector))"

text \<open>The reading of the clock is part of \<open>metav1.Now()\<close> and happens only when there is a condition to set.\<close>

definition update_status_once ::
    "env \<Rightarrow> string \<Rightarrow> string \<Rightarrow> backup_condition option \<Rightarrow> backup_update option \<Rightarrow> unit io" where
  "update_status_once e ns name condition newStatus =
     GetNebulaBackup e ns name \<bind> ok (\<lambda>live.
       (if condition = None then ret 0 else now e) \<bind> ok (\<lambda>t.
         let (st1, u1) = updateBackupStatus newStatus (bk_status live);
             (st2, u2) = UpdateNebulaBackupCondition t condition st1
         in if u1 \<or> u2 then send (e_done e) (BackupCall (UpdateBackupStatusC (live\<lparr>bk_status := st2\<rparr>))) else ret ()))"

definition UpdateNebulaBackupStatus ::
    "env \<Rightarrow> nebula_backup \<Rightarrow> backup_condition option \<Rightarrow> backup_update option \<Rightarrow> unit io" where
  "UpdateNebulaBackupStatus e b condition newStatus =
     OnError (update_status_once e (bk_ns b) (bk_name b) condition newStatus)"

definition DeleteNebulaBackup :: "env \<Rightarrow> string \<Rightarrow> string \<Rightarrow> unit io" where
  "DeleteNebulaBackup e ns name =
     GetNebulaBackup e ns name \<bind>
       handle (\<lambda>x. if x = ErrNotFound then ret () else throw x)
         (\<lambda>b. send (e_done e) (BackupCall (DeleteBackupC b)))"


text \<open>
  \<open>UpdateNebulaBackup\<close> compares a pointer to the specification with a specification, which
  \<open>reflect.DeepEqual\<close> never calls equal: the backup is always written.
\<close>

definition UpdateNebulaBackup :: "env \<Rightarrow> nebula_backup \<Rightarrow> unit io" where
  "UpdateNebulaBackup e b =
     retry_on_conflict (e_steps e)
       (GetNebulaBackup e (bk_ns b) (bk_name b) \<bind> ok (\<lambda>live.
          send (e_done e) (BackupCall (UpdateBackupC
            (live\<lparr>bk_spec := bk_spec b,
                  bk_meta := (bk_meta live)\<lparr>om_labels := om_labels (bk_meta b), om_annotations := om_annotations (bk_meta b)\<rparr>\<rparr>)))))"

section \<open>Helpers of the manager (nebula_backup_manager.go, nebulabackup.go)\<close>

definition CleanBackupData :: "nebula_backup \<Rightarrow> bool" where
  "CleanBackupData b = deref_or False (bs_clean (bk_spec b))"

definition backup_GenerateOwnerReferences :: "nebula_backup \<Rightarrow> owner_reference list" where
  "backup_GenerateOwnerReferences b =
     [\<lparr>or_api_version = bk_api_version b, or_kind = bk_kind b, or_name = bk_name b,
       or_uid = om_uid (bk_meta b), or_controller = True, or_block_deletion = True\<rparr>]"

definition getBackupType :: "string option \<Rightarrow> backup_type" where
  "getBackupType base = (if base \<noteq> None then BackupTypeIncr else BackupTypeFull)"

definition backup_type_String :: "backup_type \<Rightarrow> string" where
  "backup_type_String t = (case t of NoBackupType \<Rightarrow> '''' | BackupTypeFull \<Rightarrow> ''full'' | BackupTypeIncr \<Rightarrow> ''incr'')"

definition getCleanJobName :: "string \<Rightarrow> string" where
  "getCleanJobName backupName = ''clean-'' @ backupName"

definition getBackupJobName :: "string \<Rightarrow> string \<Rightarrow> string" where
  "getBackupJobName backupName backupType = ''backup-'' @ backupType @ ''-'' @ backupName"

text \<open>A missing configuration is a nil pointer that the code follows.\<close>

definition with_config :: "nebula_backup \<Rightarrow> (backup_config \<Rightarrow> 'a io) \<Rightarrow> 'a io" where
  "with_config b k = (case bs_config (bk_spec b) of None \<Rightarrow> panic | Some c \<Rightarrow> k c)"

abbreviation backup_job :: "nebula_backup \<Rightarrow> backup_config \<Rightarrow> string" where
  "backup_job b c \<equiv> getBackupJobName (bk_name b) (backup_type_String (getBackupType (bg_base c)))"

definition getClusterNamespace :: "nebula_backup \<Rightarrow> backup_config \<Rightarrow> string" where
  "getClusterNamespace b c = (case bg_cluster_namespace c of None \<Rightarrow> bk_ns b | Some ns \<Rightarrow> ns)"

definition isJobFinished :: "job \<Rightarrow> bool" where
  "isJobFinished j \<longleftrightarrow>
     list_ex (\<lambda>(t, s, _). (t = ''Complete'' \<or> t = ''Failed'') \<and> s = ''True'') (jb_conditions j)"

definition isJobComplete :: "job \<Rightarrow> bool" where
  "isJobComplete j \<longleftrightarrow> list_ex (\<lambda>(t, s, _). t = ''Complete'' \<and> s = ''True'') (jb_conditions j)"

definition getContainerTerminateReason :: "pod \<Rightarrow> string \<Rightarrow> string" where
  "getContainerTerminateReason p name = map_val (pd_terminated p) name"

text \<open>
  The name of a backup in a line of the log: \<open>BACKUP\<close> and six numbers, each behind an underscore. The
  regular expression begins with \<open>.*\<close>, so the last place where a name can begin is taken.
\<close>

fun numbers :: "nat \<Rightarrow> string \<Rightarrow> string option" where
  "numbers 0 s = Some ''''"
| "numbers (Suc n) s =
     (case s of
        [] \<Rightarrow> None
      | c # s \<Rightarrow>
          if c \<noteq> CHR ''_'' \<or> takeWhile is_digit s = [] then None
          else map_option (\<lambda>r. c # takeWhile is_digit s @ r) (numbers n (dropWhile is_digit s)))"

definition name_here :: "string \<Rightarrow> string option" where
  "name_here s =
     (if take 6 s = ''BACKUP'' then map_option (\<lambda>r. ''BACKUP'' @ r) (numbers 6 (drop 6 s)) else None)"

fun name_in_line :: "string \<Rightarrow> string option" where
  "name_in_line [] = None"
| "name_in_line (c # s) = (case name_in_line s of Some n \<Rightarrow> Some n | None \<Rightarrow> name_here (c # s))"

fun lines_of :: "string \<Rightarrow> string \<Rightarrow> string list" where
  "lines_of cur [] = [cur]"
| "lines_of cur (c # s) = (if c = CHR 0x0A then cur # lines_of '''' s else lines_of (cur @ [c]) s)"

fun first_name :: "string list \<Rightarrow> string" where
  "first_name [] = ''''"
| "first_name (l # ls) =
     (if l = '''' \<or> take 1 l = ''+'' then first_name ls
      else case name_in_line l of Some n \<Rightarrow> n | None \<Rightarrow> first_name ls)"

definition findMatchedBackupName :: "string \<Rightarrow> string" where
  "findMatchedBackupName logs = first_name (lines_of '''' logs)"

section \<open>Jobs of a backup\<close>

definition getSslFlags :: "nebula_cluster \<Rightarrow> string" where
  "getSslFlags nc =
     (if IsMetadSSLEnabled nc \<or> IsClusterSSLEnabled nc then '' --enable-ssl'' else '''')
     @ (if InsecureSkipVerify nc then '' --insecure-skip-verify'' else '''')
     @ (if SslServerName nc \<noteq> '''' then '' --server-name='' @ SslServerName nc else '''')"

abbreviation quoted :: "string \<Rightarrow> string" where "quoted s \<equiv> CHR 0x27 # s @ [CHR 0x27]"

definition getStorageFlags :: "env \<Rightarrow> string \<Rightarrow> storage_provider \<Rightarrow> string io" where
  "getStorageFlags e ns p =
     (case (sp_s3 p, sp_gs p) of
        (Some s, _) \<Rightarrow>
          GetS3Key e ns (s3_secret s) \<bind> handle (\<lambda>_. throw (ErrPlain ''get S3 key failed'')) (\<lambda>(accessKey, secretKey).
            ret ('' --storage s3://'' @ s3_bucket s @ '' --s3.region '' @ s3_region s @ '' --s3.endpoint '' @ s3_endpoint s
                 @ '' --s3.access_key '' @ accessKey @ '' --s3.secret_key '' @ secretKey))
      | (None, Some g) \<Rightarrow>
          GetGsCredentials e ns (gp_secret g) \<bind> handle (\<lambda>_. throw (ErrPlain ''get GS credentials failed'')) (\<lambda>c.
            ret ('' --storage gs://'' @ gp_bucket g @ '' --gs.credentials '' @ quoted c))
      | (None, None) \<Rightarrow> throw (ErrPlain ''unknown storage type''))"

definition buildBackupJob ::
    "env \<Rightarrow> nebula_backup \<Rightarrow> nebula_cluster \<Rightarrow> string \<Rightarrow> string list \<Rightarrow> strmap \<Rightarrow> job" where
  "buildBackupJob e b nc jobName cmd labels =
     (let sp = bk_spec b;
          mountCertSecret = ((IsMetadSSLEnabled nc \<or> IsClusterSSLEnabled nc) \<and> \<not> EnableLocalCerts (e_getenv e));
          container = (base_container ''ng-backup'' (bs_image sp @ '':'' @ bs_version sp) cmd)
            \<lparr>ct_pull_policy := bs_pull_policy sp, ct_env := bs_env sp, ct_resources := bs_resources sp,
             ct_mounts := bs_mounts sp @ (if mountCertSecret then getClientCertVolumeMounts else [])\<rparr>;
          spec = empty_pod_spec
            \<lparr>po_account := ''nebula-sa'', po_init := bs_init_containers sp,
             po_containers := mergeSidecarContainers [container] (bs_sidecars sp),
             po_tolerations := bs_tolerations sp, po_pull_secrets := bs_pull_secrets sp, po_affinity := bs_affinity sp,
             po_volumes := bs_volumes sp @ (if mountCertSecret then getClientCertVolumes (sp_ssl (nc_spec nc)) else [])\<rparr>
      in \<lparr>jb_meta = (plain_meta (bk_ns b) jobName)\<lparr>om_labels := labels, om_annotations := om_annotations (bk_meta b),
                      om_owners := backup_GenerateOwnerReferences b\<rparr>,
          jb_parallelism = Some 1, jb_completions = Some 1, jb_backoff = Some 0,
          jb_template = \<lparr>jt_labels = labels, jt_annotations = om_annotations (bk_meta b), jt_restart = ''Never'', jt_pod = spec\<rparr>,
          jb_conditions = []\<rparr>)"

definition label_Backup :: "string \<Rightarrow> strmap \<Rightarrow> strmap" where
  "label_Backup val l = AList.update ''apps.nebula-graph.io/backup'' val l"

definition job_labels :: "nebula_backup \<Rightarrow> string \<Rightarrow> strmap" where
  "job_labels b typ = label_Component typ (label_Backup (bk_name b) label_New)"

text \<open>The job runs \<open>flags\<close> with those of the storage and of SSL behind; the first metad is named.\<close>

definition run_job ::
    "env \<Rightarrow> nebula_backup \<Rightarrow> nebula_cluster \<Rightarrow> backup_config \<Rightarrow> string \<Rightarrow> (string \<Rightarrow> string) \<Rightarrow> strmap \<Rightarrow> unit io" where
  "run_job e b nc c jobName flags labels =
     (case comp_GetEndpoints (e_getenv e) MetadComponentType nc ''thrift'' of
        [] \<Rightarrow> panic
      | endpoint # _ \<Rightarrow>
          getStorageFlags e (bk_ns b) (bg_provider c) \<bind> ok (\<lambda>storageFlags.
          CreateJob e (buildBackupJob e b nc jobName
            [''/bin/sh'', ''-ecx'', flags endpoint @ storageFlags @ getSslFlags nc]
            (MergeStringMaps True [labels, om_labels (bk_meta b)]))))"

definition runBackupJob :: "env \<Rightarrow> nebula_backup \<Rightarrow> nebula_cluster \<Rightarrow> backup_config \<Rightarrow> unit io" where
  "runBackupJob e b nc c =
     run_job e b nc c (backup_job b c)
       (\<lambda>endpoint. ''exec /usr/local/bin/br-ent backup '' @ backup_type_String (getBackupType (bg_base c)) @ '' --meta ''
          @ endpoint @ '' --concurrency '' @ show_int (bg_concurrency c)
          @ (case bg_base c of None \<Rightarrow> '''' | Some base \<Rightarrow> '' --base '' @ base))
       (job_labels b ''backup'')"

definition runCleanJob :: "env \<Rightarrow> nebula_backup \<Rightarrow> nebula_cluster \<Rightarrow> backup_config \<Rightarrow> unit io" where
  "runCleanJob e b nc c =
     run_job e b nc c (getCleanJobName (bk_name b))
       (\<lambda>endpoint. ''exec /usr/local/bin/br-ent cleanup --name '' @ bt_name (bk_status b) @ '' --meta '' @ endpoint)
       (job_labels b ''clean'')"

text \<open>A failure of the pods or of the job: its reason and what it came from.\<close>

definition isPodOrJobFailure :: "env \<Rightarrow> string \<Rightarrow> string \<Rightarrow> strmap \<Rightarrow> (string \<times> string) option io" where
  "isPodOrJobFailure e ns jobName labels =
     ListPods e ns labels \<bind> handle (\<lambda>x. if x = ErrNotFound then ret [] else throw x) (\<lambda>pods. ret pods) \<bind> ok (\<lambda>pods.
     case List.find (\<lambda>p. pd_phase p = ''Failed'') pods of
       Some p \<Rightarrow> ret (Some (''PodFailed'', getContainerTerminateReason p ''ng-backup''))
     | None \<Rightarrow>
         GetJob e ns jobName \<bind> handle (\<lambda>x. if x = ErrNotFound then ret None else throw x)
           (\<lambda>j. ret (case List.find (\<lambda>(t, s, _). t = ''Failed'' \<and> s = ''True'') (jb_conditions j) of
                      None \<Rightarrow> None | Some (_, _, reason) \<Rightarrow> Some (''JobFailed'', reason))))"

definition detectBackupJobFailure :: "env \<Rightarrow> nebula_backup \<Rightarrow> backup_config \<Rightarrow> (string \<times> string) option io" where
  "detectBackupJobFailure e b c = isPodOrJobFailure e (bk_ns b) (backup_job b c) (job_labels b ''backup'')"

definition detectCleanJobFailure :: "env \<Rightarrow> nebula_backup \<Rightarrow> (string \<times> string) option io" where
  "detectCleanJobFailure e b = isPodOrJobFailure e (bk_ns b) (getCleanJobName (bk_name b)) (job_labels b ''clean'')"


section \<open>The manager (nebula_backup_manager.go)\<close>

definition new_condition :: "backup_condition_type \<Rightarrow> string \<Rightarrow> string \<Rightarrow> string \<Rightarrow> backup_condition" where
  "new_condition t status reason message =
     \<lparr>bc_type = t, bc_status = status, bc_update_time = zero_time, bc_transition_time = zero_time,
      bc_reason = reason, bc_message = message\<rparr>"

definition no_update :: backup_update where
  "no_update = \<lparr>bu_type = NoBackupType, bu_name = None, bu_started = None, bu_completed = None, bu_condition = NoBackupCondition\<rparr>"

text \<open>The cluster of a backup, which must be ready before a job is run against it.\<close>

definition ready_cluster :: "env \<Rightarrow> nebula_backup \<Rightarrow> backup_config \<Rightarrow> nebula_cluster io" where
  "ready_cluster e b c =
     GetNebulaCluster e (getClusterNamespace b c) (bg_cluster_name c) \<bind> ok (\<lambda>nc.
       if \<not> cluster_IsReady nc then throw (ErrReconcile ''cluster is not ready'') else ret nc)"

definition start_backup :: "env \<Rightarrow> nebula_backup \<Rightarrow> backup_config \<Rightarrow> unit io" where
  "start_backup e b c =
     ready_cluster e b c \<bind> ok (\<lambda>nc.
     runBackupJob e b nc c \<bind> ok (\<lambda>_.
     now e \<bind> ok (\<lambda>t.
     UpdateNebulaBackupStatus e b (Some (new_condition BackupRunning ''True'' '''' ''''))
       (Some (no_update\<lparr>bu_type := getBackupType (bg_base c), bu_started := Some t, bu_condition := BackupRunning\<rparr>)) \<bind> ok (\<lambda>_.
     throw (ErrReconcile ''backup job is running'')))))"

text \<open>The name of the backup is read from the log of the job, once.\<close>

definition record_name :: "env \<Rightarrow> nebula_backup \<Rightarrow> string \<Rightarrow> unit io" where
  "record_name e b jobName =
     (if bt_name (bk_status b) \<noteq> '''' then ret ()
      else GetPodLog e (bk_ns b) jobName ''ng-backup'' \<bind>
             handle (\<lambda>x. if x = ErrInitializedNotReady \<or> x = ErrContainerCreating
                         then throw (ErrReconcile ''waiting for backup container running'') else throw x)
               (\<lambda>logs. let backupName = findMatchedBackupName logs
                       in if backupName = '''' then ret ()
                          else UpdateNebulaBackupStatus e b None (Some (no_update\<lparr>bu_name := Some backupName\<rparr>))))"

definition judge_job :: "(string \<times> string) option \<Rightarrow> string \<Rightarrow> ('s, unit) go" where
  "judge_job failure waiting =
     (case failure of
        Some (reason, original) \<Rightarrow> throw (ErrPlain (''detect failure, reason: '' @ reason @ '', original reason: '' @ original))
      | None \<Rightarrow> throw (ErrReconcile waiting))"

definition follow_backup :: "env \<Rightarrow> nebula_backup \<Rightarrow> backup_config \<Rightarrow> job \<Rightarrow> unit io" where
  "follow_backup e b c j =
     (let go_on = detectBackupJobFailure e b c \<bind> ok (\<lambda>f. judge_job f ''waiting for backup job to finish'')
      in record_name e b (backup_job b c) \<bind> ok (\<lambda>_.
         if isJobComplete j
         then now e \<bind> ok (\<lambda>t.
              UpdateNebulaBackupStatus e b (Some (new_condition BackupComplete ''True'' '''' ''''))
                (Some (no_update\<lparr>bu_completed := Some t, bu_condition := BackupComplete\<rparr>)) \<bind> ok (\<lambda>_.
              if deref_or False (bs_auto_remove (bk_spec b)) then DeleteJob e (bk_ns b) (backup_job b c) else go_on))
         else go_on))"

definition syncBackupJob :: "env \<Rightarrow> nebula_backup \<Rightarrow> unit io" where
  "syncBackupJob e b =
     with_config b (\<lambda>c.
       GetJob e (bk_ns b) (backup_job b c) \<bind>
         handle (\<lambda>x. if x = ErrNotFound then start_backup e b c else throw x) (follow_backup e b c))"

definition backup_Sync :: "env \<Rightarrow> nebula_backup \<Rightarrow> unit io" where
  "backup_Sync e b = syncBackupJob e b"

text \<open>
  An error of the server other than a missing job leaves a nil job behind, which the code follows.
\<close>

definition ensureBackupJobFinished :: "env \<Rightarrow> nebula_backup \<Rightarrow> bool io" where
  "ensureBackupJobFinished e b =
     with_config b (\<lambda>c.
       GetJob e (bk_ns b) (backup_job b c) \<bind>
         handle (\<lambda>x. if x = ErrNotFound then ret True else panic)
           (\<lambda>j. if om_deletion (jb_meta j) \<noteq> None then ret False
                else if isJobFinished j then ret True
                else if bt_name (bk_status b) = '''' then ret False
                else DeleteJob e (bk_ns b) (backup_job b c) \<bind> ok (\<lambda>_. ret True)))"

definition set_clean :: "env \<Rightarrow> nebula_backup \<Rightarrow> string \<Rightarrow> unit io" where
  "set_clean e b status = UpdateNebulaBackupStatus e b (Some (new_condition BackupClean status '''' '''')) None"

definition start_clean :: "env \<Rightarrow> nebula_backup \<Rightarrow> backup_config \<Rightarrow> unit io" where
  "start_clean e b c =
     ready_cluster e b c \<bind> ok (\<lambda>nc.
     runCleanJob e b nc c \<bind> ok (\<lambda>_.
     set_clean e b ''False'' \<bind> ok (\<lambda>_.
     throw (ErrReconcile ''backup clean job is running''))))"

definition backup_Clean :: "env \<Rightarrow> nebula_backup \<Rightarrow> unit io" where
  "backup_Clean e b =
     (if \<not> CleanBackupData b then ret ()
      else (ensureBackupJobFinished e b \<bind>
              handle (\<lambda>_. throw (ErrPlain ''ensure backup job finished failed'')) ret) \<bind> ok (\<lambda>finished.
           if \<not> finished then throw (ErrReconcile ''waiting for backup job to finish'')
           else if bt_name (bk_status b) = '''' then set_clean e b ''True''
           else with_config b (\<lambda>c.
                  GetJob e (bk_ns b) (getCleanJobName (bk_name b)) \<bind>
                    handle (\<lambda>x. if x = ErrNotFound then start_clean e b c else throw x)
                      (\<lambda>j. if isJobComplete j then set_clean e b ''True''
                           else detectCleanJobFailure e b \<bind> ok (\<lambda>f. judge_job f ''waiting for backup clean job to finish'')))))"

section \<open>The control (nebula_backup_control.go) and the reconciler\<close>

abbreviation backup_finalizer :: string where
  "backup_finalizer \<equiv> ''apps.nebula-graph.io/backup-cleanup''"

abbreviation bk_finalizers :: "nebula_backup \<Rightarrow> string list" where "bk_finalizers b \<equiv> om_finalizers (bk_meta b)"

definition bk_set_finalizers :: "string list \<Rightarrow> nebula_backup \<Rightarrow> nebula_backup" where
  "bk_set_finalizers fs b = b\<lparr>bk_meta := (bk_meta b)\<lparr>om_finalizers := fs\<rparr>\<rparr>"

definition UpdateBackupFinalizer :: "env \<Rightarrow> nebula_backup \<Rightarrow> finalizer_op \<Rightarrow> unit io" where
  "UpdateBackupFinalizer e b op =
     retry_on_conflict 5
       (GetNebulaBackup e (bk_ns b) (bk_name b) \<bind> ok (\<lambda>live.
          case new_finalizers op backup_finalizer (bk_finalizers live) of
            None \<Rightarrow> ret ()
          | Some fs \<Rightarrow> send (e_done e) (BackupCall (UpdateBackupC (bk_set_finalizers fs live)))))"

definition needToAddFinalizer :: "nebula_backup \<Rightarrow> bool" where
  "needToAddFinalizer b \<longleftrightarrow> CleanBackupData b \<and> backup_finalizer \<notin> set (bk_finalizers b)"

definition needToRemoveFinalizer :: "nebula_backup \<Rightarrow> bool" where
  "needToRemoveFinalizer b \<longleftrightarrow> CleanBackupData b \<and> backup_finalizer \<in> set (bk_finalizers b) \<and> IsBackupClean b"

definition addFinalizer :: "env \<Rightarrow> nebula_backup \<Rightarrow> unit io" where
  "addFinalizer e b =
     (if \<not> CleanBackupData b \<and> backup_finalizer \<in> set (bk_finalizers b) then UpdateBackupFinalizer e b RemoveFinalizerOpType
      else if needToAddFinalizer b
      then UpdateBackupFinalizer e b AddFinalizerOpType \<bind> handle (\<lambda>_. throw (ErrPlain ''add backup finalizer failed'')) ret
      else ret ())"

definition removeFinalizer :: "env \<Rightarrow> nebula_backup \<Rightarrow> unit io" where
  "removeFinalizer e b =
     (if needToRemoveFinalizer b
      then UpdateBackupFinalizer e b RemoveFinalizerOpType \<bind> handle (\<lambda>_. throw (ErrPlain ''remove backup finalizer failed'')) ret
      else ret ())"

text \<open>
  An error that is no request to come back marks the backup as failed; the job is removed when that is asked for.
  Neither of the two steps can fail the reconciliation.
\<close>

definition is_reconcile :: "go_err \<Rightarrow> bool" where
  "is_reconcile x \<longleftrightarrow> (case x of ErrReconcile _ \<Rightarrow> True | _ \<Rightarrow> False)"

definition ignored :: "'a io \<Rightarrow> unit io" where
  "ignored m = m \<bind> handle (\<lambda>_. ret ()) (\<lambda>_. ret ())"

definition fail_backup :: "env \<Rightarrow> nebula_backup \<Rightarrow> string \<Rightarrow> unit io \<Rightarrow> go_err \<Rightarrow> unit io" where
  "fail_backup e b reason remove x =
     (if is_reconcile x then throw x
      else ignored (UpdateNebulaBackupStatus e b (Some (new_condition BackupFailed ''True'' reason (e_error_text e x)))
             (Some (no_update\<lparr>bu_condition := BackupFailed\<rparr>))) \<bind> ok (\<lambda>_.
           if deref_or False (bs_auto_remove (bk_spec b)) then ignored remove else ret ()))"

definition control_UpdateNebulaBackup :: "env \<Rightarrow> nebula_backup \<Rightarrow> unit io" where
  "control_UpdateNebulaBackup e b =
     (if om_deletion (bk_meta b) \<noteq> None
      then backup_Clean e b \<bind>
             handle (fail_backup e b ''CleanFailed'' (DeleteJob e (bk_ns b) (getCleanJobName (bk_name b))))
               (\<lambda>_. removeFinalizer e b)
      else addFinalizer e b \<bind> ok (\<lambda>_.
           if IsBackupInvalid b \<or> IsBackupComplete b \<or> IsBackupFailed b then ret ()
           else backup_Sync e b \<bind>
                  handle (fail_backup e b ''BackupFailed'' (with_config b (\<lambda>c. DeleteJob e (bk_ns b) (backup_job b c)))) ret))"

abbreviation backup_reconcile_timeout :: int where "backup_reconcile_timeout \<equiv> 10000000000"
abbreviation backup_default_timeout :: int where "backup_default_timeout \<equiv> 5000000000"

definition backup_Reconcile :: "env \<Rightarrow> string \<Rightarrow> string \<Rightarrow> int option io" where
  "backup_Reconcile e ns name =
     GetNebulaBackup e ns name \<bind>
       handle (\<lambda>x. if x = ErrNotFound then ret None else throw x)
         (\<lambda>b. control_UpdateNebulaBackup e b \<bind>
            handle (\<lambda>x. ret (Some (if is_reconcile x then backup_reconcile_timeout else backup_default_timeout)))
              (\<lambda>_. ret None))"


section \<open>What a run may do to jobs, conditions and finalizers\<close>

lemma guards_retry_on_error:
  assumes "\<And>g. guarded P h0 g \<Longrightarrow> grows h g \<Longrightarrow> guards P h0 (\<lambda>_ _. True) m g" "guarded P h0 h"
  shows "guards P h0 (\<lambda>_ _. True) (retry_on_error n m) h"
  unfolding guards_def
proof (rule wp_retry_on_error [where I = "\<lambda>g. guarded P h0 g \<and> grows h g"])
  fix g assume g: "guarded P h0 g \<and> grows h g"
  then have "wp m (\<lambda>r h'. guarded P h0 h' \<and> grows g h' \<and> True) g" using assms(1) unfolding guards_def by blast
  then show "wp m (\<lambda>r h'. (guarded P h0 h' \<and> grows h h' \<and> True)
      \<and> (\<forall>x. r = Err x \<longrightarrow> guarded P h0 h' \<and> grows h h')) g"
    by (rule wp_mono) (use g grows_trans in blast)
qed (use assms in auto)

text \<open>
  The job of the backup is over: the server did not know it, or it was finished, or it was deleted in
  this run. The data is cleaned: no name of a backup was ever recorded, or the clean job was seen complete.
\<close>

definition backup_over :: "env \<Rightarrow> nebula_backup \<Rightarrow> call list \<Rightarrow> call list \<Rightarrow> bool" where
  "backup_over e b h0 h \<longleftrightarrow> (\<exists>c r. bs_config (bk_spec b) = Some c
     \<and> asked (b_job (e_bk e)) (BackupCall (GetJobC (bk_ns b) (backup_job b c))) r h0 h
     \<and> (r = Err ErrNotFound \<or> (\<exists>j. r = Ok j \<and> om_deletion (jb_meta j) = None
          \<and> (isJobFinished j \<or> (\<exists>j'. asked (e_done e) (BackupCall (DeleteJobC j')) (Ok ()) h0 h)))))"

definition data_cleaned :: "env \<Rightarrow> nebula_backup \<Rightarrow> call list \<Rightarrow> call list \<Rightarrow> bool" where
  "data_cleaned e b h0 h \<longleftrightarrow> om_deletion (bk_meta b) \<noteq> None \<and> CleanBackupData b \<and> backup_over e b h0 h
     \<and> (bt_name (bk_status b) = '''' \<or> (\<exists>j. isJobComplete j
          \<and> asked (b_job (e_bk e)) (BackupCall (GetJobC (bk_ns b) (getCleanJobName (bk_name b)))) (Ok j) h0 h))"

definition may_create_job :: "env \<Rightarrow> nebula_backup \<Rightarrow> call list \<Rightarrow> string \<Rightarrow> call list \<Rightarrow> bool" where
  "may_create_job e b h0 name h \<longleftrightarrow> (\<exists>c nc. bs_config (bk_spec b) = Some c
     \<and> asked (e_cluster e) (GetCluster (getClusterNamespace b c) (bg_cluster_name c)) (Ok nc) h0 h \<and> cluster_IsReady nc
     \<and> asked (b_job (e_bk e)) (BackupCall (GetJobC (bk_ns b) name)) (Err ErrNotFound) h0 h
     \<and> (if om_deletion (bk_meta b) = None
        then name = backup_job b c \<and> \<not> IsBackupComplete b \<and> \<not> IsBackupFailed b \<and> \<not> IsBackupInvalid b
        else name = getCleanJobName (bk_name b) \<and> CleanBackupData b \<and> bt_name (bk_status b) \<noteq> ''''
             \<and> backup_over e b h0 h))"

definition backup_rule :: "env \<Rightarrow> nebula_backup \<Rightarrow> call list \<Rightarrow> call \<Rightarrow> call list \<Rightarrow> bool" where
  "backup_rule e b h0 c h \<longleftrightarrow>
     (case c of
        BackupCall (CreateJobC j) \<Rightarrow> may_create_job e b h0 (om_name (jb_meta j)) h
      | BackupCall (UpdateBackupC b') \<Rightarrow>
          backup_finalizer \<notin> set (bk_finalizers b') \<longrightarrow> \<not> CleanBackupData b \<or> om_deletion (bk_meta b) \<noteq> None \<and> IsBackupClean b
      | BackupCall (UpdateBackupStatusC b') \<Rightarrow>
          IsBackupClean b' \<longrightarrow> data_cleaned e b h0 h \<or> (\<exists>live. IsBackupClean live
            \<and> asked (b_backup (e_bk e)) (BackupCall (GetBackupC (bk_ns b) (bk_name b))) (Ok live) h0 h)
      | _ \<Rightarrow> True)"

fun plain_call :: "call \<Rightarrow> bool" where
  "plain_call (BackupCall c) = (case c of CreateJobC _ \<Rightarrow> False | UpdateBackupC _ \<Rightarrow> False | UpdateBackupStatusC _ \<Rightarrow> False | _ \<Rightarrow> True)"
| "plain_call _ = True"

lemma plain_rule: "plain_call c \<Longrightarrow> backup_rule e b h0 c h"
  by (cases c rule: plain_call.cases) (auto simp: backup_rule_def split: backup_call.splits)

lemma backup_over_grows: "backup_over e b h0 h \<Longrightarrow> grows h h' \<Longrightarrow> backup_over e b h0 h'"
  unfolding backup_over_def by (blast intro: asked_grows)

lemma data_cleaned_grows: "data_cleaned e b h0 h \<Longrightarrow> grows h h' \<Longrightarrow> data_cleaned e b h0 h'"
  unfolding data_cleaned_def by (blast intro: asked_grows backup_over_grows)

text \<open>Setting one condition leaves the others; an update of the other fields leaves them all.\<close>

lemma updateBackupStatus_conditions [simp]: "bt_conditions (fst (updateBackupStatus u st)) = bt_conditions st"
  by (simp add: updateBackupStatus_def split: option.splits)


lemma find_enumerate: "map_option snd (List.find (\<lambda>(i, c). P c) (enumerate n xs)) = List.find P xs"
  by (induction xs arbitrary: n) auto

lemma find_enumerate_SomeD:
  "List.find (\<lambda>(i, c). P c) (enumerate n xs) = Some (i, c) \<Longrightarrow>
   n \<le> i \<and> i - n < length xs \<and> xs ! (i - n) = c \<and> P c \<and> (\<forall>j < i - n. \<not> P (xs ! j))"
proof (induction xs arbitrary: n)
  case (Cons x xs)
  show ?case
  proof (cases "P x")
    case False
    with Cons.prems have "List.find (\<lambda>(i, c). P c) (enumerate (Suc n) xs) = Some (i, c)" by simp
    from Cons.IH [OF this] False show ?thesis by (auto simp: nth_Cons' Suc_diff_le)
  qed (use Cons.prems in auto)
qed simp

lemma find_snoc: "List.find P (xs @ [c]) = (case List.find P xs of None \<Rightarrow> if P c then Some c else None | Some d \<Rightarrow> Some d)"
  by (induction xs) auto

lemma find_update_other: "\<not> P (xs ! i) \<Longrightarrow> \<not> P c \<Longrightarrow> List.find P (xs[i := c]) = List.find P xs"
  by (induction xs arbitrary: i) (auto split: nat.split)

lemma find_update_same: "i < length xs \<Longrightarrow> P c \<Longrightarrow> \<forall>j < i. \<not> P (xs ! j) \<Longrightarrow> List.find P (xs[i := c]) = Some c"
proof (induction xs arbitrary: i)
  case (Cons x xs)
  show ?case
  proof (cases i)
    case (Suc k)
    with Cons.prems have "\<not> P x" "\<forall>j < k. \<not> P (xs ! j)" by auto
    with Suc Cons show ?thesis by simp
  qed (use Cons.prems in simp)
qed simp

definition condition_holds :: "backup_condition_type \<Rightarrow> backup_status \<Rightarrow> bool" where
  "condition_holds t st \<longleftrightarrow> (\<exists>c. List.find (\<lambda>c. bc_type c = t) (bt_conditions st) = Some c \<and> bc_status c = ''True'')"

lemma is_backup_holds: "is_backup t b \<longleftrightarrow> condition_holds t (bk_status b)"
  by (auto simp: is_backup_def getBackupCondition_def condition_holds_def
      find_enumerate [of "\<lambda>c. bc_type c = t" 0, symmetric] split: option.splits)

lemma getBackupCondition_SomeD:
  "getBackupCondition st t = Some (i, c) \<Longrightarrow>
   i < length (bt_conditions st) \<and> bt_conditions st ! i = c \<and> bc_type c = t \<and> (\<forall>j < i. bc_type (bt_conditions st ! j) \<noteq> t)"
  using find_enumerate_SomeD [of "\<lambda>c. bc_type c = t" 0 "bt_conditions st" i c] by (simp add: getBackupCondition_def)

lemma getBackupCondition_NoneD:
  "getBackupCondition st t = None \<Longrightarrow> List.find (\<lambda>c. bc_type c = t) (bt_conditions st) = None"
  using find_enumerate [of "\<lambda>c. bc_type c = t" 0 "bt_conditions st"] by (simp add: getBackupCondition_def)

lemma condition_set_list:
  "\<exists>c'. bc_type c' = bc_type c \<and> bc_status c' = bc_status c \<and>
     bt_conditions (fst (UpdateNebulaBackupCondition t (Some c) st)) =
       (case getBackupCondition st (bc_type c) of
          None \<Rightarrow> bt_conditions st @ [c'] | Some (i, _) \<Rightarrow> (bt_conditions st)[i := c'])"
proof (cases "getBackupCondition st (bc_type c)")
  case None
  then show ?thesis
    by (intro exI [of _ "c\<lparr>bc_transition_time := t\<rparr>"]) (simp add: UpdateNebulaBackupCondition_def)
next
  case (Some p)
  obtain i old where p: "p = (i, old)" by (cases p)
  show ?thesis
    unfolding Some p
    by (intro exI [of _ "if bc_status c = bc_status old then c\<lparr>bc_transition_time := bc_transition_time old\<rparr>
                         else c\<lparr>bc_transition_time := t\<rparr>"])
       (simp add: UpdateNebulaBackupCondition_def Some p Let_def)
qed

lemma condition_set_other:
  assumes "\<And>c. condition = Some c \<Longrightarrow> bc_type c \<noteq> ty"
  shows "condition_holds ty (fst (UpdateNebulaBackupCondition t condition st)) \<longleftrightarrow> condition_holds ty st"
proof (cases condition)
  case (Some c)
  obtain c' where c': "bc_type c' = bc_type c" "bt_conditions (fst (UpdateNebulaBackupCondition t condition st)) =
       (case getBackupCondition st (bc_type c) of
          None \<Rightarrow> bt_conditions st @ [c'] | Some (i, _) \<Rightarrow> (bt_conditions st)[i := c'])"
    using condition_set_list [of c t st] Some by auto
  have ty: "bc_type c \<noteq> ty" using assms Some by simp
  show ?thesis
  proof (cases "getBackupCondition st (bc_type c)")
    case None
    with c' ty show ?thesis by (simp add: condition_holds_def find_snoc split: option.splits)
  next
    case (Some p)
    obtain i old where p: "p = (i, old)" by (cases p)
    from getBackupCondition_SomeD [OF Some [unfolded p]] ty
    have "bc_type (bt_conditions st ! i) \<noteq> ty" by auto
    with c' ty Some p show ?thesis by (simp add: condition_holds_def find_update_other)
  qed
qed (simp add: UpdateNebulaBackupCondition_def)

lemma condition_set_same:
  "condition_holds (bc_type c) (fst (UpdateNebulaBackupCondition t (Some c) st)) \<longleftrightarrow> bc_status c = ''True''"
proof -
  obtain c' where c': "bc_type c' = bc_type c" "bc_status c' = bc_status c"
      "bt_conditions (fst (UpdateNebulaBackupCondition t (Some c) st)) =
       (case getBackupCondition st (bc_type c) of
          None \<Rightarrow> bt_conditions st @ [c'] | Some (i, _) \<Rightarrow> (bt_conditions st)[i := c'])"
    using condition_set_list [of c t st] by blast
  have "List.find (\<lambda>d. bc_type d = bc_type c) (bt_conditions (fst (UpdateNebulaBackupCondition t (Some c) st))) = Some c'"
  proof (cases "getBackupCondition st (bc_type c)")
    case None
    with c' getBackupCondition_NoneD [OF None] show ?thesis by (simp add: find_snoc)
  next
    case (Some p)
    obtain i old where p: "p = (i, old)" by (cases p)
    from getBackupCondition_SomeD [OF Some [unfolded p]] c' Some p show ?thesis by (simp add: find_update_same)
  qed
  with c'(2) show ?thesis by (simp add: condition_holds_def)
qed


lemma written_clean:
  assumes "IsBackupClean (live\<lparr>bk_status := fst (UpdateNebulaBackupCondition t condition (fst (updateBackupStatus u (bk_status live))))\<rparr>)"
  shows "(\<exists>c. condition = Some c \<and> bc_type c = BackupClean \<and> bc_status c = ''True'') \<or> IsBackupClean live"
proof (cases "\<exists>c. condition = Some c \<and> bc_type c = BackupClean")
  case True
  then obtain c where "condition = Some c" "bc_type c = BackupClean" by blast
  with assms condition_set_same [of c] show ?thesis by (simp add: IsBackupClean_def is_backup_holds)
next
  case False
  then have "IsBackupClean live"
    using assms by (simp add: IsBackupClean_def is_backup_holds condition_set_other) (simp add: condition_holds_def)
  then show ?thesis ..
qed

definition earned :: "env \<Rightarrow> nebula_backup \<Rightarrow> call list \<Rightarrow> backup_condition option \<Rightarrow> call list \<Rightarrow> bool" where
  "earned e b h0 condition h \<longleftrightarrow>
     (\<forall>c. condition = Some c \<longrightarrow> bc_type c = BackupClean \<longrightarrow> bc_status c = ''True'' \<longrightarrow> data_cleaned e b h0 h)"

lemma earned_grows: "earned e b h0 c h \<Longrightarrow> grows h h' \<Longrightarrow> earned e b h0 c h'"
  unfolding earned_def by (blast intro: data_cleaned_grows)

lemma earned_other [simp]:
  "earned e b h0 None h" "t \<noteq> BackupClean \<or> s \<noteq> ''True'' \<Longrightarrow> earned e b h0 (Some (new_condition t s x m)) h"
  by (auto simp: earned_def new_condition_def)

lemma status_once_guarded:
  assumes h: "guarded (backup_rule e b h0) h0 h" and "earned e b h0 condition h"
  shows "guards (backup_rule e b h0) h0 (\<lambda>_ _. True) (update_status_once e (bk_ns b) (bk_name b) condition u) h"
  unfolding update_status_once_def GetNebulaBackup_def
proof (rule guards_bind_send [OF h plain_rule], simp)
  fix r h'
  assume h': "guarded (backup_rule e b h0) h0 h'" "grows h h'"
    and r: "asked (b_backup (e_bk e)) (BackupCall (GetBackupC (bk_ns b) (bk_name b))) r h0 h'"
  note earned = earned_grows [OF assms(2) h'(2)]
  show "guards (backup_rule e b h0) h0 (\<lambda>_ _. True) (ok (\<lambda>live. (if condition = None then ret 0 else now e) \<bind> ok (\<lambda>t.
         let (st1, u1) = updateBackupStatus u (bk_status live);
             (st2, u2) = UpdateNebulaBackupCondition t condition st1
         in if u1 \<or> u2 then send (e_done e) (BackupCall (UpdateBackupStatusC (live\<lparr>bk_status := st2\<rparr>))) else ret ())) r) h'"
  proof (rule guards_ok [OF h'(1)])
    fix live
    assume live: "r = Ok live"
    have t: "guards (backup_rule e b h0) h0 (\<lambda>_ _. True) (if condition = None then ret 0 else now e) h'"
      by (intro guards_if guards_return guards_now plain_rule h'(1)) simp_all
    show "guards (backup_rule e b h0) h0 (\<lambda>_ _. True) ((if condition = None then ret 0 else now e) \<bind> ok (\<lambda>t.
         let (st1, u1) = updateBackupStatus u (bk_status live);
             (st2, u2) = UpdateNebulaBackupCondition t condition st1
         in if u1 \<or> u2 then send (e_done e) (BackupCall (UpdateBackupStatusC (live\<lparr>bk_status := st2\<rparr>))) else ret ())) h'"
    proof (rule guards_bind [OF t])
      fix t and g :: "call list"
      assume g: "guarded (backup_rule e b h0) h0 g" "grows h' g"
      have rule: "backup_rule e b h0 (BackupCall (UpdateBackupStatusC (live\<lparr>bk_status :=
          fst (UpdateNebulaBackupCondition t condition (fst (updateBackupStatus u (bk_status live))))\<rparr>))) g" for t
        using written_clean [where live = live and t = t and condition = condition and u = u] earned_grows [OF earned g(2)] asked_grows [OF r [unfolded live] g(2)]
        by (auto simp: backup_rule_def earned_def)
      show "guards (backup_rule e b h0) h0 (\<lambda>_ _. True) (ok (\<lambda>t.
         let (st1, u1) = updateBackupStatus u (bk_status live);
             (st2, u2) = UpdateNebulaBackupCondition t condition st1
         in if u1 \<or> u2 then send (e_done e) (BackupCall (UpdateBackupStatusC (live\<lparr>bk_status := st2\<rparr>))) else ret ()) t) g"
        using g(1) rule by (auto simp: Let_def split_beta intro!: guards_ok guards_return guards_send)
    qed
  qed simp_all
qed

lemma status_guarded:
  assumes "guarded (backup_rule e b h0) h0 h" "earned e b h0 condition h"
  shows "guards (backup_rule e b h0) h0 (\<lambda>_ _. True) (UpdateNebulaBackupStatus e b condition u) h"
  unfolding UpdateNebulaBackupStatus_def
  by (rule guards_retry_on_error) (use assms in \<open>auto intro: status_once_guarded earned_grows\<close>)


lemma plain_guarded:
  assumes "emits plain_call m" "guarded (backup_rule e b h0) h0 h"
  shows "guards (backup_rule e b h0) h0 (\<lambda>_ _. True) m h"
  by (rule guards_emits [OF assms(1) plain_rule assms(2)]) simp_all

lemma emits_list_case: "emits P m \<Longrightarrow> (\<And>x xs. emits P (f x xs)) \<Longrightarrow> emits P (case l of [] \<Rightarrow> m | x # xs \<Rightarrow> f x xs)"
  by (simp split: list.split)

lemma emits_judge: "emits P (judge_job f w)"
  by (auto simp: judge_job_def intro: emits split: option.split)

lemma backup_plain:
  "emits plain_call (GetPodLog e ns jobName container)" "emits plain_call (getStorageFlags e ns p)"
  "emits plain_call (isPodOrJobFailure e ns jobName labels)" "emits plain_call (DeleteJob e ns jobName)"
  "emits plain_call (detectBackupJobFailure e b c)" "emits plain_call (detectCleanJobFailure e b)"
  by (auto simp: GetPodLog_def getStorageFlags_def isPodOrJobFailure_def DeleteJob_def GetS3Key_def GetGsCredentials_def
      GetSecret_def ListPods_def GetJob_def detectBackupJobFailure_def detectCleanJobFailure_def Let_def
      intro!: emits emits_list_case split: option.split)

lemma plain_with_config: "(\<And>c. emits P (k c)) \<Longrightarrow> emits P (with_config b k)"
  by (auto simp: with_config_def intro: emits split: option.split)

lemma guards_with_config:
  assumes "guarded P h0 h" "\<And>c. bs_config (bk_spec b) = Some c \<Longrightarrow> guards P h0 Q (k c) h" "Q Panic h"
  shows "guards P h0 Q (with_config b k) h"
  using assms by (auto simp: with_config_def intro: guards_return split: option.split)

text \<open>Knowing the cluster to be ready.\<close>

abbreviation seen_ready :: "env \<Rightarrow> nebula_backup \<Rightarrow> backup_config \<Rightarrow> call list \<Rightarrow> nebula_cluster outcome \<Rightarrow> call list \<Rightarrow> bool" where
  "seen_ready e b c h0 r h \<equiv> \<forall>nc. r = Ok nc \<longrightarrow>
     asked (e_cluster e) (GetCluster (getClusterNamespace b c) (bg_cluster_name c)) (Ok nc) h0 h \<and> cluster_IsReady nc"

lemma ready_cluster_guarded:
  assumes "guarded (backup_rule e b h0) h0 h"
  shows "guards (backup_rule e b h0) h0 (seen_ready e b c h0) (ready_cluster e b c) h"
  unfolding ready_cluster_def GetNebulaCluster_def
  by (rule guards_bind_send [OF assms plain_rule], simp)
     (auto intro!: guards_ok guards_if guards_return)

lemma run_job_guarded:
  assumes h: "guarded (backup_rule e b h0) h0 h" and may: "\<And>g. grows h g \<Longrightarrow> may_create_job e b h0 jobName g"
  shows "guards (backup_rule e b h0) h0 (\<lambda>_ _. True) (run_job e b nc c jobName flags labels) h"
proof -
  have create: "guards (backup_rule e b h0) h0 (\<lambda>_ _. True)
      (CreateJob e (buildBackupJob e b nc jobName cmd l)) g" if "guarded (backup_rule e b h0) h0 g" "grows h g" for cmd l g
    unfolding CreateJob_def
    by (rule guards_bind_send [OF that(1)])
       (use may [OF that(2)] in \<open>auto simp: backup_rule_def buildBackupJob_def Let_def plain_meta_def
          intro!: guards_handle guards_if guards_return\<close>)
  show ?thesis
    unfolding run_job_def
    by (auto intro!: guards_return h guards_bind [OF plain_guarded [OF backup_plain(2) h]] guards_ok create split: list.split)
qed


lemma judge_guarded: "guarded P h0 h \<Longrightarrow> (\<And>x. Q (Err x) h) \<Longrightarrow> guards P h0 Q (judge_job f w) h"
  by (auto simp: judge_job_def intro: guards_return split: option.split)

abbreviation no_job :: "env \<Rightarrow> nebula_backup \<Rightarrow> string \<Rightarrow> call list \<Rightarrow> call list \<Rightarrow> bool" where
  "no_job e b name h0 h \<equiv> asked (b_job (e_bk e)) (BackupCall (GetJobC (bk_ns b) name)) (Err ErrNotFound) h0 h"

lemma start_backup_guarded:
  assumes h: "guarded (backup_rule e b h0) h0 h" and c: "bs_config (bk_spec b) = Some c"
    and b: "om_deletion (bk_meta b) = None" "\<not> IsBackupComplete b" "\<not> IsBackupFailed b" "\<not> IsBackupInvalid b"
    and none: "no_job e b (backup_job b c) h0 h"
  shows "guards (backup_rule e b h0) h0 (\<lambda>_ _. True) (start_backup e b c) h"
  unfolding start_backup_def
proof (rule guards_bind [OF ready_cluster_guarded [OF h]], rule guards_ok)
  fix r h' nc
  assume h': "guarded (backup_rule e b h0) h0 h'" "grows h h'" and seen: "seen_ready e b c h0 r h'" "r = Ok nc"
  have "may_create_job e b h0 (backup_job b c) g" if "grows h' g" for g
    unfolding may_create_job_def
    using c b seen asked_grows [OF none grows_trans [OF h'(2) that]] asked_grows [OF _ that] by auto blast
  then show "guards (backup_rule e b h0) h0 (\<lambda>_ _. True) (runBackupJob e b nc c \<bind> ok (\<lambda>_. now e \<bind> ok (\<lambda>t.
     UpdateNebulaBackupStatus e b (Some (new_condition BackupRunning ''True'' '''' ''''))
       (Some (no_update\<lparr>bu_type := getBackupType (bg_base c), bu_started := Some t, bu_condition := BackupRunning\<rparr>)) \<bind> ok (\<lambda>_.
     throw (ErrReconcile ''backup job is running''))))) h'"
    unfolding runBackupJob_def
    by (intro guards_bind [OF run_job_guarded [OF h'(1)]] guards_bind [OF guards_now [where Q = "\<lambda>_ _. True"]]
        guards_bind [OF status_guarded] guards_ok guards_return plain_rule) simp_all
qed simp_all

lemma record_name_guarded:
  assumes "guarded (backup_rule e b h0) h0 h"
  shows "guards (backup_rule e b h0) h0 (\<lambda>_ _. True) (record_name e b jobName) h"
  unfolding record_name_def Let_def
  by (intro guards_if guards_return guards_bind [OF plain_guarded [OF backup_plain(1)]] guards_handle status_guarded assms)
     simp_all

lemma follow_backup_guarded:
  assumes h: "guarded (backup_rule e b h0) h0 h"
  shows "guards (backup_rule e b h0) h0 (\<lambda>_ _. True) (follow_backup e b c j) h"
proof -
  have go_on: "guards (backup_rule e b h0) h0 (\<lambda>_ _. True)
      (detectBackupJobFailure e b c \<bind> ok (\<lambda>f. judge_job f w)) g" if "guarded (backup_rule e b h0) h0 g" for g w
    using that by (intro guards_bind [OF plain_guarded [OF backup_plain(5)]] guards_ok judge_guarded) simp_all
  show ?thesis
    unfolding follow_backup_def Let_def
    by (intro guards_bind [OF record_name_guarded [OF h]] guards_ok guards_if go_on
        guards_bind [OF guards_now [where Q = "\<lambda>_ _. True"]] guards_bind [OF status_guarded] plain_guarded [OF backup_plain(4)]
        plain_rule) simp_all
qed

lemma sync_guarded:
  assumes h: "guarded (backup_rule e b h0) h0 h"
    and b: "om_deletion (bk_meta b) = None" "\<not> IsBackupComplete b" "\<not> IsBackupFailed b" "\<not> IsBackupInvalid b"
  shows "guards (backup_rule e b h0) h0 (\<lambda>_ _. True) (backup_Sync e b) h"
  unfolding backup_Sync_def syncBackupJob_def GetJob_def
  by (intro guards_with_config h guards_bind_send [OF h plain_rule] guards_handle guards_if guards_return
      start_backup_guarded b follow_backup_guarded) simp_all

lemma DeleteJob_guarded:
  assumes "guarded (backup_rule e b h0) h0 h"
  shows "guards (backup_rule e b h0) h0 (\<lambda>r g. \<forall>x. r = Ok x \<longrightarrow> (\<exists>j. asked (e_done e) (BackupCall (DeleteJobC j)) (Ok ()) h0 g))
     (DeleteJob e ns name) h"
  unfolding DeleteJob_def
  by (rule guards_bind_send [OF assms plain_rule], simp)
     (auto intro!: guards_ok guards_send plain_rule)

lemma ensure_guarded:
  assumes h: "guarded (backup_rule e b h0) h0 h"
  shows "guards (backup_rule e b h0) h0 (\<lambda>r g. r = Ok True \<longrightarrow> backup_over e b h0 g) (ensureBackupJobFinished e b) h"
  unfolding ensureBackupJobFinished_def GetJob_def
proof (rule guards_with_config [OF h], rule guards_bind_send [OF h plain_rule], simp)
  fix c r g
  let ?Q = "\<lambda>r g. r = Ok True \<longrightarrow> backup_over e b h0 g" and ?name = "backup_job b c"
  assume c: "bs_config (bk_spec b) = Some c" and g: "guarded (backup_rule e b h0) h0 g"
    and r: "asked (b_job (e_bk e)) (BackupCall (GetJobC (bk_ns b) ?name)) r h0 g"
  have over: "backup_over e b h0 g'" if "r = Err ErrNotFound \<or> (\<exists>j. r = Ok j \<and> om_deletion (jb_meta j) = None
      \<and> (isJobFinished j \<or> (\<exists>j'. asked (e_done e) (BackupCall (DeleteJobC j')) (Ok ()) h0 g')))" "grows g g'" for g'
    unfolding backup_over_def using c asked_grows [OF r that(2)] that(1) by blast
  show "guards (backup_rule e b h0) h0 ?Q (handle (\<lambda>x. if x = ErrNotFound then ret True else panic)
      (\<lambda>j. if om_deletion (jb_meta j) \<noteq> None then ret False
           else if isJobFinished j then ret True
           else if bt_name (bk_status b) = '''' then ret False
           else DeleteJob e (bk_ns b) ?name \<bind> ok (\<lambda>_. ret True)) r) g"
    by (rule guards_handle [OF g])
       (auto simp: over g intro!: guards_if guards_return guards_bind [OF DeleteJob_guarded [OF g]] guards_ok)
qed simp


lemma start_clean_guarded:
  assumes h: "guarded (backup_rule e b h0) h0 h" and c: "bs_config (bk_spec b) = Some c"
    and b: "om_deletion (bk_meta b) \<noteq> None" "CleanBackupData b" "bt_name (bk_status b) \<noteq> ''''"
    and over: "backup_over e b h0 h" and none: "no_job e b (getCleanJobName (bk_name b)) h0 h"
  shows "guards (backup_rule e b h0) h0 (\<lambda>r _. r \<noteq> Ok ()) (start_clean e b c) h"
  unfolding start_clean_def set_clean_def
proof (rule guards_bind [OF ready_cluster_guarded [OF h]], rule guards_ok)
  fix r h' nc
  assume h': "guarded (backup_rule e b h0) h0 h'" "grows h h'" and seen: "seen_ready e b c h0 r h'" "r = Ok nc"
  have "may_create_job e b h0 (getCleanJobName (bk_name b)) g" if "grows h' g" for g
    unfolding may_create_job_def
    using c b seen asked_grows [OF none grows_trans [OF h'(2) that]] backup_over_grows [OF over grows_trans [OF h'(2) that]]
      asked_grows [OF _ that] by auto blast
  then show "guards (backup_rule e b h0) h0 (\<lambda>r _. r \<noteq> Ok ()) (runCleanJob e b nc c \<bind> ok (\<lambda>_.
     UpdateNebulaBackupStatus e b (Some (new_condition BackupClean ''False'' '''' '''')) None \<bind> ok (\<lambda>_.
     throw (ErrReconcile ''backup clean job is running'')))) h'"
    unfolding runCleanJob_def
    by (intro guards_bind [OF run_job_guarded [OF h'(1)]] guards_bind [OF status_guarded] guards_ok guards_return) simp_all
qed simp_all

lemma set_clean_guarded:
  assumes "guarded (backup_rule e b h0) h0 h" "data_cleaned e b h0 h"
  shows "guards (backup_rule e b h0) h0 (\<lambda>_ _. True) (set_clean e b ''True'') h"
  unfolding set_clean_def by (rule status_guarded) (use assms in \<open>auto simp: earned_def\<close>)

lemma clean_guarded:
  assumes h: "guarded (backup_rule e b h0) h0 h" and b: "om_deletion (bk_meta b) \<noteq> None"
  shows "guards (backup_rule e b h0) h0 (\<lambda>_ _. True) (backup_Clean e b) h"
proof (cases "CleanBackupData b")
  case True
  let ?G = "guards (backup_rule e b h0) h0 (\<lambda>_ _. True)" and ?clean = "getCleanJobName (bk_name b)"
  have job: "?G (handle (\<lambda>x. if x = ErrNotFound then start_clean e b c else throw x)
       (\<lambda>j. if isJobComplete j then set_clean e b ''True''
            else detectCleanJobFailure e b \<bind> ok (\<lambda>f. judge_job f w)) r) g"
    if g: "guarded (backup_rule e b h0) h0 g" and over: "backup_over e b h0 g" and c: "bs_config (bk_spec b) = Some c"
      and n: "bt_name (bk_status b) \<noteq> ''''"
      and r: "asked (b_job (e_bk e)) (BackupCall (GetJobC (bk_ns b) ?clean)) r h0 g" for g c r w
  proof (rule guards_handle [OF g])
    fix j assume "r = Ok j"
    then have "isJobComplete j \<Longrightarrow> data_cleaned e b h0 g" using r b True over by (auto simp: data_cleaned_def)
    then show "?G (if isJobComplete j then set_clean e b ''True''
        else detectCleanJobFailure e b \<bind> ok (\<lambda>f. judge_job f w)) g"
      using g by (intro guards_if set_clean_guarded guards_bind [OF plain_guarded [OF backup_plain(6)]] guards_ok judge_guarded) simp_all
  next
    fix x assume "r = Err x"
    then show "?G (if x = ErrNotFound then start_clean e b c else throw x) g"
      using g over c n r b True by (intro guards_if guards_mono [OF start_clean_guarded] guards_return) simp_all
  qed simp
  have rest: "?G (if bt_name (bk_status b) = '''' then set_clean e b ''True''
       else with_config b (\<lambda>c. GetJob e (bk_ns b) ?clean \<bind>
              handle (\<lambda>x. if x = ErrNotFound then start_clean e b c else throw x)
                (\<lambda>j. if isJobComplete j then set_clean e b ''True''
                     else detectCleanJobFailure e b \<bind> ok (\<lambda>f. judge_job f ''waiting for backup clean job to finish'')))) g"
    if g: "guarded (backup_rule e b h0) h0 g" and over: "backup_over e b h0 g" for g
    unfolding GetJob_def
    using b True over
    by (intro guards_if guards_with_config guards_bind_send [OF g plain_rule] set_clean_guarded g job)
       (auto simp: data_cleaned_def intro: backup_over_grows)
  have wrapped: "guards (backup_rule e b h0) h0 (\<lambda>r g. r = Ok True \<longrightarrow> backup_over e b h0 g)
      (ensureBackupJobFinished e b \<bind> handle (\<lambda>_. throw (ErrPlain ''ensure backup job finished failed'')) ret) h"
    by (rule guards_bind [OF ensure_guarded [OF h]]) (auto intro!: guards_handle guards_return)
  have stop: "guards (backup_rule e b h0) h0 (\<lambda>_ _. True) (ret ()) h" by (simp add: guards_return h)
  show ?thesis
    unfolding backup_Clean_def
    by (intro guards_if stop guards_bind [OF wrapped] guards_ok guards_return rest) (use True in auto)
qed (simp add: backup_Clean_def guards_return h)

lemma finalizer_guarded:
  assumes h: "guarded (backup_rule e b h0) h0 h"
    and op: "op = AddFinalizerOpType \<or> \<not> CleanBackupData b \<or> om_deletion (bk_meta b) \<noteq> None \<and> IsBackupClean b"
  shows "guards (backup_rule e b h0) h0 (\<lambda>_ _. True) (UpdateBackupFinalizer e b op) h"
  unfolding UpdateBackupFinalizer_def GetNebulaBackup_def
proof (rule guards_retry_on_conflict [OF _ h])
  fix g assume g: "guarded (backup_rule e b h0) h0 g"
  have rule: "backup_rule e b h0 (BackupCall (UpdateBackupC (bk_set_finalizers fs live))) g'"
    if "new_finalizers op backup_finalizer fs' = Some fs" for fs fs' live g'
    using that op by (auto simp: backup_rule_def new_finalizers_def bk_set_finalizers_def split: finalizer_op.splits if_splits)
  show "guards (backup_rule e b h0) h0 (\<lambda>_ _. True) (send (b_backup (e_bk e)) (BackupCall (GetBackupC (bk_ns b) (bk_name b))) \<bind> ok (\<lambda>live.
          case new_finalizers op backup_finalizer (bk_finalizers live) of
            None \<Rightarrow> ret ()
          | Some fs \<Rightarrow> send (e_done e) (BackupCall (UpdateBackupC (bk_set_finalizers fs live))))) g"
    by (rule guards_bind_send [OF g plain_rule], simp)
       (auto intro!: guards_ok guards_return guards_send rule split: option.split)
qed

lemma fail_guarded:
  assumes "guarded (backup_rule e b h0) h0 h" "emits plain_call remove"
  shows "guards (backup_rule e b h0) h0 (\<lambda>_ _. True) (fail_backup e b reason remove x) h"
  unfolding fail_backup_def ignored_def
  by (intro guards_if guards_return guards_bind [OF guards_bind [OF status_guarded]] guards_handle guards_ok
      guards_bind [OF plain_guarded [OF assms(2)]] assms(1)) simp_all

lemma control_guarded: "guarded (backup_rule e b h) h (snd (run_state (control_UpdateNebulaBackup e b) h))"
proof (rule guards_run [where Q = "\<lambda>_ _. True"])
  have remove: "guards (backup_rule e b h) h (\<lambda>_ _. True) (removeFinalizer e b) g"
    if "guarded (backup_rule e b h) h g" "om_deletion (bk_meta b) \<noteq> None" for g
    unfolding removeFinalizer_def needToRemoveFinalizer_def
    using that by (auto intro!: guards_bind [OF finalizer_guarded] guards_handle guards_return)
  have add: "guards (backup_rule e b h) h (\<lambda>_ _. True) (addFinalizer e b) h"
    unfolding addFinalizer_def
    by (auto intro!: guards_bind [OF finalizer_guarded] finalizer_guarded guards_handle guards_return)
  show "guards (backup_rule e b h) h (\<lambda>_ _. True) (control_UpdateNebulaBackup e b) h"
    unfolding control_UpdateNebulaBackup_def
    by (auto intro!: guards_if guards_bind [OF clean_guarded] guards_bind [OF add] guards_bind [OF sync_guarded] guards_handle guards_ok
        fail_guarded remove guards_return plain_with_config backup_plain)
qed


definition job_rule :: "env \<Rightarrow> nebula_backup \<Rightarrow> call list \<Rightarrow> call \<Rightarrow> call list \<Rightarrow> bool" where
  "job_rule e b h0 c h \<longleftrightarrow>
     (case c of BackupCall (CreateJobC j) \<Rightarrow> may_create_job e b h0 (om_name (jb_meta j)) h | _ \<Rightarrow> True)"

definition release_rule :: "env \<Rightarrow> nebula_backup \<Rightarrow> call list \<Rightarrow> call \<Rightarrow> call list \<Rightarrow> bool" where
  "release_rule e b h0 c h \<longleftrightarrow> (case c of BackupCall (CreateJobC _) \<Rightarrow> True | _ \<Rightarrow> backup_rule e b h0 c h)"

text \<open>
  Claim C33. One reconciliation of a backup, whatever the servers answer, creates no job without cause: the job
  has the name the server said it does not know, the cluster was read in this run and is ready, and either the backup
  is neither deleted, complete, failed nor invalid and the job is its backup job, or the backup is being deleted with its data,
  has a recorded name, its backup job is over (unknown, finished, or deleted in this run), and the job is its clean job.
\<close>

theorem backup_jobs_have_cause:
  "guarded (job_rule e b h) h (snd (run_state (control_UpdateNebulaBackup e b) h))"
  by (rule guarded_mono [OF control_guarded]) (auto simp: job_rule_def backup_rule_def split: call.splits backup_call.splits)

text \<open>
  Claim C34. A backup whose data is to be cleaned is not released before: the finalizer is only removed when
  the backup is being deleted and carries the condition Clean, and that condition is only ever written as true, where the
  server did not have it already, after the backup job is over and either no name was recorded or the clean job was seen complete.
\<close>

theorem backup_released_clean:
  "guarded (release_rule e b h) h (snd (run_state (control_UpdateNebulaBackup e b) h))"
  by (rule guarded_mono [OF control_guarded]) (auto simp: release_rule_def split: call.splits backup_call.splits)

section \<open>Reading the name of a backup from a log\<close>

definition backup_text :: "nat list \<Rightarrow> string" where
  "backup_text ks = ''BACKUP'' @ concat (map (\<lambda>k. CHR ''_'' # show_nat k) ks)"

definition no_digit_first :: "string \<Rightarrow> bool" where
  "no_digit_first s \<longleftrightarrow> s = '''' \<or> \<not> is_digit (hd s)"

lemma numbers_read:
  "no_digit_first t \<Longrightarrow> numbers (length ks) (concat (map (\<lambda>k. CHR ''_'' # show_nat k) ks) @ t)
     = Some (concat (map (\<lambda>k. CHR ''_'' # show_nat k) ks))"
proof (induction ks)
  case (Cons k ks)
  let ?rest = "concat (map (\<lambda>k. CHR ''_'' # show_nat k) ks) @ t"
  have "no_digit_first ?rest" using Cons.prems by (cases ks) (simp_all add: no_digit_first_def is_digit_def)
  then have "takeWhile is_digit ?rest = []" "dropWhile is_digit ?rest = ?rest"
    by (cases ?rest; simp add: no_digit_first_def)+
  moreover have "list_all is_digit (show_nat k)" by (rule show_nat_digits)
  ultimately have "takeWhile is_digit (show_nat k @ ?rest) = show_nat k" "dropWhile is_digit (show_nat k @ ?rest) = ?rest"
    by (simp_all add: list_all_iff takeWhile_append2 dropWhile_append2)
  with Cons show ?case by simp
qed simp

lemma name_in_line_None: "CHR ''B'' \<notin> set s \<Longrightarrow> name_in_line s = None"
proof (induction s)
  case (Cons c s)
  then have "take 6 (c # s) \<noteq> ''BACKUP''" by (auto simp: numeral_eq_Suc)
  with Cons show ?case by (auto simp: name_here_def)
qed simp

lemma name_in_line_append: "name_in_line s = Some n \<Longrightarrow> name_in_line (p @ s) = Some n"
  by (induction p) auto

lemma B_not_in_show_nat: "CHR ''B'' \<notin> set (show_nat n)"
  using show_nat_digits [of n] by (force simp: list_all_iff is_digit_def)

lemma name_in_line_read:
  assumes "length ks = 6" "no_digit_first t" "CHR ''B'' \<notin> set t"
  shows "name_in_line (p @ backup_text ks @ t) = Some (backup_text ks)"
proof (rule name_in_line_append)
  have "name_in_line (tl (backup_text ks) @ t) = None"
    using assms(3) B_not_in_show_nat by (intro name_in_line_None) (auto simp: backup_text_def)
  moreover have "name_here (backup_text ks @ t) = Some (backup_text ks)"
    using numbers_read [OF assms(2), of ks] assms(1) by (simp add: name_here_def backup_text_def)
  ultimately show "name_in_line (backup_text ks @ t) = Some (backup_text ks)"
    by (simp add: backup_text_def)
qed

lemma lines_of_first:
  "CHR 0x0A \<notin> set l \<Longrightarrow> lines_of cur (l @ CHR 0x0A # r) = (cur @ l) # lines_of '''' r"
  "CHR 0x0A \<notin> set l \<Longrightarrow> lines_of cur l = [cur @ l]"
  by (induction l arbitrary: cur) auto



end
