(* ===== verification/CronBackup.thy ===== *)
theory CronBackup
  imports Backup GoFloat
begin

text \<open>
  Cron backups: the client (\<open>pkg/kube/cronbackup.go\<close>) and \<open>pkg/controller/cronbackup\<close>: when the next
  backup is due, its creation, and the removal of backups that are kept long enough. Times and durations are in
  nanoseconds. \<open>next\<close>, the \<open>Next\<close> of a schedule of the cron library, gives the first time of the
  schedule after its argument.
\<close>

section \<open>The client (cronbackup.go)\<close>

abbreviation cb_ns :: "cron_backup \<Rightarrow> string" where "cb_ns cb \<equiv> om_namespace (cb_meta cb)"
abbreviation cb_name :: "cron_backup \<Rightarrow> string" where "cb_name cb \<equiv> om_name (cb_meta cb)"

definition GetCronBackup :: "env \<Rightarrow> string \<Rightarrow> string \<Rightarrow> cron_backup io" where
  "GetCronBackup e ns name = send (b_cron (e_bk e)) (BackupCall (GetCronBackupC ns name))"

definition UpdateCronBackupStatus :: "env \<Rightarrow> cron_backup \<Rightarrow> unit io" where
  "UpdateCronBackupStatus e cb =
     OnError (GetCronBackup e (cb_ns cb) (cb_name cb) \<bind> ok (\<lambda>live.
       if cb_status cb = cb_status live then ret ()
       else send (e_done e) (BackupCall (UpdateCronStatusC (live\<lparr>cb_status := cb_status cb\<rparr>)))))"

section \<open>Times and durations\<close>

abbreviation sec :: int where "sec \<equiv> 1000000000"

text \<open>\<open>Time.Sub\<close> stays in the range of \<open>int64\<close>.\<close>

definition time_sub :: "int \<Rightarrow> int \<Rightarrow> int" where
  "time_sub a b = max (- (2 ^ 63)) (min (2 ^ 63 - 1) (a - b))"

text \<open>\<open>Duration.Round(time.Second)\<close>: the nearest second, half a second away from zero, within \<open>int64\<close>.\<close>

definition round_sec :: "int \<Rightarrow> int" where
  "round_sec d = max (- (2 ^ 63)) (min (2 ^ 63 - 1) (sgn d * (((\<bar>d\<bar> + sec div 2) div sec) * sec)))"

text \<open>\<open>int64(d.Seconds())\<close>: the whole seconds and the rest are added as floating-point numbers.\<close>

definition Seconds :: "int \<Rightarrow> rat" where
  "Seconds d = f64_add (of_int (go_quot d sec)) (f64_div (of_int (go_rem d sec)) (of_int sec))"

definition whole_seconds :: "int \<Rightarrow> int" where
  "whole_seconds d = trunc (Seconds d)"

section \<open>The schedule (cronbackup_manager.go)\<close>

text \<open>The loop ends when the schedule passes the current time \<open>cur\<close>; a run that does not end is \<open>None\<close>.\<close>

partial_function (option) last_until :: "(int \<Rightarrow> int) \<Rightarrow> int \<Rightarrow> int \<Rightarrow> int \<Rightarrow> int option" where
  "last_until nxt cur t mostRecent = (if cur < t then Some mostRecent else last_until nxt cur (nxt t) t)"

definition earliest_time :: "cron_backup \<Rightarrow> int" where
  "earliest_time cb = (case cs_last_schedule (cb_status cb) of None \<Rightarrow> om_created (cb_meta cb) | Some t \<Rightarrow> t)"

text \<open>
  The result: the earliest time, the most recent time of the schedule that is not after \<open>cur\<close>, whether too
  many were missed, and whether the schedule makes no sense. The products stay in the range of \<open>int64\<close>,
  because the elapsed time does.
\<close>

definition mostRecentScheduleTime ::
    "cron_backup \<Rightarrow> int \<Rightarrow> (int \<Rightarrow> int) \<Rightarrow> (int \<times> int option \<times> bool \<times> bool) option" where
  "mostRecentScheduleTime cb cur nxt =
     (let earliestTime = earliest_time cb;
          t1 = nxt earliestTime;
          t2 = nxt t1
      in if cur < t1 then Some (earliestTime, None, False, False)
         else if cur < t2 then Some (earliestTime, Some t1, False, False)
         else let timeBetween = whole_seconds (round_sec (time_sub t2 t1))
              in if timeBetween < 1 then Some (earliestTime, None, False, True)
                 else let timeElapsed = whole_seconds (time_sub cur t1);
                          missed = go_quot timeElapsed timeBetween + 1;
                          potentialEarliest = t1 + (missed - 1 - 1) * timeBetween * sec
                      in map_option (\<lambda>m. (earliestTime, if m = zero_time then None else Some m, missed > 100, False))
                           (last_until nxt cur (nxt potentialEarliest) zero_time))"

definition nextScheduleTime :: "cron_backup \<Rightarrow> int \<Rightarrow> (int \<Rightarrow> int) \<Rightarrow> (int option \<times> bool) option" where
  "nextScheduleTime cb cur nxt =
     map_option (\<lambda>(_, m, _, err). (case m of None \<Rightarrow> None | Some t \<Rightarrow> if cur < t then None else Some t, err))
       (mostRecentScheduleTime cb cur nxt)"

abbreviation nextScheduleDelta :: int where "nextScheduleDelta \<equiv> 100000000"

definition nextScheduleTimeDuration :: "cron_backup \<Rightarrow> int \<Rightarrow> (int \<Rightarrow> int) \<Rightarrow> int option" where
  "nextScheduleTimeDuration cb cur nxt =
     map_option (\<lambda>(earliest, m, _, err).
         let mostRecent = (if err then cur else case m of None \<Rightarrow> earliest | Some t \<Rightarrow> t)
         in time_sub (nxt mostRecent + nextScheduleDelta) cur)
       (mostRecentScheduleTime cb cur nxt)"

section \<open>The next backup (cronbackup_manager.go)\<close>

definition getBackupName :: "env \<Rightarrow> string \<Rightarrow> int \<Rightarrow> string" where
  "getBackupName e cronBackupName t =
     cronBackupName @ ''-'' @ filter (\<lambda>c. c \<noteq> CHR ''-'') (b_time_text (e_bk e) t)"

definition label_CronJob :: "string \<Rightarrow> strmap \<Rightarrow> strmap" where
  "label_CronJob val l = AList.update ''apps.nebula-graph.io/cron-backup'' val l"

definition cron_GenerateOwnerReferences :: "cron_backup \<Rightarrow> owner_reference list" where
  "cron_GenerateOwnerReferences cb =
     [\<lparr>or_api_version = cb_api_version cb, or_kind = cb_kind cb, or_name = cb_name cb,
       or_uid = om_uid (cb_meta cb), or_controller = True, or_block_deletion = True\<rparr>]"

definition empty_backup_status :: backup_status where
  "empty_backup_status = \<lparr>bt_type = NoBackupType, bt_name = '''', bt_started = None, bt_completed = None,
     bt_phase = NoBackupCondition, bt_conditions = []\<rparr>"

definition buildBackup :: "env \<Rightarrow> cron_backup \<Rightarrow> int \<Rightarrow> nebula_backup" where
  "buildBackup e cb t =
     \<lparr>bk_api_version = '''', bk_kind = '''',
      bk_meta = (plain_meta (cb_ns cb) (getBackupName e (cb_name cb) t))
        \<lparr>om_labels := MergeStringMaps True [label_CronJob (cb_name cb) label_New, om_labels (cb_meta cb)],
         om_annotations := om_annotations (cb_meta cb), om_owners := cron_GenerateOwnerReferences cb\<rparr>,
      bk_spec = cb_template cb, bk_status = empty_backup_status\<rparr>"

definition createBackup :: "env \<Rightarrow> cron_backup \<Rightarrow> int \<Rightarrow> string io" where
  "createBackup e cb t =
     CreateNebulaBackup e (buildBackup e cb t) \<bind> ok (\<lambda>_. ret (bk_name (buildBackup e cb t)))"

definition map_cs :: "(cron_status \<Rightarrow> cron_status) \<Rightarrow> cron_backup \<Rightarrow> cron_backup" where
  "map_cs f cb = cb\<lparr>cb_status := f (cb_status cb)\<rparr>"

text \<open>
  The object in hand is changed on the way, also when the step fails: it is returned beside the answer.
\<close>

definition later_success :: "int option \<Rightarrow> cron_status \<Rightarrow> cron_status" where
  "later_success completed s =
     (let s1 = (if cs_last_successful s = None then s\<lparr>cs_last_successful := completed\<rparr> else s)
      in case (completed, cs_last_successful s1) of
           (Some t, Some l) \<Rightarrow> if t > l then s1\<lparr>cs_last_successful := completed\<rparr> else s1
         | _ \<Rightarrow> s1)"

definition canPerformNextBackup :: "env \<Rightarrow> cron_backup \<Rightarrow> (cron_backup \<times> unit outcome) io" where
  "canPerformNextBackup e cb =
     (if cs_last_backup (cb_status cb) = '''' then ret (cb, Ok ())
      else GetNebulaBackup e (cb_ns cb) (cs_last_backup (cb_status cb)) \<bind>
             handle (\<lambda>x. ret (cb, if x = ErrNotFound then Ok () else Err x))
               (\<lambda>b. if IsBackupComplete b \<or> IsBackupFailed b
                    then ret (map_cs (later_success (bt_completed (bk_status b))) cb, Ok ())
                    else ret (cb, Err (ErrReconcile ''the last backup is still running''))))"

text \<open>A run that does not return is shown as a panic; it takes a schedule whose next time is not later.\<close>

definition or_diverge :: "'a option \<Rightarrow> 'a io" where
  "or_diverge r = (case r of None \<Rightarrow> panic | Some x \<Rightarrow> ret x)"

definition plan_backup ::
    "env \<Rightarrow> cron_backup \<Rightarrow> int \<Rightarrow> (int \<Rightarrow> int) \<Rightarrow> (cron_backup \<times> int option outcome) io" where
  "plan_backup e cb t nxt =
     or_diverge (nextScheduleTime cb t nxt) \<bind> ok (\<lambda>(scheduledTime, err).
       if err then ret (cb, Ok None)
       else case scheduledTime of
              None \<Rightarrow> or_diverge (nextScheduleTimeDuration cb t nxt) \<bind> ok (\<lambda>d. ret (cb, Ok (Some d)))
            | Some s \<Rightarrow>
                createBackup e cb s \<bind>
                  handle (\<lambda>x. ret (cb, Err x))
                    (\<lambda>backupName.
                       let cb = map_cs (\<lambda>st. st\<lparr>cs_last_backup := backupName, cs_last_schedule := Some s\<rparr>) cb
                       in or_diverge (nextScheduleTimeDuration cb t nxt) \<bind> ok (\<lambda>d. ret (cb, Ok (Some d)))))"

definition cron_Sync :: "env \<Rightarrow> cron_backup \<Rightarrow> (cron_backup \<times> int option outcome) io" where
  "cron_Sync e cb =
     (if om_deletion (cb_meta cb) \<noteq> None then ret (cb, Ok None)
      else if deref_or False (cb_pause cb) then ret (cb, Ok None)
      else canPerformNextBackup e cb \<bind> ok (\<lambda>(cb, r).
           case r of
             Err x \<Rightarrow> ret (cb, Err x)
           | Panic \<Rightarrow> panic
           | Ok _ \<Rightarrow>
               now e \<bind> ok (\<lambda>t.
                 case b_next_schedule (e_bk e) (cb_schedule cb) of
                   None \<Rightarrow> ret (cb, Ok None)
                 | Some nxt \<Rightarrow> plan_backup e cb t nxt)))"


section \<open>Expired backups (cronbackup_control.go)\<close>

fun string_less :: "string \<Rightarrow> string \<Rightarrow> bool" where
  "string_less _ [] = False"
| "string_less [] (_ # _) = True"
| "string_less (a # as) (b # bs) =
     ((of_char a :: nat) < of_char b \<or> a = b \<and> string_less as bs)"

text \<open>\<open>byBackupStartTime.Less\<close>: backups that were not started come last, names break ties.\<close>

definition starts_before :: "nebula_backup \<Rightarrow> nebula_backup \<Rightarrow> bool" where
  "starts_before a b =
     (case (bt_started (bk_status a), bt_started (bk_status b)) of
        (None, Some _) \<Rightarrow> False
      | (Some _, None) \<Rightarrow> True
      | (None, None) \<Rightarrow> string_less (bk_name a) (bk_name b)
      | (Some s, Some t) \<Rightarrow> if s = t then string_less (bk_name a) (bk_name b) else s < t)"

fun insert_backup :: "nebula_backup \<Rightarrow> nebula_backup list \<Rightarrow> nebula_backup list" where
  "insert_backup b [] = [b]"
| "insert_backup b (c # cs) = (if starts_before c b then c # insert_backup b cs else b # c # cs)"

text \<open>The backups that are complete or failed and not being deleted, in the order of \<open>sort.Sort\<close>.\<close>

definition removable :: "nebula_backup \<Rightarrow> bool" where
  "removable b \<longleftrightarrow> (IsBackupFailed b \<or> IsBackupComplete b) \<and> om_deletion (bk_meta b) = None"

definition sortBackupsByAscOrder :: "nebula_backup list \<Rightarrow> nebula_backup list" where
  "sortBackupsByAscOrder bs = foldr insert_backup (filter removable bs) []"

definition unix :: "int \<Rightarrow> int" where "unix t = t div sec"

definition calculateExpiredBackups :: "int \<Rightarrow> nebula_backup list \<Rightarrow> int \<Rightarrow> nebula_backup list" where
  "calculateExpiredBackups t asc reserved =
     takeWhile (\<lambda>b. unix (om_created (bk_meta b)) < unix (t - reserved)) asc"

definition getBackupsToBeReconciled :: "env \<Rightarrow> cron_backup \<Rightarrow> nebula_backup list io" where
  "getBackupsToBeReconciled e cb = ListNebulaBackups e (cb_ns cb) (label_CronJob (cb_name cb) label_New)"

definition expire_worker :: "env \<Rightarrow> nebula_backup \<Rightarrow> unit \<Rightarrow> (unit \<times> go_err option) io" where
  "expire_worker e b u =
     (if om_deletion (bk_meta b) \<noteq> None then ret ((), None)
      else DeleteNebulaBackup e (bk_ns b) (bk_name b) \<bind> handle (\<lambda>x. ret ((), Some x)) (\<lambda>_. ret ((), None)))"

definition cleanupFinishedBackups :: "env \<Rightarrow> cron_backup \<Rightarrow> nebula_backup list \<Rightarrow> bool io" where
  "cleanupFinishedBackups e cb backups =
     (case cb_reserved cb of
        None \<Rightarrow> ret False
      | Some s \<Rightarrow>
          (case e_duration e s of
             None \<Rightarrow> ret False
           | Some reserved \<Rightarrow>
               now e \<bind> ok (\<lambda>t.
               let expired = calculateExpiredBackups t (sortBackupsByAscOrder backups) reserved
               in if expired = [] then ret False
                  else (run_workers (expire_worker e) expired () [] \<bind> ok group_wait) \<bind>
                         handle (\<lambda>_. ret False) (\<lambda>_. ret True))))"

definition calculateExpirationTime :: "env \<Rightarrow> cron_backup \<Rightarrow> nebula_backup list \<Rightarrow> int option io" where
  "calculateExpirationTime e cb backups =
     (case cb_reserved cb of
        None \<Rightarrow> ret None
      | Some s \<Rightarrow>
          (case e_duration e s of
             None \<Rightarrow> throw (ErrPlain ''time: invalid duration'')
           | Some reserved \<Rightarrow>
               (case sortBackupsByAscOrder backups of
                  [] \<Rightarrow> ret None
                | b # _ \<Rightarrow>
                    now e \<bind> ok (\<lambda>t.
                      let timeElapsed = time_sub (om_created (bk_meta b)) (t - reserved)
                      in ret (Some (if timeElapsed < 0 then 100000000 else timeElapsed))))))"

section \<open>The control and the reconciler\<close>

definition requeue_cron :: "env \<Rightarrow> cron_backup \<Rightarrow> int option \<Rightarrow> int option io" where
  "requeue_cron e cb requeueAfter =
     (case requeueAfter of
        None \<Rightarrow> ret None
      | Some d \<Rightarrow> UpdateCronBackupStatus e cb \<bind> ok (\<lambda>_. ret (Some d)))"

definition UpdateCronBackup :: "env \<Rightarrow> cron_backup \<Rightarrow> int option io" where
  "UpdateCronBackup e cb0 =
     cron_Sync e cb0 \<bind> ok (\<lambda>(cb, r).
       case r of
         Panic \<Rightarrow> panic
       | Err x \<Rightarrow> UpdateCronBackupStatus e cb \<bind> ok (\<lambda>_. throw x)
       | Ok requeueAfter \<Rightarrow>
           getBackupsToBeReconciled e cb \<bind> ok (\<lambda>backups.
           cleanupFinishedBackups e cb backups \<bind> ok (\<lambda>cleaned.
           (if cleaned
            then now e \<bind> ok (\<lambda>t.
                 let cb = map_cs (\<lambda>s. s\<lparr>cs_clean_time := Some t\<rparr>) cb
                 in UpdateCronBackupStatus e cb \<bind> ok (\<lambda>_. ret cb))
            else ret cb) \<bind> ok (\<lambda>cb.
           (if deref_or False (cb_pause cb) \<and> requeueAfter = None then calculateExpirationTime e cb backups
            else ret requeueAfter) \<bind> ok (requeue_cron e cb)))))"

definition cron_Reconcile :: "env \<Rightarrow> string \<Rightarrow> string \<Rightarrow> int option io" where
  "cron_Reconcile e ns name =
     GetCronBackup e ns name \<bind>
       handle (\<lambda>x. if x = ErrNotFound then ret None else throw x)
         (\<lambda>cb. UpdateCronBackup e cb \<bind>
            handle (\<lambda>x. ret (Some (if is_reconcile x then backup_reconcile_timeout else backup_default_timeout))) ret)"


section \<open>Regular schedules\<close>

text \<open>The floating-point seconds are exact for durations up to 48 days.\<close>

lemma whole_seconds_exact:
  assumes "0 \<le> d" "d < 2 ^ 22 * sec"
  shows "whole_seconds d = d div sec"
proof -
  define s where "s = d div sec"
  define n where "n = d mod sec"
  have q: "go_quot d sec = s" "go_rem d sec = n" using assms by (simp_all add: s_def n_def go_quot_nonneg go_rem_nonneg)
  have n: "0 \<le> n" "n < sec" by (simp_all add: n_def)
  have s: "0 \<le> s" "s < 2 ^ 22" using assms by (simp_all add: s_def div_less_iff_less_mult pos_imp_zdiv_nonneg_iff)
  define y where "y = fl (of_int n / of_int sec)"
  have "\<lfloor>fl (of_int s + y)\<rfloor> = s"
  proof (cases "n = 0")
    case True
    then have "y = 0" by (simp add: y_def fl_def)
    then show ?thesis using s fl_of_int [of s] by simp
  next
    case False
    let ?x = "(of_int n :: rat) / of_int sec"
    have x: "1 / 1000000000 \<le> ?x" "?x \<le> 1 - 1 / 1000000000" using n False by (simp_all add: field_simps)
    have y: "\<bar>y - ?x\<bar> \<le> 1 / 9007199254740992" 
    proof -
      have "f64_range ?x" using x by (simp add: f64_range_def pow2_def)
      from fl_relative_error [OF this] x show ?thesis by (simp add: y_def)
    qed
    let ?z = "of_int s + y"
    have y': "?x - 1 / 9007199254740992 \<le> y" "y \<le> ?x + 1 / 9007199254740992" using y by linarith+
    have "s \<le> 4194303" using s by simp
    then have "of_int s \<le> (of_int 4194303 :: rat)" by (simp only: of_int_le_iff)
    then have s': "(0::rat) \<le> of_int s" "of_int s \<le> (4194303 :: rat)" using s by simp_all
    have z: "of_int s + 1 / 1000000000 - 1 / 9007199254740992 \<le> ?z" "?z \<le> of_int s + 1 - 1 / 1000000000 + 1 / 9007199254740992" "?z \<le> 4194304"
      using y' x s' by linarith+
    have "f64_range ?z" using z s' by (simp add: f64_range_def pow2_def)
    from fl_relative_error [OF this] have "\<bar>fl ?z - ?z\<bar> \<le> 4194304 / 9007199254740992" using z s' by simp
    then have "\<bar>fl ?z - ?z\<bar> \<le> 1 / 2147483648" by simp
    then have "of_int s \<le> fl ?z" "fl ?z < of_int s + 1" using z by linarith+
    then show ?thesis by (simp add: floor_eq_iff)
  qed
  moreover from this have "0 \<le> fl (of_int s + y)" using s by (metis zero_le_floor)
  ultimately show ?thesis
    by (simp add: whole_seconds_def Seconds_def f64_add_def f64_div_def q trunc_def y_def s_def [symmetric])
qed

lemma round_sec_exact: "0 < d \<Longrightarrow> d < 2 ^ 62 \<Longrightarrow> d mod sec = 0 \<Longrightarrow> round_sec d = d"
proof -
  assume d: "0 < d" "d < 2 ^ 62" "d mod sec = 0"
  then obtain k where k: "d = sec * k" by auto
  have "(sec * k + sec div 2) div sec = k" by simp
  then have "(\<bar>d\<bar> + sec div 2) div sec * sec = d" using d by (simp add: k)
  then show ?thesis using d by (simp add: round_sec_def)
qed

definition regular :: "(int \<Rightarrow> int) \<Rightarrow> int \<Rightarrow> int \<Rightarrow> bool" where
  "regular nxt t p \<longleftrightarrow> 0 < p \<and> p mod sec = 0 \<and> (\<forall>k \<ge> 0. nxt (t + k * p) = t + (k + 1) * p)"

lemma last_until_step:
  "cur < t \<Longrightarrow> last_until nxt cur t m = Some m"
  "\<not> cur < t \<Longrightarrow> last_until nxt cur t m = last_until nxt cur (nxt t) t"
  by (subst last_until.simps; simp)+

lemma most_recent_regular:
  assumes r: "regular nxt t1 p" and t1: "t1 = nxt (earliest_time cb)" and cur: "t1 \<le> cur" "cur - t1 < 2 ^ 22 * sec"
    and zero: "zero_time < t1"
  shows "mostRecentScheduleTime cb cur nxt
    = Some (earliest_time cb, Some (t1 + (cur - t1) div p * p), (cur - t1) div p + 1 > 100, False)"
proof -
  from r have p: "0 < p" "p mod sec = 0" and nxt: "\<And>k. 0 \<le> k \<Longrightarrow> nxt (t1 + k * p) = t1 + (k + 1) * p"
    by (auto simp: regular_def)
  have t2: "nxt t1 = t1 + p" using nxt [of 0] by simp
  show ?thesis
  proof (cases "cur < t1 + p")
    case True
    with cur p have "(cur - t1) div p = 0" by (intro div_pos_pos_trivial) simp_all
    with True cur t2 show ?thesis by (simp add: mostRecentScheduleTime_def Let_def t1 [symmetric])
  next
    case False
    define q where "q = (cur - t1) div p"
    have pb: "p < 2 ^ 22 * sec" using False cur by simp
    have subs: "time_sub (t1 + p) t1 = p" "time_sub cur t1 = cur - t1"
      using False cur p pb by (simp_all add: time_sub_def)
    have between: "whole_seconds (round_sec p) = p div sec"
      using p pb by (simp add: round_sec_exact whole_seconds_exact)
    obtain b where b: "p = sec * b" using p(2) by auto
    have b1: "1 \<le> b" using p(1) by (simp add: b)
    have elapsed: "whole_seconds (cur - t1) = (cur - t1) div sec" using cur by (intro whole_seconds_exact) simp_all
    have q: "go_quot ((cur - t1) div sec) (p div sec) = q"
      using cur p b1 by (simp add: go_quot_nonneg b q_def zdiv_zmult2_eq pos_imp_zdiv_nonneg_iff)
    have q1: "1 \<le> q" using zdiv_mono1 [of p "cur - t1" p] False p by (simp add: q_def)
    have pe: "(q + 1 - 1 - 1) * (p div sec) * sec = (q - 1) * p" by (simp add: b)
    have n1: "nxt (t1 + (q - 1) * p) = t1 + q * p" and n2: "nxt (t1 + q * p) = t1 + (q + 1) * p"
      using nxt [of "q - 1"] nxt [of q] q1 by simp_all
    have "q * p + (cur - t1) mod p = cur - t1" "0 \<le> (cur - t1) mod p" "(cur - t1) mod p < p"
      using p by (simp_all add: q_def)
    then have "q * p \<le> cur - t1" "cur - t1 < (q + 1) * p" by (simp_all add: distrib_right)
    then have loop: "last_until nxt cur (t1 + q * p) zero_time = Some (t1 + q * p)"
      by (simp add: last_until_step n2)
    have "t1 \<le> t1 + q * p" using q1 p by simp
    then have m: "t1 + q * p \<noteq> zero_time" using zero by linarith
    have b0: "\<not> p div sec < 1" using b1 by (simp add: b)
    show ?thesis
      unfolding mostRecentScheduleTime_def Let_def t1 [symmetric] t2 subs between elapsed q pe n1 loop
      using False cur b0 m by (simp add: q_def [symmetric])
  qed
qed


text \<open>
  Claim C36. A regular schedule is kept: when the controller comes back after at most 48 days, the time it picks is the
  latest time of the schedule that has passed, whatever number of runs was missed; once that time is recorded no other
  one is due, and the request comes back a tenth of a second after the next time of the schedule.
\<close>

theorem cron_schedule_kept:
  assumes "regular nxt t1 p" "t1 = nxt (earliest_time cb)" "t1 \<le> cur" "cur - t1 < 2 ^ 22 * sec" "zero_time < t1"
  shows "\<exists>m k. m = t1 + k * p \<and> 0 \<le> k \<and> m \<le> cur \<and> cur < m + p
     \<and> nextScheduleTime cb cur nxt = Some (Some m, False)
     \<and> nextScheduleTime (map_cs (\<lambda>s. s\<lparr>cs_last_schedule := Some m\<rparr>) cb) cur nxt = Some (None, False)
     \<and> nextScheduleTimeDuration (map_cs (\<lambda>s. s\<lparr>cs_last_schedule := Some m\<rparr>) cb) cur nxt
         = Some (time_sub (m + p + nextScheduleDelta) cur)"
proof -
  define k where "k = (cur - t1) div p"
  define m where "m = t1 + k * p"
  from assms(1) have p: "0 < p" and nxt: "0 \<le> k \<Longrightarrow> nxt m = m + p" by (auto simp: regular_def m_def distrib_right)
  have k: "0 \<le> k" using assms(3) p by (simp add: k_def pos_imp_zdiv_nonneg_iff)
  have "k * p + (cur - t1) mod p = cur - t1" "0 \<le> (cur - t1) mod p" "(cur - t1) mod p < p"
    using p by (simp_all add: k_def)
  then have m: "m \<le> cur" "cur < m + p" by (simp_all add: m_def)
  have first: "nextScheduleTime cb cur nxt = Some (Some m, False)"
    using most_recent_regular [OF assms] m(1) by (simp add: nextScheduleTime_def m_def k_def)
  have after: "mostRecentScheduleTime (map_cs (\<lambda>s. s\<lparr>cs_last_schedule := Some m\<rparr>) cb) cur nxt = Some (m, None, False, False)"
    using m nxt [OF k] by (simp add: mostRecentScheduleTime_def earliest_time_def map_cs_def Let_def)
  show ?thesis
    using k m first after nxt [OF k]
    by (intro exI [of _ m] exI [of _ k]) (simp add: m_def nextScheduleTime_def nextScheduleTimeDuration_def Let_def)
qed

definition hourly :: "int \<Rightarrow> int" where
  "hourly t = (t div (3600 * sec) + 1) * (3600 * sec)"

definition sample_cron :: cron_backup where
  "sample_cron =
     \<lparr>cb_api_version = '''', cb_kind = '''', cb_meta = (plain_meta ''ns'' ''cron'')\<lparr>om_created := 0\<rparr>, cb_schedule = ''0 * * * *'',
      cb_pause = None, cb_reserved = None,
      cb_template = \<lparr>bs_image = '''', bs_version = '''', bs_resources = no_resources, bs_env = [], bs_pull_policy = '''',
        bs_pull_secrets = [], bs_node_selector = [], bs_affinity = None, bs_tolerations = [], bs_init_containers = [],
        bs_sidecars = [], bs_volumes = [], bs_mounts = [], bs_clean = None, bs_auto_remove = None, bs_config = None\<rparr>,
      cb_status = \<lparr>cs_last_backup = '''', cs_last_schedule = None, cs_last_successful = None, cs_clean_time = None\<rparr>\<rparr>"

theorem cron_schedule_kept_witness:
  "nextScheduleTime sample_cron (5 * 3600 * sec + 7) hourly = Some (Some (5 * 3600 * sec), False)"
proof -
  have r: "regular hourly (3600 * sec) (3600 * sec)"
  proof -
    have "(3600 * sec + k * (3600 * sec)) div (3600 * sec) = k + 1" for k :: int
      using div_mult_self1 [of "3600 * sec" "3600 * sec" k] by simp
    then show ?thesis by (simp add: regular_def hourly_def distrib_right)
  qed
  have e: "earliest_time sample_cron = 0" by (simp add: earliest_time_def sample_cron_def)
  obtain m k where m: "m = 3600 * sec + k * (3600 * sec)" "m \<le> 5 * 3600 * sec + 7" "5 * 3600 * sec + 7 < m + 3600 * sec"
      "nextScheduleTime sample_cron (5 * 3600 * sec + 7) hourly = Some (Some m, False)"
    using cron_schedule_kept [OF r, of sample_cron "5 * 3600 * sec + 7"] by (auto simp: e hourly_def zero_time_def)
  then have "k = 4" by simp
  with m show ?thesis by simp
qed

text \<open>
  The first two times of a schedule are taken for its interval. When a longer gap follows, the
  search starts inside the gap and every run that was due is lost: here those at 10 and 20 seconds.
\<close>

definition irregular :: "int \<Rightarrow> int" where
  "irregular t = (if t < 10 * sec then 10 * sec else if t < 20 * sec then 20 * sec else (t div (1000 * sec) + 1) * (1000 * sec))"

lemma irregular_runs_lost: "nextScheduleTime sample_cron (900 * sec) irregular = Some (None, False)"
proof -
  have w: "whole_seconds (10 * sec) = 10" "whole_seconds (890 * sec) = 890"
    by (subst whole_seconds_exact; simp)+
  have "round_sec (10 * sec) = 10 * sec" by (simp add: round_sec_def)
  with w show ?thesis
    by (simp add: nextScheduleTime_def mostRecentScheduleTime_def earliest_time_def sample_cron_def irregular_def
        time_sub_def go_quot_def last_until_step Let_def)
qed

section \<open>What a run may create and delete\<close>

definition clock_read :: "env \<Rightarrow> int \<Rightarrow> call list \<Rightarrow> call list \<Rightarrow> bool" where
  "clock_read e t h0 h \<longleftrightarrow> (\<exists>a b. h = a @ Clock # b @ h0 \<and> e_clock e (Clock # b @ h0) = t)"

lemma clock_grows: "clock_read e t h0 h \<Longrightarrow> grows h h' \<Longrightarrow> clock_read e t h0 h'"
  unfolding clock_read_def grows_def by (metis append.assoc)

lemma guards_clock:
  assumes "guarded P h0 h" "P Clock h" "\<And>t. clock_read e t h0 (Clock # h) \<Longrightarrow> Q (Ok t) (Clock # h)"
  shows "guards P h0 Q (now e) h"
proof -
  obtain b where "h = b @ h0" using guarded_grows [OF assms(1)] by blast
  then have "clock_read e (e_clock e (Clock # h)) h0 (Clock # h)"
    unfolding clock_read_def by (intro exI [of _ "[]"] exI [of _ b]) simp
  with assms show ?thesis by (auto simp: guards_def wp_simps guarded_cons)
qed

definition no_create :: "call list \<Rightarrow> call list \<Rightarrow> bool" where
  "no_create h0 h \<longleftrightarrow> (\<exists>new. h = new @ h0 \<and> (\<forall>c \<in> set new. \<forall>b. c \<noteq> BackupCall (CreateBackupC b)))"

lemma no_create_refl [simp]: "no_create h h"
  by (simp add: no_create_def)

lemma no_create_cons [simp]: "no_create h0 h \<Longrightarrow> (\<And>b. c \<noteq> BackupCall (CreateBackupC b)) \<Longrightarrow> no_create h0 (c # h)"
  unfolding no_create_def by (elim exE) (rule_tac x = "c # new" in exI, auto)

definition last_over :: "env \<Rightarrow> cron_backup \<Rightarrow> call list \<Rightarrow> call list \<Rightarrow> bool" where
  "last_over e cb h0 h \<longleftrightarrow> cs_last_backup (cb_status cb) = '''' \<or>
     (\<exists>r. asked (b_backup (e_bk e)) (BackupCall (GetBackupC (cb_ns cb) (cs_last_backup (cb_status cb)))) r h0 h
        \<and> (r = Err ErrNotFound \<or> (\<exists>b. r = Ok b \<and> (IsBackupComplete b \<or> IsBackupFailed b))))"

definition may_create :: "env \<Rightarrow> cron_backup \<Rightarrow> call list \<Rightarrow> nebula_backup \<Rightarrow> call list \<Rightarrow> bool" where
  "may_create e cb h0 b h \<longleftrightarrow> om_deletion (cb_meta cb) = None \<and> \<not> deref_or False (cb_pause cb) \<and> no_create h0 h
     \<and> last_over e cb h0 h
     \<and> (\<exists>t nxt s. clock_read e t h0 h \<and> b_next_schedule (e_bk e) (cb_schedule cb) = Some nxt
          \<and> nextScheduleTime cb t nxt = Some (Some s, False) \<and> bk_name b = getBackupName e (cb_name cb) s)"

definition may_delete :: "env \<Rightarrow> cron_backup \<Rightarrow> call list \<Rightarrow> nebula_backup \<Rightarrow> call list \<Rightarrow> bool" where
  "may_delete e cb h0 b h \<longleftrightarrow> (\<exists>d s t q qs. cb_reserved cb = Some d \<and> e_duration e d = Some s \<and> clock_read e t h0 h
     \<and> asked (b_backups (e_bk e)) (BackupCall (ListBackupsC (cb_ns cb) (label_CronJob (cb_name cb) label_New))) (Ok qs) h0 h
     \<and> q \<in> set qs \<and> removable q \<and> unix (om_created (bk_meta q)) < unix (t - s)
     \<and> asked (b_backup (e_bk e)) (BackupCall (GetBackupC (bk_ns q) (bk_name q))) (Ok b) h0 h)"

definition cron_rule :: "env \<Rightarrow> cron_backup \<Rightarrow> call list \<Rightarrow> call \<Rightarrow> call list \<Rightarrow> bool" where
  "cron_rule e cb h0 c h \<longleftrightarrow>
     (case c of
        BackupCall (CreateBackupC b) \<Rightarrow> may_create e cb h0 b h
      | BackupCall (DeleteBackupC b) \<Rightarrow> may_delete e cb h0 b h
      | _ \<Rightarrow> True)"

fun quiet_call :: "call \<Rightarrow> bool" where
  "quiet_call (BackupCall c) = (case c of CreateBackupC _ \<Rightarrow> False | DeleteBackupC _ \<Rightarrow> False | _ \<Rightarrow> True)"
| "quiet_call _ = True"

lemma quiet_rule: "quiet_call c \<Longrightarrow> cron_rule e cb h0 c h"
  by (cases c rule: quiet_call.cases) (auto simp: cron_rule_def split: backup_call.splits)

lemma quiet_guarded:
  assumes "emits quiet_call m" "guarded (cron_rule e cb h0) h0 h"
  shows "guards (cron_rule e cb h0) h0 (\<lambda>_ _. True) m h"
  by (rule guards_emits [OF assms(1) quiet_rule assms(2)]) simp_all

lemma emits_retry_on_error: "emits P m \<Longrightarrow> emits P (retry_on_error n m)"
  by (induction n) (auto intro!: emits)

lemma status_quiet: "emits quiet_call (UpdateCronBackupStatus e cb)"
  unfolding UpdateCronBackupStatus_def GetCronBackup_def
  by (intro emits_retry_on_error emits) simp_all


definition same_plan :: "cron_backup \<Rightarrow> cron_backup \<Rightarrow> bool" where
  "same_plan cb cb' \<longleftrightarrow> cb_meta cb' = cb_meta cb \<and> cb_pause cb' = cb_pause cb \<and> cb_schedule cb' = cb_schedule cb
     \<and> cb_reserved cb' = cb_reserved cb"

lemma same_plan_map [simp]: "same_plan cb (map_cs f cb') \<longleftrightarrow> same_plan cb cb'"
  by (simp add: same_plan_def map_cs_def)

lemma same_plan_refl [simp]: "same_plan cb cb"
  by (simp add: same_plan_def)

lemma later_success_schedule: "cs_last_schedule (later_success t s) = cs_last_schedule s"
  by (simp add: later_success_def Let_def split: option.split)

lemma canPerform_guarded:
  assumes h: "guarded (cron_rule e cb h0) h0 h" "no_create h0 h"
  shows "guards (cron_rule e cb h0) h0 (\<lambda>r g. no_create h0 g \<and> (\<forall>cb' x. r = Ok (cb', x) \<longrightarrow>
     same_plan cb cb' \<and> earliest_time cb' = earliest_time cb \<and> (\<forall>u. x = Ok u \<longrightarrow> last_over e cb h0 g)))
     (canPerformNextBackup e cb) h"
proof (cases "cs_last_backup (cb_status cb) = ''''")
  case True
  then show ?thesis using h by (simp add: canPerformNextBackup_def guards_return last_over_def)
next
  case False
  let ?c = "BackupCall (GetBackupC (cb_ns cb) (cs_last_backup (cb_status cb)))"
  have et: "earliest_time (map_cs (later_success t) cb) = earliest_time cb" for t
    by (simp add: earliest_time_def map_cs_def later_success_schedule split: option.split)
  show ?thesis
    unfolding canPerformNextBackup_def GetNebulaBackup_def
  proof (simp only: False if_False, rule guards_bind [OF guards_send [where Q = "\<lambda>r g. asked (b_backup (e_bk e)) ?c r h0 g \<and> no_create h0 g"]])
    fix r g
    assume g: "guarded (cron_rule e cb h0) h0 g" "asked (b_backup (e_bk e)) ?c r h0 g \<and> no_create h0 g"
    then have "r = Err ErrNotFound \<Longrightarrow> last_over e cb h0 g" "\<And>b. r = Ok b \<Longrightarrow> IsBackupComplete b \<or> IsBackupFailed b \<Longrightarrow> last_over e cb h0 g"
      by (auto simp: last_over_def)
    with g show "guards (cron_rule e cb h0) h0 (\<lambda>r g. no_create h0 g \<and> (\<forall>cb' x. r = Ok (cb', x) \<longrightarrow>
       same_plan cb cb' \<and> earliest_time cb' = earliest_time cb \<and> (\<forall>u. x = Ok u \<longrightarrow> last_over e cb h0 g)))
       (handle (\<lambda>x. ret (cb, if x = ErrNotFound then Ok () else Err x))
               (\<lambda>b. if IsBackupComplete b \<or> IsBackupFailed b
                    then ret (map_cs (later_success (bt_completed (bk_status b))) cb, Ok ())
                    else ret (cb, Err (ErrReconcile ''the last backup is still running''))) r) g"
      by (intro guards_handle guards_if guards_return) (auto simp: et)
  qed (use h in \<open>simp_all add: quiet_rule\<close>)
qed

lemma guards_diverge:
  assumes "guarded P h0 h" "\<And>x. r = Some x \<Longrightarrow> guards P h0 Q (k x) h" "Q Panic h"
  shows "guards P h0 Q (or_diverge r \<bind> ok k) h"
  using assms by (cases r) (auto simp: or_diverge_def guards_def wp_simps)

lemma plan_guarded:
  assumes h: "guarded (cron_rule e cb h0) h0 h" "no_create h0 h" "last_over e cb h0 h"
    and cb: "om_deletion (cb_meta cb) = None" "\<not> deref_or False (cb_pause cb)" "same_plan cb cb'" "earliest_time cb' = earliest_time cb"
    and t: "clock_read e t h0 h" "b_next_schedule (e_bk e) (cb_schedule cb) = Some nxt"
  shows "guards (cron_rule e cb h0) h0 (\<lambda>r _. \<forall>cb'' x. r = Ok (cb'', x) \<longrightarrow> same_plan cb cb'') (plan_backup e cb' t nxt) h"
proof -
  have same: "nextScheduleTime cb' t nxt = nextScheduleTime cb t nxt"
    using cb(4) by (simp add: nextScheduleTime_def mostRecentScheduleTime_def)
  have create: "cron_rule e cb h0 (BackupCall (CreateBackupC (buildBackup e cb' s))) h"
    if "nextScheduleTime cb t nxt = Some (Some s, False)" for s
    using that h cb t by (auto simp: cron_rule_def may_create_def buildBackup_def same_plan_def plain_meta_def)
  have made: "guards (cron_rule e cb h0) h0 (\<lambda>_ _. True) (createBackup e cb' s) h"
    if "nextScheduleTime cb t nxt = Some (Some s, False)" for s
    unfolding createBackup_def CreateNebulaBackup_def
    by (intro guards_bind [OF guards_bind [OF guards_send [where Q = "\<lambda>_ _. True"]]] guards_handle guards_ok guards_return create that)
       (use h in \<open>auto split: go_err.split intro: guards_return\<close>)
  show ?thesis
    unfolding plan_backup_def same
    using h(1) cb(3)
    by (auto simp: Let_def intro!: guards_diverge guards_return guards_bind [OF made] guards_handle split: option.split)
qed

lemma Sync_guarded:
  "guards (cron_rule e cb h) h (\<lambda>r _. \<forall>cb' x. r = Ok (cb', x) \<longrightarrow> same_plan cb cb') (cron_Sync e cb) h"
  unfolding cron_Sync_def
proof (intro guards_if)
  assume cb: "\<not> om_deletion (cb_meta cb) \<noteq> None" "\<not> deref_or False (cb_pause cb)"
  let ?Q = "\<lambda>r (_ :: call list). \<forall>cb' x. r = Ok (cb', x) \<longrightarrow> same_plan cb cb'"
  show "guards (cron_rule e cb h) h ?Q (canPerformNextBackup e cb \<bind> ok (\<lambda>(cb, r).
      case r of Err x \<Rightarrow> ret (cb, Err x) | Panic \<Rightarrow> panic
      | Ok _ \<Rightarrow> now e \<bind> ok (\<lambda>t. case b_next_schedule (e_bk e) (cb_schedule cb) of
                   None \<Rightarrow> ret (cb, Ok None) | Some nxt \<Rightarrow> plan_backup e cb t nxt))) h"
  proof (rule guards_bind [OF canPerform_guarded], simp, simp, rule guards_ok, simp)
    fix r g p
    assume g: "guarded (cron_rule e cb h) h g" and f: "no_create h g \<and> (\<forall>cb' x. r = Ok (cb', x) \<longrightarrow>
       same_plan cb cb' \<and> earliest_time cb' = earliest_time cb \<and> (\<forall>u. x = Ok u \<longrightarrow> last_over e cb h g))" and r: "r = Ok p"
    obtain cb' x where p: "p = (cb', x)" by (cases p)
    from f r p have same: "same_plan cb cb'" "earliest_time cb' = earliest_time cb" and over: "\<And>u. x = Ok u \<Longrightarrow> last_over e cb h g"
      and nc: "no_create h g" by auto
    have tick: "guards (cron_rule e cb h) h ?Q (now e \<bind> ok (\<lambda>t. case b_next_schedule (e_bk e) (cb_schedule cb') of
                   None \<Rightarrow> ret (cb', Ok None) | Some nxt \<Rightarrow> plan_backup e cb' t nxt)) g" if "x = Ok u" for u
    proof (rule guards_bind [OF guards_clock [where Q = "\<lambda>r g'. (\<exists>t. r = Ok t \<and> clock_read e t h g') \<and> no_create h g' \<and> last_over e cb h g'"]])
      fix r g'
      assume g': "guarded (cron_rule e cb h) h g'" and f': "(\<exists>t. r = Ok t \<and> clock_read e t h g') \<and> no_create h g' \<and> last_over e cb h g'"
      have sched: "cb_schedule cb' = cb_schedule cb" using same by (simp add: same_plan_def)
      have "guards (cron_rule e cb h) h ?Q (case b_next_schedule (e_bk e) (cb_schedule cb') of
                   None \<Rightarrow> ret (cb', Ok None) | Some nxt \<Rightarrow> plan_backup e cb' t nxt) g'" if "r = Ok t" for t
      proof (cases "b_next_schedule (e_bk e) (cb_schedule cb)")
        case None
        then show ?thesis using g' same(1) by (simp add: sched guards_return)
      next
        case (Some nxt)
        have "guards (cron_rule e cb h) h ?Q (plan_backup e cb' t nxt) g'"
          by (rule plan_guarded) (use g' f' that cb same Some in auto)
        with Some show ?thesis by (simp add: sched)
      qed
      then show "guards (cron_rule e cb h) h ?Q (ok (\<lambda>t. case b_next_schedule (e_bk e) (cb_schedule cb') of
                   None \<Rightarrow> ret (cb', Ok None) | Some nxt \<Rightarrow> plan_backup e cb' t nxt) r) g'"
        using f' by (intro guards_ok g') auto
    qed (use g over [OF that] nc in \<open>auto simp: quiet_rule last_over_def intro: asked_cons\<close>)
    show "guards (cron_rule e cb h) h ?Q (case p of (cb, r) \<Rightarrow>
      case r of Err x \<Rightarrow> ret (cb, Err x) | Panic \<Rightarrow> panic
      | Ok _ \<Rightarrow> now e \<bind> ok (\<lambda>t. case b_next_schedule (e_bk e) (cb_schedule cb) of
                   None \<Rightarrow> ret (cb, Ok None) | Some nxt \<Rightarrow> plan_backup e cb t nxt)) g"
      using tick g same by (cases x) (auto simp: p intro!: guards_return)
  qed simp_all
qed (simp_all add: guards_return)


lemma set_insert_backup: "set (insert_backup b bs) = insert b (set bs)"
  by (induction bs) auto

lemma set_sorted: "set (sortBackupsByAscOrder bs) = {b \<in> set bs. removable b}"
  by (induction bs) (auto simp: sortBackupsByAscOrder_def set_insert_backup)

lemma expired_facts:
  "q \<in> set (calculateExpiredBackups t (sortBackupsByAscOrder bs) s) \<Longrightarrow>
   q \<in> set bs \<and> removable q \<and> unix (om_created (bk_meta q)) < unix (t - s)"
  unfolding calculateExpiredBackups_def by (drule set_takeWhileD) (simp add: set_sorted)

abbreviation listed :: "env \<Rightarrow> cron_backup \<Rightarrow> nebula_backup list \<Rightarrow> call list \<Rightarrow> call list \<Rightarrow> bool" where
  "listed e cb qs h0 h \<equiv>
     asked (b_backups (e_bk e)) (BackupCall (ListBackupsC (cb_ns cb) (label_CronJob (cb_name cb) label_New))) (Ok qs) h0 h"

lemma worker_guarded:
  assumes h: "guarded (cron_rule e cb h0) h0 h" and facts: "cb_reserved cb = Some d" "e_duration e d = Some s"
    "clock_read e t h0 h" "listed e cb qs h0 h" and q: "q \<in> set (calculateExpiredBackups t (sortBackupsByAscOrder qs) s)"
  shows "guards (cron_rule e cb h0) h0 (\<lambda>_ _. True) (expire_worker e q u) h"
proof -
  have del: "guards (cron_rule e cb h0) h0 (\<lambda>_ _. True) (DeleteNebulaBackup e (bk_ns q) (bk_name q)) h"
    unfolding DeleteNebulaBackup_def GetNebulaBackup_def
  proof (rule guards_bind_send [OF h quiet_rule], simp)
    fix r g
    assume g: "guarded (cron_rule e cb h0) h0 g" "grows h g"
      and r: "asked (b_backup (e_bk e)) (BackupCall (GetBackupC (bk_ns q) (bk_name q))) r h0 g"
    have "cron_rule e cb h0 (BackupCall (DeleteBackupC b)) g" if "r = Ok b" for b
      unfolding cron_rule_def may_delete_def
      using facts expired_facts [OF q] r that clock_grows [OF facts(3) g(2)] asked_grows [OF facts(4) g(2)]
      by (simp only: call.case backup_call.case) blast
    then show "guards (cron_rule e cb h0) h0 (\<lambda>_ _. True) (handle (\<lambda>x. if x = ErrNotFound then ret () else throw x)
         (\<lambda>b. send (e_done e) (BackupCall (DeleteBackupC b))) r) g"
      using g(1) by (intro guards_handle guards_if guards_return guards_send) simp_all
  qed
  show ?thesis
    unfolding expire_worker_def by (intro guards_if guards_return h guards_bind [OF del] guards_handle) simp_all
qed

lemma workers_guarded:
  assumes "guarded (cron_rule e cb h0) h0 h" "cb_reserved cb = Some d" "e_duration e d = Some s"
    "clock_read e t h0 h" "listed e cb qs h0 h" "set ys \<subseteq> set (calculateExpiredBackups t (sortBackupsByAscOrder qs) s)"
  shows "guards (cron_rule e cb h0) h0 (\<lambda>_ _. True) (run_workers (expire_worker e) ys u errs) h"
  using assms
proof (induction ys arbitrary: h u errs)
  case (Cons y ys)
  have y: "guards (cron_rule e cb h0) h0 (\<lambda>_ _. True) (expire_worker e y u) h"
    using Cons.prems by (intro worker_guarded) auto
  show ?case
    unfolding run_workers.simps
  proof (rule guards_bind [OF y])
    fix r g
    assume g: "guarded (cron_rule e cb h0) h0 g" "grows h g"
    have "guards (cron_rule e cb h0) h0 (\<lambda>_ _. True) (run_workers (expire_worker e) ys a es) g" for a es
      using Cons.prems g by (intro Cons.IH) (auto intro: clock_grows asked_grows)
    then show "guards (cron_rule e cb h0) h0 (\<lambda>_ _. True) (ok (\<lambda>(a', r). run_workers (expire_worker e) ys a'
        (case r of None \<Rightarrow> errs | Some y \<Rightarrow> errs @ [y])) r) g"
      using g(1) by (auto intro!: guards_ok)
  qed
qed (simp add: guards_return)

lemma cleanup_guarded:
  assumes h: "guarded (cron_rule e cb h0) h0 h" and cb: "same_plan cb cb'" and qs: "listed e cb qs h0 h"
  shows "guards (cron_rule e cb h0) h0 (\<lambda>_ _. True) (cleanupFinishedBackups e cb' qs) h"
proof -
  have work: "guards (cron_rule e cb h0) h0 (\<lambda>_ _. True)
      (run_workers (expire_worker e) (calculateExpiredBackups t (sortBackupsByAscOrder qs) s) () [] \<bind> ok group_wait) g"
    if "guarded (cron_rule e cb h0) h0 g" "cb_reserved cb = Some d" "e_duration e d = Some s" "clock_read e t h0 g" "listed e cb qs h0 g" for d s t g
    unfolding group_wait_def
    by (rule guards_bind [OF workers_guarded [OF that]]) (auto intro!: guards_ok guards_return)
  have r: "cb_reserved cb' = cb_reserved cb" using cb by (simp add: same_plan_def)
  show ?thesis
  proof (cases "\<exists>d s. cb_reserved cb = Some d \<and> e_duration e d = Some s")
    case True
    then obtain d s where d: "cb_reserved cb = Some d" "e_duration e d = Some s" by blast
    show ?thesis
      unfolding cleanupFinishedBackups_def r d option.case
      by (rule guards_bind [OF guards_clock [where Q = "\<lambda>r g. (\<exists>t. r = Ok t \<and> clock_read e t h0 g) \<and> listed e cb qs h0 g"]])
         (auto simp: Let_def quiet_rule h intro: asked_cons qs intro!: guards_ok guards_if guards_return guards_handle guards_bind [OF work] d)
  qed (auto simp: cleanupFinishedBackups_def r guards_return h split: option.split)
qed

lemma UpdateCron_guarded: "guards (cron_rule e cb h) h (\<lambda>_ _. True) (UpdateCronBackup e cb) h"
proof -
  let ?G = "guards (cron_rule e cb h) h (\<lambda>_ _. True)"
  have tail: "?G ((if cleaned then now e \<bind> ok (\<lambda>t. let cb = map_cs (\<lambda>s. s\<lparr>cs_clean_time := Some t\<rparr>) cb'
                 in UpdateCronBackupStatus e cb \<bind> ok (\<lambda>_. ret cb)) else ret cb') \<bind> ok (\<lambda>cb.
           (if deref_or False (cb_pause cb) \<and> requeueAfter = None then calculateExpirationTime e cb backups
            else ret requeueAfter) \<bind> ok (requeue_cron e cb))) g"
    if "guarded (cron_rule e cb h) h g" for cleaned cb' requeueAfter backups g
    by (rule quiet_guarded [OF _ that])
       (auto simp: Let_def calculateExpirationTime_def requeue_cron_def intro!: emits status_quiet split: option.split list.split)
  have rest: "?G (getBackupsToBeReconciled e cb' \<bind> ok (\<lambda>backups.
           cleanupFinishedBackups e cb' backups \<bind> ok (\<lambda>cleaned.
           (if cleaned then now e \<bind> ok (\<lambda>t. let cb = map_cs (\<lambda>s. s\<lparr>cs_clean_time := Some t\<rparr>) cb'
                 in UpdateCronBackupStatus e cb \<bind> ok (\<lambda>_. ret cb)) else ret cb') \<bind> ok (\<lambda>cb.
           (if deref_or False (cb_pause cb) \<and> requeueAfter = None then calculateExpirationTime e cb backups
            else ret requeueAfter) \<bind> ok (requeue_cron e cb))))) g"
    if g: "guarded (cron_rule e cb h) h g" and same: "same_plan cb cb'" for cb' requeueAfter g
  proof -
    have meta: "cb_meta cb' = cb_meta cb" using same by (simp add: same_plan_def)
    show ?thesis
      unfolding getBackupsToBeReconciled_def ListNebulaBackups_def meta
      by (rule guards_bind_send [OF g quiet_rule], simp)
         (intro guards_ok guards_bind [OF cleanup_guarded [OF _ same]] tail; simp)
  qed
  show ?thesis
    unfolding UpdateCronBackup_def
  proof (rule guards_bind [OF Sync_guarded], rule guards_ok)
    fix r g and p :: "cron_backup \<times> int option outcome"
    assume g: "guarded (cron_rule e cb h) h g" and f: "\<forall>cb' x. r = Ok (cb', x) \<longrightarrow> same_plan cb cb'" "r = Ok p"
    obtain cb' x where p: "p = (cb', x)" by (cases p)
    with f have same: "same_plan cb cb'" by simp
    have err: "?G (UpdateCronBackupStatus e cb' \<bind> ok (\<lambda>_. throw y)) g" for y
      by (rule quiet_guarded [OF _ g]) (intro emits status_quiet)
    show "?G (case p of (cb, r) \<Rightarrow>
       case r of
         Panic \<Rightarrow> panic
       | Err x \<Rightarrow> UpdateCronBackupStatus e cb \<bind> ok (\<lambda>_. throw x)
       | Ok requeueAfter \<Rightarrow>
           getBackupsToBeReconciled e cb \<bind> ok (\<lambda>backups.
           cleanupFinishedBackups e cb backups \<bind> ok (\<lambda>cleaned.
           (if cleaned
            then now e \<bind> ok (\<lambda>t.
                 let cb = map_cs (\<lambda>s. s\<lparr>cs_clean_time := Some t\<rparr>) cb
                 in UpdateCronBackupStatus e cb \<bind> ok (\<lambda>_. ret cb))
            else ret cb) \<bind> ok (\<lambda>cb.
           (if deref_or False (cb_pause cb) \<and> requeueAfter = None then calculateExpirationTime e cb backups
            else ret requeueAfter) \<bind> ok (requeue_cron e cb))))) g"
      using rest [OF g same] err g by (cases x) (simp_all add: p guards_return)
  qed simp_all
qed

text \<open>
  Claim C37. One reconciliation of a cron backup, whatever the servers answer, creates at most one backup, only while the
  cron backup is neither deleted nor paused, only after the last backup was found missing, complete or failed in this run, and
  for the time of the schedule that is due at the clock reading. It deletes only backups that were listed in this run as
  complete or failed, were not being deleted, and are older than the time they are to be kept.
\<close>

theorem cron_run_guarded:
  "guarded (cron_rule e cb h) h (snd (run_state (UpdateCronBackup e cb) h))"
  by (rule guards_run [OF UpdateCron_guarded])

end
