(* ===== verification/RestoreTools.thy ===== *)
theory RestoreTools
  imports Backup
begin

text \<open>
  What a restore is made of: addresses and URIs (\<open>pkg/util/restore/restore.go\<close>), the flat views of a
  backup and of the answer of the meta service (\<open>flatten.go\<close>), the hosts of a cluster (\<open>hosts.go\<close>),
  the choice of data paths (\<open>selector.go\<close>), the conditions of a restore
  (\<open>pkg/util/condition/restore_condition.go\<close>), its client (\<open>pkg/kube/nebularestore.go\<close>) and the agents
  beside the services (\<open>pkg/nebula/agent.go\<close>).
\<close>

section \<open>Addresses\<close>

text \<open>\<open>strings.Split(s, c)\<close> for a separator of one character.\<close>

fun split_on :: "char \<Rightarrow> string \<Rightarrow> string list" where
  "split_on c [] = [[]]"
| "split_on c (x # s) =
     (if x = c then [] # split_on c s
      else case split_on c s of [] \<Rightarrow> [[x]] | w # ws \<Rightarrow> (x # w) # ws)"

definition StringifyAddr :: "host_addr \<Rightarrow> string" where
  "StringifyAddr a = fst a @ '':'' @ show_int (snd a)"

definition ParseAddr :: "string \<Rightarrow> host_addr outcome" where
  "ParseAddr s =
     (case split_on CHR '':'' s of
        [host, port] \<Rightarrow>
          (case parse_int 32 port of
             None \<Rightarrow> Err (ErrPlain ''strconv.ParseInt'')
           | Some p \<Rightarrow> Ok (host, p))
      | _ \<Rightarrow> Err (ErrPlain ''invalid address format''))"

lemma split_on_free: "c \<notin> set s \<Longrightarrow> split_on c s = [s]"
  by (induction s) auto

lemma split_on_sep: "c \<notin> set a \<Longrightarrow> split_on c (a @ c # b) = a # split_on c b"
  by (induction a) auto

lemma colon_not_in_show_int: "CHR '':'' \<notin> set (show_int i)"
  using show_nat_digits [of "nat i"] show_nat_digits [of "nat (- i)"]
  by (auto simp: show_int_def list_all_iff is_digit_def)

section \<open>Paths and URIs\<close>

text \<open>
  \<open>path.Clean\<close> on the elements of a path: empty elements and dots go, two dots take the element before
  them away (at the root nothing). \<open>done\<close> is what is kept, the last element first.
\<close>

fun clean_parts :: "bool \<Rightarrow> string list \<Rightarrow> string list \<Rightarrow> string list" where
  "clean_parts rooted kept [] = rev kept"
| "clean_parts rooted kept (p # ps) =
     (if p = '''' \<or> p = ''.'' then clean_parts rooted kept ps
      else if p = ''..'' then
        (case kept of
           [] \<Rightarrow> clean_parts rooted (if rooted then [] else [''..'']) ps
         | k # ks \<Rightarrow> clean_parts rooted (if k = ''..'' then ''..'' # kept else ks) ps)
      else clean_parts rooted (p # kept) ps)"

definition path_clean :: "string \<Rightarrow> string" where
  "path_clean s =
     (let rooted = (take 1 s = ''/'');
          r = (if rooted then ''/'' else '''') @ join ''/'' (clean_parts rooted [] (split_on CHR ''/'' s))
      in if r = '''' then ''.'' else r)"

definition path_join :: "string list \<Rightarrow> string" where
  "path_join ps =
     (case filter (\<lambda>p. p \<noteq> '''') ps of [] \<Rightarrow> '''' | qs \<Rightarrow> path_clean (join ''/'' qs))"

definition UriJoin :: "env \<Rightarrow> string list \<Rightarrow> string outcome" where
  "UriJoin e ps =
     (case ps of
        [] \<Rightarrow> Err (ErrPlain ''empty paths'')
      | [p] \<Rightarrow> Ok p
      | p # rest \<Rightarrow>
          (case r_url (e_rs e) p of
             None \<Rightarrow> Err (ErrPlain ''parse base uri failed'')
           | Some (path, render) \<Rightarrow> Ok (render (path_join (path # rest)))))"

text \<open>Most callers drop the error and go on with the empty string.\<close>

definition uri_or_empty :: "env \<Rightarrow> string list \<Rightarrow> string" where
  "uri_or_empty e ps = (case UriJoin e ps of Ok u \<Rightarrow> u | _ \<Rightarrow> '''')"

section \<open>Flat views\<close>

record part_info =
  pi_space :: string
  pi_part :: string
  pi_host :: host_addr
  pi_data_path :: string
  pi_checkpoint :: string
  pi_commit_log :: int
  pi_last_log :: int

definition GenPartKey :: "string \<Rightarrow> string \<Rightarrow> string" where
  "GenPartKey spaceId partId = spaceId @ ''-'' @ partId"

definition GenDataPathKey :: "host_addr \<Rightarrow> string \<Rightarrow> string" where
  "GenDataPathKey host partKey = StringifyAddr host @ ''-'' @ partKey"

definition FlattenBackupMeta :: "backup_meta \<Rightarrow> (string \<times> part_info) list" where
  "FlattenBackupMeta b =
     fold (\<lambda>p. AList.update (GenPartKey (show_int (bp_space p)) (show_int (bp_part p)))
         \<lparr>pi_space = show_int (bp_space p), pi_part = show_int (bp_part p), pi_host = bp_host p,
          pi_data_path = bp_data_path p, pi_checkpoint = bp_checkpoint p,
          pi_commit_log = bp_commit_log p, pi_last_log = bp_last_log p\<rparr>)
       (bm_parts b) []"

definition FlattenRestoreMeta :: "meta_resp \<Rightarrow> (string \<times> host_addr list) list" where
  "FlattenRestoreMeta resp =
     fold (\<lambda>(sid, parts). fold (\<lambda>(pid, hosts). AList.update (GenPartKey (show_int sid) (show_int pid)) hosts) parts)
       (mr_part_hosts resp) []"

section \<open>The hosts of a cluster\<close>

text \<open>Services by host. A host none of whose services is kept has no entry.\<close>

definition LoadFrom :: "meta_resp \<Rightarrow> (string \<times> service_info list) list outcome" where
  "LoadFrom resp =
     (if mr_code resp \<noteq> SUCCEEDED then Err (ErrPlain ''response is not successful'')
      else
        let hosts = filter (\<lambda>(h, ss). ss \<noteq> [])
              (map (\<lambda>(h, ss). (h, filter (\<lambda>s. si_role s \<noteq> OtherRole) ss)) (mr_services resp))
        in if list_ex (\<lambda>(h, ss). length (filter (\<lambda>s. si_role s = AgentRole) ss) > 1) hosts
           then Err (ErrPlain ''there are more than one agent in host'')
           else Ok hosts)"

definition services_of :: "host_role \<Rightarrow> (string \<times> service_info list) list \<Rightarrow> service_info list" where
  "services_of r hosts = concat (map (\<lambda>(h, ss). filter (\<lambda>s. si_role s = r) ss) hosts)"

definition GetMetas :: "(string \<times> service_info list) list \<Rightarrow> service_info list" where
  "GetMetas = services_of MetaRole"

definition GetStorages :: "(string \<times> service_info list) list \<Rightarrow> service_info list" where
  "GetStorages = services_of StorageRole"

abbreviation si_data :: "service_info \<Rightarrow> string list" where
  "si_data s \<equiv> (case si_dir s of None \<Rightarrow> [] | Some (dir, data) \<Rightarrow> data)"

abbreviation si_root :: "service_info \<Rightarrow> string" where
  "si_root s \<equiv> (case si_dir s of None \<Rightarrow> '''' | Some (dir, data) \<Rightarrow> dir)"

section \<open>Choosing data paths in turn\<close>

record path_selector =
  ps_paths :: "string list"
  ps_index :: nat

definition NewPathSelector :: "string list \<Rightarrow> path_selector" where
  "NewPathSelector paths = \<lparr>ps_paths = paths, ps_index = 0\<rparr>"

definition EvenlyGet :: "path_selector \<Rightarrow> (string \<times> path_selector) outcome" where
  "EvenlyGet p =
     (if ps_index p < length (ps_paths p)
      then Ok (ps_paths p ! ps_index p, p\<lparr>ps_index := (ps_index p + 1) mod length (ps_paths p)\<rparr>)
      else Panic)"

definition NewPathSelectorMap :: "service_info list \<Rightarrow> (string \<times> path_selector) list" where
  "NewPathSelectorMap storages =
     fold (\<lambda>s. AList.update (StringifyAddr (si_addr s)) (NewPathSelector (si_data s))) storages []"

text \<open>\<open>n\<close> choices in a row.\<close>

fun draws :: "nat \<Rightarrow> path_selector \<Rightarrow> string list outcome" where
  "draws 0 p = Ok []"
| "draws (Suc n) p =
     (case EvenlyGet p of
        Ok (x, p') \<Rightarrow> (case draws n p' of Ok xs \<Rightarrow> Ok (x # xs) | Err y \<Rightarrow> Err y | Panic \<Rightarrow> Panic)
      | Err y \<Rightarrow> Err y | Panic \<Rightarrow> Panic)"

section \<open>The conditions of a restore\<close>

definition getRestoreCondition :: "restore_status \<Rightarrow> restore_condition_type \<Rightarrow> (nat \<times> restore_condition) option" where
  "getRestoreCondition st t =
     List.find (\<lambda>(i, c). rc_type c = t) (enumerate 0 (rt_conditions st))"

definition is_restore :: "restore_condition_type \<Rightarrow> nebula_restore \<Rightarrow> bool" where
  "is_restore t r \<longleftrightarrow>
     (case getRestoreCondition (nr_status r) t of None \<Rightarrow> False | Some (_, c) \<Rightarrow> rc_status c = ''True'')"

definition IsRestoreInvalid :: "nebula_restore \<Rightarrow> bool" where "IsRestoreInvalid = is_restore RestoreInvalid"
definition IsRestoreMetadComplete :: "nebula_restore \<Rightarrow> bool" where "IsRestoreMetadComplete = is_restore RestoreMetadComplete"
definition IsRestoreStoragedComplete :: "nebula_restore \<Rightarrow> bool" where "IsRestoreStoragedComplete = is_restore RestoreStoragedCompleted"
definition IsRestoreComplete :: "nebula_restore \<Rightarrow> bool" where "IsRestoreComplete = is_restore RestoreComplete"
definition IsRestoreFailed :: "nebula_restore \<Rightarrow> bool" where "IsRestoreFailed = is_restore RestoreFailed"

definition UpdateNebulaRestoreCondition ::
    "int \<Rightarrow> restore_condition option \<Rightarrow> restore_status \<Rightarrow> restore_status \<times> bool" where
  "UpdateNebulaRestoreCondition t condition st =
     (case condition of
        None \<Rightarrow> (st, False)
      | Some c0 \<Rightarrow>
          let c = c0\<lparr>rc_transition_time := t\<rparr>
          in case getRestoreCondition st (rc_type c) of
               None \<Rightarrow> (st\<lparr>rt_conditions := rt_conditions st @ [c]\<rparr>, True)
             | Some (i, old) \<Rightarrow>
                 let c = (if rc_status c = rc_status old then c\<lparr>rc_transition_time := rc_transition_time old\<rparr> else c);
                     isUpdate = (rc_status c = rc_status old \<and> rc_reason c = rc_reason old
                       \<and> rc_message c = rc_message old \<and> rc_transition_time c = rc_transition_time old)
                 in (st\<lparr>rt_conditions := (rt_conditions st)[i := c]\<rparr>, \<not> isUpdate))"

definition condition_of :: "restore_condition_type \<Rightarrow> string \<Rightarrow> restore_condition" where
  "condition_of t status =
     \<lparr>rc_type = t, rc_status = status, rc_update_time = zero_time, rc_transition_time = zero_time,
      rc_reason = '''', rc_message = ''''\<rparr>"

section \<open>The client of restores (nebularestore.go)\<close>

record restore_update =
  ru_started :: "int option"
  ru_completed :: "int option"
  ru_cluster :: "string option"
  ru_condition :: restore_condition_type
  ru_partitions :: "(string \<times> host_addr list) list"
  ru_checkpoints :: "(string \<times> string list) list"
  ru_meta_download :: bool
  ru_storage_download :: bool

definition no_restore_update :: restore_update where
  "no_restore_update =
     \<lparr>ru_started = None, ru_completed = None, ru_cluster = None, ru_condition = NoRestoreCondition,
      ru_partitions = [], ru_checkpoints = [], ru_meta_download = False, ru_storage_download = False\<rparr>"

text \<open>
  The phase is overwritten whenever it differs, and the tables whenever their sizes differ, also when the
  update does not mention them.
\<close>

definition updateRestoreStatus :: "restore_update option \<Rightarrow> restore_status \<Rightarrow> restore_status \<times> bool" where
  "updateRestoreStatus newStatus st =
     (case newStatus of
        None \<Rightarrow> (st, False)
      | Some n \<Rightarrow>
          (st\<lparr>rt_phase := ru_condition n,
              rt_cluster := (case ru_cluster n of Some x \<Rightarrow> x | None \<Rightarrow> rt_cluster st),
              rt_started := (case ru_started n of Some x \<Rightarrow> Some x | None \<Rightarrow> rt_started st),
              rt_completed := (case ru_completed n of Some x \<Rightarrow> Some x | None \<Rightarrow> rt_completed st),
              rt_partitions := (if length (rt_partitions st) \<noteq> length (ru_partitions n)
                                then ru_partitions n else rt_partitions st),
              rt_checkpoints := (if length (rt_checkpoints st) \<noteq> length (ru_checkpoints n)
                                 then ru_checkpoints n else rt_checkpoints st),
              rt_meta_download := (rt_meta_download st \<or> ru_meta_download n),
              rt_storage_download := (rt_storage_download st \<or> ru_storage_download n)\<rparr>,
           rt_phase st \<noteq> ru_condition n \<or> ru_cluster n \<noteq> None \<or> ru_started n \<noteq> None \<or> ru_completed n \<noteq> None
             \<or> length (rt_partitions st) \<noteq> length (ru_partitions n)
             \<or> length (rt_checkpoints st) \<noteq> length (ru_checkpoints n)
             \<or> ru_meta_download n \<or> ru_storage_download n))"

abbreviation nr_ns :: "nebula_restore \<Rightarrow> string" where "nr_ns r \<equiv> om_namespace (nr_meta r)"
abbreviation nr_name :: "nebula_restore \<Rightarrow> string" where "nr_name r \<equiv> om_name (nr_meta r)"

definition GetNebulaRestore :: "env \<Rightarrow> string \<Rightarrow> string \<Rightarrow> nebula_restore io" where
  "GetNebulaRestore e ns name = send (r_restore (e_rs e)) (RestoreCall (GetRestoreC ns name))"

definition update_restore_once ::
    "env \<Rightarrow> string \<Rightarrow> string \<Rightarrow> restore_condition option \<Rightarrow> restore_update option \<Rightarrow> unit io" where
  "update_restore_once e ns name condition newStatus =
     GetNebulaRestore e ns name \<bind> ok (\<lambda>live.
       (if condition = None then ret 0 else now e) \<bind> ok (\<lambda>t.
         let (st1, u1) = updateRestoreStatus newStatus (nr_status live);
             (st2, u2) = UpdateNebulaRestoreCondition t condition st1
         in if u1 \<or> u2 then send (e_done e) (RestoreCall (UpdateRestoreStatusC (live\<lparr>nr_status := st2\<rparr>))) else ret ()))"

definition UpdateNebulaRestoreStatus ::
    "env \<Rightarrow> nebula_restore \<Rightarrow> restore_condition option \<Rightarrow> restore_update option \<Rightarrow> unit io" where
  "UpdateNebulaRestoreStatus e r condition newStatus =
     OnError (update_restore_once e (nr_ns r) (nr_name r) condition newStatus)"

section \<open>Agents\<close>

text \<open>
  A restore works on the calls made so far and the hosts whose agents are connected. \<open>NewAgent\<close> sets the
  port of the address it is given through the pointer: the caller goes on with the address that is returned.
\<close>

type_synonym 'a rop = "(call list \<times> string list, 'a) go"

abbreviation agent_port :: int where "agent_port \<equiv> 8888"

definition NewAgent :: "env \<Rightarrow> host_addr \<Rightarrow> host_addr io" where
  "NewAgent e a =
     send (e_done e) (RestoreCall (AgentConnectC (fst a, agent_port))) \<bind> ok (\<lambda>_. ret (fst a, agent_port))"

definition connected :: "string list rop" where
  "connected = gets snd"

definition GetAgent :: "env \<Rightarrow> host_addr \<Rightarrow> host_addr rop" where
  "GetAgent e a =
     connected \<bind> ok (\<lambda>agents.
       if fst a \<in> set agents then ret a
       else world (NewAgent e a) \<bind> handle (\<lambda>_. throw (ErrPlain ''create agent failed'')) (\<lambda>a'.
              modify (\<lambda>(h, as). (h, as @ [fst a'])) \<bind> ok (\<lambda>_. ret a')))"

text \<open>A request to the agent of a host; \<open>None\<close> is the answer \<open>nil\<close>.\<close>

definition agent_rpc :: "env \<Rightarrow> string \<Rightarrow> agent_req \<Rightarrow> string option io" where
  "agent_rpc e host req = send (r_agent (e_rs e)) (RestoreCall (AgentRpcC (host, agent_port) req))"

definition agents_Close :: "env \<Rightarrow> unit rop" where
  "agents_Close e =
     connected \<bind> ok (\<lambda>agents.
       world (for_each (\<lambda>a. send (e_done e) (RestoreCall (AgentCloseC a)) \<bind> handle (\<lambda>_. ret ()) ret) agents) \<bind> ok (\<lambda>_.
       modify (\<lambda>(h, as). (h, []))))"

section \<open>What the meta service tells (meta_client.go)\<close>

fun map_go :: "('x \<Rightarrow> ('s, 'y) go) \<Rightarrow> 'x list \<Rightarrow> ('s, 'y list) go" where
  "map_go f [] = ret []"
| "map_go f (x # xs) = f x \<bind> ok (\<lambda>y. map_go f xs \<bind> ok (\<lambda>ys. ret (y # ys)))"

definition getMetaDirInfo :: "env \<Rightarrow> (string \<times> string list) option io" where
  "getMetaDirInfo e = send (r_meta_dir (e_rs e)) (RestoreCall MetaDirC)"

definition ListCluster :: "env \<Rightarrow> meta_resp io" where
  "ListCluster e =
     retryOnError e ListClusterReq \<bind> ok (\<lambda>resp.
       map_go (\<lambda>(h, ss). map_go (\<lambda>s.
           if si_role s = MetaRole then getMetaDirInfo e \<bind> ok (\<lambda>dir. ret (s\<lparr>si_dir := dir\<rparr>)) else ret s) ss
         \<bind> ok (\<lambda>ss'. ret (h, ss'))) (mr_services resp) \<bind> ok (\<lambda>services.
       ret (resp\<lparr>mr_services := services\<rparr>)))"

definition RestoreMeta :: "env \<Rightarrow> (host_addr \<times> host_addr) list \<Rightarrow> string list \<Rightarrow> meta_resp io" where
  "RestoreMeta e hosts files = retryOnError e (RestoreMetaReq hosts files)"

text \<open>
  \<open>ClientOptions\<close>: without SSL there is nothing to load. The certificates come from files or from
  secrets: one call.
\<close>

definition ClientOptions :: "env \<Rightarrow> nebula_cluster \<Rightarrow> unit io" where
  "ClientOptions e nc =
     (if \<not> IsMetadSSLEnabled nc \<and> \<not> IsClusterSSLEnabled nc \<and> \<not> IsStoragedSSLEnabled nc then ret ()
      else if sp_ssl (nc_spec nc) = None then throw (ErrPlain ''ssl certs is nil'')
      else send (e_done e) (RestoreCall (LoadCertsC (nc_ns nc))) \<bind>
             handle (\<lambda>_. throw (ErrPlain ''get cluster certs failed'')) ret)"

section \<open>Addresses read back, paths in turn\<close>

lemma ParseAddr_StringifyAddr:
  assumes "CHR '':'' \<notin> set host" "in_i32 port"
  shows "ParseAddr (StringifyAddr (host, port)) = Ok (host, port)"
proof -
  have "split_on CHR '':'' (host @ CHR '':'' # show_int port) = [host, show_int port]"
    using assms(1) colon_not_in_show_int by (simp add: split_on_sep split_on_free)
  moreover have "parse_int 32 (show_int port) = Some port"
    by (rule parse_show_int) (use assms(2) in \<open>simp_all add: in_i32_def\<close>)
  ultimately show ?thesis by (simp add: ParseAddr_def StringifyAddr_def)
qed

text \<open>The endpoints of a component are addresses whenever its name and the domain have no colon.\<close>

lemma split_on_parts: "w \<in> set (split_on c s) \<Longrightarrow> c \<notin> set w"
proof (induction s arbitrary: w)
  case (Cons x s)
  then show ?case by (cases "split_on c s") (auto split: if_splits)
qed simp

lemma ParseAddr_host: "ParseAddr s = Ok (host, port) \<Longrightarrow> CHR '':'' \<notin> set host"
proof -
  assume "ParseAddr s = Ok (host, port)"
  then have "\<exists>p. split_on CHR '':'' s = [host, p]"
    by (auto simp: ParseAddr_def split: list.splits option.splits)
  then show ?thesis using split_on_parts [of host "CHR '':''" s] by auto
qed

lemma draws_cycle:
  assumes "ps_index p < length (ps_paths p)"
  shows "draws n p = Ok (map (\<lambda>i. ps_paths p ! ((ps_index p + i) mod length (ps_paths p))) [0..<n])"
  using assms
proof (induction n arbitrary: p)
  case (Suc n)
  let ?k = "length (ps_paths p)"
  let ?p = "p\<lparr>ps_index := (ps_index p + 1) mod ?k\<rparr>"
  have k: "Suc (ps_index p) mod ?k < ?k"
    using Suc.prems by (intro mod_less_divisor) linarith
  have step: "EvenlyGet p = Ok (ps_paths p ! ps_index p, ?p)"
    using Suc.prems by (simp add: EvenlyGet_def)
  have "draws n ?p = Ok (map (\<lambda>i. ps_paths p ! (((ps_index p + 1) mod ?k + i) mod ?k)) [0..<n])"
    using Suc.IH [of ?p] k by simp
  also have "map (\<lambda>i. ps_paths p ! (((ps_index p + 1) mod ?k + i) mod ?k)) [0..<n]
      = map (\<lambda>i. ps_paths p ! ((ps_index p + Suc i) mod ?k)) [0..<n]"
    by (simp add: mod_add_left_eq)
  also have "\<dots> = map (\<lambda>i. ps_paths p ! ((ps_index p + i) mod ?k)) (map Suc [0..<n])"
    by simp
  finally have rest: "draws n ?p = Ok (map (\<lambda>i. ps_paths p ! ((ps_index p + i) mod ?k)) [1..<Suc n])"
    by (simp only: map_Suc_upt One_nat_def)
  show ?case
    using Suc.prems upt_conv_Cons [of 0 "Suc n"] by (simp only: draws.simps step rest outcome.case prod.case) simp
qed simp

end
