(* ===== verification/Restore.thy ===== *)
theory Restore
  imports RestoreTools ClusterControl
begin

text \<open>
  The restore controller (\<open>pkg/controller/nebularestore\<close>): a new cluster is created from a copy of the
  specification of the one that was backed up, the metadata and then the data are filled in through the
  agents beside the services (stage 1), and when the cluster is ready the agents go and the leaders are
  balanced (stage 2). A run of \<open>Sync\<close> does what can be done now and leaves with a reconcile error while
  it has to wait. Maps are visited in the order of their lists, workers run one after the other, and the
  restore the run was started with is not read again.
\<close>

section \<open>The agent of a restore\<close>

text \<open>What \<open>RestoreAgent\<close> knows: where the backup is, and how many workers may run.\<close>

record restore_agent =
  ra_root_uri :: string
  ra_backup :: string
  ra_concurrency :: int

text \<open>
  What is known once the original cluster and the backup are read: the first data path of metad, the
  hosts of storaged and the chain of backups, the wanted one first.
\<close>

record restore_plan =
  rp_meta_data :: string
  rp_storages :: "service_info list"
  rp_backup :: backup_meta
  rp_bases :: "backup_meta list"

definition newRestoreAgent :: "env \<Rightarrow> restore_config \<Rightarrow> string list \<Rightarrow> string \<Rightarrow> restore_agent outcome" where
  "newRestoreAgent e c backend uri =
     (case r_storage_ok (e_rs e) backend of
        Ok _ \<Rightarrow> Ok \<lparr>ra_root_uri = uri, ra_backup = rg_backup c, ra_concurrency = rg_concurrency c\<rparr>
      | Err x \<Rightarrow> Err x
      | Panic \<Rightarrow> Panic)"

definition initRestoreAgent :: "env \<Rightarrow> nebula_restore \<Rightarrow> restore_config \<Rightarrow> restore_agent io" where
  "initRestoreAgent e nr c =
     (case (sp_s3 (rg_provider c), sp_gs (rg_provider c)) of
        (Some s, _) \<Rightarrow>
          lift (r_set_uri (e_rs e) (''s3://'' @ s3_bucket s)) \<bind> ok (\<lambda>uri.
          GetS3Key e (nr_ns nr) (s3_secret s) \<bind> handle (\<lambda>_. throw (ErrPlain ''get S3 key failed'')) (\<lambda>(accessKey, secretKey).
          lift (newRestoreAgent e c [uri, s3_region s, s3_endpoint s, accessKey, secretKey] uri)))
      | (None, Some g) \<Rightarrow>
          lift (r_set_uri (e_rs e) (''gs://'' @ gp_bucket g)) \<bind> ok (\<lambda>uri.
          GetGsCredentials e (nr_ns nr) (gp_secret g) \<bind> handle (\<lambda>_. throw (ErrPlain ''get GS credentials failed'')) (\<lambda>credentials.
          lift (newRestoreAgent e c [uri, credentials] uri)))
      | (None, None) \<Rightarrow> throw (ErrPlain ''unknown storage type''))"

text \<open>
  The workers of a group: all of them run, the errors are reported together. A negative concurrency is no
  size of a channel, and with 0 the group waits for ever: both are shown as a panic.
\<close>

definition group_run :: "int \<Rightarrow> unit io list \<Rightarrow> unit rop" where
  "group_run concurrency workers =
     (if workers = [] then ret ()
      else if concurrency \<le> 0 then panic
      else world (run_workers collect workers () [] \<bind> ok group_wait))"

section \<open>Reading the original cluster and the backup\<close>

definition replaceStorageHosts :: "env \<Rightarrow> nebula_cluster \<Rightarrow> service_info list \<Rightarrow> service_info list" where
  "replaceStorageHosts e restored original =
     map (\<lambda>(i, s). s\<lparr>si_addr := (comp_GetPodFQDN (e_getenv e) StoragedComponentType restored (int i), snd (si_addr s))\<rparr>)
       (enumerate 0 original)"

abbreviation metad_address :: "env \<Rightarrow> nebula_cluster \<Rightarrow> string" where
  "metad_address e nc \<equiv> comp_GetConnAddress (e_getenv e) MetadComponentType nc ''thrift''"
abbreviation metad_endpoints :: "env \<Rightarrow> nebula_cluster \<Rightarrow> string list" where
  "metad_endpoints e nc \<equiv> comp_GetEndpoints (e_getenv e) MetadComponentType nc ''thrift''"
abbreviation storaged_endpoints :: "env \<Rightarrow> nebula_cluster \<Rightarrow> string list" where
  "storaged_endpoints e nc \<equiv> comp_GetEndpoints (e_getenv e) StoragedComponentType nc ''thrift''"

text \<open>A cluster without a metad, or a metad without a directory or data path, is an index or a pointer out of range.\<close>

definition loadCluster :: "env \<Rightarrow> nebula_cluster \<Rightarrow> nebula_cluster \<Rightarrow> (string \<times> service_info list) rop" where
  "loadCluster e original restored =
     with_meta e [metad_address e original]
       (world (ListCluster e) \<bind> ok (\<lambda>resp.
        lift (LoadFrom resp) \<bind> ok (\<lambda>hosts.
          case GetMetas hosts of
            [] \<Rightarrow> panic
          | m # _ \<Rightarrow>
              (case si_data m of
                 [] \<Rightarrow> panic
               | d # _ \<Rightarrow> ret (d, replaceStorageHosts e restored (GetStorages hosts))))))"

fun loadBakMetas :: "env \<Rightarrow> restore_agent \<Rightarrow> nat \<Rightarrow> string \<Rightarrow> backup_meta list \<Rightarrow> backup_meta list io" where
  "loadBakMetas e ra 0 backupName metas = panic"
| "loadBakMetas e ra (Suc n) backupName metas =
     lift (UriJoin e [ra_root_uri ra, backupName]) \<bind> ok (\<lambda>rootURI.
     send (\<lambda>h. Ok (r_exist (e_rs e) h)) (RestoreCall (ExistDirC rootURI)) \<bind> ok (\<lambda>exist.
       if \<not> exist then throw (ErrPlain ''backup dir does not exist'')
       else
         let backupMetaName = backupName @ ''.meta'';
             metaUri = uri_or_empty e [rootURI, backupMetaName];
             tmpPath = path_join [''/tmp/nebula-br'', backupMetaName]
         in send (e_done e) (RestoreCall (DownloadC tmpPath metaUri)) \<bind>
              handle (\<lambda>_. throw (ErrPlain ''download backup meta failed'')) (\<lambda>_.
            send (r_meta_file (e_rs e)) (RestoreCall (ReadMetaC tmpPath)) \<bind>
              handle (\<lambda>_. throw (ErrPlain ''parse backup metad file failed'')) (\<lambda>m.
              if bm_base m \<noteq> '''' then loadBakMetas e ra n (bm_base m) (metas @ [m]) else ret (metas @ [m])))))"

definition checkTopology :: "restore_plan \<Rightarrow> unit outcome" where
  "checkTopology p =
     (if length (bm_hosts (rp_backup p)) \<noteq> length (rp_storages p)
      then Err (ErrPlain ''the cluster topology of storaged count must be consistent'')
      else Ok ())"

definition make_plan :: "env \<Rightarrow> restore_agent \<Rightarrow> nebula_cluster \<Rightarrow> nebula_cluster \<Rightarrow> restore_plan rop" where
  "make_plan e ra original restored =
     loadCluster e original restored \<bind> ok (\<lambda>(metaData, storages).
     world (send (e_done e) (RestoreCall (MkdirC ''/tmp/nebula-br''))) \<bind> ok (\<lambda>_.
     world (loadBakMetas e ra (r_stack (e_rs e)) (ra_backup ra) []) \<bind> ok (\<lambda>metas.
       case metas of
         [] \<Rightarrow> panic
       | b # bases \<Rightarrow>
           let p = \<lparr>rp_meta_data = metaData, rp_storages = storages, rp_backup = b, rp_bases = bases\<rparr>
           in lift (checkTopology p) \<bind> ok (\<lambda>_. ret p))))"

section \<open>Filling in the metadata\<close>

fun endpointsConnected :: "env \<Rightarrow> string list \<Rightarrow> bool rop" where
  "endpointsConnected e [] = ret True"
| "endpointsConnected e (ep # eps) =
     lift (ParseAddr ep) \<bind> handle (\<lambda>_. ret False) (\<lambda>host.
     GetAgent e host \<bind> handle (\<lambda>_. ret False) (\<lambda>agent.
     world (agent_rpc e (fst agent) HealthCheckReq) \<bind> handle (\<lambda>_. ret False) (\<lambda>resp.
       if resp \<noteq> None \<and> resp \<noteq> Some ''healthy'' then ret False else endpointsConnected e eps)))"

definition downloadMetaData :: "env \<Rightarrow> restore_agent \<Rightarrow> restore_plan \<Rightarrow> string list \<Rightarrow> unit rop" where
  "downloadMetaData e ra p metaEndpoints =
     world (send (r_backend (e_rs e)) (RestoreCall (GetDirC (uri_or_empty e [ra_root_uri ra, ra_backup ra, ''meta''])))) \<bind> ok (\<lambda>backend.
     for_each (\<lambda>ep.
         lift (ParseAddr ep) \<bind> ok (\<lambda>addr.
         GetAgent e addr \<bind> ok (\<lambda>agent.
         world (agent_rpc e (fst agent) (DownloadFileReq backend (rp_meta_data p))) \<bind> ok (\<lambda>_.
         world (agent_rpc e (fst agent) StopAgentReq) \<bind> ok (\<lambda>_. ret ()))))) metaEndpoints)"

text \<open>Old to new storage hosts. Fewer hosts in the backup than endpoints are an index out of range.\<close>

definition genHostPairs :: "backup_meta \<Rightarrow> string list \<Rightarrow> strmap outcome" where
  "genHostPairs b restoreHosts =
     (let backupHosts = map StringifyAddr (bm_hosts b)
      in if length backupHosts < length restoreHosts then Panic
         else Ok (fold (\<lambda>(from, to). AList.update from to) (zip backupHosts restoreHosts) []))"

fun restore_metads ::
    "env \<Rightarrow> (host_addr \<times> host_addr) list \<Rightarrow> string list \<Rightarrow> string list \<Rightarrow> meta_resp option \<Rightarrow> meta_resp option io" where
  "restore_metads e addrMap files [] res = ret res"
| "restore_metads e addrMap files (ep # eps) res =
     NewMetaClient e [ep] \<bind>
       handle (\<lambda>x. case x of ErrDns _ \<Rightarrow> throw (ErrReconcile ''waiting for dns lookup is ok'') | _ \<Rightarrow> throw x) (\<lambda>_.
     RestoreMeta e addrMap files \<bind> handle (\<lambda>_. throw (ErrPlain ''restore metad service failed'')) (\<lambda>resp.
     send (e_done e) MetaClose \<bind> handle (\<lambda>_. ret ()) ret \<bind> ok (\<lambda>_.
     restore_metads e addrMap files eps (if res = None then Some resp else res))))"

definition restoreMeta :: "env \<Rightarrow> restore_plan \<Rightarrow> strmap \<Rightarrow> string list \<Rightarrow> meta_resp option io" where
  "restoreMeta e p storageMap metaEndpoints =
     map_go (\<lambda>(from, to). lift (ParseAddr from) \<bind> ok (\<lambda>f. lift (ParseAddr to) \<bind> ok (\<lambda>t. ret (f, t)))) storageMap \<bind> ok (\<lambda>addrMap.
     restore_metads e addrMap (map (\<lambda>f. rp_meta_data p @ ''/'' @ f) (bm_files (rp_backup p))) metaEndpoints None)"

definition part_hosts :: "meta_resp option \<Rightarrow> (string \<times> host_addr list) list" where
  "part_hosts resp = (case resp of None \<Rightarrow> [] | Some r \<Rightarrow> FlattenRestoreMeta r)"

definition metadReady :: "env \<Rightarrow> string \<Rightarrow> string \<Rightarrow> bool io" where
  "metadReady e ns name = GetNebulaCluster e ns name \<bind> ok (\<lambda>nc. lift (comp_IsReady MetadComponentType nc))"

definition clusterReady :: "env \<Rightarrow> string \<Rightarrow> string \<Rightarrow> bool io" where
  "clusterReady e ns name = GetNebulaCluster e ns name \<bind> ok (\<lambda>nc. ret (cluster_IsReady nc))"

definition fetch_metadata :: "env \<Rightarrow> nebula_restore \<Rightarrow> restore_agent \<Rightarrow> restore_plan \<Rightarrow> nebula_cluster \<Rightarrow> unit rop" where
  "fetch_metadata e nr ra p restored =
     (if rt_meta_download (nr_status nr) then ret ()
      else downloadMetaData e ra p (metad_endpoints e restored) \<bind> ok (\<lambda>_.
           world (UpdateNebulaRestoreStatus e nr None (Some (no_restore_update\<lparr>ru_meta_download := True\<rparr>)))))"

definition install_metadata :: "env \<Rightarrow> nebula_restore \<Rightarrow> restore_plan \<Rightarrow> nebula_cluster \<Rightarrow> unit rop" where
  "install_metadata e nr p restored =
     lift (genHostPairs (rp_backup p) (storaged_endpoints e restored)) \<bind> ok (\<lambda>hostPairs.
     world (restoreMeta e p hostPairs (metad_endpoints e restored)) \<bind> ok (\<lambda>resp.
     world (UpdateNebulaRestoreStatus e nr (Some (condition_of RestoreMetadComplete ''True''))
       (Some (no_restore_update\<lparr>ru_partitions := part_hosts resp, ru_condition := RestoreMetadComplete\<rparr>)))))"

definition meta_stage ::
    "env \<Rightarrow> nebula_restore \<Rightarrow> restore_agent \<Rightarrow> restore_plan \<Rightarrow> string \<Rightarrow> nebula_cluster \<Rightarrow> unit rop" where
  "meta_stage e nr ra p ns restored =
     (if IsRestoreMetadComplete nr then ret ()
      else
        endpointsConnected e (metad_endpoints e restored) \<bind> ok (\<lambda>c.
        if \<not> c then throw (ErrReconcile ''waiting for metad init agent are connected'')
        else
          fetch_metadata e nr ra p restored \<bind> ok (\<lambda>_.
          world (metadReady e ns (nc_name restored)) \<bind> ok (\<lambda>ready.
          if \<not> ready then throw (ErrReconcile ''waiting for metad running'')
          else install_metadata e nr p restored))))"

section \<open>Filling in the data\<close>

text \<open>
  The state of the loop that plans the downloads: the hosts of every part (a new connection changes the port
  of an address in place), the path selectors of the hosts, the path chosen for every host and part, the
  directories filled on every host and the downloads to run: host, source and target.
\<close>

record download_state =
  dl_parts :: "(string \<times> host_addr list) list"
  dl_selectors :: "(string \<times> path_selector) list"
  dl_paths :: strmap
  dl_checkpoints :: "(string \<times> string list) list"
  dl_workers :: "(string \<times> string \<times> string) list"

definition choose_path :: "host_addr \<Rightarrow> string \<Rightarrow> download_state \<Rightarrow> (string \<times> download_state) outcome" where
  "choose_path host key d =
     (let dataPathKey = GenDataPathKey host key
      in case map_of (dl_paths d) dataPathKey of
           Some p \<Rightarrow> Ok (p, d)
         | None \<Rightarrow>
             (case map_of (dl_selectors d) (StringifyAddr host) of
                None \<Rightarrow> Panic
              | Some sel \<Rightarrow>
                  (case EvenlyGet sel of
                     Ok (p, sel') \<Rightarrow>
                       Ok (p, d\<lparr>dl_selectors := AList.update (StringifyAddr host) sel' (dl_selectors d),
                               dl_paths := AList.update dataPathKey p (dl_paths d)\<rparr>)
                   | _ \<Rightarrow> Panic)))"

definition add_checkpoint :: "string \<Rightarrow> string \<Rightarrow> (string \<times> string list) list \<Rightarrow> (string \<times> string list) list" where
  "add_checkpoint host ck m =
     (let old = (case map_of m host of None \<Rightarrow> [] | Some l \<Rightarrow> l)
      in AList.update host (if ck \<in> set old then old else old @ [ck]) m)"

definition download_host ::
    "env \<Rightarrow> backup_meta \<Rightarrow> string \<Rightarrow> string \<Rightarrow> part_info \<Rightarrow> host_addr \<Rightarrow> download_state \<Rightarrow> (host_addr \<times> download_state) rop" where
  "download_host e b storageUri key info host0 d =
     GetAgent e host0 \<bind> ok (\<lambda>host.
     world (send (r_backend (e_rs e)) (RestoreCall (GetDirC
       (uri_or_empty e [storageUri, pi_space info, pi_part info] @ ''/'')))) \<bind> ok (\<lambda>source.
     lift (choose_path host key d) \<bind> ok (\<lambda>(dataPath, d).
       let targetCk = path_join [dataPath, ''nebula'', pi_space info, pi_part info, ''checkpoints''];
           target = path_join [targetCk, bm_name b]
       in ret (host, d\<lparr>dl_checkpoints := add_checkpoint (StringifyAddr host) targetCk (dl_checkpoints d),
                      dl_workers := dl_workers d @ [(fst host, source, target)]\<rparr>))))"

fun download_hosts ::
    "env \<Rightarrow> backup_meta \<Rightarrow> string \<Rightarrow> string \<Rightarrow> part_info \<Rightarrow> host_addr list \<Rightarrow> download_state
      \<Rightarrow> (host_addr list \<times> download_state) rop" where
  "download_hosts e b storageUri key info [] d = ret ([], d)"
| "download_hosts e b storageUri key info (host # hosts) d =
     download_host e b storageUri key info host d \<bind> ok (\<lambda>(host', d).
     download_hosts e b storageUri key info hosts d \<bind> ok (\<lambda>(hosts', d). ret (host' # hosts', d)))"

definition download_part ::
    "env \<Rightarrow> backup_meta \<Rightarrow> string \<Rightarrow> string \<times> part_info \<Rightarrow> download_state \<Rightarrow> download_state rop" where
  "download_part e b storageUri ki d =
     (let key = GenPartKey (pi_space (snd ki)) (pi_part (snd ki))
      in case map_of (dl_parts d) key of
           None \<Rightarrow> ret d
         | Some hosts \<Rightarrow>
             download_hosts e b storageUri key (snd ki) hosts d \<bind> ok (\<lambda>(hosts', d).
               ret (d\<lparr>dl_parts := AList.update key hosts' (dl_parts d)\<rparr>)))"

definition download_backup :: "env \<Rightarrow> restore_agent \<Rightarrow> backup_meta \<Rightarrow> download_state \<Rightarrow> download_state rop" where
  "download_backup e ra b d =
     fold_go (download_part e b (uri_or_empty e [ra_root_uri ra, bm_name b, ''data''])) (FlattenBackupMeta b) d"

definition first_downloads :: "(string \<times> host_addr list) list \<Rightarrow> restore_plan \<Rightarrow> download_state" where
  "first_downloads parts p =
     \<lparr>dl_parts = parts, dl_selectors = NewPathSelectorMap (rp_storages p), dl_paths = [], dl_checkpoints = [],
      dl_workers = []\<rparr>"

definition downloadStorageData ::
    "env \<Rightarrow> restore_agent \<Rightarrow> restore_plan \<Rightarrow> (string \<times> host_addr list) list \<Rightarrow> (string \<times> string list) list rop" where
  "downloadStorageData e ra p parts =
     fold_go (download_backup e ra) (rp_backup p # rp_bases p) (first_downloads parts p) \<bind> ok (\<lambda>d.
     group_run (ra_concurrency ra)
       (map (\<lambda>(host, source, target). agent_rpc e host (DownloadFileReq source target) \<bind> ok (\<lambda>_. ret ())) (dl_workers d)) \<bind> ok (\<lambda>_.
     ret (dl_checkpoints d)))"

definition playback_req :: "string list \<Rightarrow> service_info \<Rightarrow> agent_req" where
  "playback_req metaEndpoints s = DataPlayBackReq (si_root s) (join '','' (si_data s)) (join '','' metaEndpoints)"

definition playBackStorageData :: "env \<Rightarrow> restore_agent \<Rightarrow> string list \<Rightarrow> service_info list \<Rightarrow> unit rop" where
  "playBackStorageData e ra metaEndpoints storageHosts =
     map_go (\<lambda>s. GetAgent e (si_addr s) \<bind> ok (\<lambda>agent. ret (fst agent, playback_req metaEndpoints s))) storageHosts \<bind> ok (\<lambda>workers.
     group_run (ra_concurrency ra)
       (map (\<lambda>(host, req). agent_rpc e host req \<bind>
          handle (\<lambda>_. throw (ErrPlain ''storaged data playback failed'')) (\<lambda>_. ret ())) workers) \<bind> ok (\<lambda>_.
     for_each (\<lambda>s. GetAgent e (si_addr s) \<bind> ok (\<lambda>agent.
       world (agent_rpc e (fst agent) StopAgentReq) \<bind> handle (\<lambda>_. throw (ErrPlain ''stop agent failed'')) (\<lambda>_. ret ())))
       storageHosts))"

definition removeDownloadCheckpoints :: "env \<Rightarrow> (string \<times> string list) list \<Rightarrow> unit rop" where
  "removeDownloadCheckpoints e checkpoints =
     for_each (\<lambda>(addr, paths).
       lift (ParseAddr addr) \<bind> ok (\<lambda>host.
       GetAgent e host \<bind> handle (\<lambda>_. throw (ErrPlain ''get agent for storaged failed'')) (\<lambda>agent.
       for_each (\<lambda>path. world (agent_rpc e (fst agent) (RemoveDirReq path)) \<bind> ok (\<lambda>_. ret ())) paths))) checkpoints"

definition fetch_data ::
    "env \<Rightarrow> nebula_restore \<Rightarrow> restore_agent \<Rightarrow> restore_plan \<Rightarrow> (string \<times> string list) list rop" where
  "fetch_data e nr ra p =
     (if rt_storage_download (nr_status nr) then ret []
      else downloadStorageData e ra p (rt_partitions (nr_status nr)) \<bind> ok (\<lambda>checkpoints.
           world (UpdateNebulaRestoreStatus e nr None (Some (no_restore_update\<lparr>ru_storage_download := True\<rparr>))) \<bind> ok (\<lambda>_.
           ret checkpoints)))"

definition storage_stage ::
    "env \<Rightarrow> nebula_restore \<Rightarrow> restore_agent \<Rightarrow> restore_plan \<Rightarrow> nebula_cluster \<Rightarrow> unit rop" where
  "storage_stage e nr ra p restored =
     (if IsRestoreStoragedComplete nr then ret ()
      else
        endpointsConnected e (storaged_endpoints e restored) \<bind> ok (\<lambda>c.
        if \<not> c then throw (ErrReconcile ''waiting for storaged init agent are connected'')
        else
          fetch_data e nr ra p \<bind> ok (\<lambda>checkpoints.
          playBackStorageData e ra (metad_endpoints e restored) (rp_storages p) \<bind> ok (\<lambda>_.
          world (UpdateNebulaRestoreStatus e nr (Some (condition_of RestoreStoragedCompleted ''True''))
            (Some (no_restore_update\<lparr>ru_checkpoints := checkpoints, ru_condition := RestoreStoragedCompleted\<rparr>)))))))"

section \<open>The restored cluster\<close>

abbreviation AnnRestoreNameKey :: string where "AnnRestoreNameKey \<equiv> ''nebula-graph.io/restore-name''"
abbreviation AnnRestoreMetadStepKey :: string where "AnnRestoreMetadStepKey \<equiv> ''nebula-graph.io/restore-metad-done''"
abbreviation AnnRestoreStoragedStepKey :: string where "AnnRestoreStoragedStepKey \<equiv> ''nebula-graph.io/restore-storaged-done''"
abbreviation AnnRestoreStageKey :: string where "AnnRestoreStageKey \<equiv> ''restore-stage''"

definition no_component_status :: component_status where
  "no_component_status = \<lparr>st_version = '''', st_phase = NoPhase, st_workload = None, st_failures = None, st_volume = None\<rparr>"

definition no_status :: cluster_status where
  "no_status =
     \<lparr>cl_observed = 0, cl_graphd = no_component_status, cl_metad = no_component_status,
      cl_storaged = \<lparr>sg_component = no_component_status, sg_hosts_added = False, sg_removed_spaces = None,
        sg_balanced_spaces = None, sg_last_balanced = None, sg_last_job = None, sg_failures = None, sg_volume = None\<rparr>,
      cl_conditions = [], cl_version = ''''\<rparr>"

definition add_metad_init :: "container \<Rightarrow> nebula_cluster \<Rightarrow> nebula_cluster" where
  "add_metad_init c nc =
     (let md = metad_of nc; cs = md_component md
      in nc\<lparr>nc_spec := (nc_spec nc)\<lparr>sp_metad := md\<lparr>md_component := cs\<lparr>cs_init_containers := cs_init_containers cs @ [c]\<rparr>\<rparr>\<rparr>\<rparr>)"

definition add_storaged_init :: "container \<Rightarrow> nebula_cluster \<Rightarrow> nebula_cluster" where
  "add_storaged_init c nc =
     (let sd = storaged_of nc; cs = sd_component sd
      in nc\<lparr>nc_spec := (nc_spec nc)\<lparr>sp_storaged := sd\<lparr>sd_component := cs\<lparr>cs_init_containers := cs_init_containers cs @ [c]\<rparr>\<rparr>\<rparr>\<rparr>)"

definition genNebulaCluster :: "env \<Rightarrow> string \<Rightarrow> nebula_restore \<Rightarrow> nebula_cluster \<Rightarrow> nebula_cluster" where
  "genNebulaCluster e restoredName nr original =
     (let nc = \<lparr>nc_api_version = '''', nc_kind = '''',
                nc_meta = (plain_meta (nc_ns original) restoredName)
                  \<lparr>om_annotations := [(AnnRestoreNameKey, nr_name nr), (AnnRestoreStageKey, ''restore-stage-1'')]\<rparr>,
                nc_spec = nc_spec original, nc_status = no_status\<rparr>;
          nc = add_metad_init (GenerateInitAgentContainer (e_getenv e) MetadComponentType nc) nc;
          nc = add_storaged_init (GenerateInitAgentContainer (e_getenv e) StoragedComponentType nc) nc;
          sp = nc_spec nc; rs = nr_spec nr
      in nc\<lparr>nc_spec := sp
             \<lparr>sp_storaged := (sp_storaged sp)\<lparr>sd_force_update := Some True\<rparr>,
              sp_auto_failover := None,
              sp_node_selector := (case rs_node_selector rs of None \<Rightarrow> sp_node_selector sp | Some m \<Rightarrow> m),
              sp_affinity := (case rs_affinity rs of None \<Rightarrow> sp_affinity sp | Some a \<Rightarrow> Some a),
              sp_tolerations := (case rs_tolerations rs of None \<Rightarrow> sp_tolerations sp | Some t \<Rightarrow> t)\<rparr>\<rparr>)"

definition updateClusterAnnotations :: "env \<Rightarrow> string \<Rightarrow> string \<Rightarrow> string \<Rightarrow> string \<Rightarrow> unit io" where
  "updateClusterAnnotations e ns name annKey annVal =
     GetNebulaCluster e ns name \<bind> ok (\<lambda>nc.
       let anns = om_annotations (nc_meta nc)
       in if map_of anns annKey = Some annVal then ret ()
          else UpdateNebulaCluster e (nc\<lparr>nc_meta := (nc_meta nc)\<lparr>om_annotations := AList.update annKey annVal anns\<rparr>\<rparr>))"

definition without_agent :: "component_spec \<Rightarrow> component_spec" where
  "without_agent cs = cs\<lparr>cs_init_containers := filter (\<lambda>c. ct_name c \<noteq> ''ng-init-agent'') (cs_init_containers cs)\<rparr>"

definition without_agents :: "nebula_cluster \<Rightarrow> nebula_cluster" where
  "without_agents nc =
     nc\<lparr>nc_meta := (nc_meta nc)\<lparr>om_annotations := [(AnnRestoreStageKey, ''restore-stage-2'')]\<rparr>,
        nc_spec := (nc_spec nc)
          \<lparr>sp_metad := (metad_of nc)\<lparr>md_component := without_agent (md_component (metad_of nc))\<rparr>,
           sp_storaged := (storaged_of nc)\<lparr>sd_component := without_agent (sd_component (storaged_of nc))\<rparr>\<rparr>\<rparr>"

definition removeInitAgentContainer :: "env \<Rightarrow> string \<Rightarrow> string \<Rightarrow> unit io" where
  "removeInitAgentContainer e ns name =
     GetNebulaCluster e ns name \<bind> ok (\<lambda>nc. UpdateNebulaCluster e (without_agents nc))"

text \<open>The name of the restored cluster is drawn once and kept in the status.\<close>

definition getRestoredName :: "env \<Rightarrow> nebula_restore \<Rightarrow> string io" where
  "getRestoredName e nr =
     (if rt_cluster (nr_status nr) = '''' then
        send (\<lambda>h. Ok (r_random (e_rs e) h)) (RestoreCall (RandomC 4)) \<bind> ok (\<lambda>r.
        let genName = ''ng'' @ r
        in now e \<bind> ok (\<lambda>t.
           UpdateNebulaRestoreStatus e nr None (Some (no_restore_update\<lparr>ru_started := Some t, ru_cluster := Some genName\<rparr>)) \<bind> ok (\<lambda>_.
           ret genName)))
      else ret (rt_cluster (nr_status nr)))"

definition getPodTerminateReason :: "pod \<Rightarrow> string" where
  "getPodTerminateReason p =
     (case List.find (\<lambda>(c, code, text). code \<noteq> 0) (pd_exits p) of
        None \<Rightarrow> ''''
      | Some (c, code, text) \<Rightarrow> ''pod '' @ om_name (pd_meta p) @ '' container '' @ c @ '' terminated: '' @ text)"

section \<open>Synchronising a restore\<close>

definition balance_space :: "env \<Rightarrow> int \<times> string \<Rightarrow> int list \<Rightarrow> int list io" where
  "balance_space e s balanced =
     (if fst s \<in> set balanced then ret balanced
      else BalanceLeader e (fst s) \<bind> ok (\<lambda>_. ret (balanced @ [fst s])))"

text \<open>The result is what the cluster in memory has in \<open>BalancedSpaces\<close> afterwards.\<close>

definition restore_balanceLeader :: "env \<Rightarrow> nebula_cluster \<Rightarrow> int list option io" where
  "restore_balanceLeader e nc =
     ListSpaces e \<bind> ok (\<lambda>spaces.
       let balanced = sg_balanced_spaces (cl_storaged (nc_status nc))
       in if spaces = [] \<or> deref_or 0 (cs_replicas (spec_of StoragedComponentType nc)) = 1 then ret balanced
          else fold_go (balance_space e) spaces (deref_or [] balanced) \<bind> ok (\<lambda>b. ret (Some b)))"

definition released_cluster :: "nebula_cluster \<Rightarrow> nebula_cluster \<Rightarrow> nebula_cluster" where
  "released_cluster original nc =
     map_sg (\<lambda>s. s\<lparr>sg_balanced_spaces := None\<rparr>)
       (nc\<lparr>nc_meta := (nc_meta nc)\<lparr>om_annotations := []\<rparr>,
           nc_spec := (nc_spec nc)\<lparr>sp_storaged := (storaged_of nc)\<lparr>sd_force_update := None\<rparr>,
                                  sp_auto_failover := sp_auto_failover (nc_spec original)\<rparr>\<rparr>)"

definition second_stage :: "env \<Rightarrow> nebula_restore \<Rightarrow> nebula_cluster \<Rightarrow> nebula_cluster \<Rightarrow> nebula_cluster \<Rightarrow> unit rop" where
  "second_stage e nr original restored nc =
     (if \<not> cluster_IsReady nc then throw (ErrReconcile ''waiting for cluster ready'')
      else
        with_meta e [metad_address e restored] (world (
          restore_balanceLeader e nc \<bind> ok (\<lambda>_.
          UpdateNebulaCluster e (released_cluster original nc) \<bind>
            handle (\<lambda>_. throw (ErrPlain ''remove cluster annotations failed'')) (\<lambda>_.
          now e \<bind> ok (\<lambda>t.
          UpdateNebulaRestoreStatus e nr (Some (condition_of RestoreComplete ''True''))
            (Some (no_restore_update\<lparr>ru_completed := Some t, ru_condition := RestoreComplete\<rparr>))))))))"

definition finish_first_stage ::
    "env \<Rightarrow> nebula_restore \<Rightarrow> string \<Rightarrow> nebula_cluster \<Rightarrow> unit rop" where
  "finish_first_stage e nr ns restored =
     world (clusterReady e ns (nc_name restored)) \<bind> ok (\<lambda>ready.
     if \<not> ready then throw (ErrReconcile ''waiting for cluster ready'')
     else
       endpointsConnected e (storaged_endpoints e restored) \<bind> ok (\<lambda>c.
       if \<not> c then throw (ErrReconcile ''waiting for storaged sidecar agent are connected'')
       else
         removeDownloadCheckpoints e (rt_checkpoints (nr_status nr)) \<bind> ok (\<lambda>_.
         world (removeInitAgentContainer e ns (nc_name restored)) \<bind> ok (\<lambda>_.
         throw (ErrReconcile ''in stage2, waiting for cluster ready'')))))"

definition first_stage ::
    "env \<Rightarrow> nebula_restore \<Rightarrow> restore_config \<Rightarrow> string \<Rightarrow> nebula_cluster \<Rightarrow> nebula_cluster \<Rightarrow> unit rop" where
  "first_stage e nr c ns original restored =
     world (CreateNebulaCluster e restored) \<bind> ok (\<lambda>_.
     world (initRestoreAgent e nr c) \<bind> ok (\<lambda>ra.
       (make_plan e ra original restored \<bind> ok (\<lambda>p.
        meta_stage e nr ra p ns restored \<bind> ok (\<lambda>_.
        world (updateClusterAnnotations e ns (nc_name restored) AnnRestoreMetadStepKey ''true'') \<bind> ok (\<lambda>_.
        storage_stage e nr ra p restored \<bind> ok (\<lambda>_.
        world (updateClusterAnnotations e ns (nc_name restored) AnnRestoreStoragedStepKey ''true'') \<bind> ok (\<lambda>_.
        finish_first_stage e nr ns restored))))))
       \<bind> (\<lambda>r. agents_Close e \<bind> (\<lambda>_. State_Monad.return r))))"

text \<open>A restore without a configuration is a nil pointer. A cluster that cannot be read counts as one that is not there.\<close>

definition syncRestoreProcess :: "env \<Rightarrow> nebula_restore \<Rightarrow> unit rop" where
  "syncRestoreProcess e nr =
     (case rs_config (nr_spec nr) of
        None \<Rightarrow> panic
      | Some c \<Rightarrow>
          let ns = deref_or (nr_ns nr) (rg_cluster_namespace c)
          in world (GetNebulaCluster e ns (rg_cluster_name c)) \<bind> ok (\<lambda>original.
             world (getRestoredName e nr) \<bind> ok (\<lambda>restoredName.
             world (ClientOptions e original) \<bind> ok (\<lambda>_.
             let restored = genNebulaCluster e restoredName nr original
             in world (GetNebulaCluster e ns restoredName) \<bind>
                  handle (\<lambda>_. first_stage e nr c ns original restored)
                    (\<lambda>nc. if IsInRestoreStage2 (om_annotations (nc_meta nc))
                          then second_stage e nr original restored nc
                          else first_stage e nr c ns original restored)))))"

definition restore_Sync :: "env \<Rightarrow> nebula_restore \<Rightarrow> unit io" where
  "restore_Sync e nr = State (\<lambda>h. case run_state (syncRestoreProcess e nr) (h, []) of (r, (h', agents)) \<Rightarrow> (r, h'))"

section \<open>The control and the reconciler\<close>

definition failed_condition :: "string \<Rightarrow> string \<Rightarrow> string \<Rightarrow> restore_condition" where
  "failed_condition status reason message =
     (condition_of RestoreFailed status)\<lparr>rc_reason := reason, rc_message := message\<rparr>"

definition report_failure :: "env \<Rightarrow> nebula_restore \<Rightarrow> restore_condition \<Rightarrow> unit io" where
  "report_failure e nr c =
     UpdateNebulaRestoreStatus e nr (Some c) (Some (no_restore_update\<lparr>ru_condition := RestoreFailed\<rparr>)) \<bind>
       handle (\<lambda>_. ret ()) ret"

definition watch_pod :: "env \<Rightarrow> nebula_restore \<Rightarrow> pod \<Rightarrow> unit io" where
  "watch_pod e nr p =
     (if pd_phase p = ''Failed'' then
        report_failure e nr (failed_condition ''Unknown'' ''PodFailed'' (getPodTerminateReason p)) \<bind> ok (\<lambda>_.
        if getPodTerminateReason p \<noteq> '''' then throw (ErrPlain ''restored cluster has failed pod'') else ret ())
      else ret ())"

text \<open>The restore is read again for the name of its cluster; what was read is followed even if nothing was.\<close>

definition fail_restore :: "env \<Rightarrow> nebula_restore \<Rightarrow> go_err \<Rightarrow> unit io" where
  "fail_restore e nr x =
     report_failure e nr (failed_condition ''True'' ''ExecuteFailed'' (e_error_text e x)) \<bind> ok (\<lambda>_.
     GetNebulaRestore e (nr_ns nr) (nr_name nr) \<bind>
       handle (\<lambda>_. if rs_auto_remove (nr_spec nr) then panic else ret ())
         (\<lambda>updated. if rs_auto_remove (nr_spec nr)
            then DeleteNebulaCluster e (nr_ns nr) (rt_cluster (nr_status updated)) \<bind> handle (\<lambda>_. ret ()) ret
            else ret ()))"

definition sync_or_fail :: "env \<Rightarrow> nebula_restore \<Rightarrow> unit io" where
  "sync_or_fail e nr =
     restore_Sync e nr \<bind> handle (\<lambda>x. if is_reconcile x then throw x else fail_restore e nr x) ret"

definition UpdateNebulaRestore :: "env \<Rightarrow> nebula_restore \<Rightarrow> unit io" where
  "UpdateNebulaRestore e nr =
     (if IsRestoreInvalid nr then ret ()
      else if IsRestoreComplete nr then ret ()
      else if IsRestoreFailed nr then ret ()
      else if rt_cluster (nr_status nr) \<noteq> '''' then
        ListPods e (nr_ns nr) (label_Cluster (rt_cluster (nr_status nr)) label_New) \<bind> handle (\<lambda>_. ret ()) (\<lambda>pods.
        for_each (watch_pod e nr) pods \<bind> ok (\<lambda>_. sync_or_fail e nr))
      else sync_or_fail e nr)"

abbreviation restore_reconcile_timeout :: int where "restore_reconcile_timeout \<equiv> 10000000000"
abbreviation restore_default_timeout :: int where "restore_default_timeout \<equiv> 5000000000"

definition restore_Reconcile :: "env \<Rightarrow> string \<Rightarrow> string \<Rightarrow> int option io" where
  "restore_Reconcile e ns name =
     GetNebulaRestore e ns name \<bind>
       handle (\<lambda>x. if x = ErrNotFound then ret None else throw x)
         (\<lambda>nr. UpdateNebulaRestore e nr \<bind>
            handle (\<lambda>x. ret (Some (if is_reconcile x then restore_reconcile_timeout else restore_default_timeout)))
              (\<lambda>_. ret None))"

end
