(* ===== verification/RestoreSafety.thy ===== *)
theory RestoreSafety
  imports Restore
begin

text \<open>
  What a run of the restore controller may do, and in which order: the calls of every run satisfy
  \<open>restore_rule\<close>, whatever the world answers.
\<close>

section \<open>Runs with agents\<close>

text \<open>
  \<open>remits\<close> and \<open>rguards\<close> are \<open>emits\<close> and \<open>guards\<close> for operations that also know the connected agents.
\<close>

named_theorems remits

definition remits :: "(call \<Rightarrow> bool) \<Rightarrow> 'a rop \<Rightarrow> bool" where
  "remits P m \<longleftrightarrow> (\<forall>s. wp m (\<lambda>_ s'. \<exists>new. fst s' = new @ fst s \<and> (\<forall>c\<in>set new. P c)) s)"

lemma remitsD: "remits P m \<Longrightarrow> wp m (\<lambda>_ s'. \<exists>new. fst s' = new @ fst s \<and> (\<forall>c\<in>set new. P c)) s"
  unfolding remits_def by blast

lemma remits_world [remits]: "emits P m \<Longrightarrow> remits P (world m)"
  unfolding remits_def split_paired_All wp_world by (intro allI, rule wp_mono [OF emitsD]) auto

lemma remits_return [remits]: "remits P (State_Monad.return r)"
  by (simp add: remits_def wp_simps)

lemma remits_lift [remits]: "remits P (lift r)"
  by (simp add: remits_def wp_simps)

lemma remits_connected [remits]: "remits P connected"
  by (simp add: remits_def connected_def wp_simps)

lemma remits_modify: "(\<And>s. fst (f s) = fst s) \<Longrightarrow> remits P (modify f)"
  by (simp add: remits_def wp_simps)

lemma remits_bind [remits]:
  assumes m: "remits P m" and f: "\<And>r. remits P (f r)"
  shows "remits P (m \<bind> f)"
  unfolding remits_def wp_bind
proof (intro allI, rule wp_mono [OF remitsD [OF m]])
  fix s s' :: "call list \<times> string list" and r
  assume "\<exists>new. fst s' = new @ fst s \<and> (\<forall>c\<in>set new. P c)"
  then obtain a where a: "fst s' = a @ fst s" "\<forall>c\<in>set a. P c" by blast
  show "wp (f r) (\<lambda>_ t. \<exists>new. fst t = new @ fst s \<and> (\<forall>c\<in>set new. P c)) s'"
  proof (rule wp_mono [OF remitsD [OF f]])
    fix x t
    assume "\<exists>new. fst t = new @ fst s' \<and> (\<forall>c\<in>set new. P c)"
    then obtain b where "fst t = b @ fst s'" "\<forall>c\<in>set b. P c" by blast
    with a show "\<exists>new. fst t = new @ fst s \<and> (\<forall>c\<in>set new. P c)" by (intro exI [of _ "b @ a"]) auto
  qed
qed

lemma remits_handle [remits]:
  "(\<And>x. remits P (f x)) \<Longrightarrow> (\<And>x. remits P (k x)) \<Longrightarrow> remits P (handle k f r)"
  by (simp add: handle_def remits_return split: outcome.splits)

lemma remits_ok [remits]: "(\<And>x. remits P (f x)) \<Longrightarrow> remits P (ok f r)"
  by (simp add: ok_def remits_handle remits_return)

lemma remits_if [remits]: "(b \<Longrightarrow> remits P m) \<Longrightarrow> (\<not> b \<Longrightarrow> remits P n) \<Longrightarrow> remits P (if b then m else n)"
  by simp

lemma remits_for_each [remits]: "(\<And>x. x \<in> set xs \<Longrightarrow> remits P (f x)) \<Longrightarrow> remits P (for_each f xs)"
  by (induction xs) (simp_all add: remits_return remits_bind remits_ok)

lemma remits_fold_go [remits]: "(\<And>x a. x \<in> set xs \<Longrightarrow> remits P (f x a)) \<Longrightarrow> remits P (fold_go f xs a)"
  by (induction xs arbitrary: a) (simp_all add: remits_return remits_bind remits_ok)

lemma remits_map_go [remits]: "(\<And>x. x \<in> set xs \<Longrightarrow> remits P (f x)) \<Longrightarrow> remits P (map_go f xs)"
  by (induction xs) (simp_all add: remits_return remits_bind remits_ok)

lemma emits_map_go [emits]: "(\<And>x. x \<in> set xs \<Longrightarrow> emits P (f x)) \<Longrightarrow> emits P (map_go f xs)"
  by (induction xs) (simp_all add: emits_return emits_bind emits_ok)

lemma remits_prod [remits]: "(\<And>a b. remits P (f a b)) \<Longrightarrow> remits P (case p of (a, b) \<Rightarrow> f a b)"
  by (cases p) simp

lemma remits_with_meta [remits]:
  assumes "remits P m" "\<And>h. P (MetaConnect h)" "P MetaClose"
  shows "remits P (with_meta e hosts m)"
proof -
  have "emits P (connect_each e hs r)" for hs r
    by (induction hs arbitrary: r) (auto intro!: emits assms)
  then show ?thesis
    unfolding with_meta_def NewMetaClient_def with_defer_def
    by (auto intro!: remits emits assms split: option.split)
qed

section \<open>Guarded runs with agents\<close>

definition rguards ::
    "(call \<Rightarrow> call list \<Rightarrow> bool) \<Rightarrow> call list \<Rightarrow> ('a outcome \<Rightarrow> call list \<Rightarrow> bool) \<Rightarrow> 'a rop
      \<Rightarrow> call list \<times> string list \<Rightarrow> bool" where
  "rguards P h0 Q m s \<longleftrightarrow>
     wp m (\<lambda>r s'. guarded P h0 (fst s') \<and> grows (fst s) (fst s') \<and> Q r (fst s')) s"

lemma rguards_world: "guards P h0 Q m (fst s) \<Longrightarrow> rguards P h0 Q (world m) s"
  by (cases s) (simp add: rguards_def guards_def wp_world)

lemma rguards_return: "guarded P h0 (fst s) \<Longrightarrow> Q r (fst s) \<Longrightarrow> rguards P h0 Q (State_Monad.return r) s"
  by (simp add: rguards_def wp_simps)

lemma rguards_lift: "guarded P h0 (fst s) \<Longrightarrow> Q r (fst s) \<Longrightarrow> rguards P h0 Q (lift r) s"
  by (simp add: rguards_def wp_simps)

lemma rguards_bind:
  assumes "rguards P h0 R m s"
    and "\<And>r s'. guarded P h0 (fst s') \<Longrightarrow> grows (fst s) (fst s') \<Longrightarrow> R r (fst s') \<Longrightarrow> rguards P h0 Q (k r) s'"
  shows "rguards P h0 Q (m \<bind> k) s"
  unfolding rguards_def wp_bind
proof (rule wp_mono [OF assms(1) [unfolded rguards_def]])
  fix r and s' :: "call list \<times> string list"
  assume "guarded P h0 (fst s') \<and> grows (fst s) (fst s') \<and> R r (fst s')"
  then have "rguards P h0 Q (k r) s'" "grows (fst s) (fst s')" using assms(2) by blast+
  then show "wp (k r) (\<lambda>r t. guarded P h0 (fst t) \<and> grows (fst s) (fst t) \<and> Q r (fst t)) s'"
    unfolding rguards_def by (auto elim!: wp_mono intro: grows_trans)
qed

lemma rguards_handle:
  assumes "guarded P h0 (fst s)" "\<And>x. r = Ok x \<Longrightarrow> rguards P h0 Q (f x) s" "\<And>x. r = Err x \<Longrightarrow> rguards P h0 Q (k x) s"
    "r = Panic \<Longrightarrow> Q Panic (fst s)"
  shows "rguards P h0 Q (handle k f r) s"
  using assms by (cases r) (auto simp: rguards_def wp_simps)

lemma rguards_ok:
  assumes "guarded P h0 (fst s)" "\<And>x. r = Ok x \<Longrightarrow> rguards P h0 Q (f x) s" "\<And>x. r = Err x \<Longrightarrow> Q (Err x) (fst s)"
    "r = Panic \<Longrightarrow> Q Panic (fst s)"
  shows "rguards P h0 Q (ok f r) s"
  using assms by (cases r) (auto simp: rguards_def wp_simps)

lemma rguards_mono:
  "rguards P h0 R m s \<Longrightarrow> (\<And>r h'. guarded P h0 h' \<Longrightarrow> grows (fst s) h' \<Longrightarrow> R r h' \<Longrightarrow> Q r h') \<Longrightarrow> rguards P h0 Q m s"
  unfolding rguards_def by (auto elim!: wp_mono)

lemma rguards_remits:
  assumes "remits p m" "\<And>c h. p c \<Longrightarrow> P c h" "guarded P h0 (fst s)"
  shows "rguards P h0 (\<lambda>_ h'. grows (fst s) h') m s"
  unfolding rguards_def
proof (rule wp_mono [OF remitsD [OF assms(1)]])
  fix r and s' :: "call list \<times> string list"
  assume "\<exists>new. fst s' = new @ fst s \<and> (\<forall>c\<in>set new. p c)"
  then obtain new where "fst s' = new @ fst s" "\<forall>c\<in>set new. p c" by blast
  then show "guarded P h0 (fst s') \<and> grows (fst s) (fst s') \<and> grows (fst s) (fst s')"
    using assms by (auto simp: grows_def intro!: guarded_appends)
qed

lemma rguards_if:
  "(b \<Longrightarrow> rguards P h0 Q m s) \<Longrightarrow> (\<not> b \<Longrightarrow> rguards P h0 Q n s) \<Longrightarrow> rguards P h0 Q (if b then m else n) s"
  by simp

text \<open>Two steps in a row: what the first one ends in is what the second one may rely on.\<close>

lemma rguards_then:
  assumes "rguards P h0 R m s"
    and "\<And>x s'. guarded P h0 (fst s') \<Longrightarrow> grows (fst s) (fst s') \<Longrightarrow> R (Ok x) (fst s') \<Longrightarrow> rguards P h0 Q (f x) s'"
    and "\<And>r h'. grows (fst s) h' \<Longrightarrow> R r h' \<Longrightarrow> \<not> is_Ok r \<Longrightarrow> \<forall>x. Q (Err x) h' \<and> Q Panic h'"
  shows "rguards P h0 Q (m \<bind> ok f) s"
proof (rule rguards_bind [OF assms(1)])
  fix r and s' :: "call list \<times> string list"
  assume s': "guarded P h0 (fst s')" "grows (fst s) (fst s')" "R r (fst s')"
  show "rguards P h0 Q (ok f r) s'"
    using s' assms(2) [of s'] assms(3) [of "fst s'" r] by (intro rguards_ok) auto
qed

section \<open>The conditions of a restore\<close>

definition restore_holds :: "restore_condition_type \<Rightarrow> restore_status \<Rightarrow> bool" where
  "restore_holds t st \<longleftrightarrow> (\<exists>c. List.find (\<lambda>c. rc_type c = t) (rt_conditions st) = Some c \<and> rc_status c = ''True'')"

lemma is_restore_holds: "is_restore t r \<longleftrightarrow> restore_holds t (nr_status r)"
  by (auto simp: is_restore_def getRestoreCondition_def restore_holds_def
      find_enumerate [of "\<lambda>c. rc_type c = t" 0, symmetric] split: option.splits)

lemma getRestoreCondition_SomeD:
  "getRestoreCondition st t = Some (i, c) \<Longrightarrow>
   i < length (rt_conditions st) \<and> rt_conditions st ! i = c \<and> rc_type c = t \<and> (\<forall>j < i. rc_type (rt_conditions st ! j) \<noteq> t)"
  using find_enumerate_SomeD [of "\<lambda>c. rc_type c = t" 0 "rt_conditions st" i c] by (simp add: getRestoreCondition_def)

lemma getRestoreCondition_find:
  "map_option snd (getRestoreCondition st t) = List.find (\<lambda>c. rc_type c = t) (rt_conditions st)"
  by (simp add: getRestoreCondition_def find_enumerate)

lemma restore_condition_list:
  "\<exists>c'. rc_type c' = rc_type c \<and> rc_status c' = rc_status c \<and>
     rt_conditions (fst (UpdateNebulaRestoreCondition t (Some c) st)) =
       (case getRestoreCondition st (rc_type c) of
          None \<Rightarrow> rt_conditions st @ [c'] | Some (i, _) \<Rightarrow> (rt_conditions st)[i := c'])"
proof (cases "getRestoreCondition st (rc_type c)")
  case None
  then show ?thesis
    by (intro exI [of _ "c\<lparr>rc_transition_time := t\<rparr>"]) (simp add: UpdateNebulaRestoreCondition_def)
next
  case (Some p)
  obtain i old where p: "p = (i, old)" by (cases p)
  show ?thesis
    unfolding Some p
    by (intro exI [of _ "if rc_status c = rc_status old then c\<lparr>rc_transition_time := rc_transition_time old\<rparr>
                         else c\<lparr>rc_transition_time := t\<rparr>"])
       (simp add: UpdateNebulaRestoreCondition_def Some p Let_def)
qed

lemma restore_condition_set:
  "restore_holds ty (fst (UpdateNebulaRestoreCondition t (Some c) st)) \<longleftrightarrow>
     (if rc_type c = ty then rc_status c = ''True'' else restore_holds ty st)"
proof -
  obtain c' where c': "rc_type c' = rc_type c" "rc_status c' = rc_status c"
      "rt_conditions (fst (UpdateNebulaRestoreCondition t (Some c) st)) =
       (case getRestoreCondition st (rc_type c) of
          None \<Rightarrow> rt_conditions st @ [c'] | Some (i, _) \<Rightarrow> (rt_conditions st)[i := c'])"
    using restore_condition_list [of c t st] by blast
  show ?thesis
  proof (cases "getRestoreCondition st (rc_type c)")
    case None
    with getRestoreCondition_find [of st "rc_type c"] have "List.find (\<lambda>d. rc_type d = rc_type c) (rt_conditions st) = None" by simp
    with c' None show ?thesis by (auto simp: restore_holds_def find_snoc split: option.splits)
  next
    case (Some p)
    obtain i old where p: "p = (i, old)" by (cases p)
    note d = getRestoreCondition_SomeD [OF Some [unfolded p]]
    show ?thesis
    proof (cases "rc_type c = ty")
      case True
      with d c' Some p show ?thesis
        using find_update_same [of i "rt_conditions st" "\<lambda>d. rc_type d = ty" c'] by (simp add: restore_holds_def)
    next
      case False
      with d c' Some p show ?thesis
        by (simp add: restore_holds_def find_update_other)
    qed
  qed
qed

lemma updateRestoreStatus_conditions [simp]:
  "rt_conditions (fst (updateRestoreStatus u st)) = rt_conditions st"
  by (simp add: updateRestoreStatus_def split: option.splits)

lemma restore_holds_update [simp]: "restore_holds ty (fst (updateRestoreStatus u st)) \<longleftrightarrow> restore_holds ty st"
  by (simp add: restore_holds_def)

text \<open>What the client writes: a condition that holds was asked for or held before.\<close>

definition new_status :: "int \<Rightarrow> restore_condition option \<Rightarrow> restore_update option \<Rightarrow> restore_status \<Rightarrow> restore_status" where
  "new_status t condition u st = fst (UpdateNebulaRestoreCondition t condition (fst (updateRestoreStatus u st)))"

lemma new_status_holds:
  "restore_holds ty (new_status t condition u st) \<longleftrightarrow>
     (case condition of None \<Rightarrow> restore_holds ty st
      | Some c \<Rightarrow> if rc_type c = ty then rc_status c = ''True'' else restore_holds ty st)"
proof (cases condition)
  case None
  then show ?thesis by (simp add: new_status_def UpdateNebulaRestoreCondition_def)
qed (simp add: new_status_def restore_condition_set)

text \<open>When nothing had to be written, the condition held.\<close>

lemma unchanged_holds:
  assumes "\<not> snd (UpdateNebulaRestoreCondition t (Some c) st)" "rc_status c = ''True''"
  shows "restore_holds (rc_type c) st"
proof (cases "getRestoreCondition st (rc_type c)")
  case None
  with assms show ?thesis by (simp add: UpdateNebulaRestoreCondition_def)
next
  case (Some p)
  obtain i old where p: "p = (i, old)" by (cases p)
  with Some assms have "rc_status old = ''True''"
    by (auto simp: UpdateNebulaRestoreCondition_def Let_def split: if_splits)
  moreover have "List.find (\<lambda>d. rc_type d = rc_type c) (rt_conditions st) = Some old"
    using getRestoreCondition_find [of st "rc_type c"] Some p by simp
  ultimately show ?thesis unfolding restore_holds_def by blast
qed

section \<open>What the calls of a run rely on\<close>

text \<open>
  \<open>restoring\<close>: the cluster that is being restored, made of the cluster that was read and of the name that is
  recorded or was drawn. \<open>cluster_read\<close>: the server was asked for that cluster and answered \<open>r\<close>.
\<close>

definition restore_ns :: "nebula_restore \<Rightarrow> restore_config \<Rightarrow> string" where
  "restore_ns nr c = deref_or (nr_ns nr) (rg_cluster_namespace c)"

definition restored_as :: "env \<Rightarrow> nebula_restore \<Rightarrow> string \<Rightarrow> call list \<Rightarrow> call list \<Rightarrow> bool" where
  "restored_as e nr name h0 h \<longleftrightarrow>
     (if rt_cluster (nr_status nr) = '''' then
        \<exists>r. asked (\<lambda>h. Ok (r_random (e_rs e) h)) (RestoreCall (RandomC 4)) (Ok r) h0 h \<and> name = ''ng'' @ r
      else name = rt_cluster (nr_status nr))"

definition restoring :: "env \<Rightarrow> nebula_restore \<Rightarrow> nebula_cluster \<Rightarrow> call list \<Rightarrow> call list \<Rightarrow> bool" where
  "restoring e nr R h0 h \<longleftrightarrow>
     (\<exists>c name original. rs_config (nr_spec nr) = Some c \<and> restored_as e nr name h0 h
        \<and> asked (e_cluster e) (GetCluster (restore_ns nr c) (rg_cluster_name c)) (Ok original) h0 h
        \<and> R = genNebulaCluster e name nr original)"

definition cluster_read ::
    "env \<Rightarrow> nebula_restore \<Rightarrow> nebula_cluster \<Rightarrow> nebula_cluster outcome \<Rightarrow> call list \<Rightarrow> call list \<Rightarrow> bool" where
  "cluster_read e nr R r h0 h \<longleftrightarrow>
     (\<exists>c. rs_config (nr_spec nr) = Some c \<and> asked (e_cluster e) (GetCluster (restore_ns nr c) (nc_name R)) r h0 h)"

definition agent_ok :: "env \<Rightarrow> string \<Rightarrow> agent_req \<Rightarrow> call list \<Rightarrow> call list \<Rightarrow> bool" where
  "agent_ok e host req h0 h \<longleftrightarrow>
     (\<exists>v. asked (r_agent (e_rs e)) (RestoreCall (AgentRpcC (host, agent_port) req)) (Ok v) h0 h)"

text \<open>The files of the metadata are on every metad, the meta service has taken them, the data has been played back on every storaged.\<close>

definition meta_downloaded :: "env \<Rightarrow> nebula_cluster \<Rightarrow> call list \<Rightarrow> call list \<Rightarrow> bool" where
  "meta_downloaded e R h0 h \<longleftrightarrow>
     (\<forall>ep\<in>set (metad_endpoints e R). \<exists>a source path. ParseAddr ep = Ok a
        \<and> agent_ok e (fst a) (DownloadFileReq source path) h0 h)"

definition meta_restored :: "env \<Rightarrow> nebula_cluster \<Rightarrow> call list \<Rightarrow> call list \<Rightarrow> bool" where
  "meta_restored e R h0 h \<longleftrightarrow> metad_endpoints e R = [] \<or>
     (\<exists>hosts files resp. asked (e_meta e) (MetaRpc (RestoreMetaReq hosts files)) (Ok resp) h0 h
        \<and> (mr_code resp = SUCCEEDED \<or> tolerated (mr_code resp)))"

definition backup_read :: "env \<Rightarrow> nebula_restore \<Rightarrow> backup_meta \<Rightarrow> call list \<Rightarrow> call list \<Rightarrow> bool" where
  "backup_read e nr b h0 h \<longleftrightarrow>
     (\<exists>c. rs_config (nr_spec nr) = Some c
        \<and> asked (r_meta_file (e_rs e)) (RestoreCall (ReadMetaC (path_join [''/tmp/nebula-br'', rg_backup c @ ''.meta'']))) (Ok b) h0 h)"

definition played_back :: "env \<Rightarrow> nebula_cluster \<Rightarrow> nat \<Rightarrow> call list \<Rightarrow> call list \<Rightarrow> bool" where
  "played_back e R n h0 h \<longleftrightarrow>
     (\<forall>i<n. \<exists>dir paths metads. agent_ok e (comp_GetPodFQDN (e_getenv e) StoragedComponentType R (int i))
        (DataPlayBackReq dir paths metads) h0 h)"

text \<open>A condition is recorded: the restore has it, or a version of it that was read or written in this run.\<close>

definition recorded :: "env \<Rightarrow> nebula_restore \<Rightarrow> restore_condition_type \<Rightarrow> call list \<Rightarrow> call list \<Rightarrow> bool" where
  "recorded e nr t h0 h \<longleftrightarrow> is_restore t nr
     \<or> (\<exists>r. is_restore t r \<and> asked (r_restore (e_rs e)) (RestoreCall (GetRestoreC (nr_ns nr) (nr_name nr))) (Ok r) h0 h)
     \<or> (\<exists>r. is_restore t r \<and> asked (e_done e) (RestoreCall (UpdateRestoreStatusC r)) (Ok ()) h0 h)"

definition step_done :: "env \<Rightarrow> nebula_restore \<Rightarrow> restore_condition_type \<Rightarrow> call list \<Rightarrow> call list \<Rightarrow> bool" where
  "step_done e nr t h0 h \<longleftrightarrow>
     (case t of
        RestoreMetadComplete \<Rightarrow> \<exists>R. restoring e nr R h0 h \<and> meta_restored e R h0 h
      | RestoreStoragedCompleted \<Rightarrow>
          \<exists>R b. restoring e nr R h0 h \<and> backup_read e nr b h0 h \<and> played_back e R (length (bm_hosts b)) h0 h
      | RestoreComplete \<Rightarrow>
          \<exists>R live new. restoring e nr R h0 h \<and> cluster_read e nr R (Ok live) h0 h
            \<and> IsInRestoreStage2 (om_annotations (nc_meta live)) \<and> cluster_IsReady live
            \<and> asked (e_done e) (UpdateCluster new) (Ok ()) h0 h \<and> om_annotations (nc_meta new) = []
      | _ \<Rightarrow> True)"

definition restore_rule :: "env \<Rightarrow> nebula_restore \<Rightarrow> call list \<Rightarrow> call \<Rightarrow> call list \<Rightarrow> bool" where
  "restore_rule e nr h0 call h \<longleftrightarrow>
     (case call of
        CreateCluster R \<Rightarrow>
          restoring e nr R h0 h \<and> (\<exists>r. cluster_read e nr R r h0 h
            \<and> (\<forall>live. r = Ok live \<longrightarrow> \<not> IsInRestoreStage2 (om_annotations (nc_meta live))))
      | MetaRpc (RestoreMetaReq hosts files) \<Rightarrow>
          \<exists>R live. restoring e nr R h0 h \<and> cluster_read e nr R (Ok live) h0 h
            \<and> comp_IsReady MetadComponentType live = Ok True
            \<and> (rt_meta_download (nr_status nr) \<or> meta_downloaded e R h0 h)
      | RestoreCall (AgentRpcC a (DataPlayBackReq dir paths metads)) \<Rightarrow> recorded e nr RestoreMetadComplete h0 h
      | UpdateCluster new \<Rightarrow>
          (IsInRestoreStage2 (om_annotations (nc_meta new)) \<longrightarrow>
             (\<exists>ns name live. asked (e_cluster e) (GetCluster ns name) (Ok live) h0 h
                \<and> IsInRestoreStage2 (om_annotations (nc_meta live)))
             \<or> (\<exists>R live. restoring e nr R h0 h \<and> cluster_read e nr R (Ok live) h0 h \<and> cluster_IsReady live
                  \<and> recorded e nr RestoreStoragedCompleted h0 h))
          \<and> (om_annotations (nc_meta new) = [] \<longrightarrow>
             (\<exists>R live. restoring e nr R h0 h \<and> cluster_read e nr R (Ok live) h0 h \<and> cluster_IsReady live
                \<and> IsInRestoreStage2 (om_annotations (nc_meta live))))
      | RestoreCall (UpdateRestoreStatusC r) \<Rightarrow>
          (\<forall>t. is_restore t r \<longrightarrow> step_done e nr t h0 h
             \<or> (\<exists>live. is_restore t live
                  \<and> asked (r_restore (e_rs e)) (RestoreCall (GetRestoreC (nr_ns nr) (nr_name nr))) (Ok live) h0 h))
      | call.DeleteCluster nc \<Rightarrow> rs_auto_remove (nr_spec nr)
      | _ \<Rightarrow> True)"

fun calm_call :: "call \<Rightarrow> bool" where
  "calm_call (CreateCluster R) = False"
| "calm_call (UpdateCluster nc) = False"
| "calm_call (call.DeleteCluster nc) = False"
| "calm_call (MetaRpc req) = (case req of RestoreMetaReq hosts files \<Rightarrow> False | _ \<Rightarrow> True)"
| "calm_call (RestoreCall c) =
     (case c of UpdateRestoreStatusC r \<Rightarrow> False
      | AgentRpcC a req \<Rightarrow> (case req of DataPlayBackReq dir paths metads \<Rightarrow> False | _ \<Rightarrow> True)
      | _ \<Rightarrow> True)"
| "calm_call c = True"

lemma calm_restore_rule: "calm_call c \<Longrightarrow> restore_rule e nr h0 c h"
  by (cases c rule: calm_call.cases)
     (auto simp: restore_rule_def split: meta_req.splits restore_call.splits agent_req.splits)

text \<open>All of this stays true as the history grows.\<close>

lemma later:
  assumes "grows h h'"
  shows "restored_as e nr name h0 h \<Longrightarrow> restored_as e nr name h0 h'"
    "restoring e nr R h0 h \<Longrightarrow> restoring e nr R h0 h'"
    "cluster_read e nr R r h0 h \<Longrightarrow> cluster_read e nr R r h0 h'"
    "agent_ok e host req h0 h \<Longrightarrow> agent_ok e host req h0 h'"
    "meta_downloaded e R h0 h \<Longrightarrow> meta_downloaded e R h0 h'"
    "meta_restored e R h0 h \<Longrightarrow> meta_restored e R h0 h'"
    "backup_read e nr b h0 h \<Longrightarrow> backup_read e nr b h0 h'"
    "played_back e R n h0 h \<Longrightarrow> played_back e R n h0 h'"
    "recorded e nr t h0 h \<Longrightarrow> recorded e nr t h0 h'"
proof -
  note a = asked_grows [OF _ assms]
  show r: "restored_as e nr name h0 h \<Longrightarrow> restored_as e nr name h0 h'" for name
    using a unfolding restored_as_def by (metis (no_types, lifting))
  show "restoring e nr R h0 h \<Longrightarrow> restoring e nr R h0 h'"
    unfolding restoring_def using r a by blast
  show "cluster_read e nr R r h0 h \<Longrightarrow> cluster_read e nr R r h0 h'"
    unfolding cluster_read_def using a by blast
  show g: "agent_ok e host req h0 h \<Longrightarrow> agent_ok e host req h0 h'" for host req
    unfolding agent_ok_def using a by blast
  show "meta_downloaded e R h0 h \<Longrightarrow> meta_downloaded e R h0 h'"
    unfolding meta_downloaded_def using g by blast
  show "meta_restored e R h0 h \<Longrightarrow> meta_restored e R h0 h'"
    unfolding meta_restored_def using a by blast
  show "backup_read e nr b h0 h \<Longrightarrow> backup_read e nr b h0 h'"
    unfolding backup_read_def using a by blast
  show "played_back e R n h0 h \<Longrightarrow> played_back e R n h0 h'"
    unfolding played_back_def using g by blast
  show "recorded e nr t h0 h \<Longrightarrow> recorded e nr t h0 h'"
    unfolding recorded_def by (blast intro: asked_grows [OF _ assms])
qed

lemma step_done_later: "step_done e nr t h0 h \<Longrightarrow> grows h h' \<Longrightarrow> step_done e nr t h0 h'"
  unfolding step_done_def by (cases t) (simp_all, (blast intro: later asked_grows)+)

section \<open>The operations of the controller\<close>

lemma guards_retry_on_error_post:
  assumes "\<And>g. guarded P h0 g \<Longrightarrow> grows h g \<Longrightarrow> guards P h0 Q m g" "guarded P h0 h"
  shows "guards P h0 Q (retry_on_error n m) h"
  unfolding guards_def
proof (rule wp_retry_on_error [where I = "\<lambda>g. guarded P h0 g \<and> grows h g"])
  fix g assume g: "guarded P h0 g \<and> grows h g"
  then have "wp m (\<lambda>r h'. guarded P h0 h' \<and> grows g h' \<and> Q r h') g" using assms(1) unfolding guards_def by blast
  then show "wp m (\<lambda>r h'. (guarded P h0 h' \<and> grows h h' \<and> Q r h')
      \<and> (\<forall>x. r = Err x \<longrightarrow> guarded P h0 h' \<and> grows h h')) g"
    by (rule wp_mono) (use g grows_trans in blast)
qed (use assms in auto)

text \<open>A condition may be written once its step is done, and is recorded when the client returns without an error.\<close>

definition may_set :: "env \<Rightarrow> nebula_restore \<Rightarrow> restore_condition option \<Rightarrow> call list \<Rightarrow> call list \<Rightarrow> bool" where
  "may_set e nr condition h0 h \<longleftrightarrow>
     (\<forall>c. condition = Some c \<longrightarrow> rc_status c = ''True'' \<longrightarrow> step_done e nr (rc_type c) h0 h)"

definition now_recorded :: "env \<Rightarrow> nebula_restore \<Rightarrow> restore_condition option \<Rightarrow> call list \<Rightarrow> unit outcome \<Rightarrow> call list \<Rightarrow> bool" where
  "now_recorded e nr condition h0 r h \<longleftrightarrow>
     (r = Ok () \<longrightarrow> (\<forall>c. condition = Some c \<longrightarrow> rc_status c = ''True'' \<longrightarrow> recorded e nr (rc_type c) h0 h))"

lemma may_set_later: "may_set e nr condition h0 h \<Longrightarrow> grows h h' \<Longrightarrow> may_set e nr condition h0 h'"
  unfolding may_set_def by (blast intro: step_done_later)

lemma now_recorded_fails [simp]: "now_recorded e nr c h0 (Err x) h" "now_recorded e nr c h0 Panic h"
  by (simp_all add: now_recorded_def)

lemma write_status_guarded:
  assumes h: "guarded (restore_rule e nr h0) h0 h" and set: "may_set e nr condition h0 h"
    and live: "asked (r_restore (e_rs e)) (RestoreCall (GetRestoreC (nr_ns nr) (nr_name nr))) (Ok live) h0 h"
  shows "guards (restore_rule e nr h0) h0 (now_recorded e nr condition h0)
     (send (e_done e) (RestoreCall (UpdateRestoreStatusC (live\<lparr>nr_status := new_status t condition u (nr_status live)\<rparr>)))) h"
proof (rule guards_send [OF h])
  show "restore_rule e nr h0 (RestoreCall (UpdateRestoreStatusC (live\<lparr>nr_status := new_status t condition u (nr_status live)\<rparr>))) h"
    using set live
    by (auto simp: restore_rule_def is_restore_holds new_status_holds may_set_def split: option.splits if_splits)
next
  fix r
  assume "asked (e_done e) (RestoreCall (UpdateRestoreStatusC (live\<lparr>nr_status := new_status t condition u (nr_status live)\<rparr>))) r h0
    (RestoreCall (UpdateRestoreStatusC (live\<lparr>nr_status := new_status t condition u (nr_status live)\<rparr>)) # h)"
  then show "now_recorded e nr condition h0 r
    (RestoreCall (UpdateRestoreStatusC (live\<lparr>nr_status := new_status t condition u (nr_status live)\<rparr>)) # h)"
    unfolding now_recorded_def recorded_def
    by (auto intro!: exI [of _ "live\<lparr>nr_status := new_status t condition u (nr_status live)\<rparr>"]
        simp: is_restore_holds new_status_holds)
qed

lemma kept_status_recorded:
  assumes "asked (r_restore (e_rs e)) (RestoreCall (GetRestoreC (nr_ns nr) (nr_name nr))) (Ok live) h0 h"
    and "\<not> snd (UpdateNebulaRestoreCondition t condition (fst (updateRestoreStatus u (nr_status live))))"
  shows "now_recorded e nr condition h0 (Ok ()) h"
  using assms unchanged_holds [of t _ "fst (updateRestoreStatus u (nr_status live))"]
  unfolding now_recorded_def recorded_def is_restore_holds by auto

lemma restore_once_guarded:
  assumes h: "guarded (restore_rule e nr h0) h0 h" and set: "may_set e nr condition h0 h"
  shows "guards (restore_rule e nr h0) h0 (now_recorded e nr condition h0)
     (update_restore_once e (nr_ns nr) (nr_name nr) condition u) h"
  unfolding update_restore_once_def GetNebulaRestore_def
proof (rule guards_bind_send [OF h calm_restore_rule], simp)
  fix r h'
  assume h': "guarded (restore_rule e nr h0) h0 h'" "grows h h'"
    and r: "asked (r_restore (e_rs e)) (RestoreCall (GetRestoreC (nr_ns nr) (nr_name nr))) r h0 h'"
  have step: "guards (restore_rule e nr h0) h0 (now_recorded e nr condition h0)
     (let (st1, u1) = updateRestoreStatus u (nr_status live);
          (st2, u2) = UpdateNebulaRestoreCondition t condition st1
      in if u1 \<or> u2 then send (e_done e) (RestoreCall (UpdateRestoreStatusC (live\<lparr>nr_status := st2\<rparr>))) else ret ()) g"
    if "r = Ok live" "grows h' g" "guarded (restore_rule e nr h0) h0 g" for live t g
    unfolding Let_def split_beta
    using that write_status_guarded [OF that(3) may_set_later [OF set grows_trans [OF h'(2) that(2)]], of live t u]
      asked_grows [OF r that(2)]
    by (intro guards_if guards_return) (auto simp: new_status_def intro: kept_status_recorded)
  show "guards (restore_rule e nr h0) h0 (now_recorded e nr condition h0)
     (ok (\<lambda>live. (if condition = None then ret 0 else now e) \<bind> ok (\<lambda>t.
         let (st1, u1) = updateRestoreStatus u (nr_status live);
             (st2, u2) = UpdateNebulaRestoreCondition t condition st1
         in if u1 \<or> u2 then send (e_done e) (RestoreCall (UpdateRestoreStatusC (live\<lparr>nr_status := st2\<rparr>))) else ret ())) r) h'"
  proof (rule guards_ok [OF h'(1)])
    fix live
    assume live: "r = Ok live"
    have t: "guards (restore_rule e nr h0) h0 (\<lambda>_ _. True) (if condition = None then ret 0 else now e) h'"
      by (intro guards_if guards_return guards_now calm_restore_rule h'(1)) simp_all
    show "guards (restore_rule e nr h0) h0 (now_recorded e nr condition h0)
       ((if condition = None then ret 0 else now e) \<bind> ok (\<lambda>t.
         let (st1, u1) = updateRestoreStatus u (nr_status live);
             (st2, u2) = UpdateNebulaRestoreCondition t condition st1
         in if u1 \<or> u2 then send (e_done e) (RestoreCall (UpdateRestoreStatusC (live\<lparr>nr_status := st2\<rparr>))) else ret ())) h'"
      by (rule guards_bind [OF t], rule guards_ok, assumption, rule step [OF live]) simp_all
  qed simp_all
qed

lemma restore_status_guarded:
  assumes "guarded (restore_rule e nr h0) h0 h" "may_set e nr condition h0 h"
  shows "guards (restore_rule e nr h0) h0 (now_recorded e nr condition h0) (UpdateNebulaRestoreStatus e nr condition u) h"
  unfolding UpdateNebulaRestoreStatus_def
  by (rule guards_retry_on_error_post) (use assms in \<open>auto intro: restore_once_guarded may_set_later\<close>)

lemma guards_retry_on_conflict_post:
  assumes "\<And>g. guarded P h0 g \<Longrightarrow> grows h g \<Longrightarrow> guards P h0 Q m g" "guarded P h0 h" "\<And>g. Q (Err ErrConflict) g"
  shows "guards P h0 Q (retry_on_conflict n m) h"
  unfolding guards_def
proof (rule wp_retry [where I = "\<lambda>g. guarded P h0 g \<and> grows h g"])
  fix g assume g: "guarded P h0 g \<and> grows h g"
  then have "wp m (\<lambda>r h'. guarded P h0 h' \<and> grows g h' \<and> Q r h') g" using assms(1) unfolding guards_def by blast
  then show "wp m (\<lambda>r h'. (guarded P h0 h' \<and> grows h h' \<and> Q r h')
      \<and> (r = Err ErrConflict \<longrightarrow> guarded P h0 h' \<and> grows h h')) g"
    by (rule wp_mono) (use g grows_trans in blast)
qed (use assms in auto)

definition cluster_updated :: "env \<Rightarrow> nebula_cluster \<Rightarrow> call list \<Rightarrow> unit outcome \<Rightarrow> call list \<Rightarrow> bool" where
  "cluster_updated e nc h0 r h \<longleftrightarrow>
     (r = Ok () \<longrightarrow> (\<exists>new. om_annotations (nc_meta new) = om_annotations (nc_meta nc)
        \<and> asked (e_done e) (UpdateCluster new) (Ok ()) h0 h))"

lemma cluster_update_guarded:
  assumes h: "guarded (restore_rule e nr h0) h0 h"
    and rule: "\<And>new g. grows h g \<Longrightarrow> om_annotations (nc_meta new) = om_annotations (nc_meta nc)
      \<Longrightarrow> restore_rule e nr h0 (UpdateCluster new) g"
  shows "guards (restore_rule e nr h0) h0 (cluster_updated e nc h0) (UpdateNebulaCluster e nc) h"
  unfolding UpdateNebulaCluster_def GetNebulaCluster_def
proof (rule guards_retry_on_conflict_post [OF _ h])
  fix g
  assume g: "guarded (restore_rule e nr h0) h0 g" "grows h g"
  show "guards (restore_rule e nr h0) h0 (cluster_updated e nc h0)
     (send (e_cluster e) (GetCluster (nc_ns nc) (nc_name nc)) \<bind> ok (\<lambda>live. send (e_done e) (UpdateCluster
            (live\<lparr>nc_spec := nc_spec nc, nc_meta := (nc_meta live)
               \<lparr>om_labels := om_labels (nc_meta nc), om_annotations := om_annotations (nc_meta nc)\<rparr>\<rparr>)))) g"
  proof (rule guards_bind_send [OF g(1) calm_restore_rule], simp, rule guards_ok, assumption)
    fix r h' live
    assume h': "guarded (restore_rule e nr h0) h0 h'" "grows g h'"
    show "guards (restore_rule e nr h0) h0 (cluster_updated e nc h0) (send (e_done e) (UpdateCluster
            (live\<lparr>nc_spec := nc_spec nc, nc_meta := (nc_meta live)
               \<lparr>om_labels := om_labels (nc_meta nc), om_annotations := om_annotations (nc_meta nc)\<rparr>\<rparr>))) h'"
      by (rule guards_send [OF h'(1) rule [OF grows_trans [OF g(2) h'(2)]]], simp, unfold cluster_updated_def,
          rule impI, rule exI, rule conjI [rotated], simp, simp)
  qed (simp_all add: cluster_updated_def)
qed (simp add: cluster_updated_def)

text \<open>A request to the meta service that succeeds was answered with an accepted code.\<close>

lemma meta_request_guarded:
  assumes h: "guarded P h0 h" and rule: "\<And>c g. is_meta req c \<Longrightarrow> grows h g \<Longrightarrow> P c g"
  shows "guards P h0 (\<lambda>r h'. \<forall>x. r = Ok x \<longrightarrow> asked (e_meta e) (MetaRpc req) (Ok x) h0 h'
     \<and> (mr_code x = SUCCEEDED \<or> tolerated (mr_code x))) (retryOnError e req) h"
proof -
  have m: "P (MetaRpc req) g" "P (MetaReconnect a) g" if "grows h g" for g a
    using rule that by (auto simp: is_meta_def)
  show ?thesis
    unfolding retryOnError_def
    by (rule guards_bind_send [OF h], simp add: m, rule guards_ok, assumption)
       (auto intro!: guards_if guards_return guards_bind_send guards_ok intro: m grows_trans split: option.split)
qed

lemma calm_meta: "is_meta req c \<Longrightarrow> (\<And>hosts files. req \<noteq> RestoreMetaReq hosts files) \<Longrightarrow> calm_call c"
  by (auto simp: is_meta_def split: meta_req.splits)

named_theorems calm

lemma calm_connect [calm]: "emits calm_call (NewMetaClient e hosts)"
proof -
  have "emits calm_call (connect_each e hs r)" for hs r
    by (induction hs arbitrary: r) (auto intro!: emits)
  then show ?thesis
    unfolding NewMetaClient_def by (auto intro!: emits split: option.split)
qed

lemma calm_agent_rpc [calm]: "(\<And>dir paths metads. req \<noteq> DataPlayBackReq dir paths metads) \<Longrightarrow> emits calm_call (agent_rpc e host req)"
  unfolding agent_rpc_def by (intro emits) (auto split: agent_req.splits)

lemma calm_basic [calm]:
  "emits calm_call (GetNebulaCluster e ns name)" "emits calm_call (ListPods e ns labels)"
  "emits calm_call (GetNebulaRestore e ns name)" "emits calm_call (ClientOptions e nc)"
  "emits calm_call (initRestoreAgent e nr c)" "emits calm_call (ListSpaces e)" "emits calm_call (BalanceLeader e space)"
  "emits calm_call (ListCluster e)" "emits calm_call (NewAgent e a)"
  unfolding GetNebulaCluster_def ListPods_def GetNebulaRestore_def ClientOptions_def initRestoreAgent_def ListSpaces_def
    BalanceLeader_def ListCluster_def getMetaDirInfo_def GetS3Key_def GetGsCredentials_def GetSecret_def Let_def NewAgent_def
  by (auto intro!: emits emits_option dest: calm_meta)

lemma calm_load [calm]: "emits calm_call (loadBakMetas e ra n name metas)"
proof (induction n arbitrary: name metas)
  case (Suc n)
  then show ?case by (auto simp: Let_def intro!: emits)
qed (simp add: emits_return)

lemma calm_workers [calm]:
  "(\<And>m. m \<in> set ms \<Longrightarrow> emits P m) \<Longrightarrow> emits P (run_workers collect ms () [] \<bind> ok group_wait)"
  unfolding group_wait_def by (auto intro!: emits run_workers_emits simp: collect_def)

lemma calm_get_agent [calm]: "remits calm_call (GetAgent e a)"
  unfolding GetAgent_def by (intro remits calm remits_modify) (simp_all add: split_beta)

lemma calm_endpoints [calm]: "remits calm_call (endpointsConnected e eps)"
  by (induction eps) (auto intro!: remits calm)

lemma calm_download_meta [calm]: "remits calm_call (downloadMetaData e ra p eps)"
  unfolding downloadMetaData_def by (intro remits calm) (auto intro!: emits)

lemma calm_group [calm]: "(\<And>m. m \<in> set ms \<Longrightarrow> emits calm_call m) \<Longrightarrow> remits calm_call (group_run c ms)"
  unfolding group_run_def by (intro remits calm) auto

lemma calm_hosts [calm]: "remits calm_call (download_hosts e b uri key info hosts d)"
  by (induction hosts arbitrary: d)
     (auto simp: download_host_def Let_def intro!: remits calm emits)

lemma calm_part [calm]: "remits calm_call (download_part e b uri ki d)"
  unfolding download_part_def Let_def by (auto intro!: remits calm split: option.split)

lemma calm_backups [calm]: "remits calm_call (download_backup e ra b d)"
  unfolding download_backup_def by (intro remits calm)

lemma calm_checkpoints [calm]: "remits calm_call (removeDownloadCheckpoints e checkpoints)"
  unfolding removeDownloadCheckpoints_def by (auto intro!: remits calm)

lemma calm_close [calm]: "remits calm_call (agents_Close e)"
  unfolding agents_Close_def by (auto intro!: remits emits remits_modify)

lemma calm_load_cluster [calm]: "remits calm_call (loadCluster e original restored)"
  unfolding loadCluster_def by (auto intro!: remits calm split: list.split)

section \<open>Agents and downloads\<close>

lemma calm_grows:
  assumes "remits calm_call m" "guarded (restore_rule e nr h0) h0 (fst s)"
  shows "rguards (restore_rule e nr h0) h0 (\<lambda>_ h'. grows (fst s) h') m s"
  by (rule rguards_remits [OF assms(1) calm_restore_rule assms(2)])

lemma calm_step:
  assumes "remits calm_call m" "guarded (restore_rule e nr h0) h0 (fst s)"
  shows "rguards (restore_rule e nr h0) h0 (\<lambda>_ _. True) m s"
  by (rule rguards_mono [OF calm_grows [OF assms]]) simp_all

lemma calm_io:
  assumes "emits calm_call m" "guarded (restore_rule e nr h0) h0 (fst s)"
  shows "rguards (restore_rule e nr h0) h0 (\<lambda>_ _. True) (world m) s"
  by (rule calm_step [OF remits_world]) (use assms in auto)

lemma get_agent_guarded:
  assumes "guarded (restore_rule e nr h0) h0 (fst s)"
  shows "rguards (restore_rule e nr h0) h0 (\<lambda>r _. \<forall>a'. r = Ok a' \<longrightarrow> fst a' = fst a) (GetAgent e a) s"
proof -
  have "wp (GetAgent e a) (\<lambda>r _. \<forall>a'. r = Ok a' \<longrightarrow> fst a' = fst a) s"
    by (cases s) (auto simp: GetAgent_def connected_def NewAgent_def wp_simps wp_send split: outcome.splits)
  from wp_conj [OF calm_step [OF calm_get_agent assms, unfolded rguards_def] this] show ?thesis
    unfolding rguards_def by (rule wp_mono) simp
qed

lemma agent_rpc_guarded:
  assumes "guarded P h0 (fst s)" "P (RestoreCall (AgentRpcC (host, agent_port) req)) (fst s)"
  shows "rguards P h0 (\<lambda>r h'. \<forall>v. r = Ok v \<longrightarrow> agent_ok e host req h0 h') (world (agent_rpc e host req)) s"
  unfolding agent_rpc_def by (intro rguards_world guards_send assms) (auto simp: agent_ok_def)

text \<open>A loop all of whose steps succeed has done every step.\<close>

lemma for_each_guarded:
  assumes "\<And>x s. x \<in> set xs \<Longrightarrow> guarded P h0 (fst s) \<Longrightarrow> grows g (fst s)
      \<Longrightarrow> rguards P h0 (\<lambda>r h'. r = Ok () \<longrightarrow> F x h') (f x) s"
    and "\<And>x h h'. F x h \<Longrightarrow> grows h h' \<Longrightarrow> F x h'" "guarded P h0 (fst s)" "grows g (fst s)"
  shows "rguards P h0 (\<lambda>r h'. r = Ok () \<longrightarrow> (\<forall>x\<in>set xs. F x h')) (for_each f xs) s"
  using assms(1,3,4)
proof (induction xs arbitrary: s)
  case Nil
  then show ?case by (simp add: rguards_return)
next
  case (Cons x xs)
  show ?case
    unfolding for_each.simps
  proof (rule rguards_bind [OF Cons.prems(1)])
    fix r and s' :: "call list \<times> string list"
    assume s': "guarded P h0 (fst s')" "grows (fst s) (fst s')" "r = Ok () \<longrightarrow> F x (fst s')"
    show "rguards P h0 (\<lambda>r h'. r = Ok () \<longrightarrow> (\<forall>x\<in>set (x # xs). F x h')) (ok (\<lambda>_. for_each f xs) r) s'"
    proof (rule rguards_ok [OF s'(1)])
      fix u
      assume u: "r = Ok u"
      have "rguards P h0 (\<lambda>r h'. r = Ok () \<longrightarrow> (\<forall>x\<in>set xs. F x h')) (for_each f xs) s'"
        by (rule Cons.IH) (use Cons.prems s' in \<open>auto intro: grows_trans\<close>)
      then show "rguards P h0 (\<lambda>r h'. r = Ok () \<longrightarrow> (\<forall>x\<in>set (x # xs). F x h')) (for_each f xs) s'"
        by (rule rguards_mono) (use s'(3) u assms(2) in auto)
    qed simp_all
  qed (use Cons.prems in auto)
qed

lemma download_meta_guarded:
  assumes "guarded (restore_rule e nr h0) h0 (fst s)"
  shows "rguards (restore_rule e nr h0) h0 (\<lambda>r h'. r = Ok () \<longrightarrow>
     (\<forall>ep\<in>set eps. \<exists>a source path. ParseAddr ep = Ok a \<and> agent_ok e (fst a) (DownloadFileReq source path) h0 h'))
     (downloadMetaData e ra p eps) s"
  unfolding downloadMetaData_def
proof (rule rguards_then [OF calm_io])
  fix backend and s' :: "call list \<times> string list"
  assume s': "guarded (restore_rule e nr h0) h0 (fst s')"
  show "rguards (restore_rule e nr h0) h0 (\<lambda>r h'. r = Ok () \<longrightarrow>
     (\<forall>ep\<in>set eps. \<exists>a source path. ParseAddr ep = Ok a \<and> agent_ok e (fst a) (DownloadFileReq source path) h0 h'))
     (for_each (\<lambda>ep.
         lift (ParseAddr ep) \<bind> ok (\<lambda>addr.
         GetAgent e addr \<bind> ok (\<lambda>agent.
         world (agent_rpc e (fst agent) (DownloadFileReq backend (rp_meta_data p))) \<bind> ok (\<lambda>_.
         world (agent_rpc e (fst agent) StopAgentReq) \<bind> ok (\<lambda>_. ret ()))))) eps) s'"
  proof (rule for_each_guarded [where g = "fst s'" and F = "\<lambda>ep h'. \<exists>a source path. ParseAddr ep = Ok a
        \<and> agent_ok e (fst a) (DownloadFileReq source path) h0 h'", OF _ _ s'])
    fix ep and t :: "call list \<times> string list"
    assume t: "guarded (restore_rule e nr h0) h0 (fst t)"
    show "rguards (restore_rule e nr h0) h0 (\<lambda>r h'. r = Ok () \<longrightarrow> (\<exists>a source path. ParseAddr ep = Ok a
        \<and> agent_ok e (fst a) (DownloadFileReq source path) h0 h')) (lift (ParseAddr ep) \<bind> ok (\<lambda>addr.
         GetAgent e addr \<bind> ok (\<lambda>agent.
         world (agent_rpc e (fst agent) (DownloadFileReq backend (rp_meta_data p))) \<bind> ok (\<lambda>_.
         world (agent_rpc e (fst agent) StopAgentReq) \<bind> ok (\<lambda>_. ret ()))))) t"
      apply (rule rguards_then [OF rguards_lift [where Q = "\<lambda>r _. r = ParseAddr ep", OF t]], simp)
       apply (rule rguards_then [OF get_agent_guarded], assumption)
        apply (rule rguards_then [OF agent_rpc_guarded], assumption, rule calm_restore_rule, simp)
         apply (rule rguards_then [OF agent_rpc_guarded], assumption, rule calm_restore_rule, simp)
          apply (rule rguards_return, assumption)
          apply (metis later(4))
         apply simp_all
      done
  qed (auto intro: later(4))
qed (use assms in \<open>auto intro!: emits\<close>)

section \<open>Playing the data back\<close>

lemma map_go_guarded:
  assumes "\<And>x s. guarded P h0 (fst s) \<Longrightarrow> rguards P h0 (\<lambda>r _. \<forall>y. r = Ok y \<longrightarrow> y = g x) (f x) s"
    and "guarded P h0 (fst s)"
  shows "rguards P h0 (\<lambda>r _. \<forall>ys. r = Ok ys \<longrightarrow> ys = map g xs) (map_go f xs) s"
  using assms(2)
proof (induction xs arbitrary: s)
  case (Cons x xs)
  show ?case
    unfolding map_go.simps
    by (rule rguards_then [OF assms(1) [OF Cons.prems]], rule rguards_then [OF Cons.IH], assumption,
        rule rguards_return) simp_all
qed (simp add: rguards_return)

lemma collect_guarded:
  assumes "guards P h0 (\<lambda>r h'. r = Ok () \<longrightarrow> F h') m h"
  shows "guards P h0 (\<lambda>r h'. \<forall>v. r = Ok v \<longrightarrow> snd v = None \<longrightarrow> F h') (collect m u) h"
  unfolding collect_def
  by (rule guards_bind [OF assms], rule guards_handle) (auto intro: guards_return)

lemma download_workers_guarded:
  assumes "\<And>x h. x \<in> set xs \<Longrightarrow> guarded P h0 h \<Longrightarrow> grows g h \<Longrightarrow> guards P h0 (\<lambda>r h'. r = Ok () \<longrightarrow> F x h') (mk x) h"
    and "\<And>x h h'. F x h \<Longrightarrow> grows h h' \<Longrightarrow> F x h'" "guarded P h0 h" "grows g h"
  shows "guards P h0 (\<lambda>r h'. \<forall>v. r = Ok v \<longrightarrow> (\<exists>es. snd v = errs @ es \<and> (es = [] \<longrightarrow> (\<forall>x\<in>set xs. F x h'))))
     (run_workers collect (map mk xs) () errs) h"
  using assms(1,3,4)
proof (induction xs arbitrary: h errs)
  case Nil
  then show ?case by (simp add: guards_return)
next
  case (Cons x xs)
  show ?case
    unfolding list.map run_workers.simps
  proof (rule guards_bind [OF collect_guarded [OF Cons.prems(1)]])
    fix r :: "(unit \<times> go_err option) outcome" and h'
    assume h': "guarded P h0 h'" "grows h h'" "\<forall>v. r = Ok v \<longrightarrow> snd v = None \<longrightarrow> F x h'"
    show "guards P h0 (\<lambda>r h'. \<forall>v. r = Ok v \<longrightarrow> (\<exists>es. snd v = errs @ es \<and> (es = [] \<longrightarrow> (\<forall>x\<in>set (x # xs). F x h'))))
       (ok (\<lambda>(a', r). run_workers collect (map mk xs) a' (case r of None \<Rightarrow> errs | Some y \<Rightarrow> errs @ [y])) r) h'"
    proof (rule guards_ok [OF h'(1)])
      fix v
      assume v: "r = Ok v"
      let ?errs = "case snd v of None \<Rightarrow> errs | Some y \<Rightarrow> errs @ [y]"
      have "guards P h0 (\<lambda>r h'. \<forall>v. r = Ok v \<longrightarrow> (\<exists>es. snd v = ?errs @ es \<and> (es = [] \<longrightarrow> (\<forall>x\<in>set xs. F x h'))))
         (run_workers collect (map mk xs) () ?errs) h'"
        by (rule Cons.IH) (use Cons.prems h' in \<open>auto intro: grows_trans\<close>)
      then have "guards P h0 (\<lambda>r h'. \<forall>v. r = Ok v \<longrightarrow> (\<exists>es. snd v = errs @ es \<and> (es = [] \<longrightarrow> (\<forall>x\<in>set (x # xs). F x h'))))
         (run_workers collect (map mk xs) () ?errs) h'"
        by (rule guards_mono) (use h'(3) v assms(2) in \<open>auto split: option.splits\<close>)
      then show "guards P h0 (\<lambda>r h'. \<forall>v. r = Ok v \<longrightarrow> (\<exists>es. snd v = errs @ es \<and> (es = [] \<longrightarrow> (\<forall>x\<in>set (x # xs). F x h'))))
         (case v of (a', r) \<Rightarrow> run_workers collect (map mk xs) a' (case r of None \<Rightarrow> errs | Some y \<Rightarrow> errs @ [y])) h'"
        by (cases v) simp
    qed simp_all
  qed (use Cons.prems in auto)
qed

lemma group_guarded:
  assumes "\<And>x h. x \<in> set xs \<Longrightarrow> guarded P h0 h \<Longrightarrow> grows (fst s) h \<Longrightarrow> guards P h0 (\<lambda>r h'. r = Ok () \<longrightarrow> F x h') (mk x) h"
    and "\<And>x h h'. F x h \<Longrightarrow> grows h h' \<Longrightarrow> F x h'" "guarded P h0 (fst s)"
  shows "rguards P h0 (\<lambda>r h'. r = Ok () \<longrightarrow> (\<forall>x\<in>set xs. F x h')) (group_run c (map mk xs)) s"
proof -
  have "guards P h0 (\<lambda>r h'. r = Ok () \<longrightarrow> (\<forall>x\<in>set xs. F x h')) (run_workers collect (map mk xs) () [] \<bind> ok group_wait) (fst s)"
    by (rule guards_bind [OF download_workers_guarded [OF assms(1,2) assms(3) grows_refl]], assumption+, rule guards_ok, assumption)
       (auto simp: group_wait_def intro!: guards_if guards_return)
  then show ?thesis
    unfolding group_run_def using assms(3) by (auto intro!: rguards_if rguards_return rguards_world)
qed

lemma play_back_guarded:
  assumes h: "guarded (restore_rule e nr h0) h0 (fst s)" and meta: "recorded e nr RestoreMetadComplete h0 (fst s)"
  shows "rguards (restore_rule e nr h0) h0 (\<lambda>r h'. r = Ok () \<longrightarrow> (\<forall>s\<in>set storages. \<exists>dir paths metads.
     agent_ok e (fst (si_addr s)) (DataPlayBackReq dir paths metads) h0 h')) (playBackStorageData e ra eps storages) s"
  unfolding playBackStorageData_def
proof (rule rguards_then [OF map_go_guarded [where g = "\<lambda>s. (fst (si_addr s), playback_req eps s)", OF _ h]])
  fix x :: service_info and s :: "call list \<times> string list"
  assume "guarded (restore_rule e nr h0) h0 (fst s)"
  then show "rguards (restore_rule e nr h0) h0 (\<lambda>r _. \<forall>y. r = Ok y \<longrightarrow> y = (fst (si_addr x), playback_req eps x))
     (GetAgent e (si_addr x) \<bind> ok (\<lambda>agent. ret (fst agent, playback_req eps x))) s"
    by (rule rguards_then [OF get_agent_guarded]) (auto intro: rguards_return)
next
  fix ws and s' :: "call list \<times> string list"
  assume s': "guarded (restore_rule e nr h0) h0 (fst s')" "grows (fst s) (fst s')"
    and "\<forall>ys. Ok ws = Ok ys \<longrightarrow> ys = map (\<lambda>s. (fst (si_addr s), playback_req eps s)) storages"
  then have ws: "ws = map (\<lambda>s. (fst (si_addr s), playback_req eps s)) storages" by simp
  let ?mk = "\<lambda>(host, req). agent_rpc e host req \<bind> handle (\<lambda>_. throw (ErrPlain ''storaged data playback failed'')) (\<lambda>_. ret ())"
  let ?F = "\<lambda>(host, req) h'. agent_ok e host req h0 h'"
  have "rguards (restore_rule e nr h0) h0 (\<lambda>r h'. r = Ok () \<longrightarrow> (\<forall>w\<in>set ws. ?F w h')) (group_run (ra_concurrency ra) (map ?mk ws)) s'"
  proof (rule group_guarded [OF _ _ s'(1)])
    fix w h
    assume w: "w \<in> set ws" and g: "guarded (restore_rule e nr h0) h0 h" "grows (fst s') h"
    obtain host req where hr: "w = (host, req)" by (cases w)
    with w ws have "restore_rule e nr h0 (RestoreCall (AgentRpcC (host, agent_port) req)) h"
      using later(9) [OF grows_trans [OF s'(2) g(2)] meta]
      by (auto simp: playback_req_def restore_rule_def)
    then show "guards (restore_rule e nr h0) h0 (\<lambda>r h'. r = Ok () \<longrightarrow> ?F w h') (?mk w) h"
      unfolding hr prod.case agent_rpc_def
      by (intro guards_bind_send [OF g(1)] guards_handle guards_return) (auto simp: agent_ok_def)
  qed (auto intro: later(4))
  then show "rguards (restore_rule e nr h0) h0 (\<lambda>r h'. r = Ok () \<longrightarrow> (\<forall>s\<in>set storages. \<exists>dir paths metads.
     agent_ok e (fst (si_addr s)) (DataPlayBackReq dir paths metads) h0 h'))
     (group_run (ra_concurrency ra) (map ?mk ws) \<bind> ok (\<lambda>_.
      for_each (\<lambda>s. GetAgent e (si_addr s) \<bind> ok (\<lambda>agent.
        world (agent_rpc e (fst agent) StopAgentReq) \<bind> handle (\<lambda>_. throw (ErrPlain ''stop agent failed'')) (\<lambda>_. ret ()))) storages)) s'"
  proof (rule rguards_then)
    fix u and t :: "call list \<times> string list"
    assume t: "guarded (restore_rule e nr h0) h0 (fst t)" "Ok u = Ok () \<longrightarrow> (\<forall>w\<in>set ws. ?F w (fst t))"
    have stop: "remits calm_call (for_each (\<lambda>s. GetAgent e (si_addr s) \<bind> ok (\<lambda>agent.
        world (agent_rpc e (fst agent) StopAgentReq) \<bind> handle (\<lambda>_. throw (ErrPlain ''stop agent failed'')) (\<lambda>_. ret ()))) storages)"
      by (intro remits calm) auto
    have played: "\<exists>dir paths metads. agent_ok e (fst (si_addr x)) (DataPlayBackReq dir paths metads) h0 (fst t)"
      if "x \<in> set storages" for x
      using t(2) that unfolding ws playback_req_def by auto
    from calm_grows [OF stop t(1)]
    show "rguards (restore_rule e nr h0) h0 (\<lambda>r h'. r = Ok () \<longrightarrow> (\<forall>s\<in>set storages. \<exists>dir paths metads.
       agent_ok e (fst (si_addr s)) (DataPlayBackReq dir paths metads) h0 h'))
       (for_each (\<lambda>s. GetAgent e (si_addr s) \<bind> ok (\<lambda>agent.
        world (agent_rpc e (fst agent) StopAgentReq) \<bind> handle (\<lambda>_. throw (ErrPlain ''stop agent failed'')) (\<lambda>_. ret ()))) storages) t"
      by (rule rguards_mono) (intro impI ballI, drule played, blast intro: later(4))
  qed simp_all
qed simp_all

section \<open>Planning\<close>

lemma with_meta_guarded:
  assumes h: "guarded (restore_rule e nr h0) h0 (fst s)"
    and m: "\<And>s'. guarded (restore_rule e nr h0) h0 (fst s') \<Longrightarrow> grows (fst s) (fst s') \<Longrightarrow> rguards (restore_rule e nr h0) h0 Q m s'"
    and Q: "\<And>r h h'. Q r h \<Longrightarrow> grows h h' \<Longrightarrow> Q r h'" "\<And>x h. Q (Err x) h" "\<And>h. Q Panic h"
  shows "rguards (restore_rule e nr h0) h0 Q (with_meta e hosts m) s"
  unfolding with_meta_def with_defer_def
proof (rule rguards_then [OF calm_io [OF calm_connect h]])
  fix u and s' :: "call list \<times> string list"
  assume s': "guarded (restore_rule e nr h0) h0 (fst s')" "grows (fst s) (fst s')"
  show "rguards (restore_rule e nr h0) h0 Q (m \<bind> (\<lambda>r. world (send (e_done e) MetaClose) \<bind> (\<lambda>_. State_Monad.return r))) s'"
  proof (rule rguards_bind [OF m [OF s']])
    fix r and t :: "call list \<times> string list"
    assume t: "guarded (restore_rule e nr h0) h0 (fst t)" "Q r (fst t)"
    have "emits calm_call (send (e_done e) MetaClose)" by (simp add: emits_send)
    from calm_io [OF this t(1)]
    show "rguards (restore_rule e nr h0) h0 Q (world (send (e_done e) MetaClose) \<bind> (\<lambda>_. State_Monad.return r)) t"
      by (rule rguards_bind) (use t(2) Q(1) in \<open>auto intro: rguards_return\<close>)
  qed
qed (use Q in auto)

lemma load_metas_guarded:
  assumes "guarded (restore_rule e nr h0) h0 h"
  shows "guards (restore_rule e nr h0) h0 (\<lambda>r h'. \<forall>ms. r = Ok ms \<longrightarrow> (\<exists>b rest. ms = metas @ b # rest
     \<and> asked (r_meta_file (e_rs e)) (RestoreCall (ReadMetaC (path_join [''/tmp/nebula-br'', name @ ''.meta'']))) (Ok b) h0 h'))
     (loadBakMetas e ra n name metas) h"
  using assms
proof (induction n arbitrary: name metas h)
  case 0
  then show ?case by (simp add: guards_return)
next
  case (Suc n)
  have step: "guards (restore_rule e nr h0) h0 (\<lambda>r h'. \<forall>ms. r = Ok ms \<longrightarrow> (\<exists>b rest. ms = metas @ b # rest
     \<and> asked (r_meta_file (e_rs e)) (RestoreCall (ReadMetaC (path_join [''/tmp/nebula-br'', name @ ''.meta'']))) (Ok b) h0 h'))
     (if bm_base m \<noteq> '''' then loadBakMetas e ra n (bm_base m) (metas @ [m]) else ret (metas @ [m])) g"
    if g: "guarded (restore_rule e nr h0) h0 g"
      "asked (r_meta_file (e_rs e)) (RestoreCall (ReadMetaC (path_join [''/tmp/nebula-br'', name @ ''.meta'']))) (Ok m) h0 g" for m g
  proof (rule guards_if)
    show "guards (restore_rule e nr h0) h0 (\<lambda>r h'. \<forall>ms. r = Ok ms \<longrightarrow> (\<exists>b rest. ms = metas @ b # rest
     \<and> asked (r_meta_file (e_rs e)) (RestoreCall (ReadMetaC (path_join [''/tmp/nebula-br'', name @ ''.meta'']))) (Ok b) h0 h'))
     (loadBakMetas e ra n (bm_base m) (metas @ [m])) g"
      by (rule guards_mono [OF Suc.IH [OF g(1)]]) (use asked_grows [OF g(2)] in fastforce)
  qed (use g in \<open>auto intro: guards_return\<close>)
  show ?case
    unfolding loadBakMetas.simps Let_def
    apply (rule guards_bind [OF guards_lift [where Q = "\<lambda>_ _. True", OF Suc.prems]], simp)
    apply (rule guards_ok, assumption)
      apply (rule guards_bind_send, assumption, rule calm_restore_rule, simp, rule guards_ok, assumption)
        apply (rule guards_if, rule guards_return, assumption, simp)
        apply (rule guards_bind_send, assumption, rule calm_restore_rule, simp, rule guards_handle, assumption)
          apply (rule guards_bind_send, assumption, rule calm_restore_rule, simp, rule guards_handle, assumption)
            apply (rule step, assumption, simp)
    by (auto intro: guards_return)
qed

text \<open>The plan names the pods of storaged in order, as many as the backup has hosts.\<close>

definition plan_ok :: "env \<Rightarrow> nebula_restore \<Rightarrow> nebula_cluster \<Rightarrow> restore_plan \<Rightarrow> call list \<Rightarrow> call list \<Rightarrow> bool" where
  "plan_ok e nr R p h0 h \<longleftrightarrow> backup_read e nr (rp_backup p) h0 h
     \<and> map (\<lambda>s. fst (si_addr s)) (rp_storages p)
       = map (\<lambda>i. comp_GetPodFQDN (e_getenv e) StoragedComponentType R (int i)) [0..<length (bm_hosts (rp_backup p))]"

lemma replaceStorageHosts_hosts:
  "map (\<lambda>s. fst (si_addr s)) (replaceStorageHosts e R l)
     = map (\<lambda>i. comp_GetPodFQDN (e_getenv e) StoragedComponentType R (int i)) [0..<length l]"
  by (rule nth_equalityI) (simp_all add: replaceStorageHosts_def nth_enumerate_eq)

lemma replaceStorageHosts_length [simp]: "length (replaceStorageHosts e R l) = length l"
  by (simp add: replaceStorageHosts_def)

lemma load_cluster_guarded:
  assumes "guarded (restore_rule e nr h0) h0 (fst s)"
  shows "rguards (restore_rule e nr h0) h0 (\<lambda>r h'. \<forall>x. r = Ok x \<longrightarrow> (\<exists>l. snd x = replaceStorageHosts e R l))
     (loadCluster e original R) s"
  unfolding loadCluster_def
proof (rule with_meta_guarded [OF assms])
  fix s' :: "call list \<times> string list"
  assume s': "guarded (restore_rule e nr h0) h0 (fst s')"
  show "rguards (restore_rule e nr h0) h0 (\<lambda>r h'. \<forall>x. r = Ok x \<longrightarrow> (\<exists>l. snd x = replaceStorageHosts e R l))
     (world (ListCluster e) \<bind> ok (\<lambda>resp.
        lift (LoadFrom resp) \<bind> ok (\<lambda>hosts.
          case GetMetas hosts of
            [] \<Rightarrow> panic
          | m # _ \<Rightarrow>
              (case si_data m of
                 [] \<Rightarrow> panic
               | d # _ \<Rightarrow> ret (d, replaceStorageHosts e R (GetStorages hosts)))))) s'"
    apply (rule rguards_then [OF calm_io [OF _ s']], intro calm)
     apply (rule rguards_then [OF rguards_lift [where Q = "\<lambda>_ _. True"]], assumption, simp)
    by (auto intro!: rguards_return split: list.split)
qed auto

lemma make_plan_guarded:
  assumes h: "guarded (restore_rule e nr h0) h0 (fst s)"
    and c: "rs_config (nr_spec nr) = Some c" "ra_backup ra = rg_backup c"
  shows "rguards (restore_rule e nr h0) h0 (\<lambda>r h'. \<forall>p. r = Ok p \<longrightarrow> plan_ok e nr R p h0 h') (make_plan e ra original R) s"
  unfolding make_plan_def
proof (rule rguards_then [OF load_cluster_guarded [OF h]])
  fix x :: "string \<times> service_info list" and s1 :: "call list \<times> string list"
  assume s1: "guarded (restore_rule e nr h0) h0 (fst s1)" and "\<forall>y. Ok x = Ok y \<longrightarrow> (\<exists>l. snd y = replaceStorageHosts e R l)"
  then obtain d l where x: "x = (d, replaceStorageHosts e R l)" by (metis prod.collapse)
  have step: "rguards (restore_rule e nr h0) h0 (\<lambda>r h'. \<forall>p. r = Ok p \<longrightarrow> plan_ok e nr R p h0 h')
     (case metas of [] \<Rightarrow> panic | b # bases \<Rightarrow>
           let p = \<lparr>rp_meta_data = d, rp_storages = replaceStorageHosts e R l, rp_backup = b, rp_bases = bases\<rparr>
           in lift (checkTopology p) \<bind> ok (\<lambda>_. ret p)) t"
    if t: "guarded (restore_rule e nr h0) h0 (fst t)"
      and m: "\<forall>ms. Ok metas = Ok ms \<longrightarrow> (\<exists>b rest. ms = [] @ b # rest
        \<and> asked (r_meta_file (e_rs e)) (RestoreCall (ReadMetaC (path_join [''/tmp/nebula-br'', ra_backup ra @ ''.meta'']))) (Ok b) h0 (fst t))"
    for metas :: "backup_meta list" and t :: "call list \<times> string list"
  proof -
    obtain b rest where b: "metas = b # rest"
        "asked (r_meta_file (e_rs e)) (RestoreCall (ReadMetaC (path_join [''/tmp/nebula-br'', ra_backup ra @ ''.meta'']))) (Ok b) h0 (fst t)"
      using m by auto
    let ?p = "\<lparr>rp_meta_data = d, rp_storages = replaceStorageHosts e R l, rp_backup = b, rp_bases = rest\<rparr>"
    have "plan_ok e nr R ?p h0 (fst t)" if "checkTopology ?p = Ok ()"
      using that b c by (auto simp: plan_ok_def backup_read_def replaceStorageHosts_hosts checkTopology_def split: if_splits)
    moreover have "rguards (restore_rule e nr h0) h0 (\<lambda>r h'. r = checkTopology ?p \<and> h' = fst t) (lift (checkTopology ?p)) t"
      by (rule rguards_lift [OF t]) simp
    ultimately show ?thesis
      unfolding b list.case Let_def
      by - (rule rguards_then [where R = "\<lambda>r h'. r = checkTopology ?p \<and> h' = fst t"], auto intro: rguards_return)
  qed
  show "rguards (restore_rule e nr h0) h0 (\<lambda>r h'. \<forall>p. r = Ok p \<longrightarrow> plan_ok e nr R p h0 h')
     (case x of (metaData, storages) \<Rightarrow>
       world (send (e_done e) (RestoreCall (MkdirC ''/tmp/nebula-br''))) \<bind> ok (\<lambda>_.
       world (loadBakMetas e ra (r_stack (e_rs e)) (ra_backup ra) []) \<bind> ok (\<lambda>metas.
         case metas of [] \<Rightarrow> panic | b # bases \<Rightarrow>
           let p = \<lparr>rp_meta_data = metaData, rp_storages = storages, rp_backup = b, rp_bases = bases\<rparr>
           in lift (checkTopology p) \<bind> ok (\<lambda>_. ret p)))) s1"
    unfolding x prod.case
    apply (rule rguards_then [OF calm_io [OF _ s1]], simp add: emits_send)
     apply (rule rguards_then [OF rguards_world [OF load_metas_guarded]], assumption, rule step, assumption+)
    by auto
qed auto

section \<open>The stages\<close>

lemma updateClusterAnnotations_guarded:
  assumes h: "guarded (restore_rule e nr h0) h0 h" and key: "k \<noteq> AnnRestoreStageKey"
  shows "guards (restore_rule e nr h0) h0 (\<lambda>_ _. True) (updateClusterAnnotations e ns name k v) h"
  unfolding updateClusterAnnotations_def Let_def GetNebulaCluster_def
proof (rule guards_bind_send [OF h calm_restore_rule], simp, rule guards_ok, assumption, rule guards_if)
  fix r h' live
  assume h': "guarded (restore_rule e nr h0) h0 h'" "asked (e_cluster e) (GetCluster ns name) r h0 h'" and live: "r = Ok live"
  let ?nc = "live\<lparr>nc_meta := (nc_meta live)\<lparr>om_annotations := AList.update k v (om_annotations (nc_meta live))\<rparr>\<rparr>"
  have "restore_rule e nr h0 (UpdateCluster new) g"
    if g: "grows h' g" "om_annotations (nc_meta new) = om_annotations (nc_meta ?nc)" for new g
  proof -
    have "IsInRestoreStage2 (om_annotations (nc_meta live))" if "IsInRestoreStage2 (om_annotations (nc_meta new))"
      using that g(2) key by (simp add: IsInRestoreStage2_def update_conv)
    moreover have "AList.update k v (om_annotations (nc_meta live)) \<noteq> []"
      by (cases "om_annotations (nc_meta live)") auto
    ultimately show ?thesis
      using g(2) asked_grows [OF h'(2) [unfolded live] g(1)] by (auto simp: restore_rule_def)
  qed
  from cluster_update_guarded [OF h'(1) this]
  show "guards (restore_rule e nr h0) h0 (\<lambda>_ _. True) (UpdateNebulaCluster e ?nc) h'"
    by (rule guards_mono) simp_all
qed (auto intro: guards_return)

definition sent_meta :: "env \<Rightarrow> (host_addr \<times> host_addr) list \<Rightarrow> string list \<Rightarrow> call list \<Rightarrow> call list \<Rightarrow> bool" where
  "sent_meta e hosts files h0 h \<longleftrightarrow>
     (\<exists>resp. asked (e_meta e) (MetaRpc (RestoreMetaReq hosts files)) (Ok resp) h0 h
        \<and> (mr_code resp = SUCCEEDED \<or> tolerated (mr_code resp)))"

lemma sent_meta_later: "sent_meta e hosts files h0 h \<Longrightarrow> grows h h' \<Longrightarrow> sent_meta e hosts files h0 h'"
  unfolding sent_meta_def by (blast intro: asked_grows)

lemma emits_guards:
  assumes "emits calm_call m" "guarded (restore_rule e nr h0) h0 h"
  shows "guards (restore_rule e nr h0) h0 (\<lambda>_ h'. grows h h') m h"
  by (rule guards_emits [OF assms(1) calm_restore_rule assms(2)])

lemma restore_metads_guarded:
  assumes "guarded (restore_rule e nr h0) h0 h"
    and rule: "\<And>g. grows h g \<Longrightarrow> restore_rule e nr h0 (MetaRpc (RestoreMetaReq hosts files)) g"
  shows "guards (restore_rule e nr h0) h0 (\<lambda>r h'. is_Ok r \<longrightarrow> eps = [] \<or> sent_meta e hosts files h0 h')
     (restore_metads e hosts files eps res) h"
  using assms
proof (induction eps arbitrary: h res)
  case Nil
  then show ?case by (simp add: guards_return)
next
  case (Cons ep eps)
  have request: "restore_rule e nr h0 c g" if "is_meta (RestoreMetaReq hosts files) c" "grows h g" for c g
    using that Cons.prems(2) by (auto simp: is_meta_def intro: calm_restore_rule)
  have rest: "guards (restore_rule e nr h0) h0 (\<lambda>r h'. is_Ok r \<longrightarrow> ep # eps = [] \<or> sent_meta e hosts files h0 h')
     (restore_metads e hosts files eps res') g"
    if g: "guarded (restore_rule e nr h0) h0 g" "grows h g" "sent_meta e hosts files h0 g" for res' g
    by (rule guards_mono [OF Cons.IH [OF g(1)]]) (use Cons.prems(2) g in \<open>auto intro: grows_trans sent_meta_later\<close>)
  have close: "emits calm_call (send (e_done e) MetaClose \<bind> handle (\<lambda>_. ret ()) ret)"
    by (intro emits) simp
  show ?case
    unfolding restore_metads.simps
  proof (rule guards_bind [OF emits_guards [OF calm_connect Cons.prems(1)]], rule guards_handle, assumption)
    fix r u g
    assume g: "guarded (restore_rule e nr h0) h0 g" "grows h g"
    show "guards (restore_rule e nr h0) h0 (\<lambda>r h'. is_Ok r \<longrightarrow> ep # eps = [] \<or> sent_meta e hosts files h0 h')
       (RestoreMeta e hosts files \<bind> handle (\<lambda>_. throw (ErrPlain ''restore metad service failed'')) (\<lambda>resp.
        send (e_done e) MetaClose \<bind> handle (\<lambda>_. ret ()) ret \<bind> ok (\<lambda>_.
        restore_metads e hosts files eps (if res = None then Some resp else res)))) g"
      unfolding RestoreMeta_def
    proof (rule guards_bind [OF meta_request_guarded [OF g(1)]])
      fix r g'
      assume g': "guarded (restore_rule e nr h0) h0 g'" "grows g g'"
        "\<forall>x. r = Ok x \<longrightarrow> asked (e_meta e) (MetaRpc (RestoreMetaReq hosts files)) (Ok x) h0 g'
           \<and> (mr_code x = SUCCEEDED \<or> tolerated (mr_code x))"
      show "guards (restore_rule e nr h0) h0 (\<lambda>r h'. is_Ok r \<longrightarrow> ep # eps = [] \<or> sent_meta e hosts files h0 h')
         (handle (\<lambda>_. throw (ErrPlain ''restore metad service failed'')) (\<lambda>resp.
          send (e_done e) MetaClose \<bind> handle (\<lambda>_. ret ()) ret \<bind> ok (\<lambda>_.
          restore_metads e hosts files eps (if res = None then Some resp else res))) r) g'"
      proof (rule guards_handle [OF g'(1)])
        fix resp
        assume resp: "r = Ok resp"
        then have s: "sent_meta e hosts files h0 g'" using g'(3) by (auto simp: sent_meta_def)
        show "guards (restore_rule e nr h0) h0 (\<lambda>r h'. is_Ok r \<longrightarrow> ep # eps = [] \<or> sent_meta e hosts files h0 h')
           (send (e_done e) MetaClose \<bind> handle (\<lambda>_. ret ()) ret \<bind> ok (\<lambda>_.
            restore_metads e hosts files eps (if res = None then Some resp else res))) g'"
          by (rule guards_bind [OF emits_guards [OF close g'(1)]], rule guards_ok, assumption, rule rest)
             (use g g' s in \<open>auto intro: grows_trans sent_meta_later\<close>)
      qed (auto intro: guards_return g')
    qed (use request g in \<open>blast intro: grows_trans\<close>)
  qed (auto intro: guards_return split: go_err.split)
qed

text \<open>What holds of the run when the restored cluster is worked on.\<close>

definition at_work :: "env \<Rightarrow> nebula_restore \<Rightarrow> restore_config \<Rightarrow> nebula_cluster \<Rightarrow> call list \<Rightarrow> call list \<Rightarrow> bool" where
  "at_work e nr c R h0 h \<longleftrightarrow> guarded (restore_rule e nr h0) h0 h \<and> rs_config (nr_spec nr) = Some c \<and> restoring e nr R h0 h"

lemma at_work_later:
  "at_work e nr c R h0 h \<Longrightarrow> grows h h' \<Longrightarrow> guarded (restore_rule e nr h0) h0 h' \<Longrightarrow> at_work e nr c R h0 h'"
  unfolding at_work_def by (blast intro: later)

lemma restoreMeta_guarded:
  assumes w: "at_work e nr c R h0 h"
    and rule: "\<And>g hosts files. grows h g \<Longrightarrow> restore_rule e nr h0 (MetaRpc (RestoreMetaReq hosts files)) g"
  shows "guards (restore_rule e nr h0) h0 (\<lambda>r h'. is_Ok r \<longrightarrow> meta_restored e R h0 h')
     (restoreMeta e p pairs (metad_endpoints e R)) h"
proof -
  have h: "guarded (restore_rule e nr h0) h0 h" using w by (simp add: at_work_def)
  have parse: "emits calm_call (map_go (\<lambda>(from, to). lift (ParseAddr from) \<bind> ok (\<lambda>f. lift (ParseAddr to) \<bind> ok (\<lambda>t. ret (f, t)))) pairs)"
    by (auto intro!: emits)
  show ?thesis
    unfolding restoreMeta_def
    by (rule guards_bind [OF emits_guards [OF parse h]], rule guards_ok, assumption,
        rule guards_mono [OF restore_metads_guarded])
       (auto intro: rule grows_trans simp: meta_restored_def sent_meta_def)
qed

lemma cluster_get_guarded:
  assumes w: "at_work e nr c R h0 h"
    and k: "\<And>live g. at_work e nr c R h0 g \<Longrightarrow> grows h g \<Longrightarrow> cluster_read e nr R (Ok live) h0 g
      \<Longrightarrow> guards (restore_rule e nr h0) h0 Q (k live) g"
    and Q: "\<And>x g. Q (Err x) g" "\<And>g. Q Panic g"
  shows "guards (restore_rule e nr h0) h0 Q (GetNebulaCluster e (restore_ns nr c) (nc_name R) \<bind> ok k) h"
  unfolding GetNebulaCluster_def
proof (rule guards_bind_send [OF _ calm_restore_rule])
  fix r g
  assume g: "guarded (restore_rule e nr h0) h0 g" "grows h g"
    "asked (e_cluster e) (GetCluster (restore_ns nr c) (nc_name R)) r h0 g"
  show "guards (restore_rule e nr h0) h0 Q (ok k r) g"
    by (rule guards_ok [OF g(1)]) (use g w Q in \<open>auto intro!: k at_work_later [OF w] simp: cluster_read_def at_work_def\<close>)
qed (use w in \<open>auto simp: at_work_def\<close>)

lemma status_world_guarded:
  assumes "guarded (restore_rule e nr h0) h0 (fst s)" "may_set e nr condition h0 (fst s)"
  shows "rguards (restore_rule e nr h0) h0 (now_recorded e nr condition h0) (world (UpdateNebulaRestoreStatus e nr condition u)) s"
  by (intro rguards_world restore_status_guarded assms)

lemma may_set_None [simp]: "may_set e nr None h0 h"
  by (simp add: may_set_def)

lemma may_set_step: "step_done e nr t h0 h \<Longrightarrow> may_set e nr (Some (condition_of t v)) h0 h"
  by (simp add: may_set_def condition_of_def)

lemma now_recorded_step: "now_recorded e nr (Some (condition_of t ''True'')) h0 (Ok u) h \<Longrightarrow> recorded e nr t h0 h"
  by (simp add: now_recorded_def condition_of_def)

lemma fetch_meta_guarded:
  assumes w: "at_work e nr c R h0 (fst s)"
  shows "rguards (restore_rule e nr h0) h0 (\<lambda>r h'. is_Ok r \<longrightarrow> rt_meta_download (nr_status nr) \<or> meta_downloaded e R h0 h')
     (fetch_metadata e nr ra p R) s"
  unfolding fetch_metadata_def
proof (rule rguards_if)
  have h: "guarded (restore_rule e nr h0) h0 (fst s)" using w by (simp add: at_work_def)
  show "rguards (restore_rule e nr h0) h0 (\<lambda>r h'. is_Ok r \<longrightarrow> rt_meta_download (nr_status nr) \<or> meta_downloaded e R h0 h')
     (downloadMetaData e ra p (metad_endpoints e R) \<bind> ok (\<lambda>_.
      world (UpdateNebulaRestoreStatus e nr None (Some (no_restore_update\<lparr>ru_meta_download := True\<rparr>))))) s"
  proof (rule rguards_then [OF download_meta_guarded [OF h]])
    fix x and s' :: "call list \<times> string list"
    assume s': "guarded (restore_rule e nr h0) h0 (fst s')"
      "Ok x = Ok () \<longrightarrow> (\<forall>ep\<in>set (metad_endpoints e R). \<exists>a source path. ParseAddr ep = Ok a
         \<and> agent_ok e (fst a) (DownloadFileReq source path) h0 (fst s'))"
    then have d: "meta_downloaded e R h0 (fst s')" by (simp add: meta_downloaded_def)
    show "rguards (restore_rule e nr h0) h0 (\<lambda>r h'. is_Ok r \<longrightarrow> rt_meta_download (nr_status nr) \<or> meta_downloaded e R h0 h')
       (world (UpdateNebulaRestoreStatus e nr None (Some (no_restore_update\<lparr>ru_meta_download := True\<rparr>)))) s'"
      by (rule rguards_mono [OF status_world_guarded [OF s'(1) may_set_None]]) (use d later(5) in blast)
  qed simp_all
qed (use w in \<open>auto simp: at_work_def intro: rguards_return\<close>)

lemma metadReady_guarded:
  assumes w: "at_work e nr c R h0 h"
  shows "guards (restore_rule e nr h0) h0 (\<lambda>r h'. r = Ok True \<longrightarrow> (\<exists>live. cluster_read e nr R (Ok live) h0 h'
     \<and> comp_IsReady MetadComponentType live = Ok True)) (metadReady e (restore_ns nr c) (nc_name R)) h"
  unfolding metadReady_def
  by (rule cluster_get_guarded [OF w]) (auto intro!: guards_lift simp: at_work_def)

lemma clusterReady_guarded:
  assumes w: "at_work e nr c R h0 h"
  shows "guards (restore_rule e nr h0) h0 (\<lambda>r h'. r = Ok True \<longrightarrow> (\<exists>live. cluster_read e nr R (Ok live) h0 h'
     \<and> cluster_IsReady live)) (clusterReady e (restore_ns nr c) (nc_name R)) h"
  unfolding clusterReady_def
  by (rule cluster_get_guarded [OF w]) (auto intro!: guards_return simp: at_work_def)

lemma install_meta_guarded:
  assumes t: "at_work e nr c R h0 (fst t)" "rt_meta_download (nr_status nr) \<or> meta_downloaded e R h0 (fst t)"
    "cluster_read e nr R (Ok live) h0 (fst t)" "comp_IsReady MetadComponentType live = Ok True"
  shows "rguards (restore_rule e nr h0) h0 (\<lambda>r h'. is_Ok r \<longrightarrow> recorded e nr RestoreMetadComplete h0 h')
     (install_metadata e nr p R) t"
  unfolding install_metadata_def
proof (rule rguards_then [OF rguards_lift [where Q = "\<lambda>_ _. True"]],
    use t in \<open>simp add: at_work_def\<close>, simp, rule rguards_then [OF rguards_world [OF restoreMeta_guarded]])
  fix t' :: "call list \<times> string list"
  assume t': "guarded (restore_rule e nr h0) h0 (fst t')" "grows (fst t) (fst t')"
  show "at_work e nr c R h0 (fst t')" by (rule at_work_later [OF t(1) t'(2,1)])
  show "restore_rule e nr h0 (MetaRpc (RestoreMetaReq hosts files)) g" if "grows (fst t') g" for g hosts files
    using t later(2,3,5) [OF grows_trans [OF t'(2) that]]
    unfolding restore_rule_def at_work_def call.case meta_req.case by blast
  fix resp :: "meta_resp option" and g :: "call list \<times> string list"
  assume g: "guarded (restore_rule e nr h0) h0 (fst g)" "grows (fst t') (fst g)" "is_Ok (Ok resp) \<longrightarrow> meta_restored e R h0 (fst g)"
  have "restoring e nr R h0 (fst g)"
    using t(1) later(2) [OF grows_trans [OF t'(2) g(2)]] unfolding at_work_def by blast
  with g(3) have "step_done e nr RestoreMetadComplete h0 (fst g)"
    unfolding step_done_def by auto
  from status_world_guarded [OF g(1) may_set_step [OF this]]
  show "rguards (restore_rule e nr h0) h0 (\<lambda>r h'. is_Ok r \<longrightarrow> recorded e nr RestoreMetadComplete h0 h')
     (world (UpdateNebulaRestoreStatus e nr (Some (condition_of RestoreMetadComplete ''True''))
      (Some (no_restore_update\<lparr>ru_partitions := part_hosts resp, ru_condition := RestoreMetadComplete\<rparr>)))) g"
    by (rule rguards_mono) (auto elim!: is_Ok.elims intro: now_recorded_step)
qed auto

text \<open>A step that waits for something to be true.\<close>

lemma rguards_gate:
  assumes "rguards P h0 (\<lambda>r h'. r = Ok True \<longrightarrow> F h') m s"
    and "\<And>s'. guarded P h0 (fst s') \<Longrightarrow> grows (fst s) (fst s') \<Longrightarrow> F (fst s') \<Longrightarrow> rguards P h0 Q n s'"
    and "\<And>x h. Q (Err x) h" "\<And>h. Q Panic h"
  shows "rguards P h0 Q (m \<bind> ok (\<lambda>b. if \<not> b then throw x else n)) s"
  by (rule rguards_then [OF assms(1)]) (use assms in \<open>auto intro: rguards_return\<close>)

lemma endpoints_gate:
  assumes "guarded (restore_rule e nr h0) h0 (fst s)"
  shows "rguards (restore_rule e nr h0) h0 (\<lambda>r h'. r = Ok True \<longrightarrow> True) (endpointsConnected e eps) s"
  using calm_step [OF calm_endpoints assms] by simp

lemma meta_stage_guarded:
  assumes w: "at_work e nr c R h0 (fst s)"
  shows "rguards (restore_rule e nr h0) h0 (\<lambda>r h'. is_Ok r \<longrightarrow> recorded e nr RestoreMetadComplete h0 h')
     (meta_stage e nr ra p (restore_ns nr c) R) s"
  unfolding meta_stage_def
  apply (rule rguards_if)
  subgoal
    using w by (auto simp: at_work_def recorded_def IsRestoreMetadComplete_def intro: rguards_return)
  apply (rule rguards_gate [OF endpoints_gate])
  subgoal using w by (simp add: at_work_def)
  subgoal premises p1 for s1
  proof -
    note w1 = at_work_later [OF w p1(3,2)]
    show ?thesis
      apply (rule rguards_then [OF fetch_meta_guarded [OF w1]])
      subgoal premises p2 for u s2
        apply (rule rguards_gate [OF rguards_world [OF metadReady_guarded [OF at_work_later [OF w1 p2(2,1)]]]])
        subgoal premises p3 for s3
          using install_meta_guarded [OF at_work_later [OF at_work_later [OF w1 p2(2,1)] p3(2,1)]] p3(3) p2(3) later(5) [OF p3(2)]
          by auto
        by simp_all
      by simp
  qed
  by simp_all

lemma plan_ok_later: "plan_ok e nr R p h0 h \<Longrightarrow> grows h h' \<Longrightarrow> plan_ok e nr R p h0 h'"
  unfolding plan_ok_def by (blast intro: later)

lemma plan_played_back:
  assumes "plan_ok e nr R p h0 h" "\<forall>s\<in>set (rp_storages p). \<exists>dir paths metads.
     agent_ok e (fst (si_addr s)) (DataPlayBackReq dir paths metads) h0 h"
  shows "played_back e R (length (bm_hosts (rp_backup p))) h0 h"
  unfolding played_back_def
proof (intro allI impI)
  let ?host = "\<lambda>i. comp_GetPodFQDN (e_getenv e) StoragedComponentType R (int i)"
  fix i assume "i < length (bm_hosts (rp_backup p))"
  then have "?host i \<in> set (map ?host [0..<length (bm_hosts (rp_backup p))])" by simp
  also have "\<dots> = set (map (\<lambda>s. fst (si_addr s)) (rp_storages p))" using assms(1) by (simp only: plan_ok_def)
  finally show "\<exists>dir paths metads. agent_ok e (?host i) (DataPlayBackReq dir paths metads) h0 h"
    using assms(2) by auto
qed

lemma fetch_data_guarded:
  assumes h: "guarded (restore_rule e nr h0) h0 (fst s)"
  shows "rguards (restore_rule e nr h0) h0 (\<lambda>_ _. True) (fetch_data e nr ra p) s"
proof -
  have calm: "remits calm_call (downloadStorageData e ra p parts)" for parts
    unfolding downloadStorageData_def by (intro remits calm) (auto intro!: emits calm)
  show ?thesis
    unfolding fetch_data_def
    apply (rule rguards_if)
    subgoal using h by (simp add: rguards_return)
    apply (rule rguards_then [OF calm_step [OF calm h]])
    subgoal for x s1
      apply (rule rguards_then [OF status_world_guarded])
      by (auto intro: rguards_return)
    by simp
qed

lemma storage_stage_guarded:
  assumes w: "at_work e nr c R h0 (fst s)" and p: "plan_ok e nr R p h0 (fst s)"
    and m: "recorded e nr RestoreMetadComplete h0 (fst s)"
  shows "rguards (restore_rule e nr h0) h0 (\<lambda>r h'. is_Ok r \<longrightarrow> recorded e nr RestoreStoragedCompleted h0 h')
     (storage_stage e nr ra p R) s"
  unfolding storage_stage_def
  apply (rule rguards_if)
  subgoal
    using w by (auto simp: at_work_def recorded_def IsRestoreStoragedComplete_def intro: rguards_return)
  apply (rule rguards_gate [OF endpoints_gate])
  subgoal using w by (simp add: at_work_def)
  subgoal premises p1 for s1
    apply (rule rguards_then [OF fetch_data_guarded [OF p1(2)]])
    subgoal premises p2 for checkpoints s2
    proof -
      note g2 = grows_trans [OF p1(3) p2(2)]
      show ?thesis
        apply (rule rguards_then [OF play_back_guarded [OF p2(1) later(9) [OF g2 m]]])
        subgoal premises p3 for u s3
        proof -
          note g3 = grows_trans [OF g2 p3(2)]
          have "played_back e R (length (bm_hosts (rp_backup p))) h0 (fst s3)"
            by (rule plan_played_back [OF plan_ok_later [OF p g3]]) (use p3(3) in simp)
          then have "step_done e nr RestoreStoragedCompleted h0 (fst s3)"
            using w p later(2,7) [OF g3] unfolding step_done_def at_work_def plan_ok_def restore_condition_type.case by blast
          from status_world_guarded [OF p3(1) may_set_step [OF this]]
          show ?thesis by (rule rguards_mono) (auto elim!: is_Ok.elims intro: now_recorded_step)
        qed
        by auto
    qed
    by simp
  by simp_all

lemma without_agents_annotations [simp]:
  "om_annotations (nc_meta (without_agents nc)) = [(AnnRestoreStageKey, ''restore-stage-2'')]"
  by (simp add: without_agents_def)

lemma released_cluster_annotations [simp]: "om_annotations (nc_meta (released_cluster original nc)) = []"
  by (simp add: released_cluster_def)

lemma genNebulaCluster_name [simp]: "nc_name (genNebulaCluster e name nr original) = name"
  by (simp add: genNebulaCluster_def Let_def add_metad_init_def add_storaged_init_def plain_meta_def)

lemma finish_first_stage_guarded:
  assumes w: "at_work e nr c R h0 (fst s)" and m: "recorded e nr RestoreStoragedCompleted h0 (fst s)"
  shows "rguards (restore_rule e nr h0) h0 (\<lambda>_ _. True) (finish_first_stage e nr (restore_ns nr c) R) s"
  unfolding finish_first_stage_def
  apply (rule rguards_gate [OF rguards_world [OF clusterReady_guarded [OF w]]])
  subgoal premises p1 for s1
    apply (rule rguards_gate [OF endpoints_gate [OF p1(1)]])
    subgoal premises p2 for s2
      apply (rule rguards_then [OF calm_step [OF calm_checkpoints p2(1)]])
      subgoal premises p3 for u s3
      proof -
        note g = grows_trans [OF p2(2) p3(2)]
        have rule: "restore_rule e nr h0 (UpdateCluster new) h"
          if "grows (fst s3) h" "om_annotations (nc_meta new) = [(AnnRestoreStageKey, ''restore-stage-2'')]" for new h
        proof -
          note k = grows_trans [OF g that(1)]
          have "restoring e nr R h0 h" "recorded e nr RestoreStoragedCompleted h0 h"
            using w m later(2,9) [OF grows_trans [OF p1(2) k]] unfolding at_work_def by blast+
          moreover obtain live where "cluster_read e nr R (Ok live) h0 h" "cluster_IsReady live"
            using p1(3) later(3) [OF k] by blast
          ultimately show ?thesis using that(2) unfolding restore_rule_def call.case by auto
        qed
        have "guards (restore_rule e nr h0) h0 (\<lambda>_ _. True) (removeInitAgentContainer e (restore_ns nr c) (nc_name R)) (fst s3)"
          unfolding removeInitAgentContainer_def
          by (rule guards_bind [OF emits_guards], rule calm, rule p3(1), rule guards_ok, assumption,
              rule guards_mono [OF cluster_update_guarded]) (auto intro!: rule intro: grows_trans)
        then show ?thesis
          by (rule rguards_then [OF rguards_world]) (auto intro: rguards_return)
      qed
      by simp
    by simp_all
  by simp_all

lemma initRestoreAgent_backup: "yields (\<lambda>ra. ra_backup ra = rg_backup c) (initRestoreAgent e nr c)"
proof -
  have "newRestoreAgent e c b u = Ok ra \<Longrightarrow> ra_backup ra = rg_backup c" for b u ra
    by (auto simp: newRestoreAgent_def split: outcome.splits)
  then show ?thesis
    unfolding initRestoreAgent_def
    by (auto intro!: yields_ok [OF yields_any] yields_handle [OF yields_any] yields_lift yields_throw
        split: option.split)
qed

lemma first_stage_guarded:
  assumes w: "at_work e nr c R h0 (fst s)"
    and r: "cluster_read e nr R r h0 (fst s)" "\<forall>live. r = Ok live \<longrightarrow> \<not> IsInRestoreStage2 (om_annotations (nc_meta live))"
  shows "rguards (restore_rule e nr h0) h0 (\<lambda>_ _. True) (first_stage e nr c (restore_ns nr c) original R) s"
proof -
  have h: "guarded (restore_rule e nr h0) h0 (fst s)" using w by (simp add: at_work_def)
  have "guards (restore_rule e nr h0) h0 (\<lambda>_ _. True) (CreateNebulaCluster e R) (fst s)"
    unfolding CreateNebulaCluster_def
    by (rule guards_bind_send [OF h])
       (use w r in \<open>auto simp: restore_rule_def at_work_def intro!: guards_handle guards_return split: go_err.split\<close>)
  note create = rguards_world [OF this]
  have init: "rguards (restore_rule e nr h0) h0 (\<lambda>r _. \<forall>ra. r = Ok ra \<longrightarrow> ra_backup ra = rg_backup c)
     (world (initRestoreAgent e nr c)) t" if "guarded (restore_rule e nr h0) h0 (fst t)" for t :: "call list \<times> string list"
  proof (rule rguards_world)
    show "guards (restore_rule e nr h0) h0 (\<lambda>r _. \<forall>ra. r = Ok ra \<longrightarrow> ra_backup ra = rg_backup c) (initRestoreAgent e nr c) (fst t)"
      unfolding guards_def
      by (rule wp_mono [OF wp_conj [OF emits_guards [OF calm_basic(5) that, unfolded guards_def]
            yieldsD [OF initRestoreAgent_backup]]]) auto
  qed
  have body: "rguards (restore_rule e nr h0) h0 (\<lambda>_ _. True)
     (make_plan e ra original R \<bind> ok (\<lambda>p.
        meta_stage e nr ra p (restore_ns nr c) R \<bind> ok (\<lambda>_.
        world (updateClusterAnnotations e (restore_ns nr c) (nc_name R) AnnRestoreMetadStepKey ''true'') \<bind> ok (\<lambda>_.
        storage_stage e nr ra p R \<bind> ok (\<lambda>_.
        world (updateClusterAnnotations e (restore_ns nr c) (nc_name R) AnnRestoreStoragedStepKey ''true'') \<bind> ok (\<lambda>_.
        finish_first_stage e nr (restore_ns nr c) R)))))) t"
    if t: "at_work e nr c R h0 (fst t)" and ra: "ra_backup ra = rg_backup c" for ra and t :: "call list \<times> string list"
    apply (rule rguards_then [OF make_plan_guarded [where R = R, OF _ _ ra]])
    subgoal using t by (simp add: at_work_def)
    subgoal using t by (simp add: at_work_def)
    subgoal premises p1 for p s1
    proof -
      note w1 = at_work_later [OF t p1(2,1)]
      show ?thesis
        apply (rule rguards_then [OF meta_stage_guarded [OF w1]])
        subgoal premises p2 for u s2
          apply (rule rguards_then [OF rguards_world [OF updateClusterAnnotations_guarded [OF p2(1)]]], simp)
          subgoal premises p3 for u3 s3
          proof -
            note g3 = grows_trans [OF p2(2) p3(2)]
            have "recorded e nr RestoreMetadComplete h0 (fst s3)" using p2(3) later(9) [OF p3(2)] by simp
            moreover have "plan_ok e nr R p h0 (fst s3)" using p1(3) plan_ok_later [OF _ g3] by simp
            ultimately show ?thesis
              apply (intro rguards_then [OF storage_stage_guarded [OF at_work_later [OF w1 g3 p3(1)]]])
                apply assumption+
              subgoal premises p4 for u4 s4
                apply (rule rguards_then [OF rguards_world [OF updateClusterAnnotations_guarded [OF p4(3)]]], simp)
                subgoal premises p5 for u5 s5
                  by (rule finish_first_stage_guarded [OF at_work_later [OF w1 grows_trans [OF g3 grows_trans [OF p4(4) p5(2)]] p5(1)]])
                     (use p4(5) later(9) [OF p5(2)] in simp)
                by simp
              by simp
          qed
          by simp
        by simp
    qed
    by simp
  show ?thesis
    unfolding first_stage_def
    apply (rule rguards_then [OF create])
    subgoal premises p1 for u s1
      apply (rule rguards_then [OF init [OF p1(1)]])
      subgoal premises p2 for ra s2
        apply (rule rguards_bind [OF body [OF at_work_later [OF w grows_trans [OF p1(2) p2(2)] p2(1)]]])
        subgoal using p2(3) by simp
        subgoal premises p3 for x s3
          by (rule rguards_bind [OF calm_step [OF calm_close p3(1)]]) (auto intro: rguards_return)
        done
      by simp
    by simp
qed

lemma calm_restore_balance [calm]: "emits calm_call (restore_balanceLeader e nc)"
  unfolding restore_balanceLeader_def Let_def balance_space_def by (auto intro!: emits calm)

lemma second_stage_guarded:
  assumes w: "at_work e nr c R h0 (fst s)" and live: "cluster_read e nr R (Ok live) h0 (fst s)"
    and stage: "IsInRestoreStage2 (om_annotations (nc_meta live))"
  shows "rguards (restore_rule e nr h0) h0 (\<lambda>_ _. True) (second_stage e nr original R live) s"
  unfolding second_stage_def
proof (rule rguards_if)
  have h: "guarded (restore_rule e nr h0) h0 (fst s)" using w by (simp add: at_work_def)
  then show "rguards (restore_rule e nr h0) h0 (\<lambda>_ _. True) (throw (ErrReconcile ''waiting for cluster ready'')) s"
    by (simp add: rguards_return)
  assume "\<not> \<not> cluster_IsReady live"
  then have ready: "cluster_IsReady live" by simp
  have facts: "restoring e nr R h0 g" "cluster_read e nr R (Ok live) h0 g" if "grows (fst s) g" for g
    using w live later(2,3) [OF that] unfolding at_work_def by blast+
  have body: "guards (restore_rule e nr h0) h0 (\<lambda>_ _. True)
     (restore_balanceLeader e live \<bind> ok (\<lambda>_.
          UpdateNebulaCluster e (released_cluster original live) \<bind>
            handle (\<lambda>_. throw (ErrPlain ''remove cluster annotations failed'')) (\<lambda>_.
          now e \<bind> ok (\<lambda>t.
          UpdateNebulaRestoreStatus e nr (Some (condition_of RestoreComplete ''True''))
            (Some (no_restore_update\<lparr>ru_completed := Some t, ru_condition := RestoreComplete\<rparr>)))))) g0"
    if g0: "guarded (restore_rule e nr h0) h0 g0" "grows (fst s) g0" for g0
    apply (rule guards_bind [OF emits_guards [OF calm_restore_balance g0(1)]], rule guards_ok, assumption)
    subgoal premises p1 for r g1 x
      apply (rule guards_bind [OF cluster_update_guarded [OF p1(1)]])
      subgoal premises p2 for new g
        using facts [OF grows_trans [OF g0(2) grows_trans [OF p1(2) p2(1)]]] p2(2) ready stage
        unfolding restore_rule_def call.case by (auto simp: IsInRestoreStage2_def)
      subgoal premises p2 for r2 g2
        apply (rule guards_handle [OF p2(1)])
        subgoal premises p3 for u
          apply (rule guards_bind [OF guards_now [where Q = "\<lambda>_ _. True"]], rule p2(1), rule calm_restore_rule, simp, simp)
          apply (rule guards_ok, assumption)
          subgoal premises p4 for r4 g4 t
          proof -
            have "step_done e nr RestoreComplete h0 g4"
              using facts [OF grows_trans [OF g0(2) grows_trans [OF p1(2) grows_trans [OF p2(2) p4(2)]]]] ready stage
                p2(3) p3 asked_grows [OF _ p4(2)]
              unfolding step_done_def restore_condition_type.case cluster_updated_def by fastforce
            from restore_status_guarded [OF p4(1) may_set_step [OF this]]
            show ?thesis by (rule guards_mono) simp
          qed
          by simp_all
        using p2(1) by (auto intro: guards_return)
      done
    by simp_all
  show "rguards (restore_rule e nr h0) h0 (\<lambda>_ _. True)
     (with_meta e [metad_address e R] (world (
          restore_balanceLeader e live \<bind> ok (\<lambda>_.
          UpdateNebulaCluster e (released_cluster original live) \<bind>
            handle (\<lambda>_. throw (ErrPlain ''remove cluster annotations failed'')) (\<lambda>_.
          now e \<bind> ok (\<lambda>t.
          UpdateNebulaRestoreStatus e nr (Some (condition_of RestoreComplete ''True''))
            (Some (no_restore_update\<lparr>ru_completed := Some t, ru_condition := RestoreComplete\<rparr>)))))))) s"
    by (rule with_meta_guarded [OF h rguards_world [OF body]]) simp_all
qed

lemma getRestoredName_guarded:
  assumes h: "guarded (restore_rule e nr h0) h0 h"
  shows "guards (restore_rule e nr h0) h0 (\<lambda>r h'. \<forall>name. r = Ok name \<longrightarrow> restored_as e nr name h0 h') (getRestoredName e nr) h"
  unfolding getRestoredName_def
proof (rule guards_if)
  assume n: "rt_cluster (nr_status nr) = ''''"
  show "guards (restore_rule e nr h0) h0 (\<lambda>r h'. \<forall>name. r = Ok name \<longrightarrow> restored_as e nr name h0 h')
     (send (\<lambda>h. Ok (r_random (e_rs e) h)) (RestoreCall (RandomC 4)) \<bind> ok (\<lambda>r.
        let genName = ''ng'' @ r
        in now e \<bind> ok (\<lambda>t.
           UpdateNebulaRestoreStatus e nr None (Some (no_restore_update\<lparr>ru_started := Some t, ru_cluster := Some genName\<rparr>)) \<bind> ok (\<lambda>_.
           ret genName)))) h"
    unfolding Let_def
    apply (rule guards_bind_send [OF h calm_restore_rule], simp, rule guards_ok, assumption)
    subgoal premises p1 for r g x
      apply (rule guards_bind [OF guards_now [where Q = "\<lambda>_ _. True"]], rule p1(1), rule calm_restore_rule, simp, simp)
      apply (rule guards_ok, assumption)
      subgoal premises p2 for r2 g2 t
        apply (rule guards_bind [OF restore_status_guarded [OF p2(1) may_set_None]], rule guards_ok, assumption)
        subgoal premises p3 for r3 g3 u
        proof -
          have "restored_as e nr (''ng'' @ x) h0 g3"
            using n p1(3,4) asked_grows [OF p1(3) grows_trans [OF p2(2) p3(2)]] unfolding restored_as_def by auto
          then show ?thesis using p3(1) by (intro guards_return) auto
        qed
        by simp_all
      by simp_all
    by simp_all
qed (use h in \<open>auto simp: restored_as_def intro: guards_return\<close>)

lemma restore_sync_guarded:
  assumes h: "guarded (restore_rule e nr h0) h0 (fst s)"
  shows "rguards (restore_rule e nr h0) h0 (\<lambda>_ _. True) (syncRestoreProcess e nr) s"
proof (cases "rs_config (nr_spec nr)")
  case None
  then show ?thesis using h by (simp add: syncRestoreProcess_def rguards_return)
next
  case (Some c)
  have ask: "rguards (restore_rule e nr h0) h0 (\<lambda>r h'. asked (e_cluster e) (GetCluster ns name) r h0 h')
     (world (GetNebulaCluster e ns name)) t" if "guarded (restore_rule e nr h0) h0 (fst t)" for ns name and t :: "call list \<times> string list"
    unfolding GetNebulaCluster_def by (intro rguards_world guards_send calm_restore_rule that) simp_all
  show ?thesis
    unfolding syncRestoreProcess_def Some option.case Let_def restore_ns_def [symmetric]
    apply (rule rguards_then [OF ask [OF h]])
    subgoal premises p1 for original s1
      apply (rule rguards_then [OF rguards_world [OF getRestoredName_guarded [OF p1(1)]]])
      subgoal premises p2 for name s2
        apply (rule rguards_then [OF calm_io [OF calm_basic(4) p2(1)]])
        subgoal premises p3 for u s3
          apply (rule rguards_bind [OF ask [OF p3(1)]])
          subgoal premises p4 for r s4
          proof -
            let ?R = "genNebulaCluster e name nr original"
            have "restoring e nr ?R h0 (fst s4)"
              using Some p2(3) later(1) [OF grows_trans [OF p3(2) p4(2)]]
                asked_grows [OF p1(3) grows_trans [OF p2(2) grows_trans [OF p3(2) p4(2)]]]
              unfolding restoring_def by blast
            then have w: "at_work e nr c ?R h0 (fst s4)" using p4(1) Some by (simp add: at_work_def)
            have r: "cluster_read e nr ?R r h0 (fst s4)" using p4(3) Some by (simp add: cluster_read_def)
            show ?thesis
              apply (rule rguards_handle [OF p4(1)])
              subgoal for x
                using w r by (intro rguards_if second_stage_guarded first_stage_guarded) auto
              subgoal for x
                using w r by (intro first_stage_guarded) auto
              by simp
          qed
          done
        by simp
      by simp
    by simp
qed

lemma restore_Sync_guarded:
  assumes "guarded (restore_rule e nr h0) h0 h"
  shows "guards (restore_rule e nr h0) h0 (\<lambda>_ _. True) (restore_Sync e nr) h"
  using restore_sync_guarded [of e nr h0 "(h, [])"] assms
  by (auto simp: rguards_def guards_def wp_def restore_Sync_def split: prod.splits)

lemma report_failure_guarded:
  assumes "guarded (restore_rule e nr h0) h0 h" "rc_type c = RestoreFailed"
  shows "guards (restore_rule e nr h0) h0 (\<lambda>_ _. True) (report_failure e nr c) h"
  unfolding report_failure_def
  by (rule guards_bind [OF restore_status_guarded [OF assms(1)]])
     (use assms(2) in \<open>auto simp: may_set_def step_done_def intro!: guards_handle guards_return\<close>)

lemma watch_pod_guarded:
  assumes "guarded (restore_rule e nr h0) h0 h"
  shows "guards (restore_rule e nr h0) h0 (\<lambda>_ _. True) (watch_pod e nr p) h"
  unfolding watch_pod_def
  by (rule guards_if, rule guards_bind [OF report_failure_guarded [OF assms]])
     (auto simp: failed_condition_def condition_of_def intro!: guards_ok guards_if guards_return assms)

lemma watch_pods_guarded:
  assumes "guarded (restore_rule e nr h0) h0 h"
  shows "guards (restore_rule e nr h0) h0 (\<lambda>_ _. True) (for_each (watch_pod e nr) pods) h"
  using assms
proof (induction pods arbitrary: h)
  case (Cons p pods)
  then show ?case by (auto intro!: guards_bind [OF watch_pod_guarded] guards_ok)
qed (simp add: guards_return)

lemma fail_restore_guarded:
  assumes h: "guarded (restore_rule e nr h0) h0 h"
  shows "guards (restore_rule e nr h0) h0 (\<lambda>_ _. True) (fail_restore e nr x) h"
proof -
  have delete: "guards (restore_rule e nr h0) h0 (\<lambda>_ _. True)
     (DeleteNebulaCluster e ns name \<bind> handle (\<lambda>_. ret ()) ret) g"
    if "guarded (restore_rule e nr h0) h0 g" "rs_auto_remove (nr_spec nr)" for ns name g
    unfolding DeleteNebulaCluster_def GetNebulaCluster_def
    using that
    by (intro guards_bind [where R = "\<lambda>_ _. True"] guards_send guards_handle)
       (auto intro!: guards_return guards_send guards_if calm_restore_rule simp: restore_rule_def)
  show ?thesis
    unfolding fail_restore_def
    apply (rule guards_bind [OF report_failure_guarded [OF h]])
     apply (simp add: failed_condition_def condition_of_def)
    apply (rule guards_ok, assumption)
      apply (rule guards_bind [OF emits_guards [OF calm_basic(3)]], assumption, rule guards_handle, assumption)
        apply (rule guards_if, rule delete, assumption, assumption)
        by (auto intro!: guards_if guards_return)
qed

lemma restore_guarded:
  assumes h: "guarded (restore_rule e nr h0) h0 h"
  shows "guards (restore_rule e nr h0) h0 (\<lambda>_ _. True) (UpdateNebulaRestore e nr) h"
proof -
  have sync: "guards (restore_rule e nr h0) h0 (\<lambda>_ _. True) (sync_or_fail e nr) g"
    if "guarded (restore_rule e nr h0) h0 g" for g
    unfolding sync_or_fail_def
    by (rule guards_bind [OF restore_Sync_guarded [OF that]])
       (auto intro!: guards_handle guards_if guards_return fail_restore_guarded)
  show ?thesis
    unfolding UpdateNebulaRestore_def
    apply (intro guards_if guards_return h sync TrueI)
    apply (rule guards_bind [OF emits_guards [OF calm_basic(2) h]], rule guards_handle, assumption)
      apply (rule guards_bind [OF watch_pods_guarded], assumption, rule guards_ok, assumption, rule sync, assumption)
    by (auto intro: guards_return)
qed

section \<open>The order of a restore\<close>

text \<open>
  Claim C38. Whatever the API server, the meta service and the agents answer, every call in a run of the
  restore control obeys \<open>restore_rule\<close>: a cluster is created only as the copy that is being restored, and not
  when that cluster is already in stage 2; the meta service is told to take the backup only when metad was
  read as ready and its files are on every metad endpoint (or were recorded so); data is played back only
  after the metadata is recorded complete; a condition is written true only when its step was done in this
  run (for storaged: the agent of every pod answered the playback, one pod per host of the backup) or when
  the version just read had it; the cluster is moved to stage 2 only when it was read as ready and storaged
  is recorded complete; its annotations are cleared, which lets the other controllers loose, only when it was
  read as ready in stage 2; and a cluster is deleted only when the restore asks for it.
\<close>
theorem restore_in_order: "guarded (restore_rule e nr h) h (snd (run_state (UpdateNebulaRestore e nr) h))"
  by (rule guards_run [OF restore_guarded]) simp

end
