(* ===== verification/Webhook.thy ===== *)
theory Webhook
  imports ComponentHelper AutoscalerTypes ClusterControl SampleCluster
begin

text \<open>
  The validating admission webhooks (\<open>pkg/webhook/nebulacluster\<close>, \<open>pkg/webhook/autoscaler\<close>,
  \<open>pkg/webhook/util/validation\<close>). The checks that the code takes from Kubernetes' own validation package
  are a parameter, a record of functions, and so is what the decoder makes of the raw objects. A nil
  \<open>replicas\<close> is a panic. The history of a cluster is a relation: an admitted creation, then
  admitted updates and writes of the status, which the webhook is not asked about.
\<close>

section \<open>Field errors and the library's checks\<close>

datatype field_value = IntValue int | PointerValue "int option" | QuantityValue int | StringValue string

datatype field_error = InvalidField string field_value string | ForbiddenField string string

record library_checks =
  lc_meta_update :: "object_meta \<Rightarrow> object_meta \<Rightarrow> field_error list"
  lc_immutable_field :: "int option \<Rightarrow> int option \<Rightarrow> string \<Rightarrow> field_error list"
  lc_immutable_annotation :: "string \<Rightarrow> string \<Rightarrow> string \<Rightarrow> string \<Rightarrow> field_error list"

text \<open>
  Checks in a row: the errors are collected, a panic ends it.
\<close>

definition with_errs :: "field_error list outcome \<Rightarrow> field_error list outcome \<Rightarrow> field_error list outcome" where
  "with_errs xs ys =
     (case xs of Ok a \<Rightarrow> (case ys of Ok b \<Rightarrow> Ok (a @ b) | Err x \<Rightarrow> Err x | Panic \<Rightarrow> Panic)
      | Err x \<Rightarrow> Err x | Panic \<Rightarrow> Panic)"

lemma with_errs_Nil [simp]: "with_errs xs ys = Ok [] \<longleftrightarrow> xs = Ok [] \<and> ys = Ok []"
  by (simp add: with_errs_def split: outcome.splits)

definition with_replicas :: "int option \<Rightarrow> (int \<Rightarrow> 'a outcome) \<Rightarrow> 'a outcome" where
  "with_replicas r f = (case r of None \<Rightarrow> Panic | Some n \<Rightarrow> f n)"

lemma with_replicas_Ok [simp]: "with_replicas r f = Ok x \<longleftrightarrow> (\<exists>n. r = Some n \<and> f n = Ok x)"
  by (simp add: with_replicas_def split: option.splits)

section \<open>Replicas (validation.go, nebulacluster.go, autoscaler.go)\<close>

definition ValidateMinReplicas :: "string \<Rightarrow> int \<Rightarrow> int \<Rightarrow> bool \<Rightarrow> field_error option" where
  "ValidateMinReplicas fldPath actualValue minValue bHaMode =
     (if actualValue < minValue
      then Some (InvalidField fldPath (IntValue actualValue)
        (''should be at least '' @ show_int minValue @ (if bHaMode then '' in HA mode'' else '' not in HA mode'')))
      else None)"

definition ValidateOddNumber :: "string \<Rightarrow> int \<Rightarrow> field_error option" where
  "ValidateOddNumber fldPath v =
     (if even v then Some (InvalidField fldPath (IntValue v) ''should be odd number'') else None)"

definition ValidateMinLessThanMax :: "string \<Rightarrow> int \<Rightarrow> int \<Rightarrow> field_error option" where
  "ValidateMinLessThanMax fldPath minReplicas maxReplicas =
     (if maxReplicas < minReplicas
      then Some (InvalidField fldPath (IntValue minReplicas)
        (''min replica '' @ show_int minReplicas @ '' should be less than or equal to max replicas '' @ show_int maxReplicas))
      else None)"

definition err_list :: "field_error option \<Rightarrow> field_error list" where
  "err_list x = (case x of None \<Rightarrow> [] | Some f \<Rightarrow> [f])"

lemma err_list_Nil [simp]: "err_list x = [] \<longleftrightarrow> x = None"
  by (simp add: err_list_def split: option.splits)

definition ValidateMinReplicasGraphd :: "string \<Rightarrow> int \<Rightarrow> bool \<Rightarrow> field_error list" where
  "ValidateMinReplicasGraphd fldPath replicas bHaMode =
     err_list (ValidateMinReplicas fldPath replicas (if bHaMode then 2 else 1) bHaMode)"

definition ValidateMinReplicasMetad :: "string \<Rightarrow> int \<Rightarrow> bool \<Rightarrow> field_error list" where
  "ValidateMinReplicasMetad fldPath replicas bHaMode =
     err_list (ValidateMinReplicas fldPath replicas (if bHaMode then 3 else 1) bHaMode) @
     (if even replicas then [InvalidField fldPath (IntValue replicas) ''should be odd number''] else [])"

definition ValidateMinReplicasStoraged :: "string \<Rightarrow> int \<Rightarrow> bool \<Rightarrow> field_error list" where
  "ValidateMinReplicasStoraged fldPath replicas bHaMode =
     err_list (ValidateMinReplicas fldPath replicas (if bHaMode then 3 else 1) bHaMode)"

definition ValidateMinMaxReplica :: "string \<Rightarrow> int \<Rightarrow> int \<Rightarrow> field_error list" where
  "ValidateMinMaxReplica fldPath minReplicas maxReplicas =
     err_list (ValidateMinLessThanMax fldPath minReplicas maxReplicas)"

abbreviation graphd_replicas :: "nebula_cluster \<Rightarrow> int option" where
  "graphd_replicas nc \<equiv> cs_replicas (gd_component (sp_graphd (nc_spec nc)))"

abbreviation metad_replicas :: "nebula_cluster \<Rightarrow> int option" where
  "metad_replicas nc \<equiv> cs_replicas (md_component (sp_metad (nc_spec nc)))"

abbreviation storaged_replicas :: "nebula_cluster \<Rightarrow> int option" where
  "storaged_replicas nc \<equiv> cs_replicas (sd_component (sp_storaged (nc_spec nc)))"

abbreviation annotations_of :: "nebula_cluster \<Rightarrow> strmap" where
  "annotations_of nc \<equiv> om_annotations (nc_meta nc)"

text \<open>The checks stop at the first component that is too small.\<close>

definition IsNebulaClusterHA :: "nebula_cluster \<Rightarrow> bool outcome" where
  "IsNebulaClusterHA nc =
     with_replicas (graphd_replicas nc) (\<lambda>g. if g < 2 then Ok False else
     with_replicas (metad_replicas nc) (\<lambda>m. if m < 3 then Ok False else
     with_replicas (storaged_replicas nc) (\<lambda>s. Ok (\<not> s < 3))))"

section \<open>The cluster webhook (helper.go)\<close>

definition validateNebulaClusterGraphd :: "nebula_cluster \<Rightarrow> field_error list outcome" where
  "validateNebulaClusterGraphd nc =
     with_replicas (graphd_replicas nc) (\<lambda>n. Ok (ValidateMinReplicasGraphd ''spec.graphd.replicas'' n (IsInHaMode (annotations_of nc))))"

definition validateNebulaClusterMetad :: "nebula_cluster \<Rightarrow> field_error list outcome" where
  "validateNebulaClusterMetad nc =
     with_replicas (metad_replicas nc) (\<lambda>n. Ok (ValidateMinReplicasMetad ''spec.metad.replicas'' n (IsInHaMode (annotations_of nc))))"

definition validateNebulaClusterStoraged :: "nebula_cluster \<Rightarrow> field_error list outcome" where
  "validateNebulaClusterStoraged nc =
     with_replicas (storaged_replicas nc) (\<lambda>n. Ok (ValidateMinReplicasStoraged ''spec.storaged.replicas'' n (IsInHaMode (annotations_of nc))))"

definition validateNebulaClusterCreateGraphd :: "nebula_cluster \<Rightarrow> field_error list outcome" where
  "validateNebulaClusterCreateGraphd nc = validateNebulaClusterGraphd nc"

definition validateNebulaClusterCreateMetad :: "nebula_cluster \<Rightarrow> field_error list outcome" where
  "validateNebulaClusterCreateMetad nc = validateNebulaClusterMetad nc"

definition validateNebulaClusterCreateStoraged :: "nebula_cluster \<Rightarrow> field_error list outcome" where
  "validateNebulaClusterCreateStoraged nc = validateNebulaClusterStoraged nc"

definition validateNebulaClusterCreate :: "nebula_cluster \<Rightarrow> field_error list outcome" where
  "validateNebulaClusterCreate nc =
     with_errs (validateNebulaClusterCreateGraphd nc)
       (with_errs (validateNebulaClusterCreateMetad nc) (validateNebulaClusterCreateStoraged nc))"

definition validateNebulaClusterUpdateGraphd :: "nebula_cluster \<Rightarrow> nebula_cluster \<Rightarrow> field_error list outcome" where
  "validateNebulaClusterUpdateGraphd nc oldNC = validateNebulaClusterGraphd nc"

definition validateNebulaClusterUpdateMetad ::
    "library_checks \<Rightarrow> nebula_cluster \<Rightarrow> nebula_cluster \<Rightarrow> field_error list outcome" where
  "validateNebulaClusterUpdateMetad lib nc oldNC =
     with_errs (Ok (lc_immutable_field lib (metad_replicas nc) (metad_replicas oldNC) ''spec.metad.replicas''))
       (validateNebulaClusterMetad nc)"

definition claim_size :: "storage_claim \<Rightarrow> int" where
  "claim_size c = storage_of (rq_requests (sc_resources c))"

abbreviation data_claims :: "nebula_cluster \<Rightarrow> storage_claim list" where
  "data_claims nc \<equiv> sd_data_claims (sp_storaged (nc_spec nc))"

fun shrunk_claims :: "storage_claim list \<Rightarrow> storage_claim list \<Rightarrow> field_error list" where
  "shrunk_claims (c # cs) (c' # cs') =
     (if claim_size c < claim_size c'
      then [InvalidField ''spec.storaged.dataVolumeClaims'' (QuantityValue (claim_size c)) ''data volume size can only be increased'']
      else []) @ shrunk_claims cs cs'"
| "shrunk_claims _ _ = []"

definition validateNebulaClusterUpdateStoragedDataVolume :: "nebula_cluster \<Rightarrow> nebula_cluster \<Rightarrow> field_error list" where
  "validateNebulaClusterUpdateStoragedDataVolume nc oldNC =
     (if length (data_claims nc) \<noteq> length (data_claims oldNC)
      then [ForbiddenField ''spec.storaged.dataVolumeClaims'' ''storaged dataVolumeClaims is immutable'']
      else shrunk_claims (data_claims nc) (data_claims oldNC))"

definition show_phase :: "component_phase \<Rightarrow> string" where
  "show_phase p = (case p of NoPhase \<Rightarrow> '''' | RunningPhase \<Rightarrow> ''Running'' | ScaleInPhase \<Rightarrow> ''ScaleIn''
     | ScaleOutPhase \<Rightarrow> ''ScaleOut'' | UpdatePhase \<Rightarrow> ''Update'' | SuspendPhase \<Rightarrow> ''Suspend'')"

abbreviation storaged_phase :: "nebula_cluster \<Rightarrow> component_phase" where
  "storaged_phase nc \<equiv> st_phase (sg_component (cl_storaged (nc_status nc)))"

definition scaling_forbids :: "nebula_cluster \<Rightarrow> field_error list" where
  "scaling_forbids oldNC =
     (if storaged_phase oldNC = ScaleInPhase \<or> storaged_phase oldNC = ScaleOutPhase
      then [ForbiddenField ''spec.storaged'' (''field is immutable while in '' @ show_phase (storaged_phase oldNC) @ '' phase'')]
      else [])"

definition replicas_forbids :: "nebula_cluster \<Rightarrow> nebula_cluster \<Rightarrow> field_error list outcome" where
  "replicas_forbids nc oldNC =
     (if storaged_phase nc = RunningPhase then Ok [] else
      with_replicas (storaged_replicas nc) (\<lambda>n. with_replicas (storaged_replicas oldNC) (\<lambda>n'.
        Ok (if n = n' then []
            else [InvalidField ''spec.storaged.replicas'' (PointerValue (storaged_replicas nc))
                    (''field is immutable while not in Running phase'')]))))"

definition validateNebulaClusterUpdateStoraged :: "nebula_cluster \<Rightarrow> nebula_cluster \<Rightarrow> field_error list outcome" where
  "validateNebulaClusterUpdateStoraged nc oldNC =
     with_errs (Ok (scaling_forbids oldNC)) (with_errs (replicas_forbids nc oldNC)
       (with_errs (Ok (validateNebulaClusterUpdateStoragedDataVolume nc oldNC)) (validateNebulaClusterStoraged nc)))"

definition ha_key :: string where
  "ha_key = ''nebula-graph.io/ha-mode''"

definition validateNebulaClusterUpdate ::
    "library_checks \<Rightarrow> nebula_cluster \<Rightarrow> nebula_cluster \<Rightarrow> field_error list outcome" where
  "validateNebulaClusterUpdate lib nc oldNC =
     with_errs (Ok (lc_meta_update lib (nc_meta nc) (nc_meta oldNC)))
      (with_errs
        (case IsNebulaClusterHA oldNC of
           Ok True \<Rightarrow> Ok []
         | Ok False \<Rightarrow> Ok (lc_immutable_annotation lib (map_val (annotations_of nc) ha_key) (map_val (annotations_of oldNC) ha_key)
                          ha_key ''metadata'')
         | _ \<Rightarrow> Panic)
        (with_errs (validateNebulaClusterUpdateGraphd nc oldNC)
          (with_errs (validateNebulaClusterUpdateMetad lib nc oldNC) (validateNebulaClusterUpdateStoraged nc oldNC))))"

definition validateNebulaClusterDelete :: "nebula_cluster \<Rightarrow> field_error list" where
  "validateNebulaClusterDelete nc =
     (if ISDeleteProtected (annotations_of nc)
      then [ForbiddenField ''metadata.annotations[nebula-graph.io/delete-protection]'' ''protected cluster cannot be deleted'']
      else [])"

section \<open>The admission handlers (validating.go)\<close>

text \<open>
  A request carries the operation and what the decoder makes of its two raw objects (\<open>None\<close> when it
  fails). An answer is an admission, or a status code with the errors.
\<close>

datatype operation = ConnectOp | CreateOp | UpdateOp | DeleteOp

record 'a admission_request =
  ar_operation :: operation
  ar_object :: "'a option"
  ar_old_object :: "'a option"

datatype admission_response = Allowed | Errored int "field_error list"

definition answer :: "field_error list outcome \<Rightarrow> admission_response outcome" where
  "answer errs = (case errs of Ok [] \<Rightarrow> Ok Allowed | Ok es \<Rightarrow> Ok (Errored 422 es) | Err x \<Rightarrow> Err x | Panic \<Rightarrow> Panic)"

lemma answer_Allowed [simp]: "answer errs = Ok Allowed \<longleftrightarrow> errs = Ok []"
  by (simp add: answer_def split: outcome.splits list.splits)

definition admit ::
    "('a \<Rightarrow> field_error list outcome) \<Rightarrow> ('a \<Rightarrow> 'a \<Rightarrow> field_error list outcome) \<Rightarrow> ('a \<Rightarrow> field_error list outcome)
      \<Rightarrow> 'a admission_request \<Rightarrow> admission_response outcome" where
  "admit create upd del req =
     (case (if ar_operation req = DeleteOp then ar_old_object req else ar_object req) of
        None \<Rightarrow> Ok (Errored 400 [])
      | Some obj \<Rightarrow>
          (case ar_operation req of
             ConnectOp \<Rightarrow> Ok Allowed
           | CreateOp \<Rightarrow> answer (create obj)
           | UpdateOp \<Rightarrow>
               (case ar_old_object req of None \<Rightarrow> Ok (Errored 400 []) | Some oldObj \<Rightarrow> answer (upd obj oldObj))
           | DeleteOp \<Rightarrow> answer (del obj)))"

definition nebulacluster_Handle :: "library_checks \<Rightarrow> nebula_cluster admission_request \<Rightarrow> admission_response outcome" where
  "nebulacluster_Handle lib =
     admit validateNebulaClusterCreate (validateNebulaClusterUpdate lib) (\<lambda>nc. Ok (validateNebulaClusterDelete nc))"

definition create_request :: "'a \<Rightarrow> 'a admission_request" where
  "create_request x = \<lparr>ar_operation = CreateOp, ar_object = Some x, ar_old_object = None\<rparr>"

definition update_request :: "'a \<Rightarrow> 'a \<Rightarrow> 'a admission_request" where
  "update_request x old = \<lparr>ar_operation = UpdateOp, ar_object = Some x, ar_old_object = Some old\<rparr>"

definition delete_request :: "'a \<Rightarrow> 'a admission_request" where
  "delete_request old = \<lparr>ar_operation = DeleteOp, ar_object = None, ar_old_object = Some old\<rparr>"

lemmas request_defs = create_request_def update_request_def delete_request_def

section \<open>The autoscaler webhook\<close>

definition validateNebulaAutoscalarReplica :: "autoscaler \<Rightarrow> field_error list outcome" where
  "validateNebulaAutoscalarReplica na =
     with_replicas (hp_min na) (\<lambda>n. Ok (ValidateMinMaxReplica ''spec.graphPolicy.minReplicas'' n (hp_max na)))"

definition validateNebulaAutoscalerCreate :: "autoscaler \<Rightarrow> field_error list outcome" where
  "validateNebulaAutoscalerCreate na = validateNebulaAutoscalarReplica na"

definition validateNebulaAutoscalerUpdate :: "autoscaler \<Rightarrow> autoscaler \<Rightarrow> field_error list outcome" where
  "validateNebulaAutoscalerUpdate na oldNA = validateNebulaAutoscalarReplica na"

definition autoscaler_Handle :: "autoscaler admission_request \<Rightarrow> admission_response outcome" where
  "autoscaler_Handle = admit validateNebulaAutoscalerCreate validateNebulaAutoscalerUpdate (\<lambda>_. Ok [])"


section \<open>What admission guarantees\<close>

text \<open>What Kubernetes documents of the checks of immutability: they have no error exactly for an unchanged value.\<close>

definition documented_checks :: "library_checks \<Rightarrow> bool" where
  "documented_checks lib \<longleftrightarrow>
     (\<forall>n old p. lc_immutable_field lib n old p = [] \<longleftrightarrow> n = old)
     \<and> (\<forall>n old k p. lc_immutable_annotation lib n old k p = [] \<longleftrightarrow> n = old)"

text \<open>
  The history of a cluster, from its creation to what is stored now. The status is written through its own
  subresource, which the webhook is not registered for.
\<close>

inductive cluster_history :: "library_checks \<Rightarrow> nebula_cluster \<Rightarrow> nebula_cluster \<Rightarrow> bool" for lib where
  created: "nebulacluster_Handle lib (create_request nc) = Ok Allowed \<Longrightarrow> cluster_history lib nc nc"
| updated: "cluster_history lib nc0 old \<Longrightarrow> nebulacluster_Handle lib (update_request nc old) = Ok Allowed
    \<Longrightarrow> cluster_history lib nc0 nc"
| status_written: "cluster_history lib nc0 old \<Longrightarrow> cluster_history lib nc0 (old\<lparr>nc_status := st\<rparr>)"

definition at_least :: "int \<Rightarrow> int option \<Rightarrow> bool" where
  "at_least k r \<longleftrightarrow> (case r of None \<Rightarrow> False | Some n \<Rightarrow> k \<le> n)"

definition well_sized :: "nebula_cluster \<Rightarrow> bool" where
  "well_sized nc \<longleftrightarrow>
     (let ha = IsInHaMode (annotations_of nc)
      in at_least (if ha then 2 else 1) (graphd_replicas nc)
         \<and> at_least (if ha then 3 else 1) (metad_replicas nc)
         \<and> (case metad_replicas nc of None \<Rightarrow> False | Some n \<Rightarrow> odd n)
         \<and> at_least (if ha then 3 else 1) (storaged_replicas nc))"

definition claims_grown :: "storage_claim list \<Rightarrow> storage_claim list \<Rightarrow> bool" where
  "claims_grown = list_all2 (\<lambda>a b. claim_size a \<le> claim_size b)"

lemma claims_grown_refl [simp]: "claims_grown cs cs"
  by (simp add: claims_grown_def list_all2_refl)

lemma claims_grown_trans: "claims_grown as bs \<Longrightarrow> claims_grown bs cs \<Longrightarrow> claims_grown as cs"
  unfolding claims_grown_def
  by (rule list_all2_trans [of "\<lambda>a b. claim_size a \<le> claim_size b" "\<lambda>a b. claim_size a \<le> claim_size b"]) simp_all

lemma shrunk_claims_Nil:
  "length cs = length cs' \<Longrightarrow> shrunk_claims cs cs' = [] \<longleftrightarrow> claims_grown cs' cs"
  by (induction cs cs' rule: list_induct2) (auto simp: claims_grown_def)

lemma data_volumes_Nil:
  "validateNebulaClusterUpdateStoragedDataVolume nc old = [] \<longleftrightarrow> claims_grown (data_claims old) (data_claims nc)"
  by (auto simp: validateNebulaClusterUpdateStoragedDataVolume_def shrunk_claims_Nil)
     (auto simp: claims_grown_def dest: list_all2_lengthD)

lemma min_replicas_None [simp]: "ValidateMinReplicas p n k b = None \<longleftrightarrow> k \<le> n"
  by (auto simp: ValidateMinReplicas_def)

lemma at_least_iff: "at_least k r \<longleftrightarrow> (\<exists>n. r = Some n \<and> k \<le> n)"
  by (simp add: at_least_def split: option.splits)

lemma component_checks:
  "validateNebulaClusterGraphd nc = Ok [] \<longleftrightarrow> at_least (if IsInHaMode (annotations_of nc) then 2 else 1) (graphd_replicas nc)"
  "validateNebulaClusterMetad nc = Ok [] \<longleftrightarrow> at_least (if IsInHaMode (annotations_of nc) then 3 else 1) (metad_replicas nc)
      \<and> (case metad_replicas nc of None \<Rightarrow> False | Some n \<Rightarrow> odd n)"
  "validateNebulaClusterStoraged nc = Ok [] \<longleftrightarrow> at_least (if IsInHaMode (annotations_of nc) then 3 else 1) (storaged_replicas nc)"
  by (auto simp: validateNebulaClusterGraphd_def validateNebulaClusterMetad_def validateNebulaClusterStoraged_def
      ValidateMinReplicasGraphd_def ValidateMinReplicasMetad_def ValidateMinReplicasStoraged_def at_least_iff)

lemma admitted_creation:
  "nebulacluster_Handle lib (create_request nc) = Ok Allowed \<longleftrightarrow> well_sized nc"
  by (simp add: nebulacluster_Handle_def create_request_def admit_def validateNebulaClusterCreate_def
      validateNebulaClusterCreateGraphd_def validateNebulaClusterCreateMetad_def validateNebulaClusterCreateStoraged_def
      component_checks well_sized_def Let_def conj_ac)

lemma admitted_update:
  "nebulacluster_Handle lib (update_request nc old) = Ok Allowed \<longleftrightarrow>
     lc_meta_update lib (nc_meta nc) (nc_meta old) = [] \<and>
     (IsNebulaClusterHA old = Ok True \<or> (IsNebulaClusterHA old = Ok False \<and>
        lc_immutable_annotation lib (map_val (annotations_of nc) ha_key) (map_val (annotations_of old) ha_key) ha_key ''metadata'' = [])) \<and>
     lc_immutable_field lib (metad_replicas nc) (metad_replicas old) ''spec.metad.replicas'' = [] \<and>
     scaling_forbids old = [] \<and> replicas_forbids nc old = Ok [] \<and>
     claims_grown (data_claims old) (data_claims nc) \<and> well_sized nc"
  by (auto simp: nebulacluster_Handle_def update_request_def admit_def validateNebulaClusterUpdate_def
      validateNebulaClusterUpdateGraphd_def validateNebulaClusterUpdateMetad_def validateNebulaClusterUpdateStoraged_def
      component_checks well_sized_def Let_def data_volumes_Nil split: outcome.splits bool.splits)

lemma admitted_deletion:
  "nebulacluster_Handle lib (delete_request nc) = Ok Allowed \<longleftrightarrow> \<not> ISDeleteProtected (annotations_of nc)"
  by (simp add: nebulacluster_Handle_def delete_request_def admit_def validateNebulaClusterDelete_def)

lemma scaling_refuses_updates:
  assumes "storaged_phase old = ScaleInPhase \<or> storaged_phase old = ScaleOutPhase"
  shows "nebulacluster_Handle lib (update_request nc old) \<noteq> Ok Allowed"
  using assms by (auto simp: admitted_update scaling_forbids_def)

lemma resized_while_running:
  assumes "nebulacluster_Handle lib (update_request nc old) = Ok Allowed" "storaged_replicas nc \<noteq> storaged_replicas old"
  shows "storaged_phase nc = RunningPhase"
  using assms by (auto simp: admitted_update replicas_forbids_def split: if_splits)

lemma ha_sized_metad: "IsNebulaClusterHA nc = Ok True \<Longrightarrow> at_least 3 (metad_replicas nc)"
  by (auto simp: IsNebulaClusterHA_def at_least_iff split: if_splits)

lemma autoscaler_admitted:
  "autoscaler_Handle (create_request na) = Ok Allowed \<longleftrightarrow> (\<exists>n. hp_min na = Some n \<and> n \<le> hp_max na)"
  by (simp add: autoscaler_Handle_def admit_def create_request_def validateNebulaAutoscalerCreate_def
      validateNebulaAutoscalarReplica_def ValidateMinMaxReplica_def ValidateMinLessThanMax_def not_less
      cong: conj_cong) auto

lemma well_sized_status [simp]: "well_sized (nc\<lparr>nc_status := st\<rparr>) = well_sized nc"
  by (simp add: well_sized_def)

text \<open>
  Claim C39. Every cluster that a chain of admitted requests can lead to is well formed: all three replica
  counts are given and at least what the mode of the cluster asks for (2, 3 and 3 in HA mode, otherwise 1) and
  the number of metad replicas is odd. Over its whole life that number never changes, no data volume of
  storaged is added, dropped or made smaller, and the HA annotation can only have changed on a cluster with
  three metad replicas or more.
\<close>

theorem admitted_clusters_well_formed:
  assumes "documented_checks lib" and "cluster_history lib nc0 nc"
  shows "well_sized nc \<and> metad_replicas nc = metad_replicas nc0
    \<and> claims_grown (data_claims nc0) (data_claims nc)
    \<and> (map_val (annotations_of nc) ha_key \<noteq> map_val (annotations_of nc0) ha_key \<longrightarrow> at_least 3 (metad_replicas nc0))"
  using assms(2)
proof induction
  case (created nc)
  then show ?case by (simp add: admitted_creation)
next
  case (updated nc0 old nc)
  with assms(1) have "metad_replicas nc = metad_replicas old"
    by (simp add: admitted_update documented_checks_def)
  moreover have "at_least 3 (metad_replicas old)" if "map_val (annotations_of nc) ha_key \<noteq> map_val (annotations_of old) ha_key"
    using updated.hyps assms(1) that ha_sized_metad by (auto simp: admitted_update documented_checks_def)
  ultimately show ?case
    using updated by (auto simp: admitted_update intro: claims_grown_trans)
next
  case (status_written nc0 old st)
  then show ?case by simp
qed

definition plain_checks :: library_checks where
  "plain_checks =
     \<lparr>lc_meta_update = (\<lambda>_ _. []),
      lc_immutable_field = (\<lambda>n old p. if n = old then [] else [InvalidField p (PointerValue n) ''field is immutable'']),
      lc_immutable_annotation = (\<lambda>n old k p. if n = old then [] else [InvalidField p (StringValue n) ''field is immutable''])\<rparr>"

lemma plain_checks_documented: "documented_checks plain_checks"
  by (simp add: documented_checks_def plain_checks_def)

lemma sample_history: "cluster_history plain_checks (sample_cluster 1 3) (sample_cluster 2 4)"
proof (rule updated)
  show "cluster_history plain_checks (sample_cluster 1 3) (sample_cluster 1 3)"
    by (rule created) code_simp
  show "nebulacluster_Handle plain_checks (update_request (sample_cluster 2 4) (sample_cluster 1 3)) = Ok Allowed"
    by code_simp
qed

theorem admitted_clusters_well_formed_witness:
  "well_sized (sample_cluster 2 4) \<and> metad_replicas (sample_cluster 2 4) = metad_replicas (sample_cluster 1 3)"
  using admitted_clusters_well_formed [OF plain_checks_documented sample_history] by simp

end
