(* ===== verification/Provisioner.thy ===== *)
theory Provisioner
  imports RestoreTools
begin

text \<open>
  The local volume provisioner (\<open>pkg/controller/provisioner\<close>): the cache of its volumes, the populator that
  keeps it up to date from the informer's events, and the two operations that the provisioning library calls,
  \<open>Provision\<close> and \<open>Delete\<close>, each of which runs a helper pod on the node. A run is the state monad over
  the cache and the API calls made so far, the latest first. The API server and the library's test of a node
  affinity are a parameter, the record \<open>cluster_api\<close>. At the end: no two of its volumes are bound to one host,
  as long as the informer has caught up whenever a volume is provisioned.
\<close>

section \<open>Volumes, claims and nodes\<close>

record requirement =
  nr_key :: string
  nr_operator :: string
  nr_values :: "string list"

text \<open>
  Of a persistent volume: its source if it is local (path and file system type) and the terms of the node
  affinity; the outer option is the affinity itself, the inner one its \<open>Required\<close> field.
\<close>

record local_volume =
  lv_name :: string
  lv_annotations :: strmap
  lv_policy :: string
  lv_access_modes :: "string list"
  lv_mode :: "string option"
  lv_capacity :: resource_list
  lv_local :: "(string \<times> string option) option"
  lv_affinity :: "requirement list list option option"

record volume_claim =
  vc_selector :: bool
  vc_access_modes :: "string list"
  vc_requests :: resource_list
  vc_mode :: "string option"

record volume_class =
  vl_policy :: "string option"
  vl_parameters :: strmap

record host_node =
  hn_name :: string
  hn_labels :: "strmap option"

record provision_options =
  po_class :: volume_class
  po_name :: string
  po_claim :: volume_claim
  po_node :: "host_node option"

record volume_options =
  vp_name :: string
  vp_path :: string
  vp_node :: string
  vp_size :: int
  vp_mode :: string

text \<open>
  A helper pod. What is the same in all of them is left out: the scripts \<open>setup\<close> and \<open>teardown\<close> of the
  config map, the privileged container, the restart policy \<open>Never\<close> and the toleration of disk pressure.
\<close>

record helper_pod =
  hl_name :: string
  hl_namespace :: string
  hl_disk :: string
  hl_config_map :: string
  hl_image :: string
  hl_command :: "string list"
  hl_filesystem :: string
  hl_mounts :: "(string \<times> string) list"
  hl_account :: string
  hl_node :: string
  hl_pull_secrets :: "string list"

record local_provisioner =
  lp_name :: string
  lp_namespace :: string
  lp_image :: string
  lp_pull_secret :: string
  lp_config_map :: string
  lp_account :: string

section \<open>The API server\<close>

datatype provisioner_call =
    CreateHelper helper_pod
  | GetHelper string string
  | StreamLogs string string
  | ReadStream
  | DeleteHelper string string
  | SleepSecond

text \<open>
  What the API server answers, from all calls so far: a created pod comes as the namespace and name of the
  returned object beside the error, a pod read as its phase. \<open>ca_affinity\<close> is \<open>volume.CheckNodeAffinity\<close>
  returning no error.
\<close>

record cluster_api =
  ca_create :: "provisioner_call list \<Rightarrow> (string \<times> string) \<times> go_err option"
  ca_phase :: "provisioner_call list \<Rightarrow> string outcome"
  ca_error :: "provisioner_call list \<Rightarrow> go_err option"
  ca_affinity :: "local_volume \<Rightarrow> strmap option \<Rightarrow> bool"

type_synonym volume_cache = "(string \<times> local_volume) list"

type_synonym 'a pop = "(volume_cache \<times> provisioner_call list, 'a) go"

definition api :: "(provisioner_call list \<Rightarrow> 'a outcome) \<Rightarrow> provisioner_call \<Rightarrow> 'a pop" where
  "api f c = State (\<lambda>(cache, h). (f (c # h), (cache, c # h)))"

lemma wp_api [wp_simps]: "wp (api f c) Q (cache, h) = Q (f (c # h)) (cache, c # h)"
  by (simp add: api_def wp_def)

definition plain_call :: "cluster_api \<Rightarrow> provisioner_call \<Rightarrow> unit pop" where
  "plain_call a c = api (\<lambda>h. case ca_error a h of None \<Rightarrow> Ok () | Some x \<Rightarrow> Err x) c"

section \<open>The cache (cache.go)\<close>

definition VolumeCache_GetPV :: "volume_cache \<Rightarrow> string \<Rightarrow> local_volume option" where
  "VolumeCache_GetPV cache pvName = map_of cache pvName"

definition VolumeCache_AddPV :: "local_volume \<Rightarrow> volume_cache \<Rightarrow> volume_cache" where
  "VolumeCache_AddPV pv cache = AList.update (lv_name pv) pv cache"

definition VolumeCache_UpdatePV :: "local_volume \<Rightarrow> volume_cache \<Rightarrow> volume_cache" where
  "VolumeCache_UpdatePV pv cache = AList.update (lv_name pv) pv cache"

definition VolumeCache_DeletePV :: "string \<Rightarrow> volume_cache \<Rightarrow> volume_cache" where
  "VolumeCache_DeletePV pvName cache = AList.delete pvName cache"

definition VolumeCache_ListPVs :: "volume_cache \<Rightarrow> local_volume list" where
  "VolumeCache_ListPVs cache = map snd cache"

section \<open>The populator (populator.go)\<close>

definition provisioned_by :: string where
  "provisioned_by = ''pv.kubernetes.io/provisioned-by''"

definition handlePVUpdate :: "local_provisioner \<Rightarrow> local_volume \<Rightarrow> volume_cache \<Rightarrow> volume_cache" where
  "handlePVUpdate p pv cache =
     (case VolumeCache_GetPV cache (lv_name pv) of
        Some _ \<Rightarrow> VolumeCache_UpdatePV pv cache
      | None \<Rightarrow>
          (case map_of (lv_annotations pv) provisioned_by of
             None \<Rightarrow> cache
           | Some by_name \<Rightarrow> if by_name = lp_name p then VolumeCache_AddPV pv cache else cache))"

definition handlePVDelete :: "local_volume \<Rightarrow> volume_cache \<Rightarrow> volume_cache" where
  "handlePVDelete pv cache =
     (case VolumeCache_GetPV cache (lv_name pv) of Some _ \<Rightarrow> VolumeCache_DeletePV (lv_name pv) cache | None \<Rightarrow> cache)"

datatype informer_object = PVObject local_volume | Tombstone "local_volume option" | OtherObject

datatype informer_event = AddEvent informer_object | UpdateEvent informer_object | DeleteEvent informer_object

fun handle_event :: "local_provisioner \<Rightarrow> informer_event \<Rightarrow> volume_cache \<Rightarrow> volume_cache" where
  "handle_event p (AddEvent (PVObject pv)) = handlePVUpdate p pv"
| "handle_event p (UpdateEvent (PVObject pv)) = handlePVUpdate p pv"
| "handle_event p (DeleteEvent (PVObject pv)) = handlePVDelete pv"
| "handle_event p (DeleteEvent (Tombstone (Some pv))) = handlePVDelete pv"
| "handle_event p _ = id"

section \<open>Running a helper pod (provisioner.go)\<close>

text \<open>\<open>filepath.Split\<close>, and \<open>strings.TrimSuffix\<close> of the separator.\<close>

definition path_split :: "string \<Rightarrow> string \<times> string" where
  "path_split s = (rev (dropWhile (\<lambda>c. c \<noteq> CHR ''/'') (rev s)), rev (takeWhile (\<lambda>c. c \<noteq> CHR ''/'') (rev s)))"

definition trim_separator :: "string \<Rightarrow> string" where
  "trim_separator s = (if s \<noteq> [] \<and> List.last s = CHR ''/'' then butlast s else s)"

definition getHelperPodName :: "string \<Rightarrow> string \<Rightarrow> string" where
  "getHelperPodName action pvName = ''helper-pod-'' @ action @ ''-'' @ pvName"

definition make_helper :: "local_provisioner \<Rightarrow> string \<Rightarrow> string \<Rightarrow> string list \<Rightarrow> volume_options \<Rightarrow> string \<Rightarrow> helper_pod" where
  "make_helper p action parentDir cmd opts path =
     \<lparr>hl_name = take 128 (getHelperPodName action (vp_name opts)), hl_namespace = lp_namespace p, hl_disk = parentDir,
      hl_config_map = lp_config_map p, hl_image = lp_image p, hl_command = cmd, hl_filesystem = path,
      hl_mounts = [(''disk'', parentDir), (''script'', ''/tmp'')], hl_account = lp_account p, hl_node = vp_node opts,
      hl_pull_secrets = (if lp_pull_secret p = '''' then [] else [lp_pull_secret p])\<rparr>"

text \<open>The logs are only printed; an error ends the printing.\<close>

definition flushStream :: "cluster_api \<Rightarrow> unit pop" where
  "flushStream a = plain_call a ReadStream"

definition saveHelperPodLogs :: "cluster_api \<Rightarrow> string \<times> string \<Rightarrow> unit pop" where
  "saveHelperPodLogs a pod = plain_call a (StreamLogs (fst pod) (snd pod)) \<bind> ok (\<lambda>_. flushStream a)"

fun await_helper :: "cluster_api \<Rightarrow> helper_pod \<Rightarrow> nat \<Rightarrow> bool pop" where
  "await_helper a pod 0 = ret False"
| "await_helper a pod (Suc n) =
     api (ca_phase a) (GetHelper (hl_namespace pod) (hl_name pod)) \<bind> ok (\<lambda>phase.
       if phase = ''Succeeded'' then ret True
       else api (\<lambda>_. Ok ()) SleepSecond \<bind> ok (\<lambda>_. await_helper a pod n))"

text \<open>The deferred function: errors are only logged.\<close>

definition cleanup_helper :: "cluster_api \<Rightarrow> helper_pod \<Rightarrow> string \<times> string \<Rightarrow> unit pop" where
  "cleanup_helper a pod created =
     saveHelperPodLogs a created \<bind> handle (\<lambda>_. ret ()) ret \<bind> ok (\<lambda>_.
     plain_call a (DeleteHelper (hl_namespace pod) (hl_name pod)) \<bind> handle (\<lambda>_. ret ()) ret)"

definition finish_helper :: "cluster_api \<Rightarrow> helper_pod \<Rightarrow> string \<times> string \<Rightarrow> unit pop" where
  "finish_helper a pod created =
     await_helper a pod 30 \<bind> (\<lambda>r. cleanup_helper a pod created \<bind> ok (\<lambda>_.
       case r of
         Ok True \<Rightarrow> ret ()
       | Ok False \<Rightarrow> throw (ErrPlain ''create process timeout'')
       | Err x \<Rightarrow> throw x
       | Panic \<Rightarrow> panic))"

definition run_helper :: "cluster_api \<Rightarrow> helper_pod \<Rightarrow> unit pop" where
  "run_helper a pod =
     api (\<lambda>h. Ok (ca_create a h)) (CreateHelper pod) \<bind> ok (\<lambda>(created, err).
       case err of
         Some x \<Rightarrow> (case x of ErrAlreadyExists _ \<Rightarrow> finish_helper a pod created | _ \<Rightarrow> throw x)
       | None \<Rightarrow> finish_helper a pod created)"

definition createHelperPod :: "local_provisioner \<Rightarrow> cluster_api \<Rightarrow> string \<Rightarrow> string list \<Rightarrow> volume_options \<Rightarrow> unit pop" where
  "createHelperPod p a action cmd opts =
     (if vp_name opts = '''' \<or> vp_path opts = '''' \<or> vp_node opts = ''''
      then throw (ErrPlain ''invalid empty name or path or node'')
      else if take 1 (vp_path opts) \<noteq> ''/'' then throw (ErrPlain ''volume path is not absolute'')
      else let path = path_clean (vp_path opts);
               parentDir = trim_separator (fst (path_split path));
               volumeDir = trim_separator (snd (path_split path))
           in if parentDir = '''' \<or> volumeDir = ''''
              then throw (ErrPlain ''path is invalid, parentDir or volumeDir is empty'')
              else run_helper a (make_helper p action parentDir cmd opts path))"

section \<open>Provisioning and deleting (provisioner.go)\<close>

definition hostname_label :: string where
  "hostname_label = ''kubernetes.io/hostname''"

definition generateVolumeNodeAffinity :: "host_node \<Rightarrow> requirement list list option outcome" where
  "generateVolumeNodeAffinity n =
     (case hn_labels n of
        None \<Rightarrow> Err (ErrPlain ''node does not have labels'')
      | Some labels \<Rightarrow>
          (case map_of labels hostname_label of
             None \<Rightarrow> Err (ErrPlain ''node does not have expected label'')
           | Some v \<Rightarrow> Ok (Some [[\<lparr>nr_key = hostname_label, nr_operator = ''In'', nr_values = [v]\<rparr>]])))"

text \<open>The library tells apart whether a failure is final or the claim should be scheduled again.\<close>

datatype provisioning = Provisioned local_volume | Finished go_err | Reschedule go_err

definition mount_point :: "volume_class \<Rightarrow> string" where
  "mount_point c = (case map_of (vl_parameters c) ''mountPoint'' of None \<Rightarrow> ''/mnt/disks/raid0'' | Some m \<Rightarrow> m)"

definition storage_request :: "resource_list \<Rightarrow> int" where
  "storage_request r = deref_or 0 (map_of r ''storage'')"

text \<open>\<open>Quantity.Value()\<close>: a quantity is kept in thousandths and rounded up.\<close>

definition quantity_value :: "int \<Rightarrow> int" where
  "quantity_value q = - ((- q) div 1000)"

definition refused :: "provision_options \<Rightarrow> go_err option" where
  "refused opts =
     (if vl_policy (po_class opts) \<noteq> None \<and> vl_policy (po_class opts) \<noteq> Some ''Retain'' \<and> vl_policy (po_class opts) \<noteq> Some ''Delete''
      then Some (ErrPlain ''ReclaimPolicy only supportes Retain and Delete'')
      else if vc_selector (po_claim opts) then Some (ErrPlain ''claim.Spec.Selector is not supported'')
      else if \<not> list_all (\<lambda>m. m = ''ReadWriteOnce'' \<or> m = ''ReadWriteOncePod'') (vc_access_modes (po_claim opts))
      then Some (ErrPlain ''NodePath only supports ReadWriteOnce and ReadWriteOncePod (1.22+) access modes'')
      else None)"

definition local_pv :: "provision_options \<Rightarrow> host_node \<Rightarrow> string \<Rightarrow> requirement list list option \<Rightarrow> local_volume" where
  "local_pv opts n policy affinity =
     \<lparr>lv_name = po_name opts, lv_annotations = [(''local.pv.provisioner/selected-node'', hn_name n)], lv_policy = policy,
      lv_access_modes = vc_access_modes (po_claim opts), lv_mode = Some ''Filesystem'',
      lv_capacity = [(''storage'', storage_request (vc_requests (po_claim opts)))],
      lv_local = Some (mount_point (po_class opts), Some ''ext4''), lv_affinity = Some affinity\<rparr>"

definition set_up_volume :: "local_provisioner \<Rightarrow> cluster_api \<Rightarrow> provision_options \<Rightarrow> host_node \<Rightarrow> string \<Rightarrow> provisioning pop" where
  "set_up_volume p a opts n mode =
     createHelperPod p a ''create'' [''/bin/bash'', ''/tmp/setup'']
       \<lparr>vp_name = po_name opts, vp_path = mount_point (po_class opts), vp_node = hn_name n,
        vp_size = quantity_value (storage_request (vc_requests (po_claim opts))), vp_mode = mode\<rparr> \<bind>
     handle (\<lambda>x. ret (Finished x)) (\<lambda>_.
       case generateVolumeNodeAffinity n of
         Ok affinity \<Rightarrow>
           (case vl_policy (po_class opts) of
              None \<Rightarrow> panic
            | Some policy \<Rightarrow> ret (Provisioned (local_pv opts n policy affinity)))
       | Err x \<Rightarrow> ret (Finished x)
       | Panic \<Rightarrow> panic)"

definition provision_on :: "local_provisioner \<Rightarrow> cluster_api \<Rightarrow> provision_options \<Rightarrow> host_node \<Rightarrow> provisioning pop" where
  "provision_on p a opts n =
     gets fst \<bind> ok (\<lambda>cache.
     if list_ex (\<lambda>pv. ca_affinity a pv (hn_labels n)) (VolumeCache_ListPVs cache)
     then ret (Reschedule (ErrPlain ''PV node affinity match node, should be rescheduled to other nodes''))
     else
       (case vc_mode (po_claim opts) of
          None \<Rightarrow> panic
        | Some mode \<Rightarrow>
            set_up_volume p a opts n mode))"

definition Provision :: "local_provisioner \<Rightarrow> cluster_api \<Rightarrow> provision_options \<Rightarrow> provisioning pop" where
  "Provision p a opts =
     (case refused opts of
        Some x \<Rightarrow> ret (Finished x)
      | None \<Rightarrow>
          (case po_node opts of
             None \<Rightarrow> ret (Finished (ErrPlain ''configuration error, no node was specified''))
           | Some n \<Rightarrow> provision_on p a opts n))"

fun first_host :: "requirement list \<Rightarrow> string outcome" where
  "first_host [] = Ok ''''"
| "first_host (r # rs) =
     (if nr_key r = hostname_label \<and> nr_operator r = ''In''
      then (case nr_values r of [v] \<Rightarrow> Ok v | _ \<Rightarrow> Err (ErrPlain ''volume multiple values for the node affinity''))
      else first_host rs)"

fun host_of_terms :: "requirement list list \<Rightarrow> string outcome" where
  "host_of_terms [] = Ok ''''"
| "host_of_terms (t # ts) =
     (case first_host t of Ok h \<Rightarrow> if h \<noteq> '''' then Ok h else host_of_terms ts | Err x \<Rightarrow> Err x | Panic \<Rightarrow> Panic)"

definition getPathAndNodeForPV :: "local_volume \<Rightarrow> (string \<times> string) outcome" where
  "getPathAndNodeForPV pv =
     (case lv_local pv of
        None \<Rightarrow> Err (ErrPlain ''volume VolumeSource not set'')
      | Some (path, _) \<Rightarrow>
          (case lv_affinity pv of
             None \<Rightarrow> Err (ErrPlain ''volume NodeAffinity not set'')
           | Some None \<Rightarrow> Err (ErrPlain ''volume NodeAffinity.Required not set'')
           | Some (Some terms) \<Rightarrow>
               (case host_of_terms terms of
                  Ok h \<Rightarrow> if h = '''' then Err (ErrPlain ''volume cannot find affinited node'') else Ok (path, h)
                | Err x \<Rightarrow> Err x
                | Panic \<Rightarrow> Panic)))"

definition Delete_volume :: "local_provisioner \<Rightarrow> cluster_api \<Rightarrow> local_volume \<Rightarrow> unit pop" where
  "Delete_volume p a pv =
     lift (getPathAndNodeForPV pv) \<bind> ok (\<lambda>(path, host).
     if lv_policy pv = ''Retain'' then ret ()
     else (case lv_mode pv of
             None \<Rightarrow> panic
           | Some mode \<Rightarrow>
               createHelperPod p a ''delete'' [''/bin/bash'', ''/tmp/teardown'']
                 \<lparr>vp_name = lv_name pv, vp_path = path, vp_node = host,
                  vp_size = quantity_value (storage_request (lv_capacity pv)), vp_mode = mode\<rparr>))"


section \<open>What a helper pod may touch\<close>

text \<open>
  Every helper pod mounts a directory other than the root of the host, and the file system it works on is a
  directory just below it.
\<close>

definition safe_helper :: "helper_pod \<Rightarrow> bool" where
  "safe_helper pod \<longleftrightarrow> take 1 (hl_disk pod) = ''/'' \<and>
     (let d = drop (length (hl_disk pod) + 1) (hl_filesystem pod)
      in d \<noteq> '''' \<and> CHR ''/'' \<notin> set d \<and> hl_filesystem pod = hl_disk pod @ ''/'' @ d)"

fun safe_call :: "provisioner_call \<Rightarrow> bool" where
  "safe_call (CreateHelper pod) = safe_helper pod"
| "safe_call _ = True"

text \<open>A run that leaves the cache alone and makes only calls that satisfy \<open>P\<close>.\<close>

named_theorems keeps

definition keeps :: "(provisioner_call \<Rightarrow> bool) \<Rightarrow> 'a pop \<Rightarrow> bool" where
  "keeps P m \<longleftrightarrow> (\<forall>c h. wp m (\<lambda>_ (c', h'). c' = c \<and> (\<exists>new. h' = new @ h \<and> list_all P new)) (c, h))"

lemma keepsD: "keeps P m \<Longrightarrow> wp m (\<lambda>_ (c', h'). c' = c \<and> (\<exists>new. h' = new @ h \<and> list_all P new)) (c, h)"
  by (simp add: keeps_def)

lemma keeps_api [keeps]: "P c \<Longrightarrow> keeps P (api f c)"
  by (auto simp: keeps_def wp_simps)

lemma keeps_plain_call [keeps]: "P c \<Longrightarrow> keeps P (plain_call a c)"
  by (simp add: plain_call_def keeps_api)

lemma keeps_return [keeps]: "keeps P (State_Monad.return r)"
  by (auto simp: keeps_def wp_simps)

lemma keeps_lift [keeps]: "keeps P (lift r)"
  by (auto simp: keeps_def wp_simps)

lemma keeps_gets [keeps]: "keeps P (gets f)"
  by (auto simp: keeps_def wp_simps)

lemma keeps_bind [keeps]:
  assumes "keeps P m" "\<And>r. keeps P (f r)"
  shows "keeps P (m \<bind> f)"
  unfolding keeps_def
proof (intro allI, simp only: wp_bind, rule wp_mono [OF keepsD [OF assms(1)]])
  fix c :: volume_cache and h a s'
  assume "case s' of (c', h') \<Rightarrow> c' = c \<and> (\<exists>new. h' = new @ h \<and> list_all P new)"
  then obtain new where new: "s' = (c, new @ h)" "list_all P new" by (cases s') auto
  have "case t of (c', h') \<Rightarrow> c' = c \<and> (\<exists>later. h' = later @ h \<and> list_all P later)"
    if "case t of (c', h') \<Rightarrow> c' = c \<and> (\<exists>later. h' = later @ new @ h \<and> list_all P later)" for t
  proof -
    from that obtain later where "t = (c, later @ new @ h)" "list_all P later" by (cases t) auto
    with new(2) show ?thesis by (auto intro!: exI [of _ "later @ new"])
  qed
  then show "wp (f a) (\<lambda>_ (c', h'). c' = c \<and> (\<exists>later. h' = later @ h \<and> list_all P later)) s'"
    unfolding new(1) by (rule wp_mono [OF keepsD [OF assms(2)]])
qed

lemma keeps_handle [keeps]: "(\<And>x. keeps P (g x)) \<Longrightarrow> (\<And>x. keeps P (f x)) \<Longrightarrow> keeps P (handle g f r)"
  by (cases r) (simp_all add: handle_def keeps_return)

lemma keeps_ok [keeps]: "(\<And>x. keeps P (f x)) \<Longrightarrow> keeps P (ok f r)"
  by (simp add: ok_def keeps_handle keeps_return)

lemma path_split_append: "fst (path_split s) @ snd (path_split s) = s"
  by (simp add: path_split_def flip: rev_append)

lemma path_split_file: "CHR ''/'' \<notin> set (snd (path_split s))"
  by (auto simp: path_split_def dest: set_takeWhileD)

lemma path_split_dir:
  assumes "CHR ''/'' \<in> set s"
  shows "\<exists>d. fst (path_split s) = d @ ''/''"
proof -
  let ?r = "dropWhile (\<lambda>c. c \<noteq> CHR ''/'') (rev s)"
  have "?r \<noteq> []" using assms by (simp add: dropWhile_eq_Nil_conv)
  then obtain x xs where r: "?r = x # xs" by (cases ?r) simp_all
  then have "x = CHR ''/''" by (simp add: dropWhile_eq_Cons_conv)
  then show ?thesis by (simp add: path_split_def r)
qed

lemma path_clean_absolute: "take 1 s = ''/'' \<Longrightarrow> take 1 (path_clean s) = ''/''"
  by (simp add: path_clean_def Let_def)

lemma make_helper_safe:
  assumes "take 1 path = ''/''" "trim_separator (fst (path_split path)) \<noteq> ''''" "trim_separator (snd (path_split path)) \<noteq> ''''"
  shows "safe_helper (make_helper p action (trim_separator (fst (path_split path))) cmd opts path)"
proof -
  have "CHR ''/'' \<in> set path"
    using assms(1) by (cases path) auto
  then obtain d where d: "fst (path_split path) = d @ ''/''"
    using path_split_dir by blast
  let ?f = "snd (path_split path)"
  have path: "path = d @ ''/'' @ ?f"
    using path_split_append [of path] d by simp
  have td: "trim_separator (fst (path_split path)) = d"
    by (simp add: d trim_separator_def)
  have tf: "trim_separator ?f = ?f"
    using path_split_file [of path] last_in_set [of ?f] by (auto simp: trim_separator_def simp del: last_in_set)
  have dn: "d \<noteq> ''''" and fn: "?f \<noteq> ''''"
    using assms(2,3) by (simp_all add: td tf)
  have t1: "take 1 d = ''/''"
    using assms(1) dn path by (metis append_Cons list.exhaust take0 take_Suc_Cons One_nat_def)
  have "drop (length d + 1) path = ?f"
    by (subst path) simp
  then show ?thesis
    using path path_split_file [of path] fn t1
    by (simp add: safe_helper_def make_helper_def Let_def td)
qed

lemma keeps_await [keeps]: "keeps safe_call (await_helper a pod n)"
  by (induction n) (auto intro!: keeps)

lemma keeps_cleanup [keeps]: "keeps safe_call (cleanup_helper a pod created)"
  unfolding cleanup_helper_def saveHelperPodLogs_def flushStream_def by (auto intro!: keeps)

lemma keeps_finish [keeps]: "keeps safe_call (finish_helper a pod created)"
  unfolding finish_helper_def by (auto intro!: keeps split: outcome.splits bool.splits)

lemma keeps_run_helper [keeps]: "safe_helper pod \<Longrightarrow> keeps safe_call (run_helper a pod)"
  unfolding run_helper_def by (auto intro!: keeps split: option.splits go_err.splits)

lemma keeps_createHelperPod [keeps]: "keeps safe_call (createHelperPod p a action cmd opts)"
proof -
  have "keeps safe_call (run_helper a (make_helper p action (trim_separator (fst (path_split path))) cmd opts path))"
    if "take 1 (vp_path opts) = ''/''" "path = path_clean (vp_path opts)"
      "trim_separator (fst (path_split path)) \<noteq> ''''" "trim_separator (snd (path_split path)) \<noteq> ''''" for path
    using that by (simp add: keeps_run_helper make_helper_safe path_clean_absolute [simplified])
  then show ?thesis
    unfolding createHelperPod_def Let_def by (auto intro: keeps)
qed

lemma keeps_Delete [keeps]: "keeps safe_call (Delete_volume p a pv)"
  unfolding Delete_volume_def by (auto intro!: keeps split: prod.splits option.splits)

lemma keeps_Provision [keeps]: "keeps safe_call (Provision p a opts)"
  unfolding Provision_def provision_on_def set_up_volume_def by (auto intro!: keeps split: option.splits outcome.splits)


text \<open>The last call of a helper's run deletes the pod again, unless it could not be created.\<close>

lemma cleanup_deletes:
  "wp (cleanup_helper a pod created) (\<lambda>r (c', h'). c' = c \<and> r \<noteq> Panic \<and> hd h' = DeleteHelper (hl_namespace pod) (hl_name pod)) (c, h)"
  by (auto simp: cleanup_helper_def saveHelperPodLogs_def flushStream_def plain_call_def wp_simps split: outcome.splits option.splits)

lemma finish_deletes:
  "wp (finish_helper a pod created) (\<lambda>_ (c', h'). c' = c \<and> hd h' = DeleteHelper (hl_namespace pod) (hl_name pod)) (c, h)"
  unfolding finish_helper_def wp_bind
  by (rule wp_mono [OF keepsD [OF keeps_await]])
     (auto simp: wp_simps split: outcome.splits bool.splits intro!: wp_mono [OF cleanup_deletes])

lemma run_helper_deletes:
  "wp (run_helper a pod)
     (\<lambda>_ (c', h'). c' = c \<and> (hd h' = DeleteHelper (hl_namespace pod) (hl_name pod) \<or> hd h' = CreateHelper pod)) (c, h)"
  by (auto simp: run_helper_def wp_simps split: prod.splits option.splits go_err.splits intro!: wp_mono [OF finish_deletes])

section \<open>One volume on every host\<close>

text \<open>What the library documents of the affinities that the provisioner writes: they match by the host name label.\<close>

definition host_affinity :: "string \<Rightarrow> requirement list list option option" where
  "host_affinity host = Some (Some [[\<lparr>nr_key = hostname_label, nr_operator = ''In'', nr_values = [host]\<rparr>]])"

definition checks_affinity :: "cluster_api \<Rightarrow> bool" where
  "checks_affinity a \<longleftrightarrow>
     (\<forall>pv host labels. lv_affinity pv = host_affinity host \<longrightarrow>
        ca_affinity a pv (Some labels) = (map_of labels hostname_label = Some host))"

lemma set_up_post:
  "wp (set_up_volume p a opts n mode)
     (\<lambda>r (c', h'). c' = c \<and> (\<forall>v. r = Ok (Provisioned v) \<longrightarrow>
        (\<exists>labels host. hn_labels n = Some labels \<and> map_of labels hostname_label = Some host \<and> lv_affinity v = host_affinity host))) (c, h)"
  unfolding set_up_volume_def wp_bind
  by (rule wp_mono [OF keepsD [OF keeps_createHelperPod]])
     (auto simp: wp_simps generateVolumeNodeAffinity_def local_pv_def host_affinity_def split: outcome.splits option.splits)

lemma Provision_post:
  "wp (Provision p a opts)
     (\<lambda>r (c', h'). c' = c \<and> (\<forall>v. r = Ok (Provisioned v) \<longrightarrow>
        (\<exists>labels host. map_of labels hostname_label = Some host
           \<and> lv_affinity v = host_affinity host \<and> (\<forall>pv\<in>set (VolumeCache_ListPVs c). \<not> ca_affinity a pv (Some labels))))) (c, h)"
proof -
  have "wp (set_up_volume p a opts n mode)
     (\<lambda>r (c', h'). c' = c \<and> (\<forall>v. r = Ok (Provisioned v) \<longrightarrow>
        (\<exists>labels host. map_of labels hostname_label = Some host
           \<and> lv_affinity v = host_affinity host \<and> (\<forall>pv\<in>set (VolumeCache_ListPVs c). \<not> ca_affinity a pv (Some labels))))) (c, h)"
    if "\<not> list_ex (\<lambda>pv. ca_affinity a pv (hn_labels n)) (VolumeCache_ListPVs c)" for n mode
    by (rule wp_mono [OF set_up_post]) (use that in \<open>auto simp: list_ex_iff; blast\<close>)
  then show ?thesis
    by (simp add: Provision_def provision_on_def wp_simps split: option.splits)
qed

text \<open>
  The library stores what \<open>Provision\<close> returns under its own annotation.
\<close>

definition saved_as :: "local_provisioner \<Rightarrow> local_volume \<Rightarrow> local_volume \<Rightarrow> bool" where
  "saved_as p v w \<longleftrightarrow>
     map_of (lv_annotations w) provisioned_by = Some (lp_name p) \<and> w\<lparr>lv_annotations := lv_annotations v\<rparr> = v"

text \<open>
  The volumes of the provisioner that exist, the cache and the calls made: an informer that has caught up
  delivers every change before the next operation of the provisioner.
\<close>

inductive serving ::
    "local_provisioner \<Rightarrow> cluster_api \<Rightarrow> local_volume list \<Rightarrow> volume_cache \<times> provisioner_call list \<Rightarrow> bool"
  for p a where
  started: "serving p a [] ([], [])"
| provisioned: "\<lbrakk>serving p a vs s; run_state (Provision p a opts) s = (Ok (Provisioned v), (c, h));
      lv_name v \<notin> lv_name ` set vs; saved_as p v w\<rbrakk>
    \<Longrightarrow> serving p a (w # vs) (handle_event p (AddEvent (PVObject w)) c, h)"
| not_provisioned: "\<lbrakk>serving p a vs s; run_state (Provision p a opts) s = (r, s'); \<And>v. r \<noteq> Ok (Provisioned v)\<rbrakk>
    \<Longrightarrow> serving p a vs s'"
| deleted: "\<lbrakk>serving p a vs s; w \<in> set vs; run_state (Delete_volume p a w) s = (Ok (), (c, h))\<rbrakk>
    \<Longrightarrow> serving p a (filter (\<lambda>x. x \<noteq> w) vs) (handle_event p (DeleteEvent (PVObject w)) c, h)"
| not_deleted: "\<lbrakk>serving p a vs s; run_state (Delete_volume p a w) s = (r, s'); r \<noteq> Ok ()\<rbrakk> \<Longrightarrow> serving p a vs s'"
| vanished: "\<lbrakk>serving p a vs (c, h); w \<in> set vs\<rbrakk>
    \<Longrightarrow> serving p a (filter (\<lambda>x. x \<noteq> w) vs) (handle_event p (DeleteEvent (Tombstone (Some w))) c, h)"
| resynced: "\<lbrakk>serving p a vs (c, h); w \<in> set vs\<rbrakk> \<Longrightarrow> serving p a vs (handle_event p (UpdateEvent (PVObject w)) c, h)"
| foreign: "\<lbrakk>serving p a vs (c, h); lv_name w \<notin> lv_name ` set vs; map_of (lv_annotations w) provisioned_by \<noteq> Some (lp_name p)\<rbrakk>
    \<Longrightarrow> serving p a vs (handle_event p (AddEvent (PVObject w)) c, h)"

definition bound_host :: "local_volume \<Rightarrow> string" where
  "bound_host v =
     (case lv_affinity v of Some (Some ts) \<Rightarrow> (case host_of_terms ts of Ok host \<Rightarrow> host | _ \<Rightarrow> '''') | _ \<Rightarrow> '''')"

lemma bound_host_affinity: "lv_affinity v = host_affinity host \<Longrightarrow> bound_host v = host"
  by (simp add: bound_host_def host_affinity_def)

text \<open>
  What the populator relies on: a store that is read by name. A store holds a list of volumes when reading it
  gives exactly these; putting in and deleting keep that.
\<close>

definition holds :: "local_volume list \<Rightarrow> (string \<Rightarrow> local_volume option) \<Rightarrow> bool" where
  "holds vs m \<longleftrightarrow> distinct (map lv_name vs) \<and> (\<forall>k w. m k = Some w \<longleftrightarrow> w \<in> set vs \<and> lv_name w = k)"

lemma holds_name: "holds vs m \<Longrightarrow> w \<in> set vs \<Longrightarrow> w' \<in> set vs \<Longrightarrow> lv_name w = lv_name w' \<Longrightarrow> w = w'"
  by (auto simp: holds_def distinct_map inj_on_def)

lemma holds_get: "holds vs m \<Longrightarrow> w \<in> set vs \<Longrightarrow> m (lv_name w) = Some w"
  by (auto simp: holds_def)

lemma holds_none: "holds vs m \<Longrightarrow> k \<notin> lv_name ` set vs \<Longrightarrow> m k = None"
  by (metis holds_def image_eqI not_None_eq)

locale pv_store =
  fixes get :: "'s \<Rightarrow> string \<Rightarrow> local_volume option"
    and put :: "local_volume \<Rightarrow> 's \<Rightarrow> 's"
    and del :: "string \<Rightarrow> 's \<Rightarrow> 's"
  assumes get_put: "get (put w s) = (get s)(lv_name w \<mapsto> w)"
    and get_del: "get (del k s) = (get s)(k := None)"
begin

lemma holds_new: "holds vs (get s) \<Longrightarrow> lv_name w \<notin> lv_name ` set vs \<Longrightarrow> holds (w # vs) (get (put w s))"
  by (auto simp: holds_def get_put image_iff)

lemma holds_again:
  assumes "holds vs (get s)" "w \<in> set vs"
  shows "holds vs (get (put w s))"
proof -
  have "get (put w s) = get s" using holds_get [OF assms] by (auto simp: get_put)
  with assms(1) show ?thesis by simp
qed

lemma holds_without:
  assumes "holds vs (get s)" "w \<in> set vs"
  shows "holds (filter (\<lambda>x. x \<noteq> w) vs) (get (del (lv_name w) s))"
  using assms holds_name [OF assms]
  unfolding holds_def by (auto simp: get_del distinct_map_filter split: if_splits) metis

end

interpretation pv_added: pv_store VolumeCache_GetPV VolumeCache_AddPV VolumeCache_DeletePV
  by unfold_locales
    (auto simp: VolumeCache_GetPV_def VolumeCache_AddPV_def VolumeCache_DeletePV_def update_conv' delete_conv')

interpretation pv_updated: pv_store VolumeCache_GetPV VolumeCache_UpdatePV VolumeCache_DeletePV
  by unfold_locales
    (auto simp: VolumeCache_GetPV_def VolumeCache_UpdatePV_def VolumeCache_DeletePV_def update_conv' delete_conv')

text \<open>The cache holds exactly the provisioner's volumes, on pairwise different hosts.\<close>

abbreviation cached :: "local_volume list \<Rightarrow> volume_cache \<Rightarrow> bool" where
  "cached vs c \<equiv> holds vs (VolumeCache_GetPV c)"

definition one_per_host :: "local_volume list \<Rightarrow> bool" where
  "one_per_host vs \<longleftrightarrow> distinct (map bound_host vs) \<and> (\<forall>w\<in>set vs. \<exists>host. lv_affinity w = host_affinity host)"

lemma one_per_host_filter: "one_per_host vs \<Longrightarrow> one_per_host (filter P vs)"
  by (auto simp: one_per_host_def distinct_map_filter)

lemma cached_add:
  assumes "cached vs c" "lv_name w \<notin> lv_name ` set vs" "map_of (lv_annotations w) provisioned_by = Some (lp_name p)"
  shows "cached (w # vs) (handlePVUpdate p w c)"
  using pv_added.holds_new [OF assms(1,2)] assms(3) holds_none [OF assms(1,2)] by (simp add: handlePVUpdate_def)

lemma cached_update:
  assumes "cached vs c" "w \<in> set vs"
  shows "cached vs (handlePVUpdate p w c)"
  using pv_updated.holds_again [OF assms] holds_get [OF assms] by (simp add: handlePVUpdate_def)

lemma cached_delete:
  assumes "cached vs c" "w \<in> set vs"
  shows "cached (filter (\<lambda>x. x \<noteq> w) vs) (handlePVDelete w c)"
  using pv_added.holds_without [OF assms] holds_get [OF assms] by (simp add: handlePVDelete_def)

lemma cached_foreign:
  assumes "cached vs c" "lv_name w \<notin> lv_name ` set vs" "map_of (lv_annotations w) provisioned_by \<noteq> Some (lp_name p)"
  shows "handlePVUpdate p w c = c"
  using assms(3) holds_none [OF assms(1,2)] by (auto simp: handlePVUpdate_def split: option.splits)

lemma serving_safe: "serving p a vs s \<Longrightarrow> list_all safe_call (snd s)"
proof (induction rule: serving.induct)
  case (provisioned vs s opts v c h w)
  then show ?case using wp_run [OF keepsD [OF keeps_Provision] , of p a opts "fst s" "snd s"] by auto
next
  case (not_provisioned vs s opts r s')
  then show ?case using wp_run [OF keepsD [OF keeps_Provision] , of p a opts "fst s" "snd s"] by auto
next
  case (deleted vs s w c h)
  then show ?case using wp_run [OF keepsD [OF keeps_Delete] , of p a w "fst s" "snd s"] by auto
next
  case (not_deleted vs s w r s')
  then show ?case using wp_run [OF keepsD [OF keeps_Delete] , of p a w "fst s" "snd s"] by auto
qed simp_all

lemma saved_fields: "saved_as p v w \<Longrightarrow> lv_name w = lv_name v \<and> lv_affinity w = lv_affinity v"
  by (cases v; cases w) (simp add: saved_as_def)

lemma serving_cached: "serving p a vs s \<Longrightarrow> cached vs (fst s)"
proof (induction rule: serving.induct)
  case started
  then show ?case by (simp add: holds_def VolumeCache_GetPV_def)
next
  case (provisioned vs s opts v c h w)
  then have "c = fst s" "lv_name w = lv_name v"
    using wp_run [OF keepsD [OF keeps_Provision], of p a opts "fst s" "snd s"] saved_fields by auto
  moreover from this provisioned have "lv_name w \<notin> lv_name ` set vs" by simp
  ultimately show ?case using provisioned by (simp add: saved_as_def cached_add)
next
  case (not_provisioned vs s opts r s')
  then show ?case using wp_run [OF keepsD [OF keeps_Provision], of p a opts "fst s" "snd s"] by auto
next
  case (deleted vs s w c h)
  then have "c = fst s" using wp_run [OF keepsD [OF keeps_Delete], of p a w "fst s" "snd s"] by auto
  with deleted show ?case by (auto intro: cached_delete)
next
  case (not_deleted vs s w r s')
  then show ?case using wp_run [OF keepsD [OF keeps_Delete], of p a w "fst s" "snd s"] by auto
next
  case (vanished vs c h w)
  then show ?case by (auto intro: cached_delete)
next
  case (resynced vs c h w)
  then show ?case by (auto intro: cached_update)
next
  case (foreign vs c h w)
  then show ?case by (simp add: cached_foreign)
qed

lemma serving_one_per_host:
  assumes "checks_affinity a" and "serving p a vs s"
  shows "one_per_host vs"
  using assms(2)
proof (induction rule: serving.induct)
  case (provisioned vs s opts v c h w)
  obtain labels host where new: "map_of labels hostname_label = Some host" "lv_affinity v = host_affinity host"
      "\<forall>pv\<in>set (VolumeCache_ListPVs (fst s)). \<not> ca_affinity a pv (Some labels)"
    using wp_run [OF Provision_post, of p a opts "fst s" "snd s"] provisioned.hyps(2) by auto
  have known: "set vs \<subseteq> set (VolumeCache_ListPVs (fst s))"
    using holds_get [OF serving_cached [OF provisioned.hyps(1)]]
    by (force simp: VolumeCache_ListPVs_def VolumeCache_GetPV_def dest: map_of_SomeD)
  have other: "bound_host pv \<noteq> host" if "pv \<in> set vs" for pv
  proof -
    from that provisioned.IH obtain host' where "lv_affinity pv = host_affinity host'"
      by (auto simp: one_per_host_def)
    moreover from that have "\<not> ca_affinity a pv (Some labels)"
      using new(3) known by auto
    ultimately show ?thesis
      using new(1) assms(1) by (auto simp: checks_affinity_def bound_host_affinity)
  qed
  have "lv_affinity w = host_affinity host"
    using saved_fields [OF provisioned.hyps(4)] new(2) by simp
  then show ?case
    using provisioned.IH other by (auto simp: one_per_host_def bound_host_affinity)
qed (auto simp: one_per_host_filter, simp add: one_per_host_def)



section \<open>A concrete run\<close>

definition sample_provisioner :: local_provisioner where
  "sample_provisioner =
     \<lparr>lp_name = ''nebula.io/local-pv'', lp_namespace = ''local-pv'', lp_image = ''helper'', lp_pull_secret = '''',
      lp_config_map = ''scripts'', lp_account = ''provisioner''\<rparr>"

text \<open>Every pod succeeds at once; an affinity of the provisioner's form is compared with the label.\<close>

definition sample_api :: cluster_api where
  "sample_api =
     \<lparr>ca_create = (\<lambda>h. ((''local-pv'', ''helper''), None)), ca_phase = (\<lambda>_. Ok ''Succeeded''), ca_error = (\<lambda>_. None),
      ca_affinity = (\<lambda>pv labels. map_of (deref_or [] labels) hostname_label = Some (bound_host pv))\<rparr>"

definition sample_claim :: "string \<Rightarrow> string \<Rightarrow> provision_options" where
  "sample_claim name host =
     \<lparr>po_class = \<lparr>vl_policy = Some ''Delete'', vl_parameters = []\<rparr>, po_name = name,
      po_claim = \<lparr>vc_selector = False, vc_access_modes = [''ReadWriteOnce''], vc_requests = [(''storage'', 1000)],
                   vc_mode = Some ''Filesystem''\<rparr>,
      po_node = Some \<lparr>hn_name = host, hn_labels = Some [(hostname_label, host)]\<rparr>\<rparr>"

definition sample_volume :: "string \<Rightarrow> string \<Rightarrow> local_volume" where
  "sample_volume name host =
     \<lparr>lv_name = name, lv_annotations = [(''local.pv.provisioner/selected-node'', host)], lv_policy = ''Delete'',
      lv_access_modes = [''ReadWriteOnce''], lv_mode = Some ''Filesystem'', lv_capacity = [(''storage'', 1000)],
      lv_local = Some (''/mnt/disks/raid0'', Some ''ext4''), lv_affinity = host_affinity host\<rparr>"

definition stored_volume :: "string \<Rightarrow> string \<Rightarrow> local_volume" where
  "stored_volume name host =
     (sample_volume name host)\<lparr>lv_annotations := [(provisioned_by, ''nebula.io/local-pv'')]\<rparr>"

definition helper_run :: "provisioner_call list" where
  "helper_run = snd (snd (run_state (Provision sample_provisioner sample_api (sample_claim ''pv1'' ''n1'')) ([], [])))"

lemma sample_saved: "saved_as sample_provisioner (sample_volume name host) (stored_volume name host)"
  by (simp add: saved_as_def sample_volume_def stored_volume_def sample_provisioner_def)

lemma sample_checks: "checks_affinity sample_api"
  by (auto simp: checks_affinity_def sample_api_def bound_host_affinity)

lemma sample_provision:
  "run_state (Provision sample_provisioner sample_api (sample_claim ''pv1'' ''n1'')) ([], []) =
     (Ok (Provisioned (sample_volume ''pv1'' ''n1'')), ([], helper_run))"
  "length helper_run = 5"
  by code_simp+

lemma sample_serving:
  "serving sample_provisioner sample_api [stored_volume ''pv1'' ''n1''] ([(''pv1'', stored_volume ''pv1'' ''n1'')], helper_run)"
proof -
  have "handle_event sample_provisioner (AddEvent (PVObject (stored_volume ''pv1'' ''n1''))) [] = [(''pv1'', stored_volume ''pv1'' ''n1'')]"
    by code_simp
  with serving.provisioned [OF serving.started sample_provision(1) _ sample_saved] show ?thesis by simp
qed

definition sample_volumes :: "local_volume list" where
  "sample_volumes = [stored_volume ''pv2'' ''n2'', stored_volume ''pv1'' ''n1'']"

definition sample_cache :: volume_cache where
  "sample_cache = [(''pv1'', stored_volume ''pv1'' ''n1''), (''pv2'', stored_volume ''pv2'' ''n2'')]"

definition both_runs :: "provisioner_call list" where
  "both_runs = snd (snd (run_state (Provision sample_provisioner sample_api (sample_claim ''pv2'' ''n2''))
     ([(''pv1'', stored_volume ''pv1'' ''n1'')], helper_run)))"

lemma sample_provision_again:
  "run_state (Provision sample_provisioner sample_api (sample_claim ''pv2'' ''n2'')) ([(''pv1'', stored_volume ''pv1'' ''n1'')], helper_run) =
     (Ok (Provisioned (sample_volume ''pv2'' ''n2'')), ([(''pv1'', stored_volume ''pv1'' ''n1'')], both_runs))"
  by code_simp

lemma sample_serving_both: "serving sample_provisioner sample_api sample_volumes (sample_cache, both_runs)"
proof -
  have e: "handle_event sample_provisioner (AddEvent (PVObject (stored_volume ''pv2'' ''n2''))) [(''pv1'', stored_volume ''pv1'' ''n1'')] = sample_cache"
    by code_simp
  have n: "lv_name (sample_volume ''pv2'' ''n2'') \<notin> lv_name ` set [stored_volume ''pv1'' ''n1'']"
    by (simp add: sample_volume_def stored_volume_def)
  show ?thesis
    using serving.provisioned [OF sample_serving sample_provision_again n sample_saved]
    unfolding e by (simp add: sample_volumes_def)
qed


text \<open>
  Before the informer has delivered the first volume, a second one is made on the same host; afterwards the
  claim is sent to another one.
\<close>

definition provision_in :: "volume_cache \<Rightarrow> string \<Rightarrow> provisioning outcome" where
  "provision_in cache name =
     fst (run_state (Provision sample_provisioner sample_api (sample_claim name ''n1'')) (cache, helper_run))"

lemma stale_cache_shares_host:
  "provision_in [] ''pv2'' = Ok (Provisioned (sample_volume ''pv2'' ''n1''))"
  by code_simp

lemma fresh_cache_reschedules:
  "provision_in [(''pv1'', stored_volume ''pv1'' ''n1'')] ''pv2'' =
     Ok (Reschedule (ErrPlain ''PV node affinity match node, should be rescheduled to other nodes''))"
  by code_simp

end
