(* ===== verification/CertRotation.thy ===== *)
theory CertRotation
  imports Prelude
begin

text \<open>
  The rotation of the webhook certificates (\<open>pkg/cert-rotation/certificate-generator.go\<close>): what a leader does
  once it has the lock, and the schedule of the cron job. Keys, X.509 and PEM are a parameter, as are the files
  and the API server; each answer may depend on all calls made before, the latest first. The wait for the new
  certificate has no bound in the code, so a run is a partial function: \<open>None\<close> is a run that never returns.
  Times and durations are nanoseconds.
\<close>

section \<open>Certificates and the world\<close>

record cert_template =
  tp_serial :: int
  tp_common_name :: string
  tp_not_before :: int
  tp_not_after :: int
  tp_is_ca :: bool
  tp_dns_names :: "string list"

record tls_secret =
  ts_name :: string
  ts_namespace :: string
  ts_cert :: string
  ts_key :: string
  ts_ca :: string

datatype cert_call =
    ReadTime
  | MakeKey
  | SignCert cert_template
  | ReadCertFile string
  | GetSecretCall string string
  | UpdateSecretCall tls_secret
  | CreateSecretCall tls_secret
  | GetWebhooks string
  | UpdateWebhooks string "string list"
  | WaitTwoSeconds
  | ExitProcess

text \<open>
  \<open>cw_sign\<close> gets the template, the parent certificate (the template itself for a root), the public key's owner
  and the signer; \<open>cw_pem\<close> is \<open>pem.EncodeToMemory\<close> of a block's type and bytes, \<open>cw_unpem\<close> \<open>pem.Decode\<close>,
  \<open>cw_parse\<close> \<open>x509.ParseCertificate\<close> with the end of the validity; \<open>cw_webhooks\<close> has the CA bundles of
  the configuration's webhooks.
\<close>

record cert_world =
  cw_time :: "cert_call list \<Rightarrow> int"
  cw_key :: "cert_call list \<Rightarrow> string outcome"
  cw_sign :: "cert_template \<Rightarrow> string option \<Rightarrow> string \<Rightarrow> string \<Rightarrow> cert_call list \<Rightarrow> string outcome"
  cw_marshal :: "string \<Rightarrow> string outcome"
  cw_pem :: "string \<Rightarrow> string \<Rightarrow> string"
  cw_unpem :: "string \<Rightarrow> (string \<times> string) option"
  cw_parse :: "string \<Rightarrow> int outcome"
  cw_file :: "cert_call list \<Rightarrow> string outcome"
  cw_error :: "cert_call list \<Rightarrow> go_err option"
  cw_webhooks :: "cert_call list \<Rightarrow> string list outcome"

record cert_generator =
  cg_names :: "string list option"
  cg_server :: string
  cg_namespace :: string
  cg_dir :: string
  cg_secret :: string
  cg_secret_namespace :: string
  cg_domain :: string

type_synonym 'a rotation = "cert_call list \<Rightarrow> ('a outcome \<times> cert_call list) option"

definition finish_with :: "'a outcome \<Rightarrow> 'a rotation" where
  "finish_with r h = Some (r, h)"

definition ask :: "(cert_call list \<Rightarrow> 'a outcome) \<Rightarrow> cert_call \<Rightarrow> 'a rotation" where
  "ask f c h = Some (f (c # h), c # h)"

definition and_then :: "'a rotation \<Rightarrow> ('a \<Rightarrow> 'b rotation) \<Rightarrow> 'b rotation" where
  "and_then m f h =
     (case m h of
        None \<Rightarrow> None
      | Some (Ok x, h') \<Rightarrow> f x h'
      | Some (Err x, h') \<Rightarrow> Some (Err x, h')
      | Some (Panic, h') \<Rightarrow> Some (Panic, h'))"

definition wrapping :: "string \<Rightarrow> 'a rotation \<Rightarrow> 'a rotation" where
  "wrapping msg m h = (case m h of Some (Err _, h') \<Rightarrow> Some (Err (ErrPlain msg), h') | r \<Rightarrow> r)"

definition done_or_error :: "cert_world \<Rightarrow> cert_call list \<Rightarrow> unit outcome" where
  "done_or_error w h = (case cw_error w h of None \<Rightarrow> Ok () | Some x \<Rightarrow> Err x)"

section \<open>Making the certificates\<close>

definition second_ns :: int where
  "second_ns = 1000000000"

definition cert_validity_window :: "cert_world \<Rightarrow> int \<Rightarrow> (int \<times> int) rotation" where
  "cert_validity_window w certValidity =
     and_then (ask (\<lambda>h. Ok (cw_time w h)) ReadTime) (\<lambda>before.
     and_then (ask (\<lambda>h. Ok (cw_time w h)) ReadTime) (\<lambda>t. finish_with (Ok (before, t + certValidity))))"

definition generateCACert :: "cert_world \<Rightarrow> cert_generator \<Rightarrow> int \<Rightarrow> (string \<times> string) rotation" where
  "generateCACert w c certValidity =
     and_then (ask (cw_key w) MakeKey) (\<lambda>caKey.
     and_then (cert_validity_window w certValidity) (\<lambda>(before, after).
       let caTemplate = \<lparr>tp_serial = 1, tp_common_name = cg_server c, tp_not_before = before, tp_not_after = after,
                         tp_is_ca = True, tp_dns_names = []\<rparr>
       in and_then (ask (cw_sign w caTemplate None caKey caKey) (SignCert caTemplate)) (\<lambda>caCert.
          finish_with (Ok (cw_pem w ''CERTIFICATE'' caCert, caKey)))))"

text \<open>The loop that fills the names: the second entry of a webhook is where the first of the next one goes.\<close>

fun fill_names :: "cert_generator \<Rightarrow> string list \<Rightarrow> nat \<Rightarrow> string list \<Rightarrow> string list" where
  "fill_names c [] i dns = dns"
| "fill_names c (n # ns) i dns =
     fill_names c ns (Suc i)
       (dns[i := n @ ''.'' @ cg_namespace c @ ''.svc'', Suc i := n @ ''.'' @ cg_namespace c @ ''.svc.'' @ cg_domain c])"

definition dns_names :: "cert_generator \<Rightarrow> string list \<Rightarrow> string list" where
  "dns_names c ns = fill_names c ns 0 (replicate (2 * length ns) '''')"

definition generateServerCert ::
    "cert_world \<Rightarrow> cert_generator \<Rightarrow> string \<Rightarrow> string \<Rightarrow> int \<Rightarrow> (string \<times> string) rotation" where
  "generateServerCert w c caCert caKey certValidity =
     and_then (ask (cw_key w) MakeKey) (\<lambda>serverKey.
     case cg_names c of
       None \<Rightarrow> finish_with Panic
     | Some ns \<Rightarrow>
         and_then (cert_validity_window w certValidity) (\<lambda>(before, after).
           let serverTemplate = \<lparr>tp_serial = 2, tp_common_name = cg_server c, tp_not_before = before,
                                 tp_not_after = after, tp_is_ca = False, tp_dns_names = dns_names c ns\<rparr>
           in (case cw_unpem w caCert of
                 None \<Rightarrow> finish_with Panic
               | Some (_, bytes) \<Rightarrow>
                   and_then (finish_with (cw_parse w bytes)) (\<lambda>_.
                   and_then (ask (cw_sign w serverTemplate (Some bytes) serverKey caKey) (SignCert serverTemplate)) (\<lambda>serverCert.
                   and_then (wrapping ''error marshalling webhook server certificate key'' (finish_with (cw_marshal w serverKey))) (\<lambda>key.
                     finish_with (Ok (cw_pem w ''CERTIFICATE'' serverCert, cw_pem w ''EC PRIVATE KEY'' key))))))))"

section \<open>Publishing them\<close>

fun contains_sub :: "string \<Rightarrow> string \<Rightarrow> bool" where
  "contains_sub [] sub \<longleftrightarrow> sub = []"
| "contains_sub (c # cs) sub \<longleftrightarrow> take (length sub) (c # cs) = sub \<or> contains_sub cs sub"

definition cert_arrived :: "cert_world \<Rightarrow> string \<Rightarrow> string \<Rightarrow> bool" where
  "cert_arrived w certBytes expectedContent \<longleftrightarrow>
     (case cw_unpem w certBytes of None \<Rightarrow> False | Some (t, _) \<Rightarrow> t = ''CERTIFICATE'' \<and> contains_sub certBytes expectedContent)"

partial_function (option) waitForCertificateUpdate :: "cert_world \<Rightarrow> string \<Rightarrow> string \<Rightarrow> unit rotation" where
  "waitForCertificateUpdate w certPath expectedContent h =
     (case cw_file w (ReadCertFile certPath # h) of
        Ok certBytes \<Rightarrow>
          if cert_arrived w certBytes expectedContent then Some (Ok (), ReadCertFile certPath # h)
          else waitForCertificateUpdate w certPath expectedContent (WaitTwoSeconds # ReadCertFile certPath # h)
      | Err _ \<Rightarrow> Some (Err (ErrPlain ''unable to read certificate''), ReadCertFile certPath # h)
      | Panic \<Rightarrow> Some (Panic, ReadCertFile certPath # h))"

definition cert_path :: "cert_generator \<Rightarrow> string \<Rightarrow> string" where
  "cert_path c name = cg_dir c @ ''/'' @ name"

definition new_secret :: "cert_generator \<Rightarrow> string \<Rightarrow> string \<Rightarrow> string \<Rightarrow> tls_secret" where
  "new_secret c certPEM keyPEM caPEM =
     \<lparr>ts_name = cg_secret c, ts_namespace = cg_secret_namespace c, ts_cert = certPEM, ts_key = keyPEM, ts_ca = caPEM\<rparr>"

definition write_secret :: "cert_world \<Rightarrow> cert_generator \<Rightarrow> tls_secret \<Rightarrow> unit rotation" where
  "write_secret w c secret h =
     (case ask (done_or_error w) (GetSecretCall (cg_secret_namespace c) (cg_secret c)) h of
        Some (Ok _, h') \<Rightarrow> wrapping ''failed to update secret'' (ask (done_or_error w) (UpdateSecretCall secret)) h'
      | Some (_, h') \<Rightarrow> wrapping ''failed to create secret'' (ask (done_or_error w) (CreateSecretCall secret)) h'
      | None \<Rightarrow> None)"

definition updateSecret :: "cert_world \<Rightarrow> cert_generator \<Rightarrow> string \<Rightarrow> string \<Rightarrow> string \<Rightarrow> unit rotation" where
  "updateSecret w c certPEM keyPEM caPEM =
     and_then (write_secret w c (new_secret c certPEM keyPEM caPEM)) (\<lambda>_.
     wrapping ''failed to wait for secret to update'' (waitForCertificateUpdate w (cert_path c ''tls.crt'') certPEM))"

definition updateWebhookConfiguration :: "cert_world \<Rightarrow> cert_generator \<Rightarrow> string \<Rightarrow> unit rotation" where
  "updateWebhookConfiguration w c caCert =
     and_then (wrapping ''failed to get webhook configuration'' (ask (cw_webhooks w) (GetWebhooks (cg_server c)))) (\<lambda>webhooks.
     wrapping ''failed to update webhook configuration''
       (ask (done_or_error w) (UpdateWebhooks (cg_server c) (map (\<lambda>_. caCert) webhooks))))"

definition doCertRotation :: "cert_world \<Rightarrow> cert_generator \<Rightarrow> int \<Rightarrow> unit rotation" where
  "doCertRotation w c certValidity =
     and_then (generateCACert w c certValidity) (\<lambda>(caCert, caKey).
     and_then (generateServerCert w c caCert caKey certValidity) (\<lambda>(serverCert, serverKey).
     and_then (updateSecret w c serverCert serverKey caCert) (\<lambda>_.
     updateWebhookConfiguration w c caCert)))"

section \<open>The decision to rotate\<close>

text \<open>The rest of the validity of the certificate in the file, if there is one.\<close>

definition getCertValidity :: "cert_world \<Rightarrow> cert_generator \<Rightarrow> string \<Rightarrow> int option rotation" where
  "getCertValidity w c certName h =
     (let h1 = ReadCertFile (cert_path c certName) # h
      in case cw_file w h1 of
           Ok certPEM \<Rightarrow>
             (case cw_unpem w certPEM of
                None \<Rightarrow> Some (Ok None, h1)
              | Some (t, bytes) \<Rightarrow>
                  if t \<noteq> ''CERTIFICATE'' then Some (Ok None, h1)
                  else (case cw_parse w bytes of
                          Ok notAfter \<Rightarrow> Some (Ok (Some (notAfter - cw_time w (ReadTime # h1))), ReadTime # h1)
                        | _ \<Rightarrow> Some (Ok None, h1)))
         | _ \<Rightarrow> Some (Ok None, h1))"

definition new_validity :: "int option \<Rightarrow> int \<Rightarrow> int option" where
  "new_validity left_over certValidity =
     (case left_over of
        None \<Rightarrow> Some certValidity
      | Some left \<Rightarrow> if left \<le> 60 * second_ns then Some (left + certValidity) else None)"

text \<open>What the elected leader does; a failed rotation ends the process.\<close>

definition lead_rotation :: "cert_world \<Rightarrow> cert_generator \<Rightarrow> int \<Rightarrow> unit rotation" where
  "lead_rotation w c certValidity =
     and_then (getCertValidity w c ''tls.crt'') (\<lambda>left_over.
     case new_validity left_over certValidity of
       None \<Rightarrow> finish_with (Ok ())
     | Some v \<Rightarrow> (\<lambda>h. case doCertRotation w c v h of
                      Some (Err x, h') \<Rightarrow> ask (\<lambda>_. Ok ()) ExitProcess h'
                    | r \<Rightarrow> r))"

text \<open>The validity asked for at the start, the period of the job and the validity its runs ask for.\<close>

definition accepted_validity :: "int \<Rightarrow> bool" where
  "accepted_validity v \<longleftrightarrow> 5 * 60 * second_ns \<le> v"

definition job_period :: "int \<Rightarrow> int" where
  "job_period v = v - 30 * second_ns"

definition job_validity :: "int \<Rightarrow> int" where
  "job_validity v = v + 30 * second_ns"

section \<open>What a rotation publishes\<close>

lemma and_then_Some:
  "and_then m f h = Some (Ok y, h'') \<longleftrightarrow> (\<exists>x h'. m h = Some (Ok x, h') \<and> f x h' = Some (Ok y, h''))"
  by (auto simp: and_then_def split: option.splits outcome.splits)

lemma wrapping_Some: "wrapping msg m h = Some (Ok y, h') \<longleftrightarrow> m h = Some (Ok y, h')"
  by (auto simp: wrapping_def split: option.splits outcome.splits)

lemma ask_Some: "ask f c h = Some (Ok x, h') \<longleftrightarrow> f (c # h) = Ok x \<and> h' = c # h"
  by (auto simp: ask_def)

lemma finish_Some: "finish_with r h = Some (Ok x, h') \<longleftrightarrow> r = Ok x \<and> h' = h"
  by (auto simp: finish_with_def)

lemmas rotation_simps = and_then_Some wrapping_Some ask_Some finish_Some


text \<open>When the wait ends well, the last file read is the new certificate.\<close>

lemma waited_for_certificate:
  assumes "waitForCertificateUpdate w p content h = Some (Ok (), h')"
  shows "(\<exists>certBytes. cw_file w h' = Ok certBytes \<and> cert_arrived w certBytes content)
     \<and> (\<exists>new. h' = new @ h \<and> set new \<subseteq> {WaitTwoSeconds, ReadCertFile p})"
proof -
  let ?P = "\<lambda>w p content h y. fst y = Ok () \<longrightarrow>
     (\<exists>certBytes. cw_file w (snd y) = Ok certBytes \<and> cert_arrived w certBytes content)
     \<and> (\<exists>new. snd y = new @ h \<and> set new \<subseteq> {WaitTwoSeconds, ReadCertFile p})"
  have "?P w p content h (Ok (), h')"
  proof (rule waitForCertificateUpdate.raw_induct [where P = ?P, OF _ assms])
    fix loop :: "cert_world \<Rightarrow> string \<Rightarrow> string \<Rightarrow> unit rotation" and w p content h and y :: "unit outcome \<times> cert_call list"
    assume IH: "\<And>w p content h y. loop w p content h = Some y \<Longrightarrow> ?P w p content h y"
      and body: "(case cw_file w (ReadCertFile p # h) of
         Ok certBytes \<Rightarrow> if cert_arrived w certBytes content then Some (Ok (), ReadCertFile p # h)
                         else loop w p content (WaitTwoSeconds # ReadCertFile p # h)
       | Err _ \<Rightarrow> Some (Err (ErrPlain ''unable to read certificate''), ReadCertFile p # h)
       | Panic \<Rightarrow> Some (Panic, ReadCertFile p # h)) = Some y"
    let ?h = "ReadCertFile p # h"
    show "?P w p content h y"
    proof (cases "cw_file w ?h")
      case (Ok certBytes)
      show ?thesis
      proof (cases "cert_arrived w certBytes content")
        case True
        with body Ok show ?thesis by auto
      next
        case False
        with body Ok have "loop w p content (WaitTwoSeconds # ?h) = Some y" by simp
        from IH [OF this] show ?thesis by auto
      qed
    qed (use body in auto)
  qed
  then show ?thesis by simp
qed

lemma secret_written:
  assumes "write_secret w c secret h = Some (Ok (), h')"
  shows "h' = UpdateSecretCall secret # GetSecretCall (cg_secret_namespace c) (cg_secret c) # h
    \<or> h' = CreateSecretCall secret # GetSecretCall (cg_secret_namespace c) (cg_secret c) # h"
  using assms by (auto simp: write_secret_def rotation_simps ask_def split: option.splits outcome.splits)

text \<open>
  The bundle of the webhooks is replaced last: it is then the root that the stored server certificate was
  signed with, and the pod has that certificate in its volume.
\<close>

lemma rotation_published:
  assumes "doCertRotation w c v h = Some (Ok (), h')"
  shows "\<exists>secret bundles seen certBytes.
    h' = UpdateWebhooks (cg_server c) bundles # GetWebhooks (cg_server c) # seen
    \<and> set bundles \<subseteq> {ts_ca secret}
    \<and> (UpdateSecretCall secret \<in> set seen \<or> CreateSecretCall secret \<in> set seen)
    \<and> cw_file w seen = Ok certBytes \<and> cert_arrived w certBytes (ts_cert secret)"
proof -
  obtain caCert serverCert serverKey h1 h2 where
      pub: "updateSecret w c serverCert serverKey caCert h1 = Some (Ok (), h2)"
    and hooks: "updateWebhookConfiguration w c caCert h2 = Some (Ok (), h')"
    using assms by (auto simp: doCertRotation_def and_then_Some split: prod.splits)
  let ?secret = "new_secret c serverCert serverKey caCert"
  obtain h3 where wr: "write_secret w c ?secret h1 = Some (Ok (), h3)"
    and wait: "waitForCertificateUpdate w (cert_path c ''tls.crt'') serverCert h3 = Some (Ok (), h2)"
    using pub by (auto simp: updateSecret_def rotation_simps)
  obtain certBytes new where seen: "cw_file w h2 = Ok certBytes" "cert_arrived w certBytes serverCert" "h2 = new @ h3"
    using waited_for_certificate [OF wait] by blast
  have "\<exists>webhooks :: string list. h' = UpdateWebhooks (cg_server c) (map (\<lambda>_. caCert) webhooks) # GetWebhooks (cg_server c) # h2"
    using hooks by (auto simp: updateWebhookConfiguration_def rotation_simps simp del: map_replicate_const)
  moreover have "UpdateSecretCall ?secret \<in> set h2 \<or> CreateSecretCall ?secret \<in> set h2"
    using secret_written [OF wr] seen(3) by auto
  ultimately show ?thesis
    using seen by (fastforce simp: new_secret_def intro!: exI [of _ ?secret])
qed

section \<open>The names of the server certificate\<close>

text \<open>
  With one webhook both names are there. With more, the long names of all but the last are overwritten and
  as many entries stay empty.
\<close>

lemma dns_names_one: "dns_names c [n] = [n @ ''.'' @ cg_namespace c @ ''.svc'', n @ ''.'' @ cg_namespace c @ ''.svc.'' @ cg_domain c]"
  by (simp add: dns_names_def numeral_2_eq_2)

lemma dns_names_two:
  "dns_names c [n, n'] =
     [n @ ''.'' @ cg_namespace c @ ''.svc'', n' @ ''.'' @ cg_namespace c @ ''.svc'',
      n' @ ''.'' @ cg_namespace c @ ''.svc.'' @ cg_domain c, '''']"
  by (simp add: dns_names_def numeral_eq_Suc)

section \<open>The schedule of the job\<close>

text \<open>
  The end of the validity after the \<open>k\<close>-th run of the job, counted from the first certificate, when every run
  starts on time and takes no time.
\<close>

fun expiry_after :: "int \<Rightarrow> nat \<Rightarrow> int" where
  "expiry_after v 0 = v"
| "expiry_after v (Suc k) =
     (let t = int (Suc k) * job_period v
      in case new_validity (Some (expiry_after v k - t)) (job_validity v) of
           None \<Rightarrow> expiry_after v k
         | Some validity \<Rightarrow> t + validity)"

lemmas schedule_defs = new_validity_def job_period_def job_validity_def second_ns_def

lemma expiry_first: "expiry_after v 1 = 2 * v + 30 * second_ns"
  by (simp add: schedule_defs)

text \<open>
  The second run finds a certificate that is good for another 90 seconds and leaves it, so it runs out long
  before the third; and the third asks for a validity from which the time since then is subtracted.
\<close>

lemma expiry_second: "accepted_validity v \<Longrightarrow> expiry_after v 2 = 2 * v + 30 * second_ns"
  by (simp add: schedule_defs accepted_validity_def numeral_2_eq_2)

lemma expiry_third: "accepted_validity v \<Longrightarrow> expiry_after v 3 = 3 * job_period v + 150 * second_ns"
  by (simp add: schedule_defs accepted_validity_def numeral_3_eq_3)

lemma certificate_runs_out:
  assumes "accepted_validity v"
  shows "2 * job_period v + 90 * second_ns = expiry_after v 2" "expiry_after v 2 < 3 * job_period v"
  using assms by (simp_all add: expiry_second schedule_defs accepted_validity_def)

end
