(* ===== verification/Ngctl.thy ===== *)
theory Ngctl
  imports Webhook
begin

text \<open>
  The command-line client (\<open>pkg/ngctl\<close>), as far as it decides something itself: which cluster a command is about
  (\<open>cmd/util/factory.go\<close>, \<open>cmd/use\<close>), what \<open>info\<close> and \<open>check\<close> report (\<open>cmd/info/clusterinfo.go\<close>, \<open>cmd/check\<close>), the
  selector of \<open>list\<close> and the pod of \<open>console\<close>. What the API server answers to the reads of a command is an
  argument; printing in columns and attaching a terminal are kubectl's.
\<close>

section \<open>Which cluster (factory.go, use.go)\<close>

datatype name_error = NotSpecified | OtherError go_err

record cluster_config =
  cf_namespace :: string
  cf_cluster :: string

text \<open>
  \<open>kubeNamespace\<close> is the namespace of the kubeconfig and whether it was enforced by a flag, \<open>flagName\<close> the flag
  \<open>--nebulacluster\<close>, \<open>loaded\<close> the configuration read from the file.
\<close>

definition GetNebulaClusterNamesAndNamespace ::
    "go_err + string \<times> bool \<Rightarrow> string \<Rightarrow> cluster_config outcome \<Rightarrow> bool \<Rightarrow> string list \<Rightarrow> string list \<times> string \<times> name_error option" where
  "GetNebulaClusterNamesAndNamespace kubeNamespace flagName loaded withUseConfig args =
     (case kubeNamespace of
        Inr (namespace, enforceNamespace) \<Rightarrow>
          if flagName \<noteq> '''' then ([flagName], namespace, None)
          else if args \<noteq> [] then (args, namespace, None)
          else if enforceNamespace \<or> \<not> withUseConfig then ([], namespace, Some NotSpecified)
          else (case loaded of
                  Ok c \<Rightarrow> ([cf_cluster c], cf_namespace c, None)
                | _ \<Rightarrow> ([], '''', Some NotSpecified))
      | Inl x \<Rightarrow> ([], '''', Some (OtherError x)))"

definition GetNebulaClusterNameAndNamespace ::
    "go_err + string \<times> bool \<Rightarrow> string \<Rightarrow> cluster_config outcome \<Rightarrow> bool \<Rightarrow> string list \<Rightarrow> string \<times> string \<times> name_error option" where
  "GetNebulaClusterNameAndNamespace kubeNamespace flagName loaded withUseConfig args =
     (case GetNebulaClusterNamesAndNamespace kubeNamespace flagName loaded withUseConfig args of
        (names, namespace, err) \<Rightarrow> ((case names of [] \<Rightarrow> '''' | n # _ \<Rightarrow> n), namespace, err))"

text \<open>\<open>use\<close> writes the cluster it has read into the configuration file.\<close>

definition use_Run :: "nebula_cluster outcome \<Rightarrow> cluster_config outcome" where
  "use_Run got = (case got of Ok nc \<Rightarrow> Ok \<lparr>cf_namespace = nc_ns nc, cf_cluster = nc_name nc\<rparr> | Err x \<Rightarrow> Err x | Panic \<Rightarrow> Panic)"

lemma used_cluster_is_found:
  assumes "use_Run (Ok nc) = Ok c"
  shows "GetNebulaClusterNameAndNamespace (Inr (ns, False)) '''' (Ok c) True [] = (nc_name nc, nc_ns nc, None)"
  using assms by (auto simp: use_Run_def GetNebulaClusterNameAndNamespace_def GetNebulaClusterNamesAndNamespace_def)

section \<open>The view of a cluster (clusterinfo.go)\<close>

record component_info =
  ci_type :: string
  ci_phase :: string
  ci_replicas :: int
  ci_ready :: int
  ci_cpu :: int
  ci_memory :: int
  ci_storage :: int
  ci_image :: string

record endpoints_info =
  ei_desc :: string
  ei_endpoints :: "string list"

record cluster_info =
  in_name :: string
  in_namespace :: string
  in_created :: int
  in_components :: "component_info list"
  in_service_type :: string
  in_port :: int
  in_endpoints :: "endpoints_info list"

text \<open>Of a service and its pods: the ingress points (host name, IP), the node ports by name, phase and host IP.\<close>

record service_view =
  vw_name :: string
  vw_namespace :: string
  vw_type :: string
  vw_cluster_ip :: string
  vw_ingress :: "(string \<times> string) list"
  vw_node_ports :: "(string \<times> int) list"

definition GetLogStorageResources :: "component_type \<Rightarrow> nebula_cluster \<Rightarrow> resource_requirements option" where
  "GetLogStorageResources t nc =
     map_option sc_resources
       (case t of
          GraphdComponentType \<Rightarrow> gd_log_claim (graphd_of nc)
        | MetadComponentType \<Rightarrow> md_log_claim (metad_of nc)
        | StoragedComponentType \<Rightarrow> sd_log_claim (storaged_of nc))"

text \<open>
  \<open>Storage()\<close> points to a copy of the entry of the map, so adding to it leaves the sum as it was: what counts
  is the first claim, and that all of them can be parsed.
\<close>

fun data_requests :: "storage_claim list \<Rightarrow> unit outcome" where
  "data_requests [] = Ok ()"
| "data_requests (c # cs) =
     (case parseStorageRequest (rq_requests (sc_resources c)) of Ok _ \<Rightarrow> data_requests cs | Err x \<Rightarrow> Err x | Panic \<Rightarrow> Panic)"

definition GetDataStorageResources :: "component_type \<Rightarrow> nebula_cluster \<Rightarrow> resource_requirements option outcome" where
  "GetDataStorageResources t nc =
     (case t of
        GraphdComponentType \<Rightarrow> Ok None
      | MetadComponentType \<Rightarrow> Ok (map_option sc_resources (md_data_claim (metad_of nc)))
      | StoragedComponentType \<Rightarrow>
          (case data_requests (data_claims nc) of
             Ok _ \<Rightarrow>
               (case data_claims nc of
                  [] \<Rightarrow> Ok (Some no_resources)
                | c # _ \<Rightarrow> (case parseStorageRequest (rq_requests (sc_resources c)) of
                              Ok r \<Rightarrow> Ok (Some r) | Err x \<Rightarrow> Err x | Panic \<Rightarrow> Panic))
           | Err x \<Rightarrow> Err x
           | Panic \<Rightarrow> Panic))"

definition request_of :: "string \<Rightarrow> resource_requirements \<Rightarrow> int" where
  "request_of k r = deref_or 0 (map_of (deref_or [] (rq_requests r)) k)"

definition setComponentInfo :: "component_type \<Rightarrow> nebula_cluster \<Rightarrow> component_info \<Rightarrow> component_info outcome" where
  "setComponentInfo t nc info =
     (case GetDataStorageResources t nc of
        Ok data \<Rightarrow>
          Ok (info\<lparr>ci_type := type_String t,
                  ci_cpu := (case ca_Resources t nc of None \<Rightarrow> ci_cpu info | Some r \<Rightarrow> request_of ''cpu'' r),
                  ci_memory := (case ca_Resources t nc of None \<Rightarrow> ci_memory info | Some r \<Rightarrow> request_of ''memory'' r),
                  ci_storage := (case GetLogStorageResources t nc of None \<Rightarrow> ci_storage info | Some r \<Rightarrow> request_of ''storage'' r)
                                + (case data of None \<Rightarrow> 0 | Some r \<Rightarrow> request_of ''storage'' r),
                  ci_image := ca_PodImage t nc\<rparr>)
      | Err x \<Rightarrow> Err x
      | Panic \<Rightarrow> Panic)"

text \<open>A component that has no workload status yet is a nil dereference.\<close>

definition component_view :: "component_type \<Rightarrow> nebula_cluster \<Rightarrow> component_info outcome" where
  "component_view t nc =
     (case GetWorkload t nc of
        None \<Rightarrow> Panic
      | Some w \<Rightarrow>
          setComponentInfo t nc
            \<lparr>ci_type = '''', ci_phase = show_phase (GetPhase t nc), ci_replicas = ws_replicas w, ci_ready = ws_ready w,
             ci_cpu = 0, ci_memory = 0, ci_storage = 0, ci_image = ''''\<rparr>)"

definition host_port :: "string \<Rightarrow> int \<Rightarrow> string" where
  "host_port h p = h @ '':'' @ show_int p"

text \<open>Each ingress point replaces what the one before it gave.\<close>

definition load_balancer_endpoints :: "int \<Rightarrow> (string \<times> string) list \<Rightarrow> string list" where
  "load_balancer_endpoints port ingress =
     (let eps = fold (\<lambda>(hostname, ip) eps.
                  let eps = (if hostname \<noteq> '''' then [host_port hostname port] else eps)
                  in if ip \<noteq> '''' then [host_port ip port] else eps) ingress []
      in if eps = [] then [''Pending''] else eps)"

definition appendEndpointsLoadBalancer :: "service_view \<Rightarrow> cluster_info \<Rightarrow> cluster_info" where
  "appendEndpointsLoadBalancer s i =
     (if vw_type s \<noteq> ''LoadBalancer'' then i
      else i\<lparr>in_endpoints := in_endpoints i @
             [\<lparr>ei_desc = ''Outer kubernetes: LoadBalance'', ei_endpoints = load_balancer_endpoints (in_port i) (vw_ingress s)\<rparr>]\<rparr>)"

definition node_port_endpoints :: "service_view \<Rightarrow> (string \<times> string) list \<Rightarrow> string list" where
  "node_port_endpoints s pods =
     (let nodePort = deref_or 0 (map_of (vw_node_ports s) ''thrift'')
      in if nodePort = 0 then [''No suitable port'']
         else let eps = map (\<lambda>(phase, hostIP). host_port hostIP nodePort) (filter (\<lambda>(phase, _). phase = ''Running'') pods)
              in if eps = [] then [''No running pod''] else eps)"

definition appendEndpointsNodePort :: "service_view \<Rightarrow> (string \<times> string) list \<Rightarrow> cluster_info \<Rightarrow> cluster_info" where
  "appendEndpointsNodePort s pods i =
     (if vw_type s \<noteq> ''NodePort'' then i
      else i\<lparr>in_endpoints := in_endpoints i @
             [\<lparr>ei_desc = ''Outer kubernetes: NodePort'', ei_endpoints = node_port_endpoints s pods\<rparr>]\<rparr>)"

definition appendEndpointsService :: "service_view \<Rightarrow> cluster_info \<Rightarrow> cluster_info" where
  "appendEndpointsService s i =
     i\<lparr>in_endpoints := in_endpoints i @
        [\<lparr>ei_desc = ''Inter kubernetes: Service'',
          ei_endpoints = [host_port (vw_name s @ ''.'' @ vw_namespace s @ ''.svc'') (in_port i)]\<rparr>]\<rparr>"

definition appendEndpointsClusterIP :: "service_view \<Rightarrow> cluster_info \<Rightarrow> cluster_info" where
  "appendEndpointsClusterIP s i =
     (if vw_cluster_ip s = '''' then i
      else i\<lparr>in_endpoints := in_endpoints i @
             [\<lparr>ei_desc = ''Inter kubernetes: ClusterIP'', ei_endpoints = [host_port (vw_cluster_ip s) (in_port i)]\<rparr>]\<rparr>)"

text \<open>
  The reads come one after the other: the cluster, the service of the name that \<open>svcName\<close> gives, the graphd pods
  (phase and host IP of each).
\<close>

definition info_service_name :: "nebula_cluster \<Rightarrow> string" where
  "info_service_name nc = getServiceName (comp_GetName GraphdComponentType nc) True"

definition NewNebulaClusterInfo ::
    "string \<Rightarrow> string \<Rightarrow> nebula_cluster outcome \<Rightarrow> (string \<Rightarrow> service_view outcome) \<Rightarrow> (string \<times> string) list outcome
      \<Rightarrow> cluster_info outcome" where
  "NewNebulaClusterInfo clusterName namespace got services pods =
     (case got of
        Ok nc \<Rightarrow>
          (case services (info_service_name nc) of
             Ok svc \<Rightarrow>
               (case pods of
                  Ok ps \<Rightarrow>
                    (case (component_view GraphdComponentType nc, component_view MetadComponentType nc,
                           component_view StoragedComponentType nc) of
                       (Ok g, Ok m, Ok s) \<Rightarrow>
                         Ok (appendEndpointsClusterIP svc (appendEndpointsService svc (appendEndpointsNodePort svc ps
                              (appendEndpointsLoadBalancer svc
                                \<lparr>in_name = clusterName, in_namespace = namespace, in_created = om_created (nc_meta nc),
                                 in_components = [g, m, s], in_service_type = vw_type svc,
                                 in_port = comp_GetPort GraphdComponentType nc ''thrift'', in_endpoints = []\<rparr>))))
                     | (Ok _, Ok _, Err x) \<Rightarrow> Err x
                     | (Ok _, Err x, _) \<Rightarrow> Err x
                     | (Err x, _) \<Rightarrow> Err x
                     | _ \<Rightarrow> Panic)
                | Err x \<Rightarrow> Err x | Panic \<Rightarrow> Panic)
           | Err x \<Rightarrow> Err x | Panic \<Rightarrow> Panic)
      | Err x \<Rightarrow> Err x | Panic \<Rightarrow> Panic)"

text \<open>The service that is looked at is the headless one, which has no port outside the cluster.\<close>

definition headless_view :: "nebula_cluster \<Rightarrow> service_view" where
  "headless_view nc =
     \<lparr>vw_name = info_service_name nc, vw_namespace = nc_ns nc, vw_type = ''ClusterIP'', vw_cluster_ip = ''None'',
      vw_ingress = [], vw_node_ports = []\<rparr>"

lemma info_only_inside:
  assumes "NewNebulaClusterInfo name ns (Ok nc) (\<lambda>_. Ok (headless_view nc)) pods = Ok i"
  shows "map ei_desc (in_endpoints i) = [''Inter kubernetes: Service'', ''Inter kubernetes: ClusterIP'']
    \<and> ei_endpoints (List.last (in_endpoints i)) = [host_port ''None'' (in_port i)]"
  using assms
  by (auto simp: NewNebulaClusterInfo_def appendEndpointsLoadBalancer_def appendEndpointsNodePort_def
        appendEndpointsClusterIP_def appendEndpointsService_def headless_view_def split: outcome.splits prod.splits)

section \<open>Checks (check.go)\<close>

definition CheckNebulaCluster :: "nebula_cluster outcome \<Rightarrow> string outcome" where
  "CheckNebulaCluster got =
     (case got of
        Ok nc \<Rightarrow>
          (case filter (\<lambda>c. cc_type c = ''Ready'') (cl_conditions (nc_status nc)) of
             [] \<Rightarrow> Ok ''''
           | c # _ \<Rightarrow> Ok (cc_message c))
      | Err x \<Rightarrow> Err x
      | Panic \<Rightarrow> Panic)"

text \<open>Of a pod: name, phase and its conditions (type, status, message). The table is the list of its rows.\<close>

record pod_view =
  py_name :: string
  py_phase :: string
  py_conditions :: "(string \<times> string \<times> string) list"

definition trouble_rows :: "pod_view \<Rightarrow> (string \<times> string \<times> string \<times> string) list" where
  "trouble_rows p =
     (if py_phase p = ''Running'' then []
      else map (\<lambda>(t, _, m). (py_name p, py_phase p, t, m)) (filter (\<lambda>(_, s, _). s \<noteq> ''True'') (py_conditions p)))"

datatype pods_report = AllRunning | Troubles "(string \<times> string \<times> string \<times> string) list"

definition CheckPods :: "pod_view list outcome \<Rightarrow> pods_report outcome" where
  "CheckPods got =
     (case got of
        Ok pods \<Rightarrow>
          Ok (if list_all (\<lambda>p. py_phase p = ''Running'') pods then AllRunning else Troubles (concat (map trouble_rows pods)))
      | Err x \<Rightarrow> Err x
      | Panic \<Rightarrow> Panic)"

lemma CheckPods_complete:
  assumes "CheckPods (Ok pods) = Ok (Troubles rows)"
  shows "(\<exists>p\<in>set pods. py_phase p \<noteq> ''Running'')
    \<and> ((n, ph, t, m) \<in> set rows \<longleftrightarrow>
        (\<exists>p s. p \<in> set pods \<and> n = py_name p \<and> ph = py_phase p \<and> ph \<noteq> ''Running''
             \<and> (t, s, m) \<in> set (py_conditions p) \<and> s \<noteq> ''True''))"
proof -
  have "\<not> list_all (\<lambda>p. py_phase p = ''Running'') pods" "rows = concat (map trouble_rows pods)"
    using assms by (auto simp: CheckPods_def split: if_splits)
  then show ?thesis
    by (auto simp: trouble_rows_def list_all_iff split: if_splits) force+
qed

section \<open>The pod of a console (console.go)\<close>

record console_options =
  co_cluster :: string
  co_namespace :: string
  co_image :: string
  co_pull_policy :: string
  co_user :: string
  co_password :: string

definition console_Validate :: "console_options \<Rightarrow> unit outcome" where
  "console_Validate o1 =
     (if co_cluster o1 = '''' then Err (ErrPlain ''usage'')
      else if co_pull_policy o1 \<notin> {''Always'', ''IfNotPresent'', ''Never'', ''''} then Err (ErrPlain ''invalid image pull policy'')
      else if co_user o1 = '''' then Err (ErrPlain ''the NebulaGraph login user name cannot be empty'')
      else if co_password o1 = '''' then Err (ErrPlain ''the NebulaGraph login password cannot be empty'')
      else Ok ())"

record console_pod =
  cq_generate_name :: string
  cq_namespace :: string
  cq_labels :: strmap
  cq_image :: string
  cq_pull_policy :: string
  cq_command :: "string list"

definition generateConsolePod :: "console_options \<Rightarrow> nebula_cluster outcome \<Rightarrow> console_pod outcome" where
  "generateConsolePod o1 got =
     (case got of
        Ok nc \<Rightarrow>
          Ok \<lparr>cq_generate_name = ''console-'' @ co_cluster o1 @ ''-'', cq_namespace = co_namespace o1,
              cq_labels = [(''app.kubernetes.io/cluster'', nc_name nc), (''app.kubernetes.io/component'', ''console''),
                           (''app.kubernetes.io/managed-by'', ''ngctl'')],
              cq_image = co_image o1, cq_pull_policy = co_pull_policy o1,
              cq_command = [''nebula-console'', ''-u'', co_user o1, ''-p'', co_password o1,
                            ''--addr'', getServiceName (comp_GetName GraphdComponentType nc) False,
                            ''--port'', show_int (comp_GetPort GraphdComponentType nc ''thrift'')]\<rparr>
      | Err x \<Rightarrow> Err x
      | Panic \<Rightarrow> Panic)"

section \<open>The selector of a list (list.go)\<close>

record list_options =
  li_cluster :: string
  li_cluster_label :: string
  li_resource :: string
  li_selector :: string

text \<open>\<open>named\<close> is what the factory says about the cluster.\<close>

definition list_Complete :: "string \<times> string \<times> name_error option \<Rightarrow> string list \<Rightarrow> string \<Rightarrow> list_options outcome" where
  "list_Complete named args selector =
     (case named of
        (_, _, Some (OtherError x)) \<Rightarrow> Err x
      | (cluster, _, _) \<Rightarrow>
          Ok (case args of
                r # _ \<Rightarrow> \<lparr>li_cluster = cluster, li_cluster_label = ''app.kubernetes.io/cluster='' @ cluster, li_resource = r, li_selector = selector\<rparr>
              | [] \<Rightarrow> \<lparr>li_cluster = cluster, li_cluster_label = '''', li_resource = ''nebulacluster'', li_selector = selector\<rparr>))"

definition list_Validate :: "list_options \<Rightarrow> unit outcome" where
  "list_Validate l =
     (if li_cluster l = '''' \<and> li_resource l \<noteq> ''nebulacluster'' then Err (ErrPlain ''usage'') else Ok ())"

definition list_selector :: "list_options \<Rightarrow> string" where
  "list_selector l =
     (if li_selector l = '''' then li_cluster_label l else li_selector l @ '','' @ li_cluster_label l)"

text \<open>A selector given for the clusters themselves ends in a comma with nothing behind it.\<close>

lemma list_selector_clusters:
  assumes "list_Complete named [] selector = Ok l" "selector \<noteq> ''''"
  shows "list_selector l = selector @ '',''"
  using assms by (auto simp: list_Complete_def list_selector_def split: prod.splits option.splits name_error.splits)

section \<open>The container to attach to (executor.go)\<close>

text \<open>Containers by name: the plain ones, the init containers and the ephemeral ones, in this order.\<close>

definition getContainer :: "string list \<Rightarrow> string list \<Rightarrow> string list \<Rightarrow> string \<Rightarrow> string outcome" where
  "getContainer containers inits ephemerals containerName =
     (if containerName \<noteq> '''' then
        (if containerName \<in> set (containers @ inits @ ephemerals) then Ok containerName
         else Err (ErrPlain ''container not found''))
      else (case containers of [] \<Rightarrow> Panic | c # _ \<Rightarrow> Ok c))"

text \<open>The statuses are searched in another order: init containers first.\<close>

definition getContainerStatus ::
    "(string \<times> 's) list \<Rightarrow> (string \<times> 's) list \<Rightarrow> (string \<times> 's) list \<Rightarrow> string \<Rightarrow> 's option" where
  "getContainerStatus inits containers ephemerals containerName = map_of (inits @ containers @ ephemerals) containerName"

end
