(* ===== verification/Spec2Isabelle.thy ===== *)
theory Spec2Isabelle
  imports Prelude GoFloat AutoscalerCore AutoscalerSpec AutoscalerRate ClusterTypes Components
    SampleCluster Workload WorkloadSpec AutoscalerTypes KubeEnv KubeClient AutoscalerReconcile
    AutoscalerSafety NodeZone ClusterState MetaClient Extender ConfigFile ComponentHelper StoragedScaler
    Updaters Failover Controllers ControllersSafety BackupTypes RestoreTypes Histories Reclaimer Satellites
    ClusterControl Backup CronBackup RestoreTools Restore RestoreSafety Webhook Provisioner CertRotation Ngctl
begin

text \<open>
  A verification development for nebula-operator, the Kubernetes operator of the graph database NebulaGraph.

  \<^bold>\<open>The program.\<close> A user describes a cluster in a NebulaCluster object: three services, graphd (queries), metad
  (metadata) and storaged (data), each with a number of replicas. The operator is a set of controllers. Each takes
  a key from its work queue, reads the object, compares it with what the API server and the meta service report,
  makes the next requests and returns; on an error or when it has to wait the key is queued again. So every step
  must be safe in any state of the world, may stop anywhere, and is run again and again. Around the cluster
  controller stand the autoscaler (graphd replicas from metrics), backups, cron backups and restores, a scheduler
  plugin, a provisioner of local volumes, and the admission webhooks with their certificates.

  \<^bold>\<open>Conventions.\<close>
  \<^item> A Go call returns a value, an error or panics: the type \<open>outcome\<close> of \<open>Prelude\<close>. A nil dereference, a failed type
    assertion and an index out of range are \<open>Panic\<close>. Operations with effects are in the state monad over outcomes;
    \<open>wp\<close> is their total-correctness calculus.
  \<^item> The world is a record of functions (\<open>env\<close> of \<open>KubeEnv\<close>; the provisioner, the webhooks and the certificates
    have small ones of their own). A request or a reading of the clock is put in front of the list of all calls made,
    and the answer is a function of that list. Nothing is assumed of the answers, so a theorem about all worlds covers
    failures, conflicts, concurrent writers and stale reads between any two calls. Where a property needs the world
    to behave, that is a hypothesis, and a witness shows it can hold.
  \<^item> A component controller also mutates one NebulaCluster in memory: \<open>ClusterState\<close> is the monad over the calls and
    that object. What is written to it survives an error, as in the code.
  \<^item> Structs are records, enumerations datatypes, pointers options, string maps association lists. Go visits a map in
    any order; the model visits it in the order of its list, and the theorems hold for every list. Replica counts of
    the autoscaler are 32-bit with wrap-around, and its percentages are \<open>float64\<close> (\<open>GoFloat\<close>). Times are nanoseconds.
  \<^item> The workers of a group (\<open>pkg/util/async\<close>) run one after the other. A group with no room for a worker never ends,
    which is shown as a panic. Log lines and events are left out, an error text is kept as its format. A label
    selector is validated inside the request that uses it. Certificates and time-outs of the meta client belong to
    connecting.

  \<^bold>\<open>The theories.\<close>
  \<^item> Foundations: \<open>Prelude\<close> (outcomes, \<open>wp\<close>, integers, decimals), \<open>GoFloat\<close>, \<open>KubeEnv\<close> (objects, calls, world, the
    judgement \<open>emits\<close>), \<open>Histories\<close> (facts about the calls of a run), \<open>ClusterState\<close> (the judgement \<open>does\<close> and the
    locale \<open>step_relation\<close>: what every step keeps, every run keeps), \<open>SampleCluster\<close> (concrete objects).
  \<^item> The cluster object: \<open>ClusterTypes\<close> and \<open>Components\<close> (\<open>apis/apps/v1alpha1/nebulacluster*.go\<close>, \<open>label.go\<close>); the
    locale \<open>component_status_store\<close> is the interface of a component to its part of the status. \<open>Workload\<close> and
    \<open>WorkloadSpec\<close> (\<open>nebulacluster_common.go\<close>): the generated StatefulSet, services and config map, and that its
    mounts, volumes and claims fit together.
  \<^item> Clients: \<open>KubeClient\<close> (\<open>pkg/kube\<close>; the locale \<open>optimistic_update\<close> is read, change, write, again on a conflict, and is
    interpreted on every such client), \<open>MetaClient\<close> (\<open>pkg/nebula\<close>), \<open>Extender\<close> (\<open>pkg/util/extender\<close>, \<open>maputil\<close>: what
    counts as a change of a workload and that updating it settles), \<open>ConfigFile\<close> (\<open>pkg/util/config\<close>).
  \<^item> The cluster controller (\<open>pkg/controller/component\<close>, \<open>nebulacluster\<close>): \<open>ComponentHelper\<close> (\<open>helper.go\<close>: volumes,
    dynamic flags, order of a rolling update, suspension), \<open>StoragedScaler\<close>, \<open>Updaters\<close>, \<open>Failover\<close>, \<open>Controllers\<close>
    with \<open>ControllersSafety\<close> (the controllers of graphd, metad and storaged), \<open>Reclaimer\<close>, \<open>Satellites\<close> (exporter,
    console, access rights, finalizer) and \<open>ClusterControl\<close>, where one reconciliation is put together: metad, storaged,
    graphd, exporter, console, reclaiming, status.
  \<^item> The autoscaler (\<open>pkg/controller/autoscaler\<close>, \<open>apis/autoscaling\<close>): \<open>AutoscalerTypes\<close>, \<open>AutoscalerCore\<close> (stabilisation,
    rates, normalisation), \<open>AutoscalerSpec\<close> and \<open>AutoscalerRate\<close> (the bounded sample lists refine the log of everything
    ever recorded: the locale \<open>sample_history\<close>; the limits are exact), \<open>AutoscalerReconcile\<close> and
    \<open>AutoscalerSafety\<close> (the whole controller, and what it may write).
  \<^item> Backup and restore: \<open>BackupTypes\<close>, \<open>Backup\<close>, \<open>CronBackup\<close>, \<open>RestoreTypes\<close>, \<open>RestoreTools\<close>, \<open>Restore\<close>, and
    \<open>RestoreSafety\<close>, where every call of a restore is shown to come after what it needs.
  \<^item> Apart from these: \<open>NodeZone\<close> (\<open>pkg/scheduler/nodezone\<close>), \<open>Webhook\<close> (\<open>pkg/webhook\<close>: admission, and what holds of
    every cluster in a history of admitted requests), \<open>Provisioner\<close> (\<open>pkg/controller/provisioner\<close>; the locale
    \<open>pv_store\<close> is the cache as its populator uses it), \<open>CertRotation\<close> (\<open>pkg/cert-rotation\<close>) and \<open>Ngctl\<close>
    (\<open>pkg/ngctl\<close>: what the commands report and which cluster they are about).
  \<^item> This theory puts two of them together: what the autoscaler writes, the webhook of the cluster admits.

  \<^bold>\<open>What is shown.\<close> For the controllers mostly safety over all worlds: a judgement on the calls of a run, proved along
  the structure of the code. Its form is that a dangerous call (dropping a host, deleting a claim, replacing a
  storage pod, adding pods, removing a finalizer, releasing a restored cluster) is made only after earlier calls of
  the same run were answered in a way that permits it. Liveness where the code promises it: failover is completed, a
  reconciliation that reports success leaves nothing to do. For the pure parts: functional behaviour, refinement of
  an unbounded log by the bounded data the code keeps, round trips, exact limits, well-formedness of admitted
  clusters. Not every lemma is good news: some show a run in which the code does not do what it means to.

  \<^bold>\<open>Bounds.\<close> All operations are total. \<open>e_steps\<close> is the number of attempts of a retry on a conflict (4 in the
  library's default; the theorems hold for every number). \<open>r_stack\<close> is the depth to which the stack allows the chain of
  base backups to be followed; beyond it Go dies, here \<open>Panic\<close>. A helper pod of the provisioner is polled 30 times, as
  in the code. \<open>GoFloat\<close> looks for an exponent among 128, more than the range of the numbers that occur. Two loops of
  the code may run for ever and are partial functions: the search of a cron schedule for its last time
  (\<open>last_until\<close>; for a regular schedule it is shown to end) and the wait for a new certificate.

  \<^bold>\<open>Not modelled.\<close> Generated code (deep copies, registration with the scheme) and constants in template files; the
  commands under \<open>cmd\<close> and the flag packages, which parse options and wire the parts together; the constructors
  \<open>New...\<close> and \<open>SetupWithManager\<close>; of the command-line client \<open>pkg/ngctl\<close> the flags, the printing of tables and the
  attaching of a terminal, which are kubectl's (what its commands decide is in \<open>Ngctl\<close>);
  \<open>pkg/kube/ingress.go\<close>, \<open>DeleteService\<close>, \<open>DeleteConfigMap\<close>, \<open>RemovePart\<close>, \<open>GetLeaderParts\<close> and the fakes, which
  nothing calls; discovery, leader election, TLS and the thrift transport,
  which are calls into libraries; and the test suites. Libraries (client-go, controller-runtime, robfig/cron, the
  replica calculator of Kubernetes, the agent and storage clients, X.509) are parameters everywhere.
\<close>

section \<open>The autoscaler and the webhook\<close>

lemma well_sized_HA: "well_sized nc \<Longrightarrow> \<exists>b. IsNebulaClusterHA nc = Ok b"
  by (auto simp: well_sized_def IsNebulaClusterHA_def Let_def at_least_iff with_replicas_def split: option.splits)

lemma set_graphd_replicas_fields [simp]:
  "graphd_replicas (set_graphd_replicas n nc) = Some n"
  "metad_replicas (set_graphd_replicas n nc) = metad_replicas nc"
  "storaged_replicas (set_graphd_replicas n nc) = storaged_replicas nc"
  "data_claims (set_graphd_replicas n nc) = data_claims nc"
  "annotations_of (set_graphd_replicas n nc) = annotations_of nc"
  by (simp_all add: set_graphd_replicas_def)

lemma well_sized_cong:
  assumes "nc_spec nc' = nc_spec nc" "annotations_of nc' = annotations_of nc"
  shows "well_sized nc' = well_sized nc" "IsNebulaClusterHA nc' = IsNebulaClusterHA nc"
  using assms by (simp_all add: well_sized_def IsNebulaClusterHA_def cong: if_cong)

text \<open>Replacing the number of graphd replicas alone is admitted exactly when the number suits the mode.\<close>

lemma rescaled_update_admitted:
  assumes "documented_checks lib" and "well_sized nc"
    and old: "nc_spec old = nc_spec nc" "annotations_of old = annotations_of nc" "scaling_forbids old = []"
    and new: "nc_spec nc' = nc_spec (set_graphd_replicas n nc)" "annotations_of nc' = annotations_of nc"
    and meta: "lc_meta_update lib (nc_meta nc') (nc_meta old) = []"
  shows "nebulacluster_Handle lib (update_request nc' old) = Ok Allowed \<longleftrightarrow>
     (if IsInHaMode (annotations_of nc) then 2 else 1) \<le> n"
proof -
  have "well_sized nc' \<longleftrightarrow> well_sized (set_graphd_replicas n nc)"
    using new by (intro well_sized_cong) simp_all
  also have "\<dots> \<longleftrightarrow> (if IsInHaMode (annotations_of nc) then 2 else 1) \<le> n"
    using assms(2) by (simp add: well_sized_def Let_def at_least_def)
  finally have sized: "well_sized nc' \<longleftrightarrow> (if IsInHaMode (annotations_of nc) then 2 else 1) \<le> n" .
  obtain b where ha: "IsNebulaClusterHA old = Ok b"
    using well_sized_HA [of old] well_sized_cong(1) [OF old(1,2)] assms(2) by blast
  have same: "metad_replicas nc' = metad_replicas old" "storaged_replicas nc' = storaged_replicas old"
      "data_claims nc' = data_claims old"
    using new(1) old(1) by (simp_all add: set_graphd_replicas_def)
  have "replicas_forbids nc' old = Ok []"
    using assms(2) old(1) by (auto simp: replicas_forbids_def same with_replicas_def well_sized_def Let_def at_least_iff split: option.splits)
  then show ?thesis
    using assms(1) old(2,3) new(2) meta sized ha
    by (cases b) (simp_all add: admitted_update same documented_checks_def)
qed

text \<open>
  Claim C3. The autoscaler and the webhook agree: when the cluster the autoscaler has read is well formed and its
  minimum is at least what the mode of the cluster asks of graphd, every update the autoscaler sends is admitted,
  as long as storaged is not being scaled and nobody has changed the specification or the annotations meanwhile.
\<close>

theorem autoscaled_updates_admitted:
  assumes run: "run_state (reconcileAutoscaler e cvt key c a) h = (r, new @ h)"
    and bounds: "0 \<le> deref_or 1 (hp_min a)" "deref_or 1 (hp_min a) \<le> hp_max a" "hp_max a < 2 ^ 30"
    and sent: "UpdateCluster nc' \<in> set new"
    and read: "e_cluster e (GetCluster (om_namespace (hp_meta a)) (hp_cluster a) # h) = Ok nc" "well_sized nc"
    and mode: "(if IsInHaMode (annotations_of nc) then 2 else 1) \<le> deref_or 1 (hp_min a)"
    and old: "nc_spec old = nc_spec nc" "annotations_of old = annotations_of nc" "scaling_forbids old = []"
    and lib: "documented_checks lib" "lc_meta_update lib (nc_meta nc') (nc_meta old) = []"
  shows "nebulacluster_Handle lib (update_request nc' old) = Ok Allowed"
proof -
  obtain n where n: "nc_spec nc' = nc_spec (set_graphd_replicas n nc)" "annotations_of nc' = annotations_of nc"
      "deref_or 1 (hp_min a) \<le> n"
    using reconcile_writes [OF run bounds sent] read(1) by auto
  from rescaled_update_admitted [OF lib(1) read(2) old n(1,2) lib(2)] mode n(3) show ?thesis by auto
qed

theorem autoscaled_updates_admitted_witness:
  "\<exists>nc'. UpdateCluster nc' \<in> set (snd sample_run)
     \<and> nebulacluster_Handle plain_checks (update_request nc' (sample_cluster 5 3)) = Ok Allowed"
proof -
  obtain nc' where w: "UpdateCluster nc' \<in> set (snd sample_run)"
    using sample_run_writes by (auto simp: list_ex_iff no_write_iff)
  let ?nc = "sample_cluster 5 3" and ?a = "sample_autoscaler 1 3"
  have run: "sample_run = (fst sample_run, snd sample_run @ [])" by simp
  have min: "deref_or 1 (hp_min ?a) = 1" "hp_max ?a = 3" by (simp_all add: sample_autoscaler_def)
  have nc: "well_sized ?nc" "scaling_forbids ?nc = []" "\<not> IsInHaMode (annotations_of ?nc)" by code_simp+
  have read: "e_cluster (sample_world ?nc (Err ErrNotFound)) (GetCluster (om_namespace (hp_meta ?a)) (hp_cluster ?a) # []) = Ok ?nc"
    by (simp add: sample_world_def)
  have lib: "lc_meta_update plain_checks (nc_meta nc') (nc_meta ?nc) = []" by (simp add: plain_checks_def)
  have "nebulacluster_Handle plain_checks (update_request nc' ?nc) = Ok Allowed"
    by (rule autoscaled_updates_admitted [OF run _ _ _ w read nc(1) _ refl refl nc(2) plain_checks_documented lib])
      (simp_all add: min nc(3))
  with w show ?thesis by blast
qed

text \<open>With a smaller minimum the autoscaler and the mode contradict each other: such an update is refused.\<close>

lemma too_small_for_HA_refused:
  assumes "documented_checks lib" "well_sized nc" "IsInHaMode (annotations_of nc)" "n < 2"
    and "nc_spec nc' = nc_spec (set_graphd_replicas n nc)" "annotations_of nc' = annotations_of nc"
  shows "nebulacluster_Handle lib (update_request nc' old) \<noteq> Ok Allowed"
proof -
  have "well_sized nc' = well_sized (set_graphd_replicas n nc)"
    using assms(5,6) by (intro well_sized_cong) simp_all
  then show ?thesis
    using assms(3,4) by (simp add: admitted_update well_sized_def Let_def at_least_def)
qed

end
